(* ===== verification/Prelude.thy ===== *)
theory Prelude
  imports Main "HOL-Library.Product_Lexorder"
begin

text \<open>
  Shared vocabulary of the development: fixed-width unsigned arithmetic written out on
  \<open>nat\<close>, the string operations of Rust's standard library that the code uses, an ordered
  map in the style of \<open>BTreeMap\<close>, and the collections of proof hints the component
  theories fill.

  Conventions. A \<open>u64\<close>, \<open>u32\<close> or \<open>usize\<close> is a \<open>nat\<close>, and every
  operation that can reach the width writes out what the source does there (\<open>saturating_add\<close>,
  \<open>wrapping_add\<close>, or the plain \<open>+\<close> of a release build, which wraps). Byte-exact
  arithmetic of the cryptographic layer uses \<open>64 word\<close> instead. A Rust \<open>String\<close> is a
  \<open>string\<close> whose characters are the code points U+0000 to U+00FF. An \<open>Instant\<close> or a
  \<open>Duration\<close> is a \<open>nat\<close> number of nanoseconds; \<open>duration_since\<close> of an earlier
  instant saturates at zero, as subtraction on \<open>nat\<close> does.
\<close>

named_theorems bounds_intro \<open>introduction rules for numeric bounds\<close>
named_theorems wf_intro \<open>introduction rules: an operation keeps a well-formedness predicate\<close>
named_theorems frame_simps \<open>equations: an operation leaves a component of the state alone\<close>

section \<open>Unsigned integers of fixed width\<close>

definition u16_max :: nat where "u16_max = 2 ^ 16 - 1"
definition u32_max :: nat where "u32_max = 2 ^ 32 - 1"
definition u64_max :: nat where "u64_max = 2 ^ 64 - 1"
definition u128_max :: nat where "u128_max = 2 ^ 128 - 1"

text \<open>The code is built for 64-bit targets.\<close>

abbreviation usize_max :: nat where "usize_max \<equiv> u64_max"

definition sat_add :: "nat \<Rightarrow> nat \<Rightarrow> nat \<Rightarrow> nat" where
  "sat_add m a b = min (a + b) m"

abbreviation sat_add64 :: "nat \<Rightarrow> nat \<Rightarrow> nat" where "sat_add64 \<equiv> sat_add u64_max"
abbreviation sat_add32 :: "nat \<Rightarrow> nat \<Rightarrow> nat" where "sat_add32 \<equiv> sat_add u32_max"
abbreviation sat_add128 :: "nat \<Rightarrow> nat \<Rightarrow> nat" where "sat_add128 \<equiv> sat_add u128_max"

definition wrap_add64 :: "nat \<Rightarrow> nat \<Rightarrow> nat" where
  "wrap_add64 a b = (a + b) mod 2 ^ 64"

definition wrap_add32 :: "nat \<Rightarrow> nat \<Rightarrow> nat" where
  "wrap_add32 a b = (a + b) mod 2 ^ 32"

lemma sat_add_le [bounds_intro]: "sat_add m a b \<le> m"
  by (simp add: sat_add_def)

lemma sat_add_ge: "a \<le> m \<Longrightarrow> a \<le> sat_add m a b"
  by (simp add: sat_add_def)

lemma sat_add_eq: "a + b \<le> m \<Longrightarrow> sat_add m a b = a + b"
  by (simp add: sat_add_def)

lemma u64_max_pos [simp]: "0 < u64_max"
  by (simp add: u64_max_def)

lemma wrap_add64_eq: "a + b \<le> u64_max \<Longrightarrow> wrap_add64 a b = a + b"
  by (simp add: wrap_add64_def u64_max_def)

lemma wrap_add64_Suc: "a < u64_max \<Longrightarrow> wrap_add64 a 1 = Suc a"
  by (simp add: wrap_add64_eq)

lemma wrap_add64_less [bounds_intro]: "wrap_add64 a b < 2 ^ 64"
  by (simp add: wrap_add64_def)

lemma wrap_add32_eq: "a + b \<le> u32_max \<Longrightarrow> wrap_add32 a b = a + b"
  by (simp add: wrap_add32_def u32_max_def)

section \<open>Results\<close>

text \<open>
  A \<open>Result\<close> is a sum with the error on the left. Errors built by \<open>anyhow!\<close> are
  their message.
\<close>

type_synonym 'a result = "string + 'a"

definition is_ok :: "'e + 'a \<Rightarrow> bool" where
  "is_ok r = (case r of Inl _ \<Rightarrow> False | Inr _ \<Rightarrow> True)"

definition result_bind :: "'e + 'a \<Rightarrow> ('a \<Rightarrow> 'e + 'b) \<Rightarrow> 'e + 'b" where
  "result_bind r f = (case r of Inl e \<Rightarrow> Inl e | Inr a \<Rightarrow> f a)"

lemma result_bind_simps [simp]:
  "result_bind (Inl e) f = Inl e"
  "result_bind (Inr a) f = f a"
  by (simp_all add: result_bind_def)

lemma result_bind_Inr_iff: "result_bind r f = Inr b \<longleftrightarrow> (\<exists>a. r = Inr a \<and> f a = Inr b)"
  by (cases r) auto

lemma is_ok_simps [simp]: "is_ok (Inr a)" "\<not> is_ok (Inl e)"
  by (simp_all add: is_ok_def)

section \<open>Strings\<close>

text \<open>
  \<open>char::is_whitespace\<close> below U+0100: tab to carriage return, space, U+0085 and U+00A0.
\<close>

definition is_whitespace :: "char \<Rightarrow> bool" where
  "is_whitespace c =
     (let n = (of_char c :: nat) in (9 \<le> n \<and> n \<le> 13) \<or> n = 32 \<or> n = 133 \<or> n = 160)"

definition trim :: "string \<Rightarrow> string" where
  "trim s = rev (dropWhile is_whitespace (rev (dropWhile is_whitespace s)))"

definition blank :: "string \<Rightarrow> bool" where
  "blank s = (trim s = [])"

definition to_ascii_lower :: "char \<Rightarrow> char" where
  "to_ascii_lower c =
     (let n = (of_char c :: nat) in if 65 \<le> n \<and> n \<le> 90 then char_of (n + 32) else c)"

definition to_ascii_lowercase :: "string \<Rightarrow> string" where
  "to_ascii_lowercase s = map to_ascii_lower s"

definition eq_ignore_ascii_case :: "string \<Rightarrow> string \<Rightarrow> bool" where
  "eq_ignore_ascii_case s t = (to_ascii_lowercase s = to_ascii_lowercase t)"

fun strip_prefix :: "string \<Rightarrow> string \<Rightarrow> string option" where
  "strip_prefix [] s = Some s"
| "strip_prefix (p # ps) [] = None"
| "strip_prefix (p # ps) (c # cs) = (if p = c then strip_prefix ps cs else None)"

text \<open>Decimal rendering, as \<open>format!\<close> prints an unsigned integer.\<close>

fun digits_of :: "nat \<Rightarrow> string" where
  "digits_of n =
     (if n < 10 then [char_of (48 + n)] else digits_of (n div 10) @ [char_of (48 + n mod 10)])"

declare digits_of.simps [simp del]

definition show_nat :: "nat \<Rightarrow> string" where "show_nat n = digits_of n"

lemma dropWhile_all_or_tail:
  "dropWhile P xs = [] \<longleftrightarrow> (\<forall>x\<in>set xs. P x)"
  by (simp add: dropWhile_eq_Nil_conv)

lemma blank_iff: "blank s \<longleftrightarrow> (\<forall>c\<in>set s. is_whitespace c)"
proof -
  have "(\<forall>c\<in>set (dropWhile is_whitespace s). is_whitespace c) \<longleftrightarrow> (\<forall>c\<in>set s. is_whitespace c)"
    by (induction s) auto
  then show ?thesis
    by (simp add: blank_def trim_def dropWhile_all_or_tail)
qed

lemma trim_hd: "trim s \<noteq> [] \<Longrightarrow> \<not> is_whitespace (last (trim s))"
  by (simp add: trim_def last_rev hd_dropWhile)

lemma dropWhile_fix: "xs = [] \<or> \<not> P (hd xs) \<Longrightarrow> dropWhile P xs = xs"
  by (cases xs) auto

lemma hd_trim: "trim s \<noteq> [] \<Longrightarrow> \<not> is_whitespace (hd (trim s))"
proof -
  let ?t = "dropWhile is_whitespace s"
  assume ne: "trim s \<noteq> []"
  have "takeWhile is_whitespace (rev ?t) @ rev (trim s) = rev ?t"
    unfolding trim_def by (simp only: rev_rev_ident takeWhile_dropWhile_id)
  then have "rev (takeWhile is_whitespace (rev ?t) @ rev (trim s)) = rev (rev ?t)"
    by (rule arg_cong)
  then have t: "?t = trim s @ rev (takeWhile is_whitespace (rev ?t))"
    by simp
  have ne': "?t \<noteq> []"
    using ne by (auto simp: trim_def dest: set_dropWhileD)
  have "hd ?t = hd (trim s)"
    by (subst t) (simp add: ne)
  with hd_dropWhile [OF ne'] show ?thesis
    by simp
qed

lemma trim_trim [simp]: "trim (trim s) = trim s"
proof (cases "trim s = []")
  case True
  then show ?thesis by (simp only: True) (simp add: trim_def)
next
  case False
  then have "dropWhile is_whitespace (trim s) = trim s"
    by (simp add: dropWhile_fix hd_trim)
  moreover have "dropWhile is_whitespace (rev (trim s)) = rev (trim s)"
    using False trim_hd by (simp add: dropWhile_fix hd_rev)
  ultimately show ?thesis
    by (simp add: trim_def[of "trim s"])
qed

lemma blank_trim [simp]: "blank (trim s) = blank s"
  by (simp add: blank_def)

lemma strip_prefix_iff: "strip_prefix p s = Some r \<longleftrightarrow> s = p @ r"
  by (induction p s rule: strip_prefix.induct) auto

section \<open>Ordered maps\<close>

text \<open>
  A \<open>BTreeMap\<close>: an association list with strictly increasing keys, iterated in key order.
\<close>

type_synonym ('k, 'v) btree = "('k \<times> 'v) list"

definition bt_ok :: "('k::linorder, 'v) btree \<Rightarrow> bool" where
  "bt_ok m = sorted_wrt (<) (map fst m)"

definition bt_get :: "('k, 'v) btree \<Rightarrow> 'k \<Rightarrow> 'v option" where
  "bt_get m k = map_of m k"

definition bt_contains :: "('k, 'v) btree \<Rightarrow> 'k \<Rightarrow> bool" where
  "bt_contains m k = list_ex (\<lambda>(j, _). j = k) m"

text \<open>\<open>insert\<close> replaces; \<open>entry(k).or_insert(v)\<close> keeps what is there.\<close>

fun bt_insert :: "'k::linorder \<Rightarrow> 'v \<Rightarrow> ('k, 'v) btree \<Rightarrow> ('k, 'v) btree" where
  "bt_insert k v [] = [(k, v)]"
| "bt_insert k v ((j, w) # m) =
     (if k < j then (k, v) # (j, w) # m
      else if k = j then (k, v) # m else (j, w) # bt_insert k v m)"

definition bt_or_insert :: "'k::linorder \<Rightarrow> 'v \<Rightarrow> ('k, 'v) btree \<Rightarrow> ('k, 'v) btree" where
  "bt_or_insert k v m = (if bt_contains m k then m else bt_insert k v m)"

definition bt_remove :: "'k \<Rightarrow> ('k, 'v) btree \<Rightarrow> ('k, 'v) btree" where
  "bt_remove k m = filter (\<lambda>(j, _). j \<noteq> k) m"

definition bt_keys :: "('k, 'v) btree \<Rightarrow> 'k list" where
  "bt_keys m = map fst m"

lemma bt_contains_iff: "bt_contains m k \<longleftrightarrow> k \<in> fst ` set m"
  by (force simp: bt_contains_def list_ex_iff)

lemma bt_get_Some_contains: "bt_get m k = Some v \<Longrightarrow> bt_contains m k"
  by (auto simp: bt_get_def bt_contains_iff dest: map_of_SomeD intro: rev_image_eqI)

lemma bt_get_None_iff: "bt_get m k = None \<longleftrightarrow> \<not> bt_contains m k"
  by (simp add: bt_get_def bt_contains_iff map_of_eq_None_iff)

lemma bt_ok_distinct: "bt_ok m \<Longrightarrow> distinct (map fst m)"
  by (simp add: bt_ok_def strict_sorted_iff)

lemma bt_get_iff: "bt_ok m \<Longrightarrow> bt_get m k = Some v \<longleftrightarrow> (k, v) \<in> set m"
  by (simp add: bt_get_def bt_ok_distinct map_of_eq_Some_iff)

lemma bt_get_insert: "bt_get (bt_insert k v m) j = (if j = k then Some v else bt_get m j)"
  by (induction k v m rule: bt_insert.induct) (auto simp: bt_get_def)

lemma bt_get_remove: "bt_get (bt_remove k m) j = (if j = k then None else bt_get m j)"
  by (induction m) (auto simp: bt_get_def bt_remove_def)

lemma bt_insert_keys: "fst ` set (bt_insert k v m) = insert k (fst ` set m)"
  by (induction k v m rule: bt_insert.induct) auto

lemma bt_ok_Nil [simp]: "bt_ok []"
  by (simp add: bt_ok_def)

lemma bt_ok_Cons: "bt_ok ((k, v) # m) \<longleftrightarrow> (\<forall>j\<in>fst ` set m. k < j) \<and> bt_ok m"
  by (simp add: bt_ok_def)

lemma bt_ok_insert [wf_intro]: "bt_ok m \<Longrightarrow> bt_ok (bt_insert k v m)"
  by (induction k v m rule: bt_insert.induct) (auto simp: bt_ok_Cons bt_insert_keys)

lemma bt_ok_or_insert [wf_intro]: "bt_ok m \<Longrightarrow> bt_ok (bt_or_insert k v m)"
  by (simp add: bt_or_insert_def bt_ok_insert)

lemma bt_remove_set: "set (bt_remove k m) = {p \<in> set m. fst p \<noteq> k}"
  by (auto simp: bt_remove_def)

lemma bt_ok_remove [wf_intro]: "bt_ok m \<Longrightarrow> bt_ok (bt_remove k m)"
  by (induction m) (auto simp: bt_remove_def bt_ok_Cons)

lemma bt_insert_set:
  assumes "bt_ok m"
  shows "set (bt_insert k v m) = insert (k, v) {p \<in> set m. fst p \<noteq> k}"
proof -
  have "(j, w) \<in> set (bt_insert k v m) \<longleftrightarrow> (j, w) \<in> insert (k, v) {p \<in> set m. fst p \<noteq> k}" for j w
    using bt_get_iff [OF bt_ok_insert [OF assms], of k v j w] bt_get_iff [OF assms, of j w]
    by (auto simp: bt_get_insert split: if_splits)
  then show ?thesis by auto
qed

lemma bt_or_insert_set:
  "bt_ok m \<Longrightarrow> set (bt_or_insert k v m) = (if bt_contains m k then set m else insert (k, v) (set m))"
  by (auto simp: bt_or_insert_def bt_insert_set bt_contains_iff intro: rev_image_eqI)

lemma bt_remove_absent: "\<not> bt_contains m k \<Longrightarrow> bt_remove k m = m"
  by (induction m) (auto simp: bt_remove_def bt_contains_def)

lemma length_bt_remove: "length (bt_remove k m) \<le> length m"
  by (simp add: bt_remove_def)

lemma length_bt_remove_less:
  assumes "bt_contains m k"
  shows "length (bt_remove k m) < length m"
proof -
  from assms obtain v where "(k, v) \<in> set m" by (auto simp: bt_contains_iff)
  then show ?thesis unfolding bt_remove_def by (rule length_filter_less) simp
qed

section \<open>Systems with an invariant\<close>

text \<open>
  The contract of a component that is driven by operations: every operation keeps the invariant.
  What follows holds for any interleaving of its operations.
\<close>

locale invariant_system =
  fixes inv :: "'s \<Rightarrow> bool" and exec :: "'op \<Rightarrow> 's \<Rightarrow> 's"
  assumes exec_inv: "inv s \<Longrightarrow> inv (exec op s)"
begin

definition run :: "'op list \<Rightarrow> 's \<Rightarrow> 's" where
  "run ops s = fold exec ops s"

lemma run_simps [simp]: "run [] s = s" "run (op # ops) s = run ops (exec op s)"
  by (simp_all add: run_def)

lemma run_append: "run (xs @ ys) s = run ys (run xs s)"
  by (simp add: run_def)

lemma run_inv: "inv s \<Longrightarrow> inv (run ops s)"
  by (induction ops arbitrary: s) (simp_all add: exec_inv)

text \<open>A property every step from a good state keeps is kept by every run.\<close>

lemma run_induct:
  assumes "inv s" "Q s" "\<And>op s. inv s \<Longrightarrow> Q s \<Longrightarrow> Q (exec op s)"
  shows "Q (run ops s)"
  using assms(1,2) by (induction ops arbitrary: s) (simp_all add: exec_inv assms(3))

text \<open>A measure that no step decreases grows along a run.\<close>

lemma run_mono:
  fixes m :: "'s \<Rightarrow> 'a::order"
  assumes "inv s" "\<And>op s. inv s \<Longrightarrow> m s \<le> m (exec op s)"
  shows "m s \<le> m (run ops s)"
  using assms(1)
proof (induction ops arbitrary: s)
  case (Cons op ops)
  then have "m s \<le> m (exec op s)" "m (exec op s) \<le> m (run ops (exec op s))"
    by (simp_all add: assms(2) exec_inv)
  then show ?case by (simp add: order.trans)
qed simp

end

section \<open>Rows of a table\<close>

lemma find_Some_iff_distinct:
  assumes "distinct (map f xs)" "x \<in> set xs"
  shows "List.find (\<lambda>y. f y = f x) xs = Some x"
  using assms by (induction xs) (auto simp: image_iff)

lemma find_Some_member: "List.find P xs = Some x \<Longrightarrow> x \<in> set xs \<and> P x"
  by (metis find_Some_iff nth_mem)

lemma map_update_keys:
  "(\<And>x. f (g x) = f x) \<Longrightarrow> map f (map (\<lambda>x. if P x then g x else x) xs) = map f xs"
  by simp

lemma distinct_map_filter: "distinct (map f xs) \<Longrightarrow> distinct (map f (filter P xs))"
  by (induction xs) auto

text \<open>Rows a search does not look for may be changed, added or removed.\<close>

lemma find_map_other:
  assumes "\<And>x. K x \<Longrightarrow> \<not> Q x \<and> \<not> Q (g x)"
  shows "List.find Q (map (\<lambda>x. if K x then g x else x) xs) = List.find Q xs"
  using assms by (induction xs) auto

lemma find_append_other: "\<not> Q r \<Longrightarrow> List.find Q (xs @ [r]) = List.find Q xs"
  by (induction xs) auto

lemma find_filter_other:
  assumes "\<And>x. Q x \<Longrightarrow> K x"
  shows "List.find Q (filter K xs) = List.find Q xs"
  using assms by (induction xs) auto

section \<open>Selecting by a key\<close>

text \<open>\<open>Iterator::max_by_key\<close>: of several maximal elements the last one.\<close>

fun last_max :: "('a \<Rightarrow> 'k::linorder) \<Rightarrow> 'a list \<Rightarrow> 'a option" where
  "last_max k [] = None"
| "last_max k (x # xs) =
     (case last_max k xs of None \<Rightarrow> Some x | Some y \<Rightarrow> if k x \<le> k y then Some y else Some x)"

lemma last_max_None [simp]: "last_max k xs = None \<longleftrightarrow> xs = []"
  by (cases xs) (auto split: option.splits)

lemma last_max_Some: "last_max k xs = Some y \<Longrightarrow> y \<in> set xs \<and> (\<forall>x\<in>set xs. k x \<le> k y)"
proof (induction xs arbitrary: y)
  case (Cons x xs)
  show ?case
  proof (cases "last_max k xs")
    case None
    with Cons.prems show ?thesis by simp
  next
    case (Some z)
    with Cons.IH [OF Some] Cons.prems show ?thesis
      by (auto split: if_splits intro: order.trans)
  qed
qed simp

end
