(* ===== verification/Protocol.thy ===== *)
theory Protocol
  imports Prelude
begin

text \<open>
  The messages of \<open>minipunch-core/src/protocol.rs\<close>: the HTTP requests and responses, the
  direct (UDP) probe and tunnel envelopes, the relay (websocket) envelopes and their batching
  frame. Record fields carry a prefix because the records share field names. An \<open>i64\<close>
  timestamp is an \<open>int\<close>; a \<open>Vec\<close> is a list.
\<close>

section \<open>Requests and responses\<close>

record error_response =
  er_error :: string

record bootstrap_init_response =
  bi_admin_token :: string
  bi_first_join_token :: string
  bi_join_token_expires_at :: int

record create_join_token_request =
  cj_expires_in_minutes :: "nat option"
  cj_note :: "string option"

record join_token_response =
  jt_join_token :: string
  jt_expires_at :: int
  jt_note :: "string option"

record register_device_request =
  rq_join_token :: "string option"
  rq_device_id :: string
  rq_device_name :: string
  rq_os :: string
  rq_version :: string
  rq_public_key :: string
  rq_relay_public_key :: string
  rq_relay_public_key_signature :: string
  rq_nonce :: string
  rq_signature :: string

record register_device_response =
  rr_device_id :: string
  rr_session_token :: string
  rr_session_expires_at :: int

record heartbeat_response =
  hb_device_id :: string
  hb_seen_at :: int

record upsert_service_request =
  us_name :: string
  us_allowed_device_ids :: "string list"

record delete_service_request =
  ds_name :: string

record service_definition =
  sd_service_id :: string
  sd_owner_device_id :: string
  sd_name :: string
  sd_protocol :: string

record device_summary =
  dv_device_id :: string
  dv_device_name :: string
  dv_os :: string
  dv_identity_public_key :: string
  dv_relay_public_key :: string
  dv_relay_public_key_signature :: string
  dv_last_seen_at :: int
  dv_is_online :: bool

record network_snapshot =
  ns_requester_device_id :: string
  ns_devices :: "device_summary list"
  ns_services :: "service_definition list"

record admin_devices_response =
  ad_devices :: "device_summary list"

record admin_clear_devices_response =
  ac_deleted_devices :: nat
  ac_deleted_sessions :: nat
  ac_deleted_services :: nat
  ac_deleted_acl_entries :: nat
  ac_deleted_rendezvous_attempts :: nat

record direct_connection_candidate =
  dc_protocol :: string
  dc_addr :: string
  dc_candidate_type :: string

record start_direct_rendezvous_request =
  sr_target_device_id :: string
  sr_service_name :: string
  sr_source_candidates :: "direct_connection_candidate list"

record update_direct_rendezvous_candidates_request =
  uc_candidates :: "direct_connection_candidate list"

record direct_rendezvous_participant =
  rp_device_id :: string
  rp_announced_at :: "int option"
  rp_candidates :: "direct_connection_candidate list"

record direct_rendezvous_session =
  rs_rendezvous_id :: string
  rs_service_id :: string
  rs_service_name :: string
  rs_source_device_id :: string
  rs_target_device_id :: string
  rs_status :: string
  rs_created_at :: int
  rs_updated_at :: int
  rs_expires_at :: int
  rs_source :: direct_rendezvous_participant
  rs_target :: direct_rendezvous_participant

record pending_direct_rendezvous_response =
  pr_attempts :: "direct_rendezvous_session list"

section \<open>Direct envelopes\<close>

record ack_range =
  ar_start :: nat
  ar_end :: nat

abbreviation mk_range :: "nat \<Rightarrow> nat \<Rightarrow> ack_range" where
  "mk_range s e \<equiv> \<lparr>ar_start = s, ar_end = e\<rparr>"

datatype direct_probe_envelope =
    Probe_Hello (ph_rendezvous_id: string) (ph_sender_device_id: string)
      (ph_hello_nonce: string) (ph_signature: string)
  | Probe_Ack (ph_rendezvous_id: string) (ph_sender_device_id: string)
      (ph_hello_nonce: string) (pa_ack_nonce: string) (ph_signature: string)

text \<open>The first two arguments of every tunnel envelope are the rendezvous id and the channel id.\<close>

datatype direct_tunnel_envelope =
    DT_OpenChannel string string (dt_service_id: string) (dt_source_device_id: string)
      (dt_source_ephemeral_public_key: string) (dt_source_open_signature: string)
  | DT_ChannelAccepted string string
  | DT_ChannelRejected string string (dt_reject_reason: string)
  | DT_ChannelData string string (dt_sequence: nat) (dt_data_base64: string)
  | DT_ChannelAck string string (dt_next_sequence: nat) (dt_selective_ranges: "ack_range list")
  | DT_ChannelKeepalive string string nat
  | DT_ChannelKeepaliveAck string string nat
  | DT_ChannelClose string string (dt_close_final: nat) (dt_close_reason: "string option")
  | DT_ChannelCloseAck string string (dt_close_ack_final: nat)

fun direct_channel_id :: "direct_tunnel_envelope \<Rightarrow> string" where
  "direct_channel_id (DT_OpenChannel _ c _ _ _ _) = c"
| "direct_channel_id (DT_ChannelAccepted _ c) = c"
| "direct_channel_id (DT_ChannelRejected _ c _) = c"
| "direct_channel_id (DT_ChannelData _ c _ _) = c"
| "direct_channel_id (DT_ChannelAck _ c _ _) = c"
| "direct_channel_id (DT_ChannelKeepalive _ c _) = c"
| "direct_channel_id (DT_ChannelKeepaliveAck _ c _) = c"
| "direct_channel_id (DT_ChannelClose _ c _ _) = c"
| "direct_channel_id (DT_ChannelCloseAck _ c _) = c"

fun direct_is_terminal :: "direct_tunnel_envelope \<Rightarrow> bool" where
  "direct_is_terminal (DT_ChannelRejected _ _ _) = True"
| "direct_is_terminal (DT_ChannelCloseAck _ _ _) = True"
| "direct_is_terminal _ = False"

text \<open>From \<open>direct.rs\<close>: the rendezvous id an envelope carries.\<close>

fun direct_probe_rendezvous_id :: "direct_probe_envelope \<Rightarrow> string" where
  "direct_probe_rendezvous_id (Probe_Hello r _ _ _) = r"
| "direct_probe_rendezvous_id (Probe_Ack r _ _ _ _) = r"

fun direct_tunnel_rendezvous_id :: "direct_tunnel_envelope \<Rightarrow> string" where
  "direct_tunnel_rendezvous_id (DT_OpenChannel r _ _ _ _ _) = r"
| "direct_tunnel_rendezvous_id (DT_ChannelAccepted r _) = r"
| "direct_tunnel_rendezvous_id (DT_ChannelRejected r _ _) = r"
| "direct_tunnel_rendezvous_id (DT_ChannelData r _ _ _) = r"
| "direct_tunnel_rendezvous_id (DT_ChannelAck r _ _ _) = r"
| "direct_tunnel_rendezvous_id (DT_ChannelKeepalive r _ _) = r"
| "direct_tunnel_rendezvous_id (DT_ChannelKeepaliveAck r _ _) = r"
| "direct_tunnel_rendezvous_id (DT_ChannelClose r _ _ _) = r"
| "direct_tunnel_rendezvous_id (DT_ChannelCloseAck r _ _) = r"

section \<open>Relay envelopes\<close>

datatype relay_envelope =
    RE_Ready string
  | RE_OpenChannel string (re_service_id: string)
      (re_source_ephemeral_public_key: string) (re_source_open_signature: string)
  | RE_IncomingChannel string (re_source_device_id: string)
      (re_source_identity_public_key: string) (re_source_ephemeral_public_key: string)
      (re_source_open_signature: string) (re_service_id: string)
  | RE_ChannelAccepted string
  | RE_ChannelRejected string (re_reject_reason: string)
  | RE_ChannelData string (re_data_base64: string)
  | RE_ChannelClose string (re_close_reason: "string option")
  | RE_Ping
  | RE_Pong

datatype relay_transport_frame =
    Frame_Single relay_envelope
  | Frame_Batch "relay_envelope list"

definition frame_from_envelopes :: "relay_envelope list \<Rightarrow> relay_transport_frame option" where
  "frame_from_envelopes es =
     (case es of
        [] \<Rightarrow> None
      | [e] \<Rightarrow> Some (Frame_Single e)
      | _ \<Rightarrow> Some (Frame_Batch es))"

fun frame_into_envelopes :: "relay_transport_frame \<Rightarrow> relay_envelope list" where
  "frame_into_envelopes (Frame_Single e) = [e]"
| "frame_into_envelopes (Frame_Batch es) = es"

fun relay_channel_id :: "relay_envelope \<Rightarrow> string option" where
  "relay_channel_id (RE_OpenChannel c _ _ _) = Some c"
| "relay_channel_id (RE_IncomingChannel c _ _ _ _ _) = Some c"
| "relay_channel_id (RE_ChannelAccepted c) = Some c"
| "relay_channel_id (RE_ChannelRejected c _) = Some c"
| "relay_channel_id (RE_ChannelData c _) = Some c"
| "relay_channel_id (RE_ChannelClose c _) = Some c"
| "relay_channel_id (RE_Ready _) = None"
| "relay_channel_id RE_Ping = None"
| "relay_channel_id RE_Pong = None"

fun relay_is_terminal :: "relay_envelope \<Rightarrow> bool" where
  "relay_is_terminal (RE_ChannelRejected _ _) = True"
| "relay_is_terminal (RE_ChannelClose _ _) = True"
| "relay_is_terminal _ = False"

lemma frame_from_envelopes_None [simp]: "frame_from_envelopes es = None \<longleftrightarrow> es = []"
  by (simp add: frame_from_envelopes_def split: list.splits)

lemma frame_roundtrip:
  "frame_from_envelopes es = Some f \<Longrightarrow> frame_into_envelopes f = es"
  by (auto simp: frame_from_envelopes_def split: list.splits)

text \<open>The JSON is untagged, so a batch of one would be read back as a batch: it is never built.\<close>

lemma frame_batch_length:
  "frame_from_envelopes es = Some (Frame_Batch bs) \<Longrightarrow> 2 \<le> length bs"
  by (auto simp: frame_from_envelopes_def split: list.splits)

lemma relay_terminal_has_channel: "relay_is_terminal e \<Longrightarrow> \<exists>c. relay_channel_id e = Some c"
  by (cases e) simp_all

end
