(* ===== verification/Scoreboard.thy ===== *)
theory Scoreboard
  imports Protocol
begin

text \<open>
  The selective-acknowledgement scoreboard of \<open>minipunch-agent/src/direct.rs\<close>: a list of
  inclusive sequence ranges, kept sorted, disjoint and non-adjacent. Its specification is the set
  of sequence numbers it covers; every operation refines the set operation it stands for.
\<close>

section \<open>Operations\<close>

type_synonym scoreboard = "ack_range list"

definition covered_step :: "nat \<Rightarrow> ack_range \<Rightarrow> nat" where
  "covered_step acc r =
     (if ar_end r < ar_start r then acc
      else sat_add128 (sat_add128 acc (ar_end r - ar_start r)) 1)"

definition covered_sequence_count :: "ack_range list \<Rightarrow> nat" where
  "covered_sequence_count rs = foldl covered_step 0 rs"

definition trim_range :: "nat \<Rightarrow> ack_range \<Rightarrow> ack_range" where
  "trim_range n r = (if ar_start r < n then r\<lparr>ar_start := n\<rparr> else r)"

fun advance_cumulative_ack :: "scoreboard \<Rightarrow> nat \<Rightarrow> scoreboard" where
  "advance_cumulative_ack [] n = []"
| "advance_cumulative_ack (r # rs) n =
     (if ar_end r < n then advance_cumulative_ack rs n
      else let r' = trim_range n r in
           if ar_start r' \<le> ar_end r' then r' # advance_cumulative_ack rs n
           else advance_cumulative_ack rs n)"

text \<open>The merge loop; \<open>merged\<close> is held in reverse, so its last element comes first.\<close>

fun merge_ranges :: "ack_range list \<Rightarrow> ack_range list \<Rightarrow> ack_range list" where
  "merge_ranges merged [] = rev merged"
| "merge_ranges [] (r # rs) = merge_ranges [r] rs"
| "merge_ranges (l # merged) (r # rs) =
     (if ar_start r \<le> sat_add64 (ar_end l) 1
      then merge_ranges (l\<lparr>ar_end := max (ar_end l) (ar_end r)\<rparr> # merged) rs
      else merge_ranges (r # l # merged) rs)"

definition observe_ranges :: "scoreboard \<Rightarrow> ack_range list \<Rightarrow> scoreboard \<times> nat" where
  "observe_ranges sb incoming =
     (if incoming = [] then (sb, 0)
      else
        let before = covered_sequence_count sb;
            extended = sb @ filter (\<lambda>r. ar_start r \<le> ar_end r) incoming
        in if extended = [] then (extended, 0)
           else
             let sorted_ranges = sort_key (\<lambda>r. (ar_start r, ar_end r)) extended;
                 merged = merge_ranges [] sorted_ranges;
                 after = covered_sequence_count merged
             in (merged, min (after - before) usize_max))"

definition sb_contains :: "scoreboard \<Rightarrow> nat \<Rightarrow> bool" where
  "sb_contains sb s =
     list_ex (\<lambda>r. ar_start r \<le> s \<and> s \<le> ar_end r \<and> ar_start r \<le> ar_end r) sb"

definition highest_sequence :: "scoreboard \<Rightarrow> nat option" where
  "highest_sequence sb = (if sb = [] then None else Some (ar_end (last sb)))"

section \<open>The set a scoreboard covers\<close>

definition covers :: "ack_range list \<Rightarrow> nat set" where
  "covers rs = {s. \<exists>r\<in>set rs. ar_start r \<le> s \<and> s \<le> ar_end r}"

definition range_valid :: "ack_range \<Rightarrow> bool" where
  "range_valid r = (ar_start r \<le> ar_end r \<and> ar_end r \<le> u64_max)"

definition apart :: "ack_range \<Rightarrow> ack_range \<Rightarrow> bool" where
  "apart a b = (Suc (ar_end a) < ar_start b)"

definition sb_wf :: "scoreboard \<Rightarrow> bool" where
  "sb_wf rs = ((\<forall>r\<in>set rs. range_valid r) \<and> sorted_wrt apart rs)"

lemma covers_simps [simp]:
  "covers [] = {}"
  "covers (r # rs) = {ar_start r..ar_end r} \<union> covers rs"
  by (auto simp: covers_def)

lemma covers_append [simp]: "covers (xs @ ys) = covers xs \<union> covers ys"
  by (auto simp: covers_def)

lemma covers_rev [simp]: "covers (rev xs) = covers xs"
  by (simp add: covers_def)

lemma covers_set_cong: "set xs = set ys \<Longrightarrow> covers xs = covers ys"
  by (simp add: covers_def)

lemma covers_filter_valid: "covers (filter (\<lambda>r. ar_start r \<le> ar_end r) rs) = covers rs"
  by (auto simp: covers_def)

lemma finite_covers [simp]: "finite (covers rs)"
  by (induction rs) simp_all

lemma sb_wf_Nil [simp]: "sb_wf []"
  by (simp add: sb_wf_def)

lemma sb_wf_Cons:
  "sb_wf (r # rs) \<longleftrightarrow> range_valid r \<and> (\<forall>x\<in>set rs. apart r x) \<and> sb_wf rs"
  by (auto simp: sb_wf_def)

lemma sb_wf_after: "sb_wf (r # rs) \<Longrightarrow> s \<in> covers rs \<Longrightarrow> Suc (ar_end r) < s"
  by (fastforce simp: sb_wf_Cons covers_def apart_def)

lemma covers_u64: "sb_wf rs \<Longrightarrow> covers rs \<subseteq> {..u64_max}"
  by (fastforce simp: sb_wf_def covers_def range_valid_def)

section \<open>Membership and the highest sequence\<close>

lemma sb_contains_iff: "sb_contains sb s \<longleftrightarrow> s \<in> covers sb"
  by (auto simp: sb_contains_def covers_def list_ex_iff)

lemma highest_sequence_Max:
  assumes "sb_wf sb"
  shows "highest_sequence sb = (if covers sb = {} then None else Some (Max (covers sb)))"
proof (cases "sb = []")
  case False
  have wf: "\<forall>r\<in>set sb. range_valid r" "sorted_wrt apart sb" using assms by (auto simp: sb_wf_def)
  have "last sb \<in> set sb" using False by simp
  then have "ar_end (last sb) \<in> covers sb" using wf(1) by (auto simp: covers_def range_valid_def)
  moreover have "s \<le> ar_end (last sb)" if "s \<in> covers sb" for s
  proof -
    from that obtain r where r: "r \<in> set sb" "s \<le> ar_end r" by (auto simp: covers_def)
    have "r = last sb \<or> apart r (last sb)"
      using wf(2) r(1) False
      by (cases sb rule: rev_cases) (auto simp: sorted_wrt_append)
    with r(2) wf(1) \<open>last sb \<in> set sb\<close> show ?thesis
      by (auto simp: apart_def range_valid_def)
  qed
  ultimately have "Max (covers sb) = ar_end (last sb)" "covers sb \<noteq> {}"
    by (auto intro: Max_eqI)
  with False show ?thesis by (simp add: highest_sequence_def)
qed (simp add: highest_sequence_def)

section \<open>Counting\<close>

lemma covered_step_exact:
  "range_valid r \<Longrightarrow> t + card {ar_start r..ar_end r} \<le> u128_max
    \<Longrightarrow> covered_step t r = t + card {ar_start r..ar_end r}"
  by (auto simp: covered_step_def range_valid_def sat_add_def)

lemma covered_sequence_count_card:
  assumes "sb_wf rs"
  shows "covered_sequence_count rs = card (covers rs)"
proof -
  have "foldl covered_step t rs = t + card (covers rs)"
    if "t + card (covers rs) \<le> u128_max" for t
    using assms that
  proof (induction rs arbitrary: t)
    case (Cons r rs)
    have disj: "{ar_start r..ar_end r} \<inter> covers rs = {}"
      using sb_wf_after [OF Cons.prems(1)] by fastforce
    then have c: "card (covers (r # rs)) = card {ar_start r..ar_end r} + card (covers rs)"
      by (simp only: covers_simps) (intro card_Un_disjoint, simp_all)
    have "range_valid r" "sb_wf rs" using Cons.prems(1) by (simp_all add: sb_wf_Cons)
    then show ?case
      using Cons.IH [of "t + card {ar_start r..ar_end r}"] Cons.prems(2) c
      by (simp only: foldl.simps covered_step_exact)
  qed simp
  moreover have "card (covers rs) \<le> card {..u64_max}"
    using covers_u64 [OF assms] by (intro card_mono) simp_all
  then have "0 + card (covers rs) \<le> u128_max" by (simp add: u64_max_def u128_max_def)
  ultimately show ?thesis by (simp only: covered_sequence_count_def)
qed

section \<open>The cumulative acknowledgement\<close>

lemma advance_subset: "r' \<in> set (advance_cumulative_ack rs n)
    \<Longrightarrow> \<exists>r\<in>set rs. ar_end r' = ar_end r \<and> ar_start r \<le> ar_start r'"
proof (induction rs)
  case (Cons r rs)
  have "r' = trim_range n r \<or> r' \<in> set (advance_cumulative_ack rs n)"
    using Cons.prems by (auto simp: Let_def split: if_splits)
  then show ?case
  proof
    assume "r' = trim_range n r"
    then have "ar_end r' = ar_end r" "ar_start r \<le> ar_start r'"
      by (simp_all add: trim_range_def)
    then show ?thesis by (meson list.set_intros(1))
  next
    assume "r' \<in> set (advance_cumulative_ack rs n)"
    then show ?thesis using Cons.IH by (meson list.set_intros(2))
  qed
qed simp

lemma covers_advance: "covers (advance_cumulative_ack rs n) = {s \<in> covers rs. n \<le> s}"
proof (induction rs)
  case (Cons r rs)
  have split_set: "{s \<in> covers (r # rs). n \<le> s}
      = {max n (ar_start r)..ar_end r} \<union> {s \<in> covers rs. n \<le> s}"
    by auto
  consider "ar_end r < n" | "n \<le> ar_end r" "ar_end r < ar_start r"
    | "n \<le> ar_end r" "ar_start r \<le> ar_end r" by linarith
  then show ?case
  proof cases
    case 1
    then have "{max n (ar_start r)..ar_end r} = {}" by simp
    with 1 Cons.IH split_set show ?thesis by simp
  next
    case 2
    then have "{max n (ar_start r)..ar_end r} = {}" "\<not> ar_start r < n" by simp_all
    with 2 Cons.IH split_set show ?thesis by (simp add: Let_def trim_range_def)
  next
    case 3
    then have "advance_cumulative_ack (r # rs) n = trim_range n r # advance_cumulative_ack rs n"
      by (simp add: Let_def trim_range_def)
    moreover have "{ar_start (trim_range n r)..ar_end (trim_range n r)}
        = {max n (ar_start r)..ar_end r}"
      by (simp add: trim_range_def max_def)
    ultimately show ?thesis using Cons.IH split_set by (simp only: covers_simps)
  qed
qed simp

lemma advance_wf [wf_intro]:
  assumes "sb_wf rs"
  shows "sb_wf (advance_cumulative_ack rs n)"
  using assms
proof (induction rs)
  case (Cons r rs)
  have r: "range_valid r" "\<forall>x\<in>set rs. apart r x" "sb_wf rs"
    using Cons.prems by (auto simp: sb_wf_Cons)
  have later: "Suc (ar_end r) < ar_start x" if "x \<in> set (advance_cumulative_ack rs n)" for x
    using advance_subset [OF that] r(2) by (fastforce simp: apart_def)
  show ?case
    using Cons.IH r later
    by (auto simp: Let_def trim_range_def sb_wf_Cons apart_def range_valid_def)
qed simp

section \<open>Merging\<close>

text \<open>
  The loop's invariant: what is merged is well formed, and no remaining range starts before the
  last merged one.
\<close>

definition merge_inv :: "ack_range list \<Rightarrow> ack_range list \<Rightarrow> bool" where
  "merge_inv merged rs =
     (sb_wf (rev merged) \<and> (\<forall>r\<in>set rs. range_valid r)
      \<and> sorted_wrt (\<lambda>a b. ar_start a \<le> ar_start b) rs
      \<and> (\<forall>l ls. merged = l # ls \<longrightarrow> (\<forall>r\<in>set rs. ar_start l \<le> ar_start r)))"

lemma sb_wf_snoc:
  "sb_wf (xs @ [r]) \<longleftrightarrow> sb_wf xs \<and> range_valid r \<and> (\<forall>x\<in>set xs. apart x r)"
  by (auto simp: sb_wf_def sorted_wrt_append)

lemma apart_trans_valid: "apart a b \<Longrightarrow> range_valid b \<Longrightarrow> apart b c \<Longrightarrow> apart a c"
  by (simp add: apart_def range_valid_def)

lemma merge_ranges_correct:
  assumes "merge_inv merged rs"
  shows "sb_wf (merge_ranges merged rs)
    \<and> covers (merge_ranges merged rs) = covers merged \<union> covers rs"
  using assms
proof (induction merged rs rule: merge_ranges.induct)
  case (2 r rs)
  have "merge_inv [r] rs" using "2.prems" by (auto simp: merge_inv_def sb_wf_Cons)
  then show ?case using "2.IH" by simp
next
  case (3 l merged r rs)
  have l: "sb_wf (rev merged)" "range_valid l" "\<forall>x\<in>set merged. apart x l"
    and r: "range_valid r" "ar_start l \<le> ar_start r"
    using "3.prems" by (auto simp: merge_inv_def sb_wf_snoc)
  show ?case
  proof (cases "ar_start r \<le> sat_add64 (ar_end l) 1")
    case True
    then have touch: "ar_start r \<le> Suc (ar_end l)" by (simp add: sat_add_def)
    let ?l = "l\<lparr>ar_end := max (ar_end l) (ar_end r)\<rparr>"
    have "merge_inv (?l # merged) rs"
      using "3.prems" l r by (auto simp: merge_inv_def sb_wf_snoc apart_def range_valid_def)
    moreover have "{ar_start l..max (ar_end l) (ar_end r)} =
        {ar_start l..ar_end l} \<union> {ar_start r..ar_end r}"
      using touch r l(2) by (auto simp: range_valid_def)
    ultimately show ?thesis using "3.IH"(1) [OF True] True by auto
  next
    case False
    then have "apart l r"
      using r(1) by (auto simp: sat_add_def apart_def range_valid_def min_def split: if_splits)
    moreover from this l have "\<forall>x\<in>set merged. apart x r" by (blast intro: apart_trans_valid)
    moreover have "sb_wf (rev (l # merged))" using l by (simp add: sb_wf_snoc)
    ultimately have "sb_wf (rev (l # merged) @ [r])"
      using r(1) by (subst sb_wf_snoc) auto
    then have "merge_inv (r # l # merged) rs"
      using "3.prems" by (auto simp: merge_inv_def)
    then show ?thesis using "3.IH"(2) [OF False] False by auto
  qed
qed (auto simp: merge_inv_def)

definition ranges_u64 :: "ack_range list \<Rightarrow> bool" where
  "ranges_u64 rs = (\<forall>r\<in>set rs. ar_end r \<le> u64_max)"

lemma observe_ranges_covers:
  assumes "sb_wf sb" "ranges_u64 incoming"
  shows "sb_wf (fst (observe_ranges sb incoming))"
    and "covers (fst (observe_ranges sb incoming)) = covers sb \<union> covers incoming"
proof -
  let ?ext = "sb @ filter (\<lambda>r. ar_start r \<le> ar_end r) incoming"
  let ?sorted = "sort_key (\<lambda>r. (ar_start r, ar_end r)) ?ext"
  have valid: "\<forall>r\<in>set ?sorted. range_valid r"
    using assms by (auto simp: sb_wf_def ranges_u64_def range_valid_def)
  have "sorted (map (\<lambda>r. (ar_start r, ar_end r)) ?sorted)" by (rule sorted_sort_key)
  then have "sorted_wrt (\<lambda>a b. ar_start a \<le> ar_start b) ?sorted"
    unfolding sorted_map by (rule sorted_wrt_mono_rel [rotated]) auto
  with valid have "merge_inv [] ?sorted" by (simp add: merge_inv_def)
  from merge_ranges_correct [OF this]
  have m: "sb_wf (merge_ranges [] ?sorted)" "covers (merge_ranges [] ?sorted) = covers ?ext"
    using covers_set_cong [of ?sorted ?ext] by simp_all
  show "sb_wf (fst (observe_ranges sb incoming))"
    using m assms(1) by (simp add: observe_ranges_def Let_def)
  show "covers (fst (observe_ranges sb incoming)) = covers sb \<union> covers incoming"
    using m(2) covers_filter_valid [of incoming]
    by (auto simp: observe_ranges_def Let_def simp del: covers_filter_valid)
qed

text \<open>The returned evidence counts the sequence numbers that are new, clipped to \<open>usize\<close>.\<close>

lemma observe_ranges_count:
  assumes "sb_wf sb" "ranges_u64 incoming"
  shows "snd (observe_ranges sb incoming) = min (card (covers incoming - covers sb)) usize_max"
proof (cases "incoming = [] \<or> sb @ filter (\<lambda>r. ar_start r \<le> ar_end r) incoming = []")
  case True
  then have "covers incoming = {}"
    using covers_filter_valid [of incoming] by auto
  with True show ?thesis by (auto simp: observe_ranges_def)
next
  case False
  note o = observe_ranges_covers [OF assms]
  let ?sb' = "fst (observe_ranges sb incoming)"
  have "snd (observe_ranges sb incoming)
      = min (covered_sequence_count ?sb' - covered_sequence_count sb) usize_max"
    using False by (auto simp: observe_ranges_def Let_def)
  also have "\<dots> = min (card (covers sb \<union> covers incoming) - card (covers sb)) usize_max"
    using o assms(1) by (simp only: covered_sequence_count_card)
  also have "card (covers sb \<union> covers incoming) - card (covers sb) = card (covers incoming - covers sb)"
    using card_Un_disjoint [of "covers sb" "covers incoming - covers sb"]
    by (simp only: Un_Diff_cancel) simp
  finally show ?thesis .
qed

lemmas observe_ranges_wf [wf_intro] = observe_ranges_covers(1)

end
