(* ===== verification/Float64.thy ===== *)
theory Float64
  imports Complex_Main "HOL-Library.Log_Nat" Prelude
begin

text \<open>
  IEEE binary64 arithmetic as the congestion controller and the RTT estimator use it. A finite
  double is the rational number it denotes; every arithmetic operation rounds the exact result
  to the nearest representable number, ties to even (\<open>f64_round\<close>). Infinities and NaN are
  not represented: the values the code forms stay far below the overflow threshold.
  \<open>Duration\<close> is a number of nanoseconds, with the conversions of the standard library.
\<close>

type_synonym f64 = rat

section \<open>Rounding to the nearest integer, ties to even\<close>

definition round_half_even :: "rat \<Rightarrow> int" where
  "round_half_even x =
     (let n = \<lfloor>x\<rfloor>; r = x - of_int n in
      if r < 1 / 2 then n else if 1 / 2 < r then n + 1 else if even n then n else n + 1)"

lemma round_half_even_of_int [simp]: "round_half_even (of_int n) = n"
  by (simp add: round_half_even_def)

lemma round_half_even_bounds:
  "\<lfloor>x\<rfloor> \<le> round_half_even x" "round_half_even x \<le> \<lfloor>x\<rfloor> + 1"
  by (simp_all add: round_half_even_def Let_def)

lemma round_half_even_mono:
  assumes "x \<le> y"
  shows "round_half_even x \<le> round_half_even y"
proof (cases "\<lfloor>x\<rfloor> = \<lfloor>y\<rfloor>")
  case True
  with assms show ?thesis
    by (auto simp: round_half_even_def Let_def)
next
  case False
  with assms have "\<lfloor>x\<rfloor> + 1 \<le> \<lfloor>y\<rfloor>"
    using floor_mono [OF assms] by linarith
  then show ?thesis
    using round_half_even_bounds(2) [of x] round_half_even_bounds(1) [of y] by linarith
qed

lemma round_half_even_le_of_int: "x \<le> of_int n \<Longrightarrow> round_half_even x \<le> n"
  using round_half_even_mono [of x "of_int n"] by simp

lemma round_half_even_ge_of_int: "of_int n \<le> x \<Longrightarrow> n \<le> round_half_even x"
  using round_half_even_mono [of "of_int n" x] by simp

section \<open>The binary exponent\<close>

text \<open>For positive \<open>x\<close>, the \<open>e\<close> with \<open>2 ^ e \<le> x < 2 ^ (e + 1)\<close>.\<close>

definition bexp :: "rat \<Rightarrow> int" where
  "bexp x =
     (let (n, d) = quotient_of x;
          k = int (floorlog 2 (nat n)) - int (floorlog 2 (nat d))
      in if 2 powi k \<le> x then k else k - 1)"

lemma floorlog2_bounds:
  assumes "0 < n"
  shows "2 ^ (floorlog 2 n - 1) \<le> n" "n < 2 ^ floorlog 2 n" "0 < floorlog 2 n"
  using assms floorlog_bounds [of n 2] by (auto simp: floorlog_def)

lemma bexp_bounds:
  assumes "0 < x"
  shows "2 powi bexp x \<le> x \<and> x < 2 powi (bexp x + 1)"
proof -
  obtain n d where q: "quotient_of x = (n, d)" by (cases "quotient_of x")
  then have d: "0 < d" and x: "x = of_int n / of_int d"
    by (auto simp: quotient_of_denom_pos quotient_of_div)
  with assms have n: "0 < n" by (simp add: zero_less_divide_iff)
  define a where "a = floorlog 2 (nat n)"
  define b where "b = floorlog 2 (nat d)"
  have an: "2 ^ (a - 1) \<le> nat n" "nat n < 2 ^ a" "0 < a"
    using floorlog2_bounds [of "nat n"] n by (simp_all add: a_def)
  have bd: "2 ^ (b - 1) \<le> nat d" "nat d < 2 ^ b" "0 < b"
    using floorlog2_bounds [of "nat d"] d by (simp_all add: b_def)
  have to_rat: "(of_nat (nat n) :: rat) = of_int n" "(of_nat (nat d) :: rat) = of_int d"
    using n d by simp_all
  have n1: "2 powi (int a - 1) \<le> (of_int n :: rat)"
  proof -
    have "(of_nat (2 ^ (a - 1)) :: rat) \<le> of_nat (nat n)"
      using an(1) by (simp only: of_nat_le_iff)
    then show ?thesis
      using an(3) unfolding to_rat by (simp add: power_int_def of_nat_diff nat_diff_distrib)
  qed
  have n2: "(of_int n :: rat) < 2 powi int a"
  proof -
    have "(of_nat (nat n) :: rat) < of_nat (2 ^ a)"
      using an(2) by (simp only: of_nat_less_iff)
    then show ?thesis unfolding to_rat by simp
  qed
  have d1: "2 powi (int b - 1) \<le> (of_int d :: rat)"
  proof -
    have "(of_nat (2 ^ (b - 1)) :: rat) \<le> of_nat (nat d)"
      using bd(1) by (simp only: of_nat_le_iff)
    then show ?thesis
      using bd(3) unfolding to_rat by (simp add: power_int_def of_nat_diff nat_diff_distrib)
  qed
  have d2: "(of_int d :: rat) < 2 powi int b"
  proof -
    have "(of_nat (nat d) :: rat) < of_nat (2 ^ b)"
      using bd(2) by (simp only: of_nat_less_iff)
    then show ?thesis unfolding to_rat by simp
  qed
  let ?k = "int a - int b"
  have dpos: "(0::rat) < of_int d" using d by simp
  have up: "x < 2 powi (?k + 1)"
  proof -
    have "(2::rat) powi int a = 2 powi (?k + 1) * 2 powi (int b - 1)"
      by (simp flip: power_int_add)
    also have "\<dots> \<le> 2 powi (?k + 1) * of_int d"
      using d1 by (intro mult_left_mono) simp_all
    finally have "(of_int n :: rat) < 2 powi (?k + 1) * of_int d"
      using n2 by linarith
    then show ?thesis using dpos by (simp add: x divide_less_eq)
  qed
  have low: "2 powi (?k - 1) \<le> x"
  proof -
    have "(2::rat) powi (?k - 1) * of_int d \<le> 2 powi (?k - 1) * 2 powi int b"
      using d2 by (intro mult_left_mono) simp_all
    also have "\<dots> = 2 powi (int a - 1)"
      using power_int_add [of "2 :: rat" "?k - 1" "int b"] by simp
    finally have "2 powi (?k - 1) * of_int d \<le> (of_int n :: rat)"
      using n1 by linarith
    then show ?thesis using dpos by (simp add: x le_divide_eq)
  qed
  have e: "bexp x = (if 2 powi ?k \<le> x then ?k else ?k - 1)"
    by (simp add: bexp_def q a_def b_def)
  show ?thesis
    using up low by (auto simp: e not_le)
qed

lemma powi2_less_iff: "(2::rat) powi i < 2 powi j \<longleftrightarrow> i < j"
proof
  show "i < j" if "(2::rat) powi i < 2 powi j"
    using that power_int_increasing [of j i "2 :: rat"] by force
qed (simp add: power_int_strict_increasing)

lemma powi2_le_iff: "(2::rat) powi i \<le> 2 powi j \<longleftrightarrow> i \<le> j"
  using powi2_less_iff [of j i] by (simp add: not_less [symmetric])

lemma bexp_eqI:
  assumes "2 powi e \<le> x" "x < 2 powi (e + 1)"
  shows "bexp x = e"
proof -
  have "0 < (2::rat) powi e" by simp
  with assms(1) have "0 < x" by linarith
  from bexp_bounds [OF this] assms
  have "(2::rat) powi bexp x < 2 powi (e + 1)" "(2::rat) powi e < 2 powi (bexp x + 1)"
    by linarith+
  then show ?thesis by (simp add: powi2_less_iff)
qed

lemma bexp_mono:
  assumes "0 < x" "x \<le> y"
  shows "bexp x \<le> bexp y"
proof -
  have "(2::rat) powi bexp x < 2 powi (bexp y + 1)"
    using bexp_bounds [OF assms(1)] bexp_bounds [of y] assms by linarith
  then show ?thesis by (simp add: powi2_less_iff)
qed

section \<open>Rounding to binary64\<close>

text \<open>
  The exponent of the last place is \<open>bexp - 52\<close>, and never below the subnormal limit.
\<close>

definition ulp_exp :: "rat \<Rightarrow> int" where
  "ulp_exp x = max (bexp x - 52) (- 1074)"

definition f64_round :: "rat \<Rightarrow> f64" where
  "f64_round x =
     (if x = 0 then 0
      else sgn x * (of_int (round_half_even (\<bar>x\<bar> / 2 powi ulp_exp \<bar>x\<bar>)) * 2 powi ulp_exp \<bar>x\<bar>))"

definition representable :: "rat \<Rightarrow> bool" where
  "representable x = (f64_round x = x)"

lemma f64_round_0 [simp]: "f64_round 0 = 0"
  by (simp add: f64_round_def)

lemma f64_round_pos:
  "0 < x \<Longrightarrow> f64_round x = of_int (round_half_even (x / 2 powi ulp_exp x)) * 2 powi ulp_exp x"
  by (simp add: f64_round_def)

lemma f64_round_minus: "f64_round (- x) = - f64_round x"
  by (simp add: f64_round_def sgn_minus)

lemma f64_round_nonneg: "0 \<le> x \<Longrightarrow> 0 \<le> f64_round x"
  using round_half_even_ge_of_int [of 0 "x / 2 powi ulp_exp x"]
  by (cases "x = 0") (simp_all add: f64_round_pos)

text \<open>A significand of at most 53 bits at a legal exponent is kept exactly.\<close>

lemma representableI:
  assumes x: "x = of_int m * 2 powi q" and m: "0 \<le> m" "m \<le> 2 ^ 53" and q: "- 1074 \<le> q"
  shows "representable x"
proof (cases "m = 0")
  case True
  then show ?thesis by (simp add: representable_def x)
next
  case False
  with m have m1: "1 \<le> m" by simp
  have xpos: "0 < x" using m1 by (simp add: x)
  have bx: "2 powi bexp x \<le> x" using bexp_bounds [OF xpos] by simp
  have "of_int m \<le> (of_int (2 ^ 53) :: rat)" using m(2) by (simp only: of_int_le_iff)
  then have "x \<le> 2 powi (53 + q)"
    by (simp add: x power_int_add mult_right_mono)
  with bx have be: "bexp x \<le> 53 + q"
    using powi2_le_iff order.trans by blast
  show ?thesis
  proof (cases "bexp x = 53 + q")
    case True
    with bx \<open>x \<le> 2 powi (53 + q)\<close> have xe: "x = 2 powi (53 + q)" by simp
    have u: "ulp_exp x = q + 1" using True q by (simp add: ulp_exp_def)
    have "x / 2 powi (q + 1) = of_int (2 ^ 52)"
      unfolding xe by (simp flip: power_int_diff)
    then show ?thesis
      using xpos by (simp only: representable_def f64_round_pos u round_half_even_of_int) (simp add: field_simps)
  next
    case ne: False
    with be have uq: "ulp_exp x \<le> q" using q by (simp add: ulp_exp_def)
    define k where "k = nat (q - ulp_exp x)"
    have "q = ulp_exp x + int k" using uq by (simp add: k_def)
    then have "(2::rat) powi q = 2 powi ulp_exp x * 2 ^ k"
      by (simp add: power_int_add)
    then have "x = of_int m * (2 powi ulp_exp x * 2 ^ k)"
      using x by (simp only:)
    then have "x / 2 powi ulp_exp x = of_int (m * 2 ^ k)"
      by (subst nonzero_divide_eq_eq) (simp_all add: mult_ac)
    then show ?thesis
      using xpos by (simp only: representable_def f64_round_pos round_half_even_of_int) (simp add: field_simps)
  qed
qed

lemma representable_of_nat: "n \<le> 2 ^ 53 \<Longrightarrow> representable (of_nat n)"
  by (rule representableI [where m = "int n" and q = 0]) (simp_all flip: of_nat_le_iff)

lemma f64_round_of_nat: "n \<le> 2 ^ 53 \<Longrightarrow> f64_round (of_nat n) = of_nat n"
  using representable_of_nat by (simp add: representable_def)

lemma f64_round_representable: "0 \<le> x \<Longrightarrow> representable (f64_round x)"
proof (cases "x = 0")
  case False
  assume "0 \<le> x"
  with False have xpos: "0 < x" by simp
  let ?u = "ulp_exp x" and ?n = "round_half_even (x / 2 powi ulp_exp x)"
  have "x < 2 powi (bexp x + 1)" using bexp_bounds [OF xpos] by simp
  also have "\<dots> \<le> 2 powi (53 + ?u)" by (simp add: powi2_le_iff ulp_exp_def)
  finally have "x / 2 powi ?u \<le> of_int (2 ^ 53)"
    by (simp add: divide_le_eq power_int_add)
  then have "?n \<le> 2 ^ 53" by (rule round_half_even_le_of_int)
  moreover have "0 \<le> ?n" using xpos by (intro round_half_even_ge_of_int) simp
  ultimately show ?thesis
    using xpos by (intro representableI [where m = ?n and q = ?u]) (simp_all add: f64_round_pos ulp_exp_def)
qed (simp add: representable_def)

lemma f64_round_idem: "0 \<le> x \<Longrightarrow> f64_round (f64_round x) = f64_round x"
  using f64_round_representable by (simp add: representable_def)

text \<open>Rounding is monotone, within one binade and across the boundary between two.\<close>

lemma f64_round_mono_pos:
  assumes x: "0 < x" and xy: "x \<le> y"
  shows "f64_round x \<le> f64_round y"
proof (cases "ulp_exp x = ulp_exp y")
  case True
  have "x / 2 powi ulp_exp y \<le> y / 2 powi ulp_exp y"
    using xy by (simp add: divide_right_mono)
  from round_half_even_mono [OF this] show ?thesis
    using x xy True by (simp add: f64_round_pos mult_right_mono)
next
  case False
  have y: "0 < y" using x xy by simp
  have "bexp x \<le> bexp y" using bexp_mono [OF x xy] .
  with False have lt: "bexp x < bexp y" "ulp_exp y = bexp y - 52" "ulp_exp x < ulp_exp y"
    by (auto simp: ulp_exp_def max_def split: if_splits)
  let ?ux = "ulp_exp x" and ?B = "(2::rat) powi bexp y"
  have "x < 2 powi (bexp x + 1)" using bexp_bounds [OF x] by simp
  also have "\<dots> \<le> ?B" using lt(1) by (simp add: powi2_le_iff)
  finally have "x \<le> ?B" by simp
  define k where "k = nat (bexp y - ?ux)"
  have k: "bexp y = ?ux + int k" using lt by (simp add: k_def)
  have "x / 2 powi ?ux \<le> of_int (2 ^ k)"
    using \<open>x \<le> ?B\<close> by (simp add: divide_le_eq k power_int_add mult.commute)
  then have "round_half_even (x / 2 powi ?ux) \<le> 2 ^ k" by (rule round_half_even_le_of_int)
  then have "of_int (round_half_even (x / 2 powi ?ux)) \<le> (of_int (2 ^ k) :: rat)"
    by (simp only: of_int_le_iff)
  then have "of_int (round_half_even (x / 2 powi ?ux)) * 2 powi ?ux \<le> (2 ^ k * 2 powi ?ux :: rat)"
    by (intro mult_right_mono) simp_all
  then have a: "f64_round x \<le> ?B"
    using x by (simp add: f64_round_pos k power_int_add mult.commute)
  have by1: "?B \<le> y" using bexp_bounds [OF y] by simp
  have "2 powi bexp y = (2 ^ 52 * 2 powi ulp_exp y :: rat)"
    using power_int_add [of "2::rat" 52 "ulp_exp y"] by (simp add: lt(2))
  then have "of_int (2 ^ 52) \<le> y / 2 powi ulp_exp y"
    using by1 by (simp add: le_divide_eq)
  then have "2 ^ 52 \<le> round_half_even (y / 2 powi ulp_exp y)" by (rule round_half_even_ge_of_int)
  then have "(of_int (2 ^ 52) :: rat) \<le> of_int (round_half_even (y / 2 powi ulp_exp y))"
    by (simp only: of_int_le_iff)
  then have "(2 ^ 52 :: rat) * 2 powi ulp_exp y
      \<le> of_int (round_half_even (y / 2 powi ulp_exp y)) * 2 powi ulp_exp y"
    by (intro mult_right_mono) simp_all
  then have "?B \<le> f64_round y"
    using y \<open>2 powi bexp y = _\<close> by (simp add: f64_round_pos)
  with a show ?thesis by simp
qed

lemma f64_round_mono:
  assumes "0 \<le> x" "x \<le> y"
  shows "f64_round x \<le> f64_round y"
proof (cases "x = 0")
  case True
  then show ?thesis using assms f64_round_nonneg [of y] by simp
next
  case False
  with assms show ?thesis by (intro f64_round_mono_pos) auto
qed

lemma f64_round_ge: "representable x \<Longrightarrow> 0 \<le> x \<Longrightarrow> x \<le> y \<Longrightarrow> x \<le> f64_round y"
  using f64_round_mono [of x y] by (simp add: representable_def)

lemma f64_round_le: "representable y \<Longrightarrow> 0 \<le> x \<Longrightarrow> x \<le> y \<Longrightarrow> f64_round x \<le> y"
  using f64_round_mono [of x y] by (simp add: representable_def)

section \<open>Operations and conversions\<close>

definition fadd :: "f64 \<Rightarrow> f64 \<Rightarrow> f64" where "fadd x y = f64_round (x + y)"
definition fsub :: "f64 \<Rightarrow> f64 \<Rightarrow> f64" where "fsub x y = f64_round (x - y)"
definition fmul :: "f64 \<Rightarrow> f64 \<Rightarrow> f64" where "fmul x y = f64_round (x * y)"
definition fdiv :: "f64 \<Rightarrow> f64 \<Rightarrow> f64" where "fdiv x y = f64_round (x / y)"

definition fclamp :: "f64 \<Rightarrow> f64 \<Rightarrow> f64 \<Rightarrow> f64" where
  "fclamp x lo hi = (if x < lo then lo else if hi < x then hi else x)"

definition f64_of_nat :: "nat \<Rightarrow> f64" where "f64_of_nat n = f64_round (of_nat n)"

text \<open>A cast from float to an unsigned integer truncates and saturates at both ends.\<close>

definition f64_to_uint :: "nat \<Rightarrow> f64 \<Rightarrow> nat" where
  "f64_to_uint m x = min (nat \<lfloor>x\<rfloor>) m"

lemma fclamp_bounds: "lo \<le> hi \<Longrightarrow> lo \<le> fclamp x lo hi \<and> fclamp x lo hi \<le> hi"
  by (auto simp: fclamp_def)

lemma fclamp_id: "lo \<le> x \<Longrightarrow> x \<le> hi \<Longrightarrow> fclamp x lo hi = x"
  by (auto simp: fclamp_def)

lemma fclamp_mono: "lo \<le> hi \<Longrightarrow> x \<le> y \<Longrightarrow> fclamp x lo hi \<le> fclamp y lo hi"
  by (auto simp: fclamp_def)

lemma fadd_nonneg: "0 \<le> x \<Longrightarrow> 0 \<le> y \<Longrightarrow> 0 \<le> fadd x y"
  by (simp add: fadd_def f64_round_nonneg)

lemma fadd_ge:
  assumes "representable x" "0 \<le> x" "0 \<le> y"
  shows "x \<le> fadd x y"
  using assms by (simp add: fadd_def f64_round_ge)

lemma fmul_nonneg: "0 \<le> x \<Longrightarrow> 0 \<le> y \<Longrightarrow> 0 \<le> fmul x y"
  by (simp add: fmul_def f64_round_nonneg)

lemma fdiv_nonneg: "0 \<le> x \<Longrightarrow> 0 \<le> y \<Longrightarrow> 0 \<le> fdiv x y"
  by (simp add: fdiv_def f64_round_nonneg)

lemma f64_of_nat_small: "n \<le> 2 ^ 53 \<Longrightarrow> f64_of_nat n = of_nat n"
  by (simp add: f64_of_nat_def f64_round_of_nat)

lemma f64_to_uint_le: "f64_to_uint m x \<le> m"
  by (simp add: f64_to_uint_def)

section \<open>Durations\<close>

abbreviation nanos_per_sec :: nat where "nanos_per_sec \<equiv> 1000000000"

definition duration_from_secs :: "nat \<Rightarrow> nat" where
  "duration_from_secs s = s * nanos_per_sec"

definition duration_from_millis :: "nat \<Rightarrow> nat" where
  "duration_from_millis ms = ms * 1000000"

definition as_millis :: "nat \<Rightarrow> nat" where "as_millis d = d div 1000000"

definition as_secs :: "nat \<Rightarrow> nat" where "as_secs d = d div nanos_per_sec"

definition as_secs_f64 :: "nat \<Rightarrow> f64" where
  "as_secs_f64 d =
     fadd (f64_of_nat (d div nanos_per_sec))
       (fdiv (f64_of_nat (d mod nanos_per_sec)) (f64_of_nat nanos_per_sec))"

text \<open>
  \<open>from_secs_f64\<close> rounds the exact value of the double to the nearest nanosecond, ties to
  even. It panics on a negative argument and on one of 2 ^ 64 seconds or more; the callers
  clamp to a few seconds first.
\<close>

definition from_secs_f64 :: "f64 \<Rightarrow> nat" where
  "from_secs_f64 x = nat (round_half_even (x * of_nat nanos_per_sec))"

definition from_secs_f64_defined :: "f64 \<Rightarrow> bool" where
  "from_secs_f64_defined x = (0 \<le> x \<and> x < 2 ^ 64)"

lemma from_secs_f64_mono: "x \<le> y \<Longrightarrow> from_secs_f64 x \<le> from_secs_f64 y"
  by (simp add: from_secs_f64_def nat_mono round_half_even_mono)

lemma as_secs_f64_nonneg: "0 \<le> as_secs_f64 d"
  by (simp add: as_secs_f64_def f64_of_nat_def fadd_nonneg fdiv_nonneg f64_round_nonneg)

text \<open>The rounding error of a value below \<open>2 ^ e\<close> is at most half a unit in the last place.\<close>

lemma round_half_even_error: "\<bar>of_int (round_half_even x) - x\<bar> \<le> 1 / 2"
  using of_int_floor_le [of x] floor_correct [of x]
  by (auto simp: round_half_even_def Let_def abs_le_iff)

lemma f64_round_error:
  assumes x: "0 \<le> x" "x < 2 powi e" and e: "- 1021 \<le> e"
  shows "\<bar>f64_round x - x\<bar> \<le> 2 powi (e - 54)"
proof (cases "x = 0")
  case False
  with x have xpos: "0 < x" by simp
  let ?u = "(2::rat) powi ulp_exp x"
  have "2 powi bexp x < (2::rat) powi e" using bexp_bounds [OF xpos] x(2) by linarith
  then have "bexp x < e" by (simp add: powi2_less_iff)
  then have "ulp_exp x \<le> e - 53" using e by (simp add: ulp_exp_def)
  then have ue: "?u \<le> 2 powi (e - 53)" by (simp add: powi2_le_iff)
  have "f64_round x - x = (of_int (round_half_even (x / ?u)) - x / ?u) * ?u"
    using xpos by (simp add: f64_round_pos left_diff_distrib)
  then have "\<bar>f64_round x - x\<bar> = \<bar>of_int (round_half_even (x / ?u)) - x / ?u\<bar> * ?u"
    by (simp add: abs_mult)
  also have "\<dots> \<le> 1 / 2 * ?u"
    by (intro mult_right_mono round_half_even_error) simp
  also have "\<dots> \<le> 1 / 2 * 2 powi (e - 53)" using ue by simp
  also have "\<dots> = 2 powi (e - 54)"
    using power_int_add [of "2::rat" "e - 54" 1] by simp
  finally show ?thesis .
qed simp

lemma round_half_even_near:
  assumes "\<bar>x - of_int n\<bar> < 1 / 2"
  shows "round_half_even x = n"
proof -
  have "of_int n - 1 / 2 < x" "x < of_int n + 1 / 2" using assms by linarith+
  then consider "\<lfloor>x\<rfloor> = n" | "\<lfloor>x\<rfloor> = n - 1" by linarith
  then show ?thesis
    using \<open>of_int n - 1 / 2 < x\<close> \<open>x < of_int n + 1 / 2\<close>
    by cases (auto simp: round_half_even_def Let_def)
qed

lemma as_secs_f64_error:
  assumes "d < 4 * nanos_per_sec"
  shows "\<bar>as_secs_f64 d - of_nat d / of_nat nanos_per_sec\<bar> \<le> 2 powi (- 50)"
proof -
  let ?s = "d div nanos_per_sec" and ?n = "d mod nanos_per_sec"
  let ?B = "of_nat nanos_per_sec :: rat"
  have n: "?n < nanos_per_sec" by simp
  have s4: "?s \<le> 3" using assms by simp
  have fs: "f64_of_nat ?s = of_nat ?s" by (rule f64_of_nat_small) (use s4 in simp)
  have fn: "f64_of_nat ?n = of_nat ?n" by (rule f64_of_nat_small) (use n in simp)
  have fb: "f64_of_nat nanos_per_sec = ?B" by (rule f64_of_nat_small) simp
  have nB: "(of_nat ?n :: rat) < ?B" using n by (simp only: of_nat_less_iff)
  let ?q = "of_nat ?n / ?B :: rat"
  have q: "0 \<le> ?q" "?q < 2 powi 0" using nB by (simp_all add: divide_less_eq)
  have e1: "\<bar>f64_round ?q - ?q\<bar> \<le> 2 powi (0 - 54)" by (rule f64_round_error [OF q]) simp
  let ?t = "of_nat ?s + f64_round ?q"
  have "f64_round ?q \<le> 1"
    using q representable_of_nat [of 1] by (intro f64_round_le) simp_all
  moreover have "(of_nat ?s :: rat) \<le> of_nat 3" using s4 by (simp only: of_nat_le_iff)
  ultimately have t: "0 \<le> ?t" "?t < 2 powi 3"
    using f64_round_nonneg [OF q(1)] by simp_all
  have e2: "\<bar>f64_round ?t - ?t\<bar> \<le> 2 powi (3 - 54)" by (rule f64_round_error [OF t]) simp
  have "(of_nat d :: rat) = of_nat ?s * ?B + of_nat ?n"
    by (metis div_mult_mod_eq of_nat_add of_nat_mult)
  then have "of_nat d / ?B = of_nat ?s + ?q" by (simp add: add_divide_distrib)
  moreover have "as_secs_f64 d = f64_round ?t"
    unfolding as_secs_f64_def fs fn fb fadd_def fdiv_def by (rule refl)
  moreover have "(2::rat) powi (0 - 54) + 2 powi (3 - 54) \<le> 2 powi (- 50)"
    by (simp add: power_int_def power_divide)
  ultimately show ?thesis using e1 e2 by linarith
qed

end
