(* ===== verification/Congestion.thy ===== *)
theory Congestion
  imports Float64 Protocol
begin

text \<open>
  The congestion controller of the direct tunnel (\<open>DirectCongestionController\<close> in
  \<open>minipunch-agent/src/direct.rs\<close>): slow start, congestion avoidance, fast recovery and the
  reaction to a timeout, over binary64 windows; and the metrics it reports.
\<close>

section \<open>Constants\<close>

definition tunnel_max_plaintext :: nat where "tunnel_max_plaintext = 1024"
definition initial_window_size :: nat where "initial_window_size = 4"
definition min_window_size :: nat where "min_window_size = 2"
definition max_window_size :: nat where "max_window_size = 32"
definition dup_ack_threshold :: nat where "dup_ack_threshold = 3"
definition timer_granularity :: nat where "timer_granularity = duration_from_millis 50"
definition initial_rto :: nat where "initial_rto = duration_from_millis 250"
definition min_rto :: nat where "min_rto = duration_from_millis 120"
definition max_rto :: nat where "max_rto = duration_from_secs 2"
definition max_retransmit_attempts :: nat where "max_retransmit_attempts = 20"
definition max_reorder_buffer :: nat where "max_reorder_buffer = 64"
definition max_selective_acks :: nat where "max_selective_acks = 8"
definition housekeeping_interval :: nat where "housekeeping_interval = duration_from_secs 1"
definition keepalive_idle_after :: nat where "keepalive_idle_after = duration_from_secs 10"
definition keepalive_send_interval :: nat where "keepalive_send_interval = duration_from_secs 10"
definition peer_idle_timeout :: nat where "peer_idle_timeout = duration_from_secs 35"
definition metrics_report_interval :: nat where "metrics_report_interval = duration_from_millis 500"

abbreviation min_window_f :: f64 where "min_window_f \<equiv> f64_of_nat min_window_size"
abbreviation max_window_f :: f64 where "max_window_f \<equiv> f64_of_nat max_window_size"

lemma window_consts [simp]:
  "min_window_f = 2" "max_window_f = 32" "f64_of_nat initial_window_size = 4"
  "f64_of_nat dup_ack_threshold = 3"
  by (simp_all add: f64_of_nat_small min_window_size_def max_window_size_def
      initial_window_size_def dup_ack_threshold_def)

section \<open>The controller\<close>

record congestion_controller =
  cwnd_packets :: f64
  ssthresh_packets :: f64
  fast_recovery :: "nat option"

definition congestion_default :: congestion_controller where
  "congestion_default =
     \<lparr>cwnd_packets = f64_of_nat initial_window_size,
      ssthresh_packets = f64_of_nat max_window_size,
      fast_recovery = None\<rparr>"

definition clamp_window :: "f64 \<Rightarrow> f64" where
  "clamp_window x = fclamp x min_window_f max_window_f"

definition send_window_size :: "congestion_controller \<Rightarrow> nat" where
  "send_window_size c = f64_to_uint usize_max (clamp_window (of_int \<lfloor>cwnd_packets c\<rfloor>))"

definition compute_ssthresh :: "nat \<Rightarrow> f64" where
  "compute_ssthresh inflight =
     clamp_window (fdiv (f64_of_nat (max inflight min_window_size)) 2)"

definition avoidance_step :: "f64 \<Rightarrow> f64" where
  "avoidance_step w = fadd w (fdiv 1 (max w 1))"

definition grow_window :: "congestion_controller \<Rightarrow> nat \<Rightarrow> congestion_controller" where
  "grow_window c acked =
     (let w = (if cwnd_packets c < ssthresh_packets c
               then fadd (cwnd_packets c) (f64_of_nat acked)
               else (avoidance_step ^^ acked) (cwnd_packets c))
      in c\<lparr>cwnd_packets := clamp_window w\<rparr>)"

definition on_ack_progress ::
  "congestion_controller \<Rightarrow> nat \<Rightarrow> nat \<Rightarrow> nat option \<Rightarrow> congestion_controller \<times> nat option" where
  "on_ack_progress c acked next_sequence missing_front =
     (if acked = 0 then (c, None)
      else case fast_recovery c of
        Some recover_until \<Rightarrow>
          if recover_until \<le> next_sequence
          then (c\<lparr>fast_recovery := None, cwnd_packets := clamp_window (ssthresh_packets c)\<rparr>, None)
          else (c\<lparr>cwnd_packets := clamp_window (fadd (ssthresh_packets c) 1)\<rparr>, missing_front)
      | None \<Rightarrow> (grow_window c acked, None))"

definition on_duplicate_ack :: "congestion_controller \<Rightarrow> congestion_controller" where
  "on_duplicate_ack c =
     (if fast_recovery c \<noteq> None
      then c\<lparr>cwnd_packets := min (fadd (cwnd_packets c) 1) max_window_f\<rparr> else c)"

definition on_fast_retransmit ::
  "congestion_controller \<Rightarrow> nat \<Rightarrow> nat \<Rightarrow> congestion_controller" where
  "on_fast_retransmit c inflight recover_until =
     (let s = compute_ssthresh inflight in
      c\<lparr>ssthresh_packets := s,
        cwnd_packets := clamp_window (fadd s (f64_of_nat dup_ack_threshold)),
        fast_recovery := Some recover_until\<rparr>)"

definition on_timeout :: "congestion_controller \<Rightarrow> nat \<Rightarrow> congestion_controller" where
  "on_timeout c inflight =
     c\<lparr>ssthresh_packets := compute_ssthresh inflight,
       cwnd_packets := min_window_f,
       fast_recovery := None\<rparr>"

section \<open>Metrics\<close>

record direct_transport_metrics =
  mt_window_packets :: nat
  mt_ssthresh_packets :: nat
  mt_rto_ms :: nat
  mt_smoothed_rtt_ms :: "nat option"
  mt_pending_outbound :: nat
  mt_pending_inbound :: nat
  mt_fast_recovery :: bool
  mt_keepalive_sent :: nat
  mt_keepalive_ack :: nat

definition clamp_packet_count :: "f64 \<Rightarrow> nat" where
  "clamp_packet_count v = f64_to_uint u32_max (fclamp (of_int \<lfloor>v\<rfloor>) 0 (f64_of_nat u32_max))"

definition clamp_optional_ms :: "f64 option \<Rightarrow> nat option" where
  "clamp_optional_ms v = map_option (\<lambda>x. f64_to_uint u64_max (min (max x 0) (f64_of_nat u64_max))) v"

definition runtime_metrics ::
  "congestion_controller \<Rightarrow> nat \<Rightarrow> f64 option \<Rightarrow> nat \<Rightarrow> nat \<Rightarrow> nat \<Rightarrow> nat
     \<Rightarrow> direct_transport_metrics" where
  "runtime_metrics c current_rto smoothed_rtt_ms pending_out pending_in sent acked =
     \<lparr>mt_window_packets = clamp_packet_count (cwnd_packets c),
      mt_ssthresh_packets = clamp_packet_count (ssthresh_packets c),
      mt_rto_ms = min (as_millis current_rto) u64_max,
      mt_smoothed_rtt_ms = clamp_optional_ms smoothed_rtt_ms,
      mt_pending_outbound = min pending_out u32_max,
      mt_pending_inbound = min pending_in u32_max,
      mt_fast_recovery = (fast_recovery c \<noteq> None),
      mt_keepalive_sent = sent,
      mt_keepalive_ack = acked\<rparr>"

section \<open>The window invariant\<close>

definition window_ok :: "f64 \<Rightarrow> bool" where
  "window_ok w = (2 \<le> w \<and> w \<le> 32 \<and> representable w)"

definition congestion_ok :: "congestion_controller \<Rightarrow> bool" where
  "congestion_ok c = (window_ok (cwnd_packets c) \<and> window_ok (ssthresh_packets c))"

lemma representable_small [simp]:
  "representable 0" "representable 1" "representable (numeral n)" if "numeral n \<le> (2 ^ 53 :: nat)"
  using representable_of_nat [of 0] representable_of_nat [of 1] representable_of_nat [of "numeral n"] that
  by simp_all

lemma window_ok_clamp [bounds_intro]:
  assumes "representable w"
  shows "window_ok (clamp_window w)"
  using assms by (simp add: window_ok_def clamp_window_def fclamp_def)

lemma clamp_window_id: "window_ok w \<Longrightarrow> clamp_window w = w"
  by (simp add: window_ok_def clamp_window_def fclamp_def)

lemma representable_fadd: "0 \<le> x \<Longrightarrow> 0 \<le> y \<Longrightarrow> representable (fadd x y)"
  by (simp add: fadd_def f64_round_representable)

lemma representable_fdiv: "0 \<le> x \<Longrightarrow> 0 \<le> y \<Longrightarrow> representable (fdiv x y)"
  by (simp add: fdiv_def f64_round_representable)

lemma f64_of_nat_nonneg: "0 \<le> f64_of_nat n"
  by (simp add: f64_of_nat_def f64_round_nonneg)

lemma compute_ssthresh_ok [bounds_intro]: "window_ok (compute_ssthresh n)"
  unfolding compute_ssthresh_def
  by (intro window_ok_clamp representable_fdiv f64_of_nat_nonneg) simp

lemma avoidance_step_ge:
  assumes "0 \<le> w" "representable w"
  shows "w \<le> avoidance_step w" "representable (avoidance_step w)"
proof -
  have "0 \<le> fdiv 1 (max w 1)" using assms(1) by (intro fdiv_nonneg) simp_all
  then show "w \<le> avoidance_step w" "representable (avoidance_step w)"
    using assms by (simp_all add: avoidance_step_def fadd_ge representable_fadd)
qed

lemma avoidance_steps_ge:
  assumes "0 \<le> w" "representable w"
  shows "w \<le> (avoidance_step ^^ n) w \<and> representable ((avoidance_step ^^ n) w)"
proof (induction n)
  case (Suc n)
  moreover from this assms(1) have "0 \<le> (avoidance_step ^^ n) w" by linarith
  ultimately show ?case using avoidance_step_ge [of "(avoidance_step ^^ n) w"] by simp
qed (use assms in simp)

lemma congestion_default_ok [wf_intro]: "congestion_ok congestion_default"
  by (simp add: congestion_ok_def congestion_default_def window_ok_def)

lemma grow_window_ok [wf_intro]:
  assumes "congestion_ok c"
  shows "congestion_ok (grow_window c n)"
proof -
  have "0 \<le> cwnd_packets c" "representable (cwnd_packets c)"
    using assms by (auto simp: congestion_ok_def window_ok_def)
  then show ?thesis
    using assms avoidance_steps_ge [of "cwnd_packets c" n]
    by (simp add: grow_window_def Let_def congestion_ok_def window_ok_clamp representable_fadd
        f64_of_nat_nonneg)
qed

lemma on_ack_progress_ok [wf_intro]:
  assumes "congestion_ok c"
  shows "congestion_ok (fst (on_ack_progress c n s m))"
proof -
  have "window_ok (clamp_window (fadd (ssthresh_packets c) 1))"
    using assms by (intro window_ok_clamp representable_fadd) (auto simp: congestion_ok_def window_ok_def)
  moreover have "window_ok (clamp_window (ssthresh_packets c))"
    using assms by (simp add: congestion_ok_def clamp_window_id)
  ultimately show ?thesis
    using assms grow_window_ok [OF assms, of n]
    by (auto simp: on_ack_progress_def congestion_ok_def split: option.splits)
qed

lemma on_duplicate_ack_ok [wf_intro]:
  assumes "congestion_ok c"
  shows "congestion_ok (on_duplicate_ack c)"
proof -
  have w: "2 \<le> cwnd_packets c" "representable (cwnd_packets c)"
    using assms by (auto simp: congestion_ok_def window_ok_def)
  then have "cwnd_packets c \<le> fadd (cwnd_packets c) 1" "representable (fadd (cwnd_packets c) 1)"
    by (simp_all add: fadd_ge representable_fadd)
  with w assms show ?thesis
    by (auto simp: on_duplicate_ack_def congestion_ok_def window_ok_def min_def)
qed

lemma on_fast_retransmit_ok [wf_intro]: "congestion_ok (on_fast_retransmit c n r)"
proof -
  have s: "window_ok (compute_ssthresh n)" by (rule compute_ssthresh_ok)
  then have "window_ok (clamp_window (fadd (compute_ssthresh n) 3))"
    by (intro window_ok_clamp representable_fadd) (auto simp: window_ok_def)
  with s show ?thesis by (simp add: on_fast_retransmit_def congestion_ok_def Let_def)
qed

lemma on_timeout_ok [wf_intro]: "congestion_ok (on_timeout c n)"
  using compute_ssthresh_ok [of n]
  by (simp add: on_timeout_def congestion_ok_def) (simp add: window_ok_def)

section \<open>The size of the send window\<close>

text \<open>Whatever the controller holds, the send window stays between 2 and 32 packets.\<close>

lemma send_window_bounds:
  "min_window_size \<le> send_window_size c" "send_window_size c \<le> max_window_size"
  unfolding send_window_size_def clamp_window_def fclamp_def f64_to_uint_def window_consts
  by (auto simp: min_window_size_def max_window_size_def u64_max_def min_def nat_le_iff le_nat_iff)

lemma send_window_floor:
  "congestion_ok c \<Longrightarrow> send_window_size c = nat \<lfloor>cwnd_packets c\<rfloor>"
  by (auto simp: send_window_size_def clamp_window_def fclamp_def f64_to_uint_def congestion_ok_def
      window_ok_def u64_max_def floor_less_iff less_floor_iff min_def nat_le_iff)

lemma send_window_mono:
  assumes "cwnd_packets c \<le> cwnd_packets d"
  shows "send_window_size c \<le> send_window_size d"
proof -
  have "(of_int \<lfloor>cwnd_packets c\<rfloor> :: rat) \<le> of_int \<lfloor>cwnd_packets d\<rfloor>"
    using assms by (simp add: floor_mono)
  then have "clamp_window (of_int \<lfloor>cwnd_packets c\<rfloor>) \<le> clamp_window (of_int \<lfloor>cwnd_packets d\<rfloor>)"
    unfolding clamp_window_def by (intro fclamp_mono) simp_all
  then show ?thesis
    unfolding send_window_size_def f64_to_uint_def
    by (intro min.mono nat_mono floor_mono) simp_all
qed

section \<open>Growth and back-off\<close>

lemma grow_window_mono:
  assumes "congestion_ok c"
  shows "cwnd_packets c \<le> cwnd_packets (grow_window c n)"
proof -
  have w: "2 \<le> cwnd_packets c" "cwnd_packets c \<le> 32" "representable (cwnd_packets c)"
    using assms by (auto simp: congestion_ok_def window_ok_def)
  let ?w = "if cwnd_packets c < ssthresh_packets c
    then fadd (cwnd_packets c) (f64_of_nat n) else (avoidance_step ^^ n) (cwnd_packets c)"
  have "cwnd_packets c \<le> ?w"
    using w avoidance_steps_ge [of "cwnd_packets c" n] by (simp add: fadd_ge f64_of_nat_nonneg)
  with w have "cwnd_packets c \<le> clamp_window ?w"
    by (auto simp: clamp_window_def fclamp_def)
  then show ?thesis by (simp add: grow_window_def Let_def)
qed

text \<open>Slow start adds one packet per acknowledged packet.\<close>

lemma slow_start_exact:
  assumes "cwnd_packets c = of_nat w" "w \<le> 32" "cwnd_packets c < ssthresh_packets c" "n \<le> 2 ^ 52"
    "2 \<le> w"
  shows "cwnd_packets (grow_window c n) = of_nat (min (w + n) 32)"
proof -
  have n: "f64_of_nat n = of_nat n" using assms(4) by (intro f64_of_nat_small) simp
  have "fadd (of_nat w) (of_nat n) = of_nat (w + n)"
    using f64_round_of_nat [of "w + n"] assms(2,4) by (simp add: fadd_def)
  then have "cwnd_packets (grow_window c n) = clamp_window (of_nat (w + n))"
    using assms(1,3) n by (simp add: grow_window_def Let_def)
  moreover have "(32::rat) < of_nat (w + n) \<longleftrightarrow> 32 < w + n"
    using of_nat_less_iff [of 32 "w + n", where 'a = rat] by simp
  moreover have "\<not> (of_nat (w + n) < (2::rat))"
    using of_nat_less_iff [of "w + n" 2, where 'a = rat] assms(5) by simp
  ultimately show ?thesis
    by (simp add: clamp_window_def fclamp_def min_def del: of_nat_add)
qed

text \<open>A loss halves the flight size, within the window bounds.\<close>

lemma representable_half: "0 \<le> m \<Longrightarrow> m \<le> 2 ^ 53 \<Longrightarrow> representable (of_int m / 2)"
  by (rule representableI [where m = m and q = "- 1"]) (simp_all add: power_int_def)

lemma compute_ssthresh_half:
  assumes "n \<le> 2 ^ 52"
  shows "compute_ssthresh n = max 2 (min 32 (of_nat n / 2))"
proof -
  let ?m = "max n 2"
  have m: "?m \<le> 2 ^ 53" using assms by simp
  have "int ?m \<le> 2 ^ 53" using m by (metis of_nat_le_iff of_nat_numeral of_nat_power)
  then have "representable (of_nat ?m / 2)"
    using representable_half [of "int ?m"] by simp
  then have e: "fdiv (f64_of_nat ?m) 2 = of_nat ?m / 2"
    unfolding fdiv_def f64_of_nat_small [OF m] by (simp only: representable_def)
  have "compute_ssthresh n = clamp_window (of_nat ?m / 2)"
    using e by (simp only: compute_ssthresh_def min_window_size_def)
  also have "\<dots> = max 2 (min 32 (of_nat n / 2))"
  proof (cases "n \<le> 2")
    case True
    then have "(of_nat n :: rat) \<le> of_nat 2" by (simp only: of_nat_le_iff)
    with True show ?thesis by (simp add: clamp_window_def fclamp_def max_def min_def)
  next
    case False
    then show ?thesis by (simp add: clamp_window_def fclamp_def max_def min_def)
  qed
  finally show ?thesis .
qed

lemma fadd_small_halves:
  assumes "x = of_int a / 2" "y = of_int b / 2" "0 \<le> a" "0 \<le> b" "a + b \<le> 2 ^ 53"
  shows "fadd x y = x + y"
proof -
  have "representable (x + y)"
    unfolding assms(1,2) using representable_half [of "a + b"] assms(3-5)
    by (simp add: add_divide_distrib)
  then show ?thesis by (simp add: fadd_def representable_def)
qed

lemma fast_retransmit_window:
  assumes "n \<le> 2 ^ 52"
  shows "cwnd_packets (on_fast_retransmit c n r) = min 32 (compute_ssthresh n + 3)"
proof -
  have "\<exists>a. compute_ssthresh n = of_int a / 2 \<and> 0 \<le> a \<and> a \<le> 64"
  proof -
    consider "compute_ssthresh n = 2" | "compute_ssthresh n = 32"
      | "compute_ssthresh n = of_nat n / 2" "of_nat n / 2 \<le> (32::rat)"
      using compute_ssthresh_half [OF assms] by (auto simp: max_def min_def split: if_splits)
    then show ?thesis
    proof cases
      case 1
      then show ?thesis by (intro exI [of _ 4]) simp
    next
      case 2
      then show ?thesis by (intro exI [of _ 64]) simp
    next
      case 3
      then have "(of_nat n :: rat) \<le> of_nat 64" by simp
      then have "n \<le> 64" by (simp only: of_nat_le_iff)
      with 3(1) show ?thesis by (intro exI [of _ "int n"]) simp
    qed
  qed
  then obtain a where a: "compute_ssthresh n = of_int a / 2" "0 \<le> a" "a \<le> 64" by blast
  have "fadd (compute_ssthresh n) 3 = compute_ssthresh n + 3"
    using a by (intro fadd_small_halves [where a = a and b = 6]) simp_all
  moreover have "2 \<le> compute_ssthresh n"
    using compute_ssthresh_ok [of n] by (simp add: window_ok_def)
  ultimately show ?thesis
    by (simp add: on_fast_retransmit_def Let_def clamp_window_def fclamp_def min_def
        del: window_consts(1,2)) (simp add: min_def)
qed

lemma timeout_window: "send_window_size (on_timeout c n) = min_window_size"
proof -
  have "cwnd_packets (on_timeout c n) = 2" by (simp add: on_timeout_def)
  then show ?thesis
    by (simp add: send_window_size_def clamp_window_def fclamp_def f64_to_uint_def u64_max_def)
      (simp add: min_window_size_def)
qed

end
