(* ===== verification/Reorder.thy ===== *)
theory Reorder
  imports Scoreboard Congestion
begin

text \<open>
  The receiving side of the direct tunnel (\<open>queue_inbound_direct_payload\<close> and
  \<open>direct_channel_selective_ack_ranges\<close> in \<open>minipunch-agent/src/direct.rs\<close>): the
  reorder buffer and the selective acknowledgement built from it. The specification of the buffer
  is the set of sequence numbers received: everything below the expected one, and the buffered keys.
\<close>

section \<open>Operations\<close>

type_synonym inbound = "(nat, string) btree"

function drain_ready :: "nat \<Rightarrow> inbound \<Rightarrow> string list \<times> nat \<times> inbound" where
  "drain_ready expected pending =
     (case bt_get pending expected of
        None \<Rightarrow> ([], expected, pending)
      | Some payload \<Rightarrow>
          let (ps, e, m) = drain_ready (wrap_add64 expected 1) (bt_remove expected pending)
          in (payload # ps, e, m))"
  by pat_completeness auto
termination
  by (relation "measure (\<lambda>(_, m). length m)")
    (auto dest: bt_get_Some_contains length_bt_remove_less)

declare drain_ready.simps [simp del]

definition queue_inbound ::
  "nat \<Rightarrow> inbound \<Rightarrow> nat \<Rightarrow> string \<Rightarrow> string list \<times> nat \<times> inbound" where
  "queue_inbound expected pending sequence data =
     (if sequence < expected then ([], expected, pending)
      else
        let max_buffered = sat_add64 expected max_reorder_buffer in
        if max_buffered < sequence then ([], expected, pending)
        else if sequence = expected then
          let (ps, e, m) = drain_ready (wrap_add64 expected 1) pending in (data # ps, e, m)
        else if max_reorder_buffer \<le> length pending \<and> \<not> bt_contains pending sequence
        then ([], expected, pending)
        else ([], expected, bt_or_insert sequence data pending))"

text \<open>The loop over the keys of the buffer; \<open>s\<close> and \<open>e\<close> delimit the current run.\<close>

fun sack_loop :: "ack_range list \<Rightarrow> nat \<Rightarrow> nat \<Rightarrow> nat list \<Rightarrow> ack_range list" where
  "sack_loop ranges s e [] =
     (if length ranges < max_selective_acks then ranges @ [mk_range s e] else ranges)"
| "sack_loop ranges s e (k # ks) =
     (if k = sat_add64 e 1 then sack_loop ranges s k ks
      else
        let ranges' = ranges @ [mk_range s e] in
        if max_selective_acks \<le> length ranges' then ranges' else sack_loop ranges' k k ks)"

definition selective_ack_ranges :: "inbound \<Rightarrow> ack_range list" where
  "selective_ack_ranges pending =
     (case bt_keys pending of [] \<Rightarrow> [] | k # ks \<Rightarrow> sack_loop [] k k ks)"

section \<open>The set of received sequence numbers\<close>

definition keys :: "inbound \<Rightarrow> nat set" where
  "keys m = fst ` set m"

definition received :: "nat \<Rightarrow> inbound \<Rightarrow> nat set" where
  "received e m = {..<e} \<union> keys m"

text \<open>The buffer holds keys just above the expected sequence number, each with its payload.\<close>

definition reorder_ok :: "nat \<Rightarrow> inbound \<Rightarrow> bool" where
  "reorder_ok e m = (bt_ok m \<and> (\<forall>k\<in>keys m. e < k \<and> k \<le> e + max_reorder_buffer))"

definition payloads_are :: "(nat \<Rightarrow> string) \<Rightarrow> inbound \<Rightarrow> bool" where
  "payloads_are ct m = (\<forall>(k, d)\<in>set m. d = ct k)"

lemma keys_Nil [simp]: "keys [] = {}"
  by (simp add: keys_def)

lemma finite_keys [simp]: "finite (keys m)"
  by (simp add: keys_def)

lemma keys_remove: "keys (bt_remove k m) = keys m - {k}"
  by (auto simp: keys_def bt_remove_def image_iff)

lemma keys_or_insert: "keys (bt_or_insert k v m) = insert k (keys m)"
  by (auto simp: keys_def bt_or_insert_def bt_insert_keys bt_contains_iff)

lemma card_keys: "bt_ok m \<Longrightarrow> card (keys m) = length m"
  using distinct_card [OF bt_ok_distinct, of m] by (simp add: keys_def)

lemma bt_get_keys: "bt_get m k = None \<longleftrightarrow> k \<notin> keys m"
  by (simp add: bt_get_None_iff bt_contains_iff keys_def)

lemma payloads_are_get: "payloads_are ct m \<Longrightarrow> bt_get m k = Some d \<Longrightarrow> d = ct k"
  by (auto simp: payloads_are_def bt_get_def dest: map_of_SomeD)

lemma payloads_are_remove: "payloads_are ct m \<Longrightarrow> payloads_are ct (bt_remove k m)"
  by (auto simp: payloads_are_def bt_remove_set)

text \<open>The capacity guard of the code is never the reason to drop a packet in the window.\<close>

lemma reorder_capacity:
  assumes "reorder_ok e m" "e < s" "s \<le> e + max_reorder_buffer" "\<not> bt_contains m s"
  shows "length m < max_reorder_buffer"
proof -
  have "keys m \<subseteq> {e<..e + max_reorder_buffer} - {s}"
    using assms by (auto simp: reorder_ok_def bt_contains_iff keys_def)
  then have "card (keys m) \<le> card ({e<..e + max_reorder_buffer} - {s})"
    by (intro card_mono) simp_all
  also have "\<dots> < max_reorder_buffer"
    using assms(2,3) by (subst card_Diff_singleton) (simp_all add: max_reorder_buffer_def)
  finally show ?thesis using assms(1) by (simp add: card_keys reorder_ok_def)
qed

section \<open>Draining\<close>

lemma drain_ready_correct:
  assumes "bt_ok m" "payloads_are ct m" "e + length m \<le> u64_max"
  shows "case drain_ready e m of (ps, e', m') \<Rightarrow>
    e \<le> e' \<and> e' \<le> e + length m \<and> ps = map ct [e..<e'] \<and> {e..<e'} \<subseteq> keys m \<and> e' \<notin> keys m'
    \<and> bt_ok m' \<and> payloads_are ct m' \<and> keys m' = keys m - {e..<e'}"
  using assms
proof (induction e m rule: drain_ready.induct)
  case (1 e m)
  show ?case
  proof (cases "bt_get m e")
    case None
    then show ?thesis
      using "1.prems" bt_get_keys [of m e] by (subst drain_ready.simps) simp
  next
    case (Some p)
    then have e: "e \<in> keys m" "p = ct e"
      using bt_get_keys [of m e] payloads_are_get [OF "1.prems"(2)] by auto
    have len: "length (bt_remove e m) < length m"
      using Some by (intro length_bt_remove_less bt_get_Some_contains)
    then have w: "wrap_add64 e 1 = Suc e" using "1.prems"(3) by (intro wrap_add64_Suc) simp
    obtain ps e' m' where d: "drain_ready (Suc e) (bt_remove e m) = (ps, e', m')"
      by (cases "drain_ready (Suc e) (bt_remove e m)") auto
    have "case drain_ready (wrap_add64 e 1) (bt_remove e m) of (ps, e', m') \<Rightarrow>
      wrap_add64 e 1 \<le> e' \<and> e' \<le> wrap_add64 e 1 + length (bt_remove e m)
      \<and> ps = map ct [wrap_add64 e 1..<e'] \<and> {wrap_add64 e 1..<e'} \<subseteq> keys (bt_remove e m) \<and> e' \<notin> keys m'
      \<and> bt_ok m' \<and> payloads_are ct m' \<and> keys m' = keys (bt_remove e m) - {wrap_add64 e 1..<e'}"
      using "1.prems" len w
      by (intro "1.IH" [OF Some]) (simp_all add: bt_ok_remove payloads_are_remove)
    then have ih: "Suc e \<le> e'" "e' \<le> Suc e + length (bt_remove e m)" "ps = map ct [Suc e..<e']"
      "{Suc e..<e'} \<subseteq> keys m - {e}" "e' \<notin> keys m'" "bt_ok m'" "payloads_are ct m'"
      "keys m' = keys m - {e} - {Suc e..<e'}"
      unfolding w d keys_remove prod.case by blast+
    moreover have "{e..<e'} = insert e {Suc e..<e'}" using ih(1) by auto
    moreover have "[e..<e'] = e # [Suc e..<e']" using ih(1) by (simp add: upt_conv_Cons)
    ultimately show ?thesis
      using e len d Some w by (subst drain_ready.simps) auto
  qed
qed

section \<open>Queueing a packet\<close>

text \<open>
  The specification: a packet inside the window is added to the received set, any other leaves it
  alone; what is handed out is exactly the payloads from the old expected number up to the first
  one still missing.
\<close>

definition window_accepts :: "nat \<Rightarrow> nat \<Rightarrow> bool" where
  "window_accepts e s = (s \<le> e + max_reorder_buffer)"

lemma queue_inbound_correct:
  assumes ok: "reorder_ok e m" and ct: "payloads_are ct m" and dat: "data = ct s"
    and width: "e + 2 * max_reorder_buffer < u64_max"
    and q: "queue_inbound e m s data = (ps, e', m')"
  shows "reorder_ok e' m'" "payloads_are ct m'" "e \<le> e'" "ps = map ct [e..<e']"
    and "received e' m' = (if window_accepts e s then insert s (received e m) else received e m)"
    and "e' \<notin> received e' m'"
proof -
  let ?G = "reorder_ok e' m' \<and> payloads_are ct m' \<and> e \<le> e' \<and> ps = map ct [e..<e']
    \<and> received e' m' = (if window_accepts e s then insert s (received e m) else received e m)
    \<and> e' \<notin> received e' m'"
  have bt: "bt_ok m" and ks: "\<And>k. k \<in> keys m \<Longrightarrow> e < k \<and> k \<le> e + max_reorder_buffer"
    using ok by (auto simp: reorder_ok_def)
  have win: "sat_add64 e max_reorder_buffer = e + max_reorder_buffer"
    using width by (intro sat_add_eq) simp
  have e_new: "e \<notin> received e m" using ks by (auto simp: received_def)
  consider (old) "s < e" | (far) "e + max_reorder_buffer < s" | (next_one) "s = e"
    | (gap) "e < s" "s \<le> e + max_reorder_buffer" by linarith
  then have ?G
  proof cases
    case old
    then have "(ps, e', m') = ([], e, m)" using q by (simp add: queue_inbound_def)
    then show ?thesis
      using old ok ct e_new by (auto simp: window_accepts_def received_def)
  next
    case far
    then have "(ps, e', m') = ([], e, m)" using q by (simp add: queue_inbound_def win)
    then show ?thesis
      using far ok ct e_new by (auto simp: window_accepts_def)
  next
    case next_one
    have w: "wrap_add64 e 1 = Suc e" using width by (intro wrap_add64_Suc) simp
    have "keys m \<subseteq> {e<..e + max_reorder_buffer}" using ks by auto
    then have "card (keys m) \<le> max_reorder_buffer"
      using card_mono [of "{e<..e + max_reorder_buffer}" "keys m"] by simp
    then have len: "Suc e + length m \<le> u64_max"
      using width by (simp add: card_keys [OF bt] max_reorder_buffer_def)
    obtain qs where d: "drain_ready (Suc e) m = (qs, e', m')" and ps: "ps = data # qs"
      using q next_one w by (auto simp: queue_inbound_def win Let_def split: prod.splits)
    have dr: "Suc e \<le> e'" "qs = map ct [Suc e..<e']" "{Suc e..<e'} \<subseteq> keys m" "e' \<notin> keys m'"
      "bt_ok m'" "payloads_are ct m'" "keys m' = keys m - {Suc e..<e'}"
      using drain_ready_correct [OF bt ct len] unfolding d prod.case by blast+
    have "e < k \<and> k \<noteq> e \<and> k \<le> e + max_reorder_buffer" if "k \<in> keys m'" for k
      using that dr(7) ks by auto
    moreover have "e' < k" if "k \<in> keys m'" for k
      using that dr(4,7) ks [of k] by (cases "k = e'") auto
    ultimately have "reorder_ok e' m'"
      using dr(1,5) by (fastforce simp: reorder_ok_def)
    moreover have "received e' m' = insert s (received e m)"
    proof -
      have "{..<e'} = insert e {..<e} \<union> {Suc e..<e'}" using dr(1) by auto
      then show ?thesis using dr(3,7) next_one by (auto simp: received_def)
    qed
    moreover have "ps = map ct [e..<e']"
      using ps dr(1,2) dat next_one by (simp add: upt_conv_Cons)
    ultimately show ?thesis
      using dr next_one by (auto simp: window_accepts_def received_def)
  next
    case gap
    have "\<not> (max_reorder_buffer \<le> length m \<and> \<not> bt_contains m s)"
      using reorder_capacity [OF ok gap] by (auto simp: not_le)
    then have r: "ps = []" "e' = e" "m' = bt_or_insert s data m"
      using q gap by (auto simp: queue_inbound_def win)
    have "payloads_are ct m'"
      using ct dat by (auto simp: r payloads_are_def bt_or_insert_set [OF bt])
    moreover have "reorder_ok e m'"
      using ok gap by (auto simp: r reorder_ok_def keys_or_insert bt_ok_or_insert)
    ultimately show ?thesis
      using gap e_new by (auto simp: r window_accepts_def received_def keys_or_insert)
  qed
  then show "reorder_ok e' m'" "payloads_are ct m'" "e \<le> e'" "ps = map ct [e..<e']"
    "received e' m' = (if window_accepts e s then insert s (received e m) else received e m)"
    "e' \<notin> received e' m'"
    by blast+
qed

lemma queue_inbound_old:
  "s < e \<Longrightarrow> queue_inbound e m s d = ([], e, m)"
  by (simp add: queue_inbound_def)

section \<open>The selective acknowledgement\<close>

text \<open>
  What the ranges built from a set \<open>A\<close> of buffered sequence numbers satisfy: they are well
  formed, at most eight, cover only numbers of \<open>A\<close>, and a number left out lies above all
  that are covered, with the list full.
\<close>

definition sack_spec :: "nat set \<Rightarrow> ack_range list \<Rightarrow> bool" where
  "sack_spec A r =
     (sb_wf r \<and> length r \<le> max_selective_acks \<and> covers r \<subseteq> A
      \<and> (\<forall>x\<in>A - covers r. length r = max_selective_acks \<and> (\<forall>y\<in>covers r. y < x)))"

lemma sack_loop_correct:
  assumes "sb_wf (ranges @ [mk_range s e])" "sorted_wrt (<) (e # ks)" "\<forall>k\<in>set ks. k \<le> u64_max"
    "length ranges < max_selective_acks"
  shows "sack_spec (covers ranges \<union> {s..e} \<union> set ks) (sack_loop ranges s e ks)"
  using assms
proof (induction ranges s e ks rule: sack_loop.induct)
  case (1 ranges s e)
  then show ?case by (simp add: sack_spec_def)
next
  case (2 ranges s e k ks)
  have k: "e < k" "k \<le> u64_max" "\<forall>j\<in>set ks. k < j" using "2.prems" by auto
  have wf: "sb_wf ranges" "s \<le> e" "\<forall>x\<in>set ranges. apart x (mk_range s e)"
    using "2.prems"(1) by (auto simp: sb_wf_snoc range_valid_def)
  have tl: "sorted_wrt (<) (k # ks)" "\<forall>k\<in>set ks. k \<le> u64_max"
    using "2.prems"(2,3) by auto
  show ?case
  proof (cases "k = sat_add64 e 1")
    case True
    have ke: "k = Suc e" using k True by (simp add: sat_add_def)
    have "sb_wf (ranges @ [mk_range s k])"
      using wf k by (auto simp: sb_wf_snoc range_valid_def apart_def)
    from "2.IH"(1) [OF True this tl "2.prems"(4)]
    have "sack_spec (covers ranges \<union> {s..k} \<union> set ks) (sack_loop ranges s k ks)" .
    moreover have "covers ranges \<union> {s..e} \<union> set (k # ks) = covers ranges \<union> {s..k} \<union> set ks"
      using wf(2) by (auto simp: ke)
    ultimately show ?thesis by (simp only: sack_loop.simps True if_True refl)
  next
    case False
    have far: "Suc e < k" using k False by (auto simp: sat_add_def min_def split: if_splits)
    let ?rs = "ranges @ [mk_range s e]"
    show ?thesis
    proof (cases "max_selective_acks \<le> length ?rs")
      case True
      then have r: "sack_loop ranges s e (k # ks) = ?rs" using False by simp
      have low: "y \<le> e" if "y \<in> covers ?rs" for y
        using that wf(2,3) by (fastforce simp: covers_def apart_def)
      have "length ?rs = max_selective_acks" using True "2.prems"(4) by simp
      moreover have "y < x" if "x \<in> set (k # ks)" "y \<in> covers ?rs" for x y
        using low [OF that(2)] that(1) k by auto
      ultimately show ?thesis
        unfolding r sack_spec_def using "2.prems"(1) by auto
    next
      case full: False
      have "sb_wf (?rs @ [mk_range k k])"
      proof (subst sb_wf_snoc, intro conjI ballI)
        show "sb_wf ?rs" by (fact "2.prems"(1))
        show "range_valid (mk_range k k)" using k by (simp add: range_valid_def)
        show "apart x (mk_range k k)" if "x \<in> set ?rs" for x
          using that wf(2,3) far by (auto simp: apart_def)
      qed
      then have "sack_spec (covers ?rs \<union> {k..k} \<union> set ks) (sack_loop ?rs k k ks)"
        using "2.IH"(2) [OF False refl full] tl full by simp
      moreover have "covers ranges \<union> {s..e} \<union> set (k # ks) = covers ?rs \<union> {k..k} \<union> set ks"
        by auto
      moreover have "sack_loop ranges s e (k # ks) = sack_loop ?rs k k ks"
        using False full by simp
      ultimately show ?thesis by (simp only:)
    qed
  qed
qed

lemma selective_ack_ranges_correct:
  assumes "bt_ok m" "\<forall>k\<in>keys m. k \<le> u64_max"
  shows "sack_spec (keys m) (selective_ack_ranges m)"
proof (cases "bt_keys m")
  case Nil
  then show ?thesis by (simp add: selective_ack_ranges_def bt_keys_def keys_def sack_spec_def)
next
  case (Cons k ks)
  have ks: "keys m = insert k (set ks)"
    using arg_cong [OF Cons, of set] by (simp add: keys_def bt_keys_def)
  have r: "selective_ack_ranges m = sack_loop [] k k ks"
    by (simp add: selective_ack_ranges_def Cons)
  have "sorted_wrt (<) (k # ks)" using assms(1) Cons by (simp add: bt_ok_def bt_keys_def)
  moreover have "sb_wf ([] @ [mk_range k k])"
    using assms(2) ks by (simp add: sb_wf_Cons range_valid_def)
  moreover have "\<forall>k\<in>set ks. k \<le> u64_max" using assms(2) ks by simp
  moreover have "length ([] :: ack_range list) < max_selective_acks"
    by (simp add: max_selective_acks_def)
  moreover have "covers [] \<union> {k..k} \<union> set ks = keys m" by (simp add: ks)
  ultimately show ?thesis
    using sack_loop_correct [of "[]" k k ks] unfolding r by simp
qed

end
