(* ===== verification/Rto.thy ===== *)
theory Rto
  imports Congestion
begin

text \<open>
  Retransmission timeout, keepalive and idle-timeout decisions of the direct tunnel
  (\<open>minipunch-agent/src/direct.rs\<close>), and the rate-limited metrics reporter.
\<close>

section \<open>The retransmission timeout\<close>

definition duration_from_ms :: "f64 \<Rightarrow> nat" where
  "duration_from_ms ms = from_secs_f64 (fdiv (max ms 1) 1000)"

definition scale_duration :: "nat \<Rightarrow> f64 \<Rightarrow> nat" where
  "scale_duration d factor = from_secs_f64 (fmul (as_secs_f64 d) factor)"

definition rto_ms_clamp :: "f64 \<Rightarrow> f64" where
  "rto_ms_clamp ms = fclamp ms (fmul (as_secs_f64 min_rto) 1000) (fmul (as_secs_f64 max_rto) 1000)"

text \<open>The estimator's state is the smoothed RTT and its variation, both in milliseconds.\<close>

definition update_direct_rto ::
  "f64 option \<Rightarrow> f64 option \<Rightarrow> nat \<Rightarrow> f64 option \<times> f64 option \<times> nat" where
  "update_direct_rto smoothed rttvar sample =
     (let sample_ms = fmul (as_secs_f64 sample) 1000 in
      case (smoothed, rttvar) of
        (Some srtt, Some rttvar) \<Rightarrow>
          let next_rttvar = fadd (fmul (3 / 4) rttvar) (fmul (1 / 4) \<bar>fsub srtt sample_ms\<bar>);
              next_srtt = fadd (fmul (7 / 8) srtt) (fmul (1 / 8) sample_ms)
          in (Some next_srtt, Some next_rttvar,
              duration_from_ms (rto_ms_clamp (fadd next_srtt (fmul 4 next_rttvar))))
      | _ \<Rightarrow>
          (Some sample_ms, Some (fdiv sample_ms 2),
           duration_from_ms (rto_ms_clamp (fmul sample_ms 2))))"

text \<open>The back-off after a retransmission: twice the timeout, within its bounds.\<close>

definition backoff_rto :: "nat \<Rightarrow> nat" where
  "backoff_rto rto = max (min (scale_duration rto 2) max_rto) min_rto"

lemma f64_round_eval:
  assumes "2 powi e \<le> x" "x < 2 powi (e + 1)" "- 1022 \<le> e"
    and "\<bar>x / 2 powi (e - 52) - of_int n\<bar> < 1 / 2"
  shows "f64_round x = of_int n * 2 powi (e - 52)"
proof -
  have "0 < (2::rat) powi e" by simp
  with assms(1) have "0 < x" by linarith
  moreover have "ulp_exp x = e - 52"
    using bexp_eqI [OF assms(1,2)] assms(3) by (simp add: ulp_exp_def)
  ultimately show ?thesis
    using round_half_even_near [OF assms(4)] by (simp add: f64_round_pos)
qed

lemma f64_round_eq_numeral:
  "f64_round x = x" if "x \<in> {2, 1000, 2000}"
  using that representable_of_nat [of 2] representable_of_nat [of 1000] representable_of_nat [of 2000]
  by (auto simp: representable_def)

lemma round_0_12: "f64_round (3 / 25) = 1080863910568919 / 9007199254740992"
  by (subst f64_round_eval [where e = "- 4" and n = 8646911284551352])
    (simp_all add: power_int_def power_divide)

lemma min_rto_ms: "fmul (as_secs_f64 min_rto) 1000 = 120"
proof -
  have "as_secs_f64 min_rto = 1080863910568919 / 9007199254740992"
    using round_0_12 f64_round_idem [of "3 / 25"]
    by (simp add: as_secs_f64_def min_rto_def duration_from_millis_def f64_of_nat_small fadd_def fdiv_def)
  moreover have "f64_round (1080863910568919 / 9007199254740992 * 1000) = 120"
    by (subst f64_round_eval [where e = 6 and n = 8444249301319680])
      (simp_all add: power_int_def power_divide)
  ultimately show ?thesis by (simp only: fmul_def)
qed

lemma max_rto_ms: "fmul (as_secs_f64 max_rto) 1000 = 2000"
  using f64_round_eq_numeral
  by (simp add: as_secs_f64_def max_rto_def duration_from_secs_def f64_of_nat_small fadd_def fdiv_def
      fmul_def)

lemma duration_from_ms_min: "duration_from_ms 120 = min_rto"
proof -
  have "duration_from_ms 120 = from_secs_f64 (1080863910568919 / 9007199254740992)"
  proof -
    have "fdiv (max 120 1) 1000 = 1080863910568919 / 9007199254740992"
      unfolding round_0_12 [symmetric] by (simp add: fdiv_def)
    then show ?thesis by (simp only: duration_from_ms_def)
  qed
  also have "\<dots> = nat 120000000"
    unfolding from_secs_f64_def by (subst round_half_even_near [where n = 120000000]) simp_all
  finally show ?thesis by (simp add: min_rto_def duration_from_millis_def)
qed

lemma duration_from_ms_max: "duration_from_ms 2000 = max_rto"
  using f64_round_eq_numeral
  by (simp add: duration_from_ms_def fdiv_def from_secs_f64_def max_rto_def duration_from_secs_def
      round_half_even_def Let_def)

lemma duration_from_ms_mono:
  assumes "x \<le> y"
  shows "duration_from_ms x \<le> duration_from_ms y"
  unfolding duration_from_ms_def fdiv_def
  using assms by (intro from_secs_f64_mono f64_round_mono) (simp_all add: divide_right_mono)

lemma rto_ms_clamp_bounds: "120 \<le> rto_ms_clamp ms" "rto_ms_clamp ms \<le> 2000"
  using fclamp_bounds [of 120 2000 ms] by (simp_all add: rto_ms_clamp_def min_rto_ms max_rto_ms)

lemma clamped_rto_bounds:
  "min_rto \<le> duration_from_ms (rto_ms_clamp ms)" "duration_from_ms (rto_ms_clamp ms) \<le> max_rto"
  using duration_from_ms_mono [OF rto_ms_clamp_bounds(1)]
    duration_from_ms_mono [OF rto_ms_clamp_bounds(2)]
  by (simp_all add: duration_from_ms_min duration_from_ms_max)

text \<open>Whatever the samples are, the new timeout is within its bounds.\<close>

lemma update_direct_rto_bounds [bounds_intro]:
  "min_rto \<le> snd (snd (update_direct_rto s v sample))"
  "snd (snd (update_direct_rto s v sample)) \<le> max_rto"
  using clamped_rto_bounds by (auto simp: update_direct_rto_def Let_def split: option.splits)

text \<open>The argument of \<open>Duration::from_secs_f64\<close> is in its domain: no panic.\<close>

lemma rto_conversion_defined:
  "from_secs_f64_defined (fdiv (max (rto_ms_clamp ms) 1) 1000)"
proof -
  have m: "max (rto_ms_clamp ms) 1 = rto_ms_clamp ms"
    using rto_ms_clamp_bounds(1) [of ms] by simp
  have "fdiv (rto_ms_clamp ms) 1000 \<le> f64_round 2"
    unfolding fdiv_def using rto_ms_clamp_bounds [of ms]
    by (intro f64_round_mono) (simp_all add: divide_le_eq)
  also have "\<dots> < 2 ^ 64" using f64_round_eq_numeral by simp
  finally show ?thesis
    using rto_ms_clamp_bounds(1) [of ms] by (simp add: m from_secs_f64_defined_def fdiv_nonneg)
qed

text \<open>The estimator's state stays non-negative.\<close>

definition rtt_state_ok :: "f64 option \<Rightarrow> f64 option \<Rightarrow> bool" where
  "rtt_state_ok s v = (pred_option (\<lambda>x. 0 \<le> x) s \<and> pred_option (\<lambda>x. 0 \<le> x) v)"

lemma update_direct_rto_state [wf_intro]:
  assumes "rtt_state_ok s v"
  shows "rtt_state_ok (fst (update_direct_rto s v sample)) (fst (snd (update_direct_rto s v sample)))"
proof -
  have n: "0 \<le> fmul (as_secs_f64 sample) 1000"
    by (simp add: fmul_nonneg as_secs_f64_nonneg)
  have "0 \<le> fmul (1 / 4) \<bar>y\<bar>" for y by (simp add: fmul_nonneg)
  with n assms show ?thesis
    by (auto simp: update_direct_rto_def rtt_state_ok_def Let_def fadd_nonneg fmul_nonneg fdiv_nonneg
        split: option.splits)
qed

text \<open>Scaling by two is exact on the durations the timeout takes.\<close>

lemma scale_duration_double:
  assumes "d \<le> max_rto"
  shows "scale_duration d 2 = 2 * d"
proof -
  let ?B = "of_nat nanos_per_sec :: rat"
  let ?x = "as_secs_f64 d" and ?v = "of_nat d / of_nat nanos_per_sec :: rat"
  have d: "d \<le> 2 * nanos_per_sec"
    using assms by (simp add: max_rto_def duration_from_secs_def)
  then have "(of_nat d :: rat) \<le> of_nat (2 * nanos_per_sec)" by (simp only: of_nat_le_iff)
  then have v: "0 \<le> ?v" "?v \<le> 2" by (simp_all add: divide_le_eq)
  have e1: "\<bar>?x - ?v\<bar> \<le> 2 powi (- 50)" using d by (intro as_secs_f64_error) simp
  have small: "(2::rat) powi (- 50) \<le> 1" by (simp add: power_int_def power_divide)
  have "?x < 4" using e1 v small by linarith
  then have "\<bar>f64_round (?x * 2) - ?x * 2\<bar> \<le> 2 powi (3 - 54)"
    using as_secs_f64_nonneg [of d] by (intro f64_round_error) simp_all
  then have "\<bar>fmul ?x 2 - 2 * ?v\<bar> \<le> 2 powi (3 - 54) + 2 * 2 powi (- 50)"
    using e1 unfolding fmul_def by linarith
  also have "\<dots> \<le> 2 powi (- 48)" by (simp add: power_int_def power_divide)
  finally have "\<bar>fmul ?x 2 - 2 * ?v\<bar> * ?B \<le> 2 powi (- 48) * ?B"
    by (intro mult_right_mono) simp_all
  moreover have "2 powi (- 48) * ?B < 1 / 2" by (simp add: power_int_def power_divide)
  moreover have "\<bar>fmul ?x 2 - 2 * ?v\<bar> * ?B = \<bar>(fmul ?x 2 - 2 * ?v) * ?B\<bar>"
    by (subst abs_mult) simp
  moreover have "(fmul ?x 2 - 2 * ?v) * ?B = fmul ?x 2 * ?B - of_int (int (2 * d))"
    by (simp add: left_diff_distrib)
  ultimately have "\<bar>fmul ?x 2 * ?B - of_int (int (2 * d))\<bar> < 1 / 2" by linarith
  then have "round_half_even (fmul ?x 2 * ?B) = int (2 * d)" by (rule round_half_even_near)
  then show ?thesis by (simp only: scale_duration_def from_secs_f64_def nat_int)
qed

lemma backoff_rto_double:
  assumes "min_rto \<le> rto" "rto \<le> max_rto"
  shows "backoff_rto rto = min (2 * rto) max_rto"
proof -
  have "min_rto \<le> max_rto" by (simp add: min_rto_def max_rto_def duration_from_secs_def duration_from_millis_def)
  with assms show ?thesis by (simp add: backoff_rto_def scale_duration_double)
qed

definition rto_ok :: "nat \<Rightarrow> bool" where
  "rto_ok rto = (min_rto \<le> rto \<and> rto \<le> max_rto)"

lemma initial_rto_ok [wf_intro]: "rto_ok initial_rto"
  by (simp add: rto_ok_def initial_rto_def min_rto_def max_rto_def duration_from_secs_def
      duration_from_millis_def)

lemma backoff_rto_ok [wf_intro]: "rto_ok (backoff_rto rto)"
  by (auto simp: rto_ok_def backoff_rto_def min_rto_def max_rto_def duration_from_secs_def
      duration_from_millis_def)

lemma update_direct_rto_ok [wf_intro]: "rto_ok (snd (snd (update_direct_rto s v sample)))"
  by (simp add: rto_ok_def update_direct_rto_bounds)

text \<open>Four timeouts in a row reach the cap from any legal timeout and stay there.\<close>

lemma backoff_reaches_cap:
  assumes "rto_ok rto" "5 \<le> n"
  shows "(backoff_rto ^^ n) rto = max_rto"
proof -
  have dbl: "rto_ok ((backoff_rto ^^ k) rto) \<and> min (2 ^ k * min_rto) max_rto \<le> (backoff_rto ^^ k) rto"
    for k
  proof (induction k)
    case 0
    then show ?case using assms(1) by (simp add: rto_ok_def)
  next
    case (Suc k)
    then have "backoff_rto ((backoff_rto ^^ k) rto) = min (2 * (backoff_rto ^^ k) rto) max_rto"
      by (simp add: backoff_rto_double rto_ok_def)
    moreover have "min (2 * (2 ^ k * min_rto)) max_rto \<le> 2 * min (2 ^ k * min_rto) max_rto"
      by (simp add: min_def)
    ultimately show ?case
      using Suc backoff_rto_ok [of "(backoff_rto ^^ k) rto"] by (simp add: mult.assoc)
  qed
  have "(2::nat) ^ 5 \<le> 2 ^ n" using assms(2) by (intro power_increasing) simp_all
  then have "max_rto \<le> 2 ^ n * min_rto"
    by (simp add: min_rto_def max_rto_def duration_from_secs_def duration_from_millis_def)
  with dbl [of n] show ?thesis by (simp add: rto_ok_def)
qed

section \<open>Keepalive and idle timeout\<close>

definition should_send_keepalive ::
  "nat \<Rightarrow> nat option \<Rightarrow> nat \<Rightarrow> nat \<Rightarrow> bool \<Rightarrow> bool" where
  "should_send_keepalive last_peer_activity last_keepalive_sent now pending_outbound close_in_flight =
     (if close_in_flight \<or> 0 < pending_outbound then False
      else if now - last_peer_activity < keepalive_idle_after then False
      else case last_keepalive_sent of
             Some t \<Rightarrow> keepalive_send_interval \<le> now - t
           | None \<Rightarrow> True)"

definition peer_idle_timed_out :: "nat \<Rightarrow> nat \<Rightarrow> bool" where
  "peer_idle_timed_out last_peer_activity now = (peer_idle_timeout \<le> now - last_peer_activity)"

lemma keepalive_before_timeout:
  "should_send_keepalive a None now 0 False \<longleftrightarrow> keepalive_idle_after \<le> now - a"
  by (simp add: should_send_keepalive_def not_less)

section \<open>The metrics reporter\<close>

text \<open>
  The hook is a callback; the model logs what is reported to it, newest last: \<open>Some m\<close> for a
  note, \<open>None\<close> for a clear. A bridge without a hook reports nothing.
\<close>

record metrics_reporter =
  mr_hook :: bool
  mr_last_at :: "nat option"
  mr_last :: "direct_transport_metrics option"
  mr_log :: "direct_transport_metrics option list"

definition reporter_new :: "bool \<Rightarrow> metrics_reporter" where
  "reporter_new hook = \<lparr>mr_hook = hook, mr_last_at = None, mr_last = None, mr_log = []\<rparr>"

definition reporter_note :: "metrics_reporter \<Rightarrow> nat \<Rightarrow> direct_transport_metrics \<Rightarrow> metrics_reporter" where
  "reporter_note r now m =
     r\<lparr>mr_log := mr_log r @ [Some m], mr_last_at := Some now, mr_last := Some m\<rparr>"

definition maybe_report ::
  "metrics_reporter \<Rightarrow> nat \<Rightarrow> direct_transport_metrics \<Rightarrow> metrics_reporter" where
  "maybe_report r now m =
     (if \<not> mr_hook r then r
      else if mr_last r = Some m then r
      else case mr_last_at r of
             Some t \<Rightarrow> if now - t < metrics_report_interval then r else reporter_note r now m
           | None \<Rightarrow> reporter_note r now m)"

definition force_report ::
  "metrics_reporter \<Rightarrow> nat \<Rightarrow> direct_transport_metrics \<Rightarrow> metrics_reporter" where
  "force_report r now m = (if mr_hook r then reporter_note r now m else r)"

definition reporter_clear :: "metrics_reporter \<Rightarrow> metrics_reporter" where
  "reporter_clear r =
     r\<lparr>mr_log := (if mr_hook r then mr_log r @ [None] else mr_log r),
       mr_last_at := None, mr_last := None\<rparr>"

lemma maybe_report_rate:
  assumes "mr_last_at r = Some t" "now - t < metrics_report_interval"
  shows "maybe_report r now m = r"
  using assms by (simp add: maybe_report_def)

end
