(* ===== verification/AckHandling.thy ===== *)
theory AckHandling
  imports Reorder Rto
begin

text \<open>
  The sending side of the direct tunnel: the retransmission queue, the choice of the packet to
  retransmit and the processing of an acknowledgement (\<open>select_loss_recovery_sequence\<close> and
  \<open>handle_direct_channel_ack\<close> in \<open>minipunch-agent/src/direct.rs\<close>). The mutable
  references the handler takes are the fields of the record \<open>ack_state\<close>; its four phases
  are four definitions composed in the code's order.
\<close>

section \<open>Data\<close>

record pending_direct_data =
  pd_sequence :: nat
  pd_data_base64 :: string
  pd_attempts :: nat
  pd_last_sent_at :: nat

record pending_direct_close =
  pc_final_sequence :: nat
  pc_reason :: "string option"
  pc_attempts :: nat
  pc_last_sent_at :: nat

record ack_tracker =
  at_last_ack_sequence :: "nat option"
  at_duplicate_ack_count :: nat
  at_last_fast_retransmit :: "nat option"

definition ack_tracker_default :: ack_tracker where
  "ack_tracker_default =
     \<lparr>at_last_ack_sequence = None, at_duplicate_ack_count = 0, at_last_fast_retransmit = None\<rparr>"

record ack_state =
  as_pending :: "pending_direct_data list"
  as_congestion :: congestion_controller
  as_rto :: nat
  as_srtt :: "f64 option"
  as_rttvar :: "f64 option"
  as_tracker :: ack_tracker
  as_scoreboard :: scoreboard

section \<open>Loss recovery\<close>

definition oldest_timed_out :: "pending_direct_data list \<Rightarrow> nat \<Rightarrow> nat \<Rightarrow> nat option" where
  "oldest_timed_out pending now rto =
     map_option pd_sequence (List.find (\<lambda>p. rto \<le> now - pd_last_sent_at p) pending)"

definition selective_retransmit_holes :: "pending_direct_data list \<Rightarrow> scoreboard \<Rightarrow> nat list" where
  "selective_retransmit_holes pending sb =
     (case highest_sequence sb of
        None \<Rightarrow> []
      | Some h \<Rightarrow> map pd_sequence (filter (\<lambda>p. pd_sequence p \<le> h) pending))"

datatype loss_recovery_trigger =
    Trigger_Timeout nat nat
  | Trigger_DuplicateAckBudget nat nat
  | Trigger_RecoveryProgress nat

fun first_timed_out_hole :: "pending_direct_data list \<Rightarrow> nat \<Rightarrow> nat \<Rightarrow> nat list \<Rightarrow> nat option" where
  "first_timed_out_hole pending now rto [] = None"
| "first_timed_out_hole pending now rto (s # ss) =
     (case List.find (\<lambda>p. pd_sequence p = s) pending of
        Some p \<Rightarrow> if rto \<le> now - pd_last_sent_at p then Some s
                  else first_timed_out_hole pending now rto ss
      | None \<Rightarrow> first_timed_out_hole pending now rto ss)"

definition select_loss_recovery ::
  "pending_direct_data list \<Rightarrow> scoreboard \<Rightarrow> loss_recovery_trigger \<Rightarrow> nat option" where
  "select_loss_recovery pending sb trigger =
     (let holes = selective_retransmit_holes pending sb in
      case trigger of
        Trigger_Timeout now rto \<Rightarrow>
          (case first_timed_out_hole pending now rto holes of
             Some s \<Rightarrow> Some s
           | None \<Rightarrow> oldest_timed_out pending now rto)
      | Trigger_DuplicateAckBudget slots fallback \<Rightarrow>
          if slots = 0 then None
          else if slots - 1 < length holes then Some (holes ! (slots - 1))
          else if holes \<noteq> [] then Some (last holes)
          else Some fallback
      | Trigger_RecoveryProgress fallback \<Rightarrow>
          if holes \<noteq> [] then Some (hd holes) else Some fallback)"

section \<open>Processing an acknowledgement\<close>

text \<open>Phase 1: pop the packets below the cumulative acknowledgement.\<close>

fun drain_acked ::
  "nat \<Rightarrow> nat \<Rightarrow> pending_direct_data list \<Rightarrow> nat option \<Rightarrow> nat
     \<Rightarrow> pending_direct_data list \<times> nat option \<times> nat" where
  "drain_acked now next_sequence [] sample acked = ([], sample, acked)"
| "drain_acked now next_sequence (p # ps) sample acked =
     (if pd_sequence p < next_sequence
      then drain_acked now next_sequence ps
             (if pd_attempts p = 1 then Some (now - pd_last_sent_at p) else sample) (acked + 1)
      else (p # ps, sample, acked))"

text \<open>Phase 2: remove the packets the scoreboard covers, by position, from the back.\<close>

definition remove_at :: "nat \<Rightarrow> 'a list \<Rightarrow> 'a list" where
  "remove_at i xs = take i xs @ drop (Suc i) xs"

definition selective_hit :: "nat \<Rightarrow> scoreboard \<Rightarrow> pending_direct_data \<Rightarrow> bool" where
  "selective_hit next_sequence sb p = (\<not> (pd_sequence p < next_sequence \<or> \<not> sb_contains sb (pd_sequence p)))"

definition selective_positions ::
  "nat \<Rightarrow> scoreboard \<Rightarrow> pending_direct_data list \<Rightarrow> nat list" where
  "selective_positions next_sequence sb ps =
     filter (\<lambda>i. selective_hit next_sequence sb (ps ! i)) [0..<length ps]"

fun selective_sample ::
  "nat \<Rightarrow> nat \<Rightarrow> scoreboard \<Rightarrow> pending_direct_data list \<Rightarrow> nat option \<Rightarrow> nat option" where
  "selective_sample now next_sequence sb [] sample = sample"
| "selective_sample now next_sequence sb (p # ps) sample =
     selective_sample now next_sequence sb ps
       (if selective_hit next_sequence sb p \<and> pd_attempts p = 1 \<and> sample = None
        then Some (now - pd_last_sent_at p) else sample)"

definition drain_selective ::
  "nat \<Rightarrow> nat \<Rightarrow> scoreboard \<Rightarrow> pending_direct_data list \<Rightarrow> nat option
     \<Rightarrow> pending_direct_data list \<times> nat option \<times> nat" where
  "drain_selective now next_sequence sb ps sample =
     (if ps = [] then (ps, sample, 0)
      else
        let positions = remdups (sort (selective_positions next_sequence sb ps)) in
        (fold remove_at (rev positions) ps,
         selective_sample now next_sequence sb ps sample,
         length positions))"

text \<open>Phase 3: the RTT sample and the congestion window; the packet to resend while recovering.\<close>

definition front_sequence :: "pending_direct_data list \<Rightarrow> nat option" where
  "front_sequence ps = (case ps of [] \<Rightarrow> None | p # _ \<Rightarrow> Some (pd_sequence p))"

definition ack_progress ::
  "nat \<Rightarrow> nat \<Rightarrow> nat option \<Rightarrow> 'a ack_state_scheme \<Rightarrow> 'a ack_state_scheme \<times> nat option" where
  "ack_progress acked next_sequence sample st =
     (if acked = 0 then (st, None)
      else
        let (srtt, rttvar, rto) =
              (case sample of
                 Some d \<Rightarrow> update_direct_rto (as_srtt st) (as_rttvar st) d
               | None \<Rightarrow> (as_srtt st, as_rttvar st, as_rto st));
            (cc, fallback) =
              on_ack_progress (as_congestion st) acked next_sequence (front_sequence (as_pending st))
        in (st\<lparr>as_srtt := srtt, as_rttvar := rttvar, as_rto := rto, as_congestion := cc\<rparr>,
            Option.bind fallback (\<lambda>f.
              select_loss_recovery (as_pending st) (as_scoreboard st) (Trigger_RecoveryProgress f))))"

text \<open>Phase 4: duplicate acknowledgements and fast retransmit.\<close>

definition note_duplicate :: "nat \<Rightarrow> nat \<Rightarrow> ack_tracker \<Rightarrow> ack_tracker" where
  "note_duplicate next_sequence evidence tr =
     (if at_last_ack_sequence tr = Some next_sequence
      then tr\<lparr>at_duplicate_ack_count := sat_add32 (at_duplicate_ack_count tr) evidence\<rparr>
      else tr\<lparr>at_last_ack_sequence := Some next_sequence,
              at_duplicate_ack_count := evidence,
              at_last_fast_retransmit := None\<rparr>)"

definition fast_retransmit ::
  "nat \<Rightarrow> nat option \<Rightarrow> 'a ack_state_scheme \<Rightarrow> 'a ack_state_scheme \<times> nat option" where
  "fast_retransmit next_sequence recovery st =
     (if dup_ack_threshold \<le> at_duplicate_ack_count (as_tracker st) then
        let slots = at_duplicate_ack_count (as_tracker st) div dup_ack_threshold;
            candidate =
              (case select_loss_recovery (as_pending st) (as_scoreboard st)
                      (Trigger_DuplicateAckBudget slots next_sequence) of
                 Some s \<Rightarrow> s
               | None \<Rightarrow> next_sequence)
        in if at_last_fast_retransmit (as_tracker st) \<noteq> Some candidate then
             let recover_until =
                   (if as_pending st = [] then next_sequence
                    else sat_add64 (pd_sequence (last (as_pending st))) 1)
             in (st\<lparr>as_congestion :=
                      on_fast_retransmit (as_congestion st) (length (as_pending st)) recover_until,
                    as_tracker := (as_tracker st)\<lparr>at_last_fast_retransmit := Some candidate\<rparr>\<rparr>,
                 Some candidate)
           else (st, recovery)
      else (st, recovery))"

definition ack_duplicates ::
  "nat \<Rightarrow> nat \<Rightarrow> nat \<Rightarrow> nat option \<Rightarrow> 'a ack_state_scheme \<Rightarrow> 'a ack_state_scheme \<times> nat option" where
  "ack_duplicates next_sequence cumulative evidence recovery st =
     (let reset = st\<lparr>as_tracker :=
            \<lparr>at_last_ack_sequence = Some next_sequence, at_duplicate_ack_count = 0,
             at_last_fast_retransmit = recovery\<rparr>\<rparr>
      in
      if front_sequence (as_pending st) \<noteq> Some next_sequence then (reset, recovery)
      else if 0 < cumulative then (reset, recovery)
      else
        let st1 = st\<lparr>as_tracker := note_duplicate next_sequence (min (max evidence 1) u32_max) (as_tracker st),
                     as_congestion := on_duplicate_ack (as_congestion st)\<rparr>
        in case recovery of
             Some s \<Rightarrow>
               (st1\<lparr>as_tracker := (as_tracker st1)\<lparr>at_last_fast_retransmit := Some s\<rparr>\<rparr>, Some s)
           | None \<Rightarrow> fast_retransmit next_sequence None st1)"

definition handle_ack ::
  "nat \<Rightarrow> nat \<Rightarrow> ack_range list \<Rightarrow> 'a ack_state_scheme \<Rightarrow> 'a ack_state_scheme \<times> nat option" where
  "handle_ack now next_sequence ranges st =
     (let (ps1, sample1, cumulative) = drain_acked now next_sequence (as_pending st) None 0;
          (sb, evidence) = observe_ranges (advance_cumulative_ack (as_scoreboard st) next_sequence) ranges;
          (ps2, sample2, selective) = drain_selective now next_sequence sb ps1 sample1;
          (st3, recovery) =
            ack_progress (cumulative + selective) next_sequence sample2
              (st\<lparr>as_pending := ps2, as_scoreboard := sb\<rparr>)
      in ack_duplicates next_sequence cumulative evidence recovery st3)"

section \<open>What loss recovery selects\<close>

definition pending_seqs :: "pending_direct_data list \<Rightarrow> nat set" where
  "pending_seqs ps = pd_sequence ` set ps"

definition pending_sorted :: "pending_direct_data list \<Rightarrow> bool" where
  "pending_sorted ps = sorted_wrt (<) (map pd_sequence ps)"

definition timed_out :: "nat \<Rightarrow> nat \<Rightarrow> pending_direct_data \<Rightarrow> bool" where
  "timed_out now rto p = (rto \<le> now - pd_last_sent_at p)"

lemma holes_pending: "set (selective_retransmit_holes ps sb) \<subseteq> pending_seqs ps"
  by (auto simp: selective_retransmit_holes_def pending_seqs_def split: option.splits)

lemma pending_sorted_inj:
  assumes "pending_sorted ps" "p \<in> set ps" "q \<in> set ps" "pd_sequence p = pd_sequence q"
  shows "p = q"
proof -
  have "distinct (map pd_sequence ps)"
    using assms(1) by (simp add: pending_sorted_def strict_sorted_iff)
  with assms(2-4) show ?thesis by (auto simp: distinct_map dest: inj_onD)
qed

lemma find_Some_set: "List.find P xs = Some x \<Longrightarrow> x \<in> set xs \<and> P x"
  by (metis find_Some_iff nth_mem)

lemma find_pending_sequence:
  assumes "pending_sorted ps" "p \<in> set ps"
  shows "List.find (\<lambda>q. pd_sequence q = pd_sequence p) ps = Some p"
proof -
  have "List.find (\<lambda>q. pd_sequence q = pd_sequence p) ps \<noteq> None"
    using assms(2) by (auto simp: find_None_iff)
  then obtain q where q: "List.find (\<lambda>q. pd_sequence q = pd_sequence p) ps = Some q" by blast
  with find_Some_set [OF q] pending_sorted_inj [OF assms(1)] assms(2) show ?thesis by blast
qed

lemma first_timed_out_hole_Some:
  "first_timed_out_hole ps now rto ss = Some s
    \<Longrightarrow> s \<in> set ss \<and> (\<exists>p\<in>set ps. pd_sequence p = s \<and> timed_out now rto p)"
proof (induction ss)
  case (Cons t ss)
  show ?case
  proof (cases "List.find (\<lambda>p. pd_sequence p = t) ps")
    case None
    with Cons show ?thesis by auto
  next
    case (Some p)
    with Cons find_Some_set [OF Some] show ?thesis
      by (auto simp: timed_out_def split: if_splits)
  qed
qed simp

lemma oldest_timed_out_Some:
  "oldest_timed_out ps now rto = Some s \<Longrightarrow> \<exists>p\<in>set ps. pd_sequence p = s \<and> timed_out now rto p"
  by (auto simp: oldest_timed_out_def timed_out_def dest: find_Some_set)

lemma oldest_timed_out_None:
  "oldest_timed_out ps now rto = None \<longleftrightarrow> (\<forall>p\<in>set ps. \<not> timed_out now rto p)"
  by (auto simp: oldest_timed_out_def timed_out_def find_None_iff)

text \<open>A timeout resends a packet that has timed out, and some packet whenever one has.\<close>

lemma select_timeout_sound:
  "select_loss_recovery ps sb (Trigger_Timeout now rto) = Some s
    \<Longrightarrow> \<exists>p\<in>set ps. pd_sequence p = s \<and> timed_out now rto p"
  by (auto simp: select_loss_recovery_def Let_def split: option.splits
      dest: first_timed_out_hole_Some oldest_timed_out_Some)

lemma select_timeout_complete:
  "select_loss_recovery ps sb (Trigger_Timeout now rto) = None
    \<longleftrightarrow> (\<forall>p\<in>set ps. \<not> timed_out now rto p)"
proof
  assume "\<forall>p\<in>set ps. \<not> timed_out now rto p"
  then show "select_loss_recovery ps sb (Trigger_Timeout now rto) = None"
    using select_timeout_sound [of ps sb now rto] by fastforce
qed (auto simp: select_loss_recovery_def Let_def oldest_timed_out_None split: option.splits)

lemma select_budget_pending:
  assumes "select_loss_recovery ps sb (Trigger_DuplicateAckBudget k f) = Some s"
  shows "s \<in> pending_seqs ps \<or> s = f"
  using assms holes_pending [of ps sb]
  by (auto simp: select_loss_recovery_def Let_def split: if_splits dest: nth_mem last_in_set)

lemma select_progress_pending:
  assumes "select_loss_recovery ps sb (Trigger_RecoveryProgress f) = Some s"
  shows "s \<in> pending_seqs ps \<or> s = f"
  using assms holes_pending [of ps sb]
  by (auto simp: select_loss_recovery_def Let_def split: if_splits)

section \<open>What an acknowledgement removes\<close>

lemma drain_acked_pending:
  assumes "pending_sorted ps"
  shows "fst (drain_acked now n ps sample a) = filter (\<lambda>p. n \<le> pd_sequence p) ps"
  using assms
proof (induction ps arbitrary: sample a)
  case (Cons p ps)
  show ?case
  proof (cases "pd_sequence p < n")
    case True
    then show ?thesis using Cons by (simp add: pending_sorted_def)
  next
    case False
    with Cons.prems have "filter (\<lambda>p. n \<le> pd_sequence p) ps = ps"
      by (intro filter_True) (auto simp: pending_sorted_def)
    with False show ?thesis by simp
  qed
qed simp

lemma drain_acked_count:
  "snd (snd (drain_acked now n ps sample a)) + length (fst (drain_acked now n ps sample a))
    = a + length ps"
  by (induction ps arbitrary: sample a) auto

lemma filter_nth_upt:
  "filter (\<lambda>i. P ((xs @ [x]) ! i)) [0..<length xs] = filter (\<lambda>i. P (xs ! i)) [0..<length xs]"
  by (rule filter_cong) (auto simp: nth_append)

lemma fold_remove_at_append:
  "\<forall>i\<in>set is. i < length xs \<Longrightarrow> fold remove_at is (xs @ ys) = fold remove_at is xs @ ys" if "sorted_wrt (>) is"
  using that
proof (induction "is" arbitrary: xs)
  case (Cons i "is")
  have "remove_at i (xs @ ys) = remove_at i xs @ ys"
    using Cons.prems(1) by (auto simp: remove_at_def)
  moreover have "\<forall>j\<in>set is. j < length (remove_at i xs)"
    using Cons.prems by (auto simp: remove_at_def)
  ultimately show ?case using Cons by simp
qed simp

text \<open>Removing the positions of all hits, from the back, keeps the rest in order.\<close>

lemma fold_remove_at_filter:
  "fold remove_at (rev (filter (\<lambda>i. P (xs ! i)) [0..<length xs])) xs = filter (\<lambda>x. \<not> P x) xs"
proof (induction xs rule: rev_induct)
  case (snoc x xs)
  let ?is = "rev (filter (\<lambda>i. P (xs ! i)) [0..<length xs])"
  have srt: "sorted_wrt (>) ?is"
    by (simp add: sorted_wrt_rev sorted_wrt_filter del: upt_Suc)
  have app: "fold remove_at ?is (xs @ ys) = filter (\<lambda>x. \<not> P x) xs @ ys" for ys
    using snoc fold_remove_at_append [OF srt, of xs ys] by simp
  have "remove_at (length xs) (xs @ [x]) = xs" by (simp add: remove_at_def)
  then show ?case
    using snoc app [of "[x]"] by (simp add: filter_nth_upt)
qed simp

lemma drain_selective_pending:
  "fst (drain_selective now n sb ps sample) = filter (\<lambda>p. \<not> selective_hit n sb p) ps"
proof (cases "ps = []")
  case False
  have "sorted (selective_positions n sb ps)" "distinct (selective_positions n sb ps)"
    by (simp_all add: selective_positions_def sorted_wrt_filter)
  then have "remdups (sort (selective_positions n sb ps)) = selective_positions n sb ps"
    by (simp add: sorted_sort_id distinct_remdups_id)
  with False show ?thesis
    using fold_remove_at_filter [of "selective_hit n sb" ps]
    by (simp add: drain_selective_def selective_positions_def)
qed (simp add: drain_selective_def)

lemma ack_progress_frame [frame_simps]:
  "as_pending (fst (ack_progress a n s st)) = as_pending st"
  "as_scoreboard (fst (ack_progress a n s st)) = as_scoreboard st"
  "as_tracker (fst (ack_progress a n s st)) = as_tracker st"
  by (auto simp: ack_progress_def Let_def split: prod.splits)

lemma fast_retransmit_frame [frame_simps]:
  "as_pending (fst (fast_retransmit n r st)) = as_pending st"
  "as_scoreboard (fst (fast_retransmit n r st)) = as_scoreboard st"
  "as_rto (fst (fast_retransmit n r st)) = as_rto st"
  "as_srtt (fst (fast_retransmit n r st)) = as_srtt st"
  "as_rttvar (fst (fast_retransmit n r st)) = as_rttvar st"
  by (auto simp: fast_retransmit_def Let_def)

lemma ack_duplicates_frame [frame_simps]:
  "as_pending (fst (ack_duplicates n c e r st)) = as_pending st"
  "as_scoreboard (fst (ack_duplicates n c e r st)) = as_scoreboard st"
  "as_rto (fst (ack_duplicates n c e r st)) = as_rto st"
  "as_srtt (fst (ack_duplicates n c e r st)) = as_srtt st"
  "as_rttvar (fst (ack_duplicates n c e r st)) = as_rttvar st"
  by (auto simp: ack_duplicates_def Let_def fast_retransmit_frame split: option.splits)

section \<open>The whole handler\<close>

definition ack_state_ok :: "'a ack_state_scheme \<Rightarrow> bool" where
  "ack_state_ok st =
     (pending_sorted (as_pending st) \<and> sb_wf (as_scoreboard st) \<and> congestion_ok (as_congestion st)
      \<and> rto_ok (as_rto st) \<and> rtt_state_ok (as_srtt st) (as_rttvar st)
      \<and> at_duplicate_ack_count (as_tracker st) \<le> u32_max)"

text \<open>The scoreboard after an acknowledgement, and the packets that stay pending.\<close>

definition ack_scoreboard :: "nat \<Rightarrow> ack_range list \<Rightarrow> scoreboard \<Rightarrow> scoreboard" where
  "ack_scoreboard n ranges sb = fst (observe_ranges (advance_cumulative_ack sb n) ranges)"

definition still_pending :: "nat \<Rightarrow> scoreboard \<Rightarrow> pending_direct_data \<Rightarrow> bool" where
  "still_pending n sb p = (n \<le> pd_sequence p \<and> pd_sequence p \<notin> covers sb)"

lemma ack_scoreboard_covers:
  assumes "sb_wf sb" "ranges_u64 ranges"
  shows "sb_wf (ack_scoreboard n ranges sb)"
    and "covers (ack_scoreboard n ranges sb) = {s \<in> covers sb. n \<le> s} \<union> covers ranges"
  using observe_ranges_covers [OF advance_wf [OF assms(1)] assms(2)]
  by (simp_all add: ack_scoreboard_def covers_advance)

lemma handle_ack_scoreboard:
  "as_scoreboard (fst (handle_ack now n ranges st)) = ack_scoreboard n ranges (as_scoreboard st)"
  by (auto simp: handle_ack_def ack_scoreboard_def Let_def ack_duplicates_frame case_prod_unfold
      ack_progress_frame)

lemma handle_ack_pending:
  assumes "pending_sorted (as_pending st)"
  shows "as_pending (fst (handle_ack now n ranges st))
    = filter (still_pending n (ack_scoreboard n ranges (as_scoreboard st))) (as_pending st)"
proof -
  let ?sb = "ack_scoreboard n ranges (as_scoreboard st)"
  let ?ps1 = "fst (drain_acked now n (as_pending st) None 0)"
  have "as_pending (fst (handle_ack now n ranges st))
      = fst (drain_selective now n ?sb ?ps1 (fst (snd (drain_acked now n (as_pending st) None 0))))"
    by (simp add: handle_ack_def ack_scoreboard_def Let_def ack_duplicates_frame case_prod_unfold
        ack_progress_frame)
  also have "\<dots> = filter (\<lambda>p. \<not> selective_hit n ?sb p) (filter (\<lambda>p. n \<le> pd_sequence p) (as_pending st))"
    by (simp only: drain_selective_pending drain_acked_pending [OF assms])
  also have "\<dots> = filter (still_pending n ?sb) (as_pending st)"
    by (auto simp: selective_hit_def sb_contains_iff still_pending_def intro!: filter_cong)
  finally show ?thesis .
qed

lemma pending_sorted_filter [wf_intro]: "pending_sorted ps \<Longrightarrow> pending_sorted (filter P ps)"
  by (induction ps) (auto simp: pending_sorted_def)

lemma ack_progress_ok [wf_intro]:
  assumes "ack_state_ok st"
  shows "ack_state_ok (fst (ack_progress a n s st))"
proof -
  have rto: "rto_ok (snd (snd (update_direct_rto (as_srtt st) (as_rttvar st) d)))" for d
    by (rule update_direct_rto_ok)
  have rtt: "rtt_state_ok (fst (update_direct_rto (as_srtt st) (as_rttvar st) d))
      (fst (snd (update_direct_rto (as_srtt st) (as_rttvar st) d)))" for d
    using assms by (intro update_direct_rto_state) (simp add: ack_state_ok_def)
  have cc: "congestion_ok (fst (on_ack_progress (as_congestion st) a n m))" for m
    using assms by (intro on_ack_progress_ok) (simp add: ack_state_ok_def)
  show ?thesis
    using assms rto rtt cc
    by (cases s) (auto simp: ack_progress_def ack_state_ok_def Let_def case_prod_unfold)
qed

lemma fast_retransmit_ok [wf_intro]:
  "ack_state_ok st \<Longrightarrow> ack_state_ok (fst (fast_retransmit n r st))"
  by (auto simp: fast_retransmit_def ack_state_ok_def Let_def on_fast_retransmit_ok)

lemma ack_duplicates_ok [wf_intro]:
  assumes "ack_state_ok st"
  shows "ack_state_ok (fst (ack_duplicates n c e r st))"
proof -
  have "sat_add32 x y \<le> u32_max" for x y by (rule sat_add_le)
  moreover have "congestion_ok (on_duplicate_ack (as_congestion st))"
    using assms by (intro on_duplicate_ack_ok) (simp add: ack_state_ok_def)
  ultimately show ?thesis
    using assms
    by (auto simp: ack_duplicates_def Let_def ack_state_ok_def note_duplicate_def
        intro!: fast_retransmit_ok [unfolded ack_state_ok_def] split: option.splits)
qed

lemma handle_ack_ok [wf_intro]:
  assumes "ack_state_ok st" "ranges_u64 ranges"
  shows "ack_state_ok (fst (handle_ack now n ranges st))"
proof -
  have srt: "pending_sorted (as_pending st)" and sb: "sb_wf (as_scoreboard st)"
    using assms(1) by (auto simp: ack_state_ok_def)
  obtain ps1 s1 c where d1: "drain_acked now n (as_pending st) None 0 = (ps1, s1, c)"
    by (cases "drain_acked now n (as_pending st) None 0") auto
  obtain sb' e where o: "observe_ranges (advance_cumulative_ack (as_scoreboard st) n) ranges = (sb', e)"
    by (cases "observe_ranges (advance_cumulative_ack (as_scoreboard st) n) ranges") auto
  obtain ps2 s2 k where d2: "drain_selective now n sb' ps1 s1 = (ps2, s2, k)"
    by (cases "drain_selective now n sb' ps1 s1") auto
  let ?st2 = "st\<lparr>as_pending := ps2, as_scoreboard := sb'\<rparr>"
  obtain st3 r where p: "ack_progress (c + k) n s2 ?st2 = (st3, r)"
    by (cases "ack_progress (c + k) n s2 ?st2") auto
  have "sb_wf sb'" using ack_scoreboard_covers(1) [OF sb assms(2), of n] by (simp add: ack_scoreboard_def o)
  moreover have "ps1 = filter (\<lambda>p. n \<le> pd_sequence p) (as_pending st)"
    using drain_acked_pending [OF srt, of now n None 0] by (simp add: d1)
  moreover have "ps2 = filter (\<lambda>p. \<not> selective_hit n sb' p) ps1"
    using drain_selective_pending [of now n sb' ps1 s1] by (simp add: d2)
  ultimately have "ack_state_ok ?st2"
    using assms(1) srt by (simp add: ack_state_ok_def pending_sorted_filter)
  from ack_progress_ok [OF this, of "c + k" n s2] have "ack_state_ok st3" by (simp add: p)
  then show ?thesis
    by (simp add: handle_ack_def d1 o d2 p ack_duplicates_ok)
qed

text \<open>A retransmission asked for by an acknowledgement is of a packet still pending.\<close>

lemma ack_progress_recovery:
  assumes "snd (ack_progress a n s st) = Some q"
  shows "q \<in> pending_seqs (as_pending st)"
proof -
  let ?m = "front_sequence (as_pending st)"
  have m: "\<And>f. ?m = Some f \<Longrightarrow> f \<in> pending_seqs (as_pending st)"
    by (auto simp: front_sequence_def pending_seqs_def split: list.splits)
  have f: "snd (on_ack_progress (as_congestion st) a n ?m) = Some f \<Longrightarrow> ?m = Some f" for f
    by (auto simp: on_ack_progress_def split: if_splits option.splits)
  from assms obtain f where "snd (on_ack_progress (as_congestion st) a n ?m) = Some f"
    "select_loss_recovery (as_pending st) (as_scoreboard st) (Trigger_RecoveryProgress f) = Some q"
    by (auto simp: ack_progress_def Let_def case_prod_unfold bind_eq_Some_conv split: if_splits option.splits)
  with f m select_progress_pending show ?thesis by blast
qed

lemma handle_ack_retransmit_pending:
  assumes "snd (handle_ack now n ranges st) = Some q"
  shows "q \<in> pending_seqs (as_pending (fst (handle_ack now n ranges st)))"
proof -
  have dup: "q \<in> pending_seqs (as_pending st3)"
    if "snd (ack_duplicates n c e r st3) = Some q" "\<forall>x. r = Some x \<longrightarrow> x \<in> pending_seqs (as_pending st3)"
    for c e r st3
  proof -
    have n: "front_sequence (as_pending st3) = Some n \<Longrightarrow> n \<in> pending_seqs (as_pending st3)"
      by (auto simp: front_sequence_def pending_seqs_def split: list.splits)
    let ?st1 = "st3\<lparr>as_tracker := note_duplicate n (min (max e 1) u32_max) (as_tracker st3),
      as_congestion := on_duplicate_ack (as_congestion st3)\<rparr>"
    have "x \<in> pending_seqs (as_pending st3)"
      if "snd (fast_retransmit n None ?st1) = Some x" "front_sequence (as_pending st3) = Some n" for x
      using that(1) n [OF that(2)]
      by (auto simp: fast_retransmit_def Let_def split: if_splits option.splits
          dest!: select_budget_pending)
    with that show ?thesis
      by (auto simp: ack_duplicates_def Let_def split: if_splits option.splits)
  qed
  let ?d1 = "drain_acked now n (as_pending st) None 0"
  let ?o = "observe_ranges (advance_cumulative_ack (as_scoreboard st) n) ranges"
  let ?d2 = "drain_selective now n (fst ?o) (fst ?d1) (fst (snd ?d1))"
  let ?p = "ack_progress (snd (snd ?d1) + snd (snd ?d2)) n (fst (snd ?d2))
    (st\<lparr>as_pending := fst ?d2, as_scoreboard := fst ?o\<rparr>)"
  have h: "handle_ack now n ranges st = ack_duplicates n (snd (snd ?d1)) (snd ?o) (snd ?p) (fst ?p)"
    by (simp add: handle_ack_def case_prod_unfold Let_def)
  have "\<forall>x. snd ?p = Some x \<longrightarrow> x \<in> pending_seqs (as_pending (fst ?p))"
    by (auto dest: ack_progress_recovery simp: ack_progress_frame)
  from dup [OF assms [unfolded h] this] show ?thesis
    by (simp add: h ack_duplicates_frame)
qed

text \<open>An acknowledgement that removes something never shrinks the window outside recovery.\<close>

lemma ack_progress_grows:
  assumes "ack_state_ok st" "fast_recovery (as_congestion st) = None"
  shows "send_window_size (as_congestion st)
    \<le> send_window_size (as_congestion (fst (ack_progress a n s st)))"
proof -
  have "congestion_ok (as_congestion st)" using assms(1) by (simp add: ack_state_ok_def)
  then have "cwnd_packets (as_congestion st)
      \<le> cwnd_packets (fst (on_ack_progress (as_congestion st) a n m))" for m
    using assms(2) grow_window_mono by (simp add: on_ack_progress_def)
  then show ?thesis
    by (auto simp: ack_progress_def Let_def case_prod_unfold intro: send_window_mono)
qed

end
