(* ===== verification/Crypto.thy ===== *)
theory Crypto
  imports Protocol "HOL-Library.Word"
begin

text \<open>
  \<open>minipunch-core/src/crypto.rs\<close>: identities, signed messages, derived ids and the secure
  channel. The primitives of the third-party crates (base64, SHA-256, Ed25519, X25519,
  ChaCha20-Poly1305) are the record \<open>crypto_prims\<close>, an argument of every definition that
  uses them; what the code relies on them for are the predicates \<open>b64_law\<close>,
  \<open>aead_law\<close>, \<open>ed_law\<close> and \<open>dh_law\<close>. Randomness is an argument.
\<close>

unbundle bit_operations_syntax

type_synonym byte = "8 word"

section \<open>Bytes\<close>

text \<open>\<open>str::as_bytes\<close>: UTF-8, two bytes above U+007F.\<close>

definition utf8_char :: "char \<Rightarrow> byte list" where
  "utf8_char c =
     (let n = (of_char c :: nat) in
      if n < 128 then [of_nat n] else [of_nat (192 + n div 64), of_nat (128 + n mod 64)])"

definition as_bytes :: "string \<Rightarrow> byte list" where
  "as_bytes s = concat (map utf8_char s)"

text \<open>\<open>u64::to_be_bytes\<close>.\<close>

definition to_be_bytes :: "64 word \<Rightarrow> byte list" where
  "to_be_bytes w = map (\<lambda>i. ucast (drop_bit (8 * (7 - i)) w)) [0..<8]"

lemma length_to_be_bytes [simp]: "length (to_be_bytes w) = 8"
  by (simp add: to_be_bytes_def)

lemma to_be_bytes_inj: "to_be_bytes v = to_be_bytes w \<longleftrightarrow> v = w"
proof
  assume eq: "to_be_bytes v = to_be_bytes w"
  have nth: "to_be_bytes x ! i = ucast (drop_bit (8 * (7 - i)) x)" if "i < 8" for x i
    using that by (simp add: to_be_bytes_def del: upt_rec_numeral)
  have byte: "bit v (8 * k + j) = bit w (8 * k + j)" if "k < 8" "j < 8" for k j
  proof -
    have "7 - k < 8" "7 - (7 - k) = k" using that by simp_all
    then have "(ucast (drop_bit (8 * k) v) :: byte) = ucast (drop_bit (8 * k) w)"
      using nth [of "7 - k" v] nth [of "7 - k" w] by (simp add: eq)
    then have "bit (ucast (drop_bit (8 * k) v) :: byte) j = bit (ucast (drop_bit (8 * k) w) :: byte) j"
      by simp
    with that show ?thesis
      by (simp add: bit_simps)
  qed
  show "v = w"
  proof (rule bit_word_eqI)
    fix n assume "n < LENGTH(64)"
    then show "bit v n = bit w n"
      using byte [of "n div 8" "n mod 8"] by simp
  qed
qed simp

section \<open>Primitives\<close>

record crypto_prims =
  b64_encode :: "byte list \<Rightarrow> string"
  b64_decode :: "string \<Rightarrow> byte list option"
  sha256 :: "byte list \<Rightarrow> byte list"
  ed_public :: "byte list \<Rightarrow> byte list"
  ed_sign :: "byte list \<Rightarrow> byte list \<Rightarrow> byte list"
  ed_key_ok :: "byte list \<Rightarrow> bool"
  ed_verify :: "byte list \<Rightarrow> byte list \<Rightarrow> byte list \<Rightarrow> bool"
  x_public :: "byte list \<Rightarrow> byte list"
  x_dh :: "byte list \<Rightarrow> byte list \<Rightarrow> byte list"
  aead_seal :: "byte list \<Rightarrow> byte list \<Rightarrow> byte list \<Rightarrow> byte list \<Rightarrow> byte list option"
  aead_open :: "byte list \<Rightarrow> byte list \<Rightarrow> byte list \<Rightarrow> byte list \<Rightarrow> byte list option"

text \<open>base64: decoding undoes encoding.\<close>

definition b64_law :: "crypto_prims \<Rightarrow> bool" where
  "b64_law P = (\<forall>b. b64_decode P (b64_encode P b) = Some b)"

text \<open>
  ChaCha20-Poly1305: sealing works for a 32-byte key, a 12-byte nonce and a message below the
  cipher's limit, and opening with the same key, nonce and associated data gives it back.
\<close>

definition aead_law :: "crypto_prims \<Rightarrow> bool" where
  "aead_law P =
     (\<forall>k n a m. length k = 32 \<and> length n = 12 \<and> length m \<le> 2 ^ 32 \<longrightarrow>
        (\<exists>c. aead_seal P k n a m = Some c \<and> aead_open P k n a c = Some m))"

text \<open>Ed25519: a signature made with a key verifies under its public key.\<close>

definition ed_law :: "crypto_prims \<Rightarrow> bool" where
  "ed_law P =
     (\<forall>k m. length k = 32 \<longrightarrow>
        length (ed_public P k) = 32 \<and> ed_key_ok P (ed_public P k)
        \<and> length (ed_sign P k m) = 64 \<and> ed_verify P (ed_public P k) m (ed_sign P k m))"

text \<open>X25519: both sides compute the same 32 bytes. SHA-256 yields 32 bytes.\<close>

definition dh_law :: "crypto_prims \<Rightarrow> bool" where
  "dh_law P =
     (\<forall>a b. length a = 32 \<and> length b = 32 \<longrightarrow>
        length (x_public P a) = 32 \<and> length (x_dh P a (x_public P b)) = 32
        \<and> x_dh P a (x_public P b) = x_dh P b (x_public P a))"

definition sha_law :: "crypto_prims \<Rightarrow> bool" where
  "sha_law P = (\<forall>b. length (sha256 P b) = 32)"

text \<open>A concrete instance under which all laws hold; it is used for evaluation only.\<close>

definition toy_prims :: crypto_prims where
  "toy_prims =
     \<lparr>b64_encode = map (\<lambda>b. char_of (unat b)),
      b64_decode = (\<lambda>s. Some (map (\<lambda>c. of_nat (of_char c)) s)),
      sha256 = (\<lambda>b. take 32 (b @ replicate 32 0)),
      ed_public = (\<lambda>k. k),
      ed_sign = (\<lambda>k m. k @ replicate 32 0),
      ed_key_ok = (\<lambda>k. True),
      ed_verify = (\<lambda>k m s. s = k @ replicate 32 0),
      x_public = (\<lambda>k. k),
      x_dh = (\<lambda>a b. map2 (XOR) a b),
      aead_seal = (\<lambda>k n a m. Some (m @ replicate 16 0)),
      aead_open = (\<lambda>k n a c. if 16 \<le> length c then Some (take (length c - 16) c) else None)\<rparr>"

lemma toy_b64_law: "b64_law toy_prims"
proof -
  have "(of_nat (of_char (char_of (unat b) :: char)) :: byte) = b" for b :: byte
  proof -
    have "unat b < 2 ^ LENGTH(8)" by (rule unsigned_less)
    then show ?thesis by simp
  qed
  then show ?thesis by (simp add: b64_law_def toy_prims_def comp_def)
qed

lemma toy_aead_law: "aead_law toy_prims"
  by (simp add: aead_law_def toy_prims_def)

lemma toy_ed_law: "ed_law toy_prims"
  by (simp add: ed_law_def toy_prims_def)

lemma toy_sha_law: "sha_law toy_prims"
  by (auto simp: sha_law_def toy_prims_def min_def)

lemma toy_dh_law: "dh_law toy_prims"
  by (simp add: dh_law_def toy_prims_def)
    (simp add: list_eq_iff_nth_eq xor.commute)

lemmas toy_laws = toy_b64_law toy_aead_law toy_ed_law toy_sha_law toy_dh_law

section \<open>Errors\<close>

datatype crypto_error =
    InvalidBase64 | InvalidSigningKey | InvalidRelayKey | InvalidVerifyingKey
  | InvalidSignature | EncryptFailed | DecryptFailed

fun crypto_error_message :: "crypto_error \<Rightarrow> string" where
  "crypto_error_message InvalidBase64 = ''invalid base64 payload''"
| "crypto_error_message InvalidSigningKey = ''invalid signing key material''"
| "crypto_error_message InvalidRelayKey = ''invalid relay key material''"
| "crypto_error_message InvalidVerifyingKey = ''invalid verifying key material''"
| "crypto_error_message InvalidSignature = ''invalid signature''"
| "crypto_error_message EncryptFailed = ''relay encryption failed''"
| "crypto_error_message DecryptFailed = ''relay decryption failed''"

section \<open>Identities and signatures\<close>

record device_identity =
  di_signing_key :: "byte list"

definition decode_fixed ::
  "crypto_prims \<Rightarrow> nat \<Rightarrow> crypto_error \<Rightarrow> string \<Rightarrow> crypto_error + byte list" where
  "decode_fixed P n err s =
     (case b64_decode P s of
        None \<Rightarrow> Inl InvalidBase64
      | Some b \<Rightarrow> if length b = n then Inr b else Inl err)"

definition identity_from_private_key_base64 ::
  "crypto_prims \<Rightarrow> string \<Rightarrow> crypto_error + device_identity" where
  "identity_from_private_key_base64 P s =
     result_bind (decode_fixed P 32 InvalidSigningKey s) (\<lambda>b. Inr \<lparr>di_signing_key = b\<rparr>)"

definition identity_private_key_base64 :: "crypto_prims \<Rightarrow> device_identity \<Rightarrow> string" where
  "identity_private_key_base64 P i = b64_encode P (di_signing_key i)"

definition identity_public_key_base64 :: "crypto_prims \<Rightarrow> device_identity \<Rightarrow> string" where
  "identity_public_key_base64 P i = b64_encode P (ed_public P (di_signing_key i))"

definition sign_base64 :: "crypto_prims \<Rightarrow> device_identity \<Rightarrow> string \<Rightarrow> string" where
  "sign_base64 P i m = b64_encode P (ed_sign P (di_signing_key i) (as_bytes m))"

definition verify_signature_base64 ::
  "crypto_prims \<Rightarrow> string \<Rightarrow> string \<Rightarrow> string \<Rightarrow> crypto_error + unit" where
  "verify_signature_base64 P pk m sig =
     result_bind (decode_fixed P 32 InvalidVerifyingKey pk) (\<lambda>k.
       if \<not> ed_key_ok P k then Inl InvalidVerifyingKey
       else result_bind (decode_fixed P 64 InvalidSignature sig) (\<lambda>s.
         if ed_verify P k (as_bytes m) s then Inr () else Inl InvalidSignature))"

definition device_id_from_public_key :: "crypto_prims \<Rightarrow> string \<Rightarrow> string" where
  "device_id_from_public_key P pk = ''dev_'' @ take 20 (b64_encode P (sha256 P (as_bytes pk)))"

definition identity_device_id :: "crypto_prims \<Rightarrow> device_identity \<Rightarrow> string" where
  "identity_device_id P i = device_id_from_public_key P (identity_public_key_base64 P i)"

definition hash_secret :: "crypto_prims \<Rightarrow> string \<Rightarrow> string" where
  "hash_secret P s = b64_encode P (sha256 P (as_bytes s))"

text \<open>\<open>generate_token\<close> with the 24 random bytes as argument.\<close>

definition generate_token :: "crypto_prims \<Rightarrow> byte list \<Rightarrow> string \<Rightarrow> string" where
  "generate_token P rnd prefix = prefix @ ''_'' @ b64_encode P rnd"

definition registration_message :: "string \<Rightarrow> string \<Rightarrow> string \<Rightarrow> string \<Rightarrow> string" where
  "registration_message device_id device_name os nonce =
     ''minipunch:register:'' @ device_id @ '':'' @ device_name @ '':'' @ os @ '':'' @ nonce"

definition relay_key_binding_message :: "string \<Rightarrow> string \<Rightarrow> string" where
  "relay_key_binding_message device_id relay_public_key =
     ''minipunch:relay-key:'' @ device_id @ '':'' @ relay_public_key"

definition relay_channel_open_message :: "string \<Rightarrow> string \<Rightarrow> string \<Rightarrow> string \<Rightarrow> string" where
  "relay_channel_open_message channel_id service_id source_device_id source_ephemeral_public_key =
     ''minipunch:channel-open:'' @ channel_id @ '':'' @ service_id @ '':'' @ source_device_id
       @ '':'' @ source_ephemeral_public_key"

definition direct_probe_hello_message :: "string \<Rightarrow> string \<Rightarrow> string \<Rightarrow> string" where
  "direct_probe_hello_message rendezvous_id sender_device_id hello_nonce =
     ''minipunch:direct-probe:hello:'' @ rendezvous_id @ '':'' @ sender_device_id @ '':'' @ hello_nonce"

definition direct_probe_ack_message :: "string \<Rightarrow> string \<Rightarrow> string \<Rightarrow> string \<Rightarrow> string" where
  "direct_probe_ack_message rendezvous_id sender_device_id hello_nonce ack_nonce =
     ''minipunch:direct-probe:ack:'' @ rendezvous_id @ '':'' @ sender_device_id @ '':''
       @ hello_nonce @ '':'' @ ack_nonce"

definition service_id_of :: "crypto_prims \<Rightarrow> string \<Rightarrow> string \<Rightarrow> string" where
  "service_id_of P owner_device_id service_name =
     ''svc_'' @ take 20 (b64_encode P
       (sha256 P (as_bytes owner_device_id @ as_bytes '':'' @ as_bytes service_name)))"

lemma decode_fixed_encode:
  "b64_law P \<Longrightarrow> length b = n \<Longrightarrow> decode_fixed P n e (b64_encode P b) = Inr b"
  by (simp add: decode_fixed_def b64_law_def)

lemma identity_roundtrip:
  assumes "b64_law P" "length (di_signing_key i) = 32"
  shows "identity_from_private_key_base64 P (identity_private_key_base64 P i) = Inr i"
  using assms by (simp add: identity_from_private_key_base64_def identity_private_key_base64_def
      decode_fixed_encode)

lemma sign_verify:
  assumes "b64_law P" "ed_law P" "length (di_signing_key i) = 32"
  shows "verify_signature_base64 P (identity_public_key_base64 P i) m (sign_base64 P i m) = Inr ()"
proof -
  have "length (ed_public P (di_signing_key i)) = 32"
    "ed_key_ok P (ed_public P (di_signing_key i))"
    "length (ed_sign P (di_signing_key i) (as_bytes m)) = 64"
    "ed_verify P (ed_public P (di_signing_key i)) (as_bytes m) (ed_sign P (di_signing_key i) (as_bytes m))"
    using assms by (simp_all add: ed_law_def)
  with assms(1) show ?thesis
    by (simp add: verify_signature_base64_def identity_public_key_base64_def sign_base64_def
        decode_fixed_encode)
qed

text \<open>
  The five kinds of signed message are distinct strings whatever their fields are: a signature
  given for one purpose is no signature for another.
\<close>

lemma message_kinds_disjoint:
  "registration_message a b c d \<noteq> relay_key_binding_message e f"
  "registration_message a b c d \<noteq> relay_channel_open_message g h i j"
  "registration_message a b c d \<noteq> direct_probe_hello_message k l m"
  "registration_message a b c d \<noteq> direct_probe_ack_message n p q r"
  "relay_key_binding_message e f \<noteq> relay_channel_open_message g h i j"
  "relay_key_binding_message e f \<noteq> direct_probe_hello_message k l m"
  "relay_key_binding_message e f \<noteq> direct_probe_ack_message n p q r"
  "relay_channel_open_message g h i j \<noteq> direct_probe_hello_message k l m"
  "relay_channel_open_message g h i j \<noteq> direct_probe_ack_message n p q r"
  "direct_probe_hello_message k l m \<noteq> direct_probe_ack_message n p q r"
  by (simp_all add: registration_message_def relay_key_binding_message_def
      relay_channel_open_message_def direct_probe_hello_message_def direct_probe_ack_message_def)

section \<open>Relay key pairs\<close>

record relay_keypair =
  rk_secret_bytes :: "byte list"

definition keypair_from_private_key_base64 ::
  "crypto_prims \<Rightarrow> string \<Rightarrow> crypto_error + relay_keypair" where
  "keypair_from_private_key_base64 P s =
     result_bind (decode_fixed P 32 InvalidRelayKey s) (\<lambda>b. Inr \<lparr>rk_secret_bytes = b\<rparr>)"

definition keypair_private_key_base64 :: "crypto_prims \<Rightarrow> relay_keypair \<Rightarrow> string" where
  "keypair_private_key_base64 P k = b64_encode P (rk_secret_bytes k)"

definition keypair_public_key_base64 :: "crypto_prims \<Rightarrow> relay_keypair \<Rightarrow> string" where
  "keypair_public_key_base64 P k = b64_encode P (x_public P (rk_secret_bytes k))"

definition shared_secret_with_public_key ::
  "crypto_prims \<Rightarrow> relay_keypair \<Rightarrow> string \<Rightarrow> crypto_error + byte list" where
  "shared_secret_with_public_key P k peer =
     result_bind (decode_fixed P 32 InvalidRelayKey peer)
       (\<lambda>b. Inr (x_dh P (rk_secret_bytes k) b))"

lemma keypair_roundtrip:
  assumes "b64_law P" "length (rk_secret_bytes k) = 32"
  shows "keypair_from_private_key_base64 P (keypair_private_key_base64 P k) = Inr k"
  using assms by (simp add: keypair_from_private_key_base64_def keypair_private_key_base64_def
      decode_fixed_encode)

lemma shared_secret_agree:
  assumes "b64_law P" "dh_law P" "length (rk_secret_bytes a) = 32" "length (rk_secret_bytes b) = 32"
  shows "\<exists>s. shared_secret_with_public_key P a (keypair_public_key_base64 P b) = Inr s
    \<and> shared_secret_with_public_key P b (keypair_public_key_base64 P a) = Inr s \<and> length s = 32"
  using assms unfolding dh_law_def
  by (simp add: shared_secret_with_public_key_def keypair_public_key_base64_def decode_fixed_encode)

section \<open>The secure channel\<close>

datatype secure_channel_role = Initiator | Responder

text \<open>A sender and a receiver have the same fields; they are used in opposite directions.\<close>

record secure_half =
  sh_key :: "byte list"
  sh_aad :: "byte list"
  sh_prefix :: "byte list"
  sh_counter :: "64 word"

type_synonym secure_sender = secure_half
type_synonym secure_receiver = secure_half

definition build_nonce :: "byte list \<Rightarrow> 64 word \<Rightarrow> byte list" where
  "build_nonce prefix counter = prefix @ to_be_bytes counter"

text \<open>\<open>u64::saturating_add(1)\<close>.\<close>

definition sat_inc :: "64 word \<Rightarrow> 64 word" where
  "sat_inc w = (if w = - 1 then w else w + 1)"

definition encrypt_to_base64 ::
  "crypto_prims \<Rightarrow> secure_sender \<Rightarrow> byte list \<Rightarrow> (crypto_error + string) \<times> secure_sender" where
  "encrypt_to_base64 P s plaintext =
     (let nonce = build_nonce (sh_prefix s) (sh_counter s);
          s' = s\<lparr>sh_counter := sat_inc (sh_counter s)\<rparr>
      in case aead_seal P (sh_key s) nonce (sh_aad s) plaintext of
           None \<Rightarrow> (Inl EncryptFailed, s')
         | Some c \<Rightarrow> (Inr (b64_encode P c), s'))"

definition decrypt_from_base64 ::
  "crypto_prims \<Rightarrow> secure_receiver \<Rightarrow> string \<Rightarrow> (crypto_error + byte list) \<times> secure_receiver" where
  "decrypt_from_base64 P r text64 =
     (case b64_decode P text64 of
        None \<Rightarrow> (Inl InvalidBase64, r)
      | Some c \<Rightarrow>
          let nonce = build_nonce (sh_prefix r) (sh_counter r);
              r' = r\<lparr>sh_counter := sat_inc (sh_counter r)\<rparr>
          in case aead_open P (sh_key r) nonce (sh_aad r) c of
               None \<Rightarrow> (Inl DecryptFailed, r')
             | Some m \<Rightarrow> (Inr m, r'))"

definition channel_key_label :: string where
  "channel_key_label = ''minipunch:relay-data:v1:''"

fun role_prefix :: "secure_channel_role \<Rightarrow> byte list" where
  "role_prefix Initiator = [0, 0, 0, 1]"
| "role_prefix Responder = [0, 0, 0, 2]"

fun peer_role :: "secure_channel_role \<Rightarrow> secure_channel_role" where
  "peer_role Initiator = Responder"
| "peer_role Responder = Initiator"

definition secure_channel_pair ::
  "crypto_prims \<Rightarrow> byte list \<Rightarrow> string \<Rightarrow> secure_channel_role \<Rightarrow> secure_sender \<times> secure_receiver" where
  "secure_channel_pair P shared channel_id role =
     (let key = sha256 P (shared @ as_bytes channel_key_label @ as_bytes channel_id);
          aad = as_bytes channel_id;
          half = (\<lambda>p. \<lparr>sh_key = key, sh_aad = aad, sh_prefix = p, sh_counter = 0\<rparr>)
      in (half (role_prefix role), half (role_prefix (peer_role role))))"

text \<open>The two ends of one channel: the sender of one is, as a record, the receiver of the other.\<close>

lemma secure_channel_pair_match:
  "fst (secure_channel_pair P k c role) = snd (secure_channel_pair P k c (peer_role role))"
  by (cases role) (simp_all add: secure_channel_pair_def Let_def)

definition secure_half_ok :: "secure_half \<Rightarrow> bool" where
  "secure_half_ok h = (length (sh_key h) = 32 \<and> length (sh_prefix h) = 4)"

lemma secure_channel_pair_ok:
  assumes "sha_law P"
  shows "secure_half_ok (fst (secure_channel_pair P k c role))"
    "secure_half_ok (snd (secure_channel_pair P k c role))"
  using assms by (cases role; simp add: secure_channel_pair_def secure_half_ok_def sha_law_def Let_def)+

lemma secure_half_ok_counter [simp]:
  "secure_half_ok (h\<lparr>sh_counter := c\<rparr>) = secure_half_ok h"
  by (simp add: secure_half_ok_def)

text \<open>One message from a sender to a receiver in the same state.\<close>

lemma encrypt_decrypt:
  assumes P: "b64_law P" "aead_law P" and h: "secure_half_ok h" and m: "length m \<le> 2 ^ 32"
  shows "\<exists>ct. encrypt_to_base64 P h m = (Inr ct, h\<lparr>sh_counter := sat_inc (sh_counter h)\<rparr>)
    \<and> decrypt_from_base64 P h ct = (Inr m, h\<lparr>sh_counter := sat_inc (sh_counter h)\<rparr>)"
proof -
  let ?n = "build_nonce (sh_prefix h) (sh_counter h)"
  have "length ?n = 12" using h by (simp add: build_nonce_def secure_half_ok_def)
  with P(2) h m obtain c where "aead_seal P (sh_key h) ?n (sh_aad h) m = Some c"
    "aead_open P (sh_key h) ?n (sh_aad h) c = Some m"
    unfolding aead_law_def secure_half_ok_def by blast
  with P(1) show ?thesis
    by (simp add: encrypt_to_base64_def decrypt_from_base64_def b64_law_def Let_def)
qed

text \<open>Whole streams: messages encrypted one after another, decrypted in the same order.\<close>

fun encrypt_all ::
  "crypto_prims \<Rightarrow> secure_sender \<Rightarrow> byte list list \<Rightarrow> (crypto_error + string) list \<times> secure_sender" where
  "encrypt_all P s [] = ([], s)"
| "encrypt_all P s (m # ms) =
     (let (r, s') = encrypt_to_base64 P s m; (rs, s'') = encrypt_all P s' ms in (r # rs, s''))"

fun decrypt_all ::
  "crypto_prims \<Rightarrow> secure_receiver \<Rightarrow> (crypto_error + string) list
     \<Rightarrow> (crypto_error + byte list) list \<times> secure_receiver" where
  "decrypt_all P r [] = ([], r)"
| "decrypt_all P r (Inl e # cs) = (let (ms, r') = decrypt_all P r cs in (Inl e # ms, r'))"
| "decrypt_all P r (Inr c # cs) =
     (let (m, r') = decrypt_from_base64 P r c; (ms, r'') = decrypt_all P r' cs in (m # ms, r''))"

lemma decrypt_encrypt_all:
  assumes "b64_law P" "aead_law P" "secure_half_ok h" "\<forall>m\<in>set ms. length m \<le> 2 ^ 32"
  shows "decrypt_all P h (fst (encrypt_all P h ms)) = (map Inr ms, snd (encrypt_all P h ms))"
  using assms(3,4)
proof (induction ms arbitrary: h)
  case (Cons m ms)
  then obtain ct where ct: "encrypt_to_base64 P h m = (Inr ct, h\<lparr>sh_counter := sat_inc (sh_counter h)\<rparr>)"
    "decrypt_from_base64 P h ct = (Inr m, h\<lparr>sh_counter := sat_inc (sh_counter h)\<rparr>)"
    using encrypt_decrypt [OF assms(1,2), of h m] by auto
  with Cons.IH [of "h\<lparr>sh_counter := sat_inc (sh_counter h)\<rparr>"] Cons.prems show ?case
    by (simp add: case_prod_unfold Let_def)
qed simp

section \<open>Nonces\<close>

text \<open>The nonce of the \<open>k\<close>-th message of a sender: the counter saturates at its last value.\<close>

definition nth_nonce :: "secure_channel_role \<Rightarrow> nat \<Rightarrow> byte list" where
  "nth_nonce role k = build_nonce (role_prefix role) ((sat_inc ^^ k) 0)"

lemma encrypt_counter:
  "sh_counter (snd (encrypt_all P s ms)) = (sat_inc ^^ length ms) (sh_counter s)"
proof (induction ms arbitrary: s)
  case (Cons m ms)
  then show ?case
    by (simp add: case_prod_unfold Let_def encrypt_to_base64_def funpow_swap1 split: option.splits)
qed simp

lemma sat_inc_iter: "k \<le> 2 ^ 64 - 1 \<Longrightarrow> (sat_inc ^^ k) 0 = of_nat k"
proof (induction k)
  case (Suc k)
  then have k: "k < 2 ^ 64 - 1" by simp
  have "(of_nat k :: 64 word) \<noteq> - 1"
  proof
    assume "(of_nat k :: 64 word) = - 1"
    then have "(of_nat (Suc k) :: 64 word) = 0" by simp
    then have "2 ^ 64 dvd Suc k" by (simp only: word_of_nat_eq_0_iff) simp
    with k show False by (auto dest: dvd_imp_le)
  qed
  with Suc k show ?case by (simp add: sat_inc_def add.commute)
qed simp

lemma role_prefix_inj: "role_prefix r = role_prefix r' \<longleftrightarrow> r = r'"
  by (cases r; cases r') simp_all

lemma build_nonce_inj:
  "build_nonce (role_prefix r) c = build_nonce (role_prefix r') c' \<longleftrightarrow> r = r' \<and> c = c'"
proof -
  have "length (role_prefix r) = length (role_prefix r')" by (cases r; cases r') simp_all
  then show ?thesis
    by (simp add: build_nonce_def append_eq_append_conv role_prefix_inj to_be_bytes_inj)
qed

lemma nth_nonce_inj:
  assumes "k \<le> 2 ^ 64 - 1" "j \<le> 2 ^ 64 - 1"
  shows "nth_nonce r k = nth_nonce r' j \<longleftrightarrow> r = r' \<and> k = j"
proof -
  have "(of_nat k :: 64 word) = of_nat j \<longleftrightarrow> k = j"
    using assms by (simp add: of_nat_eq_iff word_of_nat_eq_iff take_bit_nat_eq_self)
  then show ?thesis
    using assms by (simp add: nth_nonce_def build_nonce_inj sat_inc_iter)
qed

text \<open>Past the last counter value the nonce repeats: the width is the only limit on a channel.\<close>

lemma nth_nonce_saturates: "nth_nonce r (2 ^ 64) = nth_nonce r (2 ^ 64 - 1)"
proof -
  have "(sat_inc ^^ (2 ^ 64 - 1)) 0 = (- 1 :: 64 word)"
    by (subst sat_inc_iter) simp_all
  moreover have "(sat_inc ^^ (Suc (2 ^ 64 - 1))) 0 = sat_inc ((sat_inc ^^ (2 ^ 64 - 1)) (0 :: 64 word))"
    by (simp only: funpow.simps comp_def)
  moreover have "Suc (2 ^ 64 - 1) = 2 ^ 64" by simp
  ultimately show ?thesis by (simp only: nth_nonce_def sat_inc_def) simp
qed

end
