(* ===== verification/Bridge.thy ===== *)
theory Bridge
  imports AckHandling Crypto
begin

text \<open>
  The bridge between a local TCP stream and a direct channel
  (\<open>bridge_stream_with_direct_channel\<close> and its helpers in \<open>minipunch-agent/src/direct.rs\<close>).
  The local variables of the async function are the record \<open>bridge\<close>; every arm of its
  \<open>select!\<close> is one step function, with the arm's precondition as \<open>enabled\<close>. The
  outside world is the argument \<open>io\<close>: the clock, whether the outbound queue still has a reader,
  which socket write fails, whether shutting the socket down succeeds. Time stands still during a
  step. The outbound envelopes, the bytes written to the socket, the channel registration and the
  metrics reports are the observable effects and are fields of the record.
\<close>

section \<open>State\<close>

record bridge = ack_state +
  br_channel_id :: string
  br_rendezvous_id :: string
  br_next_out :: nat
  br_expected :: nat
  br_inbound :: inbound
  br_pending_close :: "pending_direct_close option"
  br_local_read_closed :: bool
  br_ka_nonce :: nat
  br_ka_sent :: nat
  br_ka_ack :: nat
  br_last_peer :: nat
  br_last_ka :: "nat option"
  br_reporter :: metrics_reporter
  br_sender :: secure_sender
  br_receiver :: secure_receiver
  br_outbox :: "direct_tunnel_envelope list"
  br_written :: "byte list"
  br_shut :: bool
  br_registered :: bool

record io =
  io_now :: nat
  io_up :: bool
  io_write_fail :: "nat option"
  io_shutdown_ok :: bool

text \<open>
  An arm either goes round the loop, breaks out of it with the function's result, or leaves the
  function early through \<open>?\<close>.
\<close>

datatype bridge_outcome =
    Continue bridge
  | Break "string + unit" bridge
  | Early string bridge

fun outcome_state :: "bridge_outcome \<Rightarrow> bridge" where
  "outcome_state (Continue b) = b"
| "outcome_state (Break _ b) = b"
| "outcome_state (Early _ b) = b"

text \<open>\<open>?\<close> on the result of a send.\<close>

definition try_then ::
  "(string + unit) \<times> bridge \<Rightarrow> (bridge \<Rightarrow> bridge_outcome) \<Rightarrow> bridge_outcome" where
  "try_then r k = (case fst r of Inl e \<Rightarrow> Early e (snd r) | Inr _ \<Rightarrow> k (snd r))"

lemma try_then_simps [simp]:
  "try_then (Inl e, b) k = Early e b"
  "try_then (Inr u, b) k = k b"
  by (simp_all add: try_then_def)

definition report :: "io \<Rightarrow> bridge \<Rightarrow> bridge" where
  "report io b =
     b\<lparr>br_reporter :=
         maybe_report (br_reporter b) (io_now io)
           (runtime_metrics (as_congestion b) (as_rto b) (as_srtt b) (length (as_pending b))
              (length (br_inbound b)) (br_ka_sent b) (br_ka_ack b))\<rparr>"

definition bridge_init ::
  "string \<Rightarrow> string \<Rightarrow> secure_sender \<Rightarrow> secure_receiver \<Rightarrow> bool \<Rightarrow> nat \<Rightarrow> bridge" where
  "bridge_init channel_id rendezvous_id snd_half rcv_half hook now =
     \<lparr>as_pending = [], as_congestion = congestion_default, as_rto = initial_rto,
      as_srtt = None, as_rttvar = None, as_tracker = ack_tracker_default, as_scoreboard = [],
      br_channel_id = channel_id, br_rendezvous_id = rendezvous_id,
      br_next_out = 0, br_expected = 0, br_inbound = [], br_pending_close = None,
      br_local_read_closed = False, br_ka_nonce = 0, br_ka_sent = 0, br_ka_ack = 0,
      br_last_peer = now, br_last_ka = None,
      br_reporter = force_report (reporter_new hook) now
        (runtime_metrics congestion_default initial_rto None 0 0 0 0),
      br_sender = snd_half, br_receiver = rcv_half,
      br_outbox = [], br_written = [], br_shut = False, br_registered = True\<rparr>"

section \<open>Sending\<close>

definition conn_send ::
  "io \<Rightarrow> direct_tunnel_envelope \<Rightarrow> bridge \<Rightarrow> (string + unit) \<times> bridge" where
  "conn_send io e b =
     (if io_up io then (Inr (), b\<lparr>br_outbox := br_outbox b @ [e]\<rparr>)
      else (Inl ''direct UDP connection is closed'', b))"

definition data_timeout_message :: "string \<Rightarrow> nat \<Rightarrow> string" where
  "data_timeout_message c n =
     ''timed out waiting for direct data acknowledgement on channel '' @ c @ '' after ''
       @ show_nat n @ '' attempts''"

definition close_timeout_message :: "string \<Rightarrow> nat \<Rightarrow> string" where
  "close_timeout_message c n =
     ''timed out waiting for direct close acknowledgement on channel '' @ c @ '' after ''
       @ show_nat n @ '' attempts''"

text \<open>The helpers return the updated queue entry; the caller puts it back.\<close>

definition send_pending_data ::
  "io \<Rightarrow> pending_direct_data \<Rightarrow> bridge \<Rightarrow> pending_direct_data \<times> (string + unit) \<times> bridge" where
  "send_pending_data io p b =
     (let p1 = p\<lparr>pd_attempts := wrap_add32 (pd_attempts p) 1\<rparr> in
      if max_retransmit_attempts < pd_attempts p1
      then (p1, Inl (data_timeout_message (br_channel_id b) (pd_attempts p1 - 1)), b)
      else
        let p2 = p1\<lparr>pd_last_sent_at := io_now io\<rparr> in
        (p2, conn_send io
               (DT_ChannelData (br_rendezvous_id b) (br_channel_id b) (pd_sequence p2) (pd_data_base64 p2)) b))"

definition send_pending_close ::
  "io \<Rightarrow> pending_direct_close \<Rightarrow> bridge \<Rightarrow> pending_direct_close \<times> (string + unit) \<times> bridge" where
  "send_pending_close io p b =
     (let p1 = p\<lparr>pc_attempts := wrap_add32 (pc_attempts p) 1\<rparr> in
      if max_retransmit_attempts < pc_attempts p1
      then (p1, Inl (close_timeout_message (br_channel_id b) (pc_attempts p1 - 1)), b)
      else
        let p2 = p1\<lparr>pc_last_sent_at := io_now io\<rparr> in
        (p2, conn_send io
               (DT_ChannelClose (br_rendezvous_id b) (br_channel_id b) (pc_final_sequence p2) (pc_reason p2)) b))"

definition maybe_start_close :: "io \<Rightarrow> bridge \<Rightarrow> (string + unit) \<times> bridge" where
  "maybe_start_close io b =
     (if br_pending_close b \<noteq> None \<or> as_pending b \<noteq> [] \<or> \<not> br_local_read_closed b then (Inr (), b)
      else
        let close = \<lparr>pc_final_sequence = br_next_out b, pc_reason = Some ''local tcp stream closed'',
                     pc_attempts = 0, pc_last_sent_at = io_now io\<rparr>;
            (close', r, b') = send_pending_close io close b
        in case r of Inl e \<Rightarrow> (Inl e, b') | Inr _ \<Rightarrow> (Inr (), b'\<lparr>br_pending_close := Some close'\<rparr>))"

definition send_ack :: "io \<Rightarrow> bridge \<Rightarrow> (string + unit) \<times> bridge" where
  "send_ack io b =
     conn_send io (DT_ChannelAck (br_rendezvous_id b) (br_channel_id b) (br_expected b)
                     (selective_ack_ranges (br_inbound b))) b"

definition send_keepalive :: "io \<Rightarrow> bridge \<Rightarrow> (string + unit) \<times> bridge" where
  "send_keepalive io b =
     conn_send io (DT_ChannelKeepalive (br_rendezvous_id b) (br_channel_id b) (br_ka_nonce b)) b"

definition send_keepalive_ack :: "io \<Rightarrow> nat \<Rightarrow> bridge \<Rightarrow> (string + unit) \<times> bridge" where
  "send_keepalive_ack io nonce b =
     conn_send io (DT_ChannelKeepaliveAck (br_rendezvous_id b) (br_channel_id b) nonce) b"

definition send_close_ack :: "io \<Rightarrow> nat \<Rightarrow> bridge \<Rightarrow> (string + unit) \<times> bridge" where
  "send_close_ack io final b =
     conn_send io (DT_ChannelCloseAck (br_rendezvous_id b) (br_channel_id b) final) b"

text \<open>\<open>find\<close> by sequence number, then send through the mutable reference.\<close>

fun update_first ::
  "('a \<Rightarrow> bool) \<Rightarrow> ('a \<Rightarrow> 'a) \<Rightarrow> 'a list \<Rightarrow> 'a list" where
  "update_first P f [] = []"
| "update_first P f (x # xs) = (if P x then f x # xs else x # update_first P f xs)"

definition resend_pending :: "io \<Rightarrow> nat \<Rightarrow> bridge \<Rightarrow> bool \<times> (string + unit) \<times> bridge" where
  "resend_pending io s b =
     (case List.find (\<lambda>p. pd_sequence p = s) (as_pending b) of
        None \<Rightarrow> (False, Inr (), b)
      | Some p \<Rightarrow>
          let (p', r, b') = send_pending_data io p b in
          (True, r, b'\<lparr>as_pending := update_first (\<lambda>q. pd_sequence q = s) (\<lambda>_. p') (as_pending b')\<rparr>))"

section \<open>The arms of the loop\<close>

text \<open>
  First arm: the local socket, enabled while the read side is open, no close is in flight and the
  send window has room. A read gives at most 1024 bytes.
\<close>

definition local_read_enabled :: "bridge \<Rightarrow> bool" where
  "local_read_enabled b =
     (\<not> br_local_read_closed b \<and> br_pending_close b = None
      \<and> length (as_pending b) < send_window_size (as_congestion b))"

definition on_local_eof :: "io \<Rightarrow> bridge \<Rightarrow> bridge_outcome" where
  "on_local_eof io b =
     try_then (maybe_start_close io (b\<lparr>br_local_read_closed := True\<rparr>)) (\<lambda>b. Continue (report io b))"

definition on_local_data :: "crypto_prims \<Rightarrow> io \<Rightarrow> byte list \<Rightarrow> bridge \<Rightarrow> bridge_outcome" where
  "on_local_data P io bytes b =
     (let (r, s') = encrypt_to_base64 P (br_sender b) bytes; b1 = b\<lparr>br_sender := s'\<rparr> in
      case r of
        Inl e \<Rightarrow> Early (''failed to encrypt direct payload: '' @ crypto_error_message e) b1
      | Inr ct \<Rightarrow>
          let d = \<lparr>pd_sequence = br_next_out b1, pd_data_base64 = ct, pd_attempts = 0,
                   pd_last_sent_at = io_now io\<rparr>;
              b2 = b1\<lparr>br_next_out := wrap_add64 (br_next_out b1) 1\<rparr>;
              (d', r', b3) = send_pending_data io d b2
          in try_then (r', b3) (\<lambda>b. Continue (report io (b\<lparr>as_pending := as_pending b @ [d']\<rparr>))))"

definition on_local_read ::
  "crypto_prims \<Rightarrow> io \<Rightarrow> byte list option \<Rightarrow> bridge \<Rightarrow> bridge_outcome" where
  "on_local_read P io read b =
     (case read of
        None \<Rightarrow> Early ''failed to read local tcp stream'' b
      | Some bytes \<Rightarrow> if bytes = [] then on_local_eof io b else on_local_data P io bytes b)"

text \<open>Second arm: the retransmission timer, enabled while something is unacknowledged.\<close>

definition retransmit_enabled :: "bridge \<Rightarrow> bool" where
  "retransmit_enabled b = (as_pending b \<noteq> [] \<or> br_pending_close b \<noteq> None)"

definition retransmit_data :: "io \<Rightarrow> bridge \<Rightarrow> bool \<times> (string + unit) \<times> bridge" where
  "retransmit_data io b =
     (case select_loss_recovery (as_pending b) (as_scoreboard b)
             (Trigger_Timeout (io_now io) (as_rto b)) of
        None \<Rightarrow> (False, Inr (), b)
      | Some s \<Rightarrow> resend_pending io s b)"

definition retransmit_close :: "io \<Rightarrow> bridge \<Rightarrow> bool \<times> (string + unit) \<times> bridge" where
  "retransmit_close io b =
     (case br_pending_close b of
        None \<Rightarrow> (False, Inr (), b)
      | Some c \<Rightarrow>
          if as_rto b \<le> io_now io - pc_last_sent_at c then
            let (c', r, b') = send_pending_close io c b in (True, r, b'\<lparr>br_pending_close := Some c'\<rparr>)
          else (False, Inr (), b))"

definition after_retransmit :: "bool \<Rightarrow> bool \<Rightarrow> bridge \<Rightarrow> bridge" where
  "after_retransmit sent_data sent_close b =
     (if sent_data
      then b\<lparr>as_congestion := on_timeout (as_congestion b) (length (as_pending b)),
             as_rto := backoff_rto (as_rto b)\<rparr>
      else if sent_close then b\<lparr>as_rto := backoff_rto (as_rto b)\<rparr>
      else b)"

definition on_retransmit_tick :: "io \<Rightarrow> bridge \<Rightarrow> bridge_outcome" where
  "on_retransmit_tick io b =
     (let (sent_data, r1, b1) = retransmit_data io b in
      try_then (r1, b1) (\<lambda>b1.
        let (sent_close, r2, b2) = retransmit_close io b1 in
        try_then (r2, b2) (\<lambda>b2.
          Continue (report io (after_retransmit sent_data sent_close b2)))))"

text \<open>Third arm: housekeeping.\<close>

definition idle_message :: "string \<Rightarrow> string" where
  "idle_message c =
     ''direct peer idle timeout on channel '' @ c @ '' after '' @ show_nat (as_secs peer_idle_timeout)
       @ ''s without peer traffic''"

definition on_housekeeping_tick :: "io \<Rightarrow> bridge \<Rightarrow> bridge_outcome" where
  "on_housekeeping_tick io b =
     (let now = io_now io in
      if peer_idle_timed_out (br_last_peer b) now
      then Break (Inl (idle_message (br_channel_id b))) b
      else if should_send_keepalive (br_last_peer b) (br_last_ka b) now (length (as_pending b))
                (br_pending_close b \<noteq> None)
      then try_then (send_keepalive io b) (\<lambda>b.
             Continue (report io (b\<lparr>br_ka_nonce := sat_add64 (br_ka_nonce b) 1,
                                    br_ka_sent := sat_add64 (br_ka_sent b) 1,
                                    br_last_ka := Some now\<rparr>)))
      else Continue (report io b))"

text \<open>Fourth arm: an envelope from the peer, or the end of the receive queue.\<close>

fun deliver_payloads ::
  "crypto_prims \<Rightarrow> io \<Rightarrow> nat \<Rightarrow> string list \<Rightarrow> bridge \<Rightarrow> (string + unit) \<times> bridge" where
  "deliver_payloads P io k [] b = (Inr (), b)"
| "deliver_payloads P io k (p # ps) b =
     (let (r, rcv) = decrypt_from_base64 P (br_receiver b) p; b1 = b\<lparr>br_receiver := rcv\<rparr> in
      case r of
        Inl e \<Rightarrow> (Inl (''failed to decrypt direct payload: '' @ crypto_error_message e), b1)
      | Inr bytes \<Rightarrow>
          if io_write_fail io = Some k then (Inl ''failed to write local tcp stream'', b1)
          else deliver_payloads P io (Suc k) ps (b1\<lparr>br_written := br_written b1 @ bytes\<rparr>))"

definition on_channel_data ::
  "crypto_prims \<Rightarrow> io \<Rightarrow> nat \<Rightarrow> string \<Rightarrow> bridge \<Rightarrow> bridge_outcome" where
  "on_channel_data P io s d b =
     (let (ready, e, m) = queue_inbound (br_expected b) (br_inbound b) s d;
          b1 = b\<lparr>br_expected := e, br_inbound := m\<rparr>
      in try_then (deliver_payloads P io 0 ready b1) (\<lambda>b2.
           try_then (send_ack io b2) (\<lambda>b3. Continue (report io b3))))"

definition on_channel_ack :: "io \<Rightarrow> nat \<Rightarrow> ack_range list \<Rightarrow> bridge \<Rightarrow> bridge_outcome" where
  "on_channel_ack io n ranges b =
     (let (b1, retransmit) = handle_ack (io_now io) n ranges b;
          (_, r, b2) = (case retransmit of
                          Some s \<Rightarrow> resend_pending io s b1
                        | None \<Rightarrow> (False, Inr (), b1))
      in try_then (r, b2) (\<lambda>b2.
           try_then (maybe_start_close io b2) (\<lambda>b3. Continue (report io b3))))"

definition shutdown_then :: "io \<Rightarrow> string + unit \<Rightarrow> bridge \<Rightarrow> bridge_outcome" where
  "shutdown_then io result b =
     (if io_shutdown_ok io then Break result (b\<lparr>br_shut := True\<rparr>)
      else Early ''failed to shutdown local tcp stream'' b)"

definition on_channel_close :: "io \<Rightarrow> nat \<Rightarrow> bridge \<Rightarrow> bridge_outcome" where
  "on_channel_close io final b =
     (if br_expected b < final then try_then (send_ack io b) Continue
      else try_then (send_close_ack io final b) (shutdown_then io (Inr ())))"

definition on_channel_close_ack :: "io \<Rightarrow> nat \<Rightarrow> bridge \<Rightarrow> bridge_outcome" where
  "on_channel_close_ack io final b =
     (case br_pending_close b of
        Some c \<Rightarrow> if pc_final_sequence c \<le> final then shutdown_then io (Inr ()) b else Continue b
      | None \<Rightarrow> Continue b)"

definition on_rejected :: "io \<Rightarrow> string \<Rightarrow> bridge \<Rightarrow> bridge_outcome" where
  "on_rejected io reason b =
     shutdown_then io (Inl (''direct channel rejected while active: '' @ reason)) b"

fun dispatch_envelope ::
  "crypto_prims \<Rightarrow> io \<Rightarrow> direct_tunnel_envelope \<Rightarrow> bridge \<Rightarrow> bridge_outcome" where
  "dispatch_envelope P io (DT_ChannelData _ _ s d) b = on_channel_data P io s d b"
| "dispatch_envelope P io (DT_ChannelAck _ _ n rs) b = on_channel_ack io n rs b"
| "dispatch_envelope P io (DT_ChannelKeepalive _ _ nonce) b = try_then (send_keepalive_ack io nonce b) Continue"
| "dispatch_envelope P io (DT_ChannelKeepaliveAck _ _ _) b =
     Continue (report io (b\<lparr>br_ka_ack := sat_add64 (br_ka_ack b) 1\<rparr>))"
| "dispatch_envelope P io (DT_ChannelClose _ _ final _) b = on_channel_close io final b"
| "dispatch_envelope P io (DT_ChannelCloseAck _ _ final) b = on_channel_close_ack io final b"
| "dispatch_envelope P io (DT_ChannelRejected _ _ reason) b = on_rejected io reason b"
| "dispatch_envelope P io (DT_ChannelAccepted _ _) b = Continue b"
| "dispatch_envelope P io (DT_OpenChannel _ _ _ _ _ _) b = Continue b"

definition on_envelope ::
  "crypto_prims \<Rightarrow> io \<Rightarrow> direct_tunnel_envelope option \<Rightarrow> bridge \<Rightarrow> bridge_outcome" where
  "on_envelope P io e b =
     (case e of
        None \<Rightarrow> Break (Inl (''direct UDP connection closed while channel '' @ br_channel_id b @ '' was active'')) b
      | Some env \<Rightarrow> dispatch_envelope P io env (b\<lparr>br_last_peer := io_now io\<rparr>))"

section \<open>The loop\<close>

datatype bridge_event =
    LocalRead "byte list option"
  | RetransmitTick
  | HousekeepingTick
  | FromPeer "direct_tunnel_envelope option"

fun enabled :: "bridge_event \<Rightarrow> bridge \<Rightarrow> bool" where
  "enabled (LocalRead r) b =
     (local_read_enabled b \<and> (case r of Some bytes \<Rightarrow> length bytes \<le> tunnel_max_plaintext | None \<Rightarrow> True))"
| "enabled RetransmitTick b = retransmit_enabled b"
| "enabled HousekeepingTick b = True"
| "enabled (FromPeer _) b = True"

fun bridge_step :: "crypto_prims \<Rightarrow> io \<Rightarrow> bridge_event \<Rightarrow> bridge \<Rightarrow> bridge_outcome" where
  "bridge_step P io (LocalRead r) b = on_local_read P io r b"
| "bridge_step P io RetransmitTick b = on_retransmit_tick io b"
| "bridge_step P io HousekeepingTick b = on_housekeeping_tick io b"
| "bridge_step P io (FromPeer e) b = on_envelope P io e b"

text \<open>
  What the function returns and leaves behind: after a \<open>break\<close> it clears the metrics and
  unregisters the channel; an early return does neither.
\<close>

definition bridge_exit :: "bridge \<Rightarrow> bridge" where
  "bridge_exit b = b\<lparr>br_reporter := reporter_clear (br_reporter b), br_registered := False\<rparr>"

fun bridge_result :: "bridge_outcome \<Rightarrow> ((string + unit) \<times> bridge) option" where
  "bridge_result (Continue b) = None"
| "bridge_result (Break r b) = Some (r, bridge_exit b)"
| "bridge_result (Early e b) = Some (Inl e, b)"

text \<open>A run over a list of events; disabled events do not happen.\<close>

fun bridge_run ::
  "crypto_prims \<Rightarrow> (io \<times> bridge_event) list \<Rightarrow> bridge \<Rightarrow> bridge_outcome" where
  "bridge_run P [] b = Continue b"
| "bridge_run P ((io, ev) # evs) b =
     (if enabled ev b
      then case bridge_step P io ev b of Continue b' \<Rightarrow> bridge_run P evs b' | out \<Rightarrow> out
      else bridge_run P evs b)"

end
