(* ===== verification/SecureStream.thy ===== *)
theory SecureStream
  imports Crypto
begin

text \<open>
  The ciphertext of a stream of chunks: the half of a secure channel after \<open>k\<close> messages, the
  \<open>k\<close>-th ciphertext, and that the other half decrypts it. Both transports rest on it.
\<close>

definition half_at :: "secure_half \<Rightarrow> nat \<Rightarrow> secure_half" where
  "half_at h k = h\<lparr>sh_counter := (sat_inc ^^ k) (sh_counter h)\<rparr>"

definition cipher :: "crypto_prims \<Rightarrow> secure_half \<Rightarrow> byte list list \<Rightarrow> nat \<Rightarrow> string" where
  "cipher P h c k =
     (case fst (encrypt_to_base64 P (half_at h k) (c ! k)) of Inr s \<Rightarrow> s | Inl _ \<Rightarrow> [])"

definition stream_crypto :: "crypto_prims \<Rightarrow> secure_half \<Rightarrow> bool" where
  "stream_crypto P h = (b64_law P \<and> aead_law P \<and> secure_half_ok h)"

lemma half_at_0 [simp]: "half_at h 0 = h"
  by (simp add: half_at_def)

lemma secure_half_ok_at [simp]: "secure_half_ok (half_at h k) = secure_half_ok h"
  by (simp add: half_at_def)

lemma half_at_Suc: "half_at h (Suc k) = (half_at h k)\<lparr>sh_counter := sat_inc (sh_counter (half_at h k))\<rparr>"
  by (simp add: half_at_def)

lemma cipher_step:
  assumes "stream_crypto P h" "length (c ! k) \<le> 2 ^ 32"
  shows "encrypt_to_base64 P (half_at h k) (c ! k) = (Inr (cipher P h c k), half_at h (Suc k))"
    and "decrypt_from_base64 P (half_at h k) (cipher P h c k) = (Inr (c ! k), half_at h (Suc k))"
proof -
  obtain ct where
    "encrypt_to_base64 P (half_at h k) (c ! k) = (Inr ct, half_at h (Suc k))"
    "decrypt_from_base64 P (half_at h k) ct = (Inr (c ! k), half_at h (Suc k))"
    using encrypt_decrypt [of P "half_at h k" "c ! k"] assms
    by (auto simp: stream_crypto_def half_at_Suc)
  then show "encrypt_to_base64 P (half_at h k) (c ! k) = (Inr (cipher P h c k), half_at h (Suc k))"
    "decrypt_from_base64 P (half_at h k) (cipher P h c k) = (Inr (c ! k), half_at h (Suc k))"
    by (simp_all add: cipher_def)
qed

lemma cipher_append [simp]: "k < length c \<Longrightarrow> cipher P h (c @ x) k = cipher P h c k"
  by (simp add: cipher_def nth_append)

end
