(* ===== verification/BridgeSender.thy ===== *)
theory BridgeSender
  imports Bridge SecureStream
begin

text \<open>
  The sending half of a bridge: what is queued, what has been sent, and how an acknowledgement from
  the peer is used. The invariant is stated against two ghost values: \<open>c\<close>, the chunks read
  from the local socket so far, and \<open>rcv\<close>, the set of sequence numbers the peer has received.
\<close>

text \<open>The sequence numbers stay far from the width: at most \<open>2 ^ 63\<close> chunks per stream.\<close>

definition stream_limit :: nat where "stream_limit = 2 ^ 63"

definition chunks_ok :: "byte list list \<Rightarrow> bool" where
  "chunks_ok c = ((\<forall>m\<in>set c. length m \<le> tunnel_max_plaintext) \<and> length c \<le> stream_limit)"

lemma cipher_crypt:
  assumes "stream_crypto P h" "length (c ! k) \<le> tunnel_max_plaintext"
  shows "encrypt_to_base64 P (half_at h k) (c ! k) = (Inr (cipher P h c k), half_at h (Suc k))"
    and "decrypt_from_base64 P (half_at h k) (cipher P h c k) = (Inr (c ! k), half_at h (Suc k))"
  using cipher_step [of P h c k] assms by (simp_all add: tunnel_max_plaintext_def)

section \<open>Sends\<close>

lemma conn_send_cases:
  assumes "conn_send io e b = (r, b')"
  obtains "r = Inr ()" "b' = b\<lparr>br_outbox := br_outbox b @ [e]\<rparr>"
    | err where "r = Inl err" "b' = b"
  using assms by (auto simp: conn_send_def split: if_splits)

lemma report_frame [simp]:
  "as_pending (report io b) = as_pending b" "as_congestion (report io b) = as_congestion b"
  "as_rto (report io b) = as_rto b" "as_srtt (report io b) = as_srtt b"
  "as_rttvar (report io b) = as_rttvar b" "as_tracker (report io b) = as_tracker b"
  "as_scoreboard (report io b) = as_scoreboard b"
  "br_channel_id (report io b) = br_channel_id b" "br_rendezvous_id (report io b) = br_rendezvous_id b"
  "br_next_out (report io b) = br_next_out b" "br_expected (report io b) = br_expected b"
  "br_inbound (report io b) = br_inbound b" "br_pending_close (report io b) = br_pending_close b"
  "br_local_read_closed (report io b) = br_local_read_closed b"
  "br_ka_nonce (report io b) = br_ka_nonce b" "br_ka_sent (report io b) = br_ka_sent b"
  "br_ka_ack (report io b) = br_ka_ack b" "br_last_peer (report io b) = br_last_peer b"
  "br_last_ka (report io b) = br_last_ka b" "br_sender (report io b) = br_sender b"
  "br_receiver (report io b) = br_receiver b" "br_outbox (report io b) = br_outbox b"
  "br_written (report io b) = br_written b" "br_shut (report io b) = br_shut b"
  "br_registered (report io b) = br_registered b"
  by (simp_all add: report_def)

section \<open>The invariant\<close>

definition sender_core ::
  "crypto_prims \<Rightarrow> secure_half \<Rightarrow> byte list list \<Rightarrow> nat set \<Rightarrow> bridge \<Rightarrow> bool" where
  "sender_core P h c rcv b =
     (ack_state_ok b \<and> br_next_out b = length c \<and> br_sender b = half_at h (length c)
      \<and> (\<forall>p\<in>set (as_pending b).
           pd_sequence p < length c \<and> pd_data_base64 p = cipher P h c (pd_sequence p))
      \<and> covers (as_scoreboard b) \<subseteq> rcv
      \<and> (\<forall>k<length c. k \<in> pending_seqs (as_pending b) \<or> k \<in> rcv)
      \<and> (\<forall>cl. br_pending_close b = Some cl \<longrightarrow>
           pc_final_sequence cl = length c \<and> br_local_read_closed b \<and> as_pending b = []))"

fun sender_msg_ok ::
  "crypto_prims \<Rightarrow> secure_half \<Rightarrow> byte list list \<Rightarrow> bool \<Rightarrow> direct_tunnel_envelope \<Rightarrow> bool" where
  "sender_msg_ok P h c cl (DT_ChannelData _ _ s d) = (s < length c \<and> d = cipher P h c s)"
| "sender_msg_ok P h c cl (DT_ChannelClose _ _ f _) = (f = length c \<and> cl)"
| "sender_msg_ok P h c cl _ = True"

definition sender_msgs ::
  "crypto_prims \<Rightarrow> secure_half \<Rightarrow> byte list list \<Rightarrow> bridge \<Rightarrow> bool" where
  "sender_msgs P h c b = (\<forall>e\<in>set (br_outbox b). sender_msg_ok P h c (br_local_read_closed b) e)"

fun sender_post ::
  "crypto_prims \<Rightarrow> secure_half \<Rightarrow> byte list list \<Rightarrow> nat set \<Rightarrow> bridge_outcome \<Rightarrow> bool" where
  "sender_post P h c rcv (Continue b) = (sender_core P h c rcv b \<and> sender_msgs P h c b)"
| "sender_post P h c rcv (Break r b) = sender_msgs P h c b"
| "sender_post P h c rcv (Early e b) = sender_msgs P h c b"

lemma sender_core_mono: "sender_core P h c rcv b \<Longrightarrow> rcv \<subseteq> rcv' \<Longrightarrow> sender_core P h c rcv' b"
  by (fastforce simp: sender_core_def)

lemma sender_init:
  "sender_core P h [] {} (bridge_init cid rid h rh hook now)"
  "sender_msgs P h [] (bridge_init cid rid h rh hook now)"
  by (simp_all add: sender_core_def sender_msgs_def bridge_init_def ack_state_ok_def pending_sorted_def
      ack_tracker_default_def rtt_state_ok_def congestion_default_ok initial_rto_ok)

text \<open>
  An arm that leaves the sending half alone and sends no data and no close keeps its invariant.
\<close>

definition sender_view where
  "sender_view b =
     (ack_state.truncate b, br_next_out b, br_sender b, br_pending_close b, br_local_read_closed b)"

definition sender_quiet :: "bridge \<Rightarrow> bridge \<Rightarrow> bool" where
  "sender_quiet b b' =
     (sender_view b' = sender_view b
      \<and> (\<exists>es. br_outbox b' = br_outbox b @ es \<and> (\<forall>e\<in>set es. \<forall>P h c cl. sender_msg_ok P h c cl e)))"

lemma sender_view_eq:
  "sender_view b' = sender_view b \<longleftrightarrow>
     as_pending b' = as_pending b \<and> as_congestion b' = as_congestion b \<and> as_rto b' = as_rto b
     \<and> as_srtt b' = as_srtt b \<and> as_rttvar b' = as_rttvar b \<and> as_tracker b' = as_tracker b
     \<and> as_scoreboard b' = as_scoreboard b \<and> br_next_out b' = br_next_out b \<and> br_sender b' = br_sender b
     \<and> br_pending_close b' = br_pending_close b \<and> br_local_read_closed b' = br_local_read_closed b"
  by (auto simp: sender_view_def ack_state.truncate_def)

lemma sender_quiet_core:
  assumes "sender_quiet b b'"
  shows "sender_core P h c rcv b' = sender_core P h c rcv b"
    and "sender_msgs P h c b \<Longrightarrow> sender_msgs P h c b'"
  using assms
  by (auto simp: sender_quiet_def sender_view_eq sender_core_def sender_msgs_def ack_state_ok_def)

lemma sender_quiet_refl [simp]: "sender_quiet b b"
  by (simp add: sender_quiet_def)

lemma sender_quiet_trans: "sender_quiet b b' \<Longrightarrow> sender_quiet b' b'' \<Longrightarrow> sender_quiet b b''"
  unfolding sender_quiet_def
  by (elim conjE exE, intro conjI, simp, rule exI, auto)

lemma sender_quiet_report [simp]: "sender_quiet b (report io b') = sender_quiet b b'"
  by (simp add: sender_quiet_def sender_view_eq)

lemma sender_quiet_post:
  assumes "sender_core P h c rcv b" "sender_msgs P h c b" "sender_quiet b (outcome_state out)"
  shows "sender_post P h c rcv out"
  using assms sender_quiet_core [OF assms(3)] by (cases out) auto

section \<open>Reading from the local socket\<close>

lemma wrap_add64_stream: "n \<le> stream_limit \<Longrightarrow> wrap_add64 n 1 = Suc n"
  by (rule wrap_add64_Suc) (simp add: stream_limit_def u64_max_def)

lemma pending_sorted_snoc:
  "pending_sorted (ps @ [p]) \<longleftrightarrow> pending_sorted ps \<and> (\<forall>q\<in>set ps. pd_sequence q < pd_sequence p)"
  by (auto simp: pending_sorted_def sorted_wrt_append)

lemma sender_msgs_append:
  "sender_msgs P h c b \<Longrightarrow> \<not> br_local_read_closed b \<Longrightarrow> br_outbox b' = br_outbox b
    \<Longrightarrow> sender_msgs P h (c @ x) b'"
  unfolding sender_msgs_def
proof (intro ballI)
  fix e
  assume a: "\<forall>e\<in>set (br_outbox b). sender_msg_ok P h c (br_local_read_closed b) e"
    "\<not> br_local_read_closed b" "br_outbox b' = br_outbox b" "e \<in> set (br_outbox b')"
  then have "sender_msg_ok P h c False e" by auto
  then show "sender_msg_ok P h (c @ x) (br_local_read_closed b') e" by (cases e) auto
qed

lemma local_data_sender:
  assumes core: "sender_core P h c rcv b" and msgs: "sender_msgs P h c b"
    and en: "local_read_enabled b" and P: "stream_crypto P h"
    and c: "chunks_ok (c @ [bytes])"
  shows "sender_post P h (c @ [bytes]) rcv (on_local_data P io bytes b)"
proof -
  let ?n = "length c" and ?c = "c @ [bytes]"
  have s: "br_next_out b = ?n" "br_sender b = half_at h ?n" and open': "\<not> br_local_read_closed b"
    using core en by (auto simp: sender_core_def local_read_enabled_def)
  have "length (?c ! ?n) \<le> tunnel_max_plaintext" using c by (simp add: chunks_ok_def)
  from cipher_crypt(1) [OF P this]
  have enc: "encrypt_to_base64 P (br_sender b) bytes = (Inr (cipher P h ?c ?n), half_at h (Suc ?n))"
    by (simp add: s)
  have w: "wrap_add64 ?n 1 = Suc ?n" using c by (intro wrap_add64_stream) (simp add: chunks_ok_def)
  define d where "d = \<lparr>pd_sequence = ?n, pd_data_base64 = cipher P h ?c ?n, pd_attempts = 0,
    pd_last_sent_at = io_now io\<rparr>"
  define b2 where "b2 = b\<lparr>br_sender := half_at h (Suc ?n), br_next_out := Suc ?n\<rparr>"
  define d' where "d' = d\<lparr>pd_attempts := 1\<rparr>"
  define e where "e = DT_ChannelData (br_rendezvous_id b) (br_channel_id b) ?n (cipher P h ?c ?n)"
  have snd': "send_pending_data io d b2 = (d', conn_send io e b2)"
    by (simp add: send_pending_data_def d_def d'_def e_def b2_def wrap_add32_def
        max_retransmit_attempts_def Let_def)
  have b1: "(let b1 = b\<lparr>br_sender := half_at h (Suc ?n)\<rparr> in b1\<lparr>br_next_out := wrap_add64 (br_next_out b1) 1\<rparr>) = b2"
    using w s by (simp add: b2_def)
  have on: "on_local_data P io bytes b = try_then (conn_send io e b2)
      (\<lambda>b. Continue (report io (b\<lparr>as_pending := as_pending b @ [d']\<rparr>)))"
    using snd' b1 s(1) by (simp add: on_local_data_def enc d_def Let_def)
  have m2: "sender_msgs P h ?c b2"
    using sender_msgs_append [OF msgs open'] by (simp add: b2_def)
  obtain r b3 where cs: "conn_send io e b2 = (r, b3)" by (cases "conn_send io e b2") auto
  from cs show ?thesis
  proof (cases rule: conn_send_cases)
    case 1
    have "sender_msgs P h ?c b3" using m2 by (auto simp: sender_msgs_def 1 e_def)
    moreover have "ack_state_ok (b3\<lparr>as_pending := as_pending b3 @ [d']\<rparr>)"
      using core by (auto simp: sender_core_def 1 b2_def ack_state_ok_def pending_sorted_snoc d'_def d_def)
    moreover have "on_local_data P io bytes b = Continue (report io (b3\<lparr>as_pending := as_pending b3 @ [d']\<rparr>))"
      by (simp add: on cs 1(1))
    ultimately show ?thesis
      using core en
      by (auto simp: 1(2) sender_core_def b2_def d'_def d_def ack_state_ok_def sender_msgs_def
          pending_seqs_def less_Suc_eq local_read_enabled_def)
  next
    case (2 err)
    then show ?thesis using m2 by (simp add: on cs)
  qed
qed

text \<open>Starting a close happens only with an empty queue and after the end of the local stream.\<close>

lemma maybe_start_close_sender:
  assumes "sender_core P h c rcv b" "sender_msgs P h c b" "maybe_start_close io b = (r, b')"
  shows "sender_core P h c rcv b' \<and> sender_msgs P h c b'"
proof (cases "br_pending_close b \<noteq> None \<or> as_pending b \<noteq> [] \<or> \<not> br_local_read_closed b")
  case True
  with assms show ?thesis by (auto simp: maybe_start_close_def)
next
  case False
  with assms show ?thesis
    by (auto simp: maybe_start_close_def send_pending_close_def Let_def wrap_add32_def
        max_retransmit_attempts_def conn_send_def sender_core_def sender_msgs_def ack_state_ok_def
        split: if_splits)
qed

lemma local_eof_sender:
  assumes "sender_core P h c rcv b" "sender_msgs P h c b"
  shows "sender_post P h c rcv (on_local_eof io b)"
proof -
  let ?b = "b\<lparr>br_local_read_closed := True\<rparr>"
  have "sender_msg_ok P h c cl e \<Longrightarrow> sender_msg_ok P h c True e" for cl e
    by (cases e) auto
  then have "sender_msgs P h c ?b" using assms(2) by (auto simp: sender_msgs_def)
  moreover have "sender_core P h c rcv ?b"
    using assms(1) by (auto simp: sender_core_def ack_state_ok_def)
  moreover obtain r b' where m: "maybe_start_close io ?b = (r, b')"
    by (cases "maybe_start_close io ?b") auto
  ultimately have "sender_core P h c rcv b' \<and> sender_msgs P h c b'"
    by (intro maybe_start_close_sender)
  then show ?thesis
    by (cases r) (auto simp: on_local_eof_def m sender_core_def sender_msgs_def ack_state_ok_def)
qed

section \<open>Retransmission\<close>

text \<open>Resending changes an entry's bookkeeping only, and sends what the entry holds.\<close>

definition same_packets :: "pending_direct_data list \<Rightarrow> pending_direct_data list \<Rightarrow> bool" where
  "same_packets ps qs =
     (map (\<lambda>p. (pd_sequence p, pd_data_base64 p)) ps = map (\<lambda>p. (pd_sequence p, pd_data_base64 p)) qs)"

lemma same_packets_update_first:
  assumes "List.find Q ps = Some p" "pd_sequence p' = pd_sequence p" "pd_data_base64 p' = pd_data_base64 p"
  shows "same_packets (update_first Q (\<lambda>_. p') ps) ps"
  using assms by (induction ps) (auto simp: same_packets_def split: if_splits)

lemma same_packets_props:
  assumes "same_packets ps qs"
  shows "map pd_sequence ps = map pd_sequence qs" "pending_seqs ps = pending_seqs qs"
    "pending_sorted ps = pending_sorted qs" "length ps = length qs"
    "(\<forall>p\<in>set ps. F (pd_sequence p) (pd_data_base64 p)) = (\<forall>p\<in>set qs. F (pd_sequence p) (pd_data_base64 p))"
proof -
  let ?f = "\<lambda>p. (pd_sequence p, pd_data_base64 p)"
  have m: "map ?f ps = map ?f qs" using assms by (simp add: same_packets_def)
  from arg_cong [OF m, of "map fst"] show s: "map pd_sequence ps = map pd_sequence qs"
    by (simp add: comp_def)
  then show "pending_seqs ps = pending_seqs qs" by (metis pending_seqs_def set_map)
  from s show "pending_sorted ps = pending_sorted qs" by (simp add: pending_sorted_def)
  from m show "length ps = length qs" by (rule map_eq_imp_length_eq)
  have "(\<forall>x\<in>?f ` set ps. F (fst x) (snd x)) = (\<forall>x\<in>?f ` set qs. F (fst x) (snd x))"
    using arg_cong [OF m, of set] by simp
  then show "(\<forall>p\<in>set ps. F (pd_sequence p) (pd_data_base64 p)) = (\<forall>p\<in>set qs. F (pd_sequence p) (pd_data_base64 p))"
    by simp
qed

lemma resend_pending_effect:
  assumes "resend_pending io s b = (f, r, b')"
  shows "\<exists>ps es. b' = b\<lparr>br_outbox := br_outbox b @ es, as_pending := ps\<rparr> \<and> same_packets ps (as_pending b)
    \<and> (\<forall>e\<in>set es. \<exists>p\<in>set (as_pending b).
         e = DT_ChannelData (br_rendezvous_id b) (br_channel_id b) (pd_sequence p) (pd_data_base64 p))"
proof (cases "List.find (\<lambda>p. pd_sequence p = s) (as_pending b)")
  case None
  then have "b' = b\<lparr>br_outbox := br_outbox b @ [], as_pending := as_pending b\<rparr>"
    using assms by (simp add: resend_pending_def)
  then show ?thesis by (metis empty_iff list.set(1) same_packets_def)
next
  case (Some p)
  let ?Q = "\<lambda>q. pd_sequence q = s"
  have p: "p \<in> set (as_pending b)" using find_Some_set [OF Some] by simp
  obtain p' r' b1 where sp: "send_pending_data io p b = (p', r', b1)"
    by (cases "send_pending_data io p b") auto
  have p': "pd_sequence p' = pd_sequence p" "pd_data_base64 p' = pd_data_base64 p"
    using sp by (auto simp: send_pending_data_def Let_def split: if_splits)
  have b1: "\<exists>es. b1 = b\<lparr>br_outbox := br_outbox b @ es\<rparr> \<and>
      set es \<subseteq> {DT_ChannelData (br_rendezvous_id b) (br_channel_id b) (pd_sequence p) (pd_data_base64 p)}"
  proof (cases "b1 = b")
    case True
    then show ?thesis by (intro exI [of _ "[]"]) simp
  next
    case False
    with sp show ?thesis
      by (intro exI [of _ "[DT_ChannelData (br_rendezvous_id b) (br_channel_id b) (pd_sequence p) (pd_data_base64 p)]"])
        (auto simp: send_pending_data_def conn_send_def Let_def split: if_splits)
  qed
  then obtain es where es: "b1 = b\<lparr>br_outbox := br_outbox b @ es\<rparr>"
    "set es \<subseteq> {DT_ChannelData (br_rendezvous_id b) (br_channel_id b) (pd_sequence p) (pd_data_base64 p)}"
    by blast
  have "b' = b\<lparr>br_outbox := br_outbox b @ es, as_pending := update_first ?Q (\<lambda>_. p') (as_pending b)\<rparr>"
    using assms Some sp es(1) by (simp add: resend_pending_def)
  with same_packets_update_first [OF Some p'] es(2) p show ?thesis by blast
qed

lemma resend_pending_sender:
  assumes "sender_core P h c rcv b" "sender_msgs P h c b" "resend_pending io s b = (f, r, b')"
  shows "sender_core P h c rcv b' \<and> sender_msgs P h c b'"
proof -
  from resend_pending_effect [OF assms(3)] obtain ps es where
    b': "b' = b\<lparr>br_outbox := br_outbox b @ es, as_pending := ps\<rparr>" and sp: "same_packets ps (as_pending b)"
    and es: "\<forall>e\<in>set es. \<exists>p\<in>set (as_pending b).
      e = DT_ChannelData (br_rendezvous_id b) (br_channel_id b) (pd_sequence p) (pd_data_base64 p)"
    by blast
  note props = same_packets_props [OF sp]
  have "as_pending b = [] \<Longrightarrow> ps = []" using props(4) by simp
  then have "sender_core P h c rcv b'"
    using assms(1) props(2,3) props(5) [of "\<lambda>s d. s < length c \<and> d = cipher P h c s"]
    unfolding sender_core_def ack_state_ok_def b' by simp
  moreover have "sender_msgs P h c b'"
    using assms(1,2) es unfolding sender_msgs_def sender_core_def b' by fastforce
  ultimately show ?thesis by simp
qed

lemma retransmit_close_sender:
  assumes "sender_core P h c rcv b" "sender_msgs P h c b" "retransmit_close io b = (f, r, b')"
  shows "sender_core P h c rcv b' \<and> sender_msgs P h c b'"
  using assms
  by (auto simp: retransmit_close_def send_pending_close_def conn_send_def Let_def sender_core_def
      sender_msgs_def ack_state_ok_def split: if_splits option.splits)

lemma after_retransmit_sender:
  "sender_core P h c rcv b \<Longrightarrow> sender_core P h c rcv (after_retransmit d cl b)"
  "sender_msgs P h c b \<Longrightarrow> sender_msgs P h c (after_retransmit d cl b)"
  by (auto simp: after_retransmit_def sender_core_def sender_msgs_def ack_state_ok_def backoff_rto_ok
      on_timeout_ok)

lemma sender_report [simp]:
  "sender_core P h c rcv (report io b) = sender_core P h c rcv b"
  "sender_msgs P h c (report io b) = sender_msgs P h c b"
  by (simp_all add: sender_core_def sender_msgs_def ack_state_ok_def)

lemma retransmit_tick_sender:
  assumes "sender_core P h c rcv b" "sender_msgs P h c b"
  shows "sender_post P h c rcv (on_retransmit_tick io b)"
proof -
  obtain f1 r1 b1 where d: "retransmit_data io b = (f1, r1, b1)" by (cases "retransmit_data io b") auto
  have c1: "sender_core P h c rcv b1 \<and> sender_msgs P h c b1"
    using assms d resend_pending_sender [OF assms]
    by (auto simp: retransmit_data_def split: option.splits)
  obtain f2 r2 b2 where cl: "retransmit_close io b1 = (f2, r2, b2)" by (cases "retransmit_close io b1") auto
  have c2: "sender_core P h c rcv b2 \<and> sender_msgs P h c b2"
    using retransmit_close_sender [OF _ _ cl] c1 by blast
  show ?thesis
    using c1 c2 by (cases r1; cases r2) (auto simp: on_retransmit_tick_def d cl after_retransmit_sender)
qed

section \<open>Acknowledgements\<close>

text \<open>
  An acknowledgement the peer really sent names received sequence numbers only; processing it
  never drops a packet the peer does not have.
\<close>

lemma handle_ack_bridge_frame [simp]:
  "br_next_out (fst (handle_ack t n rs b)) = br_next_out b"
  "br_sender (fst (handle_ack t n rs b)) = br_sender b"
  "br_pending_close (fst (handle_ack t n rs b)) = br_pending_close b"
  "br_local_read_closed (fst (handle_ack t n rs b)) = br_local_read_closed b"
  "br_outbox (fst (handle_ack t n rs b)) = br_outbox b"
  "br_expected (fst (handle_ack t n rs b)) = br_expected b"
  "br_inbound (fst (handle_ack t n rs b)) = br_inbound b"
  "br_receiver (fst (handle_ack t n rs b)) = br_receiver b"
  "br_written (fst (handle_ack t n rs b)) = br_written b"
  for b :: bridge
proof -
  have p: "bridge.more (fst (ack_progress a n s b)) = bridge.more b
    \<and> br_next_out (fst (ack_progress a n s b)) = br_next_out b
    \<and> br_sender (fst (ack_progress a n s b)) = br_sender b
    \<and> br_pending_close (fst (ack_progress a n s b)) = br_pending_close b
    \<and> br_local_read_closed (fst (ack_progress a n s b)) = br_local_read_closed b
    \<and> br_outbox (fst (ack_progress a n s b)) = br_outbox b
    \<and> br_expected (fst (ack_progress a n s b)) = br_expected b
    \<and> br_inbound (fst (ack_progress a n s b)) = br_inbound b
    \<and> br_receiver (fst (ack_progress a n s b)) = br_receiver b
    \<and> br_written (fst (ack_progress a n s b)) = br_written b" for a n s and b :: bridge
    by (auto simp: ack_progress_def Let_def case_prod_unfold)
  have f: "br_next_out (fst (fast_retransmit n r b)) = br_next_out b
    \<and> br_sender (fst (fast_retransmit n r b)) = br_sender b
    \<and> br_pending_close (fst (fast_retransmit n r b)) = br_pending_close b
    \<and> br_local_read_closed (fst (fast_retransmit n r b)) = br_local_read_closed b
    \<and> br_outbox (fst (fast_retransmit n r b)) = br_outbox b
    \<and> br_expected (fst (fast_retransmit n r b)) = br_expected b
    \<and> br_inbound (fst (fast_retransmit n r b)) = br_inbound b
    \<and> br_receiver (fst (fast_retransmit n r b)) = br_receiver b
    \<and> br_written (fst (fast_retransmit n r b)) = br_written b" for n r and b :: bridge
    by (auto simp: fast_retransmit_def Let_def)
  have d: "br_next_out (fst (ack_duplicates n c e r b)) = br_next_out b
    \<and> br_sender (fst (ack_duplicates n c e r b)) = br_sender b
    \<and> br_pending_close (fst (ack_duplicates n c e r b)) = br_pending_close b
    \<and> br_local_read_closed (fst (ack_duplicates n c e r b)) = br_local_read_closed b
    \<and> br_outbox (fst (ack_duplicates n c e r b)) = br_outbox b
    \<and> br_expected (fst (ack_duplicates n c e r b)) = br_expected b
    \<and> br_inbound (fst (ack_duplicates n c e r b)) = br_inbound b
    \<and> br_receiver (fst (ack_duplicates n c e r b)) = br_receiver b
    \<and> br_written (fst (ack_duplicates n c e r b)) = br_written b" for n c e r and b :: bridge
    by (auto simp: ack_duplicates_def Let_def f split: option.splits)
  show "br_next_out (fst (handle_ack t n rs b)) = br_next_out b"
    "br_sender (fst (handle_ack t n rs b)) = br_sender b"
    "br_pending_close (fst (handle_ack t n rs b)) = br_pending_close b"
    "br_local_read_closed (fst (handle_ack t n rs b)) = br_local_read_closed b"
    "br_outbox (fst (handle_ack t n rs b)) = br_outbox b"
    "br_expected (fst (handle_ack t n rs b)) = br_expected b"
    "br_inbound (fst (handle_ack t n rs b)) = br_inbound b"
    "br_receiver (fst (handle_ack t n rs b)) = br_receiver b"
    "br_written (fst (handle_ack t n rs b)) = br_written b"
    by (simp_all add: handle_ack_def case_prod_unfold Let_def p d)
qed

lemma handle_ack_sender:
  assumes core: "sender_core P h c rcv b" and msgs: "sender_msgs P h c b"
    and ack: "{..<n} \<union> covers rs \<subseteq> rcv" and u64: "ranges_u64 rs"
  shows "sender_core P h c rcv (fst (handle_ack t n rs b)) \<and> sender_msgs P h c (fst (handle_ack t n rs b))"
proof -
  let ?b' = "fst (handle_ack t n rs b)" and ?sb = "ack_scoreboard n rs (as_scoreboard b)"
  have ok: "ack_state_ok b" using core by (simp add: sender_core_def)
  then have srt: "pending_sorted (as_pending b)" and wf: "sb_wf (as_scoreboard b)"
    by (auto simp: ack_state_ok_def)
  have sb: "covers ?sb \<subseteq> rcv"
    using ack_scoreboard_covers(2) [OF wf u64, of n] core ack by (auto simp: sender_core_def)
  have pend: "as_pending ?b' = filter (still_pending n ?sb) (as_pending b)"
    by (rule handle_ack_pending [OF srt])
  have "k \<in> pending_seqs (as_pending ?b') \<or> k \<in> rcv" if "k < length c" for k
  proof (cases "k \<in> rcv")
    case False
    with core that have "k \<in> pending_seqs (as_pending b)" by (auto simp: sender_core_def)
    moreover have "\<not> k < n" "k \<notin> covers ?sb" using False ack sb by auto
    ultimately show ?thesis by (auto simp: pend pending_seqs_def still_pending_def)
  qed simp
  moreover have "ack_state_ok ?b'" by (rule handle_ack_ok [OF ok u64])
  ultimately have "sender_core P h c rcv ?b'"
    using core sb by (auto simp: sender_core_def pend handle_ack_scoreboard)
  then show ?thesis using msgs by (simp add: sender_msgs_def)
qed

lemma channel_ack_sender:
  assumes core: "sender_core P h c rcv b" and msgs: "sender_msgs P h c b"
    and ack: "{..<n} \<union> covers rs \<subseteq> rcv" "ranges_u64 rs"
  shows "sender_post P h c rcv (on_channel_ack io n rs b)"
proof -
  obtain b1 q where h: "handle_ack (io_now io) n rs b = (b1, q)"
    by (cases "handle_ack (io_now io) n rs b") auto
  have c1: "sender_core P h c rcv b1" "sender_msgs P h c b1"
    using handle_ack_sender [OF core msgs ack, of "io_now io"] by (simp_all add: h)
  obtain f r b2 where rs: "(case q of Some s \<Rightarrow> resend_pending io s b1 | None \<Rightarrow> (False, Inr (), b1)) = (f, r, b2)"
    by (cases "case q of Some s \<Rightarrow> resend_pending io s b1 | None \<Rightarrow> (False, Inr (), b1)") auto
  have c2: "sender_core P h c rcv b2 \<and> sender_msgs P h c b2"
    using rs c1 resend_pending_sender [OF c1] by (cases q) auto
  obtain r' b3 where m: "maybe_start_close io b2 = (r', b3)" by (cases "maybe_start_close io b2") auto
  have c3: "sender_core P h c rcv b3 \<and> sender_msgs P h c b3"
    using maybe_start_close_sender [OF _ _ m] c2 by blast
  show ?thesis
    using c2 c3 by (cases r; cases r') (simp_all add: on_channel_ack_def h rs m Let_def)
qed

end
