(* ===== verification/BridgeReceiver.thy ===== *)
theory BridgeReceiver
  imports BridgeSender
begin

text \<open>
  The receiving half of a bridge, against the ghost stream \<open>c\<close> of chunks the peer has read:
  what is written to the local socket is the concatenation of the first chunks, in order, without
  gap or repetition, and what is acknowledged has been received. Also: which arms of the loop leave
  which half alone.
\<close>

section \<open>The invariant\<close>

definition receiver_core ::
  "crypto_prims \<Rightarrow> secure_half \<Rightarrow> byte list list \<Rightarrow> bridge \<Rightarrow> bool" where
  "receiver_core P h c b =
     (reorder_ok (br_expected b) (br_inbound b)
      \<and> payloads_are (cipher P h c) (br_inbound b)
      \<and> (\<forall>k\<in>keys (br_inbound b). k < length c)
      \<and> br_expected b \<le> length c
      \<and> br_receiver b = half_at h (br_expected b))"

definition bridge_received :: "bridge \<Rightarrow> nat set" where
  "bridge_received b = received (br_expected b) (br_inbound b)"

fun receiver_msg_ok :: "nat set \<Rightarrow> nat \<Rightarrow> direct_tunnel_envelope \<Rightarrow> bool" where
  "receiver_msg_ok rcv d (DT_ChannelAck _ _ n rs) = ({..<n} \<union> covers rs \<subseteq> rcv \<and> ranges_u64 rs)"
| "receiver_msg_ok rcv d (DT_ChannelCloseAck _ _ f) = (f \<le> d)"
| "receiver_msg_ok rcv d _ = True"

text \<open>\<open>d\<close> chunks have been written to the local socket.\<close>

definition receiver_msgs :: "byte list list \<Rightarrow> nat \<Rightarrow> bridge \<Rightarrow> bool" where
  "receiver_msgs c d b =
     (d \<le> length c \<and> br_written b = concat (take d c)
      \<and> (\<forall>e\<in>set (br_outbox b). receiver_msg_ok (bridge_received b) d e))"

definition receiver_running ::
  "crypto_prims \<Rightarrow> secure_half \<Rightarrow> byte list list \<Rightarrow> bridge \<Rightarrow> bool" where
  "receiver_running P h c b = (receiver_core P h c b \<and> receiver_msgs c (br_expected b) b)"

text \<open>An early return may have written some of the payloads that were ready, never anything else.\<close>

fun receiver_post ::
  "crypto_prims \<Rightarrow> secure_half \<Rightarrow> byte list list \<Rightarrow> bridge_outcome \<Rightarrow> bool" where
  "receiver_post P h c (Continue b) = receiver_running P h c b"
| "receiver_post P h c (Break r b) = receiver_running P h c b"
| "receiver_post P h c (Early e b) = (\<exists>d. receiver_msgs c d b)"

lemma receiver_init: "receiver_running P h [] (bridge_init cid rid sh h hook now)"
  by (simp add: receiver_running_def receiver_core_def receiver_msgs_def bridge_init_def reorder_ok_def
      payloads_are_def)

lemma receiver_core_append: "receiver_core P h c b \<Longrightarrow> receiver_core P h (c @ x) b"
  unfolding receiver_core_def
proof (elim conjE, intro conjI)
  assume k: "\<forall>k\<in>keys (br_inbound b). k < length c" and p: "payloads_are (cipher P h c) (br_inbound b)"
  show "payloads_are (cipher P h (c @ x)) (br_inbound b)"
    using k p by (force simp: payloads_are_def keys_def)
qed auto

lemma receiver_msgs_append: "receiver_msgs c d b \<Longrightarrow> receiver_msgs (c @ x) d b"
  by (simp add: receiver_msgs_def)

lemma receiver_running_append: "receiver_running P h c b \<Longrightarrow> receiver_running P h (c @ x) b"
  by (simp add: receiver_running_def receiver_core_append receiver_msgs_append)

section \<open>Arms that leave a half alone\<close>

definition receiver_quiet :: "bridge \<Rightarrow> bridge \<Rightarrow> bool" where
  "receiver_quiet b b' =
     (br_expected b' = br_expected b \<and> br_inbound b' = br_inbound b \<and> br_receiver b' = br_receiver b
      \<and> br_written b' = br_written b
      \<and> (\<exists>es. br_outbox b' = br_outbox b @ es \<and> (\<forall>e\<in>set es. \<forall>rcv d. receiver_msg_ok rcv d e)))"

lemma receiver_quiet_refl [simp]: "receiver_quiet b b"
  by (simp add: receiver_quiet_def)

lemma receiver_quiet_trans: "receiver_quiet b b' \<Longrightarrow> receiver_quiet b' b'' \<Longrightarrow> receiver_quiet b b''"
  unfolding receiver_quiet_def by (elim conjE exE) (simp, blast)

lemma receiver_quiet_report [simp]: "receiver_quiet b (report io b') = receiver_quiet b b'"
  by (simp add: receiver_quiet_def)

lemma receiver_quiet_running:
  assumes "receiver_quiet b b'" "receiver_running P h c b"
  shows "receiver_running P h c b'"
  using assms
  by (auto simp: receiver_quiet_def receiver_running_def receiver_core_def receiver_msgs_def
      bridge_received_def)

lemma receiver_quiet_post:
  assumes "receiver_running P h c b" "receiver_quiet b (outcome_state out)"
  shows "receiver_post P h c out"
  using receiver_quiet_running [OF assms(2,1)] by (cases out) (auto simp: receiver_running_def)

lemma conn_send_receiver_quiet:
  assumes "conn_send io e b = (r, b')" "\<And>rcv d. receiver_msg_ok rcv d e"
  shows "receiver_quiet b b'"
  using assms by (auto simp: conn_send_def receiver_quiet_def split: if_splits)

lemma conn_send_sender_quiet:
  assumes "conn_send io e b = (r, b')" "\<And>P h c cl. sender_msg_ok P h c cl e"
  shows "sender_quiet b b'"
  using assms by (auto simp: conn_send_def sender_quiet_def sender_view_eq split: if_splits)

lemma send_pending_data_receiver_quiet:
  "send_pending_data io p b = (p', r, b') \<Longrightarrow> receiver_quiet b b'"
  by (auto simp: send_pending_data_def Let_def split: if_splits
      elim!: conn_send_receiver_quiet)

lemma send_pending_close_receiver_quiet:
  "send_pending_close io p b = (p', r, b') \<Longrightarrow> receiver_quiet b b'"
  by (auto simp: send_pending_close_def Let_def split: if_splits
      elim!: conn_send_receiver_quiet)

lemma receiver_quiet_updates [simp]:
  "receiver_quiet b (b'\<lparr>as_pending := x\<rparr>) = receiver_quiet b b'"
  "receiver_quiet b (b'\<lparr>br_pending_close := pc\<rparr>) = receiver_quiet b b'"
  "receiver_quiet b (b'\<lparr>as_rto := r\<rparr>) = receiver_quiet b b'"
  "receiver_quiet b (b'\<lparr>as_congestion := cc\<rparr>) = receiver_quiet b b'"
  "receiver_quiet b (b'\<lparr>br_last_peer := t\<rparr>) = receiver_quiet b b'"
  "receiver_quiet b (b'\<lparr>br_shut := s\<rparr>) = receiver_quiet b b'"
  "receiver_quiet b (b'\<lparr>br_ka_ack := n\<rparr>) = receiver_quiet b b'"
  "receiver_quiet b (b'\<lparr>br_ka_nonce := n1, br_ka_sent := n2, br_last_ka := n3\<rparr>) = receiver_quiet b b'"
  "receiver_quiet (b\<lparr>br_local_read_closed := cl\<rparr>) b' = receiver_quiet b b'"
  "receiver_quiet (b\<lparr>br_sender := sh\<rparr>) b' = receiver_quiet b b'"
  "receiver_quiet (b\<lparr>br_next_out := m\<rparr>) b' = receiver_quiet b b'"
  "receiver_quiet (b\<lparr>br_last_peer := t\<rparr>) b' = receiver_quiet b b'"
  by (simp_all add: receiver_quiet_def)

lemma resend_pending_receiver_quiet:
  "resend_pending io s b = (f, r, b') \<Longrightarrow> receiver_quiet b b'"
  by (auto simp: resend_pending_def split: option.splits prod.splits
      dest!: send_pending_data_receiver_quiet)

lemma maybe_start_close_receiver_quiet:
  "maybe_start_close io b = (r, b') \<Longrightarrow> receiver_quiet b b'"
  by (auto simp: maybe_start_close_def Let_def split: if_splits prod.splits sum.splits
      dest!: send_pending_close_receiver_quiet)

lemma try_then_receiver_quiet:
  assumes "receiver_quiet b (snd r)" "\<And>b'. receiver_quiet b b' \<Longrightarrow> receiver_quiet b (outcome_state (k b'))"
  shows "receiver_quiet b (outcome_state (try_then r k))"
  using assms by (cases r) (auto simp: try_then_def split: sum.splits)

lemma local_read_receiver_quiet: "receiver_quiet b (outcome_state (on_local_read P io rd b))"
proof -
  have eof: "receiver_quiet b (outcome_state (on_local_eof io b))"
  proof -
    obtain r b' where m: "maybe_start_close io (b\<lparr>br_local_read_closed := True\<rparr>) = (r, b')"
      by (cases "maybe_start_close io (b\<lparr>br_local_read_closed := True\<rparr>)") auto
    from maybe_start_close_receiver_quiet [OF m] show ?thesis
      by (cases r) (simp_all add: on_local_eof_def m)
  qed
  have dat: "receiver_quiet b (outcome_state (on_local_data P io bytes b))" for bytes
  proof -
    obtain r s' where e: "encrypt_to_base64 P (br_sender b) bytes = (r, s')"
      by (cases "encrypt_to_base64 P (br_sender b) bytes") auto
    show ?thesis
    proof (cases r)
      case (Inl err)
      then show ?thesis by (simp add: on_local_data_def e receiver_quiet_def Let_def)
    next
      case (Inr ct)
      let ?d = "\<lparr>pd_sequence = br_next_out b, pd_data_base64 = ct, pd_attempts = 0,
        pd_last_sent_at = io_now io\<rparr>"
      let ?b = "b\<lparr>br_sender := s', br_next_out := wrap_add64 (br_next_out b) 1\<rparr>"
      obtain d' r' b' where s: "send_pending_data io ?d ?b = (d', r', b')"
        by (cases "send_pending_data io ?d ?b") auto
      have q: "receiver_quiet b b'" using send_pending_data_receiver_quiet [OF s] by simp
      then show ?thesis
        using s by (cases r') (simp_all add: on_local_data_def e Inr Let_def)
    qed
  qed
  show ?thesis
    using eof dat by (simp add: on_local_read_def split: option.splits)
qed

lemma retransmit_tick_receiver_quiet: "receiver_quiet b (outcome_state (on_retransmit_tick io b))"
proof -
  obtain f1 r1 b1 where d: "retransmit_data io b = (f1, r1, b1)" by (cases "retransmit_data io b") auto
  have q1: "receiver_quiet b b1"
    using d by (auto simp: retransmit_data_def split: option.splits dest: resend_pending_receiver_quiet)
  obtain f2 r2 b2 where cl: "retransmit_close io b1 = (f2, r2, b2)" by (cases "retransmit_close io b1") auto
  have "receiver_quiet b1 b2"
    using cl by (auto simp: retransmit_close_def Let_def split: option.splits if_splits prod.splits
        dest!: send_pending_close_receiver_quiet)
  then have q2: "receiver_quiet b b2" using q1 by (rule receiver_quiet_trans [rotated])
  moreover have "receiver_quiet b (after_retransmit f1 f2 b2)"
    using q2 by (simp add: after_retransmit_def)
  ultimately show ?thesis
    using q1 by (cases r1; cases r2) (simp_all add: on_retransmit_tick_def d cl)
qed

lemma housekeeping_receiver_quiet: "receiver_quiet b (outcome_state (on_housekeeping_tick io b))"
  by (auto simp: on_housekeeping_tick_def Let_def send_keepalive_def
      intro!: try_then_receiver_quiet conn_send_receiver_quiet [OF prod.collapse [symmetric]])

lemma housekeeping_sender_quiet: "sender_quiet b (outcome_state (on_housekeeping_tick io b))"
  by (cases "io_up io")
    (simp_all add: on_housekeeping_tick_def Let_def send_keepalive_def conn_send_def sender_quiet_def
      sender_view_eq)

lemma channel_ack_receiver_quiet: "receiver_quiet b (outcome_state (on_channel_ack io n rs b))"
proof -
  obtain b1 q where h: "handle_ack (io_now io) n rs b = (b1, q)"
    by (cases "handle_ack (io_now io) n rs b") auto
  have "b1 = fst (handle_ack (io_now io) n rs b)" by (simp add: h)
  then have q1: "receiver_quiet b b1" by (simp only: receiver_quiet_def handle_ack_bridge_frame) simp
  obtain f r b2 where rs: "(case q of Some s \<Rightarrow> resend_pending io s b1 | None \<Rightarrow> (False, Inr (), b1)) = (f, r, b2)"
    by (cases "case q of Some s \<Rightarrow> resend_pending io s b1 | None \<Rightarrow> (False, Inr (), b1)") auto
  have q2: "receiver_quiet b b2"
    using rs q1 by (cases q) (auto dest: resend_pending_receiver_quiet intro: receiver_quiet_trans)
  obtain r' b3 where m: "maybe_start_close io b2 = (r', b3)" by (cases "maybe_start_close io b2") auto
  have "receiver_quiet b b3"
    using q2 maybe_start_close_receiver_quiet [OF m] by (rule receiver_quiet_trans)
  with q2 show ?thesis
    by (cases r; cases r') (simp_all add: on_channel_ack_def h rs m Let_def)
qed

section \<open>Data from the peer\<close>

lemma deliver_payloads_frame:
  "deliver_payloads P io j ps b = (r, b') \<Longrightarrow>
     \<exists>rcv w. b' = b\<lparr>br_receiver := rcv, br_written := w\<rparr>"
proof (induction ps arbitrary: j b)
  case Nil
  then have "b' = b\<lparr>br_receiver := br_receiver b, br_written := br_written b\<rparr>" by simp
  then show ?case by blast
next
  case (Cons p ps)
  obtain res rcv where d: "decrypt_from_base64 P (br_receiver b) p = (res, rcv)"
    by (cases "decrypt_from_base64 P (br_receiver b) p") auto
  show ?case
  proof (cases res)
    case (Inl e)
    with Cons.prems d have "b' = b\<lparr>br_receiver := rcv, br_written := br_written b\<rparr>" by auto
    then show ?thesis by blast
  next
    case (Inr bytes)
    show ?thesis
    proof (cases "io_write_fail io = Some j")
      case True
      with Cons.prems d Inr have "b' = b\<lparr>br_receiver := rcv, br_written := br_written b\<rparr>" by auto
      then show ?thesis by blast
    next
      case False
      with Cons.prems d Inr
      have "deliver_payloads P io (Suc j) ps
          (b\<lparr>br_receiver := rcv, br_written := br_written b @ bytes\<rparr>) = (r, b')" by simp
      from Cons.IH [OF this] show ?thesis by auto
    qed
  qed
qed

lemma deliver_payloads_stream:
  assumes P: "stream_crypto P h" and c: "chunks_ok c" and e': "e' \<le> length c"
  shows "e \<le> e' \<Longrightarrow> br_receiver b = half_at h e \<Longrightarrow> br_written b = concat (take e c) \<Longrightarrow>
    deliver_payloads P io j (map (cipher P h c) [e..<e']) b = (r, b') \<Longrightarrow>
    (\<exists>d. e \<le> d \<and> d \<le> e' \<and> br_written b' = concat (take d c)
       \<and> (r = Inr () \<longrightarrow> d = e' \<and> br_receiver b' = half_at h e'))"
proof (induction "e' - e" arbitrary: e b j)
  case 0
  then show ?case by auto
next
  case (Suc n)
  then have lt: "e < e'" by simp
  let ?m = "c ! e"
  have len: "length ?m \<le> tunnel_max_plaintext" using c lt e' by (simp add: chunks_ok_def)
  have upt: "[e..<e'] = e # [Suc e..<e']" using lt by (simp add: upt_conv_Cons)
  have dec: "decrypt_from_base64 P (br_receiver b) (cipher P h c e) = (Inr ?m, half_at h (Suc e))"
    using cipher_crypt(2) [where c = c and k = e, OF P len] Suc.prems(2) by simp
  show ?case
  proof (cases "io_write_fail io = Some j")
    case True
    then have "r = Inl ''failed to write local tcp stream''" "br_written b' = br_written b"
      using Suc.prems(4) by (auto simp: upt dec)
    then show ?thesis using Suc.prems(1,3) by (intro exI [of _ e]) simp
  next
    case False
    let ?b = "b\<lparr>br_receiver := half_at h (Suc e), br_written := br_written b @ ?m\<rparr>"
    have "deliver_payloads P io (Suc j) (map (cipher P h c) [Suc e..<e']) ?b = (r, b')"
      using Suc.prems(4) False by (simp add: upt dec)
    moreover have "br_written ?b = concat (take (Suc e) c)"
      using Suc.prems(3) lt e' by (simp add: take_Suc_conv_app_nth)
    moreover have "n = e' - Suc e" "Suc e \<le> e'" "br_receiver ?b = half_at h (Suc e)"
      using Suc.hyps(2) lt by simp_all
    ultimately obtain d where "Suc e \<le> d" "d \<le> e'" "br_written b' = concat (take d c)"
      "r = Inr () \<longrightarrow> d = e' \<and> br_receiver b' = half_at h e'"
      using Suc.hyps(1) [of "Suc e" ?b "Suc j"] by blast
    then show ?thesis by (intro exI [of _ d]) simp
  qed
qed

lemma send_ack_cases:
  assumes "send_ack io b = (r, b')"
  shows "b' = b \<or> b' = b\<lparr>br_outbox := br_outbox b @
    [DT_ChannelAck (br_rendezvous_id b) (br_channel_id b) (br_expected b) (selective_ack_ranges (br_inbound b))]\<rparr>"
  using assms by (auto simp: send_ack_def conn_send_def split: if_splits)

lemma ack_covers_received:
  assumes "receiver_core P h c b" "chunks_ok c"
  shows "{..<br_expected b} \<union> covers (selective_ack_ranges (br_inbound b)) \<subseteq> bridge_received b"
    and "ranges_u64 (selective_ack_ranges (br_inbound b))"
proof -
  have "\<forall>k\<in>keys (br_inbound b). k \<le> u64_max"
    using assms by (fastforce simp: receiver_core_def chunks_ok_def stream_limit_def u64_max_def)
  moreover have "bt_ok (br_inbound b)" using assms(1) by (simp add: receiver_core_def reorder_ok_def)
  ultimately have s: "sack_spec (keys (br_inbound b)) (selective_ack_ranges (br_inbound b))"
    by (rule selective_ack_ranges_correct [rotated])
  then show "{..<br_expected b} \<union> covers (selective_ack_ranges (br_inbound b)) \<subseteq> bridge_received b"
    by (auto simp: sack_spec_def bridge_received_def received_def)
  from s show "ranges_u64 (selective_ack_ranges (br_inbound b))"
    by (auto simp: sack_spec_def sb_wf_def ranges_u64_def range_valid_def)
qed

lemma send_ack_running:
  assumes "receiver_running P h c b" "chunks_ok c" "send_ack io b = (r, b')"
  shows "receiver_running P h c b'"
proof -
  have core: "receiver_core P h c b" and msgs: "receiver_msgs c (br_expected b) b"
    using assms(1) by (auto simp: receiver_running_def)
  note a = ack_covers_received [OF core assms(2)]
  from send_ack_cases [OF assms(3)] show ?thesis
  proof
    assume b': "b' = b\<lparr>br_outbox := br_outbox b @
      [DT_ChannelAck (br_rendezvous_id b) (br_channel_id b) (br_expected b) (selective_ack_ranges (br_inbound b))]\<rparr>"
    have "bridge_received b' = bridge_received b" by (simp add: b' bridge_received_def)
    then show ?thesis
      using core msgs a by (auto simp: b' receiver_running_def receiver_core_def receiver_msgs_def)
  qed (use assms(1) in simp)
qed

lemma receiver_msg_ok_mono:
  "receiver_msg_ok rcv d e \<Longrightarrow> rcv \<subseteq> rcv' \<Longrightarrow> d \<le> d' \<Longrightarrow> receiver_msg_ok rcv' d' e"
  by (cases e) auto

lemma channel_data_receiver:
  assumes run: "receiver_running P h c b" and P: "stream_crypto P h" and c: "chunks_ok c"
    and s: "s < length c" "dat = cipher P h c s"
  shows "receiver_post P h c (on_channel_data P io s dat b)"
    and "bridge_received b \<subseteq> bridge_received (outcome_state (on_channel_data P io s dat b))"
proof -
  let ?e = "br_expected b" and ?m = "br_inbound b" and ?out = "on_channel_data P io s dat b"
  have core: "receiver_core P h c b" and msgs: "receiver_msgs c ?e b"
    using run by (auto simp: receiver_running_def)
  then have ro: "reorder_ok ?e ?m" and pay: "payloads_are (cipher P h c) ?m"
    and ks: "\<forall>k\<in>keys ?m. k < length c" and el: "?e \<le> length c" and rc: "br_receiver b = half_at h ?e"
    by (auto simp: receiver_core_def)
  obtain ready e' m' where q: "queue_inbound ?e ?m s dat = (ready, e', m')"
    by (cases "queue_inbound ?e ?m s dat") auto
  have width: "?e + 2 * max_reorder_buffer < u64_max"
    using el c by (simp add: chunks_ok_def stream_limit_def u64_max_def max_reorder_buffer_def)
  note Q = queue_inbound_correct [OF ro pay s(2) width q]
  have rcv: "received ?e ?m \<subseteq> received e' m'" using Q(5) by (auto split: if_splits)
  have below: "k < length c" if "k \<in> received e' m'" for k
  proof -
    have "k \<in> insert s (received ?e ?m)" using that Q(5) by (auto split: if_splits)
    then show ?thesis using s(1) ks el by (auto simp: received_def)
  qed
  have e'l: "e' \<le> length c"
  proof (rule ccontr)
    assume "\<not> e' \<le> length c"
    then have "length c \<in> received e' m'" by (simp add: received_def)
    with below show False by blast
  qed
  let ?b1 = "b\<lparr>br_expected := e', br_inbound := m'\<rparr>"
  obtain r b2 where d: "deliver_payloads P io 0 ready ?b1 = (r, b2)"
    by (cases "deliver_payloads P io 0 ready ?b1") auto
  obtain rcv2 w2 where b2: "b2 = ?b1\<lparr>br_receiver := rcv2, br_written := w2\<rparr>"
    using deliver_payloads_frame [OF d] by blast
  have "br_receiver ?b1 = half_at h ?e" "br_written ?b1 = concat (take ?e c)"
    using rc msgs by (simp_all add: receiver_msgs_def)
  from deliver_payloads_stream [OF P c e'l Q(3) this, of io 0 r b2] d Q(4)
  obtain n where n: "?e \<le> n" "n \<le> e'" "br_written b2 = concat (take n c)"
    "r = Inr () \<longrightarrow> n = e' \<and> br_receiver b2 = half_at h e'"
    by auto
  have rb2: "bridge_received b2 = received e' m'" by (simp add: b2 bridge_received_def)
  have m2: "receiver_msgs c n b2"
    unfolding receiver_msgs_def
  proof (intro conjI ballI)
    show "n \<le> length c" using n(2) e'l by simp
    show "br_written b2 = concat (take n c)" by (fact n(3))
    fix e assume "e \<in> set (br_outbox b2)"
    then have "receiver_msg_ok (received ?e ?m) ?e e"
      using msgs by (auto simp: b2 receiver_msgs_def bridge_received_def)
    then show "receiver_msg_ok (bridge_received b2) n e"
      using rcv n(1) by (auto simp: rb2 intro: receiver_msg_ok_mono)
  qed
  show "receiver_post P h c ?out"
  proof (cases r)
    case (Inl err)
    then show ?thesis using m2 by (auto simp: on_channel_data_def q d)
  next
    case (Inr u)
    with n(4) have full: "n = e'" "br_receiver b2 = half_at h e'" by simp_all
    have run2: "receiver_running P h c b2"
      using Q(1,2) below e'l full m2 by (auto simp: receiver_running_def receiver_core_def b2 received_def)
    obtain r' b3 where sa: "send_ack io b2 = (r', b3)" by (cases "send_ack io b2") auto
    have run3: "receiver_running P h c b3" by (rule send_ack_running [OF run2 c sa])
    then have "receiver_running P h c (report io b3)"
      using receiver_quiet_running [of b3 "report io b3"] by simp
    with run3 show ?thesis
      by (cases r') (auto simp: on_channel_data_def q d Inr sa receiver_running_def)
  qed
  have "bridge_received (outcome_state ?out) = received e' m'"
  proof (cases r)
    case (Inl err)
    then show ?thesis by (simp add: on_channel_data_def q d rb2)
  next
    case (Inr u)
    obtain r' b3 where sa: "send_ack io b2 = (r', b3)" by (cases "send_ack io b2") auto
    have "bridge_received b3 = received e' m'"
      using send_ack_cases [OF sa] by (auto simp: rb2 bridge_received_def b2)
    then show ?thesis
      by (cases r') (simp_all add: on_channel_data_def q d Inr sa bridge_received_def)
  qed
  with rcv show "bridge_received b \<subseteq> bridge_received (outcome_state ?out)"
    by (simp add: bridge_received_def)
qed

lemma channel_data_sender_quiet: "sender_quiet b (outcome_state (on_channel_data P io s dat b))"
proof -
  obtain ready e' m' where q: "queue_inbound (br_expected b) (br_inbound b) s dat = (ready, e', m')"
    by (cases "queue_inbound (br_expected b) (br_inbound b) s dat") auto
  let ?b1 = "b\<lparr>br_expected := e', br_inbound := m'\<rparr>"
  obtain r b2 where d: "deliver_payloads P io 0 ready ?b1 = (r, b2)"
    by (cases "deliver_payloads P io 0 ready ?b1") auto
  obtain rcv2 w2 where b2: "b2 = ?b1\<lparr>br_receiver := rcv2, br_written := w2\<rparr>"
    using deliver_payloads_frame [OF d] by blast
  then have q2: "sender_quiet b b2" by (simp add: sender_quiet_def sender_view_eq)
  obtain r' b3 where sa: "send_ack io b2 = (r', b3)" by (cases "send_ack io b2") auto
  then have "sender_quiet b2 b3"
    unfolding send_ack_def by (rule conn_send_sender_quiet) simp
  then have "sender_quiet b b3" using q2 by (rule sender_quiet_trans [rotated])
  with q2 show ?thesis
    by (cases r; cases r') (simp_all add: on_channel_data_def q d sa)
qed

section \<open>The end of the stream\<close>

lemma channel_close_sender_quiet: "sender_quiet b (outcome_state (on_channel_close io f b))"
  by (cases "io_up io"; cases "io_shutdown_ok io")
    (simp_all add: on_channel_close_def send_ack_def send_close_ack_def conn_send_def shutdown_then_def
      sender_quiet_def sender_view_eq)

lemma channel_close_receiver:
  assumes run: "receiver_running P h c b" and c: "chunks_ok c"
  shows "receiver_post P h c (on_channel_close io f b)"
    and "bridge_received (outcome_state (on_channel_close io f b)) = bridge_received b"
proof -
  show "receiver_post P h c (on_channel_close io f b)"
  proof (cases "br_expected b < f")
    case True
    obtain r b' where sa: "send_ack io b = (r, b')" by (cases "send_ack io b") auto
    have "receiver_running P h c b'" by (rule send_ack_running [OF run c sa])
    then show ?thesis using True by (cases r) (auto simp: on_channel_close_def sa receiver_running_def)
  next
    case False
    obtain r b' where sa: "send_close_ack io f b = (r, b')" by (cases "send_close_ack io f b") auto
    have "receiver_running P h c b'"
      using sa run False
      by (auto simp: send_close_ack_def conn_send_def receiver_running_def receiver_core_def
          receiver_msgs_def bridge_received_def split: if_splits)
    then have "receiver_running P h c (b'\<lparr>br_shut := s\<rparr>)" for s
      using receiver_quiet_running [of b' "b'\<lparr>br_shut := s\<rparr>"] by simp
    with \<open>receiver_running P h c b'\<close> False show ?thesis
      by (cases r) (auto simp: on_channel_close_def sa shutdown_then_def receiver_running_def)
  qed
  show "bridge_received (outcome_state (on_channel_close io f b)) = bridge_received b"
    by (cases "io_up io"; cases "io_shutdown_ok io")
      (simp_all add: on_channel_close_def send_ack_def send_close_ack_def conn_send_def
        shutdown_then_def bridge_received_def)
qed

lemma shutdown_quiet:
  "sender_quiet b (outcome_state (shutdown_then io r b))"
  "receiver_quiet b (outcome_state (shutdown_then io r b))"
  by (simp_all add: shutdown_then_def sender_quiet_def sender_view_eq)

lemma close_ack_quiet:
  "sender_quiet b (outcome_state (on_channel_close_ack io f b))"
  "receiver_quiet b (outcome_state (on_channel_close_ack io f b))"
  using shutdown_quiet by (auto simp: on_channel_close_ack_def split: option.splits)

lemma keepalive_quiet:
  "sender_quiet b (outcome_state (try_then (send_keepalive_ack io nonce b) Continue))"
  "receiver_quiet b (outcome_state (try_then (send_keepalive_ack io nonce b) Continue))"
  by (cases "io_up io";
      simp add: send_keepalive_ack_def conn_send_def sender_quiet_def sender_view_eq receiver_quiet_def)+

end
