(* ===== verification/Network.thy ===== *)
theory Network
  imports BridgeReceiver "HOL-Library.Sublist"
begin

text \<open>
  Two bridges joined by the UDP path of a direct channel. The path may lose, duplicate, delay and
  reorder: every envelope ever sent may be delivered any number of times, at any time, or never.
  Each end interleaves its own local events (reads of its TCP stream, timers, the loss of the
  connection) with deliveries. The ghost field \<open>ep_chunks\<close> is what the end has read from its
  TCP stream. The theorems: the bytes written at one end are always a prefix of the bytes read at
  the other, and an end that finishes with \<open>Ok\<close> has seen one of the two directions through.
\<close>

section \<open>The system\<close>

datatype side = LeftEnd | RightEnd

fun other :: "side \<Rightarrow> side" where
  "other LeftEnd = RightEnd"
| "other RightEnd = LeftEnd"

record endpoint =
  ep_bridge :: bridge
  ep_chunks :: "byte list list"
  ep_done :: "(string + unit) option"

type_synonym net = "side \<Rightarrow> endpoint"

fun chunks_after :: "bridge_event \<Rightarrow> byte list list \<Rightarrow> byte list list" where
  "chunks_after (LocalRead (Some bytes)) c = (if bytes = [] then c else c @ [bytes])"
| "chunks_after _ c = c"

definition ep_apply :: "byte list list \<Rightarrow> bridge_outcome \<Rightarrow> endpoint" where
  "ep_apply c out =
     (case out of
        Continue b \<Rightarrow> \<lparr>ep_bridge = b, ep_chunks = c, ep_done = None\<rparr>
      | Break r b \<Rightarrow> \<lparr>ep_bridge = bridge_exit b, ep_chunks = c, ep_done = Some r\<rparr>
      | Early e b \<Rightarrow> \<lparr>ep_bridge = b, ep_chunks = c, ep_done = Some (Inl e)\<rparr>)"

fun local_event :: "bridge_event \<Rightarrow> bool" where
  "local_event (FromPeer (Some _)) = False"
| "local_event _ = True"

definition ep_step :: "crypto_prims \<Rightarrow> io \<Rightarrow> bridge_event \<Rightarrow> endpoint \<Rightarrow> endpoint" where
  "ep_step P io ev ep =
     ep_apply (chunks_after ev (ep_chunks ep)) (bridge_step P io ev (ep_bridge ep))"

inductive net_step :: "crypto_prims \<Rightarrow> net \<Rightarrow> net \<Rightarrow> bool" for P where
  local_step:
    "ep_done (n s) = None \<Longrightarrow> local_event ev \<Longrightarrow> enabled ev (ep_bridge (n s))
      \<Longrightarrow> chunks_ok (chunks_after ev (ep_chunks (n s)))
      \<Longrightarrow> net_step P n (n(s := ep_step P io ev (n s)))"
| deliver_step:
    "ep_done (n s) = None \<Longrightarrow> e \<in> set (br_outbox (ep_bridge (n (other s))))
      \<Longrightarrow> net_step P n (n(s := ep_step P io (FromPeer (Some e)) (n s)))"

text \<open>Both ends derive their keys from the shared secret; the left end is the initiator.\<close>

fun end_role :: "side \<Rightarrow> secure_channel_role" where
  "end_role LeftEnd = Initiator"
| "end_role RightEnd = Responder"

definition end_half :: "crypto_prims \<Rightarrow> byte list \<Rightarrow> string \<Rightarrow> side \<Rightarrow> secure_half" where
  "end_half P shared cid s = fst (secure_channel_pair P shared cid (end_role s))"

definition net_init ::
  "crypto_prims \<Rightarrow> byte list \<Rightarrow> string \<Rightarrow> string \<Rightarrow> bool \<Rightarrow> nat \<Rightarrow> net" where
  "net_init P shared cid rid hook now s =
     (let (sender, receiver) = secure_channel_pair P shared cid (end_role s) in
      \<lparr>ep_bridge = bridge_init cid rid sender receiver hook now, ep_chunks = [], ep_done = None\<rparr>)"

inductive net_reachable :: "crypto_prims \<Rightarrow> net \<Rightarrow> net \<Rightarrow> bool" for P n0 where
  reach_init: "net_reachable P n0 n0"
| reach_step: "net_reachable P n0 n \<Longrightarrow> net_step P n n' \<Longrightarrow> net_reachable P n0 n'"

section \<open>One step of one end\<close>

fun event_ok :: "(direct_tunnel_envelope \<Rightarrow> bool) \<Rightarrow> bridge_event \<Rightarrow> bool" where
  "event_ok Q (FromPeer (Some e)) = Q e"
| "event_ok Q _ = True"

lemma event_okI: "(\<And>e. ev = FromPeer (Some e) \<Longrightarrow> Q e) \<Longrightarrow> event_ok Q ev"
  by (cases "(Q, ev)" rule: event_ok.cases) auto

lemma quiet_last_peer [simp]:
  "sender_quiet (b\<lparr>br_last_peer := t\<rparr>) b' = sender_quiet b b'"
  "sender_core P h c rcv (b\<lparr>br_last_peer := t\<rparr>) = sender_core P h c rcv b"
  "sender_msgs P h c (b\<lparr>br_last_peer := t\<rparr>) = sender_msgs P h c b"
  "receiver_running P h c (b\<lparr>br_last_peer := t\<rparr>) = receiver_running P h c b"
  "bridge_received (b\<lparr>br_last_peer := t\<rparr>) = bridge_received b"
  by (simp_all add: sender_quiet_def sender_view_eq sender_core_def sender_msgs_def ack_state_ok_def
      receiver_running_def receiver_core_def receiver_msgs_def bridge_received_def)

lemma sender_quiet_self [simp]:
  "sender_quiet b (b\<lparr>br_last_peer := t\<rparr>)" "receiver_quiet b (b\<lparr>br_last_peer := t\<rparr>)"
  by (simp_all add: sender_quiet_def sender_view_eq receiver_quiet_def)

lemma bridge_step_sender:
  assumes core: "sender_core P h c rcv b" and msgs: "sender_msgs P h c b"
    and en: "enabled ev b" and P: "stream_crypto P h" and c: "chunks_ok (chunks_after ev c)"
    and ok: "event_ok (receiver_msg_ok rcv d) ev"
  shows "sender_post P h (chunks_after ev c) rcv (bridge_step P io ev b)"
proof (cases ev)
  case (LocalRead rd)
  show ?thesis
  proof (cases rd)
    case None
    then show ?thesis using msgs by (simp add: LocalRead on_local_read_def)
  next
    case (Some bytes)
    show ?thesis
    proof (cases "bytes = []")
      case True
      then show ?thesis using local_eof_sender [OF core msgs] by (simp add: LocalRead Some on_local_read_def)
    next
      case False
      then show ?thesis
        using local_data_sender [OF core msgs _ P] en c by (simp add: LocalRead Some on_local_read_def)
    qed
  qed
next
  case RetransmitTick
  then show ?thesis using retransmit_tick_sender [OF core msgs] by simp
next
  case HousekeepingTick
  then show ?thesis using sender_quiet_post [OF core msgs housekeeping_sender_quiet] by simp
next
  case (FromPeer x)
  show ?thesis
  proof (cases x)
    case None
    then show ?thesis using msgs by (simp add: FromPeer on_envelope_def)
  next
    case (Some e)
    let ?b = "b\<lparr>br_last_peer := io_now io\<rparr>"
    have core': "sender_core P h c rcv ?b" and msgs': "sender_msgs P h c ?b" using core msgs by simp_all
    have q: "sender_quiet ?b (outcome_state out) \<Longrightarrow> sender_post P h c rcv out" for out
      by (rule sender_quiet_post [OF core' msgs'])
    have "sender_post P h c rcv (dispatch_envelope P io e ?b)"
    proof (cases e)
      case (DT_ChannelAck r ch n rs)
      with ok have "{..<n} \<union> covers rs \<subseteq> rcv" "ranges_u64 rs" by (simp_all add: FromPeer Some)
      from channel_ack_sender [OF core' msgs' this] show ?thesis by (simp add: DT_ChannelAck)
    next
      case (DT_ChannelData r ch s dat)
      then show ?thesis using q [OF channel_data_sender_quiet] by simp
    next
      case (DT_ChannelKeepalive r ch n)
      then show ?thesis using q [OF keepalive_quiet(1)] by simp
    next
      case (DT_ChannelKeepaliveAck r ch n)
      then show ?thesis by (intro q) (simp add: sender_quiet_def sender_view_eq)
    next
      case (DT_ChannelClose r ch f rs)
      then show ?thesis using q [OF channel_close_sender_quiet] by simp
    next
      case (DT_ChannelCloseAck r ch f)
      then show ?thesis using q [OF close_ack_quiet(1)] by simp
    next
      case (DT_ChannelRejected r ch rs)
      then show ?thesis using q [OF shutdown_quiet(1)] by (simp add: on_rejected_def)
    qed (use core msgs in simp_all)
    then show ?thesis by (simp add: FromPeer Some on_envelope_def)
  qed
qed

lemma bridge_step_receiver:
  assumes run: "receiver_running P h c b" and P: "stream_crypto P h" and c: "chunks_ok c"
    and ok: "event_ok (sender_msg_ok P h c cl) ev"
  shows "receiver_post P h c (bridge_step P io ev b)"
    and "bridge_received b \<subseteq> bridge_received (outcome_state (bridge_step P io ev b))"
proof -
  have q: "receiver_post P h c out \<and> bridge_received b \<subseteq> bridge_received (outcome_state out)"
    if "receiver_quiet b (outcome_state out)" for out
    using receiver_quiet_post [OF run that] that by (auto simp: receiver_quiet_def bridge_received_def)
  have "receiver_post P h c (bridge_step P io ev b)
    \<and> bridge_received b \<subseteq> bridge_received (outcome_state (bridge_step P io ev b))"
  proof (cases ev)
    case (LocalRead rd)
    then show ?thesis using q local_read_receiver_quiet by simp
  next
    case RetransmitTick
    then show ?thesis using q retransmit_tick_receiver_quiet by simp
  next
    case HousekeepingTick
    then show ?thesis using q housekeeping_receiver_quiet by simp
  next
    case (FromPeer x)
    show ?thesis
    proof (cases x)
      case None
      then show ?thesis using run by (simp add: FromPeer on_envelope_def)
    next
      case (Some e)
      let ?b = "b\<lparr>br_last_peer := io_now io\<rparr>"
      have run': "receiver_running P h c ?b" using run by simp
      have q': "receiver_post P h c out \<and> bridge_received b \<subseteq> bridge_received (outcome_state out)"
        if "receiver_quiet ?b (outcome_state out)" for out
        using q [of out] that by simp
      have "receiver_post P h c (dispatch_envelope P io e ?b)
        \<and> bridge_received b \<subseteq> bridge_received (outcome_state (dispatch_envelope P io e ?b))"
      proof (cases e)
        case (DT_ChannelData r ch s dat)
        with ok have "s < length c" "dat = cipher P h c s" by (simp_all add: FromPeer Some)
        from channel_data_receiver [OF run' P c this, of io] show ?thesis
          by (simp add: DT_ChannelData)
      next
        case (DT_ChannelAck r ch n rs)
        then show ?thesis using q' [OF channel_ack_receiver_quiet] by simp
      next
        case (DT_ChannelKeepalive r ch n)
        then show ?thesis using q' [OF keepalive_quiet(2)] by simp
      next
        case (DT_ChannelKeepaliveAck r ch n)
        have "receiver_quiet b (outcome_state (dispatch_envelope P io e ?b))"
          by (simp add: DT_ChannelKeepaliveAck receiver_quiet_def)
        then show ?thesis by (rule q)
      next
        case (DT_ChannelClose r ch f rs)
        then show ?thesis using channel_close_receiver [OF run' c, of io f] by simp
      next
        case (DT_ChannelCloseAck r ch f)
        then show ?thesis using q' [OF close_ack_quiet(2)] by simp
      next
        case (DT_ChannelRejected r ch rs)
        then show ?thesis using q' [OF shutdown_quiet(2)] by (simp add: on_rejected_def)
      qed (use run in simp_all)
      then show ?thesis by (simp add: FromPeer Some on_envelope_def)
    qed
  qed
  then show "receiver_post P h c (bridge_step P io ev b)"
    "bridge_received b \<subseteq> bridge_received (outcome_state (bridge_step P io ev b))" by simp_all
qed

section \<open>What never shrinks\<close>

lemma deliver_payloads_extends:
  "deliver_payloads P io j ps b = (r, b') \<Longrightarrow> \<exists>x. br_written b' = br_written b @ x"
proof (induction ps arbitrary: j b)
  case (Cons p ps)
  then show ?case
    by (fastforce simp: Let_def split: prod.splits sum.splits if_splits)
qed simp

lemma channel_data_written:
  "\<exists>x. br_written (outcome_state (on_channel_data P io s dat b)) = br_written b @ x"
proof -
  obtain ready e' m' where q: "queue_inbound (br_expected b) (br_inbound b) s dat = (ready, e', m')"
    by (cases "queue_inbound (br_expected b) (br_inbound b) s dat") auto
  let ?b1 = "b\<lparr>br_expected := e', br_inbound := m'\<rparr>"
  obtain r b2 where d: "deliver_payloads P io 0 ready ?b1 = (r, b2)"
    by (cases "deliver_payloads P io 0 ready ?b1") auto
  obtain r' b3 where sa: "send_ack io b2 = (r', b3)" by (cases "send_ack io b2") auto
  have "br_written b3 = br_written b2" using send_ack_cases [OF sa] by auto
  then show ?thesis
    using deliver_payloads_extends [OF d]
    by (cases r; cases r') (simp_all add: on_channel_data_def q d sa)
qed

lemma bridge_step_written:
  "\<exists>x. br_written (outcome_state (bridge_step P io ev b)) = br_written b @ x"
proof -
  have q: "\<exists>x. br_written b' = br_written b @ x" if "receiver_quiet b b'" for b'
    using that by (simp add: receiver_quiet_def)
  show ?thesis
  proof (cases ev)
    case (FromPeer y)
    show ?thesis
    proof (cases y)
      case (Some e)
      let ?b = "b\<lparr>br_last_peer := io_now io\<rparr>"
      have q': "\<exists>x. br_written b' = br_written b @ x" if "receiver_quiet ?b b'" for b'
        using q that by simp
      have cl: "br_written (outcome_state (on_channel_close io f ?b)) = br_written b" for f
        by (cases "io_up io"; cases "io_shutdown_ok io")
          (simp_all add: on_channel_close_def send_ack_def send_close_ack_def conn_send_def shutdown_then_def)
      have "\<exists>x. br_written (outcome_state (dispatch_envelope P io e ?b)) = br_written b @ x"
      proof (cases e)
        case (DT_ChannelData r ch s dat)
        then show ?thesis using channel_data_written [of P io s dat ?b] by simp
      qed (use q' [OF channel_ack_receiver_quiet] q' [OF keepalive_quiet(2)] q' [OF close_ack_quiet(2)]
            q' [OF shutdown_quiet(2)] cl in \<open>simp_all add: on_rejected_def\<close>)
      then show ?thesis by (simp add: FromPeer Some on_envelope_def)
    qed (simp add: FromPeer on_envelope_def)
  qed (use q [OF local_read_receiver_quiet] q [OF retransmit_tick_receiver_quiet]
        q [OF housekeeping_receiver_quiet] in simp_all)
qed

lemma resend_pending_closed [simp]:
  "resend_pending io s b = (f, r, b') \<Longrightarrow> br_local_read_closed b' = br_local_read_closed b"
  using resend_pending_effect [of io s b f r b'] by auto

lemma maybe_start_close_closed [simp]:
  "maybe_start_close io b = (r, b') \<Longrightarrow> br_local_read_closed b' = br_local_read_closed b"
  by (auto simp: maybe_start_close_def send_pending_close_def conn_send_def Let_def split: if_splits)

lemma bridge_step_closed:
  assumes "br_local_read_closed b" "enabled ev b"
  shows "br_local_read_closed (outcome_state (bridge_step P io ev b))"
proof -
  have q: "br_local_read_closed b'" if "sender_quiet b b'" for b'
    using that assms(1) by (simp add: sender_quiet_def sender_view_eq)
  show ?thesis
  proof (cases ev)
    case (LocalRead rd)
    then show ?thesis using assms by (simp add: local_read_enabled_def)
  next
    case RetransmitTick
    obtain f1 r1 b1 where d: "retransmit_data io b = (f1, r1, b1)" by (cases "retransmit_data io b") auto
    have c1: "br_local_read_closed b1"
      using d assms(1) resend_pending_closed by (fastforce simp: retransmit_data_def split: option.splits)
    obtain f2 r2 b2 where cl: "retransmit_close io b1 = (f2, r2, b2)" by (cases "retransmit_close io b1") auto
    have "br_local_read_closed b2"
      using cl c1 by (auto simp: retransmit_close_def send_pending_close_def conn_send_def Let_def
          split: option.splits if_splits)
    with c1 show ?thesis
      by (cases r1; cases r2)
        (simp_all add: RetransmitTick on_retransmit_tick_def d cl after_retransmit_def)
  next
    case HousekeepingTick
    then show ?thesis using q [OF housekeeping_sender_quiet] by simp
  next
    case (FromPeer y)
    show ?thesis
    proof (cases y)
      case None
      then show ?thesis using assms(1) by (simp add: FromPeer on_envelope_def)
    next
      case (Some e)
      let ?b = "b\<lparr>br_last_peer := io_now io\<rparr>"
      have q': "br_local_read_closed b'" if "sender_quiet ?b b'" for b'
        using q that by simp
      have ack: "br_local_read_closed (outcome_state (on_channel_ack io n rs ?b))" for n rs
      proof -
        obtain b1 p where h: "handle_ack (io_now io) n rs ?b = (b1, p)"
          by (cases "handle_ack (io_now io) n rs ?b") auto
        have c1: "br_local_read_closed b1"
          using handle_ack_bridge_frame(4) [of "io_now io" n rs ?b] assms(1) by (simp add: h)
        obtain f r b2 where rs: "(case p of Some s \<Rightarrow> resend_pending io s b1 | None \<Rightarrow> (False, Inr (), b1)) = (f, r, b2)"
          by (cases "case p of Some s \<Rightarrow> resend_pending io s b1 | None \<Rightarrow> (False, Inr (), b1)") auto
        have c2: "br_local_read_closed b2" using rs c1 by (cases p) auto
        obtain r' b3 where m: "maybe_start_close io b2 = (r', b3)" by (cases "maybe_start_close io b2") auto
        show ?thesis
          using c2 maybe_start_close_closed [OF m]
          by (cases r; cases r') (simp_all add: on_channel_ack_def h rs m Let_def)
      qed
      have "br_local_read_closed (outcome_state (dispatch_envelope P io e ?b))"
        by (cases e)
          (use q' [OF channel_data_sender_quiet] ack q' [OF keepalive_quiet(1)] q' [OF close_ack_quiet(1)]
            q' [OF channel_close_sender_quiet] q' [OF shutdown_quiet(1)] assms(1)
            in \<open>simp_all add: on_rejected_def\<close>)
      then show ?thesis by (simp add: FromPeer Some on_envelope_def)
    qed
  qed
qed

section \<open>The invariant of the system\<close>

text \<open>One direction: \<open>S\<close> sends, \<open>R\<close> receives, with the key half \<open>h\<close>.\<close>

definition direction_inv :: "crypto_prims \<Rightarrow> secure_half \<Rightarrow> endpoint \<Rightarrow> endpoint \<Rightarrow> bool" where
  "direction_inv P h S R =
     (chunks_ok (ep_chunks S)
      \<and> sender_msgs P h (ep_chunks S) (ep_bridge S)
      \<and> (ep_done S = None \<longrightarrow>
           sender_core P h (ep_chunks S) (bridge_received (ep_bridge R)) (ep_bridge S))
      \<and> (ep_done R = None \<longrightarrow> receiver_running P h (ep_chunks S) (ep_bridge R))
      \<and> (\<exists>d. receiver_msgs (ep_chunks S) d (ep_bridge R)))"

text \<open>A direction is complete: the stream has ended and all of it has been written.\<close>

definition direction_complete :: "endpoint \<Rightarrow> endpoint \<Rightarrow> bool" where
  "direction_complete S R =
     (br_local_read_closed (ep_bridge S) \<and> br_written (ep_bridge R) = concat (ep_chunks S))"

definition net_inv :: "crypto_prims \<Rightarrow> (side \<Rightarrow> secure_half) \<Rightarrow> net \<Rightarrow> bool" where
  "net_inv P h n =
     (\<forall>s. direction_inv P (h s) (n s) (n (other s))
        \<and> (ep_done (n s) = Some (Inr ()) \<longrightarrow>
             direction_complete (n s) (n (other s)) \<or> direction_complete (n (other s)) (n s)))"

lemma other_other [simp]: "other (other s) = s"
  by (cases s) simp_all

lemma other_neq [simp]: "other s \<noteq> s" "s \<noteq> other s"
  by (cases s; simp)+

lemma other_cases: "t = s \<or> t = other s"
  by (cases s; cases t) simp_all

lemma bridge_exit_frame [simp]:
  "sender_msgs P h c (bridge_exit b) = sender_msgs P h c b"
  "receiver_msgs c d (bridge_exit b) = receiver_msgs c d b"
  "bridge_received (bridge_exit b) = bridge_received b"
  "br_written (bridge_exit b) = br_written b"
  "br_local_read_closed (bridge_exit b) = br_local_read_closed b"
  by (simp_all add: bridge_exit_def sender_msgs_def receiver_msgs_def bridge_received_def)

lemma ep_apply_frame [simp]:
  "ep_chunks (ep_apply c out) = c"
  "bridge_received (ep_bridge (ep_apply c out)) = bridge_received (outcome_state out)"
  "br_written (ep_bridge (ep_apply c out)) = br_written (outcome_state out)"
  "br_local_read_closed (ep_bridge (ep_apply c out)) = br_local_read_closed (outcome_state out)"
  by (cases out; simp add: ep_apply_def)+

lemma chunks_after_append: "\<exists>x. chunks_after ev c = c @ x"
  by (cases "(ev, c)" rule: chunks_after.cases) auto

lemma sender_end_step:
  assumes inv: "direction_inv P h S R" and run: "ep_done S = None"
    and en: "enabled ev (ep_bridge S)" and P: "stream_crypto P h"
    and c: "chunks_ok (chunks_after ev (ep_chunks S))"
    and ok: "\<And>d. receiver_msgs (ep_chunks S) d (ep_bridge R)
      \<Longrightarrow> event_ok (receiver_msg_ok (bridge_received (ep_bridge R)) d) ev"
  shows "direction_inv P h (ep_step P io ev S) R"
proof -
  from inv obtain d where d: "receiver_msgs (ep_chunks S) d (ep_bridge R)"
    by (auto simp: direction_inv_def)
  let ?out = "bridge_step P io ev (ep_bridge S)"
  have post: "sender_post P h (chunks_after ev (ep_chunks S)) (bridge_received (ep_bridge R)) ?out"
    using inv run by (intro bridge_step_sender [OF _ _ en P c ok [OF d]]) (auto simp: direction_inv_def)
  obtain x where x: "chunks_after ev (ep_chunks S) = ep_chunks S @ x"
    using chunks_after_append by blast
  have "receiver_msgs (ep_chunks S @ x) d (ep_bridge R)"
    using d by (rule receiver_msgs_append)
  moreover have "ep_done R = None \<Longrightarrow> receiver_running P h (ep_chunks S @ x) (ep_bridge R)"
    using inv by (intro receiver_running_append) (simp add: direction_inv_def)
  ultimately show ?thesis
    using post c x by (cases ?out) (auto simp: direction_inv_def ep_step_def ep_apply_def)
qed

lemma receiver_end_step:
  assumes inv: "direction_inv P h S R" and run: "ep_done R = None" and P: "stream_crypto P h"
    and ok: "event_ok (sender_msg_ok P h (ep_chunks S) cl) ev"
  shows "direction_inv P h S (ep_step P io ev R)"
proof -
  let ?out = "bridge_step P io ev (ep_bridge R)"
  have r: "receiver_running P h (ep_chunks S) (ep_bridge R)" and c: "chunks_ok (ep_chunks S)"
    using inv run by (auto simp: direction_inv_def)
  have post: "receiver_post P h (ep_chunks S) ?out"
    and grow: "bridge_received (ep_bridge R) \<subseteq> bridge_received (outcome_state ?out)"
    using bridge_step_receiver [OF r P c ok] by simp_all
  have "ep_done S = None \<Longrightarrow>
      sender_core P h (ep_chunks S) (bridge_received (outcome_state ?out)) (ep_bridge S)"
    using inv grow by (auto simp: direction_inv_def intro: sender_core_mono)
  moreover have "\<exists>d. receiver_msgs (ep_chunks S) d (ep_bridge (ep_step P io ev R))"
    using post by (cases ?out) (auto simp: ep_step_def ep_apply_def receiver_running_def)
  moreover have "ep_done (ep_step P io ev R) = None \<Longrightarrow>
      receiver_running P h (ep_chunks S) (ep_bridge (ep_step P io ev R))"
    using post by (cases ?out) (auto simp: ep_step_def ep_apply_def)
  ultimately show ?thesis
    using inv by (auto simp: direction_inv_def ep_step_def)
qed

text \<open>When a bridge returns \<open>Ok\<close>: on the peer's close, or on the acknowledgement of its own.\<close>

lemma bridge_step_ok:
  assumes "bridge_step P io ev b = Break (Inr ()) b'"
  shows "(\<exists>r ch f rs. ev = FromPeer (Some (DT_ChannelClose r ch f rs)) \<and> f \<le> br_expected b
        \<and> br_written b' = br_written b)
    \<or> (\<exists>r ch f cl. ev = FromPeer (Some (DT_ChannelCloseAck r ch f)) \<and> br_pending_close b = Some cl
        \<and> pc_final_sequence cl \<le> f \<and> br_local_read_closed b' = br_local_read_closed b)"
proof -
  have t: "try_then r k = Break res x \<Longrightarrow> fst r = Inr () \<and> k (snd r) = Break res x" for r k res x
    by (cases r) (auto simp: try_then_def split: sum.splits)
  have l: "on_local_read P io rd b \<noteq> Break (Inr ()) b'" for rd
    by (auto simp: on_local_read_def on_local_eof_def on_local_data_def Let_def
        split: option.splits prod.splits sum.splits dest!: t)
  have r: "on_retransmit_tick io b \<noteq> Break (Inr ()) b'"
    by (auto simp: on_retransmit_tick_def Let_def split: prod.splits dest!: t)
  have h: "on_housekeeping_tick io b \<noteq> Break (Inr ()) b'"
    by (auto simp: on_housekeeping_tick_def Let_def dest!: t split: if_splits)
  from assms l r h obtain e where ev: "ev = FromPeer (Some e)"
    by (cases ev) (auto simp: on_envelope_def split: option.splits)
  let ?b = "b\<lparr>br_last_peer := io_now io\<rparr>"
  have d: "dispatch_envelope P io e ?b = Break (Inr ()) b'"
    using assms by (simp add: ev on_envelope_def)
  show ?thesis
  proof (cases e)
    case (DT_ChannelClose r ch f rs)
    with d show ?thesis
      by (auto simp: ev on_channel_close_def shutdown_then_def send_ack_def send_close_ack_def conn_send_def
          split: if_splits dest!: t)
  next
    case (DT_ChannelCloseAck r ch f)
    with d show ?thesis
      by (auto simp: ev on_channel_close_ack_def shutdown_then_def split: if_splits option.splits)
  qed (use d in \<open>auto simp: on_channel_data_def on_channel_ack_def on_rejected_def shutdown_then_def Let_def
      split: prod.splits if_splits dest!: t\<close>)
qed

lemma prefix_complete:
  assumes "w = concat c @ x" "w = concat (take d c)"
  shows "w = concat c"
proof -
  have "concat c = concat (take d c) @ concat (drop d c)"
    by (metis append_take_drop_id concat_append)
  with assms show ?thesis by (metis append_assoc append_self_conv append_is_Nil_conv)
qed

lemma direction_complete_step:
  assumes "direction_complete S R" "direction_inv P h S R'" "\<exists>x. br_written (ep_bridge R') = br_written (ep_bridge R) @ x"
  shows "direction_complete S R'"
proof -
  obtain d where "br_written (ep_bridge R') = concat (take d (ep_chunks S))"
    using assms(2) by (auto simp: direction_inv_def receiver_msgs_def)
  then show ?thesis
    using assms(1,3) prefix_complete by (fastforce simp: direction_complete_def)
qed

lemma net_inv_step:
  assumes inv: "net_inv P h n" and P: "\<And>s. stream_crypto P (h s)" and step: "net_step P n n'"
  shows "net_inv P h n'"
proof -
  have d: "\<And>s. direction_inv P (h s) (n s) (n (other s))" using inv by (simp add: net_inv_def)
  have main: "net_inv P h (n(s := ep_step P io ev (n s)))"
    if run: "ep_done (n s) = None" and en: "enabled ev (ep_bridge (n s))"
      and c: "chunks_ok (chunks_after ev (ep_chunks (n s)))"
      and from_peer: "\<And>e. ev = FromPeer (Some e) \<Longrightarrow> e \<in> set (br_outbox (ep_bridge (n (other s))))"
    for s io ev
  proof -
    let ?S = "n s" and ?R = "n (other s)" and ?S' = "ep_step P io ev (n s)"
    let ?out = "bridge_step P io ev (ep_bridge ?S)"
    have ds: "direction_inv P (h s) ?S ?R" using d .
    have dr: "direction_inv P (h (other s)) ?R ?S" using d [of "other s"] by simp
    have okr: "event_ok (receiver_msg_ok (bridge_received (ep_bridge ?R)) k) ev"
      if "receiver_msgs (ep_chunks ?S) k (ep_bridge ?R)" for k
      using that from_peer by (intro event_okI) (auto simp: receiver_msgs_def)
    have oks: "event_ok (sender_msg_ok P (h (other s)) (ep_chunks ?R) (br_local_read_closed (ep_bridge ?R))) ev"
      using dr from_peer by (intro event_okI) (auto simp: direction_inv_def sender_msgs_def)
    have s1: "direction_inv P (h s) ?S' ?R"
      by (rule sender_end_step [OF ds run en P c okr])
    have s2: "direction_inv P (h (other s)) ?R ?S'"
      by (rule receiver_end_step [OF dr run P oks])
    have keep: "direction_complete ?R ?S \<Longrightarrow> direction_complete ?R ?S'"
      using bridge_step_written [of P io ev "ep_bridge ?S"]
      by (intro direction_complete_step [OF _ s2]) (auto simp: ep_step_def)
    have keep': "direction_complete ?S' ?R" if comp: "direction_complete ?S ?R"
    proof -
      have cl: "br_local_read_closed (ep_bridge ?S)" using comp by (simp add: direction_complete_def)
      then have "br_local_read_closed (ep_bridge ?S')"
        using bridge_step_closed [OF _ en] by (simp add: ep_step_def)
      moreover have "chunks_after ev (ep_chunks ?S) = ep_chunks ?S"
        using cl en by (cases ev) (auto simp: local_read_enabled_def)
      ultimately show ?thesis using comp by (simp add: direction_complete_def ep_step_def)
    qed
    have done_s: "direction_complete ?S' ?R \<or> direction_complete ?R ?S'"
      if done_ok: "ep_done ?S' = Some (Inr ())"
    proof -
      from done_ok obtain b' where out: "?out = Break (Inr ()) b'"
        by (auto simp: ep_step_def ep_apply_def split: bridge_outcome.splits)
      from bridge_step_ok [OF out] show ?thesis
      proof (elim disjE exE conjE)
        fix r ch f rs
        assume ev: "ev = FromPeer (Some (DT_ChannelClose r ch f rs))" and f: "f \<le> br_expected (ep_bridge ?S)"
          and w: "br_written b' = br_written (ep_bridge ?S)"
        from oks have "f = length (ep_chunks ?R)" "br_local_read_closed (ep_bridge ?R)" by (simp_all add: ev)
        moreover have "receiver_running P (h (other s)) (ep_chunks ?R) (ep_bridge ?S)"
          using dr run by (simp add: direction_inv_def)
        then have "br_written (ep_bridge ?S) = concat (take (br_expected (ep_bridge ?S)) (ep_chunks ?R))"
          by (simp add: receiver_running_def receiver_msgs_def)
        ultimately have "direction_complete ?R ?S'"
          using f w by (simp add: direction_complete_def ep_step_def out)
        then show ?thesis ..
      next
        fix r ch f cl
        assume ev: "ev = FromPeer (Some (DT_ChannelCloseAck r ch f))"
          and cl: "br_pending_close (ep_bridge ?S) = Some cl" "pc_final_sequence cl \<le> f"
          and lc: "br_local_read_closed b' = br_local_read_closed (ep_bridge ?S)"
        obtain k where k: "receiver_msgs (ep_chunks ?S) k (ep_bridge ?R)"
          using ds by (auto simp: direction_inv_def)
        from okr [OF k] have "f \<le> k" by (simp add: ev)
        moreover have "pc_final_sequence cl = length (ep_chunks ?S)" "br_local_read_closed (ep_bridge ?S)"
          using ds run cl(1) by (auto simp: direction_inv_def sender_core_def)
        moreover have "chunks_after ev (ep_chunks ?S) = ep_chunks ?S" by (simp add: ev)
        ultimately have "direction_complete ?S' ?R"
          using k cl(2) lc by (simp add: direction_complete_def ep_step_def out receiver_msgs_def)
        then show ?thesis ..
      qed
    qed
    show ?thesis
      unfolding net_inv_def
    proof (intro allI conjI impI)
      fix t
      show "direction_inv P (h t) ((n(s := ?S')) t) ((n(s := ?S')) (other t))"
        using s1 s2 other_cases [of t s] by auto
      assume "ep_done ((n(s := ?S')) t) = Some (Inr ())"
      then show "direction_complete ((n(s := ?S')) t) ((n(s := ?S')) (other t))
          \<or> direction_complete ((n(s := ?S')) (other t)) ((n(s := ?S')) t)"
        using other_cases [of t s] done_s keep keep' inv [unfolded net_inv_def, rule_format, of "other s"]
        by auto
    qed
  qed
  from step show ?thesis
  proof (cases rule: net_step.cases)
    case (local_step s ev io)
    show ?thesis
      unfolding local_step(1) using local_step by (intro main) auto
  next
    case (deliver_step s e io)
    have "chunks_ok (ep_chunks (n s))" using d by (simp add: direction_inv_def)
    then show ?thesis
      unfolding deliver_step(1) using deliver_step by (intro main) auto
  qed
qed

section \<open>Reachable states\<close>

definition channel_crypto :: "crypto_prims \<Rightarrow> bool" where
  "channel_crypto P = (b64_law P \<and> aead_law P \<and> sha_law P)"

lemma end_half_crypto: "channel_crypto P \<Longrightarrow> stream_crypto P (end_half P shared cid s)"
  by (simp add: channel_crypto_def stream_crypto_def end_half_def secure_channel_pair_ok)

lemma net_init_inv: "net_inv P (end_half P shared cid) (net_init P shared cid rid hook now)"
proof -
  have half: "fst (secure_channel_pair P shared cid (end_role s)) = end_half P shared cid s"
    "snd (secure_channel_pair P shared cid (end_role s)) = end_half P shared cid (other s)" for s
    by (cases s; simp add: end_half_def secure_channel_pair_def Let_def)+
  have "direction_inv P (end_half P shared cid s) (net_init P shared cid rid hook now s)
      (net_init P shared cid rid hook now (other s))" for s
    using sender_init [of P "end_half P shared cid s" cid rid "end_half P shared cid (other s)" hook now]
      receiver_init [of P "end_half P shared cid s" cid rid "end_half P shared cid (other s)" hook now]
    by (auto simp: direction_inv_def net_init_def case_prod_unfold half chunks_ok_def receiver_running_def
        intro: sender_core_mono)
  then show ?thesis by (auto simp: net_inv_def net_init_def case_prod_unfold Let_def)
qed

lemma net_reachable_inv:
  assumes "net_reachable P (net_init P shared cid rid hook now) n" "channel_crypto P"
  shows "net_inv P (end_half P shared cid) n"
  using assms
  by (induction rule: net_reachable.induct)
    (auto intro: net_init_inv net_inv_step end_half_crypto)

end
