(* ===== verification/NetworkProps.thy ===== *)
theory NetworkProps
  imports Network
begin

text \<open>
  The properties of the direct channel as a whole, over the two-ended system of \<open>Network\<close>, and an
  executable scheduler whose runs are reachable states; the witnesses are concrete runs of it.
\<close>

section \<open>Executable runs\<close>

datatype net_action =
    Act_Local side io bridge_event
  | Act_Deliver side io nat

fun net_act :: "crypto_prims \<Rightarrow> net_action \<Rightarrow> net \<Rightarrow> net" where
  "net_act P (Act_Local s io ev) n =
     (if ep_done (n s) = None \<and> local_event ev \<and> enabled ev (ep_bridge (n s))
         \<and> chunks_ok (chunks_after ev (ep_chunks (n s)))
      then n(s := ep_step P io ev (n s)) else n)"
| "net_act P (Act_Deliver s io i) n =
     (let box = br_outbox (ep_bridge (n (other s))) in
      if ep_done (n s) = None \<and> i < length box
      then n(s := ep_step P io (FromPeer (Some (box ! i))) (n s)) else n)"

definition net_exec :: "crypto_prims \<Rightarrow> net_action list \<Rightarrow> net \<Rightarrow> net" where
  "net_exec P acts n = fold (net_act P) acts n"

lemma net_act_reachable:
  assumes "net_reachable P n0 n"
  shows "net_reachable P n0 (net_act P a n)"
proof (cases a)
  case (Act_Local s io ev)
  show ?thesis
  proof (cases "ep_done (n s) = None \<and> local_event ev \<and> enabled ev (ep_bridge (n s))
      \<and> chunks_ok (chunks_after ev (ep_chunks (n s)))")
    case True
    then have "net_step P n (n(s := ep_step P io ev (n s)))" by (intro local_step) simp_all
    from reach_step [OF assms this] True show ?thesis by (simp add: Act_Local)
  next
    case False
    with assms show ?thesis by (simp only: Act_Local net_act.simps if_False)
  qed
next
  case (Act_Deliver s io i)
  let ?box = "br_outbox (ep_bridge (n (other s)))"
  show ?thesis
  proof (cases "ep_done (n s) = None \<and> i < length ?box")
    case True
    then have "net_step P n (n(s := ep_step P io (FromPeer (Some (?box ! i))) (n s)))"
      by (intro deliver_step) simp_all
    from reach_step [OF assms this] True show ?thesis by (simp add: Act_Deliver Let_def)
  next
    case False
    with assms show ?thesis by (simp only: Act_Deliver net_act.simps Let_def if_False)
  qed
qed

lemma net_exec_reachable: "net_reachable P n0 n \<Longrightarrow> net_reachable P n0 (net_exec P acts n)"
  by (induction acts arbitrary: n) (simp_all add: net_exec_def net_act_reachable)

lemma net_exec_init: "net_reachable P (net_init P k c r h t) (net_exec P acts (net_init P k c r h t))"
  by (intro net_exec_reachable reach_init)

lemma toy_channel_crypto: "channel_crypto toy_prims"
  by (simp add: channel_crypto_def toy_laws)

text \<open>
  The demonstration runs: the left end reads three bytes and the right end receives the packet
  twice; the left end reads the end of its stream and the right end receives the close.
\<close>

definition demo_io :: io where
  "demo_io = \<lparr>io_now = 0, io_up = True, io_write_fail = None, io_shutdown_ok = True\<rparr>"

definition demo_actions :: "net_action list" where
  "demo_actions =
     [Act_Local LeftEnd demo_io (LocalRead (Some [1, 2, 3])),
      Act_Deliver RightEnd demo_io 0,
      Act_Deliver RightEnd demo_io 0]"

definition eof_actions :: "net_action list" where
  "eof_actions =
     [Act_Local LeftEnd demo_io (LocalRead (Some [])),
      Act_Deliver RightEnd demo_io 0]"

definition demo_init :: net where
  "demo_init = net_init toy_prims (replicate 32 0) ''c'' ''r'' False 0"

lemma window_default: "send_window_size congestion_default = 4"
  by (simp add: send_window_size_def congestion_default_def clamp_window_def fclamp_def f64_to_uint_def
      u64_max_def)

lemma wrap_small [simp]:
  "n < 1000 \<Longrightarrow> wrap_add64 n (Suc 0) = Suc n" "n < 1000 \<Longrightarrow> wrap_add32 n (Suc 0) = Suc n"
  by (simp_all add: wrap_add64_def wrap_add32_def)

lemmas demo_defs = report_def maybe_report_def force_report_def reporter_new_def bridge_init_def
  secure_channel_pair_def end_half_def toy_prims_def demo_io_def Let_def

lemmas step_defs = net_exec_def net_init_def local_read_enabled_def window_default chunks_ok_def
  tunnel_max_plaintext_def stream_limit_def ep_step_def ep_apply_def on_local_read_def on_local_eof_def
  on_local_data_def maybe_start_close_def send_pending_close_def send_pending_data_def
  encrypt_to_base64_def conn_send_def max_retransmit_attempts_def on_envelope_def on_channel_close_def
  send_close_ack_def send_ack_def shutdown_then_def bridge_exit_def reporter_clear_def

lemmas receive_defs = on_channel_data_def queue_inbound_def sat_add_def u64_max_def max_reorder_buffer_def
  drain_ready.simps bt_get_def decrypt_from_base64_def selective_ack_ranges_def bt_keys_def

abbreviation demo_run :: "net_action list \<Rightarrow> net" where
  "demo_run acts \<equiv> net_exec toy_prims acts demo_init"

lemma demo_written: "br_written (ep_bridge (demo_run demo_actions RightEnd)) = [1, 2, 3]"
  by (simp add: demo_actions_def demo_init_def demo_defs step_defs receive_defs)

lemma demo_eof: "ep_done (demo_run eof_actions RightEnd) = Some (Inr ())"
  by (simp add: eof_actions_def demo_init_def demo_defs step_defs)

lemma demo_reachable:
  "net_reachable toy_prims (net_init toy_prims (replicate 32 0) ''c'' ''r'' False 0) (demo_run acts)"
  unfolding demo_init_def by (rule net_exec_init)

section \<open>Safety of the stream\<close>

text \<open>
  C1. Whatever the path loses, repeats, delays or reorders, and whatever the timers and the local
  reads do, the bytes one end has written to its TCP stream are a prefix of the bytes the other end
  has read from its own: nothing is lost in the middle, nothing is repeated, nothing is out of order.
\<close>

theorem stream_prefix:
  assumes "channel_crypto P" "net_reachable P (net_init P shared cid rid hook now) n"
  shows "prefix (br_written (ep_bridge (n (other s)))) (concat (ep_chunks (n s)))"
proof -
  have "direction_inv P (end_half P shared cid s) (n s) (n (other s))"
    using net_reachable_inv [OF assms(2,1)] by (simp add: net_inv_def)
  then obtain d where "br_written (ep_bridge (n (other s))) = concat (take d (ep_chunks (n s)))"
    by (auto simp: direction_inv_def receiver_msgs_def)
  moreover have "concat (ep_chunks (n s)) = concat (take d (ep_chunks (n s))) @ concat (drop d (ep_chunks (n s)))"
    by (metis append_take_drop_id concat_append)
  ultimately show ?thesis by (metis prefixI)
qed

theorem stream_prefix_witness: "prefix [1, 2, 3] (concat (ep_chunks (demo_run demo_actions LeftEnd)))"
  using stream_prefix [OF toy_channel_crypto demo_reachable [of demo_actions], of LeftEnd]
  by (simp add: demo_written)



text \<open>
  C4. While an end runs, every chunk it has read is either still queued for retransmission or has
  been received by the other end; in particular, once its close is in flight the other end has
  received everything. Acknowledgements therefore never make the sender forget undelivered data.
\<close>

theorem unacked_is_pending:
  assumes "channel_crypto P" "net_reachable P (net_init P shared cid rid hook now) n"
    and "ep_done (n s) = None" "k < length (ep_chunks (n s))"
  shows "k \<in> pending_seqs (as_pending (ep_bridge (n s)))
    \<or> k \<in> bridge_received (ep_bridge (n (other s)))"
  using net_reachable_inv [OF assms(2,1)] assms(3,4)
  by (auto simp: net_inv_def direction_inv_def sender_core_def)

lemma demo_first:
  "ep_done (demo_run (take 1 demo_actions) LeftEnd) = None"
  "ep_chunks (demo_run (take 1 demo_actions) LeftEnd) = [[1, 2, 3]]"
  by (simp_all add: demo_actions_def demo_init_def demo_defs step_defs)

theorem unacked_is_pending_witness:
  "let n = demo_run (take 1 demo_actions) in
   0 \<in> pending_seqs (as_pending (ep_bridge (n LeftEnd)))
   \<or> 0 \<in> bridge_received (ep_bridge (n RightEnd))"
  using unacked_is_pending [OF toy_channel_crypto demo_reachable [of "take 1 demo_actions"], of LeftEnd 0]
    demo_first
  by simp

definition half_close_actions :: "net_action list" where
  "half_close_actions =
     [Act_Local LeftEnd demo_io (LocalRead (Some [1, 2, 3])),
      Act_Local RightEnd demo_io (LocalRead (Some [])),
      Act_Deliver LeftEnd demo_io 0]"

text \<open>
  Half-closed streams are cut: there is a run in which an end reads data, receives the other
  end's close and returns \<open>Ok\<close>, with its own data neither delivered nor retransmitted any more.
\<close>

theorem half_close_cuts:
  "\<exists>n. net_reachable toy_prims demo_init n \<and> ep_done (n LeftEnd) = Some (Inr ())
    \<and> concat (ep_chunks (n LeftEnd)) = [1, 2, 3] \<and> br_written (ep_bridge (n RightEnd)) = []
    \<and> br_shut (ep_bridge (n LeftEnd))"
proof (intro exI conjI)
  let ?n = "demo_run half_close_actions"
  show "net_reachable toy_prims demo_init ?n" unfolding demo_init_def by (rule net_exec_init)
  show "ep_done (?n LeftEnd) = Some (Inr ())" "concat (ep_chunks (?n LeftEnd)) = [1, 2, 3]"
    "br_written (ep_bridge (?n RightEnd)) = []" "br_shut (ep_bridge (?n LeftEnd))"
    by (simp_all add: half_close_actions_def demo_init_def demo_defs step_defs)
qed

end
