(* ===== verification/BridgeProps.thy ===== *)
theory BridgeProps
  imports NetworkProps
begin

text \<open>
  Properties of one bridge against an arbitrary, possibly hostile peer: its buffers are bounded, a
  packet is sent at most twenty times, a silent peer is given up, and what each way of ending the
  loop leaves behind.
\<close>

section \<open>Bounded buffers and retries\<close>

definition attempts_ok :: "nat \<Rightarrow> bool" where
  "attempts_ok n = (1 \<le> n \<and> n \<le> max_retransmit_attempts)"

definition bridge_bounded :: "bridge \<Rightarrow> bool" where
  "bridge_bounded b =
     (length (as_pending b) \<le> max_window_size
      \<and> (\<forall>p\<in>set (as_pending b). attempts_ok (pd_attempts p))
      \<and> (\<forall>c. br_pending_close b = Some c \<longrightarrow> attempts_ok (pc_attempts c))
      \<and> length (br_inbound b) \<le> max_reorder_buffer
      \<and> br_registered b)"

fun bounded_post :: "bridge_outcome \<Rightarrow> bool" where
  "bounded_post (Continue b) = bridge_bounded b"
| "bounded_post (Break r b) = br_registered b"
| "bounded_post (Early e b) = br_registered b"

lemma bridge_bounded_registered: "bridge_bounded b \<Longrightarrow> br_registered b"
  by (simp add: bridge_bounded_def)

lemma bounded_frame [simp]:
  "bridge_bounded (report io b) = bridge_bounded b"
  "bridge_bounded (b\<lparr>br_outbox := x\<rparr>) = bridge_bounded b"
  "bridge_bounded (b\<lparr>br_last_peer := t\<rparr>) = bridge_bounded b"
  "bridge_bounded (b\<lparr>br_local_read_closed := cl\<rparr>) = bridge_bounded b"
  "bridge_bounded (b\<lparr>br_shut := s\<rparr>) = bridge_bounded b"
  "bridge_bounded (b\<lparr>br_ka_ack := k\<rparr>) = bridge_bounded b"
  "bridge_bounded (b\<lparr>br_ka_nonce := n1, br_ka_sent := n2, br_last_ka := n3\<rparr>) = bridge_bounded b"
  "bridge_bounded (b\<lparr>br_receiver := rv, br_written := w\<rparr>) = bridge_bounded b"
  "bridge_bounded (after_retransmit d c b) = bridge_bounded b"
  by (simp_all add: bridge_bounded_def after_retransmit_def)

lemma conn_send_bounded: "conn_send io e b = (r, b') \<Longrightarrow> bridge_bounded b' = bridge_bounded b"
  by (auto simp: conn_send_def split: if_splits)

lemma send_pending_data_attempts:
  assumes "send_pending_data io p b = (p', r, b')" "pd_attempts p \<le> max_retransmit_attempts"
  shows "bridge_bounded b' = bridge_bounded b" "br_registered b' = br_registered b"
    "as_pending b' = as_pending b" "r = Inr u \<Longrightarrow> attempts_ok (pd_attempts p')"
proof -
  have w: "wrap_add32 (pd_attempts p) 1 = Suc (pd_attempts p)"
    using assms(2) by (simp add: wrap_add32_def max_retransmit_attempts_def)
  show "bridge_bounded b' = bridge_bounded b" "br_registered b' = br_registered b"
    "as_pending b' = as_pending b" "r = Inr u \<Longrightarrow> attempts_ok (pd_attempts p')"
    using assms(1) w
    by (auto simp: send_pending_data_def conn_send_def attempts_ok_def Let_def split: if_splits)
qed

lemma send_pending_close_attempts:
  assumes "send_pending_close io p b = (p', r, b')" "pc_attempts p \<le> max_retransmit_attempts"
  shows "bridge_bounded b' = bridge_bounded b" "br_registered b' = br_registered b"
    "r = Inr u \<Longrightarrow> attempts_ok (pc_attempts p')"
proof -
  have w: "wrap_add32 (pc_attempts p) 1 = Suc (pc_attempts p)"
    using assms(2) by (simp add: wrap_add32_def max_retransmit_attempts_def)
  show "bridge_bounded b' = bridge_bounded b" "br_registered b' = br_registered b"
    "r = Inr u \<Longrightarrow> attempts_ok (pc_attempts p')"
    using assms(1) w
    by (auto simp: send_pending_close_def conn_send_def attempts_ok_def Let_def split: if_splits)
qed

lemma set_update_first: "set (update_first P (\<lambda>_. y) xs) \<subseteq> insert y (set xs)"
  by (induction xs) auto

lemma length_update_first [simp]: "length (update_first P f xs) = length xs"
  by (induction xs) auto

lemma resend_pending_bounded:
  assumes "bridge_bounded b" "resend_pending io s b = (f, r, b')"
  shows "br_registered b'" "r = Inr u \<Longrightarrow> bridge_bounded b'"
proof -
  have "br_registered b' \<and> (r = Inr u \<longrightarrow> bridge_bounded b')"
  proof (cases "List.find (\<lambda>p. pd_sequence p = s) (as_pending b)")
    case None
    then show ?thesis using assms by (simp add: resend_pending_def bridge_bounded_def)
  next
    case (Some p)
    then have p: "pd_attempts p \<le> max_retransmit_attempts"
      using assms(1) find_Some_set [OF Some] by (auto simp: bridge_bounded_def attempts_ok_def)
    obtain p' r' b1 where sp: "send_pending_data io p b = (p', r', b1)"
      by (cases "send_pending_data io p b") auto
    note a = send_pending_data_attempts [OF sp p]
    have b': "r = r'" "b' = b1\<lparr>as_pending := update_first (\<lambda>q. pd_sequence q = s) (\<lambda>_. p') (as_pending b1)\<rparr>"
      using assms(2) Some sp by (simp_all add: resend_pending_def)
    have "bridge_bounded b'" if "r = Inr u"
      using a assms(1) that set_update_first [of "\<lambda>q. pd_sequence q = s" p' "as_pending b1"]
      unfolding b' bridge_bounded_def by auto
    then show ?thesis using a(2) assms(1) by (auto simp: b' bridge_bounded_def)
  qed
  then show "br_registered b'" "r = Inr u \<Longrightarrow> bridge_bounded b'" by simp_all
qed

lemma maybe_start_close_bounded:
  assumes "bridge_bounded b" "maybe_start_close io b = (r, b')"
  shows "br_registered b'" "r = Inr u \<Longrightarrow> bridge_bounded b'"
proof -
  let ?c = "\<lparr>pc_final_sequence = br_next_out b, pc_reason = Some ''local tcp stream closed'',
    pc_attempts = 0, pc_last_sent_at = io_now io\<rparr>"
  obtain c' r' b1 where sp: "send_pending_close io ?c b = (c', r', b1)"
    by (cases "send_pending_close io ?c b") auto
  note a = send_pending_close_attempts [OF sp]
  have b1: "bridge_bounded b1" "br_registered b1"
    using a(1,2) assms(1) by (auto simp: bridge_bounded_def)
  have at: "r' = Inr v \<Longrightarrow> attempts_ok (pc_attempts c')" for v using a(3) by simp
  have "br_registered b' \<and> (r = Inr u \<longrightarrow> bridge_bounded b')"
  proof (cases "br_pending_close b \<noteq> None \<or> as_pending b \<noteq> [] \<or> \<not> br_local_read_closed b")
    case True
    then have "maybe_start_close io b = (Inr (), b)"
      unfolding maybe_start_close_def by (rule if_P)
    then have "b' = b" using assms(2) by simp
    then show ?thesis using assms(1) by (simp add: bridge_bounded_registered)
  next
    case False
    then have m: "(r, b') = (case r' of Inl e \<Rightarrow> (Inl e, b1)
        | Inr _ \<Rightarrow> (Inr (), b1\<lparr>br_pending_close := Some c'\<rparr>))"
      using assms(2) sp by (simp only: maybe_start_close_def if_False Let_def prod.case)
    show ?thesis
    proof (cases r')
      case (Inl e)
      then show ?thesis using m b1 by simp
    next
      case (Inr v)
      then have "b' = b1\<lparr>br_pending_close := Some c'\<rparr>" using m by simp
      then show ?thesis using b1 at [OF Inr] by (simp add: bridge_bounded_def)
    qed
  qed
  then show "br_registered b'" "r = Inr u \<Longrightarrow> bridge_bounded b'" by simp_all
qed

lemma local_data_bounded:
  assumes "bridge_bounded b" "local_read_enabled b"
  shows "bounded_post (on_local_data P io bytes b)"
proof -
  obtain r s' where e: "encrypt_to_base64 P (br_sender b) bytes = (r, s')"
    by (cases "encrypt_to_base64 P (br_sender b) bytes") auto
  have room: "length (as_pending b) < max_window_size"
    using assms(2) send_window_bounds(2) [of "as_congestion b"] by (simp add: local_read_enabled_def)
  show ?thesis
  proof (cases r)
    case (Inl err)
    then show ?thesis using assms(1) by (simp add: on_local_data_def e bridge_bounded_def)
  next
    case (Inr ct)
    let ?d = "\<lparr>pd_sequence = br_next_out b, pd_data_base64 = ct, pd_attempts = 0, pd_last_sent_at = io_now io\<rparr>"
    let ?b = "b\<lparr>br_sender := s', br_next_out := wrap_add64 (br_next_out b) 1\<rparr>"
    obtain d' r' b1 where sp: "send_pending_data io ?d ?b = (d', r', b1)"
      by (cases "send_pending_data io ?d ?b") auto
    note a = send_pending_data_attempts [OF sp]
    have "bridge_bounded ?b" using assms(1) by (simp add: bridge_bounded_def)
    then have b1: "bridge_bounded b1" "as_pending b1 = as_pending b" using a(1,3) by simp_all
    have on: "on_local_data P io bytes b = try_then (r', b1) (\<lambda>b. Continue (report io (b\<lparr>as_pending := as_pending b @ [d']\<rparr>)))"
      using sp by (simp add: on_local_data_def e Inr)
    show ?thesis
    proof (cases r')
      case (Inl err)
      then show ?thesis using b1 by (simp add: on bridge_bounded_def)
    next
      case (Inr u)
      then have "attempts_ok (pd_attempts d')" using a(4) by simp
      then show ?thesis using b1 room Inr by (auto simp: on bridge_bounded_def)
    qed
  qed
qed

lemma retransmit_bounded:
  assumes "bridge_bounded b"
  shows "bounded_post (on_retransmit_tick io b)"
proof -
  obtain f1 r1 b1 where d: "retransmit_data io b = (f1, r1, b1)" by (cases "retransmit_data io b") auto
  have b1: "br_registered b1" "r1 = Inr () \<Longrightarrow> bridge_bounded b1"
    using d assms resend_pending_bounded [OF assms]
    by (auto simp: retransmit_data_def bridge_bounded_registered split: option.splits)
  obtain f2 r2 b2 where cl: "retransmit_close io b1 = (f2, r2, b2)" by (cases "retransmit_close io b1") auto
  have b2: "br_registered b2 \<and> (r2 = Inr () \<longrightarrow> bridge_bounded b2)" if "r1 = Inr ()"
  proof (cases "br_pending_close b1")
    case None
    then show ?thesis using cl b1 that by (simp add: retransmit_close_def bridge_bounded_registered)
  next
    case (Some c)
    then have c: "pc_attempts c \<le> max_retransmit_attempts"
      using b1(2) [OF that] by (simp add: bridge_bounded_def attempts_ok_def)
    obtain c' r' b3 where sp: "send_pending_close io c b1 = (c', r', b3)"
      by (cases "send_pending_close io c b1") auto
    from send_pending_close_attempts [OF sp c] b1(1) b1(2) [OF that] cl Some sp show ?thesis
      by (auto simp: retransmit_close_def bridge_bounded_def split: if_splits)
  qed
  show ?thesis
    using b1 b2 by (cases r1; cases r2) (auto simp: on_retransmit_tick_def d cl)
qed

lemma handle_ack_bounded:
  assumes "bridge_bounded b"
  shows "bridge_bounded (fst (handle_ack t n rs b))"
proof -
  have drain: "set (fst (drain_acked now n ps s a)) \<subseteq> set ps
      \<and> length (fst (drain_acked now n ps s a)) \<le> length ps" for now ps s a
    by (induction ps arbitrary: s a) (auto simp: le_SucI)
  let ?ps1 = "fst (drain_acked t n (as_pending b) None 0)"
  let ?sb = "ack_scoreboard n rs (as_scoreboard b)"
  have "as_pending (fst (handle_ack t n rs b)) = filter (\<lambda>p. \<not> selective_hit n ?sb p) ?ps1"
    unfolding drain_selective_pending [of t n ?sb ?ps1 "fst (snd (drain_acked t n (as_pending b) None 0))", symmetric]
    by (simp add: handle_ack_def ack_scoreboard_def Let_def ack_duplicates_frame case_prod_unfold
        ack_progress_frame)
  moreover have "br_registered (fst (handle_ack t n rs b)) = br_registered b"
    by (auto simp: handle_ack_def case_prod_unfold Let_def ack_duplicates_def fast_retransmit_def
        ack_progress_def split: option.splits)
  moreover have "length (filter (\<lambda>p. \<not> selective_hit n ?sb p) ?ps1) \<le> max_window_size"
  proof -
    have "length ?ps1 \<le> max_window_size"
      using drain [of t "as_pending b" None 0] assms by (simp add: bridge_bounded_def)
    with length_filter_le show ?thesis by (rule order.trans)
  qed
  ultimately show ?thesis
    using assms drain [of t "as_pending b" None 0] unfolding bridge_bounded_def by auto
qed

lemma channel_ack_bounded:
  assumes "bridge_bounded b"
  shows "bounded_post (on_channel_ack io n rs b)"
proof -
  obtain b1 q where h: "handle_ack (io_now io) n rs b = (b1, q)"
    by (cases "handle_ack (io_now io) n rs b") auto
  have b1: "bridge_bounded b1" using handle_ack_bounded [OF assms, of "io_now io" n rs] by (simp add: h)
  obtain f r b2 where rs: "(case q of Some s \<Rightarrow> resend_pending io s b1 | None \<Rightarrow> (False, Inr (), b1)) = (f, r, b2)"
    by (cases "case q of Some s \<Rightarrow> resend_pending io s b1 | None \<Rightarrow> (False, Inr (), b1)") auto
  have b2: "br_registered b2" "r = Inr () \<Longrightarrow> bridge_bounded b2"
    using rs b1 resend_pending_bounded [OF b1] by (cases q; auto simp: bridge_bounded_registered)+
  obtain r' b3 where m: "maybe_start_close io b2 = (r', b3)" by (cases "maybe_start_close io b2") auto
  show ?thesis
    using b2 maybe_start_close_bounded [OF _ m]
    by (cases r; cases r') (auto simp: on_channel_ack_def h rs m Let_def)
qed

lemma length_bt_insert: "length (bt_insert k v m) \<le> Suc (length m)"
  by (induction k v m rule: bt_insert.induct) auto

lemma drain_ready_length: "length (snd (snd (drain_ready e m))) \<le> length m"
proof (induction e m rule: drain_ready.induct)
  case (1 e m)
  show ?case
  proof (cases "bt_get m e")
    case None
    then show ?thesis by (subst drain_ready.simps) simp
  next
    case (Some p)
    have "length (snd (snd (drain_ready e m))) = length (snd (snd (drain_ready (wrap_add64 e 1) (bt_remove e m))))"
      using Some by (subst drain_ready.simps) (simp add: case_prod_unfold Let_def)
    also have "\<dots> \<le> length (bt_remove e m)" using "1.IH" [OF Some] .
    also have "\<dots> \<le> length m" by (rule length_bt_remove)
    finally show ?thesis .
  qed
qed

lemma queue_inbound_length:
  assumes "length m \<le> max_reorder_buffer"
  shows "length (snd (snd (queue_inbound e m s d))) \<le> max_reorder_buffer"
proof -
  have "length (bt_or_insert s d m) \<le> max_reorder_buffer"
    if "\<not> (max_reorder_buffer \<le> length m \<and> \<not> bt_contains m s)"
    using that assms length_bt_insert [of s d m] by (auto simp: bt_or_insert_def)
  then show ?thesis
    using assms drain_ready_length [of "wrap_add64 e 1" m]
    by (auto simp: queue_inbound_def Let_def case_prod_unfold)
qed

lemma channel_data_bounded:
  assumes "bridge_bounded b"
  shows "bounded_post (on_channel_data P io s dat b)"
proof -
  obtain ready e' m' where q: "queue_inbound (br_expected b) (br_inbound b) s dat = (ready, e', m')"
    by (cases "queue_inbound (br_expected b) (br_inbound b) s dat") auto
  let ?b1 = "b\<lparr>br_expected := e', br_inbound := m'\<rparr>"
  have "length m' \<le> max_reorder_buffer"
    using queue_inbound_length [of "br_inbound b" "br_expected b" s dat] assms
    by (simp add: q bridge_bounded_def)
  then have b1: "bridge_bounded ?b1" using assms by (simp add: bridge_bounded_def)
  obtain r b2 where d: "deliver_payloads P io 0 ready ?b1 = (r, b2)"
    by (cases "deliver_payloads P io 0 ready ?b1") auto
  have b2: "bridge_bounded b2" using deliver_payloads_frame [OF d] b1 by auto
  obtain r' b3 where sa: "send_ack io b2 = (r', b3)" by (cases "send_ack io b2") auto
  then have "bridge_bounded b3" using b2 by (simp add: send_ack_def conn_send_bounded)
  with b2 show ?thesis
    by (cases r; cases r') (simp_all add: on_channel_data_def q d sa bridge_bounded_registered)
qed

lemma bridge_step_post:
  assumes "bridge_bounded b" "enabled ev b"
  shows "bounded_post (bridge_step P io ev b)"
proof -
  have reg: "br_registered b" using assms(1) by (rule bridge_bounded_registered)
  show ?thesis
  proof (cases ev)
    case (LocalRead rd)
    have eof: "bounded_post (on_local_eof io b)"
    proof -
      obtain r b' where m: "maybe_start_close io (b\<lparr>br_local_read_closed := True\<rparr>) = (r, b')"
        by (cases "maybe_start_close io (b\<lparr>br_local_read_closed := True\<rparr>)") auto
      show ?thesis
        using maybe_start_close_bounded [OF _ m] assms(1) by (cases r) (simp_all add: on_local_eof_def m)
    qed
    show ?thesis
      using assms reg eof local_data_bounded [OF assms(1)]
      by (auto simp: LocalRead on_local_read_def split: option.splits)
  next
    case RetransmitTick
    then show ?thesis using retransmit_bounded [OF assms(1)] by simp
  next
    case HousekeepingTick
    then show ?thesis
      using assms(1) reg
      by (auto simp: on_housekeeping_tick_def Let_def send_keepalive_def conn_send_def)
  next
    case (FromPeer x)
    show ?thesis
    proof (cases x)
      case None
      then show ?thesis using reg by (simp add: FromPeer on_envelope_def)
    next
      case (Some e)
      let ?b = "b\<lparr>br_last_peer := io_now io\<rparr>"
      have b: "bridge_bounded ?b" using assms(1) by simp
      have sh: "bounded_post (shutdown_then io r b')" if "br_registered b'" for r b'
        using that by (simp add: shutdown_then_def)
      have "bounded_post (dispatch_envelope P io e ?b)"
        using channel_data_bounded [OF b] channel_ack_bounded [OF b] b reg sh
        by (cases e) (auto simp: on_channel_close_def on_channel_close_ack_def on_rejected_def
            send_keepalive_ack_def send_ack_def send_close_ack_def conn_send_def split: option.splits)
      then show ?thesis by (simp add: FromPeer Some on_envelope_def)
    qed
  qed
qed

text \<open>
  C39. Against any peer, however it behaves, a bridge never holds more than 32 unacknowledged packets
  or 64 packets out of order, never sends a packet or a close more than 20 times, and stays
  registered with its connection while its loop runs.
\<close>

theorem bridge_step_bounded:
  assumes "bridge_bounded b" "enabled ev b"
  shows "case bridge_step P io ev b of
      Continue b' \<Rightarrow> bridge_bounded b' | Break r b' \<Rightarrow> br_registered b' | Early e b' \<Rightarrow> br_registered b'"
  using bridge_step_post [OF assms, of P io] by (cases "bridge_step P io ev b") simp_all

theorem bridge_step_bounded_witness:
  "case bridge_step toy_prims demo_io (FromPeer (Some (DT_ChannelData ''r'' ''c'' 7 ''x'')))
      (ep_bridge (demo_init LeftEnd)) of
      Continue b' \<Rightarrow> bridge_bounded b' | Break r b' \<Rightarrow> br_registered b' | Early e b' \<Rightarrow> br_registered b'"
proof (rule bridge_step_bounded)
  show "bridge_bounded (ep_bridge (demo_init LeftEnd))"
    by (simp add: demo_init_def net_init_def demo_defs bridge_bounded_def)
qed simp

section \<open>How a bridge ends\<close>

text \<open>
  A bridge whose peer has been silent for 35 seconds ends with an error at the next housekeeping
  tick; before that, an idle bridge that has never sent a keepalive sends one once the peer has been
  silent for 10 seconds.
\<close>

theorem idle_peer_handled:
  assumes "br_pending_close b = None" "as_pending b = []" "br_last_ka b = None" "io_up io"
  shows "(duration_from_secs 35 \<le> io_now io - br_last_peer b \<longrightarrow>
      bridge_step P io HousekeepingTick b = Break (Inl (idle_message (br_channel_id b))) b)
    \<and> (duration_from_secs 10 \<le> io_now io - br_last_peer b
        \<and> io_now io - br_last_peer b < duration_from_secs 35 \<longrightarrow>
      (\<exists>b'. bridge_step P io HousekeepingTick b = Continue b'
        \<and> br_outbox b' = br_outbox b @
            [DT_ChannelKeepalive (br_rendezvous_id b) (br_channel_id b) (br_ka_nonce b)]
        \<and> br_last_ka b' = Some (io_now io)))"
  using assms
  by (simp add: on_housekeeping_tick_def peer_idle_timed_out_def peer_idle_timeout_def
      should_send_keepalive_def keepalive_idle_after_def send_keepalive_def conn_send_def Let_def not_le)

definition idle_io :: "nat \<Rightarrow> io" where
  "idle_io secs = \<lparr>io_now = duration_from_secs secs, io_up = True, io_write_fail = None, io_shutdown_ok = True\<rparr>"

theorem idle_peer_handled_witness:
  "bridge_step toy_prims (idle_io 35) HousekeepingTick (ep_bridge (demo_init LeftEnd))
     = Break (Inl (idle_message ''c'')) (ep_bridge (demo_init LeftEnd))"
  using idle_peer_handled [of "ep_bridge (demo_init LeftEnd)" "idle_io 35" toy_prims]
  by (simp add: demo_init_def net_init_def demo_defs idle_io_def duration_from_secs_def)

text \<open>
  What is left behind: a loop that ends by \<open>break\<close> unregisters the channel from its connection
  and clears the reported metrics, while every error returned early through \<open>?\<close> (a failed send,
  decryption, read or write) leaves the channel's route registered and the metrics in place.
\<close>

theorem early_return_leaks_route:
  assumes "bridge_bounded b" "enabled ev b" "bridge_result (bridge_step P io ev b) = Some (r, b')"
  shows "br_registered b' \<longleftrightarrow> (\<exists>e s. bridge_step P io ev b = Early e s)"
  using bridge_step_post [OF assms(1,2), of P io] assms(3)
  by (cases "bridge_step P io ev b") (auto simp: bridge_exit_def)

theorem early_return_leaks_route_witness:
  "\<exists>b'. bridge_result (bridge_step toy_prims demo_io (FromPeer (Some (DT_ChannelData ''r'' ''c'' 0 ''x'')))
      (ep_bridge (demo_init LeftEnd)))
      = Some (Inl ''failed to decrypt direct payload: relay decryption failed'', b') \<and> br_registered b'"
proof -
  let ?b = "ep_bridge (demo_init LeftEnd)"
  let ?ev = "FromPeer (Some (DT_ChannelData ''r'' ''c'' 0 ''x''))"
  have "bridge_bounded ?b"
    by (simp add: demo_init_def net_init_def demo_defs bridge_bounded_def)
  moreover have "\<exists>s. bridge_step toy_prims demo_io ?ev ?b
      = Early ''failed to decrypt direct payload: relay decryption failed'' s"
    by (simp add: demo_init_def net_init_def demo_defs step_defs receive_defs)
  ultimately show ?thesis
    using early_return_leaks_route [of ?b ?ev toy_prims demo_io] by auto
qed

end
