(* ===== verification/DirectProps.thy ===== *)
theory DirectProps
  imports AckHandling Crypto
begin

text \<open>
  What the building blocks of the direct transport promise: the selective-acknowledgement
  scoreboard, the reorder buffer, the retransmission queue, congestion and retransmission control,
  and the encrypted stream.
\<close>

section \<open>Acknowledgements\<close>

text \<open>
  C37. The scoreboard is a set of sequence numbers: observing ranges adds exactly their members and
  returns how many were new, advancing the cumulative acknowledgement removes exactly the members
  below it, and membership, the highest member and the number of members are those of the set.
  The ranges stay disjoint, not adjacent and in order throughout.
\<close>

theorem scoreboard_is_set:
  assumes "sb_wf sb" "ranges_u64 incoming"
  shows "sb_wf (fst (observe_ranges sb incoming))
    \<and> covers (fst (observe_ranges sb incoming)) = covers sb \<union> covers incoming
    \<and> snd (observe_ranges sb incoming) = min (card (covers incoming - covers sb)) usize_max
    \<and> sb_wf (advance_cumulative_ack sb n)
    \<and> covers (advance_cumulative_ack sb n) = {s \<in> covers sb. n \<le> s}
    \<and> (sb_contains sb s \<longleftrightarrow> s \<in> covers sb)
    \<and> highest_sequence sb = (if covers sb = {} then None else Some (Max (covers sb)))
    \<and> covered_sequence_count sb = card (covers sb)"
  using observe_ranges_covers [OF assms] observe_ranges_count [OF assms] advance_wf [OF assms(1)]
  by (simp add: covers_advance sb_contains_iff highest_sequence_Max [OF assms(1)]
      covered_sequence_count_card [OF assms(1)])

theorem scoreboard_is_set_witness:
  "covers (fst (observe_ranges [mk_range 3 4] [mk_range 9 9, mk_range 5 6])) = {3..4} \<union> ({9..9} \<union> {5..6})"
  using scoreboard_is_set [of "[mk_range 3 4]" "[mk_range 9 9, mk_range 5 6]"]
  by (simp add: sb_wf_Cons range_valid_def ranges_u64_def u64_max_def)

text \<open>Five packets in flight.\<close>

definition demo_ack :: ack_state where
  "demo_ack = \<lparr>as_pending = map (\<lambda>k. \<lparr>pd_sequence = k, pd_data_base64 = [], pd_attempts = 1, pd_last_sent_at = 0\<rparr>) [0..<5],
     as_congestion = congestion_default, as_rto = initial_rto, as_srtt = None, as_rttvar = None,
     as_tracker = ack_tracker_default, as_scoreboard = []\<rparr>"

text \<open>
  An acknowledgement removes from the retransmission queue exactly the packets below its
  cumulative number and those the scoreboard now covers, keeps the order of the others, and what it
  asks to be sent again is still in the queue.
\<close>

theorem ack_clears_queue:
  assumes "ack_state_ok st" "ranges_u64 ranges"
  shows "as_pending (fst (handle_ack now n ranges st))
      = filter (\<lambda>p. n \<le> pd_sequence p
          \<and> pd_sequence p \<notin> {s \<in> covers (as_scoreboard st). n \<le> s} \<union> covers ranges) (as_pending st)
    \<and> ack_state_ok (fst (handle_ack now n ranges st))
    \<and> (\<forall>q. snd (handle_ack now n ranges st) = Some q
        \<longrightarrow> (\<exists>p\<in>set (as_pending (fst (handle_ack now n ranges st))). pd_sequence p = q))"
proof -
  have ok: "pending_sorted (as_pending st)" "sb_wf (as_scoreboard st)" using assms(1) by (simp_all add: ack_state_ok_def)
  have "still_pending n (ack_scoreboard n ranges (as_scoreboard st)) = (\<lambda>p. n \<le> pd_sequence p
      \<and> pd_sequence p \<notin> {s \<in> covers (as_scoreboard st). n \<le> s} \<union> covers ranges)"
    using ack_scoreboard_covers(2) [OF ok(2) assms(2)] by (simp add: still_pending_def fun_eq_iff)
  moreover have "\<exists>p\<in>set (as_pending (fst (handle_ack now n ranges st))). pd_sequence p = q"
    if "snd (handle_ack now n ranges st) = Some q" for q
    using handle_ack_retransmit_pending [OF that] by (auto simp: pending_seqs_def)
  ultimately show ?thesis
    using handle_ack_pending [OF ok(1)] handle_ack_ok [OF assms] by simp
qed

theorem ack_clears_queue_witness:
  "map pd_sequence (as_pending (fst (handle_ack 9 2 [mk_range 3 3] demo_ack))) = [2, 4]"
proof -
  have "ack_state_ok demo_ack" "ranges_u64 [mk_range 3 3]"
    by (simp_all add: demo_ack_def ack_state_ok_def pending_sorted_def congestion_default_ok initial_rto_ok
        rtt_state_ok_def ack_tracker_default_def ranges_u64_def u64_max_def upt_conv_Cons)
  from ack_clears_queue [OF this, of 9 2] show ?thesis
    by (simp add: demo_ack_def upt_conv_Cons)
qed

text \<open>
  When the retransmission timer fires something is sent again if and only if some packet has
  been unacknowledged for the timeout, and then it is such a packet.
\<close>

theorem timeout_selects_expired:
  "(case select_loss_recovery ps sb (Trigger_Timeout now rto) of
      None \<Rightarrow> \<forall>p\<in>set ps. now - pd_last_sent_at p < rto
    | Some s \<Rightarrow> \<exists>p\<in>set ps. pd_sequence p = s \<and> rto \<le> now - pd_last_sent_at p)"
  using select_timeout_complete [of ps sb now rto] select_timeout_sound [of ps sb now rto]
  by (auto simp: timed_out_def not_le split: option.split)

theorem timeout_selects_expired_witness:
  "select_loss_recovery (as_pending demo_ack) [] (Trigger_Timeout 5 10) = None"
  using timeout_selects_expired [where now = 5 and rto = 10 and ps = "as_pending demo_ack" and sb = "[]"]
  by (auto simp: demo_ack_def split: option.splits)

section \<open>The reorder buffer\<close>

text \<open>
  C38. The receiver hands out the payloads of consecutive sequence numbers, each once and in order,
  up to the first number still missing; it remembers exactly the packets that arrived at most 64
  ahead of the number it expects, whatever order they come in, and never holds more than 64.
\<close>

theorem reorder_in_order:
  assumes "reorder_ok e m" "payloads_are ct m" "data = ct s" "e + 2 * max_reorder_buffer < u64_max"
    "queue_inbound e m s data = (ps, e', m')"
  shows "ps = map ct [e..<e'] \<and> e \<le> e' \<and> reorder_ok e' m' \<and> payloads_are ct m'
    \<and> received e' m' = (if s \<le> e + max_reorder_buffer then insert s (received e m) else received e m)
    \<and> e' \<notin> received e' m' \<and> length m' \<le> max_reorder_buffer"
proof -
  note q = queue_inbound_correct [OF assms]
  have "card (keys m') \<le> card {Suc e'..e' + max_reorder_buffer}"
    using q(1) by (intro card_mono) (auto simp: reorder_ok_def)
  then have "length m' \<le> max_reorder_buffer" using q(1) by (simp add: reorder_ok_def card_keys)
  with q show ?thesis by (simp add: window_accepts_def)
qed

theorem reorder_in_order_witness:
  "fst (queue_inbound 3 [(4, ''b''), (6, ''d'')] 3 ''a'') = [''a'', ''b'']"
proof -
  let ?ct = "\<lambda>k. if k = 3 then ''a'' else if k = 4 then ''b'' else ''d'' :: string"
  obtain ps e' m' where q: "queue_inbound 3 [(4, ''b''), (6, ''d'')] 3 ''a'' = (ps, e', m')"
    by (cases "queue_inbound 3 [(4, ''b''), (6, ''d'')] 3 ''a''") auto
  have ok: "reorder_ok 3 [(4, ''b''), (6, ''d'')]" "payloads_are ?ct [(4, ''b''), (6, ''d'')]"
    by (simp_all add: reorder_ok_def bt_ok_def keys_def max_reorder_buffer_def payloads_are_def)
  have "''a'' = ?ct 3" by simp
  moreover have "3 + 2 * max_reorder_buffer < u64_max" by (simp add: max_reorder_buffer_def u64_max_def)
  ultimately have r: "ps = map ?ct [3..<e']" "3 \<le> e'" "e' \<notin> received e' m'"
    "received e' m' = (if 3 \<le> 3 + max_reorder_buffer then insert 3 (received 3 [(4, ''b''), (6, ''d'')])
       else received 3 [(4, ''b''), (6, ''d'')])"
    using reorder_in_order [OF ok _ _ q] by blast+
  have "insert 3 (received 3 [(4, ''b''), (6, ''d'')]) = {0, 1, 2, 3, 4, 6 :: nat}"
    by (auto simp: received_def keys_def)
  with r(4) have set: "received e' m' = {0, 1, 2, 3, 4, 6}" by simp
  have "5 < e' \<Longrightarrow> 5 \<in> received e' m'" by (simp add: received_def)
  then have "\<not> 5 < e'" by (auto simp: set)
  moreover have "e' \<noteq> 3" "e' \<noteq> 4" using r(3) by (auto simp: set)
  ultimately have "e' = 5" using r(2) by linarith
  with r(1) q show ?thesis by (simp add: upt_conv_Cons)
qed

text \<open>
  A selective acknowledgement names at most eight ranges, all of packets that are really
  buffered; what it leaves out lies above everything it names, and it leaves something out only
  when it is full.
\<close>

theorem sack_faithful:
  assumes "reorder_ok e m" "e + max_reorder_buffer \<le> u64_max"
  shows "sb_wf (selective_ack_ranges m) \<and> length (selective_ack_ranges m) \<le> max_selective_acks
    \<and> covers (selective_ack_ranges m) \<subseteq> keys m
    \<and> (\<forall>x\<in>keys m - covers (selective_ack_ranges m).
         length (selective_ack_ranges m) = max_selective_acks \<and> (\<forall>y\<in>covers (selective_ack_ranges m). y < x))"
  using selective_ack_ranges_correct [of m] assms
  by (force simp: sack_spec_def reorder_ok_def)

theorem sack_faithful_witness:
  "covers (selective_ack_ranges [(5, ''a''), (6, ''b''), (9, ''c'')]) \<subseteq> keys [(5, ''a''), (6, ''b''), (9, ''c'')]"
proof -
  have "reorder_ok 3 [(5, ''a''), (6, ''b''), (9, ''c'')]"
    by (simp add: reorder_ok_def bt_ok_def keys_def max_reorder_buffer_def)
  from sack_faithful [OF this] show ?thesis by (simp add: max_reorder_buffer_def u64_max_def)
qed

section \<open>Congestion and retransmission control\<close>

text \<open>
  The congestion controller keeps its window and its threshold between 2 and 32 packets,
  whatever acknowledgements and losses it is told of, and the number of packets it allows in flight
  is the window rounded down.
\<close>

theorem congestion_bounds:
  assumes "congestion_ok c"
  shows "congestion_ok (fst (on_ack_progress c n s k)) \<and> congestion_ok (on_duplicate_ack c)
    \<and> congestion_ok (on_fast_retransmit c m q) \<and> congestion_ok (on_timeout c m)
    \<and> congestion_ok congestion_default
    \<and> send_window_size c = nat \<lfloor>cwnd_packets c\<rfloor> \<and> 2 \<le> send_window_size c \<and> send_window_size c \<le> 32"
  using assms send_window_bounds [of c]
  by (simp add: wf_intro send_window_floor min_window_size_def max_window_size_def)

theorem congestion_bounds_witness:
  "2 \<le> send_window_size congestion_default \<and> send_window_size congestion_default \<le> 32"
  using congestion_bounds [OF congestion_default_ok] by blast

text \<open>
  The response to the network, exactly as in Reno: slow start opens the window by one packet per
  acknowledged packet, a fast retransmission sets it to half the packets in flight plus three, a
  timeout closes it to two packets; the threshold is half the packets in flight, between 2 and 32.
\<close>

theorem congestion_response:
  assumes "n \<le> 2 ^ 52"
  shows "cwnd_packets (on_fast_retransmit c n r) = min 32 (max 2 (min 32 (of_nat n / 2)) + 3)
    \<and> ssthresh_packets (on_fast_retransmit c n r) = max 2 (min 32 (of_nat n / 2))
    \<and> send_window_size (on_timeout c n) = min_window_size
    \<and> ssthresh_packets (on_timeout c n) = max 2 (min 32 (of_nat n / 2))
    \<and> (2 \<le> w \<and> w \<le> 32 \<and> cwnd_packets c = of_nat w \<and> cwnd_packets c < ssthresh_packets c
        \<longrightarrow> cwnd_packets (grow_window c n) = of_nat (min (w + n) 32))"
proof -
  have "ssthresh_packets (on_fast_retransmit c n r) = compute_ssthresh n"
    "ssthresh_packets (on_timeout c n) = compute_ssthresh n"
    by (simp_all add: on_fast_retransmit_def on_timeout_def Let_def)
  then show ?thesis
    using assms by (simp add: fast_retransmit_window compute_ssthresh_half timeout_window slow_start_exact)
qed

theorem congestion_response_witness:
  "cwnd_packets (grow_window congestion_default 3) = 7 \<and> cwnd_packets (on_fast_retransmit congestion_default 20 50) = 13"
  using congestion_response [of 3 congestion_default _ 4] congestion_response [of 20 congestion_default 50]
  by (simp add: congestion_default_def)

text \<open>
  The retransmission timeout stays between 120 milliseconds and 2 seconds whatever round-trip
  times are sampled; a loss doubles it up to that cap, which five losses in a row reach from
  anywhere.
\<close>

theorem rto_bounds:
  assumes "min_rto \<le> rto" "rto \<le> max_rto"
  shows "min_rto \<le> snd (snd (update_direct_rto s v sample)) \<and> snd (snd (update_direct_rto s v sample)) \<le> max_rto
    \<and> backoff_rto rto = min (2 * rto) max_rto \<and> min_rto \<le> backoff_rto rto \<and> backoff_rto rto \<le> max_rto
    \<and> (5 \<le> n \<longrightarrow> (backoff_rto ^^ n) rto = max_rto)"
  using assms update_direct_rto_bounds [of s v sample] backoff_rto_ok [of rto] backoff_reaches_cap [of rto n]
  by (simp add: backoff_rto_double rto_ok_def)

theorem rto_bounds_witness: "(backoff_rto ^^ 5) initial_rto = max_rto"
  using rto_bounds [of initial_rto _ _ _ 5] initial_rto_ok by (simp add: rto_ok_def)

section \<open>The encrypted stream\<close>

text \<open>
  The two ends of a channel compute the same key from their own secret and the other's public
  key, and each decrypts the messages the other encrypted, in order, to exactly what was encrypted,
  in both directions.
\<close>

theorem secure_stream_roundtrip:
  assumes "b64_law P" "aead_law P" "dh_law P" "sha_law P"
    "length (rk_secret_bytes a) = 32" "length (rk_secret_bytes b) = 32" "\<forall>m\<in>set ms. length m \<le> 2 ^ 32"
  shows "\<exists>shared. shared_secret_with_public_key P a (keypair_public_key_base64 P b) = Inr shared
    \<and> shared_secret_with_public_key P b (keypair_public_key_base64 P a) = Inr shared
    \<and> fst (decrypt_all P (snd (secure_channel_pair P shared c (peer_role role)))
        (fst (encrypt_all P (fst (secure_channel_pair P shared c role)) ms))) = map Inr ms"
proof -
  from shared_secret_agree [OF assms(1,3,5,6)] obtain s where
    "shared_secret_with_public_key P a (keypair_public_key_base64 P b) = Inr s"
    "shared_secret_with_public_key P b (keypair_public_key_base64 P a) = Inr s" by blast
  moreover have "fst (decrypt_all P (snd (secure_channel_pair P s c (peer_role role)))
      (fst (encrypt_all P (fst (secure_channel_pair P s c role)) ms))) = map Inr ms"
    using decrypt_encrypt_all [OF assms(1,2) secure_channel_pair_ok(1) [OF assms(4)] assms(7)]
    by (simp add: secure_channel_pair_match)
  ultimately show ?thesis by blast
qed

theorem secure_stream_roundtrip_witness:
  "\<exists>shared. fst (decrypt_all toy_prims (snd (secure_channel_pair toy_prims shared ''c'' Responder))
     (fst (encrypt_all toy_prims (fst (secure_channel_pair toy_prims shared ''c'' Initiator)) [[1, 2], [3]])))
   = [Inr [1, 2], Inr [3]]"
  using secure_stream_roundtrip [OF toy_laws(1,2,5,4), of "\<lparr>rk_secret_bytes = replicate 32 1\<rparr>"
      "\<lparr>rk_secret_bytes = replicate 32 2\<rparr>" "[[1, 2], [3]]" "''c''" Initiator]
  by auto

text \<open>
  No nonce is used twice under a channel's key: the nonces of the first \<open>2 ^ 64\<close> messages of both
  directions are pairwise different. The counter then saturates, so the very next message would
  repeat the last nonce.
\<close>

theorem nonces_unique:
  "(k \<le> 2 ^ 64 - 1 \<and> j \<le> 2 ^ 64 - 1 \<longrightarrow> (nth_nonce r k = nth_nonce r' j \<longleftrightarrow> r = r' \<and> k = j))
    \<and> nth_nonce r (2 ^ 64) = nth_nonce r (2 ^ 64 - 1)"
  using nth_nonce_inj nth_nonce_saturates by blast

theorem nonces_unique_witness: "nth_nonce Initiator 0 \<noteq> nth_nonce Responder 0 \<and> nth_nonce Initiator 5 \<noteq> nth_nonce Initiator 6"
  using nonces_unique [of 0 0 Initiator Responder] nonces_unique [of 5 6 Initiator Initiator] by simp

text \<open>
  A message a device signs verifies under its own public key, and the five kinds of signed
  messages never coincide, so a signature made for one purpose is none for another.
\<close>

theorem signatures_separated:
  assumes "b64_law P" "ed_law P" "length (di_signing_key i) = 32"
  shows "verify_signature_base64 P (identity_public_key_base64 P i) m (sign_base64 P i m) = Inr ()
    \<and> distinct [registration_message d1 n1 o1 x1, relay_key_binding_message d2 k2,
        relay_channel_open_message c3 s3 d3 k3, direct_probe_hello_message r4 d4 x4,
        direct_probe_ack_message r5 d5 x5 y5]"
  using sign_verify [OF assms] by (simp add: message_kinds_disjoint)

theorem signatures_separated_witness:
  "verify_signature_base64 toy_prims (identity_public_key_base64 toy_prims \<lparr>di_signing_key = replicate 32 7\<rparr>)
     ''m'' (sign_base64 toy_prims \<lparr>di_signing_key = replicate 32 7\<rparr> ''m'') = Inr ()"
  using signatures_separated [OF toy_laws(1,3)] by simp

end
