(* ===== verification/ServerError.thy ===== *)
theory ServerError
  imports Crypto
begin

text \<open>
  The server's error type (\<open>minipunch-server/src/error.rs\<close>), its HTTP status, and the checked
  64-bit signed arithmetic of timestamps.
\<close>

datatype server_error =
    Unauthorized
  | Forbidden
  | BadRequest string
  | Conflict string
  | NotFound string
  | Internal string

fun server_error_message :: "server_error \<Rightarrow> string" where
  "server_error_message Unauthorized = ''unauthorized''"
| "server_error_message Forbidden = ''forbidden''"
| "server_error_message (BadRequest m) = m"
| "server_error_message (Conflict m) = m"
| "server_error_message (NotFound m) = m"
| "server_error_message (Internal m) = m"

fun server_error_status :: "server_error \<Rightarrow> nat" where
  "server_error_status Unauthorized = 401"
| "server_error_status Forbidden = 403"
| "server_error_status (BadRequest _) = 400"
| "server_error_status (Conflict _) = 409"
| "server_error_status (NotFound _) = 404"
| "server_error_status (Internal _) = 500"

definition error_into_response :: "server_error \<Rightarrow> nat \<times> error_response" where
  "error_into_response e = (server_error_status e, \<lparr>er_error = server_error_message e\<rparr>)"

text \<open>\<open>From<rusqlite::Error>\<close>: the message of the database.\<close>

definition of_sql :: "string + 'a \<Rightarrow> server_error + 'a" where
  "of_sql r = (case r of Inl m \<Rightarrow> Inl (Internal m) | Inr a \<Rightarrow> Inr a)"

text \<open>\<open>map_err(|err| ServerError::BadRequest(err.to_string()))\<close>.\<close>

definition of_crypto :: "crypto_error + 'a \<Rightarrow> server_error + 'a" where
  "of_crypto r = (case r of Inl e \<Rightarrow> Inl (BadRequest (crypto_error_message e)) | Inr a \<Rightarrow> Inr a)"

text \<open>An \<open>i64\<close> operation of a release build wraps.\<close>

definition i64_wrap :: "int \<Rightarrow> int" where
  "i64_wrap x = (x + 2 ^ 63) mod 2 ^ 64 - 2 ^ 63"

definition i64_add :: "int \<Rightarrow> int \<Rightarrow> int" where "i64_add a b = i64_wrap (a + b)"
definition i64_mul :: "int \<Rightarrow> int \<Rightarrow> int" where "i64_mul a b = i64_wrap (a * b)"
definition u64_as_i64 :: "nat \<Rightarrow> int" where "u64_as_i64 n = i64_wrap (int n)"

lemma i64_wrap_id: "- (2 ^ 63) \<le> x \<Longrightarrow> x < 2 ^ 63 \<Longrightarrow> i64_wrap x = x"
  by (simp add: i64_wrap_def)

lemma of_sql_simps [simp]: "of_sql (Inl m) = Inl (Internal m)" "of_sql (Inr a) = Inr a"
  by (simp_all add: of_sql_def)

lemma of_crypto_simps [simp]:
  "of_crypto (Inl e) = Inl (BadRequest (crypto_error_message e))" "of_crypto (Inr a) = Inr a"
  by (simp_all add: of_crypto_def)

lemma of_crypto_Inr_iff: "of_crypto r = Inr a \<longleftrightarrow> r = Inr a"
  by (cases r) simp_all

end
