(* ===== verification/Database.thy ===== *)
theory Database
  imports ServerError "HOL-Library.List_Lexorder" "HOL-Library.Char_ord"
begin

text \<open>
  The server's database (\<open>minipunch-server/src/db.rs\<close>). A table is the list of its rows in
  insertion order; primary keys, \<open>UNIQUE\<close> and foreign keys of the schema are the checks in the
  statement definitions, with SQLite's messages (foreign keys are enforced: the bundled SQLite has
  them on by default). Operations take the clock and the random bytes of a token as arguments.
  What runs under one lock is one definition; an operation that takes the lock twice is the
  composition of two, so that other operations can be interleaved between them. A transaction that
  fails leaves the tables alone.

  The third-party JSON codec of candidate lists is part of \<open>server_prims\<close>. Ties of an
  \<open>ORDER BY\<close> keep insertion order.
\<close>

section \<open>Tables\<close>

record join_token_row =
  jk_token_hash :: string
  jk_note :: "string option"
  jk_expires_at :: int
  jk_used_at :: "int option"
  jk_created_at :: int

record device_row =
  dr_device_id :: string
  dr_device_name :: string
  dr_public_key :: string
  dr_relay_public_key :: "string option"
  dr_relay_public_key_signature :: "string option"
  dr_os :: string
  dr_version :: string
  dr_session_deadline_at :: "int option"
  dr_created_at :: int
  dr_last_seen_at :: int

record session_row =
  se_token_hash :: string
  se_device_id :: string
  se_created_at :: int
  se_expires_at :: int

record service_row =
  sv_service_id :: string
  sv_owner_device_id :: string
  sv_service_name :: string
  sv_protocol :: string
  sv_target_host :: string
  sv_target_port :: int
  sv_created_at :: int
  sv_updated_at :: int

record acl_row =
  al_service_id :: string
  al_source_device_id :: string

record rendezvous_row =
  rv_rendezvous_id :: string
  rv_service_id :: string
  rv_service_name :: string
  rv_source_device_id :: string
  rv_target_device_id :: string
  rv_source_announced_at :: "int option"
  rv_target_announced_at :: "int option"
  rv_source_candidates_json :: string
  rv_target_candidates_json :: string
  rv_created_at :: int
  rv_updated_at :: int
  rv_expires_at :: int

record database =
  db_config :: "(string \<times> string) list"
  db_join_tokens :: "join_token_row list"
  db_devices :: "device_row list"
  db_sessions :: "session_row list"
  db_services :: "service_row list"
  db_acl :: "acl_row list"
  db_attempts :: "rendezvous_row list"

definition db_empty :: database where
  "db_empty = \<lparr>db_config = [], db_join_tokens = [], db_devices = [], db_sessions = [],
     db_services = [], db_acl = [], db_attempts = []\<rparr>"

record server_prims = crypto_prims +
  json_encode :: "direct_connection_candidate list \<Rightarrow> string"
  json_decode :: "string \<Rightarrow> string + direct_connection_candidate list"

text \<open>Decoding the JSON text of a candidate list gives the list back.\<close>

definition json_law :: "'a server_prims_scheme \<Rightarrow> bool" where
  "json_law P = (\<forall>c. json_decode P (json_encode P c) = Inr c)"

definition join_token_default_ttl_minutes :: int where "join_token_default_ttl_minutes = 10"
definition legacy_session_ttl_seconds :: int where "legacy_session_ttl_seconds = 24 * 60 * 60"
definition online_window_seconds :: int where "online_window_seconds = 90"
definition direct_rendezvous_ttl_seconds :: int where "direct_rendezvous_ttl_seconds = 45"

abbreviation admin_key :: string where "admin_key \<equiv> ''admin_token_hash''"

section \<open>Statements\<close>

definition fk_failed :: string where "fk_failed = ''FOREIGN KEY constraint failed''"

definition unique_failed :: "string \<Rightarrow> string" where
  "unique_failed cols = ''UNIQUE constraint failed: '' @ cols"

definition has_device :: "database \<Rightarrow> string \<Rightarrow> bool" where
  "has_device db d = list_ex (\<lambda>r. dr_device_id r = d) (db_devices db)"

definition has_service :: "database \<Rightarrow> string \<Rightarrow> bool" where
  "has_service db s = list_ex (\<lambda>r. sv_service_id r = s) (db_services db)"

definition insert_config :: "string \<Rightarrow> string \<Rightarrow> database \<Rightarrow> string + database" where
  "insert_config k v db =
     (if list_ex (\<lambda>(j, _). j = k) (db_config db) then Inl (unique_failed ''server_config.key'')
      else Inr (db\<lparr>db_config := db_config db @ [(k, v)]\<rparr>))"

definition insert_join_token :: "join_token_row \<Rightarrow> database \<Rightarrow> string + database" where
  "insert_join_token r db =
     (if list_ex (\<lambda>x. jk_token_hash x = jk_token_hash r) (db_join_tokens db)
      then Inl (unique_failed ''join_tokens.token_hash'')
      else Inr (db\<lparr>db_join_tokens := db_join_tokens db @ [r]\<rparr>))"

definition insert_device :: "device_row \<Rightarrow> database \<Rightarrow> string + database" where
  "insert_device r db =
     (if has_device db (dr_device_id r) then Inl (unique_failed ''devices.device_id'')
      else if list_ex (\<lambda>x. dr_public_key x = dr_public_key r) (db_devices db)
      then Inl (unique_failed ''devices.public_key'')
      else Inr (db\<lparr>db_devices := db_devices db @ [r]\<rparr>))"

definition insert_session :: "session_row \<Rightarrow> database \<Rightarrow> string + database" where
  "insert_session r db =
     (if list_ex (\<lambda>x. se_token_hash x = se_token_hash r) (db_sessions db)
      then Inl (unique_failed ''device_sessions.token_hash'')
      else if \<not> has_device db (se_device_id r) then Inl fk_failed
      else Inr (db\<lparr>db_sessions := db_sessions db @ [r]\<rparr>))"

text \<open>\<open>INSERT ... ON CONFLICT(service_id) DO UPDATE\<close> of the host, the port and the time.\<close>

definition upsert_service_row :: "service_row \<Rightarrow> database \<Rightarrow> string + database" where
  "upsert_service_row r db =
     (if has_service db (sv_service_id r)
      then Inr (db\<lparr>db_services := map (\<lambda>x. if sv_service_id x = sv_service_id r
             then x\<lparr>sv_target_host := sv_target_host r, sv_target_port := sv_target_port r,
                    sv_updated_at := sv_updated_at r\<rparr> else x) (db_services db)\<rparr>)
      else if list_ex (\<lambda>x. sv_owner_device_id x = sv_owner_device_id r
             \<and> sv_service_name x = sv_service_name r) (db_services db)
      then Inl (unique_failed ''services.owner_device_id, services.service_name'')
      else if \<not> has_device db (sv_owner_device_id r) then Inl fk_failed
      else Inr (db\<lparr>db_services := db_services db @ [r]\<rparr>))"

definition insert_acl :: "acl_row \<Rightarrow> database \<Rightarrow> string + database" where
  "insert_acl r db =
     (if List.member (db_acl db) r
      then Inl (unique_failed ''service_acl.service_id, service_acl.source_device_id'')
      else if \<not> has_service db (al_service_id r) then Inl fk_failed
      else Inr (db\<lparr>db_acl := db_acl db @ [r]\<rparr>))"

fun insert_acls :: "string \<Rightarrow> string list \<Rightarrow> database \<Rightarrow> string + database" where
  "insert_acls s [] db = Inr db"
| "insert_acls s (d # ds) db =
     result_bind (insert_acl \<lparr>al_service_id = s, al_source_device_id = d\<rparr> db) (insert_acls s ds)"

definition delete_acl :: "string \<Rightarrow> database \<Rightarrow> database" where
  "delete_acl s db = db\<lparr>db_acl := filter (\<lambda>r. al_service_id r \<noteq> s) (db_acl db)\<rparr>"

definition delete_attempts :: "string \<Rightarrow> database \<Rightarrow> database" where
  "delete_attempts s db = db\<lparr>db_attempts := filter (\<lambda>r. rv_service_id r \<noteq> s) (db_attempts db)\<rparr>"

definition delete_service_row :: "string \<Rightarrow> string \<Rightarrow> database \<Rightarrow> string + database" where
  "delete_service_row s owner db =
     (let gone = (\<lambda>r. sv_service_id r = s \<and> sv_owner_device_id r = owner) in
      if list_ex gone (db_services db)
         \<and> (list_ex (\<lambda>r. al_service_id r = s) (db_acl db)
            \<or> list_ex (\<lambda>r. rv_service_id r = s) (db_attempts db))
      then Inl fk_failed
      else Inr (db\<lparr>db_services := filter (\<lambda>r. \<not> gone r) (db_services db)\<rparr>))"

definition insert_attempt :: "rendezvous_row \<Rightarrow> database \<Rightarrow> string + database" where
  "insert_attempt r db =
     (if list_ex (\<lambda>x. rv_rendezvous_id x = rv_rendezvous_id r) (db_attempts db)
      then Inl (unique_failed ''direct_rendezvous_attempts.rendezvous_id'')
      else if \<not> has_service db (rv_service_id r) \<or> \<not> has_device db (rv_source_device_id r)
           \<or> \<not> has_device db (rv_target_device_id r)
      then Inl fk_failed
      else Inr (db\<lparr>db_attempts := db_attempts db @ [r]\<rparr>))"

text \<open>Deleting all rows of a parent table fails while a child refers to it.\<close>

definition delete_all_services :: "database \<Rightarrow> string + database" where
  "delete_all_services db =
     (if db_services db \<noteq> [] \<and>
         (list_ex (\<lambda>r. has_service db (al_service_id r)) (db_acl db)
          \<or> list_ex (\<lambda>r. has_service db (rv_service_id r)) (db_attempts db))
      then Inl fk_failed else Inr (db\<lparr>db_services := []\<rparr>))"

definition delete_all_devices :: "database \<Rightarrow> string + database" where
  "delete_all_devices db =
     (if list_ex (\<lambda>r. has_device db (se_device_id r)) (db_sessions db)
         \<or> list_ex (\<lambda>r. has_device db (sv_owner_device_id r)) (db_services db)
         \<or> list_ex (\<lambda>r. has_device db (rv_source_device_id r) \<or> has_device db (rv_target_device_id r))
              (db_attempts db)
      then Inl fk_failed else Inr (db\<lparr>db_devices := []\<rparr>))"

section \<open>Administration and sessions\<close>

definition ensure_admin :: "'a server_prims_scheme \<Rightarrow> string \<Rightarrow> database \<Rightarrow> server_error + unit" where
  "ensure_admin P admin_token db =
     (case map_of (db_config db) admin_key of
        None \<Rightarrow> Inl Unauthorized
      | Some stored \<Rightarrow>
          if stored = hash_secret (crypto_prims.truncate P) admin_token then Inr () else Inl Unauthorized)"

abbreviation hash_of :: "'a server_prims_scheme \<Rightarrow> string \<Rightarrow> string" where
  "hash_of P s \<equiv> hash_secret (crypto_prims.truncate P) s"

abbreviation token_of :: "'a server_prims_scheme \<Rightarrow> byte list \<Rightarrow> string \<Rightarrow> string" where
  "token_of P rnd prefix \<equiv> generate_token (crypto_prims.truncate P) rnd prefix"

abbreviation sid_of :: "'a server_prims_scheme \<Rightarrow> string \<Rightarrow> string \<Rightarrow> string" where
  "sid_of P owner name \<equiv> service_id_of (crypto_prims.truncate P) owner name"

definition session_device_id ::
  "'a server_prims_scheme \<Rightarrow> int \<Rightarrow> string \<Rightarrow> database \<Rightarrow> server_error + string" where
  "session_device_id P now token db =
     (case List.find (\<lambda>r. se_token_hash r = hash_of P token) (db_sessions db) of
        Some r \<Rightarrow> if now \<le> se_expires_at r then Inr (se_device_id r) else Inl Unauthorized
      | None \<Rightarrow> Inl Unauthorized)"

definition bootstrap_init ::
  "'a server_prims_scheme \<Rightarrow> int \<Rightarrow> byte list \<Rightarrow> byte list \<Rightarrow> database
     \<Rightarrow> (server_error + bootstrap_init_response) \<times> database" where
  "bootstrap_init P now rnd1 rnd2 db =
     (if map_of (db_config db) admin_key \<noteq> None
      then (Inl (Conflict ''server is already initialized''), db)
      else
        let admin_token = token_of P rnd1 ''adm'';
            join_token = token_of P rnd2 ''join'';
            expires = i64_add now (join_token_default_ttl_minutes * 60);
            tx = result_bind (insert_config admin_key (hash_of P admin_token) db) (insert_join_token
                   \<lparr>jk_token_hash = hash_of P join_token, jk_note = Some ''bootstrap'',
                    jk_expires_at = expires, jk_used_at = None, jk_created_at = now\<rparr>)
        in case tx of
             Inl m \<Rightarrow> (Inl (Internal m), db)
           | Inr db' \<Rightarrow> (Inr \<lparr>bi_admin_token = admin_token, bi_first_join_token = join_token,
                             bi_join_token_expires_at = expires\<rparr>, db'))"

definition create_join_token_locked ::
  "'a server_prims_scheme \<Rightarrow> int \<Rightarrow> byte list \<Rightarrow> create_join_token_request \<Rightarrow> database
     \<Rightarrow> (server_error + join_token_response) \<times> database" where
  "create_join_token_locked P now rnd rq db =
     (let join_token = token_of P rnd ''join'';
          ttl = (case cj_expires_in_minutes rq of
                   Some m \<Rightarrow> u64_as_i64 m | None \<Rightarrow> join_token_default_ttl_minutes);
          expires = i64_add now (i64_mul ttl 60)
      in case insert_join_token
                \<lparr>jk_token_hash = hash_of P join_token, jk_note = cj_note rq, jk_expires_at = expires,
                 jk_used_at = None, jk_created_at = now\<rparr> db of
           Inl m \<Rightarrow> (Inl (Internal m), db)
         | Inr db' \<Rightarrow> (Inr \<lparr>jt_join_token = join_token, jt_expires_at = expires, jt_note = cj_note rq\<rparr>, db'))"

definition create_join_token ::
  "'a server_prims_scheme \<Rightarrow> int \<Rightarrow> byte list \<Rightarrow> string \<Rightarrow> create_join_token_request \<Rightarrow> database
     \<Rightarrow> (server_error + join_token_response) \<times> database" where
  "create_join_token P now rnd admin_token rq db =
     (case ensure_admin P admin_token db of
        Inl e \<Rightarrow> (Inl e, db)
      | Inr _ \<Rightarrow> create_join_token_locked P now rnd rq db)"

section \<open>Registration\<close>

definition consume_join_token ::
  "'a server_prims_scheme \<Rightarrow> int \<Rightarrow> string \<Rightarrow> database \<Rightarrow> (server_error + int) \<times> database" where
  "consume_join_token P now token db =
     (case List.find (\<lambda>r. jk_token_hash r = hash_of P token) (db_join_tokens db) of
        Some r \<Rightarrow>
          if jk_used_at r = None \<and> now \<le> jk_expires_at r
          then (Inr (jk_expires_at r),
                db\<lparr>db_join_tokens := map (\<lambda>x. if jk_token_hash x = hash_of P token
                     then x\<lparr>jk_used_at := Some now\<rparr> else x) (db_join_tokens db)\<rparr>)
          else (Inl Unauthorized, db)
      | None \<Rightarrow> (Inl Unauthorized, db))"

text \<open>The signatures over the registration and over the relay key.\<close>

definition check_registration ::
  "'a server_prims_scheme \<Rightarrow> register_device_request \<Rightarrow> server_error + unit" where
  "check_registration P rq =
     (let C = crypto_prims.truncate P in
      if rq_device_id rq \<noteq> device_id_from_public_key C (rq_public_key rq)
      then Inl (BadRequest ''device_id does not match public_key'')
      else result_bind
        (of_crypto (verify_signature_base64 C (rq_public_key rq)
          (registration_message (rq_device_id rq) (rq_device_name rq) (rq_os rq) (rq_nonce rq))
          (rq_signature rq)))
        (\<lambda>_. of_crypto (verify_signature_base64 C (rq_public_key rq)
          (relay_key_binding_message (rq_device_id rq) (rq_relay_public_key rq))
          (rq_relay_public_key_signature rq))))"

definition update_device :: "register_device_request \<Rightarrow> int \<Rightarrow> database \<Rightarrow> database" where
  "update_device rq now db =
     db\<lparr>db_devices := map (\<lambda>r. if dr_device_id r = rq_device_id rq
          then r\<lparr>dr_device_name := rq_device_name rq,
                 dr_relay_public_key := Some (rq_relay_public_key rq),
                 dr_relay_public_key_signature := Some (rq_relay_public_key_signature rq),
                 dr_os := rq_os rq, dr_version := rq_version rq, dr_last_seen_at := now\<rparr>
          else r) (db_devices db)\<rparr>"

definition new_device_row :: "register_device_request \<Rightarrow> int \<Rightarrow> int \<Rightarrow> device_row" where
  "new_device_row rq deadline now =
     \<lparr>dr_device_id = rq_device_id rq, dr_device_name = rq_device_name rq,
      dr_public_key = rq_public_key rq, dr_relay_public_key = Some (rq_relay_public_key rq),
      dr_relay_public_key_signature = Some (rq_relay_public_key_signature rq),
      dr_os = rq_os rq, dr_version = rq_version rq, dr_session_deadline_at = Some deadline,
      dr_created_at = now, dr_last_seen_at = now\<rparr>"

text \<open>The session deadline: of the device if it is known, of the join token otherwise.\<close>

definition admit_device ::
  "'a server_prims_scheme \<Rightarrow> int \<Rightarrow> register_device_request \<Rightarrow> database
     \<Rightarrow> (server_error + int) \<times> database" where
  "admit_device P now rq db =
     (case List.find (\<lambda>r. dr_device_id r = rq_device_id rq) (db_devices db) of
        Some r \<Rightarrow>
          if dr_public_key r \<noteq> rq_public_key rq then (Inl Forbidden, db)
          else if (case dr_session_deadline_at r of Some deadline \<Rightarrow> deadline < now | None \<Rightarrow> False)
          then (Inl Unauthorized, db)
          else (Inr (case dr_session_deadline_at r of
                       Some deadline \<Rightarrow> deadline
                     | None \<Rightarrow> i64_add now legacy_session_ttl_seconds),
                update_device rq now db)
      | None \<Rightarrow>
          (case rq_join_token rq of
             None \<Rightarrow> (Inl Unauthorized, db)
           | Some token \<Rightarrow>
               (case consume_join_token P now token db of
                  (Inl e, db1) \<Rightarrow> (Inl e, db1)
                | (Inr deadline, db1) \<Rightarrow>
                    (case insert_device (new_device_row rq deadline now) db1 of
                       Inl m \<Rightarrow> (Inl (Internal m), db1)
                     | Inr db2 \<Rightarrow> (Inr deadline, db2)))))"

definition replace_session ::
  "'a server_prims_scheme \<Rightarrow> int \<Rightarrow> byte list \<Rightarrow> string \<Rightarrow> int \<Rightarrow> database
     \<Rightarrow> (server_error + register_device_response) \<times> database" where
  "replace_session P now rnd device expires db =
     (let token = token_of P rnd ''sess'';
          db1 = db\<lparr>db_sessions := filter (\<lambda>r. se_device_id r \<noteq> device) (db_sessions db)\<rparr>
      in case insert_session \<lparr>se_token_hash = hash_of P token, se_device_id = device,
                              se_created_at = now, se_expires_at = expires\<rparr> db1 of
           Inl m \<Rightarrow> (Inl (Internal m), db1)
         | Inr db2 \<Rightarrow> (Inr \<lparr>rr_device_id = device, rr_session_token = token,
                            rr_session_expires_at = expires\<rparr>, db2))"

definition register_device ::
  "'a server_prims_scheme \<Rightarrow> int \<Rightarrow> byte list \<Rightarrow> register_device_request \<Rightarrow> database
     \<Rightarrow> (server_error + register_device_response) \<times> database" where
  "register_device P now rnd rq db =
     (case check_registration P rq of
        Inl e \<Rightarrow> (Inl e, db)
      | Inr _ \<Rightarrow>
          (case admit_device P now rq db of
             (Inl e, db1) \<Rightarrow> (Inl e, db1)
           | (Inr expires, db1) \<Rightarrow> replace_session P now rnd (rq_device_id rq) expires db1))"

definition touch_device :: "int \<Rightarrow> string \<Rightarrow> database \<Rightarrow> database" where
  "touch_device now device db =
     db\<lparr>db_devices := map (\<lambda>r. if dr_device_id r = device then r\<lparr>dr_last_seen_at := now\<rparr> else r)
          (db_devices db)\<rparr>"

definition heartbeat ::
  "'a server_prims_scheme \<Rightarrow> int \<Rightarrow> string \<Rightarrow> database \<Rightarrow> (server_error + heartbeat_response) \<times> database" where
  "heartbeat P now token db =
     (case session_device_id P now token db of
        Inl e \<Rightarrow> (Inl e, db)
      | Inr device \<Rightarrow> (Inr \<lparr>hb_device_id = device, hb_seen_at = now\<rparr>, touch_device now device db))"

end
