(* ===== verification/Rendezvous.thy ===== *)
theory Rendezvous
  imports Database
begin

text \<open>
  The rest of \<open>minipunch-server/src/db.rs\<close>: publishing and deleting services, the network
  snapshot, the administration of devices, and the rendezvous attempts that set up direct channels.
\<close>

section \<open>Services\<close>

definition upsert_service_locked ::
  "'a server_prims_scheme \<Rightarrow> int \<Rightarrow> string \<Rightarrow> upsert_service_request \<Rightarrow> database
     \<Rightarrow> (server_error + service_definition) \<times> database" where
  "upsert_service_locked P now device rq db =
     (let sid = sid_of P device (us_name rq);
          row = \<lparr>sv_service_id = sid, sv_owner_device_id = device, sv_service_name = us_name rq,
                 sv_protocol = ''tcp'', sv_target_host = [], sv_target_port = 0,
                 sv_created_at = now, sv_updated_at = now\<rparr>;
          tx = result_bind (upsert_service_row row db)
                 (\<lambda>db1. insert_acls sid (us_allowed_device_ids rq) (delete_acl sid db1))
      in case tx of
           Inl m \<Rightarrow> (Inl (Internal m), db)
         | Inr db' \<Rightarrow> (Inr \<lparr>sd_service_id = sid, sd_owner_device_id = device, sd_name = us_name rq,
                           sd_protocol = ''tcp''\<rparr>, db'))"

definition upsert_service ::
  "'a server_prims_scheme \<Rightarrow> int \<Rightarrow> string \<Rightarrow> upsert_service_request \<Rightarrow> database
     \<Rightarrow> (server_error + service_definition) \<times> database" where
  "upsert_service P now token rq db =
     (if blank (us_name rq) then (Inl (BadRequest ''service name cannot be empty''), db)
      else case session_device_id P now token db of
             Inl e \<Rightarrow> (Inl e, db)
           | Inr device \<Rightarrow> upsert_service_locked P now device rq db)"

definition delete_service_locked ::
  "'a server_prims_scheme \<Rightarrow> string \<Rightarrow> string \<Rightarrow> database
     \<Rightarrow> (server_error + service_definition) \<times> database" where
  "delete_service_locked P device name db =
     (let sid = sid_of P device name in
      if \<not> list_ex (\<lambda>r. sv_service_id r = sid \<and> sv_owner_device_id r = device) (db_services db)
      then (Inl (NotFound (''service '' @ name @ '' is not published by this device'')), db)
      else case delete_service_row sid device (delete_attempts sid (delete_acl sid db)) of
             Inl m \<Rightarrow> (Inl (Internal m), db)
           | Inr db' \<Rightarrow> (Inr \<lparr>sd_service_id = sid, sd_owner_device_id = device, sd_name = name,
                             sd_protocol = ''tcp''\<rparr>, db'))"

definition delete_service ::
  "'a server_prims_scheme \<Rightarrow> int \<Rightarrow> string \<Rightarrow> delete_service_request \<Rightarrow> database
     \<Rightarrow> (server_error + service_definition) \<times> database" where
  "delete_service P now token rq db =
     (if blank (ds_name rq) then (Inl (BadRequest ''service name cannot be empty''), db)
      else case session_device_id P now token db of
             Inl e \<Rightarrow> (Inl e, db)
           | Inr device \<Rightarrow> delete_service_locked P device (ds_name rq) db)"

definition to_service_definition :: "service_row \<Rightarrow> service_definition" where
  "to_service_definition r =
     \<lparr>sd_service_id = sv_service_id r, sd_owner_device_id = sv_owner_device_id r,
      sd_name = sv_service_name r, sd_protocol = sv_protocol r\<rparr>"

definition in_acl :: "database \<Rightarrow> string \<Rightarrow> string \<Rightarrow> bool" where
  "in_acl db sid device =
     list_ex (\<lambda>r. al_service_id r = sid \<and> al_source_device_id r = device) (db_acl db)"

definition authorize_relay_service ::
  "string \<Rightarrow> string \<Rightarrow> database \<Rightarrow> server_error + service_definition" where
  "authorize_relay_service source sid db =
     (case List.find (\<lambda>r. sv_service_id r = sid) (db_services db) of
        None \<Rightarrow> Inl (NotFound ''service was not found'')
      | Some r \<Rightarrow>
          if sv_owner_device_id r \<noteq> source \<and> \<not> in_acl db sid source then Inl Forbidden
          else Inr (to_service_definition r))"

definition device_identity_public_key :: "string \<Rightarrow> database \<Rightarrow> server_error + string" where
  "device_identity_public_key device db =
     (case List.find (\<lambda>r. dr_device_id r = device) (db_devices db) of
        None \<Rightarrow> Inl (NotFound ''device was not found'')
      | Some r \<Rightarrow> Inr (dr_public_key r))"

section \<open>Snapshots and administration\<close>

text \<open>A row of an old database may hold a NULL where the reader asks for a string.\<close>

definition null_column :: "string \<Rightarrow> string \<Rightarrow> string" where
  "null_column i name = ''Invalid column type Null at index: '' @ i @ '', name: '' @ name"

definition device_summary_of :: "int \<Rightarrow> device_row \<Rightarrow> string + device_summary" where
  "device_summary_of now r =
     (case dr_relay_public_key r of
        None \<Rightarrow> Inl (null_column ''4'' ''relay_public_key'')
      | Some k \<Rightarrow>
          (case dr_relay_public_key_signature r of
             None \<Rightarrow> Inl (null_column ''5'' ''relay_public_key_signature'')
           | Some s \<Rightarrow>
               Inr \<lparr>dv_device_id = dr_device_id r, dv_device_name = dr_device_name r, dv_os = dr_os r,
                    dv_identity_public_key = dr_public_key r, dv_relay_public_key = k,
                    dv_relay_public_key_signature = s, dv_last_seen_at = dr_last_seen_at r,
                    dv_is_online =
                      (i64_wrap (now - dr_last_seen_at r) \<le> online_window_seconds)\<rparr>))"

fun collect_results :: "('e + 'a) list \<Rightarrow> 'e + 'a list" where
  "collect_results [] = Inr []"
| "collect_results (r # rs) = result_bind r (\<lambda>a. result_bind (collect_results rs) (\<lambda>as. Inr (a # as)))"

definition device_summaries :: "int \<Rightarrow> database \<Rightarrow> string + device_summary list" where
  "device_summaries now db =
     collect_results (map (device_summary_of now) (sort_key dr_device_name (db_devices db)))"

definition visible_services :: "string \<Rightarrow> database \<Rightarrow> service_row list" where
  "visible_services device db =
     sort_key (\<lambda>r. (sv_owner_device_id r, sv_service_name r))
       (filter (\<lambda>s. sv_owner_device_id s = device \<or> in_acl db (sv_service_id s) device)
          (db_services db))"

definition network_snapshot_locked ::
  "int \<Rightarrow> string \<Rightarrow> database \<Rightarrow> server_error + network_snapshot" where
  "network_snapshot_locked now device db =
     result_bind (of_sql (device_summaries now db)) (\<lambda>ds.
       Inr \<lparr>ns_requester_device_id = device, ns_devices = ds,
            ns_services = map to_service_definition (visible_services device db)\<rparr>)"

definition db_network_snapshot ::
  "'a server_prims_scheme \<Rightarrow> int \<Rightarrow> string \<Rightarrow> database \<Rightarrow> server_error + network_snapshot" where
  "db_network_snapshot P now token db =
     result_bind (session_device_id P now token db) (\<lambda>device. network_snapshot_locked now device db)"

definition admin_devices ::
  "'a server_prims_scheme \<Rightarrow> int \<Rightarrow> string \<Rightarrow> database \<Rightarrow> server_error + admin_devices_response" where
  "admin_devices P now admin_token db =
     result_bind (ensure_admin P admin_token db) (\<lambda>_.
       result_bind (of_sql (device_summaries now db)) (\<lambda>ds. Inr \<lparr>ad_devices = ds\<rparr>))"

definition clear_devices_locked ::
  "database \<Rightarrow> (server_error + admin_clear_devices_response) \<times> database" where
  "clear_devices_locked db =
     (let tx = result_bind (delete_all_services (db\<lparr>db_attempts := [], db_acl := []\<rparr>))
                 (\<lambda>db1. delete_all_devices (db1\<lparr>db_sessions := []\<rparr>))
      in case tx of
           Inl m \<Rightarrow> (Inl (Internal m), db)
         | Inr db' \<Rightarrow>
             (Inr \<lparr>ac_deleted_devices = length (db_devices db),
                   ac_deleted_sessions = length (db_sessions db),
                   ac_deleted_services = length (db_services db),
                   ac_deleted_acl_entries = length (db_acl db),
                   ac_deleted_rendezvous_attempts = length (db_attempts db)\<rparr>, db'))"

definition clear_devices ::
  "'a server_prims_scheme \<Rightarrow> string \<Rightarrow> database
     \<Rightarrow> (server_error + admin_clear_devices_response) \<times> database" where
  "clear_devices P admin_token db =
     (case ensure_admin P admin_token db of
        Inl e \<Rightarrow> (Inl e, db)
      | Inr _ \<Rightarrow> clear_devices_locked db)"

section \<open>Rendezvous attempts\<close>

fun validate_direct_candidates :: "direct_connection_candidate list \<Rightarrow> server_error + unit" where
  "validate_direct_candidates [] = Inr ()"
| "validate_direct_candidates (c # cs) =
     (if blank (dc_protocol c) then Inl (BadRequest ''direct candidate protocol cannot be empty'')
      else if blank (dc_addr c) then Inl (BadRequest ''direct candidate addr cannot be empty'')
      else if blank (dc_candidate_type c) then Inl (BadRequest ''direct candidate type cannot be empty'')
      else validate_direct_candidates cs)"

definition rendezvous_status ::
  "int \<Rightarrow> direct_connection_candidate list \<Rightarrow> direct_connection_candidate list \<Rightarrow> rendezvous_row \<Rightarrow> string" where
  "rendezvous_status now source target r =
     (if rv_expires_at r < now then ''expired''
      else if source \<noteq> [] \<and> target \<noteq> [] then ''ready''
      else if rv_target_announced_at r = None then ''waiting_for_target''
      else ''gathering_candidates'')"

definition direct_rendezvous_from_row ::
  "'a server_prims_scheme \<Rightarrow> int \<Rightarrow> rendezvous_row \<Rightarrow> server_error + direct_rendezvous_session" where
  "direct_rendezvous_from_row P now r =
     result_bind (of_sql (json_decode P (rv_source_candidates_json r))) (\<lambda>source.
     result_bind (of_sql (json_decode P (rv_target_candidates_json r))) (\<lambda>target.
       Inr \<lparr>rs_rendezvous_id = rv_rendezvous_id r, rs_service_id = rv_service_id r,
            rs_service_name = rv_service_name r, rs_source_device_id = rv_source_device_id r,
            rs_target_device_id = rv_target_device_id r,
            rs_status = rendezvous_status now source target r,
            rs_created_at = rv_created_at r, rs_updated_at = rv_updated_at r,
            rs_expires_at = rv_expires_at r,
            rs_source = \<lparr>rp_device_id = rv_source_device_id r,
                         rp_announced_at = rv_source_announced_at r, rp_candidates = source\<rparr>,
            rs_target = \<lparr>rp_device_id = rv_target_device_id r,
                         rp_announced_at = rv_target_announced_at r, rp_candidates = target\<rparr>\<rparr>))"

definition rendezvous_by_id ::
  "'a server_prims_scheme \<Rightarrow> int \<Rightarrow> string \<Rightarrow> string option \<Rightarrow> database
     \<Rightarrow> server_error + direct_rendezvous_session" where
  "rendezvous_by_id P now rid viewer db =
     (case List.find (\<lambda>r. rv_rendezvous_id r = rid) (db_attempts db) of
        None \<Rightarrow> Inl (NotFound ''direct rendezvous was not found'')
      | Some r \<Rightarrow>
          if (case viewer of Some v \<Rightarrow> v \<noteq> rv_source_device_id r \<and> v \<noteq> rv_target_device_id r | None \<Rightarrow> False)
          then Inl Forbidden
          else direct_rendezvous_from_row P now r)"

definition start_rendezvous_locked ::
  "'a server_prims_scheme \<Rightarrow> int \<Rightarrow> byte list \<Rightarrow> string \<Rightarrow> service_definition
     \<Rightarrow> direct_connection_candidate list \<Rightarrow> database
     \<Rightarrow> (server_error + direct_rendezvous_session) \<times> database" where
  "start_rendezvous_locked P now rnd source service candidates db =
     (let rid = token_of P rnd ''rvz'' in
      case insert_attempt
             \<lparr>rv_rendezvous_id = rid, rv_service_id = sd_service_id service,
              rv_service_name = sd_name service, rv_source_device_id = source,
              rv_target_device_id = sd_owner_device_id service,
              rv_source_announced_at = Some now, rv_target_announced_at = None,
              rv_source_candidates_json = json_encode P candidates,
              rv_target_candidates_json = json_encode P [],
              rv_created_at = now, rv_updated_at = now,
              rv_expires_at = i64_add now direct_rendezvous_ttl_seconds\<rparr> db of
        Inl m \<Rightarrow> (Inl (Internal m), db)
      | Inr db' \<Rightarrow> (rendezvous_by_id P now rid None db', db'))"

definition start_direct_rendezvous ::
  "'a server_prims_scheme \<Rightarrow> int \<Rightarrow> byte list \<Rightarrow> string \<Rightarrow> start_direct_rendezvous_request \<Rightarrow> database
     \<Rightarrow> (server_error + direct_rendezvous_session) \<times> database" where
  "start_direct_rendezvous P now rnd token rq db =
     (if blank (sr_target_device_id rq)
      then (Inl (BadRequest ''target_device_id cannot be empty''), db)
      else if blank (sr_service_name rq)
      then (Inl (BadRequest ''service_name cannot be empty''), db)
      else
        case result_bind (validate_direct_candidates (sr_source_candidates rq)) (\<lambda>_.
               result_bind (session_device_id P now token db) (\<lambda>source.
               result_bind (authorize_relay_service source
                     (sid_of P (sr_target_device_id rq) (sr_service_name rq)) db) (\<lambda>service.
                 Inr (source, service)))) of
          Inl e \<Rightarrow> (Inl e, db)
        | Inr (source, service) \<Rightarrow>
            start_rendezvous_locked P now rnd source service (sr_source_candidates rq) db)"

definition pending_rendezvous_locked ::
  "'a server_prims_scheme \<Rightarrow> int \<Rightarrow> string \<Rightarrow> database
     \<Rightarrow> server_error + pending_direct_rendezvous_response" where
  "pending_rendezvous_locked P now device db =
     (let rows = filter (\<lambda>r. rv_target_device_id r = device \<and> now \<le> rv_expires_at r) (db_attempts db);
          ordered = sort_key (\<lambda>r. (- rv_updated_at r, - rv_created_at r)) rows
      in result_bind (collect_results (map (\<lambda>r. rendezvous_by_id P now (rv_rendezvous_id r) None db) ordered))
           (\<lambda>as. Inr \<lparr>pr_attempts = as\<rparr>))"

definition pending_direct_rendezvous ::
  "'a server_prims_scheme \<Rightarrow> int \<Rightarrow> string \<Rightarrow> database
     \<Rightarrow> server_error + pending_direct_rendezvous_response" where
  "pending_direct_rendezvous P now token db =
     result_bind (session_device_id P now token db) (\<lambda>device. pending_rendezvous_locked P now device db)"

definition direct_rendezvous ::
  "'a server_prims_scheme \<Rightarrow> int \<Rightarrow> string \<Rightarrow> string \<Rightarrow> database
     \<Rightarrow> server_error + direct_rendezvous_session" where
  "direct_rendezvous P now token rid db =
     result_bind (session_device_id P now token db) (\<lambda>device. rendezvous_by_id P now rid (Some device) db)"

definition update_attempts ::
  "string \<Rightarrow> (rendezvous_row \<Rightarrow> rendezvous_row) \<Rightarrow> database \<Rightarrow> database" where
  "update_attempts rid f db =
     db\<lparr>db_attempts := map (\<lambda>r. if rv_rendezvous_id r = rid then f r else r) (db_attempts db)\<rparr>"

definition update_candidates_locked ::
  "'a server_prims_scheme \<Rightarrow> int \<Rightarrow> string \<Rightarrow> string \<Rightarrow> direct_connection_candidate list \<Rightarrow> database
     \<Rightarrow> (server_error + direct_rendezvous_session) \<times> database" where
  "update_candidates_locked P now device rid candidates db =
     (case List.find (\<lambda>r. rv_rendezvous_id r = rid) (db_attempts db) of
        None \<Rightarrow> (Inl (NotFound ''direct rendezvous was not found''), db)
      | Some r \<Rightarrow>
          if rv_expires_at r < now
          then (Inl (Conflict ''direct rendezvous has already expired''), db)
          else
            let json = json_encode P candidates in
            if rv_source_device_id r = device then
              let db' = update_attempts rid (\<lambda>r. r\<lparr>rv_source_candidates_json := json,
                    rv_source_announced_at := Some now, rv_updated_at := now\<rparr>) db
              in (rendezvous_by_id P now rid (Some device) db', db')
            else if rv_target_device_id r = device then
              let db' = update_attempts rid (\<lambda>r. r\<lparr>rv_target_candidates_json := json,
                    rv_target_announced_at := Some now, rv_updated_at := now\<rparr>) db
              in (rendezvous_by_id P now rid (Some device) db', db')
            else (Inl Forbidden, db))"

definition update_direct_rendezvous_candidates ::
  "'a server_prims_scheme \<Rightarrow> int \<Rightarrow> string \<Rightarrow> string \<Rightarrow> update_direct_rendezvous_candidates_request
     \<Rightarrow> database \<Rightarrow> (server_error + direct_rendezvous_session) \<times> database" where
  "update_direct_rendezvous_candidates P now token rid rq db =
     (case result_bind (validate_direct_candidates (uc_candidates rq)) (\<lambda>_.
             session_device_id P now token db) of
        Inl e \<Rightarrow> (Inl e, db)
      | Inr device \<Rightarrow> update_candidates_locked P now device rid (uc_candidates rq) db)"

end
