(* ===== verification/DatabaseInv.thy ===== *)
theory DatabaseInv
  imports Rendezvous
begin

text \<open>
  The integrity of the database under any interleaving of the sections that run under its lock:
  keys are unique, references point to rows that exist, a device has at most one session, and the
  ids that are derived from other columns agree with them.
\<close>

section \<open>The invariant\<close>

definition keys_ok :: "database \<Rightarrow> bool" where
  "keys_ok db =
     (distinct (map fst (db_config db)) \<and> distinct (map jk_token_hash (db_join_tokens db))
      \<and> distinct (map dr_device_id (db_devices db)) \<and> distinct (map dr_public_key (db_devices db))
      \<and> distinct (map se_token_hash (db_sessions db)) \<and> distinct (map sv_service_id (db_services db))
      \<and> distinct (map (\<lambda>r. (sv_owner_device_id r, sv_service_name r)) (db_services db))
      \<and> distinct (db_acl db) \<and> distinct (map rv_rendezvous_id (db_attempts db)))"

definition device_ids :: "database \<Rightarrow> string set" where
  "device_ids db = dr_device_id ` set (db_devices db)"

definition service_ids :: "database \<Rightarrow> string set" where
  "service_ids db = sv_service_id ` set (db_services db)"

definition refs_ok :: "database \<Rightarrow> bool" where
  "refs_ok db =
     (se_device_id ` set (db_sessions db) \<subseteq> device_ids db
      \<and> sv_owner_device_id ` set (db_services db) \<subseteq> device_ids db
      \<and> al_service_id ` set (db_acl db) \<subseteq> service_ids db
      \<and> rv_service_id ` set (db_attempts db) \<subseteq> service_ids db
      \<and> rv_source_device_id ` set (db_attempts db) \<subseteq> device_ids db
      \<and> rv_target_device_id ` set (db_attempts db) \<subseteq> device_ids db)"

text \<open>The derived columns, the single session, and the relay keys every registration stores.\<close>

definition derived_ok :: "'a server_prims_scheme \<Rightarrow> database \<Rightarrow> bool" where
  "derived_ok P db =
     (distinct (map se_device_id (db_sessions db))
      \<and> (\<forall>r\<in>set (db_devices db).
           dr_device_id r = device_id_from_public_key (crypto_prims.truncate P) (dr_public_key r)
           \<and> dr_relay_public_key r \<noteq> None \<and> dr_relay_public_key_signature r \<noteq> None)
      \<and> (\<forall>r\<in>set (db_services db).
           sv_service_id r = sid_of P (sv_owner_device_id r) (sv_service_name r)
           \<and> sv_protocol r = ''tcp'')
      \<and> (\<forall>r\<in>set (db_attempts db).
           rv_service_id r = sid_of P (rv_target_device_id r) (rv_service_name r)))"

definition db_wf :: "'a server_prims_scheme \<Rightarrow> database \<Rightarrow> bool" where
  "db_wf P db = (keys_ok db \<and> refs_ok db \<and> derived_ok P db)"

lemmas db_wf_defs = db_wf_def keys_ok_def refs_ok_def derived_ok_def device_ids_def service_ids_def

lemma db_wfD:
  assumes "db_wf P db"
  shows "keys_ok db" "refs_ok db" "derived_ok P db"
  using assms by (simp_all add: db_wf_def)

lemma has_device_iff: "has_device db d \<longleftrightarrow> d \<in> device_ids db"
  by (auto simp: has_device_def device_ids_def list_ex_iff)

lemma has_service_iff: "has_service db s \<longleftrightarrow> s \<in> service_ids db"
  by (auto simp: has_service_def service_ids_def list_ex_iff)

lemma db_empty_wf [wf_intro]: "db_wf P db_empty"
  by (simp add: db_wf_defs db_empty_def)

section \<open>Updating rows in place\<close>

lemma same_column:
  assumes "\<And>x. f (g x) = f x"
  shows "f \<circ> g = f" "f ` g ` A = f ` A"
  using assms by (auto simp: image_image)

lemma devices_map_wf:
  assumes "db_wf P db"
    and g: "\<And>r. dr_device_id (g r) = dr_device_id r" "\<And>r. dr_public_key (g r) = dr_public_key r"
      "\<And>r. dr_relay_public_key r \<noteq> None \<Longrightarrow> dr_relay_public_key (g r) \<noteq> None"
      "\<And>r. dr_relay_public_key_signature r \<noteq> None \<Longrightarrow> dr_relay_public_key_signature (g r) \<noteq> None"
  shows "db_wf P (db\<lparr>db_devices := map g (db_devices db)\<rparr>)"
proof -
  note c = same_column [where f = dr_device_id and g = g, OF g(1)]
    same_column [where f = dr_public_key and g = g, OF g(2)]
  have "keys_ok (db\<lparr>db_devices := map g (db_devices db)\<rparr>)"
    using assms(1) by (simp add: db_wf_def keys_ok_def c)
  moreover have "refs_ok (db\<lparr>db_devices := map g (db_devices db)\<rparr>)"
    using db_wfD(2) [OF assms(1)] by (simp add: db_wf_def refs_ok_def device_ids_def service_ids_def c)
  moreover have "derived_ok P (db\<lparr>db_devices := map g (db_devices db)\<rparr>)"
    using db_wfD(3) [OF assms(1)]  g by (simp add: db_wf_def derived_ok_def)
  ultimately show ?thesis by (simp add: db_wf_def)
qed

lemma services_map_wf:
  assumes "db_wf P db"
    and g: "\<And>r. sv_service_id (g r) = sv_service_id r"
      "\<And>r. sv_owner_device_id (g r) = sv_owner_device_id r"
      "\<And>r. sv_service_name (g r) = sv_service_name r" "\<And>r. sv_protocol (g r) = sv_protocol r"
  shows "db_wf P (db\<lparr>db_services := map g (db_services db)\<rparr>)"
    "service_ids (db\<lparr>db_services := map g (db_services db)\<rparr>) = service_ids db"
proof -
  note c = same_column [where f = sv_service_id and g = g, OF g(1)]
    same_column [where f = sv_owner_device_id and g = g, OF g(2)]
    same_column [where f = "\<lambda>r. (sv_owner_device_id r, sv_service_name r)" and g = g]
  have "keys_ok (db\<lparr>db_services := map g (db_services db)\<rparr>)"
    using assms(1) by (simp add: db_wf_def keys_ok_def c g)
  moreover have "refs_ok (db\<lparr>db_services := map g (db_services db)\<rparr>)"
    using db_wfD(2) [OF assms(1)] by (simp add: db_wf_def refs_ok_def device_ids_def service_ids_def c)
  moreover have "derived_ok P (db\<lparr>db_services := map g (db_services db)\<rparr>)"
    using db_wfD(3) [OF assms(1)]  g by (simp add: db_wf_def derived_ok_def)
  ultimately show "db_wf P (db\<lparr>db_services := map g (db_services db)\<rparr>)" by (simp add: db_wf_def)
  show "service_ids (db\<lparr>db_services := map g (db_services db)\<rparr>) = service_ids db"
    by (simp add: service_ids_def c)
qed

lemma attempts_map_wf:
  assumes "db_wf P db"
    and g: "\<And>r. rv_rendezvous_id (g r) = rv_rendezvous_id r" "\<And>r. rv_service_id (g r) = rv_service_id r"
      "\<And>r. rv_service_name (g r) = rv_service_name r"
      "\<And>r. rv_source_device_id (g r) = rv_source_device_id r"
      "\<And>r. rv_target_device_id (g r) = rv_target_device_id r"
  shows "db_wf P (db\<lparr>db_attempts := map g (db_attempts db)\<rparr>)"
proof -
  note c = same_column [where f = rv_rendezvous_id and g = g, OF g(1)]
    same_column [where f = rv_service_id and g = g, OF g(2)]
    same_column [where f = rv_source_device_id and g = g, OF g(4)]
    same_column [where f = rv_target_device_id and g = g, OF g(5)]
  have "keys_ok (db\<lparr>db_attempts := map g (db_attempts db)\<rparr>)"
    using assms(1) by (simp add: db_wf_def keys_ok_def c)
  moreover have "refs_ok (db\<lparr>db_attempts := map g (db_attempts db)\<rparr>)"
    using db_wfD(2) [OF assms(1)] by (simp add: db_wf_def refs_ok_def device_ids_def service_ids_def c)
  moreover have "derived_ok P (db\<lparr>db_attempts := map g (db_attempts db)\<rparr>)"
    using db_wfD(3) [OF assms(1)]  g by (simp add: db_wf_def derived_ok_def)
  ultimately show ?thesis by (simp add: db_wf_def)
qed

section \<open>Statements\<close>

lemma insert_config_wf:
  assumes "insert_config k v db = Inr db'" "db_wf P db"
  shows "db_wf P db'"
proof -
  have db': "db' = db\<lparr>db_config := db_config db @ [(k, v)]\<rparr>" "k \<notin> fst ` set (db_config db)"
    using assms(1) by (auto simp: insert_config_def list_ex_iff split: if_splits)
  have "keys_ok db'" using assms(2) db'(2) by (simp add: db'(1) db_wf_def keys_ok_def)
  moreover have "refs_ok db'"
    using db_wfD(2) [OF assms(2)] by (simp add: db'(1) refs_ok_def device_ids_def service_ids_def)
  moreover have "derived_ok P db'"
    using db_wfD(3) [OF assms(2)] by (simp add: db'(1) derived_ok_def)
  ultimately show ?thesis by (simp add: db_wf_def)
qed

lemma insert_join_token_wf:
  assumes "insert_join_token r db = Inr db'" "db_wf P db"
  shows "db_wf P db'"
proof -
  have db': "db' = db\<lparr>db_join_tokens := db_join_tokens db @ [r]\<rparr>"
    "jk_token_hash r \<notin> jk_token_hash ` set (db_join_tokens db)"
    using assms(1) by (auto simp: insert_join_token_def list_ex_iff split: if_splits)
  have "keys_ok db'" using assms(2) db'(2) by (simp add: db'(1) db_wf_def keys_ok_def)
  moreover have "refs_ok db'"
    using db_wfD(2) [OF assms(2)] by (simp add: db'(1) refs_ok_def device_ids_def service_ids_def)
  moreover have "derived_ok P db'"
    using db_wfD(3) [OF assms(2)] by (simp add: db'(1) derived_ok_def)
  ultimately show ?thesis by (simp add: db_wf_def)
qed

lemma insert_device_wf:
  assumes "insert_device r db = Inr db'" "db_wf P db"
    "dr_device_id r = device_id_from_public_key (crypto_prims.truncate P) (dr_public_key r)"
    "dr_relay_public_key r \<noteq> None" "dr_relay_public_key_signature r \<noteq> None"
  shows "db_wf P db'"
proof -
  have db': "db' = db\<lparr>db_devices := db_devices db @ [r]\<rparr>"
    "dr_device_id r \<notin> dr_device_id ` set (db_devices db)"
    "dr_public_key r \<notin> dr_public_key ` set (db_devices db)"
    using assms(1) by (auto simp: insert_device_def has_device_def list_ex_iff split: if_splits)
  have "keys_ok db'" using assms(2) db'(2,3) by (simp add: db'(1) db_wf_def keys_ok_def)
  moreover have "refs_ok db'"
    using db_wfD(2) [OF assms(2)] by (auto simp: db'(1) db_wf_def refs_ok_def device_ids_def service_ids_def)
  moreover have "derived_ok P db'"
    using db_wfD(3) [OF assms(2)] assms(3-5) by (simp add: db'(1) db_wf_def derived_ok_def)
  ultimately show ?thesis by (simp add: db_wf_def)
qed

lemma insert_acl_frame:
  assumes "insert_acl r db = Inr db'"
  shows "db' = db\<lparr>db_acl := db_acl db @ [r]\<rparr>" "r \<notin> set (db_acl db)" "al_service_id r \<in> service_ids db"
  using assms by (auto simp: insert_acl_def has_service_iff split: if_splits)

lemma insert_acls_result:
  assumes "insert_acls s ds db = Inr db'"
  shows "db' = db\<lparr>db_acl := db_acl db @ map (\<lambda>d. \<lparr>al_service_id = s, al_source_device_id = d\<rparr>) ds\<rparr>"
    and "distinct (db_acl db) \<Longrightarrow> distinct (db_acl db')" "ds \<noteq> [] \<Longrightarrow> s \<in> service_ids db"
  using assms
proof (induction ds arbitrary: db)
  case (Cons d ds)
  {
    case 1
    then obtain db1 where a: "insert_acl \<lparr>al_service_id = s, al_source_device_id = d\<rparr> db = Inr db1"
      "insert_acls s ds db1 = Inr db'" by (auto simp: result_bind_Inr_iff)
    with Cons.IH(1) [OF a(2)] insert_acl_frame(1) [OF a(1)] show ?case by simp
  next
    case 2
    then obtain db1 where a: "insert_acl \<lparr>al_service_id = s, al_source_device_id = d\<rparr> db = Inr db1"
      "insert_acls s ds db1 = Inr db'" by (auto simp: result_bind_Inr_iff)
    with Cons.IH(2) [OF _ a(2)] insert_acl_frame(1,2) [OF a(1)] 2 show ?case by simp
  next
    case 3
    then obtain db1 where "insert_acl \<lparr>al_service_id = s, al_source_device_id = d\<rparr> db = Inr db1"
      by (auto simp: result_bind_Inr_iff)
    from insert_acl_frame(3) [OF this] show ?case by simp
  }
qed auto

lemma upsert_service_row_wf:
  assumes "upsert_service_row r db = Inr db'" "db_wf P db"
    "sv_service_id r = sid_of P (sv_owner_device_id r) (sv_service_name r)" "sv_protocol r = ''tcp''"
  shows "db_wf P db'" "sv_service_id r \<in> service_ids db'" "db_acl db' = db_acl db"
proof -
  let ?upd = "\<lambda>x. if sv_service_id x = sv_service_id r
    then x\<lparr>sv_target_host := sv_target_host r, sv_target_port := sv_target_port r,
           sv_updated_at := sv_updated_at r\<rparr> else x"
  consider (old) "has_service db (sv_service_id r)" "db' = db\<lparr>db_services := map ?upd (db_services db)\<rparr>"
    | (new) "\<not> has_service db (sv_service_id r)" "db' = db\<lparr>db_services := db_services db @ [r]\<rparr>"
      "\<not> list_ex (\<lambda>x. sv_owner_device_id x = sv_owner_device_id r \<and> sv_service_name x = sv_service_name r)
          (db_services db)" "has_device db (sv_owner_device_id r)"
    using assms(1) by (auto simp: upsert_service_row_def split: if_splits)
  then have "db_wf P db' \<and> sv_service_id r \<in> service_ids db' \<and> db_acl db' = db_acl db"
  proof cases
    case old
    have "db_wf P db'" "service_ids db' = service_ids db"
      unfolding old(2) by (rule services_map_wf [OF assms(2)]; simp)+
    moreover have "sv_service_id r \<in> service_ids db"
      using old(1) by (simp add: has_service_iff)
    ultimately show ?thesis by (simp add: old(2))
  next
    case new
    have ids: "sv_service_id r \<notin> sv_service_id ` set (db_services db)"
      "(sv_owner_device_id r, sv_service_name r)
        \<notin> (\<lambda>r. (sv_owner_device_id r, sv_service_name r)) ` set (db_services db)"
      using new(1,3) by (auto simp: has_service_def list_ex_iff)
    have "keys_ok db'" using assms(2) ids by (simp add: new(2) db_wf_def keys_ok_def)
    moreover have "refs_ok db'"
      using db_wfD(2) [OF assms(2)] new(4) by (auto simp: new(2) db_wf_def refs_ok_def device_ids_def service_ids_def
          has_device_iff)
    moreover have "derived_ok P db'"
      using db_wfD(3) [OF assms(2)] assms(3,4) by (simp add: new(2) derived_ok_def)
    ultimately show ?thesis by (simp add: db_wf_def new(2) service_ids_def)
  qed
  then show "db_wf P db'" "sv_service_id r \<in> service_ids db'" "db_acl db' = db_acl db" by simp_all
qed

lemma delete_acl_wf:
  assumes "db_wf P db"
  shows "db_wf P (delete_acl s db)"
proof -
  have "keys_ok (delete_acl s db)"
    using db_wfD(1) [OF assms] by (simp add: delete_acl_def keys_ok_def)
  moreover have "refs_ok (delete_acl s db)"
    using db_wfD(2) [OF assms] by (auto simp: delete_acl_def refs_ok_def device_ids_def service_ids_def)
  moreover have "derived_ok P (delete_acl s db)"
    using db_wfD(3) [OF assms] by (simp add: delete_acl_def derived_ok_def)
  ultimately show ?thesis by (simp add: db_wf_def)
qed

lemma delete_attempts_wf:
  assumes "db_wf P db"
  shows "db_wf P (delete_attempts s db)"
proof -
  have "keys_ok (delete_attempts s db)"
    using db_wfD(1) [OF assms] by (simp add: delete_attempts_def keys_ok_def distinct_map_filter)
  moreover have "derived_ok P (delete_attempts s db)"
    using db_wfD(3) [OF assms] by (simp add: delete_attempts_def derived_ok_def)
  moreover have "refs_ok (delete_attempts s db)"
    using db_wfD(2) [OF assms] by (auto simp: delete_attempts_def db_wf_def refs_ok_def device_ids_def service_ids_def)
  ultimately show ?thesis by (simp add: db_wf_def)
qed

lemma delete_service_row_wf:
  assumes "delete_service_row s owner db = Inr db'" "db_wf P db"
  shows "db_wf P db'"
proof -
  let ?gone = "\<lambda>r. sv_service_id r = s \<and> sv_owner_device_id r = owner"
  have db': "db' = db\<lparr>db_services := filter (\<lambda>r. \<not> ?gone r) (db_services db)\<rparr>"
    using assms(1) by (auto simp: delete_service_row_def Let_def split: if_splits)
  show ?thesis
  proof (cases "list_ex ?gone (db_services db)")
    case False
    then have "filter (\<lambda>r. \<not> ?gone r) (db_services db) = db_services db"
      by (auto simp: list_ex_iff intro!: filter_True)
    then have "db' = db" by (simp add: db')
    with assms(2) show ?thesis by simp
  next
    case True
    have unref: "s \<notin> al_service_id ` set (db_acl db)" "s \<notin> rv_service_id ` set (db_attempts db)"
      using True assms(1) by (auto simp: delete_service_row_def Let_def list_ex_iff split: if_splits)
    have sub: "service_ids db - {s} \<subseteq> service_ids db'"
      by (auto simp: service_ids_def db')
    have "al_service_id ` set (db_acl db) \<subseteq> service_ids db - {s}"
      "rv_service_id ` set (db_attempts db) \<subseteq> service_ids db - {s}"
      using assms(2) unref by (auto simp: db_wf_def refs_ok_def)
    with sub have "al_service_id ` set (db_acl db) \<subseteq> service_ids db'"
      "rv_service_id ` set (db_attempts db) \<subseteq> service_ids db'"
      by (blast intro: order.trans)+
    moreover have "device_ids db' = device_ids db" "db_acl db' = db_acl db" "db_attempts db' = db_attempts db"
      "db_sessions db' = db_sessions db"
      by (simp_all add: db' device_ids_def)
    moreover have "sv_owner_device_id ` set (db_services db') \<subseteq> sv_owner_device_id ` set (db_services db)"
      by (auto simp: db')
    ultimately have refs: "refs_ok db'"
      using db_wfD(2) [OF assms(2)] unfolding db_wf_def refs_ok_def by (metis (no_types, lifting) order.trans)
    have "keys_ok db'"
      using db_wfD(1) [OF assms(2)] by (simp add: db' keys_ok_def distinct_map_filter)
    moreover have "derived_ok P db'"
      using db_wfD(3) [OF assms(2)] by (simp add: db' derived_ok_def)
    ultimately show ?thesis using refs by (simp add: db_wf_def)
  qed
qed

lemma insert_attempt_wf:
  assumes "insert_attempt r db = Inr db'" "db_wf P db"
    "rv_service_id r = sid_of P (rv_target_device_id r) (rv_service_name r)"
  shows "db_wf P db'"
proof -
  have db': "db' = db\<lparr>db_attempts := db_attempts db @ [r]\<rparr>"
    "rv_rendezvous_id r \<notin> rv_rendezvous_id ` set (db_attempts db)"
    "rv_service_id r \<in> service_ids db" "rv_source_device_id r \<in> device_ids db"
    "rv_target_device_id r \<in> device_ids db"
    using assms(1)
    by (auto simp: insert_attempt_def has_device_iff has_service_iff list_ex_iff split: if_splits)
  have "keys_ok db'" using assms(2) db'(2) by (simp add: db'(1) db_wf_def keys_ok_def)
  moreover have "refs_ok db'"
    using db_wfD(2) [OF assms(2)] db'(3-5) by (simp add: db'(1) db_wf_def refs_ok_def device_ids_def service_ids_def)
  moreover have "derived_ok P db'"
    using db_wfD(3) [OF assms(2)] assms(3) by (simp add: db'(1) db_wf_def derived_ok_def)
  ultimately show ?thesis by (simp add: db_wf_def)
qed

section \<open>Sections under the lock\<close>

datatype db_section =
    Sec_Bootstrap int "byte list" "byte list"
  | Sec_CreateJoinToken int "byte list" create_join_token_request
  | Sec_Register int "byte list" register_device_request
  | Sec_Touch int string
  | Sec_UpsertService int string upsert_service_request
  | Sec_DeleteService string string
  | Sec_ClearDevices
  | Sec_StartRendezvous int "byte list" string string string string "direct_connection_candidate list"
  | Sec_UpdateCandidates int string string "direct_connection_candidate list"

text \<open>
  A rendezvous is started for a service a previous section has looked up: owner, name and protocol
  are its columns and its id is the derived one.
\<close>

fun db_exec :: "'a server_prims_scheme \<Rightarrow> db_section \<Rightarrow> database \<Rightarrow> database" where
  "db_exec P (Sec_Bootstrap now r1 r2) db = snd (bootstrap_init P now r1 r2 db)"
| "db_exec P (Sec_CreateJoinToken now rnd rq) db = snd (create_join_token_locked P now rnd rq db)"
| "db_exec P (Sec_Register now rnd rq) db = snd (register_device P now rnd rq db)"
| "db_exec P (Sec_Touch now device) db = touch_device now device db"
| "db_exec P (Sec_UpsertService now device rq) db = snd (upsert_service_locked P now device rq db)"
| "db_exec P (Sec_DeleteService device name) db = snd (delete_service_locked P device name db)"
| "db_exec P Sec_ClearDevices db = snd (clear_devices_locked db)"
| "db_exec P (Sec_StartRendezvous now rnd source owner name protocol cs) db =
     snd (start_rendezvous_locked P now rnd source
       \<lparr>sd_service_id = sid_of P owner name, sd_owner_device_id = owner, sd_name = name,
        sd_protocol = protocol\<rparr> cs db)"
| "db_exec P (Sec_UpdateCandidates now device rid cs) db =
     snd (update_candidates_locked P now device rid cs db)"

lemma bootstrap_wf: "db_wf P db \<Longrightarrow> db_wf P (snd (bootstrap_init P now r1 r2 db))"
  by (auto simp: bootstrap_init_def Let_def result_bind_Inr_iff split: sum.splits
      dest!: insert_config_wf insert_join_token_wf)

lemma create_join_token_wf: "db_wf P db \<Longrightarrow> db_wf P (snd (create_join_token_locked P now rnd rq db))"
  by (auto simp: create_join_token_locked_def Let_def split: sum.splits dest: insert_join_token_wf)

lemma touch_device_wf: "db_wf P db \<Longrightarrow> db_wf P (touch_device now d db)"
  unfolding touch_device_def by (rule devices_map_wf) simp_all

lemma update_device_wf: "db_wf P db \<Longrightarrow> db_wf P (update_device rq now db)"
  unfolding update_device_def by (rule devices_map_wf) simp_all

lemma consume_join_token_wf:
  assumes "db_wf P db"
  shows "db_wf P (snd (consume_join_token P now t db))"
proof -
  let ?g = "\<lambda>x. if jk_token_hash x = hash_of P t then x\<lparr>jk_used_at := Some now\<rparr> else x"
  let ?db = "db\<lparr>db_join_tokens := map ?g (db_join_tokens db)\<rparr>"
  have c: "jk_token_hash \<circ> ?g = jk_token_hash" by (rule same_column) simp
  have "keys_ok ?db" using assms by (simp add: db_wf_def keys_ok_def c)
  moreover have "refs_ok ?db"
    using db_wfD(2) [OF assms] by (simp add: refs_ok_def device_ids_def service_ids_def)
  moreover have "derived_ok P ?db" using db_wfD(3) [OF assms] by (simp add: derived_ok_def)
  ultimately have "db_wf P ?db" by (simp add: db_wf_def)
  with assms show ?thesis by (auto simp: consume_join_token_def split: option.splits)
qed

lemma consume_join_token_frame [frame_simps]:
  "db_devices (snd (consume_join_token P now t db)) = db_devices db"
  "db_sessions (snd (consume_join_token P now t db)) = db_sessions db"
  by (auto simp: consume_join_token_def split: option.splits)

lemma insert_device_frame:
  "insert_device r db = Inr db' \<Longrightarrow> db' = db\<lparr>db_devices := db_devices db @ [r]\<rparr>"
  by (auto simp: insert_device_def split: if_splits)

lemma check_registration_id:
  "check_registration P rq = Inr u
    \<Longrightarrow> rq_device_id rq = device_id_from_public_key (crypto_prims.truncate P) (rq_public_key rq)"
  by (auto simp: check_registration_def Let_def split: if_splits)

lemma admit_device_wf:
  assumes "db_wf P db" "check_registration P rq = Inr u"
  shows "db_wf P (snd (admit_device P now rq db))"
proof (cases "List.find (\<lambda>r. dr_device_id r = rq_device_id rq) (db_devices db)")
  case None
  show ?thesis
  proof (cases "rq_join_token rq")
    case tok: (Some t)
    obtain r db1 where c: "consume_join_token P now t db = (r, db1)"
      by (cases "consume_join_token P now t db") auto
    have w1: "db_wf P db1" using consume_join_token_wf [OF assms(1), of now t] by (simp add: c)
    show ?thesis
    proof (cases r)
      case (Inl e)
      then show ?thesis using w1 by (simp add: admit_device_def None tok c)
    next
      case (Inr deadline)
      show ?thesis
      proof (cases "insert_device (new_device_row rq deadline now) db1")
        case (Inr db2)
        have "db_wf P db2"
          by (rule insert_device_wf [OF Inr w1])
            (simp_all add: new_device_row_def check_registration_id [OF assms(2)])
        with Inr \<open>r = Inr deadline\<close> show ?thesis by (simp add: admit_device_def None tok c)
      qed (use w1 \<open>r = Inr deadline\<close> in \<open>simp add: admit_device_def None tok c\<close>)
    qed
  qed (use assms in \<open>simp add: admit_device_def None\<close>)
next
  case (Some r)
  then show ?thesis
    using assms(1) update_device_wf [OF assms(1)] by (auto simp: admit_device_def split: option.splits)
qed

lemma delete_sessions_wf:
  assumes "db_wf P db"
  shows "db_wf P (db\<lparr>db_sessions := filter Q (db_sessions db)\<rparr>)"
proof -
  let ?db = "db\<lparr>db_sessions := filter Q (db_sessions db)\<rparr>"
  have "keys_ok ?db" using db_wfD(1) [OF assms] by (simp add: keys_ok_def distinct_map_filter)
  moreover have "refs_ok ?db"
    using db_wfD(2) [OF assms] by (auto simp: refs_ok_def device_ids_def service_ids_def)
  moreover have "derived_ok P ?db"
    using db_wfD(3) [OF assms] by (simp add: derived_ok_def distinct_map_filter)
  ultimately show ?thesis by (simp add: db_wf_def)
qed

lemma insert_session_wf:
  assumes "insert_session r db = Inr db'" "db_wf P db" "se_device_id r \<notin> se_device_id ` set (db_sessions db)"
  shows "db_wf P db'"
proof -
  have db': "db' = db\<lparr>db_sessions := db_sessions db @ [r]\<rparr>"
    "se_token_hash r \<notin> se_token_hash ` set (db_sessions db)" "se_device_id r \<in> device_ids db"
    using assms(1) by (auto simp: insert_session_def has_device_iff list_ex_iff split: if_splits)
  have "keys_ok db'" using assms(2) db'(2) by (simp add: db'(1) db_wf_def keys_ok_def)
  moreover have "refs_ok db'"
    using db_wfD(2) [OF assms(2)] db'(3) by (simp add: db'(1) db_wf_def refs_ok_def device_ids_def service_ids_def)
  moreover have "derived_ok P db'"
    using db_wfD(3) [OF assms(2)] assms(3) by (simp add: db'(1) db_wf_def derived_ok_def)
  ultimately show ?thesis by (simp add: db_wf_def)
qed

lemma replace_session_wf:
  assumes "db_wf P db"
  shows "db_wf P (snd (replace_session P now rnd d e db))"
proof -
  let ?db1 = "db\<lparr>db_sessions := filter (\<lambda>r. se_device_id r \<noteq> d) (db_sessions db)\<rparr>"
  have "db_wf P ?db1" using assms by (rule delete_sessions_wf)
  then show ?thesis
    by (auto simp: replace_session_def Let_def split: sum.splits elim!: insert_session_wf)
qed

lemma register_device_wf:
  assumes "db_wf P db"
  shows "db_wf P (snd (register_device P now rnd rq db))"
proof (cases "check_registration P rq")
  case (Inr u)
  obtain r db1 where a: "admit_device P now rq db = (r, db1)" by (cases "admit_device P now rq db") auto
  have "db_wf P db1" using admit_device_wf [OF assms Inr, of now] by (simp add: a)
  then show ?thesis by (cases r) (simp_all add: register_device_def Inr a replace_session_wf)
qed (simp add: register_device_def assms)

lemma upsert_service_locked_wf:
  assumes "db_wf P db"
  shows "db_wf P (snd (upsert_service_locked P now d rq db))"
proof -
  let ?sid = "sid_of P d (us_name rq)"
  let ?row = "\<lparr>sv_service_id = ?sid, sv_owner_device_id = d, sv_service_name = us_name rq,
    sv_protocol = ''tcp'', sv_target_host = [], sv_target_port = 0, sv_created_at = now, sv_updated_at = now\<rparr>"
  let ?tx = "result_bind (upsert_service_row ?row db)
    (\<lambda>db1. insert_acls ?sid (us_allowed_device_ids rq) (delete_acl ?sid db1))"
  have "db_wf P db'" if tx: "?tx = Inr db'" for db'
  proof -
    from tx obtain db1 where u: "upsert_service_row ?row db = Inr db1"
      and i: "insert_acls ?sid (us_allowed_device_ids rq) (delete_acl ?sid db1) = Inr db'"
      by (auto simp: result_bind_Inr_iff)
    have w1: "db_wf P db1" "?sid \<in> service_ids db1"
      using upsert_service_row_wf [OF u assms] by simp_all
    have w2: "db_wf P (delete_acl ?sid db1)" using w1(1) by (rule delete_acl_wf)
    note r = insert_acls_result [OF i]
    have d: "distinct (db_acl db')" using w2 by (intro r(2)) (simp add: db_wf_def keys_ok_def)
    have "?sid \<in> service_ids (delete_acl ?sid db1)"
      using w1(2) by (simp add: delete_acl_def service_ids_def)
    then have "refs_ok db'"
      using db_wfD(2) [OF w2] by (auto simp: r(1) refs_ok_def device_ids_def service_ids_def)
    moreover have "keys_ok db'"
      using db_wfD(1) [OF w2] d by (simp add: r(1) keys_ok_def)
    moreover have "derived_ok P db'"
      using db_wfD(3) [OF w2] by (simp add: r(1) derived_ok_def)
    ultimately show ?thesis by (simp add: db_wf_def)
  qed
  then show ?thesis
    using assms by (auto simp: upsert_service_locked_def Let_def split: sum.splits)
qed

lemma delete_service_locked_wf:
  assumes "db_wf P db"
  shows "db_wf P (snd (delete_service_locked P d name db))"
proof -
  have "db_wf P (delete_attempts s (delete_acl s db))" for s
    using assms by (intro delete_attempts_wf delete_acl_wf)
  then show ?thesis
    using assms by (auto simp: delete_service_locked_def Let_def split: sum.splits
        elim!: delete_service_row_wf)
qed

text \<open>Clearing always succeeds: the children are deleted before their parents.\<close>

lemma clear_devices_result:
  "clear_devices_locked db =
     (Inr \<lparr>ac_deleted_devices = length (db_devices db), ac_deleted_sessions = length (db_sessions db),
           ac_deleted_services = length (db_services db), ac_deleted_acl_entries = length (db_acl db),
           ac_deleted_rendezvous_attempts = length (db_attempts db)\<rparr>,
      db\<lparr>db_devices := [], db_sessions := [], db_services := [], db_acl := [], db_attempts := []\<rparr>)"
  by (simp add: clear_devices_locked_def delete_all_services_def delete_all_devices_def)

lemma clear_devices_wf: "db_wf P db \<Longrightarrow> db_wf P (snd (clear_devices_locked db))"
  by (simp add: clear_devices_result db_wf_defs)

lemma start_rendezvous_wf:
  assumes "db_wf P db" "sd_service_id sv = sid_of P (sd_owner_device_id sv) (sd_name sv)"
  shows "db_wf P (snd (start_rendezvous_locked P now rnd source sv cs db))"
  using assms
  by (auto simp: start_rendezvous_locked_def Let_def split: sum.splits elim!: insert_attempt_wf)

lemma update_attempts_wf:
  assumes "db_wf P db"
    and f: "\<And>r. rv_rendezvous_id (f r) = rv_rendezvous_id r" "\<And>r. rv_service_id (f r) = rv_service_id r"
      "\<And>r. rv_service_name (f r) = rv_service_name r"
      "\<And>r. rv_source_device_id (f r) = rv_source_device_id r"
      "\<And>r. rv_target_device_id (f r) = rv_target_device_id r"
  shows "db_wf P (update_attempts rid f db)"
  unfolding update_attempts_def using assms(1) by (rule attempts_map_wf) (simp_all add: f)

lemma update_candidates_wf:
  assumes "db_wf P db"
  shows "db_wf P (snd (update_candidates_locked P now d rid cs db))"
  using assms
  by (auto simp: update_candidates_locked_def Let_def split: option.splits intro!: update_attempts_wf)

lemma db_exec_wf: "db_wf P db \<Longrightarrow> db_wf P (db_exec P op db)"
  by (cases op)
    (simp_all add: bootstrap_wf create_join_token_wf register_device_wf touch_device_wf
      upsert_service_locked_wf delete_service_locked_wf clear_devices_wf start_rendezvous_wf
      update_candidates_wf)

text \<open>Any number of locked sections, in any order: what concurrent requests do to the tables.\<close>

definition db_run :: "'a server_prims_scheme \<Rightarrow> db_section list \<Rightarrow> database \<Rightarrow> database" where
  "db_run P ops db = fold (db_exec P) ops db"

interpretation dbs: invariant_system "db_wf P" "db_exec P"
  rewrites "invariant_system.run (db_exec P) = db_run P" for P :: "'a server_prims_scheme"
proof -
  show inv: "invariant_system (db_wf P) (db_exec P)"
    by unfold_locales (rule db_exec_wf)
  show "invariant_system.run (db_exec P) = db_run P"
    by (simp add: fun_eq_iff invariant_system.run_def [OF inv] db_run_def)
qed

text \<open>
  What a public operation does to the tables is one section or nothing: the session lookup that
  precedes the section only reads.
\<close>

lemma operations_are_sections:
  "snd (create_join_token P now rnd tok rqj db) \<in> {db, db_exec P (Sec_CreateJoinToken now rnd rqj) db}"
  "snd (heartbeat P now tok db) \<in> insert db {db_exec P (Sec_Touch now d) db |d. True}"
  "snd (upsert_service P now tok rqu db) \<in> insert db {db_exec P (Sec_UpsertService now d rqu) db |d. True}"
  "snd (delete_service P now tok rqd db)
     \<in> insert db {db_exec P (Sec_DeleteService d (ds_name rqd)) db |d. True}"
  "snd (clear_devices P tok db) \<in> {db, db_exec P Sec_ClearDevices db}"
  "snd (update_direct_rendezvous_candidates P now tok rid rqc db)
     \<in> insert db {db_exec P (Sec_UpdateCandidates now d rid (uc_candidates rqc)) db |d. True}"
  by (auto simp: create_join_token_def heartbeat_def upsert_service_def delete_service_def
      clear_devices_def update_direct_rendezvous_candidates_def split: sum.splits)

lemma authorize_relay_service_row:
  assumes "authorize_relay_service source sid db = Inr sd"
  obtains r where "r \<in> set (db_services db)" "sv_service_id r = sid" "sd = to_service_definition r"
    "sv_owner_device_id r = source \<or> in_acl db sid source"
  using assms find_Some_member [of "\<lambda>r. sv_service_id r = sid"]
  by (fastforce simp: authorize_relay_service_def split: option.splits if_splits)

end
