(* ===== verification/AccessProps.thy ===== *)
theory AccessProps
  imports DatabaseInv
begin

text \<open>
  What the server promises about access: integrity of the tables, sessions, join tokens, the
  grants of a service, and what a device sees of the network. The concrete instance of the
  primitives at the end of the first section is only used to evaluate the theorems on examples.
\<close>

section \<open>An instance for evaluation\<close>

fun frame_string :: "string \<Rightarrow> string" where
  "frame_string [] = ''.''"
| "frame_string (c # s) = CHR ''-'' # c # frame_string s"

fun unframe :: "string \<Rightarrow> string \<Rightarrow> string list option" where
  "unframe acc [] = Some []"
| "unframe acc (c # r) =
     (if c = CHR ''.'' then map_option ((#) acc) (unframe [] r)
      else case r of [] \<Rightarrow> None | d # r' \<Rightarrow> unframe (acc @ [d]) r')"

fun candidates_of :: "string list \<Rightarrow> direct_connection_candidate list" where
  "candidates_of (p # a # t # r) =
     \<lparr>dc_protocol = p, dc_addr = a, dc_candidate_type = t\<rparr> # candidates_of r"
| "candidates_of _ = []"

definition toy_encode :: "direct_connection_candidate list \<Rightarrow> string" where
  "toy_encode cs = concat (map (\<lambda>c. frame_string (dc_protocol c) @ frame_string (dc_addr c)
     @ frame_string (dc_candidate_type c)) cs)"

definition toy_decode :: "string \<Rightarrow> string + direct_connection_candidate list" where
  "toy_decode s = (case unframe [] s of None \<Rightarrow> Inl ''invalid'' | Some fs \<Rightarrow> Inr (candidates_of fs))"

definition toy_server :: server_prims where
  "toy_server = crypto_prims.extend toy_prims \<lparr>json_encode = toy_encode, json_decode = toy_decode\<rparr>"

lemma unframe_frame: "unframe acc (frame_string s @ r) = map_option ((#) (acc @ s)) (unframe [] r)"
  by (induction s arbitrary: acc) simp_all

lemma toy_json_law: "json_law toy_server"
proof -
  have "unframe [] (toy_encode cs)
      = Some (concat (map (\<lambda>c. [dc_protocol c, dc_addr c, dc_candidate_type c]) cs))" for cs
    by (induction cs) (simp_all add: toy_encode_def unframe_frame)
  moreover have "candidates_of (concat (map (\<lambda>c. [dc_protocol c, dc_addr c, dc_candidate_type c]) cs)) = cs"
    for cs by (induction cs) simp_all
  ultimately show ?thesis
    by (simp add: json_law_def toy_server_def toy_decode_def server_prims.defs crypto_prims.defs toy_prims_def)
qed

lemma toy_truncate [simp]: "crypto_prims.truncate toy_server = toy_prims"
  by (simp add: toy_server_def crypto_prims.defs)

text \<open>
  Two example devices are registered, one with the token of the bootstrap; the first then
  publishes a service for the second. The tables after each step are written out, so that the
  examples below need not run all steps again.
\<close>

definition demo_id :: "char \<Rightarrow> string" where "demo_id c = ''dev_'' @ replicate 20 c"

definition demo_hash :: "string \<Rightarrow> string" where
  "demo_hash s = s @ replicate (32 - length s) (CHR 0x00)"

definition demo_register :: "char \<Rightarrow> string \<Rightarrow> register_device_request" where
  "demo_register c tok =
     \<lparr>rq_join_token = Some tok, rq_device_id = demo_id c, rq_device_name = [c],
      rq_os = ''os'', rq_version = ''1'', rq_public_key = replicate 32 c,
      rq_relay_public_key = replicate 32 c,
      rq_relay_public_key_signature = replicate 32 c @ replicate 32 (CHR 0x00),
      rq_nonce = ''n'', rq_signature = replicate 32 c @ replicate 32 (CHR 0x00)\<rparr>"

definition demo_token :: "string \<Rightarrow> int option \<Rightarrow> join_token_row" where
  "demo_token t used =
     \<lparr>jk_token_hash = demo_hash t, jk_note = Some ''bootstrap'', jk_expires_at = 600, jk_used_at = used,
      jk_created_at = 0\<rparr>"

definition demo_db0 :: database where
  "demo_db0 = \<lparr>db_config = [(admin_key, demo_hash ''adm_A'')], db_join_tokens = [demo_token ''join_B'' None],
     db_devices = [], db_sessions = [], db_services = [], db_acl = [], db_attempts = []\<rparr>"

definition demo_db1 :: database where
  "demo_db1 = \<lparr>db_config = [(admin_key, demo_hash ''adm_A'')], db_join_tokens = [demo_token ''join_B'' (Some 5)],
     db_devices = [new_device_row (demo_register (CHR ''A'') ''join_B'') 600 5],
     db_sessions = [\<lparr>se_token_hash = demo_hash ''sess_C'', se_device_id = demo_id (CHR ''A''),
                     se_created_at = 5, se_expires_at = 600\<rparr>],
     db_services = [], db_acl = [], db_attempts = []\<rparr>"

definition demo_service :: service_definition where
  "demo_service = \<lparr>sd_service_id = ''svc_dev_AAAAAAAAAAAAAAAA'', sd_owner_device_id = demo_id (CHR ''A''),
     sd_name = ''web'', sd_protocol = ''tcp''\<rparr>"

definition demo_publish :: upsert_service_request where
  "demo_publish = \<lparr>us_name = ''web'', us_allowed_device_ids = [demo_id (CHR ''B'')]\<rparr>"

definition demo_db2 :: database where
  "demo_db2 = demo_db1\<lparr>db_services :=
       [\<lparr>sv_service_id = sd_service_id demo_service, sv_owner_device_id = demo_id (CHR ''A''),
         sv_service_name = ''web'', sv_protocol = ''tcp'', sv_target_host = [], sv_target_port = 0,
         sv_created_at = 9, sv_updated_at = 9\<rparr>],
     db_acl := [\<lparr>al_service_id = sd_service_id demo_service, al_source_device_id = demo_id (CHR ''B'')\<rparr>]\<rparr>"

lemma demo_hashes [simp]:
  "hash_secret toy_prims ''adm_A'' = demo_hash ''adm_A''"
  "hash_secret toy_prims ''join_B'' = demo_hash ''join_B''"
  "hash_secret toy_prims ''sess_C'' = demo_hash ''sess_C''"
  by code_simp+

lemma demo_tokens [simp]:
  "generate_token toy_prims [65] ''adm'' = ''adm_A''" "generate_token toy_prims [66] ''join'' = ''join_B''"
  "generate_token toy_prims [67] ''sess'' = ''sess_C''" "generate_token toy_prims [71] ''sess'' = ''sess_G''"
  by code_simp+

lemma demo_service_id [simp]: "service_id_of toy_prims (demo_id (CHR ''A'')) ''web'' = sd_service_id demo_service"
  by code_simp

lemma demo_device_id: "demo_id (CHR ''B'') = device_id_from_public_key toy_prims (replicate 32 (CHR ''B''))"
  by code_simp

lemma demo_register_fields [simp]:
  "rq_device_id (demo_register c t) = demo_id c" "rq_public_key (demo_register c t) = replicate 32 c"
  "rq_join_token (demo_register c t) = Some t"
  by (simp_all add: demo_register_def)

lemma demo_check: "check_registration toy_server (demo_register (CHR ''A'') ''join_B'') = Inr ()"
  by code_simp

lemma demo_bootstrap: "bootstrap_init toy_server 0 [65] [66] db_empty
  = (Inr \<lparr>bi_admin_token = ''adm_A'', bi_first_join_token = ''join_B'', bi_join_token_expires_at = 600\<rparr>, demo_db0)"
  by (simp add: bootstrap_init_def db_empty_def Let_def insert_config_def insert_join_token_def demo_db0_def
      demo_token_def i64_add_def i64_wrap_def join_token_default_ttl_minutes_def)

lemma demo_consume: "fst (consume_join_token toy_server 5 ''join_B'' demo_db0) = Inr 600"
  by (simp add: consume_join_token_def demo_db0_def demo_token_def)

lemma demo_registration: "register_device toy_server 5 [67] (demo_register (CHR ''A'') ''join_B'') demo_db0
  = (Inr \<lparr>rr_device_id = demo_id (CHR ''A''), rr_session_token = ''sess_C'', rr_session_expires_at = 600\<rparr>, demo_db1)"
  by (simp add: register_device_def demo_check admit_device_def consume_join_token_def demo_db0_def
      demo_db1_def demo_token_def insert_device_def has_device_def replace_session_def insert_session_def
      new_device_row_def Let_def)

lemma demo_published: "upsert_service_locked toy_server 9 (demo_id (CHR ''A'')) demo_publish demo_db1
  = (Inr demo_service, demo_db2)"
  by (simp add: upsert_service_locked_def demo_publish_def upsert_service_row_def demo_db1_def demo_db2_def
      has_service_def has_device_def new_device_row_def Let_def delete_acl_def insert_acl_def)
    (simp add: demo_service_def)

lemma demo_wf: "db_wf toy_server demo_db0" "db_wf toy_server demo_db1" "db_wf toy_server demo_db2"
proof -
  show 0: "db_wf toy_server demo_db0"
    using bootstrap_wf [OF db_empty_wf, of toy_server 0 "[65]" "[66]"] demo_bootstrap by simp
  show 1: "db_wf toy_server demo_db1"
    using register_device_wf [OF 0, of 5 "[67]" "demo_register (CHR ''A'') ''join_B''"] demo_registration by simp
  show "db_wf toy_server demo_db2"
    using upsert_service_locked_wf [OF 1, of 9 "demo_id (CHR ''A'')" demo_publish] demo_published by simp
qed

lemma demo_session: "session_device_id toy_server 20 ''sess_C'' demo_db2 = Inr (demo_id (CHR ''A''))"
  by (simp add: session_device_id_def demo_db2_def demo_db1_def)

section \<open>Integrity\<close>

text \<open>
  C2. The tables stay consistent whatever requests are served, in whatever order their sections
  run: keys stay unique, every reference has its row, a device has at most one session, and device
  and service ids stay the hashes of what they stand for.
\<close>

theorem database_integrity: "db_wf P (db_run P ops db_empty)"
  by (rule dbs.run_inv [OF db_empty_wf])

section \<open>Sessions\<close>

lemma register_device_result:
  assumes "register_device P now rnd rq db = (Inr rr, db')"
  obtains u db1 where "check_registration P rq = Inr u"
    "admit_device P now rq db = (Inr (rr_session_expires_at rr), db1)"
    "rr_device_id rr = rq_device_id rq" "rr_session_token rr = token_of P rnd ''sess''"
    "db' = db1\<lparr>db_sessions := filter (\<lambda>r. se_device_id r \<noteq> rq_device_id rq) (db_sessions db1)
       @ [\<lparr>se_token_hash = hash_of P (rr_session_token rr), se_device_id = rq_device_id rq,
           se_created_at = now, se_expires_at = rr_session_expires_at rr\<rparr>]\<rparr>"
  using assms
  by (auto simp: register_device_def replace_session_def insert_session_def Let_def
      split: sum.splits prod.splits if_splits)

lemma session_device_id_Inr:
  assumes "session_device_id P now tok db = Inr d"
  obtains r where "r \<in> set (db_sessions db)" "se_device_id r = d" "se_token_hash r = hash_of P tok"
    "now \<le> se_expires_at r"
  using assms find_Some_member [of "\<lambda>r. se_token_hash r = hash_of P tok"]
  by (fastforce simp: session_device_id_def split: option.splits if_splits)

lemma session_device_id_row:
  assumes "keys_ok db" "r \<in> set (db_sessions db)" "se_token_hash r = hash_of P tok"
  shows "session_device_id P now tok db = (if now \<le> se_expires_at r then Inr (se_device_id r) else Inl Unauthorized)"
  using assms find_Some_iff_distinct [of se_token_hash "db_sessions db" r]
  by (simp add: session_device_id_def keys_ok_def)

text \<open>
  A successful registration hands out the device's only session: the returned token
  authenticates as the device up to its expiry and not after it, and no token with another hash
  authenticates as the device any more.
\<close>

theorem register_session:
  assumes "db_wf P db" "register_device P now rnd rq db = (Inr rr, db')"
  shows "session_device_id P t (rr_session_token rr) db'
      = (if t \<le> rr_session_expires_at rr then Inr (rr_device_id rr) else Inl Unauthorized)
    \<and> rr_device_id rr = rq_device_id rq
    \<and> (session_device_id P t tok db' = Inr (rr_device_id rr)
        \<longrightarrow> hash_of P tok = hash_of P (rr_session_token rr))"
proof -
  have wf: "db_wf P db'" using register_device_wf [OF assms(1), of now rnd rq] assms(2) by simp
  from assms(2) obtain u db1 where id: "rr_device_id rr = rq_device_id rq"
    and db': "db' = db1\<lparr>db_sessions := filter (\<lambda>r. se_device_id r \<noteq> rq_device_id rq) (db_sessions db1)
       @ [\<lparr>se_token_hash = hash_of P (rr_session_token rr), se_device_id = rq_device_id rq,
           se_created_at = now, se_expires_at = rr_session_expires_at rr\<rparr>]\<rparr>"
    by (rule register_device_result) blast
  let ?r = "\<lparr>se_token_hash = hash_of P (rr_session_token rr), se_device_id = rq_device_id rq,
     se_created_at = now, se_expires_at = rr_session_expires_at rr\<rparr>"
  have "?r \<in> set (db_sessions db')" by (simp add: db')
  from session_device_id_row [OF db_wfD(1) [OF wf] this, of P "rr_session_token rr" t] id
  have "session_device_id P t (rr_session_token rr) db'
      = (if t \<le> rr_session_expires_at rr then Inr (rr_device_id rr) else Inl Unauthorized)" by simp
  moreover have "hash_of P tok = hash_of P (rr_session_token rr)"
    if "session_device_id P t tok db' = Inr (rr_device_id rr)"
    using that by (rule session_device_id_Inr) (auto simp: db' id)
  ultimately show ?thesis using id by blast
qed

theorem register_session_witness:
  "session_device_id toy_server 600 ''sess_C'' demo_db1 = Inr (demo_id (CHR ''A''))
    \<and> session_device_id toy_server 601 ''sess_C'' demo_db1 = Inl Unauthorized"
  using register_session [OF demo_wf(1) demo_registration, of 600]
    register_session [OF demo_wf(1) demo_registration, of 601] by simp

section \<open>Registration and join tokens\<close>

lemma check_registration_Inr:
  assumes "check_registration P rq = Inr u"
  shows "rq_device_id rq = device_id_from_public_key (crypto_prims.truncate P) (rq_public_key rq)"
    and "verify_signature_base64 (crypto_prims.truncate P) (rq_public_key rq)
        (registration_message (rq_device_id rq) (rq_device_name rq) (rq_os rq) (rq_nonce rq))
        (rq_signature rq) = Inr ()"
    and "verify_signature_base64 (crypto_prims.truncate P) (rq_public_key rq)
        (relay_key_binding_message (rq_device_id rq) (rq_relay_public_key rq))
        (rq_relay_public_key_signature rq) = Inr ()"
  using assms
  by (auto simp: check_registration_def Let_def result_bind_Inr_iff of_crypto_Inr_iff split: if_splits)

lemma consume_join_token_Inr:
  assumes "consume_join_token P now tok db = (Inr e, db1)"
  obtains r where "r \<in> set (db_join_tokens db)" "jk_token_hash r = hash_of P tok" "jk_used_at r = None"
    "now \<le> jk_expires_at r" "e = jk_expires_at r"
    "db1 = db\<lparr>db_join_tokens := map (\<lambda>x. if jk_token_hash x = hash_of P tok
       then x\<lparr>jk_used_at := Some now\<rparr> else x) (db_join_tokens db)\<rparr>"
  using assms find_Some_member [of "\<lambda>r. jk_token_hash r = hash_of P tok"]
  by (fastforce simp: consume_join_token_def split: option.splits if_splits)

lemma admit_device_cases:
  assumes "admit_device P now rq db = (Inr e, db1)"
  obtains (known) r where "r \<in> set (db_devices db)" "dr_device_id r = rq_device_id rq"
      "dr_public_key r = rq_public_key rq" "db1 = update_device rq now db"
      "e = (case dr_session_deadline_at r of Some d \<Rightarrow> d | None \<Rightarrow> i64_add now legacy_session_ttl_seconds)"
      "\<And>d. dr_session_deadline_at r = Some d \<Longrightarrow> now \<le> d"
    | (fresh) tok db2 where "\<not> has_device db (rq_device_id rq)" "rq_join_token rq = Some tok"
      "consume_join_token P now tok db = (Inr e, db2)"
      "db1 = db2\<lparr>db_devices := db_devices db2 @ [new_device_row rq e now]\<rparr>"
proof (cases "List.find (\<lambda>r. dr_device_id r = rq_device_id rq) (db_devices db)")
  case None
  then have "\<not> has_device db (rq_device_id rq)"
    by (auto simp: has_device_def list_ex_iff find_None_iff)
  with None assms fresh show thesis
    by (auto simp: admit_device_def dest!: insert_device_frame split: option.splits prod.splits sum.splits)
next
  case (Some r)
  with assms find_Some_member [OF Some] known [of r] show thesis
    by (auto simp: admit_device_def split: option.splits if_splits)
qed

definition updated_row :: "register_device_request \<Rightarrow> int \<Rightarrow> device_row \<Rightarrow> device_row" where
  "updated_row rq now r =
     r\<lparr>dr_device_name := rq_device_name rq, dr_relay_public_key := Some (rq_relay_public_key rq),
       dr_relay_public_key_signature := Some (rq_relay_public_key_signature rq),
       dr_os := rq_os rq, dr_version := rq_version rq, dr_last_seen_at := now\<rparr>"

lemma admitted_row:
  assumes "admit_device P now rq db = (Inr e, db1)"
  shows "\<exists>r\<in>set (db_devices db1). dr_device_id r = rq_device_id rq \<and> dr_public_key r = rq_public_key rq
    \<and> dr_relay_public_key r = Some (rq_relay_public_key rq)
    \<and> dr_relay_public_key_signature r = Some (rq_relay_public_key_signature rq)
    \<and> ((\<forall>r\<in>set (db_devices db). dr_session_deadline_at r \<noteq> None) \<longrightarrow> dr_session_deadline_at r = Some e)"
  using assms
proof (cases rule: admit_device_cases)
  case (known r)
  then have "updated_row rq now r \<in> set (db_devices db1)"
    by (auto simp: update_device_def updated_row_def)
  with known show ?thesis by (intro bexI [of _ "updated_row rq now r"]) (auto simp: updated_row_def)
qed (simp add: new_device_row_def)

text \<open>
  C19. Who registers proves possession of the key its id is derived from, over the registration and
  over its relay key, and the directory then holds exactly these keys; a device the server does not
  know has used up a join token that was valid and unused.
\<close>

theorem register_authentic:
  assumes "db_wf P db" "register_device P now rnd rq db = (Inr rr, db')"
  shows "rq_device_id rq = device_id_from_public_key (crypto_prims.truncate P) (rq_public_key rq)
    \<and> verify_signature_base64 (crypto_prims.truncate P) (rq_public_key rq)
        (registration_message (rq_device_id rq) (rq_device_name rq) (rq_os rq) (rq_nonce rq))
        (rq_signature rq) = Inr ()
    \<and> verify_signature_base64 (crypto_prims.truncate P) (rq_public_key rq)
        (relay_key_binding_message (rq_device_id rq) (rq_relay_public_key rq))
        (rq_relay_public_key_signature rq) = Inr ()
    \<and> device_identity_public_key (rq_device_id rq) db' = Inr (rq_public_key rq)
    \<and> (\<exists>r\<in>set (db_devices db'). dr_device_id r = rq_device_id rq
          \<and> dr_relay_public_key r = Some (rq_relay_public_key rq)
          \<and> dr_relay_public_key_signature r = Some (rq_relay_public_key_signature rq))
    \<and> (\<not> has_device db (rq_device_id rq) \<longrightarrow>
        (\<exists>tok r. rq_join_token rq = Some tok \<and> r \<in> set (db_join_tokens db)
          \<and> jk_token_hash r = hash_of P tok \<and> jk_used_at r = None \<and> now \<le> jk_expires_at r
          \<and> r\<lparr>jk_used_at := Some now\<rparr> \<in> set (db_join_tokens db')))"
proof -
  have wf: "db_wf P db'" using register_device_wf [OF assms(1), of now rnd rq] assms(2) by simp
  from assms(2) obtain u db1 where check: "check_registration P rq = Inr u"
    and admit: "admit_device P now rq db = (Inr (rr_session_expires_at rr), db1)"
    and db': "db_devices db' = db_devices db1" "db_join_tokens db' = db_join_tokens db1"
    by (rule register_device_result) simp
  from admitted_row [OF admit] obtain r where r: "r \<in> set (db_devices db')" "dr_device_id r = rq_device_id rq"
    "dr_public_key r = rq_public_key rq" "dr_relay_public_key r = Some (rq_relay_public_key rq)"
    "dr_relay_public_key_signature r = Some (rq_relay_public_key_signature rq)"
    by (auto simp: db')
  have "device_identity_public_key (rq_device_id rq) db' = Inr (rq_public_key rq)"
    using find_Some_iff_distinct [of dr_device_id "db_devices db'" r] db_wfD(1) [OF wf] r
    by (simp add: device_identity_public_key_def keys_ok_def)
  moreover have "\<exists>tok r. rq_join_token rq = Some tok \<and> r \<in> set (db_join_tokens db)
      \<and> jk_token_hash r = hash_of P tok \<and> jk_used_at r = None \<and> now \<le> jk_expires_at r
      \<and> r\<lparr>jk_used_at := Some now\<rparr> \<in> set (db_join_tokens db')"
    if "\<not> has_device db (rq_device_id rq)"
    using admit
  proof (cases rule: admit_device_cases)
    case (known r)
    with that show ?thesis by (auto simp: has_device_def list_ex_iff)
  next
    case (fresh tok db2)
    from fresh(3) show ?thesis
      by (rule consume_join_token_Inr) (auto simp: fresh db' image_iff)
  qed
  ultimately show ?thesis using check_registration_Inr [OF check] r by blast
qed

theorem register_authentic_witness:
  "device_identity_public_key (demo_id (CHR ''A'')) demo_db1 = Inr (replicate 32 (CHR ''A''))"
  using register_authentic [OF demo_wf(1) demo_registration] unfolding demo_register_fields by blast

text \<open>A join token that has been used stays in the table and stays used.\<close>

definition token_used :: "string \<Rightarrow> join_token_row list \<Rightarrow> bool" where
  "token_used h toks = (\<exists>r\<in>set toks. jk_token_hash r = h \<and> jk_used_at r \<noteq> None)"

lemma insert_join_token_used:
  "insert_join_token r db = Inr db' \<Longrightarrow> token_used h (db_join_tokens db) \<Longrightarrow> token_used h (db_join_tokens db')"
  by (auto simp: insert_join_token_def token_used_def split: if_splits)

lemma consume_join_token_used:
  assumes "consume_join_token P now tok db = (r, db')" "token_used h (db_join_tokens db)"
  shows "token_used h (db_join_tokens db')"
proof (cases r)
  case (Inl e)
  with assms show ?thesis by (auto simp: consume_join_token_def split: option.splits if_splits)
next
  case (Inr e)
  obtain x where x: "x \<in> set (db_join_tokens db)" "jk_token_hash x = h" "jk_used_at x \<noteq> None"
    using assms(2) by (auto simp: token_used_def)
  have c: "consume_join_token P now tok db = (Inr e, db')" using assms(1) Inr by simp
  show ?thesis
    by (rule consume_join_token_Inr [OF c]) (use x in \<open>auto simp: token_used_def bex_Un\<close>)
qed

lemma join_tokens_frame [frame_simps]:
  "db_join_tokens (update_device rq now db) = db_join_tokens db"
  "db_join_tokens (touch_device now d db) = db_join_tokens db"
  "db_join_tokens (delete_acl sid db) = db_join_tokens db"
  "db_join_tokens (delete_attempts sid db) = db_join_tokens db"
  "db_join_tokens (update_attempts sid f db) = db_join_tokens db"
  "insert_device r db = Inr db' \<Longrightarrow> db_join_tokens db' = db_join_tokens db"
  "insert_acls sid ds db = Inr db' \<Longrightarrow> db_join_tokens db' = db_join_tokens db"
  "upsert_service_row v db = Inr db' \<Longrightarrow> db_join_tokens db' = db_join_tokens db"
  "delete_service_row sid d db = Inr db' \<Longrightarrow> db_join_tokens db' = db_join_tokens db"
  "insert_attempt a db = Inr db' \<Longrightarrow> db_join_tokens db' = db_join_tokens db"
  "db_join_tokens (snd (replace_session P now rnd d e db)) = db_join_tokens db"
  by (auto simp: update_device_def touch_device_def delete_acl_def delete_attempts_def update_attempts_def
      insert_device_def upsert_service_row_def delete_service_row_def insert_attempt_def Let_def
      replace_session_def insert_session_def dest!: insert_acls_result(1) split: if_splits sum.splits)

lemma insert_config_tokens [frame_simps]:
  "insert_config k v db = Inr db' \<Longrightarrow> db_join_tokens db' = db_join_tokens db"
  by (auto simp: insert_config_def split: if_splits)

lemma admit_device_used:
  "admit_device P now rq db = (r, db') \<Longrightarrow> token_used h (db_join_tokens db) \<Longrightarrow> token_used h (db_join_tokens db')"
  by (auto simp: admit_device_def frame_simps dest: consume_join_token_used
      split: option.splits prod.splits sum.splits if_splits)

lemma db_exec_used:
  assumes used: "token_used h (db_join_tokens db)"
  shows "token_used h (db_join_tokens (db_exec P op db))"
proof (cases op)
  case (Sec_Bootstrap now r1 r2)
  with used show ?thesis
    by (auto simp: bootstrap_init_def Let_def result_bind_Inr_iff frame_simps
        elim!: insert_join_token_used split: sum.splits)
next
  case (Sec_CreateJoinToken now rnd rq)
  with used show ?thesis
    by (auto simp: create_join_token_locked_def Let_def elim!: insert_join_token_used split: sum.splits)
next
  case (Sec_Register now rnd rq)
  with used show ?thesis
    by (auto simp: register_device_def frame_simps dest: admit_device_used split: sum.splits prod.splits)
next
  case (Sec_UpsertService now d rq)
  with used show ?thesis
    by (auto simp: upsert_service_locked_def Let_def result_bind_Inr_iff frame_simps split: sum.splits)
next
  case (Sec_DeleteService d name)
  with used show ?thesis
    by (auto simp: delete_service_locked_def Let_def frame_simps split: sum.splits)
next
  case (Sec_StartRendezvous now rnd source owner name protocol cs)
  with used show ?thesis
    by (auto simp: start_rendezvous_locked_def Let_def frame_simps split: sum.splits)
next
  case (Sec_UpdateCandidates now d rid cs)
  with used show ?thesis
    by (auto simp: update_candidates_locked_def Let_def frame_simps split: option.splits)
qed (use used in \<open>simp_all add: clear_devices_result frame_simps\<close>)

text \<open>
  C20. A join token is spent once: after it has been consumed, no number of requests of any kind
  in between, by whatever devices, makes it acceptable again.
\<close>

theorem join_token_single_use:
  assumes "db_wf P db" "consume_join_token P now tok db = (Inr e, db1)"
  shows "fst (consume_join_token P later tok (db_run P ops db1)) = Inl Unauthorized"
proof -
  have wf1: "db_wf P db1" using consume_join_token_wf [OF assms(1), of now tok] assms(2) by simp
  have "token_used (hash_of P tok) (db_join_tokens db1)"
    by (rule consume_join_token_Inr [OF assms(2)]) (auto simp: token_used_def bex_Un)
  then have used: "token_used (hash_of P tok) (db_join_tokens (db_run P ops db1))"
    by (rule dbs.run_induct [OF wf1]) (rule db_exec_used)
  have wf: "db_wf P (db_run P ops db1)" using wf1 by (rule dbs.run_inv)
  from used obtain r where "r \<in> set (db_join_tokens (db_run P ops db1))" "jk_token_hash r = hash_of P tok"
    "jk_used_at r \<noteq> None" by (auto simp: token_used_def)
  with find_Some_iff_distinct [of jk_token_hash "db_join_tokens (db_run P ops db1)" r] db_wfD(1) [OF wf]
  show ?thesis by (simp add: consume_join_token_def keys_ok_def)
qed

theorem join_token_single_use_witness:
  "fst (consume_join_token toy_server 7 ''join_B'' (db_run toy_server [Sec_Touch 6 (demo_id (CHR ''A''))]
     (snd (consume_join_token toy_server 5 ''join_B'' demo_db0)))) = Inl Unauthorized"
  by (rule join_token_single_use [OF demo_wf(1), of 5 _ 600]) (simp add: demo_consume prod_eq_iff)

text \<open>The deadline of a device the server knows never moves, unless all devices are cleared.\<close>

definition has_deadline :: "string \<Rightarrow> int \<Rightarrow> device_row list \<Rightarrow> bool" where
  "has_deadline d t rows = (\<exists>r\<in>set rows. dr_device_id r = d \<and> dr_session_deadline_at r = Some t)"

lemma has_deadline_map:
  assumes "\<And>r. dr_device_id (g r) = dr_device_id r" "\<And>r. dr_session_deadline_at (g r) = dr_session_deadline_at r"
  shows "has_deadline d t (map g rows) = has_deadline d t rows"
  using assms by (simp add: has_deadline_def)

lemma devices_frame [frame_simps]:
  "db_devices (delete_acl sid db) = db_devices db"
  "db_devices (delete_attempts sid db) = db_devices db"
  "db_devices (update_attempts sid f db) = db_devices db"
  "insert_config k v db = Inr db' \<Longrightarrow> db_devices db' = db_devices db"
  "insert_join_token j db = Inr db' \<Longrightarrow> db_devices db' = db_devices db"
  "insert_acls sid ds db = Inr db' \<Longrightarrow> db_devices db' = db_devices db"
  "upsert_service_row w db = Inr db' \<Longrightarrow> db_devices db' = db_devices db"
  "delete_service_row sid d db = Inr db' \<Longrightarrow> db_devices db' = db_devices db"
  "insert_attempt a db = Inr db' \<Longrightarrow> db_devices db' = db_devices db"
  "db_devices (snd (replace_session P now rnd d e db)) = db_devices db"
  "db_devices (snd (upsert_service_locked P now d rqu db)) = db_devices db"
  "db_devices (snd (delete_service_locked P d name db)) = db_devices db"
  "db_devices (snd (start_rendezvous_locked P now rnd d sv cs db)) = db_devices db"
  "db_devices (snd (update_candidates_locked P now d rid cs db)) = db_devices db"
  "db_devices (snd (bootstrap_init P now r1 r2 db)) = db_devices db"
  "db_devices (snd (create_join_token_locked P now rnd rqj db)) = db_devices db"
  by (auto simp: delete_acl_def delete_attempts_def update_attempts_def insert_config_def
      insert_join_token_def upsert_service_row_def delete_service_row_def insert_attempt_def Let_def
      replace_session_def insert_session_def upsert_service_locked_def delete_service_locked_def
      start_rendezvous_locked_def update_candidates_locked_def bootstrap_init_def
      create_join_token_locked_def result_bind_Inr_iff
      dest!: insert_acls_result(1) split: if_splits sum.splits option.splits)

lemma consume_join_token_devices:
  "consume_join_token P now tok db = (r, db') \<Longrightarrow> db_devices db' = db_devices db"
  using consume_join_token_frame(1) [of P now tok db] by simp

lemma update_device_has_device: "has_device (update_device rq now db) d = has_device db d"
  by (auto simp: has_device_def list_ex_iff update_device_def bex_Un)

lemma admit_device_deadline:
  assumes "admit_device P now rq db = (r, db')" "has_deadline d t (db_devices db)"
  shows "has_deadline d t (db_devices db')"
proof (cases r)
  case (Inr e)
  then have "admit_device P now rq db = (Inr e, db')" using assms(1) by simp
  then show ?thesis
  proof (cases rule: admit_device_cases)
    case (known x)
    with assms(2) show ?thesis by (simp add: update_device_def has_deadline_map)
  next
    case (fresh tok db2)
    then have "db_devices db2 = db_devices db"
      using consume_join_token_frame(1) [of P now tok db] by simp
    with fresh assms(2) show ?thesis by (auto simp: has_deadline_def)
  qed
next
  case (Inl m)
  then have "db_devices db' = db_devices db"
    using assms(1)
    by (auto simp: admit_device_def dest: consume_join_token_devices
        split: option.splits prod.splits sum.splits if_splits)
  with assms(2) show ?thesis by simp
qed

lemma db_exec_deadline:
  assumes "has_deadline d t (db_devices db)" "Sec_ClearDevices \<noteq> op"
  shows "has_deadline d t (db_devices (db_exec P op db))"
proof (cases op)
  case (Sec_Register now rnd rq)
  with assms show ?thesis
    by (auto simp: register_device_def frame_simps dest: admit_device_deadline split: sum.splits prod.splits)
next
  case (Sec_Touch now device)
  with assms show ?thesis by (simp add: touch_device_def has_deadline_map)
qed (use assms in \<open>simp_all add: frame_simps\<close>)

text \<open>
  A device past its session deadline is locked out for good: from then on every registration
  of it is refused, with any join token, a fresh one included, until an administrator clears all
  devices.
\<close>

theorem expired_device_locked_out:
  assumes "db_wf P db" "r \<in> set (db_devices db)" "dr_session_deadline_at r = Some deadline"
    "deadline < now" "Sec_ClearDevices \<notin> set ops" "rq_device_id rq = dr_device_id r"
  shows "\<exists>e. fst (register_device P now rnd rq (db_run P ops db)) = Inl e"
proof -
  let ?d = "rq_device_id rq"
  have "has_deadline ?d deadline (db_devices (db_run P ops db))"
  proof -
    have "has_deadline ?d deadline (db_devices db)" using assms(2,3,6) by (auto simp: has_deadline_def)
    with assms(5) show ?thesis unfolding db_run_def
      by (induction ops arbitrary: db) (simp_all add: db_exec_deadline)
  qed
  then obtain x where x: "x \<in> set (db_devices (db_run P ops db))" "dr_device_id x = ?d"
    "dr_session_deadline_at x = Some deadline" by (auto simp: has_deadline_def)
  have "db_wf P (db_run P ops db)" using assms(1) by (rule dbs.run_inv)
  from find_Some_iff_distinct [of dr_device_id "db_devices (db_run P ops db)" x] db_wfD(1) [OF this] x
  have "List.find (\<lambda>r. dr_device_id r = ?d) (db_devices (db_run P ops db)) = Some x"
    by (simp add: keys_ok_def)
  with x(3) assms(4) show ?thesis by (simp add: register_device_def admit_device_def split: sum.split)
qed

theorem expired_device_locked_out_witness:
  "\<exists>e. fst (register_device toy_server 601 [68] (demo_register (CHR ''A'') ''join_Z'')
     (db_run toy_server [Sec_Touch 590 (demo_id (CHR ''A'')), Sec_CreateJoinToken 600 [90] (create_join_token_request.make None None)]
       demo_db1)) = Inl e"
  by (rule expired_device_locked_out [OF demo_wf(2), of "new_device_row (demo_register (CHR ''A'') ''join_B'') 600 5" 600])
    (simp_all add: demo_db1_def new_device_row_def demo_register_def)

text \<open>
  The nonce of a registration is not remembered: a recorded registration of a device the
  server knows is accepted again, and the replay takes the device's session over.
\<close>

theorem registration_replayable:
  assumes "db_wf P db" "register_device P now rnd rq db = (Inr rr, db')"
    "later \<le> rr_session_expires_at rr"
    "hash_of P (token_of P rnd' ''sess'') \<notin> se_token_hash ` set (db_sessions db')"
    "\<forall>r\<in>set (db_devices db). dr_session_deadline_at r \<noteq> None"
  shows "fst (register_device P later rnd' rq db')
    = Inr \<lparr>rr_device_id = rq_device_id rq, rr_session_token = token_of P rnd' ''sess'',
           rr_session_expires_at = rr_session_expires_at rr\<rparr>"
proof -
  have wf: "db_wf P db'" using register_device_wf [OF assms(1), of now rnd rq] assms(2) by simp
  from assms(2) obtain u db1 where check: "check_registration P rq = Inr u"
    and admit: "admit_device P now rq db = (Inr (rr_session_expires_at rr), db1)"
    and db': "db_devices db' = db_devices db1"
    by (rule register_device_result) simp
  from admitted_row [OF admit] assms(5) obtain r where r: "r \<in> set (db_devices db')"
    "dr_device_id r = rq_device_id rq" "dr_public_key r = rq_public_key rq"
    "dr_session_deadline_at r = Some (rr_session_expires_at rr)"
    by (auto simp: db')
  from find_Some_iff_distinct [of dr_device_id "db_devices db'" r] db_wfD(1) [OF wf] r(1,2)
  have "List.find (\<lambda>r. dr_device_id r = rq_device_id rq) (db_devices db') = Some r"
    by (simp add: keys_ok_def)
  with r assms(3) have again: "admit_device P later rq db' = (Inr (rr_session_expires_at rr), update_device rq later db')"
    by (simp add: admit_device_def)
  have "has_device (update_device rq later db') (rq_device_id rq)"
    unfolding update_device_has_device using r(1,2) by (auto simp: has_device_def list_ex_iff)
  moreover have "db_sessions (update_device rq later db') = db_sessions db'"
    by (simp add: update_device_def)
  moreover have "\<not> list_ex (\<lambda>x. se_token_hash x = hash_of P (token_of P rnd' ''sess''))
      (filter (\<lambda>r. se_device_id r \<noteq> rq_device_id rq) (db_sessions db'))"
    using assms(4) by (force simp: list_ex_iff)
  ultimately show ?thesis
    by (simp add: register_device_def check again replace_session_def insert_session_def
        Let_def has_device_def)
qed

theorem registration_replayable_witness:
  "fst (register_device toy_server 300 [71] (demo_register (CHR ''A'') ''join_B'') demo_db1)
    = Inr \<lparr>rr_device_id = demo_id (CHR ''A''), rr_session_token = ''sess_G'', rr_session_expires_at = 600\<rparr>"
proof -
  have "hash_secret toy_prims ''sess_G'' \<noteq> demo_hash ''sess_C''" by code_simp
  then show ?thesis
    using registration_replayable [OF demo_wf(1) demo_registration, of 300 "[71]"]
    by (simp add: demo_db0_def demo_db1_def)
qed

lemma config_frame [frame_simps]:
  "db_config (delete_acl sid db) = db_config db"
  "db_config (delete_attempts sid db) = db_config db"
  "db_config (update_attempts sid f db) = db_config db"
  "db_config (update_device rq now db) = db_config db"
  "db_config (touch_device now d db) = db_config db"
  "insert_device r db = Inr db' \<Longrightarrow> db_config db' = db_config db"
  "insert_join_token j db = Inr db' \<Longrightarrow> db_config db' = db_config db"
  "insert_attempt a db = Inr db' \<Longrightarrow> db_config db' = db_config db"
  "consume_join_token P now tok db = (e, db') \<Longrightarrow> db_config db' = db_config db"
  "db_config (snd (replace_session P now rnd d x db)) = db_config db"
  "db_config (snd (upsert_service_locked P now d rqu db)) = db_config db"
  "db_config (snd (delete_service_locked P d name db)) = db_config db"
  "db_config (snd (create_join_token_locked P now rnd rqj db)) = db_config db"
  by (auto simp: delete_acl_def delete_attempts_def update_attempts_def update_device_def touch_device_def
      insert_device_def insert_join_token_def upsert_service_row_def delete_service_row_def
      insert_attempt_def Let_def replace_session_def insert_session_def upsert_service_locked_def
      delete_service_locked_def create_join_token_locked_def consume_join_token_def result_bind_Inr_iff
      dest!: insert_acls_result(1) split: if_splits sum.splits option.splits)

lemma admit_device_config [frame_simps]:
  "admit_device P now rq db = (r, db') \<Longrightarrow> db_config db' = db_config db"
  by (auto simp: admit_device_def frame_simps split: option.splits prod.splits sum.splits if_splits)

lemma db_exec_config:
  "map_of (db_config db) admin_key = Some h \<Longrightarrow> map_of (db_config (db_exec P op db)) admin_key = Some h"
  by (cases op)
    (auto simp: bootstrap_init_def register_device_def clear_devices_result frame_simps
      start_rendezvous_locked_def update_candidates_locked_def Let_def
      split: sum.splits prod.splits option.splits)

text \<open>
  The server is initialised once: after a successful bootstrap every further one fails with a
  conflict, whatever happens in between, and the administrator's token stays valid.
\<close>

theorem bootstrap_once:
  assumes "db_wf P db" "bootstrap_init P now r1 r2 db = (Inr bi, db1)"
  shows "ensure_admin P (bi_admin_token bi) (db_run P ops db1) = Inr ()
    \<and> bootstrap_init P later r3 r4 (db_run P ops db1)
        = (Inl (Conflict ''server is already initialized''), db_run P ops db1)"
proof -
  have wf1: "db_wf P db1" using bootstrap_wf [OF assms(1), of now r1 r2] assms(2) by simp
  let ?h = "hash_of P (bi_admin_token bi)"
  have "map_of (db_config db1) admin_key = Some ?h"
    using assms(2)
    by (auto simp: bootstrap_init_def Let_def result_bind_Inr_iff insert_config_def insert_join_token_def
        map_add_def split: if_splits sum.splits option.splits)
  then have "map_of (db_config (db_run P ops db1)) admin_key = Some ?h"
    by (rule dbs.run_induct [OF wf1, where Q = "\<lambda>db. map_of (db_config db) admin_key = Some ?h"])
      (rule db_exec_config)
  then show ?thesis by (simp add: ensure_admin_def bootstrap_init_def)
qed

theorem bootstrap_once_witness:
  "ensure_admin toy_server ''adm_A'' (db_run toy_server [Sec_ClearDevices] demo_db0) = Inr ()"
  using bootstrap_once [OF db_empty_wf demo_bootstrap, of "[Sec_ClearDevices]"] by simp

section \<open>Grants\<close>

lemma authorize_iff:
  assumes "keys_ok db" "r \<in> set (db_services db)"
  shows "authorize_relay_service source (sv_service_id r) db
    = (if sv_owner_device_id r = source \<or> in_acl db (sv_service_id r) source
       then Inr (to_service_definition r) else Inl Forbidden)"
  using assms find_Some_iff_distinct [of sv_service_id "db_services db" r]
  by (simp add: authorize_relay_service_def keys_ok_def)

lemma authorize_NotFound:
  "sid \<notin> service_ids db \<Longrightarrow> authorize_relay_service source sid db = Inl (NotFound ''service was not found'')"
  by (auto simp: authorize_relay_service_def service_ids_def find_None_iff split: option.split
      dest: find_Some_member)

lemma upsert_service_locked_Inr:
  assumes "upsert_service_locked P now owner rq db = (Inr sd, db')"
  obtains db1 where "sd = \<lparr>sd_service_id = sid_of P owner (us_name rq), sd_owner_device_id = owner,
      sd_name = us_name rq, sd_protocol = ''tcp''\<rparr>"
    "upsert_service_row \<lparr>sv_service_id = sd_service_id sd, sv_owner_device_id = owner,
       sv_service_name = us_name rq, sv_protocol = ''tcp'', sv_target_host = [], sv_target_port = 0,
       sv_created_at = now, sv_updated_at = now\<rparr> db = Inr db1"
    "db' = db1\<lparr>db_acl := filter (\<lambda>r. al_service_id r \<noteq> sd_service_id sd) (db_acl db1)
       @ map (\<lambda>d. \<lparr>al_service_id = sd_service_id sd, al_source_device_id = d\<rparr>) (us_allowed_device_ids rq)\<rparr>"
  using assms
  by (auto simp: upsert_service_locked_def Let_def result_bind_Inr_iff delete_acl_def
      dest!: insert_acls_result(1) split: sum.splits)

lemma upsert_service_row_find:
  assumes "upsert_service_row r db = Inr db'" "sid \<noteq> sv_service_id r"
  shows "List.find (\<lambda>x. sv_service_id x = sid) (db_services db')
    = List.find (\<lambda>x. sv_service_id x = sid) (db_services db)"
  using assms by (auto simp: upsert_service_row_def find_map_other find_append_other split: if_splits)

lemma upsert_service_row_exists:
  "upsert_service_row r db = Inr db' \<Longrightarrow> \<exists>x\<in>set (db_services db'). sv_service_id x = sv_service_id r"
  by (auto simp: upsert_service_row_def has_service_def list_ex_iff bex_Un split: if_splits)

lemma upsert_service_row_origin:
  assumes "upsert_service_row r db = Inr db'" "x \<in> set (db_services db')" "sv_service_id x = sv_service_id r"
  shows "sv_owner_device_id x = sv_owner_device_id r \<and> sv_service_name x = sv_service_name r
    \<or> (\<exists>y\<in>set (db_services db). sv_service_id y = sv_service_id r
        \<and> sv_owner_device_id x = sv_owner_device_id y \<and> sv_service_name x = sv_service_name y)"
proof (cases "has_service db (sv_service_id r)")
  case True
  let ?g = "\<lambda>x. if sv_service_id x = sv_service_id r
    then x\<lparr>sv_target_host := sv_target_host r, sv_target_port := sv_target_port r,
           sv_updated_at := sv_updated_at r\<rparr> else x"
  from True assms(1,2) have "x \<in> ?g ` set (db_services db)"
    unfolding upsert_service_row_def by force
  then obtain y where "y \<in> set (db_services db)" "x = ?g y" by blast
  with assms(3) show ?thesis by (intro disjI2 bexI [of _ y]) (auto split: if_splits)
next
  case False
  with assms show ?thesis
    by (auto simp: upsert_service_row_def has_service_def list_ex_iff split: if_splits)
qed

lemma authorize_cong:
  assumes "List.find (\<lambda>r. sv_service_id r = sid) (db_services db') = List.find (\<lambda>r. sv_service_id r = sid) (db_services db)"
    and "in_acl db' sid source = in_acl db sid source"
  shows "authorize_relay_service source sid db' = authorize_relay_service source sid db"
  using assms by (simp add: authorize_relay_service_def cong: option.case_cong)

lemma upsert_grants:
  assumes "db_wf P db" "upsert_service_locked P now owner rq db = (Inr sd, db')"
    "\<forall>r\<in>set (db_services db). sv_service_id r = sd_service_id sd
       \<longrightarrow> sv_owner_device_id r = owner \<and> sv_service_name r = us_name rq"
  shows "authorize_relay_service source (sd_service_id sd) db'
      = (if source = owner \<or> source \<in> set (us_allowed_device_ids rq) then Inr sd else Inl Forbidden)
    \<and> (sid \<noteq> sd_service_id sd \<longrightarrow>
        authorize_relay_service source sid db' = authorize_relay_service source sid db)"
proof -
  have wf: "db_wf P db'" using upsert_service_locked_wf [OF assms(1), of now owner rq] assms(2) by simp
  from assms(2) obtain db1 where sd: "sd = \<lparr>sd_service_id = sid_of P owner (us_name rq),
      sd_owner_device_id = owner, sd_name = us_name rq, sd_protocol = ''tcp''\<rparr>"
    and row: "upsert_service_row \<lparr>sv_service_id = sd_service_id sd, sv_owner_device_id = owner,
       sv_service_name = us_name rq, sv_protocol = ''tcp'', sv_target_host = [], sv_target_port = 0,
       sv_created_at = now, sv_updated_at = now\<rparr> db = Inr db1"
    and db': "db' = db1\<lparr>db_acl := filter (\<lambda>r. al_service_id r \<noteq> sd_service_id sd) (db_acl db1)
       @ map (\<lambda>d. \<lparr>al_service_id = sd_service_id sd, al_source_device_id = d\<rparr>) (us_allowed_device_ids rq)\<rparr>"
    by (rule upsert_service_locked_Inr)
  from upsert_service_row_exists [OF row] obtain x where x: "x \<in> set (db_services db')"
    "sv_service_id x = sd_service_id sd" by (auto simp: db')
  with upsert_service_row_origin [OF row, of x] assms(3)
  have owner: "sv_owner_device_id x = owner" "sv_service_name x = us_name rq" by (auto simp: db')
  have def: "to_service_definition x = sd"
    using db_wfD(3) [OF wf] x owner by (simp add: derived_ok_def to_service_definition_def sd)
  have acl: "in_acl db' (sd_service_id sd) source \<longleftrightarrow> source \<in> set (us_allowed_device_ids rq)"
    by (auto simp: in_acl_def db' list_ex_iff bex_Un)
  have "authorize_relay_service source (sd_service_id sd) db'
      = (if source = owner \<or> source \<in> set (us_allowed_device_ids rq) then Inr sd else Inl Forbidden)"
    using authorize_iff [OF db_wfD(1) [OF wf] x(1), of source] by (simp add: x(2) owner def acl eq_commute)
  moreover have "authorize_relay_service source sid db' = authorize_relay_service source sid db"
    if "sid \<noteq> sd_service_id sd"
  proof -
    have "db_acl db1 = db_acl db"
      using row by (auto simp: upsert_service_row_def split: if_splits)
    then have "in_acl db' sid source = in_acl db sid source"
      using that by (auto simp: in_acl_def db' list_ex_iff)
    with upsert_service_row_find [OF row, of sid] that show ?thesis
      by (intro authorize_cong) (simp_all add: db')
  qed
  ultimately show ?thesis by blast
qed

text \<open>
  Publishing a service grants it to exactly its owner and the devices of the request: the
  grants of an earlier publication are gone, and all other services are authorised as before.
  (The id of the service must not collide with the id of another one.)
\<close>

theorem upsert_grants_exactly:
  assumes "db_wf P db" "upsert_service_locked P now owner rq db = (Inr sd, db')"
    "\<forall>r\<in>set (db_services db). sv_service_id r = sd_service_id sd
       \<longrightarrow> sv_owner_device_id r = owner \<and> sv_service_name r = us_name rq"
  shows "authorize_relay_service source (sd_service_id sd) db'
      = (if source = owner \<or> source \<in> set (us_allowed_device_ids rq) then Inr sd else Inl Forbidden)
    \<and> (sid \<noteq> sd_service_id sd \<longrightarrow>
        authorize_relay_service source sid db' = authorize_relay_service source sid db)"
  by (rule upsert_grants [OF assms])

theorem upsert_grants_exactly_witness:
  "authorize_relay_service (demo_id (CHR ''B'')) (sd_service_id demo_service) demo_db2 = Inr demo_service
    \<and> authorize_relay_service (demo_id (CHR ''C'')) (sd_service_id demo_service) demo_db2 = Inl Forbidden"
proof -
  have "\<forall>r\<in>set (db_services demo_db1). sv_service_id r = sd_service_id demo_service
      \<longrightarrow> sv_owner_device_id r = demo_id (CHR ''A'') \<and> sv_service_name r = us_name demo_publish"
    by (simp add: demo_db1_def)
  note upsert_grants_exactly [OF demo_wf(2) demo_published this]
  from this [of "demo_id (CHR ''B'')"] this [of "demo_id (CHR ''C'')"] show ?thesis
    by (simp add: demo_publish_def demo_id_def)
qed

lemma delete_service_locked_Inr:
  assumes "delete_service_locked P owner name db = (Inr sd, db')"
  obtains x where "sd_service_id sd = sid_of P owner name" "x \<in> set (db_services db)"
    "sv_service_id x = sd_service_id sd" "sv_owner_device_id x = owner"
    "db' = db\<lparr>db_services := filter (\<lambda>r. \<not> (sv_service_id r = sd_service_id sd \<and> sv_owner_device_id r = owner))
         (db_services db),
       db_acl := filter (\<lambda>r. al_service_id r \<noteq> sd_service_id sd) (db_acl db),
       db_attempts := filter (\<lambda>r. rv_service_id r \<noteq> sd_service_id sd) (db_attempts db)\<rparr>"
  using assms
  by (auto simp: delete_service_locked_def delete_service_row_def delete_acl_def delete_attempts_def
      Let_def list_ex_iff split: if_splits sum.splits)

text \<open>
  Deleting a service revokes it for everybody, its owner included, and ends its rendezvous
  attempts; all other services are authorised as before and their attempts stay.
\<close>

theorem delete_service_revokes:
  assumes "db_wf P db" "delete_service_locked P owner name db = (Inr sd, db')"
  shows "authorize_relay_service source (sd_service_id sd) db' = Inl (NotFound ''service was not found'')
    \<and> db_attempts db' = filter (\<lambda>r. rv_service_id r \<noteq> sd_service_id sd) (db_attempts db)
    \<and> (sid \<noteq> sd_service_id sd \<longrightarrow>
        authorize_relay_service source sid db' = authorize_relay_service source sid db)"
proof -
  from assms(2) obtain x where x: "x \<in> set (db_services db)" "sv_service_id x = sd_service_id sd"
      "sv_owner_device_id x = owner"
    and db': "db' = db\<lparr>db_services := filter (\<lambda>r. \<not> (sv_service_id r = sd_service_id sd \<and> sv_owner_device_id r = owner))
         (db_services db),
       db_acl := filter (\<lambda>r. al_service_id r \<noteq> sd_service_id sd) (db_acl db),
       db_attempts := filter (\<lambda>r. rv_service_id r \<noteq> sd_service_id sd) (db_attempts db)\<rparr>"
    by (rule delete_service_locked_Inr)
  have "r = x" if "r \<in> set (db_services db)" "sv_service_id r = sd_service_id sd" for r
    using db_wfD(1) [OF assms(1)] x that by (auto simp: keys_ok_def distinct_map inj_on_def)
  then have "sd_service_id sd \<notin> service_ids db'" using x(3) by (auto simp: service_ids_def db')
  moreover have "authorize_relay_service source sid db' = authorize_relay_service source sid db"
    if "sid \<noteq> sd_service_id sd"
  proof (rule authorize_cong)
    show "in_acl db' sid source = in_acl db sid source" using that by (auto simp: in_acl_def db' list_ex_iff)
    show "List.find (\<lambda>r. sv_service_id r = sid) (db_services db')
        = List.find (\<lambda>r. sv_service_id r = sid) (db_services db)"
      using that unfolding db' by simp (rule find_filter_other, auto)
  qed
  ultimately show ?thesis by (simp add: authorize_NotFound) (simp add: db')
qed

theorem delete_service_revokes_witness:
  "authorize_relay_service (demo_id (CHR ''B'')) (sd_service_id demo_service)
     (snd (delete_service_locked toy_server (demo_id (CHR ''A'')) ''web'' demo_db2))
   = Inl (NotFound ''service was not found'')"
proof -
  have "fst (delete_service_locked toy_server (demo_id (CHR ''A'')) ''web'' demo_db2) = Inr demo_service"
    by (simp add: delete_service_locked_def demo_db2_def demo_db1_def Let_def delete_service_row_def
        delete_acl_def delete_attempts_def) (simp add: demo_service_def)
  then show ?thesis
    using delete_service_revokes [OF demo_wf(3), of "demo_id (CHR ''A'')" "''web''" demo_service]
    by (metis prod.collapse)
qed

text \<open>
  A device listed twice in a request to publish makes the whole request fail with an internal
  error and leaves the database as it was.
\<close>

theorem upsert_duplicate_fails:
  assumes "db_wf P db" "\<not> distinct (us_allowed_device_ids rq)"
  shows "\<exists>m. upsert_service_locked P now owner rq db = (Inl (Internal m), db)"
proof -
  have "\<exists>m. insert_acls s ds db1 = Inl m" if "\<not> distinct ds" "distinct (db_acl db1)" for s ds db1
  proof (cases "insert_acls s ds db1")
    case (Inr db2)
    from insert_acls_result(1,2) [OF this] that show ?thesis by (auto simp: distinct_map)
  qed simp
  note acls = this
  have "\<exists>m. result_bind (upsert_service_row r db) (\<lambda>db1. insert_acls s (us_allowed_device_ids rq) (delete_acl s db1)) = Inl m"
    for r s
  proof (cases "upsert_service_row r db")
    case (Inr db1)
    have "db_acl db1 = db_acl db" using Inr by (auto simp: upsert_service_row_def split: if_splits)
    then have "distinct (db_acl (delete_acl s db1))"
      using db_wfD(1) [OF assms(1)] by (simp add: delete_acl_def keys_ok_def)
    with acls [OF assms(2)] Inr show ?thesis by simp
  qed simp
  note tx = this
  have "\<exists>m. (case e of Inl m \<Rightarrow> (Inl (Internal m), db) | Inr db' \<Rightarrow> (Inr sd, db')) = (Inl (Internal m), db)"
    if "\<exists>m. e = Inl m" for e :: "string + database" and sd :: service_definition
    using that by auto
  then show ?thesis unfolding upsert_service_locked_def Let_def by this (rule tx)
qed

theorem upsert_duplicate_fails_witness:
  "\<exists>m. upsert_service_locked toy_server 9 (demo_id (CHR ''A''))
     \<lparr>us_name = ''web'', us_allowed_device_ids = [''b'', ''b'']\<rparr> demo_db1 = (Inl (Internal m), demo_db1)"
  using upsert_duplicate_fails [OF demo_wf(2)] by simp

section \<open>Snapshots\<close>

lemma collect_results_map:
  "\<forall>x\<in>set xs. f x = Inr (g x) \<Longrightarrow> collect_results (map f xs) = Inr (map g xs)"
  by (induction xs) auto

definition summary_of :: "int \<Rightarrow> device_row \<Rightarrow> device_summary" where
  "summary_of now r = \<lparr>dv_device_id = dr_device_id r, dv_device_name = dr_device_name r, dv_os = dr_os r,
     dv_identity_public_key = dr_public_key r, dv_relay_public_key = the (dr_relay_public_key r),
     dv_relay_public_key_signature = the (dr_relay_public_key_signature r),
     dv_last_seen_at = dr_last_seen_at r,
     dv_is_online = (i64_wrap (now - dr_last_seen_at r) \<le> online_window_seconds)\<rparr>"

lemma summary_of_simps [simp]:
  "dv_device_id (summary_of now r) = dr_device_id r"
  "dv_is_online (summary_of now r) = (i64_wrap (now - dr_last_seen_at r) \<le> online_window_seconds)"
  by (simp_all add: summary_of_def)

lemma device_summaries_eq:
  assumes "db_wf P db"
  shows "device_summaries now db = Inr (map (summary_of now) (sort_key dr_device_name (db_devices db)))"
proof -
  have "\<forall>r\<in>set (sort_key dr_device_name (db_devices db)). device_summary_of now r = Inr (summary_of now r)"
    using db_wfD(3) [OF assms] by (auto simp: derived_ok_def device_summary_of_def summary_of_def)
  then show ?thesis unfolding device_summaries_def by (rule collect_results_map)
qed

lemma visible_authorized:
  assumes "db_wf P db"
  shows "sd \<in> to_service_definition ` set (visible_services d db)
      \<longleftrightarrow> authorize_relay_service d (sd_service_id sd) db = Inr sd" (is "?vis = ?auth")
proof
  assume ?vis
  then obtain r where r: "r \<in> set (db_services db)" "sv_owner_device_id r = d \<or> in_acl db (sv_service_id r) d"
    "sd = to_service_definition r" by (auto simp: visible_services_def)
  with authorize_iff [OF db_wfD(1) [OF assms(1)] r(1)] show ?auth by (simp add: to_service_definition_def)
next
  assume ?auth
  then show ?vis by (rule authorize_relay_service_row) (auto simp: visible_services_def)
qed

lemma network_snapshot_eq:
  assumes "db_wf P db" "session_device_id P now tok db = Inr d"
  shows "db_network_snapshot P now tok db = Inr \<lparr>ns_requester_device_id = d,
      ns_devices = map (summary_of now) (sort_key dr_device_name (db_devices db)),
      ns_services = map to_service_definition (visible_services d db)\<rparr>"
  by (simp add: db_network_snapshot_def assms(2) network_snapshot_locked_def device_summaries_eq [OF assms(1)])

text \<open>
  A device with a session always gets its snapshot: it lists exactly the services the device
  is authorised for, as the authorisation returns them, and every registered device.
\<close>

theorem snapshot_lists_grants:
  assumes "db_wf P db" "session_device_id P now tok db = Inr d"
  shows "\<exists>s. db_network_snapshot P now tok db = Inr s \<and> ns_requester_device_id s = d
    \<and> (\<forall>sd. sd \<in> set (ns_services s) \<longleftrightarrow> authorize_relay_service d (sd_service_id sd) db = Inr sd)
    \<and> map dv_device_id (ns_devices s) = map dr_device_id (sort_key dr_device_name (db_devices db))"
  using visible_authorized [OF assms(1)] by (simp add: network_snapshot_eq [OF assms] comp_def)

theorem snapshot_lists_grants_witness:
  "\<exists>s. db_network_snapshot toy_server 20 ''sess_C'' demo_db2 = Inr s \<and> demo_service \<in> set (ns_services s)"
proof -
  have "authorize_relay_service (demo_id (CHR ''A'')) (sd_service_id demo_service) demo_db2 = Inr demo_service"
    by (simp add: authorize_relay_service_def demo_db2_def to_service_definition_def)
      (simp add: demo_service_def)
  then show ?thesis using snapshot_lists_grants [OF demo_wf(3) demo_session] by blast
qed

end
