(* ===== verification/RendezvousProps.thy ===== *)
theory RendezvousProps
  imports AccessProps "HOL-Library.Multiset"
begin

text \<open>
  What the server promises about rendezvous attempts: who may start, see and change one, when it
  becomes ready, and which ones a device is told about.
\<close>

section \<open>The rows of reachable tables\<close>

text \<open>
  Candidate lists are stored encoded; a device that meets itself never gets target candidates,
  because its updates are taken as the source's.
\<close>

definition attempt_ok :: "'a server_prims_scheme \<Rightarrow> rendezvous_row \<Rightarrow> bool" where
  "attempt_ok P r =
     (\<exists>s t. rv_source_candidates_json r = json_encode P s \<and> rv_target_candidates_json r = json_encode P t
        \<and> (rv_source_device_id r = rv_target_device_id r \<longrightarrow> t = []))"

definition rvz_attempts_ok :: "'a server_prims_scheme \<Rightarrow> rendezvous_row list \<Rightarrow> bool" where
  "rvz_attempts_ok P rows = (\<forall>r\<in>set rows. attempt_ok P r)"

lemma attempts_frame [frame_simps]:
  "db_attempts (delete_acl sid db) = db_attempts db"
  "db_attempts (update_device rq now db) = db_attempts db"
  "db_attempts (touch_device now d db) = db_attempts db"
  "insert_device r db = Inr db' \<Longrightarrow> db_attempts db' = db_attempts db"
  "insert_config k v db = Inr db' \<Longrightarrow> db_attempts db' = db_attempts db"
  "insert_join_token j db = Inr db' \<Longrightarrow> db_attempts db' = db_attempts db"
  "delete_service_row sid d db = Inr db' \<Longrightarrow> db_attempts db' = db_attempts db"
  "consume_join_token P now tok db = (e, db') \<Longrightarrow> db_attempts db' = db_attempts db"
  "db_attempts (snd (replace_session P now rnd d x db)) = db_attempts db"
  "db_attempts (snd (upsert_service_locked P now d rqu db)) = db_attempts db"
  "db_attempts (snd (create_join_token_locked P now rnd rqj db)) = db_attempts db"
  "db_attempts (snd (bootstrap_init P now r1 r2 db)) = db_attempts db"
  by (auto simp: delete_acl_def update_device_def touch_device_def insert_config_def
      insert_device_def insert_join_token_def upsert_service_row_def delete_service_row_def Let_def
      replace_session_def insert_session_def upsert_service_locked_def bootstrap_init_def
      create_join_token_locked_def consume_join_token_def result_bind_Inr_iff
      dest!: insert_acls_result(1) split: if_splits sum.splits option.splits)

lemma admit_device_attempts [frame_simps]:
  "admit_device P now rq db = (r, db') \<Longrightarrow> db_attempts db' = db_attempts db"
  by (auto simp: admit_device_def attempts_frame split: option.splits prod.splits sum.splits if_splits)

lemma register_device_attempts [frame_simps]:
  "db_attempts (snd (register_device P now rnd rq db)) = db_attempts db"
  by (auto simp: register_device_def attempts_frame admit_device_attempts split: sum.splits prod.splits)

lemma delete_service_attempts:
  "set (db_attempts (snd (delete_service_locked P d name db))) \<subseteq> set (db_attempts db)"
  by (auto simp: delete_service_locked_def Let_def frame_simps delete_attempts_def delete_acl_def
      split: sum.splits)

text \<open>What one section can do to one attempt.\<close>

definition started_row :: "'a server_prims_scheme \<Rightarrow> int \<Rightarrow> byte list \<Rightarrow> string \<Rightarrow> service_definition
     \<Rightarrow> direct_connection_candidate list \<Rightarrow> rendezvous_row" where
  "started_row P now rnd source sv cs =
     \<lparr>rv_rendezvous_id = token_of P rnd ''rvz'', rv_service_id = sd_service_id sv,
      rv_service_name = sd_name sv, rv_source_device_id = source,
      rv_target_device_id = sd_owner_device_id sv, rv_source_announced_at = Some now,
      rv_target_announced_at = None, rv_source_candidates_json = json_encode P cs,
      rv_target_candidates_json = json_encode P [], rv_created_at = now, rv_updated_at = now,
      rv_expires_at = i64_add now direct_rendezvous_ttl_seconds\<rparr>"

abbreviation announce_source :: "'a server_prims_scheme \<Rightarrow> int \<Rightarrow> direct_connection_candidate list
     \<Rightarrow> rendezvous_row \<Rightarrow> rendezvous_row" where
  "announce_source P now cs x \<equiv> x\<lparr>rv_source_candidates_json := json_encode P cs,
     rv_source_announced_at := Some now, rv_updated_at := now\<rparr>"

abbreviation announce_target :: "'a server_prims_scheme \<Rightarrow> int \<Rightarrow> direct_connection_candidate list
     \<Rightarrow> rendezvous_row \<Rightarrow> rendezvous_row" where
  "announce_target P now cs x \<equiv> x\<lparr>rv_target_candidates_json := json_encode P cs,
     rv_target_announced_at := Some now, rv_updated_at := now\<rparr>"

lemma start_rendezvous_attempts:
  assumes "r \<in> set (db_attempts (snd (start_rendezvous_locked P now rnd source sv cs db)))"
  shows "r \<in> set (db_attempts db)
    \<or> r = started_row P now rnd source sv cs \<and> rv_rendezvous_id r \<notin> rv_rendezvous_id ` set (db_attempts db)"
  using assms
  by (auto simp: start_rendezvous_locked_def Let_def insert_attempt_def list_ex_iff started_row_def
      split: sum.splits if_splits)

lemma update_candidates_attempts:
  assumes "r \<in> set (db_attempts (snd (update_candidates_locked P now d rid cs db)))" "keys_ok db"
  shows "r \<in> set (db_attempts db)
    \<or> (\<exists>x\<in>set (db_attempts db). rv_rendezvous_id x = rid
         \<and> (rv_source_device_id x = d \<and> r = announce_source P now cs x
           \<or> rv_source_device_id x \<noteq> d \<and> rv_target_device_id x = d \<and> r = announce_target P now cs x))"
proof (cases "List.find (\<lambda>r. rv_rendezvous_id r = rid) (db_attempts db)")
  case None
  with assms show ?thesis by (simp add: update_candidates_locked_def)
next
  case (Some x)
  have x: "x \<in> set (db_attempts db)" "rv_rendezvous_id x = rid" using find_Some_member [OF Some] by auto
  have uniq: "y = x" if "y \<in> set (db_attempts db)" "rv_rendezvous_id y = rid" for y
    using assms(2) x that by (auto simp: keys_ok_def distinct_map inj_on_def)
  have changed: "r = f x" if "r \<in> set (db_attempts (update_attempts rid f db))" "r \<notin> set (db_attempts db)" for f
    using that by (auto simp: update_attempts_def dest: uniq split: if_splits)
  have res: "snd (update_candidates_locked P now d rid cs db)
      = (if rv_expires_at x < now then db
         else if rv_source_device_id x = d then update_attempts rid (announce_source P now cs) db
         else if rv_target_device_id x = d then update_attempts rid (announce_target P now cs) db else db)"
    by (simp add: update_candidates_locked_def Some Let_def)
  show ?thesis
    using assms(1) x changed [of "announce_source P now cs"] changed [of "announce_target P now cs"]
    unfolding res by (auto split: if_splits)
qed

lemma db_exec_attempts:
  assumes "db_wf P db" "r \<in> set (db_attempts (db_exec P op db))"
  shows "r \<in> set (db_attempts db) \<or> rv_rendezvous_id r \<notin> rv_rendezvous_id ` set (db_attempts db)
    \<or> (\<exists>t d cs. \<exists>x\<in>set (db_attempts db). op = Sec_UpdateCandidates t d (rv_rendezvous_id x) cs
         \<and> (rv_source_device_id x = d \<and> r = announce_source P t cs x
           \<or> rv_source_device_id x \<noteq> d \<and> rv_target_device_id x = d \<and> r = announce_target P t cs x))"
proof (cases op)
  case (Sec_DeleteService d name)
  with assms(2) delete_service_attempts [of P d name db] show ?thesis by auto
next
  case (Sec_StartRendezvous now rnd source owner name protocol cs)
  with assms(2) show ?thesis by (auto dest!: start_rendezvous_attempts)
next
  case (Sec_UpdateCandidates now d rid cs)
  with assms(2) update_candidates_attempts [OF _ db_wfD(1) [OF assms(1)], of r P now d rid cs]
  show ?thesis by simp blast
qed (use assms in \<open>simp_all add: frame_simps clear_devices_result\<close>)

lemma attempt_ok_intros:
  "attempt_ok P (started_row P now rnd source sv cs)"
  "attempt_ok P x \<Longrightarrow> attempt_ok P (announce_source P now cs x)"
  "attempt_ok P x \<Longrightarrow> rv_source_device_id x \<noteq> d \<Longrightarrow> rv_target_device_id x = d
    \<Longrightarrow> attempt_ok P (announce_target P now cs x)"
  by (auto simp: attempt_ok_def started_row_def)

lemma db_exec_attempts_ok:
  assumes "db_wf P db" "rvz_attempts_ok P (db_attempts db)"
  shows "rvz_attempts_ok P (db_attempts (db_exec P op db))"
proof (cases op)
  case (Sec_DeleteService d name)
  with assms delete_service_attempts [of P d name db] show ?thesis
    by (auto simp: rvz_attempts_ok_def)
next
  case (Sec_StartRendezvous now rnd source owner name protocol cs)
  with assms(2) show ?thesis
    by (auto simp: rvz_attempts_ok_def attempt_ok_intros dest!: start_rendezvous_attempts)
next
  case (Sec_UpdateCandidates now d rid cs)
  have "attempt_ok P r"
    if "r \<in> set (db_attempts (snd (update_candidates_locked P now d rid cs db)))" for r
    using update_candidates_attempts [OF that db_wfD(1) [OF assms(1)]] assms(2) attempt_ok_intros(2,3)
    unfolding rvz_attempts_ok_def by blast
  with Sec_UpdateCandidates show ?thesis by (simp add: rvz_attempts_ok_def)
qed (use assms in \<open>simp_all add: frame_simps clear_devices_result rvz_attempts_ok_def\<close>)

lemma reachable_attempts_ok: "rvz_attempts_ok P (db_attempts (db_run P ops db_empty))"
  using db_empty_wf
proof (rule dbs.run_induct)
  show "rvz_attempts_ok P (db_attempts db_empty)" by (simp add: rvz_attempts_ok_def db_empty_def)
qed (rule db_exec_attempts_ok)

section \<open>Access\<close>

lemma rendezvous_by_id_Inr:
  assumes "rendezvous_by_id P now rid viewer db = Inr s"
  obtains r where "r \<in> set (db_attempts db)" "rv_rendezvous_id r = rid"
    "direct_rendezvous_from_row P now r = Inr s"
    "\<And>v. viewer = Some v \<Longrightarrow> v = rv_source_device_id r \<or> v = rv_target_device_id r"
  using assms find_Some_member [of "\<lambda>r. rv_rendezvous_id r = rid" "db_attempts db"]
  by (fastforce simp: rendezvous_by_id_def split: option.splits if_splits)

lemma from_row_Inr:
  assumes "direct_rendezvous_from_row P now r = Inr s"
  shows "rs_rendezvous_id s = rv_rendezvous_id r" "rs_service_id s = rv_service_id r"
    "rs_source_device_id s = rv_source_device_id r" "rs_target_device_id s = rv_target_device_id r"
    "rs_expires_at s = rv_expires_at r" "rs_updated_at s = rv_updated_at r"
    "json_decode P (rv_source_candidates_json r) = Inr (rp_candidates (rs_source s))"
    "json_decode P (rv_target_candidates_json r) = Inr (rp_candidates (rs_target s))"
    "rs_status s = rendezvous_status now (rp_candidates (rs_source s)) (rp_candidates (rs_target s)) r"
  using assms
  by (auto simp: direct_rendezvous_from_row_def result_bind_Inr_iff of_sql_def split: sum.splits)

text \<open>
  An attempt is started only by a device with a valid session that is authorised for the
  service at that moment, in its own name and towards the owner of the service.
\<close>

theorem start_requires_grant:
  assumes "start_direct_rendezvous P now rnd tok rq db = (Inr s, db')"
  shows "\<exists>source sv. session_device_id P now tok db = Inr source
    \<and> authorize_relay_service source (sid_of P (sr_target_device_id rq) (sr_service_name rq)) db = Inr sv
    \<and> rs_source_device_id s = source \<and> rs_target_device_id s = sd_owner_device_id sv
    \<and> rs_service_id s = sd_service_id sv"
proof -
  from assms obtain source sv where a: "session_device_id P now tok db = Inr source"
    "authorize_relay_service source (sid_of P (sr_target_device_id rq) (sr_service_name rq)) db = Inr sv"
    and st: "start_rendezvous_locked P now rnd source sv (sr_source_candidates rq) db = (Inr s, db')"
    by (auto simp: start_direct_rendezvous_def result_bind_Inr_iff split: if_splits sum.splits)
  let ?r = "started_row P now rnd source sv (sr_source_candidates rq)"
  from st have "rendezvous_by_id P now (token_of P rnd ''rvz'') None db' = Inr s"
    and db': "db_attempts db' = db_attempts db @ [?r]"
      "\<forall>x\<in>set (db_attempts db). rv_rendezvous_id x \<noteq> token_of P rnd ''rvz''"
    by (auto simp: start_rendezvous_locked_def Let_def insert_attempt_def list_ex_iff started_row_def
        split: sum.splits if_splits)
  then obtain r where r: "r \<in> set (db_attempts db')" "rv_rendezvous_id r = token_of P rnd ''rvz''"
    "direct_rendezvous_from_row P now r = Inr s" by (auto elim: rendezvous_by_id_Inr)
  with db' have "r = ?r" by auto
  with a from_row_Inr(2-4) [OF r(3)] show ?thesis by (simp add: started_row_def)
qed

text \<open>
  C22. Only the two devices of an attempt see it, and what it shows as a device's candidates was
  put there by that device: whatever section runs, a side of an attempt only changes in an update
  of its candidates that carries the device of that side.
\<close>

theorem rendezvous_private_authentic:
  assumes "db_wf P db"
  shows "(direct_rendezvous P now tok rid db = Inr s \<longrightarrow>
       (\<exists>d. session_device_id P now tok db = Inr d \<and> (d = rs_source_device_id s \<or> d = rs_target_device_id s)))
    \<and> (\<forall>r\<in>set (db_attempts db). \<forall>r'\<in>set (db_attempts (db_exec P op db)).
         rv_rendezvous_id r' = rv_rendezvous_id r \<longrightarrow>
         rv_source_device_id r' = rv_source_device_id r \<and> rv_target_device_id r' = rv_target_device_id r
         \<and> (rv_source_candidates_json r' \<noteq> rv_source_candidates_json r \<longrightarrow>
             (\<exists>t cs. op = Sec_UpdateCandidates t (rv_source_device_id r) (rv_rendezvous_id r) cs
               \<and> rv_source_candidates_json r' = json_encode P cs))
         \<and> (rv_target_candidates_json r' \<noteq> rv_target_candidates_json r \<longrightarrow>
             (\<exists>t cs. op = Sec_UpdateCandidates t (rv_target_device_id r) (rv_rendezvous_id r) cs
               \<and> rv_target_candidates_json r' = json_encode P cs)))"
proof (rule conjI; intro impI ballI)
  assume "direct_rendezvous P now tok rid db = Inr s"
  then obtain d where d: "session_device_id P now tok db = Inr d" "rendezvous_by_id P now rid (Some d) db = Inr s"
    by (auto simp: direct_rendezvous_def result_bind_Inr_iff)
  from d(2) obtain r where "direct_rendezvous_from_row P now r = Inr s"
    "d = rv_source_device_id r \<or> d = rv_target_device_id r" by (blast elim: rendezvous_by_id_Inr)
  with d(1) from_row_Inr(3,4) show "\<exists>d. session_device_id P now tok db = Inr d \<and> (d = rs_source_device_id s \<or> d = rs_target_device_id s)"
    by metis
next
  have uniq: "y = x" if "x \<in> set (db_attempts db)" "y \<in> set (db_attempts db)" "rv_rendezvous_id y = rv_rendezvous_id x" for x y
    using db_wfD(1) [OF assms] that by (auto simp: keys_ok_def distinct_map inj_on_def)
  fix r r' assume r: "r \<in> set (db_attempts db)" "r' \<in> set (db_attempts (db_exec P op db))"
    "rv_rendezvous_id r' = rv_rendezvous_id r"
  from r(3) have ids: "rv_rendezvous_id r' \<in> rv_rendezvous_id ` set (db_attempts db)" using r(1) by (metis imageI)
  consider "r' = r" | t d cs where "op = Sec_UpdateCandidates t d (rv_rendezvous_id r) cs"
      "rv_source_device_id r = d \<and> r' = announce_source P t cs r
       \<or> rv_source_device_id r \<noteq> d \<and> rv_target_device_id r = d \<and> r' = announce_target P t cs r"
    using db_exec_attempts [OF assms r(2)] ids uniq [OF r(1)] r(3) by fastforce
  then show "rv_source_device_id r' = rv_source_device_id r \<and> rv_target_device_id r' = rv_target_device_id r
    \<and> (rv_source_candidates_json r' \<noteq> rv_source_candidates_json r \<longrightarrow>
        (\<exists>t cs. op = Sec_UpdateCandidates t (rv_source_device_id r) (rv_rendezvous_id r) cs
          \<and> rv_source_candidates_json r' = json_encode P cs))
    \<and> (rv_target_candidates_json r' \<noteq> rv_target_candidates_json r \<longrightarrow>
        (\<exists>t cs. op = Sec_UpdateCandidates t (rv_target_device_id r) (rv_rendezvous_id r) cs
          \<and> rv_target_candidates_json r' = json_encode P cs))"
    by cases auto
qed

section \<open>Life cycle\<close>

lemma from_row_ok:
  assumes "json_law P" "rv_source_candidates_json r = json_encode P cs" "rv_target_candidates_json r = json_encode P ts"
  shows "direct_rendezvous_from_row P now r
    = Inr \<lparr>rs_rendezvous_id = rv_rendezvous_id r, rs_service_id = rv_service_id r,
        rs_service_name = rv_service_name r, rs_source_device_id = rv_source_device_id r,
        rs_target_device_id = rv_target_device_id r, rs_status = rendezvous_status now cs ts r,
        rs_created_at = rv_created_at r, rs_updated_at = rv_updated_at r,
        rs_expires_at = rv_expires_at r,
        rs_source = \<lparr>rp_device_id = rv_source_device_id r,
                     rp_announced_at = rv_source_announced_at r, rp_candidates = cs\<rparr>,
        rs_target = \<lparr>rp_device_id = rv_target_device_id r,
                     rp_announced_at = rv_target_announced_at r, rp_candidates = ts\<rparr>\<rparr>"
  using assms by (simp add: direct_rendezvous_from_row_def json_law_def)

lemma start_rendezvous_Inr:
  assumes "json_law P" "start_rendezvous_locked P now rnd source sv cs db = (Inr s, db')" "keys_ok db"
  shows "db_attempts db' = db_attempts db @ [started_row P now rnd source sv cs]"
    and "direct_rendezvous_from_row P now (started_row P now rnd source sv cs) = Inr s"
    and "token_of P rnd ''rvz'' \<notin> rv_rendezvous_id ` set (db_attempts db)"
proof -
  show db': "db_attempts db' = db_attempts db @ [started_row P now rnd source sv cs]"
    and fresh: "token_of P rnd ''rvz'' \<notin> rv_rendezvous_id ` set (db_attempts db)"
    using assms(2)
    by (auto simp: start_rendezvous_locked_def Let_def insert_attempt_def list_ex_iff started_row_def
        split: sum.splits if_splits)
  have "List.find (\<lambda>r. rv_rendezvous_id r = token_of P rnd ''rvz'') (db_attempts db')
      = Some (started_row P now rnd source sv cs)"
    using find_Some_iff_distinct [of rv_rendezvous_id "db_attempts db'" "started_row P now rnd source sv cs"]
      assms(3) db' fresh by (simp add: keys_ok_def started_row_def)
  moreover have "rendezvous_by_id P now (token_of P rnd ''rvz'') None db' = Inr s"
    using assms(2) by (auto simp: start_rendezvous_locked_def Let_def split: sum.splits)
  ultimately show "direct_rendezvous_from_row P now (started_row P now rnd source sv cs) = Inr s"
    by (simp add: rendezvous_by_id_def)
qed


text \<open>
  A device that opens a rendezvous for a service of its own never gets it ready, whatever
  candidates it announces: all its announcements are taken as the source's.
\<close>

theorem own_service_never_ready:
  assumes "json_law P" "rendezvous_by_id P now rid viewer (db_run P ops db_empty) = Inr s"
    "rs_source_device_id s = rs_target_device_id s"
  shows "rs_status s \<noteq> ''ready'' \<and> rp_candidates (rs_target s) = []"
proof -
  from assms(2) obtain r where r: "r \<in> set (db_attempts (db_run P ops db_empty))"
    "direct_rendezvous_from_row P now r = Inr s" by (rule rendezvous_by_id_Inr)
  from r(1) reachable_attempts_ok [of P ops] have "attempt_ok P r" by (simp add: rvz_attempts_ok_def)
  with from_row_Inr [OF r(2)] assms(1,3) have "rp_candidates (rs_target s) = []"
    by (auto simp: attempt_ok_def json_law_def)
  with from_row_Inr(9) [OF r(2)] show ?thesis by (simp add: rendezvous_status_def)
qed

lemma sorted_first_component:
  fixes f :: "'a \<Rightarrow> 'b::linorder" and g :: "'a \<Rightarrow> 'c::linorder"
  shows "sorted (map (\<lambda>x. (f x, g x)) xs) \<Longrightarrow> sorted (map f xs)"
  by (induction xs) auto

text \<open>
  A device with a session is told about exactly the attempts that target it and have not
  expired, each once, the most recently changed first.
\<close>

theorem pending_rendezvous_exact:
  assumes "json_law P" "session_device_id P now tok (db_run P ops db_empty) = Inr d"
  shows "\<exists>resp. pending_direct_rendezvous P now tok (db_run P ops db_empty) = Inr resp
    \<and> mset (map rs_rendezvous_id (pr_attempts resp))
        = mset (map rv_rendezvous_id (filter (\<lambda>r. rv_target_device_id r = d \<and> now \<le> rv_expires_at r)
            (db_attempts (db_run P ops db_empty))))
    \<and> (\<forall>s\<in>set (pr_attempts resp). rs_target_device_id s = d \<and> rs_status s \<noteq> ''expired'')
    \<and> sorted (map (\<lambda>s. - rs_updated_at s) (pr_attempts resp))"
proof -
  let ?db = "db_run P ops db_empty"
  let ?rows = "filter (\<lambda>r. rv_target_device_id r = d \<and> now \<le> rv_expires_at r) (db_attempts ?db)"
  let ?ordered = "sort_key (\<lambda>r. (- rv_updated_at r, - rv_created_at r)) ?rows"
  let ?f = "\<lambda>r. rendezvous_by_id P now (rv_rendezvous_id r) None ?db"
  let ?g = "\<lambda>r. projr (?f r)"
  have keys: "distinct (map rv_rendezvous_id (db_attempts ?db))"
    using db_wfD(1) [OF dbs.run_inv [OF db_empty_wf], of P ops] by (simp add: keys_ok_def)
  have row: "?f r = Inr (?g r) \<and> rs_rendezvous_id (?g r) = rv_rendezvous_id r \<and> rs_target_device_id (?g r) = d
      \<and> rs_status (?g r) \<noteq> ''expired'' \<and> rs_updated_at (?g r) = rv_updated_at r"
    if "r \<in> set ?ordered" for r
  proof -
    from that have r: "r \<in> set (db_attempts ?db)" "rv_target_device_id r = d" "now \<le> rv_expires_at r" by auto
    with reachable_attempts_ok [of P ops] obtain cs ts where "rv_source_candidates_json r = json_encode P cs"
      "rv_target_candidates_json r = json_encode P ts" by (auto simp: rvz_attempts_ok_def attempt_ok_def)
    note from_row_ok [OF assms(1) this, of now]
    moreover have "?f r = direct_rendezvous_from_row P now r"
      using find_Some_iff_distinct [OF keys r(1)] by (simp add: rendezvous_by_id_def)
    ultimately show ?thesis using r by (simp add: rendezvous_status_def)
  qed
  then have "collect_results (map ?f ?ordered) = Inr (map ?g ?ordered)"
    by (intro collect_results_map) blast
  then have res: "pending_direct_rendezvous P now tok ?db = Inr \<lparr>pr_attempts = map ?g ?ordered\<rparr>"
    by (simp add: pending_direct_rendezvous_def assms(2) pending_rendezvous_locked_def Let_def)
  have ids: "map (rs_rendezvous_id \<circ> ?g) ?ordered = map rv_rendezvous_id ?ordered"
    using row by (intro map_cong) auto
  have upd: "map ((\<lambda>s. - rs_updated_at s) \<circ> ?g) ?ordered = map (\<lambda>r. - rv_updated_at r) ?ordered"
    using row by (intro map_cong) auto
  have "sorted (map (\<lambda>r. - rv_updated_at r) ?ordered)"
    by (rule sorted_first_component [where g = "\<lambda>r. - rv_created_at r"]) (rule sorted_sort_key)
  then have sorted: "sorted (map (\<lambda>s. - rs_updated_at s) (map ?g ?ordered))"
    unfolding map_map upd .
  have "mset (map rs_rendezvous_id (map ?g ?ordered)) = mset (map rv_rendezvous_id ?rows)"
    unfolding map_map ids by simp
  moreover have "\<forall>s\<in>set (map ?g ?ordered). rs_target_device_id s = d \<and> rs_status s \<noteq> ''expired''"
    using row by auto
  ultimately show ?thesis
    using res sorted by (intro exI [of _ "\<lparr>pr_attempts = map ?g ?ordered\<rparr>"]) (simp only: pending_direct_rendezvous_response.simps simp_thms)
qed

section \<open>Examples\<close>

text \<open>The second example device, and a request of it to meet the first.\<close>

definition demo_db3 :: database where
  "demo_db3 = demo_db2\<lparr>db_devices := db_devices demo_db2 @ [new_device_row (demo_register (CHR ''B'') ''join_D'') 600 10],
     db_sessions := db_sessions demo_db2 @ [\<lparr>se_token_hash = demo_hash ''sess_E'', se_device_id = demo_id (CHR ''B''),
       se_created_at = 10, se_expires_at = 600\<rparr>]\<rparr>"

definition demo_candidate :: "string \<Rightarrow> direct_connection_candidate" where
  "demo_candidate a = \<lparr>dc_protocol = ''udp'', dc_addr = a, dc_candidate_type = ''host''\<rparr>"

definition demo_row :: rendezvous_row where
  "demo_row = started_row toy_server 20 [70] (demo_id (CHR ''B'')) demo_service [demo_candidate ''b'']"

definition demo_db4 :: database where
  "demo_db4 = demo_db3\<lparr>db_attempts := [demo_row]\<rparr>"

lemma demo_wf3: "db_wf toy_server demo_db3"
proof -
  let ?d = "new_device_row (demo_register (CHR ''B'') ''join_D'') 600 10"
  let ?s = "\<lparr>se_token_hash = demo_hash ''sess_E'', se_device_id = demo_id (CHR ''B''), se_created_at = 10, se_expires_at = 600\<rparr>"
  let ?db = "demo_db2\<lparr>db_devices := db_devices demo_db2 @ [?d]\<rparr>"
  have ne: "demo_id (CHR ''B'') \<noteq> demo_id (CHR ''A'')" "demo_hash ''sess_E'' \<noteq> demo_hash ''sess_C''"
    by (simp_all add: demo_id_def demo_hash_def)
  then have d: "insert_device ?d demo_db2 = Inr ?db"
    by (simp add: insert_device_def demo_db2_def demo_db1_def has_device_def new_device_row_def) 
  have "db_wf toy_server ?db"
    by (rule insert_device_wf [OF d demo_wf(3)]) (simp_all add: new_device_row_def demo_device_id)
  moreover have "insert_session ?s ?db = Inr demo_db3"
    using ne by (simp add: insert_session_def demo_db3_def demo_db2_def demo_db1_def has_device_def new_device_row_def)
  ultimately show ?thesis
    using ne by (elim insert_session_wf [rotated]) (simp_all add: demo_db2_def demo_db1_def)
qed

lemma demo_token_rvz [simp]: "generate_token toy_prims [70] ''rvz'' = ''rvz_F''"
  by code_simp

lemma demo_started: "\<exists>s. start_rendezvous_locked toy_server 20 [70] (demo_id (CHR ''B'')) demo_service [demo_candidate ''b'']
    demo_db3 = (Inr s, demo_db4) \<and> rs_expires_at s = 65 \<and> rs_rendezvous_id s = ''rvz_F''"
proof -
  show ?thesis
    using from_row_ok [OF toy_json_law, of demo_row "[demo_candidate ''b'']" "[]" 20]
    by (simp add: start_rendezvous_locked_def Let_def insert_attempt_def demo_db3_def demo_db4_def demo_db2_def
        demo_db1_def has_device_def has_service_def new_device_row_def rendezvous_by_id_def demo_row_def
        started_row_def demo_service_def i64_add_def i64_wrap_def direct_rendezvous_ttl_seconds_def)
qed

lemma demo_wf4: "db_wf toy_server demo_db4"
proof -
  have "sd_service_id demo_service = sid_of toy_server (sd_owner_device_id demo_service) (sd_name demo_service)"
    using demo_service_id by (simp add: demo_service_def)
  note wf = start_rendezvous_wf [OF demo_wf3 this, of 20 "[70]" "demo_id (CHR ''B'')" "[demo_candidate ''b'']"]
  with demo_started show ?thesis by auto
qed

lemma demo_authorized: "authorize_relay_service (demo_id (CHR ''B'')) (sd_service_id demo_service) demo_db3 = Inr demo_service"
  by (simp add: authorize_relay_service_def demo_db3_def demo_db2_def in_acl_def to_service_definition_def)
    (simp add: demo_service_def)

lemma demo_request: "\<exists>s. start_direct_rendezvous toy_server 20 [70] ''sess_E''
    \<lparr>sr_target_device_id = demo_id (CHR ''A''), sr_service_name = ''web'',
     sr_source_candidates = [demo_candidate ''b'']\<rparr> demo_db3 = (Inr s, demo_db4)"
proof -
  have ne: "demo_hash ''sess_E'' \<noteq> demo_hash ''sess_C''" by (simp add: demo_hash_def)
  have "hash_secret toy_prims ''sess_E'' = demo_hash ''sess_E''" by code_simp
  then have "session_device_id toy_server 20 ''sess_E'' demo_db3 = Inr (demo_id (CHR ''B''))"
    using ne by (auto simp: session_device_id_def demo_db3_def demo_db2_def demo_db1_def)
  moreover note demo_authorized
  moreover have "validate_direct_candidates [demo_candidate ''b''] = Inr ()"
    by (simp add: demo_candidate_def blank_iff is_whitespace_def)
  moreover have "\<not> blank (demo_id (CHR ''A''))" "\<not> blank ''web''"
    by (simp_all add: demo_id_def blank_iff is_whitespace_def)
  ultimately show ?thesis
    using demo_started by (auto simp: start_direct_rendezvous_def)
qed

theorem start_requires_grant_witness:
  "\<exists>source. session_device_id toy_server 20 ''sess_E'' demo_db3 = Inr source
    \<and> (\<exists>sv. authorize_relay_service source (sd_service_id demo_service) demo_db3 = Inr sv)"
proof -
  from demo_request obtain s where "start_direct_rendezvous toy_server 20 [70] ''sess_E''
    \<lparr>sr_target_device_id = demo_id (CHR ''A''), sr_service_name = ''web'',
     sr_source_candidates = [demo_candidate ''b'']\<rparr> demo_db3 = (Inr s, demo_db4)" ..
  from start_requires_grant [OF this] show ?thesis by auto
qed

theorem rendezvous_private_authentic_witness:
  "\<exists>r'. db_attempts (db_exec toy_server (Sec_UpdateCandidates 25 (demo_id (CHR ''A'')) ''rvz_F'' []) demo_db4) = [r']
     \<and> rv_rendezvous_id r' = ''rvz_F'' \<and> rv_source_candidates_json r' = rv_source_candidates_json demo_row"
proof -
  let ?op = "Sec_UpdateCandidates 25 (demo_id (CHR ''A'')) ''rvz_F'' []"
  have ids: "rv_rendezvous_id demo_row = ''rvz_F''" "rv_source_device_id demo_row = demo_id (CHR ''B'')"
    "rv_target_device_id demo_row = demo_id (CHR ''A'')" "demo_id (CHR ''A'') \<noteq> demo_id (CHR ''B'')"
    by (simp_all add: demo_row_def started_row_def demo_service_def demo_id_def)
  obtain r' where r': "db_attempts (db_exec toy_server ?op demo_db4) = [r']" "rv_rendezvous_id r' = ''rvz_F''"
    using ids by (cases "rv_expires_at demo_row < 25")
      (auto simp: update_candidates_locked_def demo_db4_def update_attempts_def Let_def)
  have "demo_row \<in> set (db_attempts demo_db4)" "r' \<in> set (db_attempts (db_exec toy_server ?op demo_db4))"
    using r'(1) by (simp_all add: demo_db4_def)
  with rendezvous_private_authentic [OF demo_wf4, of _ _ _ _ ?op] ids r'(2)
  have "rv_source_candidates_json r' = rv_source_candidates_json demo_row" by (metis db_section.inject)
  with r' show ?thesis by blast
qed


text \<open>The first device opens a rendezvous for its own service.\<close>

definition demo_self_ops :: "db_section list" where
  "demo_self_ops = [Sec_Bootstrap 0 [65] [66], Sec_Register 5 [67] (demo_register (CHR ''A'') ''join_B''),
     Sec_UpsertService 9 (demo_id (CHR ''A'')) demo_publish,
     Sec_StartRendezvous 20 [70] (demo_id (CHR ''A'')) (demo_id (CHR ''A'')) ''web'' ''tcp'' [demo_candidate ''a'']]"

lemma demo_self: "db_run toy_server demo_self_ops db_empty
  = demo_db2\<lparr>db_attempts := [started_row toy_server 20 [70] (demo_id (CHR ''A'')) demo_service [demo_candidate ''a'']]\<rparr>"
proof -
  have "\<lparr>sd_service_id = sd_service_id demo_service, sd_owner_device_id = demo_id (CHR ''A''),
    sd_name = ''web'', sd_protocol = ''tcp''\<rparr> = demo_service" by (simp add: demo_service_def)
  moreover have owner: "sd_owner_device_id demo_service = demo_id (CHR ''A'')" by (simp add: demo_service_def)
  ultimately have "db_run toy_server demo_self_ops db_empty = snd (start_rendezvous_locked toy_server 20 [70]
      (demo_id (CHR ''A'')) demo_service [demo_candidate ''a''] demo_db2)"
    by (simp add: db_run_def demo_self_ops_def demo_bootstrap demo_registration demo_published)
  with owner show ?thesis
    by (simp add: start_rendezvous_locked_def Let_def insert_attempt_def started_row_def demo_db2_def demo_db1_def
        has_device_def has_service_def new_device_row_def)
qed

theorem own_service_never_ready_witness:
  "\<exists>s. rendezvous_by_id toy_server 21 ''rvz_F'' None (db_run toy_server demo_self_ops db_empty) = Inr s
    \<and> rs_status s \<noteq> ''ready''"
proof -
  have "rv_rendezvous_id (started_row toy_server 20 [70] (demo_id (CHR ''A'')) demo_service [demo_candidate ''a'']) = ''rvz_F''"
    unfolding started_row_def by code_simp
  then obtain s where s: "rendezvous_by_id toy_server 21 ''rvz_F'' None (db_run toy_server demo_self_ops db_empty) = Inr s"
    "rs_source_device_id s = rs_target_device_id s"
    using from_row_ok [OF toy_json_law, of "started_row toy_server 20 [70] (demo_id (CHR ''A'')) demo_service [demo_candidate ''a'']"
      "[demo_candidate ''a'']" "[]" 21]
    by (auto simp: rendezvous_by_id_def demo_self started_row_def demo_service_def)
  with own_service_never_ready [OF toy_json_law s] show ?thesis by blast
qed

theorem pending_rendezvous_exact_witness:
  "\<exists>resp. pending_direct_rendezvous toy_server 30 ''sess_C'' (db_run toy_server demo_self_ops db_empty) = Inr resp
    \<and> length (pr_attempts resp) = 1"
proof -
  have "session_device_id toy_server 30 ''sess_C'' (db_run toy_server demo_self_ops db_empty) = Inr (demo_id (CHR ''A''))"
    by (simp add: session_device_id_def demo_self demo_db2_def demo_db1_def)
  from pending_rendezvous_exact [OF toy_json_law this] obtain resp where
    r: "pending_direct_rendezvous toy_server 30 ''sess_C'' (db_run toy_server demo_self_ops db_empty) = Inr resp"
    and m: "mset (map rs_rendezvous_id (pr_attempts resp))
      = mset (map rv_rendezvous_id (filter (\<lambda>r. rv_target_device_id r = demo_id (CHR ''A'') \<and> 30 \<le> rv_expires_at r)
          (db_attempts (db_run toy_server demo_self_ops db_empty))))" by blast
  from m have "size (mset (map rs_rendezvous_id (pr_attempts resp))) = 1"
    unfolding m by (simp add: demo_self started_row_def demo_service_def i64_add_def i64_wrap_def
        direct_rendezvous_ttl_seconds_def)
  then have "length (pr_attempts resp) = 1" by simp
  with r show ?thesis by blast
qed

end
