(* ===== verification/RelayHub.thy ===== *)
theory RelayHub
  imports Rendezvous "HOL-Library.AList"
begin

text \<open>
  The server's relay (\<open>minipunch-server/src/relay.rs\<close>): which connections a device has, which one
  receives its incoming channels, and the channels between two connections. A hash map is an
  association list without duplicate keys. A connection's \<open>UnboundedSender\<close> is the number of its
  queue; whether a queue is closed is decided outside the hub (its reader is gone), so every
  operation takes the predicate \<open>closed\<close> of the moment it runs. Every lock-held section of the
  source is one definition; messages are sent after the lock is released and appear as results.
\<close>

section \<open>State\<close>

datatype incoming_channel_support = ExplicitYes | ExplicitNo | LegacyUnknown

fun support_from_query :: "bool option \<Rightarrow> incoming_channel_support" where
  "support_from_query (Some True) = ExplicitYes"
| "support_from_query (Some False) = ExplicitNo"
| "support_from_query None = LegacyUnknown"

record hub_conn =
  hc_sender :: nat
  hc_support :: incoming_channel_support
  hc_seq :: "64 word"
  hc_originated :: bool

record hub_channel =
  ch_source_device :: string
  ch_source_conn :: string
  ch_target_device :: string
  ch_target_conn :: string
  ch_accepted :: bool

record hub =
  hb_conns :: "(string \<times> (string \<times> hub_conn) list) list"
  hb_channels :: "(string \<times> hub_channel) list"
  hb_next_seq :: "64 word"
  hb_preferred :: "(string \<times> string) list"

type_synonym queue_closed = "nat \<Rightarrow> bool"
type_synonym outgoing = "(nat \<times> relay_envelope) list"

definition hub_new :: hub where
  "hub_new = \<lparr>hb_conns = [], hb_channels = [], hb_next_seq = 0, hb_preferred = []\<rparr>"

section \<open>Connections\<close>

definition find_conn :: "hub \<Rightarrow> string \<Rightarrow> string \<Rightarrow> hub_conn option" where
  "find_conn h d c = (case map_of (hb_conns h) d of None \<Rightarrow> None | Some cs \<Rightarrow> map_of cs c)"

definition lookup_connection_sender :: "hub \<Rightarrow> string \<Rightarrow> string \<Rightarrow> nat option" where
  "lookup_connection_sender h d c = map_option hc_sender (find_conn h d c)"

text \<open>\<open>entry(d).or_default().insert(c, x)\<close>.\<close>

definition put_conn :: "string \<Rightarrow> string \<Rightarrow> hub_conn \<Rightarrow> hub \<Rightarrow> hub" where
  "put_conn d c x h =
     h\<lparr>hb_conns := AList.update d
        (AList.update c x (case map_of (hb_conns h) d of None \<Rightarrow> [] | Some cs \<Rightarrow> cs)) (hb_conns h)\<rparr>"

definition is_eligible_legacy_incoming_connection :: "queue_closed \<Rightarrow> hub_conn \<Rightarrow> bool" where
  "is_eligible_legacy_incoming_connection closed x =
     (hc_support x = LegacyUnknown \<and> \<not> hc_originated x \<and> \<not> closed (hc_sender x))"

abbreviation drop_preferred :: "string \<Rightarrow> hub \<Rightarrow> hub" where
  "drop_preferred d h \<equiv> h\<lparr>hb_preferred := AList.delete d (hb_preferred h)\<rparr>"

abbreviation set_preferred :: "string \<Rightarrow> string \<Rightarrow> hub \<Rightarrow> hub" where
  "set_preferred d c h \<equiv> h\<lparr>hb_preferred := AList.update d c (hb_preferred h)\<rparr>"

definition maybe_promote_newer_legacy_connection ::
  "queue_closed \<Rightarrow> string \<Rightarrow> 64 word \<Rightarrow> hub \<Rightarrow> hub" where
  "maybe_promote_newer_legacy_connection closed d removed h =
     (case map_of (hb_conns h) d of
        None \<Rightarrow> h
      | Some cs \<Rightarrow>
          (case last_max (\<lambda>(_, x). hc_seq x)
                  (filter (\<lambda>(_, x). hc_support x = LegacyUnknown \<and> \<not> hc_originated x
                     \<and> \<not> closed (hc_sender x) \<and> removed < hc_seq x) cs) of
             None \<Rightarrow> h
           | Some (c, _) \<Rightarrow> set_preferred d c h))"

definition refresh_preferred_legacy_connection :: "queue_closed \<Rightarrow> string \<Rightarrow> hub \<Rightarrow> hub" where
  "refresh_preferred_legacy_connection closed d h =
     (case map_of (hb_preferred h) d of
        None \<Rightarrow> h
      | Some c \<Rightarrow>
          (case find_conn h d c of
             None \<Rightarrow> drop_preferred d h
           | Some x \<Rightarrow>
               if is_eligible_legacy_incoming_connection closed x then h
               else maybe_promote_newer_legacy_connection closed d (hc_seq x) (drop_preferred d h)))"

definition maybe_assign_preferred_legacy_connection ::
  "queue_closed \<Rightarrow> string \<Rightarrow> string \<Rightarrow> hub \<Rightarrow> hub" where
  "maybe_assign_preferred_legacy_connection closed d c h =
     (let h1 = refresh_preferred_legacy_connection closed d h in
      if map_of (hb_preferred h1) d \<noteq> None then h1
      else case find_conn h1 d c of
             None \<Rightarrow> h1
           | Some x \<Rightarrow> if is_eligible_legacy_incoming_connection closed x then set_preferred d c h1 else h1)"

definition remove_connection_entry :: "queue_closed \<Rightarrow> string \<Rightarrow> string \<Rightarrow> hub \<Rightarrow> hub" where
  "remove_connection_entry closed d c h =
     (let removed_seq = map_option hc_seq (find_conn h d c);
          removed_preferred = (map_of (hb_preferred h) d = Some c);
          (remove_device, h1) =
            (case map_of (hb_conns h) d of
               None \<Rightarrow> (False, h)
             | Some cs \<Rightarrow>
                 let cs' = AList.delete c cs
                 in (cs' = [], h\<lparr>hb_conns := AList.update d cs' (hb_conns h)\<rparr>))
      in if remove_device then drop_preferred d (h1\<lparr>hb_conns := AList.delete d (hb_conns h1)\<rparr>)
         else if removed_preferred then
           (case removed_seq of
              None \<Rightarrow> drop_preferred d h1
            | Some s \<Rightarrow> maybe_promote_newer_legacy_connection closed d s (drop_preferred d h1))
         else h1)"

definition pick_incoming_connection :: "queue_closed \<Rightarrow> string \<Rightarrow> hub \<Rightarrow> (string \<times> nat) option \<times> hub" where
  "pick_incoming_connection closed d h =
     (case map_of (hb_conns h) d of
        None \<Rightarrow> (None, h)
      | Some cs \<Rightarrow>
          (case last_max (\<lambda>(_, x). hc_seq x)
                  (filter (\<lambda>(_, x). hc_support x = ExplicitYes \<and> \<not> closed (hc_sender x)) cs) of
             Some (c, x) \<Rightarrow> (Some (c, hc_sender x), h)
           | None \<Rightarrow>
               let h1 = refresh_preferred_legacy_connection closed d h in
               (case map_of (hb_preferred h1) d of
                  None \<Rightarrow> (None, h1)
                | Some c \<Rightarrow>
                    (case find_conn h1 d c of
                       None \<Rightarrow> (None, h1)
                     | Some x \<Rightarrow>
                         if is_eligible_legacy_incoming_connection closed x
                         then (Some (c, hc_sender x), h1) else (None, h1)))))"

definition hub_register_device ::
  "queue_closed \<Rightarrow> string \<Rightarrow> string \<Rightarrow> nat \<Rightarrow> bool option \<Rightarrow> hub \<Rightarrow> hub" where
  "hub_register_device closed cid d sender incoming h =
     maybe_assign_preferred_legacy_connection closed d cid
       (put_conn d cid \<lparr>hc_sender = sender, hc_support = support_from_query incoming,
                        hc_seq = hb_next_seq h, hc_originated = False\<rparr>
         (h\<lparr>hb_next_seq := hb_next_seq h + 1\<rparr>))"

definition endpoint_of :: "string \<Rightarrow> string \<Rightarrow> hub_channel \<Rightarrow> bool" where
  "endpoint_of d c ch =
     (ch_source_device ch = d \<and> ch_source_conn ch = c \<or> ch_target_device ch = d \<and> ch_target_conn ch = c)"

definition peer_of :: "string \<Rightarrow> string \<Rightarrow> hub_channel \<Rightarrow> string \<times> string" where
  "peer_of d c ch =
     (if ch_source_device ch = d \<and> ch_source_conn ch = c
      then (ch_target_device ch, ch_target_conn ch) else (ch_source_device ch, ch_source_conn ch))"

fun disconnect_channels ::
  "string \<Rightarrow> string \<Rightarrow> string list \<Rightarrow> hub \<Rightarrow> outgoing \<times> hub" where
  "disconnect_channels d c [] h = ([], h)"
| "disconnect_channels d c (i # is) h =
     (case map_of (hb_channels h) i of
        None \<Rightarrow> disconnect_channels d c is h
      | Some ch \<Rightarrow>
          let h1 = h\<lparr>hb_channels := AList.delete i (hb_channels h)\<rparr>;
              (pd, pc) = peer_of d c ch;
              (out, h2) = disconnect_channels d c is h1
          in (case lookup_connection_sender h1 pd pc of
                None \<Rightarrow> (out, h2)
              | Some q \<Rightarrow> ((q, RE_ChannelClose i (Some ''peer disconnected'')) # out, h2)))"

definition hub_disconnect_device :: "queue_closed \<Rightarrow> string \<Rightarrow> string \<Rightarrow> hub \<Rightarrow> outgoing \<times> hub" where
  "hub_disconnect_device closed d c h =
     (let h1 = remove_connection_entry closed d c h;
          affected = map fst (filter (\<lambda>(_, ch). endpoint_of d c ch) (hb_channels h1))
      in disconnect_channels d c affected h1)"

definition hub_reset :: "hub \<Rightarrow> hub" where
  "hub_reset h = h\<lparr>hb_conns := [], hb_channels := [], hb_preferred := []\<rparr>"

definition note_connection_opened_channel :: "queue_closed \<Rightarrow> string \<Rightarrow> string \<Rightarrow> hub \<Rightarrow> hub" where
  "note_connection_opened_channel closed d c h =
     (let removed_preferred = (map_of (hb_preferred h) d = Some c) in
      case find_conn h d c of
        None \<Rightarrow> h
      | Some x \<Rightarrow>
          let h1 = put_conn d c (x\<lparr>hc_originated := True,
                 hc_support := (if hc_support x = LegacyUnknown then ExplicitNo else hc_support x)\<rparr>) h
          in if removed_preferred
             then maybe_promote_newer_legacy_connection closed d (hc_seq x) (drop_preferred d h1)
             else h1)"

section \<open>Channels\<close>

text \<open>The message, if the connection is still known.\<close>

definition to_connection :: "hub \<Rightarrow> string \<Rightarrow> string \<Rightarrow> relay_envelope \<Rightarrow> outgoing" where
  "to_connection h d c e = (case lookup_connection_sender h d c of None \<Rightarrow> [] | Some q \<Rightarrow> [(q, e)])"

datatype open_outcome = Open_Reject string | Open_Reserved string nat

definition open_reserve ::
  "queue_closed \<Rightarrow> string \<Rightarrow> string \<Rightarrow> string \<Rightarrow> string \<Rightarrow> hub \<Rightarrow> open_outcome \<times> hub" where
  "open_reserve closed source_device source_conn channel owner h =
     (if map_of (hb_channels h) channel \<noteq> None then (Open_Reject ''channel already exists'', h)
      else case pick_incoming_connection closed owner h of
             (None, h1) \<Rightarrow> (Open_Reject ''target device has no relay service connection'', h1)
           | (Some (target_conn, q), h1) \<Rightarrow>
               (Open_Reserved target_conn q,
                h1\<lparr>hb_channels := AList.update channel
                    \<lparr>ch_source_device = source_device, ch_source_conn = source_conn,
                     ch_target_device = owner, ch_target_conn = target_conn, ch_accepted = False\<rparr>
                    (hb_channels h1)\<rparr>))"

definition open_rollback :: "queue_closed \<Rightarrow> string \<Rightarrow> string \<Rightarrow> string \<Rightarrow> hub \<Rightarrow> hub" where
  "open_rollback closed owner target_conn channel h =
     (let h1 = remove_connection_entry closed owner target_conn h
      in h1\<lparr>hb_channels := AList.delete channel (hb_channels h1)\<rparr>)"

text \<open>
  The loop of \<open>handle_open_channel\<close>. Between choosing a connection and sending to it the connection
  may close; then it is forgotten and another one is chosen. The list holds, for every round, the
  closed queues when a connection is chosen, when the envelope is sent and when it is forgotten.
\<close>

fun open_loop ::
  "(queue_closed \<times> queue_closed \<times> queue_closed) list \<Rightarrow> string \<Rightarrow> string \<Rightarrow> string \<Rightarrow> string
     \<Rightarrow> relay_envelope \<Rightarrow> hub \<Rightarrow> (outgoing \<times> hub) option" where
  "open_loop [] source_device source_conn channel owner incoming h = None"
| "open_loop ((c1, c2, c3) # rounds) source_device source_conn channel owner incoming h =
     (case open_reserve c1 source_device source_conn channel owner h of
        (Open_Reject reason, h1) \<Rightarrow>
          Some (to_connection h1 source_device source_conn (RE_ChannelRejected channel reason), h1)
      | (Open_Reserved target_conn q, h1) \<Rightarrow>
          if c2 q
          then open_loop rounds source_device source_conn channel owner incoming
                 (open_rollback c3 owner target_conn channel h1)
          else Some ([(q, incoming)], h1))"

definition handle_open_channel ::
  "(queue_closed \<times> queue_closed \<times> queue_closed) list \<Rightarrow> database \<Rightarrow> string \<Rightarrow> string \<Rightarrow> string \<Rightarrow> string
     \<Rightarrow> string \<Rightarrow> string \<Rightarrow> hub \<Rightarrow> (outgoing \<times> hub) option" where
  "handle_open_channel rounds db source_device source_conn channel service_id eph sig h =
     (case authorize_relay_service source_device service_id db of
        Inl e \<Rightarrow> Some (to_connection h source_device source_conn
                   (RE_ChannelRejected channel (server_error_message e)), h)
      | Inr service \<Rightarrow>
          (case device_identity_public_key source_device db of
             Inl e \<Rightarrow> Some (to_connection h source_device source_conn
                        (RE_ChannelRejected channel (server_error_message e)), h)
           | Inr pk \<Rightarrow>
               open_loop rounds source_device source_conn channel (sd_owner_device_id service)
                 (RE_IncomingChannel channel source_device pk eph sig (sd_service_id service)) h))"

definition handle_channel_accepted :: "string \<Rightarrow> string \<Rightarrow> string \<Rightarrow> hub \<Rightarrow> outgoing \<times> hub" where
  "handle_channel_accepted d c channel h =
     (case map_of (hb_channels h) channel of
        None \<Rightarrow> ([], h)
      | Some ch \<Rightarrow>
          if ch_target_device ch \<noteq> d \<or> ch_target_conn ch \<noteq> c then ([], h)
          else
            let h1 = h\<lparr>hb_channels := AList.update channel (ch\<lparr>ch_accepted := True\<rparr>) (hb_channels h)\<rparr>
            in (to_connection h1 (ch_source_device ch) (ch_source_conn ch) (RE_ChannelAccepted channel), h1))"

definition handle_channel_rejected :: "string \<Rightarrow> string \<Rightarrow> string \<Rightarrow> string \<Rightarrow> hub \<Rightarrow> outgoing \<times> hub" where
  "handle_channel_rejected d c channel reason h =
     (case map_of (hb_channels h) channel of
        None \<Rightarrow> ([], h)
      | Some ch \<Rightarrow>
          if ch_target_device ch \<noteq> d \<or> ch_target_conn ch \<noteq> c then ([], h)
          else (to_connection h (ch_source_device ch) (ch_source_conn ch) (RE_ChannelRejected channel reason),
                h\<lparr>hb_channels := AList.delete channel (hb_channels h)\<rparr>))"

definition handle_channel_data :: "string \<Rightarrow> string \<Rightarrow> string \<Rightarrow> string \<Rightarrow> hub \<Rightarrow> outgoing \<times> hub" where
  "handle_channel_data d c channel data h =
     (case map_of (hb_channels h) channel of
        None \<Rightarrow> ([], h)
      | Some ch \<Rightarrow>
          if \<not> ch_accepted ch then ([], h)
          else if ch_source_device ch = d \<and> ch_source_conn ch = c
          then (to_connection h (ch_target_device ch) (ch_target_conn ch) (RE_ChannelData channel data), h)
          else if ch_target_device ch = d \<and> ch_target_conn ch = c
          then (to_connection h (ch_source_device ch) (ch_source_conn ch) (RE_ChannelData channel data), h)
          else ([], h))"

definition handle_channel_close ::
  "string \<Rightarrow> string \<Rightarrow> string \<Rightarrow> string option \<Rightarrow> hub \<Rightarrow> outgoing \<times> hub" where
  "handle_channel_close d c channel reason h =
     (case map_of (hb_channels h) channel of
        None \<Rightarrow> ([], h)
      | Some ch \<Rightarrow>
          if endpoint_of d c ch
          then (to_connection h (fst (peer_of d c ch)) (snd (peer_of d c ch)) (RE_ChannelClose channel reason),
                h\<lparr>hb_channels := AList.delete channel (hb_channels h)\<rparr>)
          else ([], h))"

text \<open>One envelope of a connection, without other sections in between.\<close>

fun handle_envelope ::
  "queue_closed \<Rightarrow> (queue_closed \<times> queue_closed \<times> queue_closed) list \<Rightarrow> database \<Rightarrow> string \<Rightarrow> string
     \<Rightarrow> relay_envelope \<Rightarrow> hub \<Rightarrow> (outgoing \<times> hub) option" where
  "handle_envelope closed rounds db d c (RE_OpenChannel channel service_id eph sig) h =
     handle_open_channel rounds db d c channel service_id eph sig
       (note_connection_opened_channel closed d c h)"
| "handle_envelope closed rounds db d c (RE_ChannelAccepted channel) h =
     Some (handle_channel_accepted d c channel h)"
| "handle_envelope closed rounds db d c (RE_ChannelRejected channel reason) h =
     Some (handle_channel_rejected d c channel reason h)"
| "handle_envelope closed rounds db d c (RE_ChannelData channel data) h =
     Some (handle_channel_data d c channel data h)"
| "handle_envelope closed rounds db d c (RE_ChannelClose channel reason) h =
     Some (handle_channel_close d c channel reason h)"
| "handle_envelope closed rounds db d c RE_Ping h = Some (to_connection h d c RE_Pong, h)"
| "handle_envelope closed rounds db d c RE_Pong h = Some ([], h)"
| "handle_envelope closed rounds db d c (RE_Ready _) h = Some ([], h)"
| "handle_envelope closed rounds db d c (RE_IncomingChannel _ _ _ _ _ _) h = Some ([], h)"

end
