(* ===== verification/RelayInv.thy ===== *)
theory RelayInv
  imports RelayHub
begin

text \<open>
  The sections of the relay hub as operations on its state, and the invariant that all of them
  keep: no key occurs twice, a device without connections is forgotten, and the preferred legacy
  connection of a device is one of its connections, has never opened a channel itself and has not
  said whether it takes incoming channels.
\<close>

section \<open>The invariant\<close>

definition legacy_conn :: "hub \<Rightarrow> string \<Rightarrow> string \<Rightarrow> bool" where
  "legacy_conn h d c =
     (case find_conn h d c of None \<Rightarrow> False | Some x \<Rightarrow> hc_support x = LegacyUnknown \<and> \<not> hc_originated x)"

definition conns_ok :: "(string \<times> (string \<times> hub_conn) list) list \<Rightarrow> bool" where
  "conns_ok cs = (distinct (map fst cs) \<and> (\<forall>(d, xs)\<in>set cs. xs \<noteq> [] \<and> distinct (map fst xs)))"

definition preferred_ok :: "hub \<Rightarrow> bool" where
  "preferred_ok h = (\<forall>d c. map_of (hb_preferred h) d = Some c \<longrightarrow> legacy_conn h d c)"

definition hub_wf :: "hub \<Rightarrow> bool" where
  "hub_wf h = (conns_ok (hb_conns h) \<and> distinct (map fst (hb_channels h))
     \<and> distinct (map fst (hb_preferred h)) \<and> preferred_ok h)"

lemma hub_wfI:
  "conns_ok (hb_conns h) \<Longrightarrow> distinct (map fst (hb_channels h)) \<Longrightarrow> distinct (map fst (hb_preferred h))
    \<Longrightarrow> preferred_ok h \<Longrightarrow> hub_wf h"
  by (simp add: hub_wf_def)

lemma hub_new_wf: "hub_wf hub_new"
  by (simp add: hub_wf_def hub_new_def conns_ok_def preferred_ok_def)

lemma find_conn_cong: "hb_conns h' = hb_conns h \<Longrightarrow> find_conn h' = find_conn h"
  by (simp add: find_conn_def fun_eq_iff)

lemma find_conn_update [simp]:
  "find_conn (h\<lparr>hb_preferred := p\<rparr>) = find_conn h" "find_conn (h\<lparr>hb_channels := k\<rparr>) = find_conn h"
  "find_conn (h\<lparr>hb_next_seq := n\<rparr>) = find_conn h"
  by (rule find_conn_cong, simp)+

lemma legacy_conn_update [simp]:
  "legacy_conn (h\<lparr>hb_preferred := p\<rparr>) = legacy_conn h" "legacy_conn (h\<lparr>hb_channels := k\<rparr>) = legacy_conn h"
  "legacy_conn (h\<lparr>hb_next_seq := n\<rparr>) = legacy_conn h"
  by (simp_all add: legacy_conn_def fun_eq_iff)

lemma lookup_update [simp]:
  "lookup_connection_sender (h\<lparr>hb_preferred := p\<rparr>) = lookup_connection_sender h"
  "lookup_connection_sender (h\<lparr>hb_channels := k\<rparr>) = lookup_connection_sender h"
  by (simp_all add: lookup_connection_sender_def fun_eq_iff)

section \<open>The preferred connection\<close>

text \<open>Only the preference of one device changes, to one of its legacy connections or to none.\<close>

definition prefers :: "string \<Rightarrow> hub \<Rightarrow> hub \<Rightarrow> bool" where
  "prefers d h h' =
     (hb_conns h' = hb_conns h \<and> hb_channels h' = hb_channels h \<and> hb_next_seq h' = hb_next_seq h
      \<and> (distinct (map fst (hb_preferred h)) \<longrightarrow> distinct (map fst (hb_preferred h')))
      \<and> (\<forall>e. e \<noteq> d \<longrightarrow> map_of (hb_preferred h') e = map_of (hb_preferred h) e)
      \<and> (\<forall>c. map_of (hb_preferred h') d = Some c \<longrightarrow>
           map_of (hb_preferred h) d = Some c \<or> legacy_conn h d c))"

lemma prefers_refl [simp]: "prefers d h h" by (simp add: prefers_def)

lemma prefers_drop: "prefers d h (drop_preferred d h)"
  by (simp add: prefers_def AList.delete_conv' AList.distinct_delete)

lemma prefers_set: "legacy_conn h d c \<Longrightarrow> prefers d h (set_preferred d c h)"
  by (simp add: prefers_def AList.update_conv' AList.distinct_update)

lemma prefers_after_drop:
  "prefers d (drop_preferred d h) h' \<Longrightarrow> map_of (hb_preferred h') d = Some c \<Longrightarrow> legacy_conn h d c"
  by (auto simp: prefers_def AList.delete_conv')

lemma prefers_trans:
  assumes "prefers d h h1" "prefers d h1 h2"
  shows "prefers d h h2"
  using assms by (auto simp: prefers_def legacy_conn_def find_conn_def)

lemma prefers_promote: "conns_ok (hb_conns h) \<Longrightarrow> prefers d h (maybe_promote_newer_legacy_connection closed d s h)"
proof -
  assume ok: "conns_ok (hb_conns h)"
  have "legacy_conn h d c"
    if cs: "map_of (hb_conns h) d = Some cs"
      and m: "last_max (\<lambda>(_, x). hc_seq x) (filter (\<lambda>(_, x). hc_support x = LegacyUnknown
        \<and> \<not> hc_originated x \<and> \<not> closed (hc_sender x) \<and> s < hc_seq x) cs) = Some (c, x)" for cs c x
  proof -
    have "(c, x) \<in> set cs" "hc_support x = LegacyUnknown" "\<not> hc_originated x"
      using last_max_Some [OF m] by auto
    moreover have "distinct (map fst cs)"
      using ok map_of_SomeD [OF cs] by (auto simp: conns_ok_def)
    ultimately show ?thesis by (simp add: legacy_conn_def find_conn_def cs)
  qed
  then show ?thesis
    by (auto simp: maybe_promote_newer_legacy_connection_def prefers_set split: option.split)
qed

lemma eligible_legacy:
  "is_eligible_legacy_incoming_connection closed x \<Longrightarrow> find_conn h d c = Some x \<Longrightarrow> legacy_conn h d c"
  by (simp add: is_eligible_legacy_incoming_connection_def legacy_conn_def)

lemma prefers_refresh:
  assumes "conns_ok (hb_conns h)"
  shows "prefers d h (refresh_preferred_legacy_connection closed d h)"
    and "map_of (hb_preferred (refresh_preferred_legacy_connection closed d h)) d = Some c \<Longrightarrow> legacy_conn h d c"
proof -
  have promote: "prefers d (drop_preferred d h) (maybe_promote_newer_legacy_connection closed d s (drop_preferred d h))" for s
    by (rule prefers_promote) (simp add: assms)
  then have chain: "prefers d h (maybe_promote_newer_legacy_connection closed d s (drop_preferred d h))" for s
    by (rule prefers_trans [OF prefers_drop])
  then show "prefers d h (refresh_preferred_legacy_connection closed d h)"
    by (auto simp: refresh_preferred_legacy_connection_def prefers_drop split: option.split)
  assume pref: "map_of (hb_preferred (refresh_preferred_legacy_connection closed d h)) d = Some c"
  have promoted: "legacy_conn h d c" if "map_of (hb_preferred (maybe_promote_newer_legacy_connection closed d s (drop_preferred d h))) d = Some c" for s
    using promote [of s] that by (auto simp: prefers_def AList.delete_conv')
  with pref show "legacy_conn h d c"
    by (auto simp: refresh_preferred_legacy_connection_def AList.delete_conv'
        dest: promoted eligible_legacy split: option.splits if_splits)
qed

lemma prefers_wf:
  assumes "prefers d h h'" "hub_wf h"
  shows "hub_wf h'"
proof (rule hub_wfI)
  have "find_conn h' = find_conn h" by (rule find_conn_cong) (use assms(1) in \<open>simp add: prefers_def\<close>)
  then have legacy: "legacy_conn h' = legacy_conn h" by (simp add: legacy_conn_def fun_eq_iff)
  show "preferred_ok h'" unfolding preferred_ok_def legacy
  proof (intro allI impI)
    fix e c assume e: "map_of (hb_preferred h') e = Some c"
    show "legacy_conn h e c"
    proof (cases "e = d")
      case True
      with e assms show ?thesis by (auto simp: prefers_def hub_wf_def preferred_ok_def)
    next
      case False
      with e assms have "map_of (hb_preferred h) e = Some c" by (simp add: prefers_def)
      with assms(2) show ?thesis by (simp add: hub_wf_def preferred_ok_def)
    qed
  qed
qed (use assms in \<open>simp_all add: prefers_def hub_wf_def\<close>)

section \<open>Adding and removing connections\<close>

lemma find_put_conn: "find_conn (put_conn d c x h) e b = (if e = d \<and> b = c then Some x else find_conn h e b)"
  by (auto simp: find_conn_def put_conn_def AList.update_conv' split: option.splits)

lemma put_conn_frame [simp]:
  "hb_channels (put_conn d c x h) = hb_channels h" "hb_preferred (put_conn d c x h) = hb_preferred h"
  "hb_next_seq (put_conn d c x h) = hb_next_seq h"
  by (simp_all add: put_conn_def)

lemma map_of_conns_ok: "conns_ok cs \<Longrightarrow> map_of cs d = Some xs \<Longrightarrow> xs \<noteq> [] \<and> distinct (map fst xs)"
  by (auto simp: conns_ok_def dest: map_of_SomeD)

lemma conns_ok_update:
  assumes "conns_ok cs" "xs \<noteq> []" "distinct (map fst xs)"
  shows "conns_ok (AList.update d xs cs)"
proof -
  have dist: "distinct (map fst (AList.update d xs cs))"
    using assms(1) by (simp add: conns_ok_def AList.distinct_update)
  have "ys \<noteq> [] \<and> distinct (map fst ys)" if "(e, ys) \<in> set (AList.update d xs cs)" for e ys
  proof -
    have "map_of (AList.update d xs cs) e = Some ys" using dist that by simp
    then show ?thesis
      using assms map_of_conns_ok [OF assms(1)] by (auto simp: AList.update_conv' split: if_splits)
  qed
  with dist show ?thesis by (auto simp: conns_ok_def)
qed

lemma conns_ok_delete: "conns_ok cs \<Longrightarrow> conns_ok (AList.delete d cs)"
  unfolding conns_ok_def by (intro conjI AList.distinct_delete) (auto simp: AList.delete_eq)

lemma put_conn_ok: "conns_ok (hb_conns h) \<Longrightarrow> conns_ok (hb_conns (put_conn d c x h))"
  using map_of_conns_ok [of "hb_conns h" d]
  by (auto simp: put_conn_def AList.update_nonempty AList.distinct_update intro!: conns_ok_update
      split: option.split)

text \<open>What removing a connection leaves, before the preference of its device is looked at.\<close>

definition without_conn :: "string \<Rightarrow> string \<Rightarrow> hub \<Rightarrow> hub" where
  "without_conn d c h =
     (case map_of (hb_conns h) d of
        None \<Rightarrow> h
      | Some cs \<Rightarrow>
          if AList.delete c cs = [] then h\<lparr>hb_conns := AList.delete d (AList.update d [] (hb_conns h))\<rparr>
          else h\<lparr>hb_conns := AList.update d (AList.delete c cs) (hb_conns h)\<rparr>)"

lemma without_conn_frame [simp]:
  "hb_channels (without_conn d c h) = hb_channels h" "hb_preferred (without_conn d c h) = hb_preferred h"
  "hb_next_seq (without_conn d c h) = hb_next_seq h"
  by (auto simp: without_conn_def split: option.split)

lemma find_without_conn: "find_conn (without_conn d c h) e b = (if e = d \<and> b = c then None else find_conn h e b)"
proof (cases "map_of (hb_conns h) d")
  case (Some cs)
  have "AList.delete c cs = [] \<Longrightarrow> b \<noteq> c \<Longrightarrow> map_of cs b = None"
    by (metis AList.delete_conv' fun_upd_apply map_of.simps(1))
  with Some show ?thesis
    by (auto simp: find_conn_def without_conn_def AList.update_conv' AList.delete_conv' split: option.split)
qed (auto simp: find_conn_def without_conn_def)

lemma without_conn_ok: "conns_ok (hb_conns h) \<Longrightarrow> conns_ok (hb_conns (without_conn d c h))"
proof -
  assume ok: "conns_ok (hb_conns h)"
  have "AList.delete d (AList.update d [] (hb_conns h)) = AList.delete d (hb_conns h)"
    by (rule AList.delete_update_same)
  with ok map_of_conns_ok [OF ok, of d] show ?thesis
    by (auto simp: without_conn_def conns_ok_delete AList.distinct_delete intro!: conns_ok_update
        split: option.split)
qed

lemma remove_connection_entry_cases:
  "remove_connection_entry closed d c h = drop_preferred d (without_conn d c h)
   \<or> (\<exists>s. remove_connection_entry closed d c h
        = maybe_promote_newer_legacy_connection closed d s (drop_preferred d (without_conn d c h)))
   \<or> map_of (hb_preferred h) d \<noteq> Some c \<and> remove_connection_entry closed d c h = without_conn d c h"
  by (auto simp: remove_connection_entry_def without_conn_def find_conn_def Let_def split: option.splits)

lemma remove_connection_entry_prefers:
  assumes "conns_ok (hb_conns h)"
  shows "prefers d (without_conn d c h) (remove_connection_entry closed d c h)"
    and "map_of (hb_preferred (remove_connection_entry closed d c h)) d = Some b
      \<Longrightarrow> b \<noteq> c \<and> map_of (hb_preferred h) d = Some b \<or> legacy_conn (without_conn d c h) d b"
proof -
  have "conns_ok (hb_conns (drop_preferred d (without_conn d c h)))"
    by (simp add: without_conn_ok assms)
  note promote = prefers_promote [OF this]
  show "prefers d (without_conn d c h) (remove_connection_entry closed d c h)"
    using remove_connection_entry_cases [of closed d c h]
    by (metis prefers_drop prefers_refl prefers_trans promote)
  assume "map_of (hb_preferred (remove_connection_entry closed d c h)) d = Some b"
  then show "b \<noteq> c \<and> map_of (hb_preferred h) d = Some b \<or> legacy_conn (without_conn d c h) d b"
    using remove_connection_entry_cases [of closed d c h] prefers_after_drop [OF promote]
    by (auto simp: AList.delete_conv')
qed

lemma hub_wf_parts:
  "hub_wf h \<Longrightarrow> conns_ok (hb_conns h)" "hub_wf h \<Longrightarrow> distinct (map fst (hb_channels h))"
  "hub_wf h \<Longrightarrow> distinct (map fst (hb_preferred h))"
  "hub_wf h \<Longrightarrow> map_of (hb_preferred h) d = Some c \<Longrightarrow> legacy_conn h d c"
  by (simp_all add: hub_wf_def preferred_ok_def)

lemma legacy_conn_cong: "hb_conns h' = hb_conns h \<Longrightarrow> legacy_conn h' d c = legacy_conn h d c"
  by (simp add: legacy_conn_def find_conn_def)

text \<open>
  A change of the connections of one device followed by a change of its preference is safe, if
  what is preferred afterwards is a legacy connection.
\<close>

lemma change_then_prefer_wf:
  assumes "hub_wf h" "hb_channels m = hb_channels h" "hb_preferred m = hb_preferred h" "conns_ok (hb_conns m)"
    and other: "\<And>e c. e \<noteq> d \<Longrightarrow> find_conn m e c = find_conn h e c"
    and "prefers d m h'" "\<And>c. map_of (hb_preferred h') d = Some c \<Longrightarrow> legacy_conn m d c"
  shows "hub_wf h'"
proof (rule hub_wfI)
  note p = assms(6) [unfolded prefers_def]
  show "conns_ok (hb_conns h')" "distinct (map fst (hb_channels h'))" "distinct (map fst (hb_preferred h'))"
    using p assms(1-4) by (simp_all add: hub_wf_parts)
  show "preferred_ok h'" unfolding preferred_ok_def
  proof (intro allI impI)
    fix e c assume e: "map_of (hb_preferred h') e = Some c"
    have "legacy_conn m e c"
    proof (cases "e = d")
      case True with e assms(7) show ?thesis by simp
    next
      case False
      with e p assms(3) have "map_of (hb_preferred h) e = Some c" by simp
      with hub_wf_parts(4) [OF assms(1)] other [OF False] show ?thesis by (simp add: legacy_conn_def)
    qed
    then show "legacy_conn h' e c" using p legacy_conn_cong [of h' m e c] by simp
  qed
qed

lemma remove_connection_entry_wf:
  assumes "hub_wf h"
  shows "hub_wf (remove_connection_entry closed d c h)"
proof (rule change_then_prefer_wf [OF assms, where m = "without_conn d c h" and d = d])
  note ok = hub_wf_parts(1) [OF assms]
  show "prefers d (without_conn d c h) (remove_connection_entry closed d c h)"
    using ok by (rule remove_connection_entry_prefers)
  show "legacy_conn (without_conn d c h) d b"
    if "map_of (hb_preferred (remove_connection_entry closed d c h)) d = Some b" for b
    using remove_connection_entry_prefers(2) [OF ok that] hub_wf_parts(4) [OF assms]
    by (auto simp: legacy_conn_def find_without_conn)
qed (simp_all add: without_conn_ok hub_wf_parts [OF assms] find_without_conn)

lemma pick_incoming_connection_prefers:
  assumes "conns_ok (hb_conns h)"
  shows "prefers d h (snd (pick_incoming_connection closed d h))"
  using prefers_refresh(1) [OF assms, of d closed]
  by (auto simp: pick_incoming_connection_def Let_def split: option.split)

lemma maybe_assign_prefers:
  assumes "conns_ok (hb_conns h)"
  shows "prefers d h (maybe_assign_preferred_legacy_connection closed d c h)"
    and "map_of (hb_preferred (maybe_assign_preferred_legacy_connection closed d c h)) d = Some b
      \<Longrightarrow> legacy_conn h d b"
proof -
  let ?r = "refresh_preferred_legacy_connection closed d h"
  note r = prefers_refresh [OF assms, where closed = closed]
  have set: "prefers d h (set_preferred d c ?r) \<and> legacy_conn h d c"
    if "find_conn ?r d c = Some x" "is_eligible_legacy_incoming_connection closed x" for x
  proof -
    have l: "legacy_conn ?r d c" using that(2,1) by (rule eligible_legacy)
    have "hb_conns ?r = hb_conns h" using r(1) [of d] by (simp add: prefers_def)
    from legacy_conn_cong [OF this] l have "legacy_conn h d c" by simp
    with prefers_trans [OF r(1) prefers_set [OF l]] show ?thesis by blast
  qed
  show "prefers d h (maybe_assign_preferred_legacy_connection closed d c h)"
    using r(1) [of d] set by (auto simp: maybe_assign_preferred_legacy_connection_def Let_def split: option.split)
  assume "map_of (hb_preferred (maybe_assign_preferred_legacy_connection closed d c h)) d = Some b"
  then show "legacy_conn h d b"
    using r(2) [of d] set
    by (auto simp: maybe_assign_preferred_legacy_connection_def Let_def AList.update_conv'
        split: option.splits if_splits)
qed

lemma hub_register_device_wf:
  assumes "hub_wf h"
  shows "hub_wf (hub_register_device closed cid d q incoming h)"
proof -
  let ?m = "put_conn d cid \<lparr>hc_sender = q, hc_support = support_from_query incoming,
    hc_seq = hb_next_seq h, hc_originated = False\<rparr> (h\<lparr>hb_next_seq := hb_next_seq h + 1\<rparr>)"
  have ok: "conns_ok (hb_conns ?m)" by (rule put_conn_ok) (simp add: hub_wf_parts [OF assms])
  show ?thesis unfolding hub_register_device_def
    by (rule change_then_prefer_wf [OF assms, where m = ?m and d = d])
      (simp_all add: ok maybe_assign_prefers [OF ok] find_put_conn)
qed

lemma note_connection_opened_channel_wf:
  assumes "hub_wf h"
  shows "hub_wf (note_connection_opened_channel closed d c h)"
proof (cases "find_conn h d c")
  case None
  with assms show ?thesis by (simp add: note_connection_opened_channel_def)
next
  case (Some x)
  let ?m = "put_conn d c (x\<lparr>hc_originated := True,
    hc_support := (if hc_support x = LegacyUnknown then ExplicitNo else hc_support x)\<rparr>) h"
  have ok: "conns_ok (hb_conns ?m)" by (rule put_conn_ok) (simp add: hub_wf_parts [OF assms])
  have promote: "prefers d (drop_preferred d ?m) (maybe_promote_newer_legacy_connection closed d (hc_seq x) (drop_preferred d ?m))"
    by (rule prefers_promote) (simp add: ok)
  show ?thesis
  proof (rule change_then_prefer_wf [OF assms, where m = ?m and d = d])
    show "prefers d ?m (note_connection_opened_channel closed d c h)"
      using prefers_trans [OF prefers_drop promote]
      by (simp add: note_connection_opened_channel_def Some Let_def)
    show "legacy_conn ?m d b" if "map_of (hb_preferred (note_connection_opened_channel closed d c h)) d = Some b" for b
      using that promote hub_wf_parts(4) [OF assms, of d b]
      by (auto simp: note_connection_opened_channel_def Some Let_def prefers_def AList.delete_conv'
          legacy_conn_def find_put_conn split: if_splits)
  qed (simp_all add: ok find_put_conn)
qed

section \<open>Channels and connections\<close>

lemma hub_channels_wf: "hub_wf h \<Longrightarrow> distinct (map fst k) \<Longrightarrow> hub_wf (h\<lparr>hb_channels := k\<rparr>)"
  by (rule hub_wfI) (simp_all add: hub_wf_parts preferred_ok_def)

lemmas channels_wf =
  hub_channels_wf [OF _ AList.distinct_update [OF hub_wf_parts(2)]]
  hub_channels_wf [OF _ AList.distinct_delete [OF hub_wf_parts(2)]]

text \<open>What \<open>disconnect_channels\<close> does to the state: the channels listed are gone.\<close>

lemma disconnect_channels_state:
  "snd (disconnect_channels d c is h) = h\<lparr>hb_channels := fold AList.delete is (hb_channels h)\<rparr>"
proof (induction "is" arbitrary: h)
  case (Cons i "is")
  show ?case
  proof (cases "map_of (hb_channels h) i")
    case None
    then have "AList.delete i (hb_channels h) = hb_channels h"
      by (simp add: AList.delete_eq map_of_eq_None_iff) (rule filter_True, force)
    with Cons None show ?thesis by simp
  next
    case (Some ch)
    then show ?thesis
      using Cons [of "h\<lparr>hb_channels := AList.delete i (hb_channels h)\<rparr>"]
      by (simp add: split_beta Let_def split: option.split)
  qed
qed simp

lemma fold_delete_distinct: "distinct (map fst k) \<Longrightarrow> distinct (map fst (fold AList.delete is k))"
  by (induction "is" arbitrary: k) (simp_all add: AList.distinct_delete)

lemma map_of_fold_delete: "map_of (fold AList.delete is k) i = (if i \<in> set is then None else map_of k i)"
  by (induction "is" arbitrary: k) (auto simp: AList.delete_conv')

lemma hub_disconnect_device_wf: "hub_wf h \<Longrightarrow> hub_wf (snd (hub_disconnect_device closed d c h))"
  by (simp add: hub_disconnect_device_def Let_def disconnect_channels_state hub_channels_wf fold_delete_distinct
      remove_connection_entry_wf hub_wf_parts)

lemma hub_reset_wf: "hub_wf (hub_reset h)"
  by (simp add: hub_wf_def hub_reset_def conns_ok_def preferred_ok_def)

lemma pick_incoming_connection_wf: "hub_wf h \<Longrightarrow> hub_wf (snd (pick_incoming_connection closed d h))"
  by (rule prefers_wf [OF pick_incoming_connection_prefers [OF hub_wf_parts(1)]])

lemma open_reserve_wf: "hub_wf h \<Longrightarrow> hub_wf (snd (open_reserve closed sd sc i owner h))"
  using pick_incoming_connection_wf [of h closed owner]
  by (auto simp: open_reserve_def channels_wf split: prod.split option.split)

lemma open_rollback_wf: "hub_wf h \<Longrightarrow> hub_wf (open_rollback closed owner tc i h)"
  by (simp add: open_rollback_def Let_def channels_wf remove_connection_entry_wf)

lemma channel_handlers_wf:
  assumes "hub_wf h"
  shows "hub_wf (snd (handle_channel_accepted d c i h))" "hub_wf (snd (handle_channel_rejected d c i r h))"
    "hub_wf (snd (handle_channel_close d c i r' h))"
  using assms
  by (simp_all add: handle_channel_accepted_def handle_channel_rejected_def handle_channel_close_def
      Let_def channels_wf split: option.split)

section \<open>Sections under the lock\<close>

datatype hub_section =
    HS_Register queue_closed string string nat "bool option"
  | HS_Disconnect queue_closed string string
  | HS_Reset
  | HS_Opened queue_closed string string
  | HS_Reserve queue_closed string string string string
  | HS_Rollback queue_closed string string string
  | HS_Accept string string string
  | HS_Reject string string string string
  | HS_Close string string string "string option"

fun hub_exec :: "hub_section \<Rightarrow> hub \<Rightarrow> hub" where
  "hub_exec (HS_Register closed cid d q incoming) h = hub_register_device closed cid d q incoming h"
| "hub_exec (HS_Disconnect closed d c) h = snd (hub_disconnect_device closed d c h)"
| "hub_exec HS_Reset h = hub_reset h"
| "hub_exec (HS_Opened closed d c) h = note_connection_opened_channel closed d c h"
| "hub_exec (HS_Reserve closed sd sc i owner) h = snd (open_reserve closed sd sc i owner h)"
| "hub_exec (HS_Rollback closed owner tc i) h = open_rollback closed owner tc i h"
| "hub_exec (HS_Accept d c i) h = snd (handle_channel_accepted d c i h)"
| "hub_exec (HS_Reject d c i r) h = snd (handle_channel_rejected d c i r h)"
| "hub_exec (HS_Close d c i r) h = snd (handle_channel_close d c i r h)"

lemma hub_exec_wf: "hub_wf h \<Longrightarrow> hub_wf (hub_exec op h)"
  by (cases op)
    (simp_all add: hub_register_device_wf hub_disconnect_device_wf hub_reset_wf
      note_connection_opened_channel_wf open_reserve_wf open_rollback_wf channel_handlers_wf)

text \<open>Any number of sections in any order: what concurrent connections do to the hub.\<close>

definition hub_run :: "hub_section list \<Rightarrow> hub \<Rightarrow> hub" where
  "hub_run ops h = fold hub_exec ops h"

interpretation hubs: invariant_system hub_wf hub_exec
  rewrites "invariant_system.run hub_exec = hub_run"
proof -
  show inv: "invariant_system hub_wf hub_exec"
    by unfold_locales (rule hub_exec_wf)
  show "invariant_system.run hub_exec = hub_run"
    by (simp add: fun_eq_iff invariant_system.run_def [OF inv] hub_run_def)
qed

lemma open_loop_sections:
  "open_loop rounds sd sc i owner e h = Some (out, h') \<Longrightarrow> \<exists>ops. h' = hub_run ops h"
proof (induction rounds arbitrary: h)
  case (Cons r rounds)
  obtain c1 c2 c3 where r: "r = (c1, c2, c3)" by (cases r) auto
  obtain oc h1 where res: "open_reserve c1 sd sc i owner h = (oc, h1)" by fastforce
  then have h1: "h1 = hub_run [HS_Reserve c1 sd sc i owner] h" by simp
  show ?case
  proof (cases oc)
    case (Open_Reject reason)
    with Cons.prems res r have "h' = h1" by simp
    with h1 show ?thesis by blast
  next
    case (Open_Reserved tc q)
    show ?thesis
    proof (cases "c2 q")
      case True
      with Cons.prems res r Open_Reserved
      have "open_loop rounds sd sc i owner e (open_rollback c3 owner tc i h1) = Some (out, h')" by simp
      from Cons.IH [OF this] obtain ops where "h' = hub_run ops (open_rollback c3 owner tc i h1)" ..
      then have "h' = hub_run (HS_Reserve c1 sd sc i owner # HS_Rollback c3 owner tc i # ops) h"
        by (simp add: res)
      then show ?thesis ..
    next
      case False
      with Cons.prems res r Open_Reserved have "h' = h1" by simp
      with h1 show ?thesis by blast
    qed
  qed
qed simp

lemma handle_open_channel_sections:
  assumes "handle_open_channel rounds db sd sc i sid eph sig h = Some (out, h')"
  shows "\<exists>ops. h' = hub_run ops h"
proof -
  have "h' = hub_run [] h \<or> (\<exists>owner e. open_loop rounds sd sc i owner e h = Some (out, h'))"
    using assms by (auto simp: handle_open_channel_def split: sum.splits)
  then show ?thesis using open_loop_sections by blast
qed

text \<open>What an envelope does to the hub is a sequence of these sections.\<close>

lemma handle_envelope_sections:
  assumes "handle_envelope closed rounds db d c e h = Some (out, h')"
  shows "\<exists>ops. h' = hub_run ops h"
proof -
  have none: "\<exists>ops. h = hub_run ops h" by (rule exI [of _ "[]"]) simp
  have one: "h' = hub_exec op h \<Longrightarrow> \<exists>ops. h' = hub_run ops h" for op
    by (rule exI [of _ "[op]"]) simp
  have opened: "\<exists>ops. h' = hub_run ops h"
    if "\<exists>ops. h' = hub_run ops (note_connection_opened_channel closed d c h)"
  proof -
    from that obtain ops where "h' = hub_run ops (note_connection_opened_channel closed d c h)" ..
    then have "h' = hub_run (HS_Opened closed d c # ops) h" by simp
    then show ?thesis ..
  qed
  show ?thesis
  proof (cases e)
    case (RE_OpenChannel i sid eph sig)
    have "\<exists>ops. h' = hub_run ops (note_connection_opened_channel closed d c h)"
      using assms handle_open_channel_sections by (simp add: RE_OpenChannel)
    then show ?thesis by (rule opened)
  next
    case (RE_ChannelAccepted i)
    with assms show ?thesis by (intro one [of "HS_Accept d c i"]) simp
  next
    case (RE_ChannelRejected i r)
    with assms show ?thesis by (intro one [of "HS_Reject d c i r"]) simp
  next
    case (RE_ChannelClose i r)
    with assms show ?thesis by (intro one [of "HS_Close d c i r"]) simp
  qed (use assms none in \<open>auto simp: handle_channel_data_def simp del: ex_simps split: option.splits if_splits\<close>)
qed

end
