(* ===== verification/RelayProps.thy ===== *)
theory RelayProps
  imports RelayInv RendezvousProps
begin

text \<open>
  What the relay hub promises: its tables stay consistent whatever connections do, incoming
  channels go to the right connection, no connection can touch a channel it is no end of, data only
  flows through accepted channels, opening a channel ends, and a disconnect cleans up.
\<close>

section \<open>Consistency\<close>

text \<open>
  Whatever sections run in whatever order on a new hub, no connection, channel or preference is
  listed twice, no device without connections is kept, and every preferred legacy connection exists,
  has never opened a channel and did not say whether it takes incoming ones.
\<close>

theorem hub_integrity: "hub_wf (hub_run ops hub_new)"
  by (rule hubs.run_inv [OF hub_new_wf])

section \<open>Which connection takes an incoming channel\<close>

lemma find_conn_in:
  assumes "conns_ok (hb_conns h)" "map_of (hb_conns h) d = Some cs"
  shows "find_conn h d c = Some x \<longleftrightarrow> (c, x) \<in> set cs"
  using map_of_conns_ok [OF assms] by (simp add: find_conn_def assms(2))

text \<open>The two choices, as the code makes them.\<close>

definition live_explicit :: "queue_closed \<Rightarrow> hub \<Rightarrow> string \<Rightarrow> string \<Rightarrow> hub_conn \<Rightarrow> bool" where
  "live_explicit closed h d c x =
     (find_conn h d c = Some x \<and> hc_support x = ExplicitYes \<and> \<not> closed (hc_sender x))"

lemma pick_explicit:
  assumes "hub_wf h" "live_explicit closed h d c x"
  obtains c' x' where "pick_incoming_connection closed d h = (Some (c', hc_sender x'), h)"
    "live_explicit closed h d c' x'" "\<And>b y. live_explicit closed h d b y \<Longrightarrow> hc_seq y \<le> hc_seq x'"
proof -
  from assms(2) obtain cs where cs: "map_of (hb_conns h) d = Some cs"
    by (auto simp: live_explicit_def find_conn_def split: option.splits)
  note find = find_conn_in [OF hub_wf_parts(1) [OF assms(1)] cs]
  let ?f = "filter (\<lambda>(_, x). hc_support x = ExplicitYes \<and> \<not> closed (hc_sender x)) cs"
  have mem: "(b, y) \<in> set ?f \<longleftrightarrow> live_explicit closed h d b y" for b y
    by (auto simp: live_explicit_def find)
  with assms(2) have "last_max (\<lambda>(_, x). hc_seq x) ?f \<noteq> None" by (simp add: filter_empty_conv) (use mem in force)
  then obtain c' x' where m: "last_max (\<lambda>(_, x). hc_seq x) ?f = Some (c', x')" by fast
  show thesis
  proof (rule that)
    show "pick_incoming_connection closed d h = (Some (c', hc_sender x'), h)"
      by (simp add: pick_incoming_connection_def cs m)
    show "live_explicit closed h d c' x'" using last_max_Some [OF m] mem by blast
    show "hc_seq y \<le> hc_seq x'" if "live_explicit closed h d b y" for b y
      using last_max_Some [OF m] that unfolding mem [symmetric] by fastforce
  qed
qed

lemma pick_legacy:
  assumes "hub_wf h" "\<And>c x. \<not> live_explicit closed h d c x"
  shows "case pick_incoming_connection closed d h of
      (None, h') \<Rightarrow> prefers d h h' \<and> (\<forall>c x. map_of (hb_preferred h') d = Some c \<and> find_conn h d c = Some x
        \<longrightarrow> \<not> is_eligible_legacy_incoming_connection closed x)
    | (Some (c, q), h') \<Rightarrow> prefers d h h' \<and> map_of (hb_preferred h') d = Some c
        \<and> (\<exists>x. find_conn h d c = Some x \<and> hc_sender x = q \<and> is_eligible_legacy_incoming_connection closed x)"
proof (cases "map_of (hb_conns h) d")
  case None
  then show ?thesis by (simp add: pick_incoming_connection_def find_conn_def)
next
  case (Some cs)
  let ?r = "refresh_preferred_legacy_connection closed d h"
  have p: "prefers d h ?r" by (rule prefers_refresh [OF hub_wf_parts(1) [OF assms(1)]])
  then have find: "find_conn ?r = find_conn h" by (intro find_conn_cong) (simp add: prefers_def)
  have "last_max (\<lambda>(_, x). hc_seq x)
      (filter (\<lambda>(_, x). hc_support x = ExplicitYes \<and> \<not> closed (hc_sender x)) cs) = None"
    using assms(2) find_conn_in [OF hub_wf_parts(1) [OF assms(1)] Some]
    by (auto simp: live_explicit_def filter_empty_conv)
  with p Some show ?thesis
    by (simp add: pick_incoming_connection_def Let_def find split: option.split)
qed

text \<open>
  An incoming channel of a device goes to the newest of its open connections that announced to
  take them. Only if there is none it goes to the preferred legacy connection, which is open, has
  never opened a channel and did not say whether it takes them. No connection is found only if
  neither exists.
\<close>

theorem incoming_connection_choice:
  assumes "hub_wf h"
  shows "case pick_incoming_connection closed d h of
      (Some (c, q), h') \<Rightarrow> \<exists>x. find_conn h d c = Some x \<and> hc_sender x = q \<and> \<not> closed q
        \<and> (hc_support x = ExplicitYes \<and> h' = h \<and> (\<forall>b y. live_explicit closed h d b y \<longrightarrow> hc_seq y \<le> hc_seq x)
           \<or> hc_support x = LegacyUnknown \<and> \<not> hc_originated x \<and> (\<forall>b y. \<not> live_explicit closed h d b y)
             \<and> map_of (hb_preferred h') d = Some c)
    | (None, h') \<Rightarrow> (\<forall>b y. \<not> live_explicit closed h d b y)
        \<and> (\<forall>c x. map_of (hb_preferred h') d = Some c \<and> find_conn h d c = Some x
            \<longrightarrow> \<not> is_eligible_legacy_incoming_connection closed x)"
proof (cases "\<exists>c x. live_explicit closed h d c x")
  case True
  then obtain c x where "live_explicit closed h d c x" by blast
  from pick_explicit [OF assms this] obtain c' x' where
    "pick_incoming_connection closed d h = (Some (c', hc_sender x'), h)"
    "live_explicit closed h d c' x'" "\<And>b y. live_explicit closed h d b y \<Longrightarrow> hc_seq y \<le> hc_seq x'" by blast
  then show ?thesis by (auto simp: live_explicit_def)
next
  case False
  then show ?thesis
    using pick_legacy [OF assms, where d = d and closed = closed]
    by (auto simp: is_eligible_legacy_incoming_connection_def split: prod.splits option.splits)
qed

section \<open>Opening a channel\<close>

lemma find_remove_connection_entry:
  assumes "hub_wf h"
  shows "find_conn (remove_connection_entry closed d c h) e b = (if e = d \<and> b = c then None else find_conn h e b)"
proof -
  have "hb_conns (remove_connection_entry closed d c h) = hb_conns (without_conn d c h)"
    using remove_connection_entry_prefers(1) [OF hub_wf_parts(1) [OF assms]] by (simp add: prefers_def)
  from find_conn_cong [OF this] show ?thesis by (simp add: find_without_conn)
qed

lemma remove_connection_entry_channels [simp]:
  "hub_wf h \<Longrightarrow> hb_channels (remove_connection_entry closed d c h) = hb_channels h"
  using remove_connection_entry_prefers(1) [OF hub_wf_parts(1), of h d c closed] by (simp add: prefers_def)

lemma pick_frame:
  assumes "hub_wf h"
  shows "hb_channels (snd (pick_incoming_connection closed d h)) = hb_channels h"
    and "hb_conns (snd (pick_incoming_connection closed d h)) = hb_conns h"
  using pick_incoming_connection_prefers [OF hub_wf_parts(1) [OF assms]] by (auto simp: prefers_def)

lemma pick_Some:
  assumes "hub_wf h" "pick_incoming_connection closed d h = (Some (c, q), h')"
  obtains x where "find_conn h d c = Some x" "hc_sender x = q" "hc_support x \<noteq> ExplicitNo" "\<not> closed q"
proof (cases "\<exists>c x. live_explicit closed h d c x")
  case True
  with pick_explicit [OF assms(1)] assms(2) that show thesis
    by (auto simp: live_explicit_def) (metis Pair_inject incoming_channel_support.distinct(1) option.inject)
next
  case False
  with pick_legacy [OF assms(1), of closed d] assms(2) that show thesis
    by (auto simp: is_eligible_legacy_incoming_connection_def)
qed

text \<open>The number of connections of a device bounds the rounds of the loop.\<close>

definition conn_count :: "hub \<Rightarrow> string \<Rightarrow> nat" where
  "conn_count h d = (case map_of (hb_conns h) d of None \<Rightarrow> 0 | Some cs \<Rightarrow> length cs)"

lemma length_delete_less: "c \<in> fst ` set cs \<Longrightarrow> length (AList.delete c cs) < length cs"
  by (force simp: AList.delete_eq length_filter_less)

lemma conn_count_remove:
  assumes "hub_wf h" "find_conn h d c = Some x"
  shows "conn_count (remove_connection_entry closed d c h) d < conn_count h d"
proof -
  have "hb_conns (remove_connection_entry closed d c h) = hb_conns (without_conn d c h)"
    using remove_connection_entry_prefers(1) [OF hub_wf_parts(1) [OF assms(1)]] by (simp add: prefers_def)
  moreover from assms(2) obtain cs where "map_of (hb_conns h) d = Some cs" "map_of cs c = Some x"
    by (auto simp: find_conn_def split: option.splits)
  moreover have "c \<in> fst ` set cs" using map_of_SomeD [OF calculation(3)] by force
  ultimately show ?thesis
    by (auto simp: conn_count_def without_conn_def AList.update_conv' AList.delete_conv' length_delete_less
        split: option.split)
qed

lemma open_reserve_cases:
  assumes "hub_wf h" "open_reserve closed sd sc i owner h = (oc, h1)"
  obtains (reject) reason where "oc = Open_Reject reason" "hb_channels h1 = hb_channels h" "hb_conns h1 = hb_conns h"
  | (reserved) tc q x where "oc = Open_Reserved tc q" "map_of (hb_channels h) i = None"
      "find_conn h owner tc = Some x" "hc_sender x = q" "hc_support x \<noteq> ExplicitNo" "\<not> closed q"
      "hb_conns h1 = hb_conns h"
      "hb_channels h1 = AList.update i \<lparr>ch_source_device = sd, ch_source_conn = sc, ch_target_device = owner,
         ch_target_conn = tc, ch_accepted = False\<rparr> (hb_channels h)"
proof (cases "map_of (hb_channels h) i")
  case (Some ch)
  with assms(2) reject [of "''channel already exists''"] show thesis by (simp add: open_reserve_def)
next
  case None
  obtain r h2 where p: "pick_incoming_connection closed owner h = (r, h2)" by fastforce
  with pick_frame [OF assms(1), of closed owner]
  have frame: "hb_channels h2 = hb_channels h" "hb_conns h2 = hb_conns h" by simp_all
  show thesis
  proof (cases r)
    case None
    with assms(2) p \<open>map_of (hb_channels h) i = None\<close> frame reject show thesis
      by (auto simp: open_reserve_def)
  next
    case (Some tq)
    obtain tc q where tq: "tq = (tc, q)" by fastforce
    with Some p have "pick_incoming_connection closed owner h = (Some (tc, q), h2)" by simp
    from pick_Some [OF assms(1) this] obtain x where "find_conn h owner tc = Some x" "hc_sender x = q"
      "hc_support x \<noteq> ExplicitNo" "\<not> closed q" by blast
    with assms(2) p Some tq None frame reserved show thesis by (auto simp: open_reserve_def)
  qed
qed

text \<open>A round that fails leaves the hub without that connection and without the channel.\<close>

lemma open_rollback_frame:
  assumes "hub_wf h" "map_of (hb_channels h) i = None" "hub_wf h1" "hb_conns h1 = hb_conns h"
    "hb_channels h1 = AList.update i ch (hb_channels h)"
  shows "map_of (hb_channels (open_rollback closed owner tc i h1)) = map_of (hb_channels h)"
    and "find_conn (open_rollback closed owner tc i h1) e b
      = (if e = owner \<and> b = tc then None else find_conn h e b)"
  using assms find_conn_cong [OF assms(4)]
  by (auto simp: open_rollback_def Let_def AList.delete_conv' AList.update_conv' fun_eq_iff
      find_remove_connection_entry)

lemma open_loop_spec:
  assumes "open_loop rounds sd sc i owner m h = Some (out, h')" "hub_wf h"
  shows "(\<exists>reason. out = to_connection h' sd sc (RE_ChannelRejected i reason)
        \<and> map_of (hb_channels h') = map_of (hb_channels h))
    \<or> (\<exists>tc x. map_of (hb_channels h) i = None \<and> find_conn h owner tc = Some x \<and> hc_support x \<noteq> ExplicitNo
        \<and> out = [(hc_sender x, m)]
        \<and> map_of (hb_channels h') = (map_of (hb_channels h))(i \<mapsto> \<lparr>ch_source_device = sd, ch_source_conn = sc,
             ch_target_device = owner, ch_target_conn = tc, ch_accepted = False\<rparr>))"
  using assms
proof (induction rounds arbitrary: h)
  case (Cons r rounds)
  obtain c1 c2 c3 where r: "r = (c1, c2, c3)" by (cases r) auto
  obtain oc h1 where res: "open_reserve c1 sd sc i owner h = (oc, h1)" by fastforce
  have wf: "hub_wf h1" using open_reserve_wf [OF Cons.prems(2), of c1 sd sc i owner] res by simp
  from Cons.prems(2) res show ?case
  proof (cases rule: open_reserve_cases)
    case reject
    with Cons.prems(1) res r show ?thesis by auto
  next
    case (reserved tc q x)
    let ?h = "open_rollback c3 owner tc i h1"
    show ?thesis
    proof (cases "c2 q")
      case False
      with Cons.prems(1) res r reserved show ?thesis by (auto simp: AList.update_conv')
    next
      case True
      with Cons.prems(1) res r reserved have loop: "open_loop rounds sd sc i owner m ?h = Some (out, h')" by simp
      note frame = open_rollback_frame [OF Cons.prems(2) reserved(2) wf reserved(7,8)]
      have "find_conn ?h owner b = Some y \<Longrightarrow> find_conn h owner b = Some y" for b y
        by (simp add: frame(2) split: if_splits)
      with Cons.IH [OF loop open_rollback_wf [OF wf]] show ?thesis unfolding frame(1) by blast
    qed
  qed
qed simp

lemma open_loop_ends:
  assumes "hub_wf h" "conn_count h owner < length rounds"
  shows "\<exists>out h'. open_loop rounds sd sc i owner m h = Some (out, h')"
  using assms
proof (induction rounds arbitrary: h)
  case (Cons r rounds)
  obtain c1 c2 c3 where r: "r = (c1, c2, c3)" by (cases r) auto
  obtain oc h1 where res: "open_reserve c1 sd sc i owner h = (oc, h1)" by fastforce
  have wf: "hub_wf h1" using open_reserve_wf [OF Cons.prems(1), of c1 sd sc i owner] res by simp
  from Cons.prems(1) res show ?case
  proof (cases rule: open_reserve_cases)
    case reject
    with res r show ?thesis by auto
  next
    case (reserved tc q x)
    have "find_conn h1 owner tc = Some x" using find_conn_cong [OF reserved(7)] reserved(3) by simp
    from conn_count_remove [OF wf this, of c3]
    have "conn_count (open_rollback c3 owner tc i h1) owner < conn_count h owner"
      using reserved(7) by (simp add: open_rollback_def Let_def conn_count_def)
    then have "conn_count (open_rollback c3 owner tc i h1) owner < length rounds" using Cons.prems(2) by simp
    from Cons.IH [OF open_rollback_wf [OF wf] this] res r reserved(1) show ?thesis by auto
  qed
qed simp

section \<open>What an envelope can do\<close>

lemma note_opened_prefers:
  assumes "hub_wf h" "find_conn h d c = Some x"
  shows "prefers d (put_conn d c (x\<lparr>hc_originated := True,
      hc_support := (if hc_support x = LegacyUnknown then ExplicitNo else hc_support x)\<rparr>) h)
    (note_connection_opened_channel closed d c h)"
proof -
  let ?m = "put_conn d c (x\<lparr>hc_originated := True,
    hc_support := (if hc_support x = LegacyUnknown then ExplicitNo else hc_support x)\<rparr>) h"
  have "prefers d (drop_preferred d ?m)
      (maybe_promote_newer_legacy_connection closed d (hc_seq x) (drop_preferred d ?m))"
    by (rule prefers_promote) (simp add: put_conn_ok hub_wf_parts assms(1))
  from prefers_trans [OF prefers_drop this] show ?thesis
    by (simp add: note_connection_opened_channel_def assms(2) Let_def)
qed

lemma length_update_mem: "map_of al k = Some y \<Longrightarrow> length (AList.update k v al) = length al"
  by (induction al) (auto split: if_splits)

lemma conn_count_put: "find_conn h d c \<noteq> None \<Longrightarrow> conn_count (put_conn d c x h) e = conn_count h e"
  by (auto simp: conn_count_def put_conn_def find_conn_def AList.update_conv' length_update_mem split: option.splits)

lemma note_opened_frame:
  assumes "hub_wf h"
  shows "hb_channels (note_connection_opened_channel closed d c h) = hb_channels h"
    and "lookup_connection_sender (note_connection_opened_channel closed d c h) = lookup_connection_sender h"
    and "conn_count (note_connection_opened_channel closed d c h) e = conn_count h e"
proof -
  have "hb_channels (note_connection_opened_channel closed d c h) = hb_channels h
    \<and> lookup_connection_sender (note_connection_opened_channel closed d c h) = lookup_connection_sender h
    \<and> conn_count (note_connection_opened_channel closed d c h) e = conn_count h e"
  proof (cases "find_conn h d c")
    case None
    then show ?thesis by (simp add: note_connection_opened_channel_def)
  next
    case (Some x)
    let ?m = "put_conn d c (x\<lparr>hc_originated := True,
      hc_support := (if hc_support x = LegacyUnknown then ExplicitNo else hc_support x)\<rparr>) h"
    have conns: "hb_conns (note_connection_opened_channel closed d c h) = hb_conns ?m"
      and "hb_channels (note_connection_opened_channel closed d c h) = hb_channels h"
      using note_opened_prefers [OF assms Some, of closed] by (simp_all add: prefers_def)
    moreover have "conn_count (note_connection_opened_channel closed d c h) e = conn_count h e"
      using conn_count_put [of h d c _ e] Some by (simp add: conn_count_def conns)
    ultimately show ?thesis using Some
      by (simp add: fun_eq_iff lookup_connection_sender_def find_conn_cong [OF conns] find_put_conn)
  qed
  then show "hb_channels (note_connection_opened_channel closed d c h) = hb_channels h"
    "lookup_connection_sender (note_connection_opened_channel closed d c h) = lookup_connection_sender h"
    "conn_count (note_connection_opened_channel closed d c h) e = conn_count h e" by simp_all
qed

lemma handle_open_channel_cases:
  assumes "handle_open_channel rounds db sd sc i sid eph sig h = Some (out, h')" "hub_wf h"
  obtains (reject) reason where "out = to_connection h' sd sc (RE_ChannelRejected i reason)"
      "map_of (hb_channels h') = map_of (hb_channels h)"
  | (incoming) service pk tc x where "authorize_relay_service sd sid db = Inr service"
      "device_identity_public_key sd db = Inr pk" "map_of (hb_channels h) i = None"
      "find_conn h (sd_owner_device_id service) tc = Some x" "hc_support x \<noteq> ExplicitNo"
      "out = [(hc_sender x, RE_IncomingChannel i sd pk eph sig (sd_service_id service))]"
      "map_of (hb_channels h') = (map_of (hb_channels h))(i \<mapsto> \<lparr>ch_source_device = sd, ch_source_conn = sc,
         ch_target_device = sd_owner_device_id service, ch_target_conn = tc, ch_accepted = False\<rparr>)"
proof (cases "authorize_relay_service sd sid db")
  case (Inl e)
  with assms(1) reject show thesis by (auto simp: handle_open_channel_def)
next
  case (Inr service)
  show thesis
  proof (cases "device_identity_public_key sd db")
    case (Inl e)
    with assms(1) Inr reject show thesis by (auto simp: handle_open_channel_def)
  next
    case pk: (Inr pk)
    with assms(1) Inr have "open_loop rounds sd sc i (sd_owner_device_id service)
        (RE_IncomingChannel i sd pk eph sig (sd_service_id service)) h = Some (out, h')"
      by (simp add: handle_open_channel_def)
    from open_loop_spec [OF this assms(2)] reject incoming [OF Inr pk] show thesis by blast
  qed
qed

text \<open>What the handlers of the envelopes about an existing channel do.\<close>

lemma channel_handler_cases:
  assumes "handle_envelope closed rounds db d c e h = Some (out, h')"
    and "\<And>i sid eph sig. e \<noteq> RE_OpenChannel i sid eph sig"
  obtains (nothing) "out = []" "h' = h"
  | (pong) "out = to_connection h' d c RE_Pong" "h' = h"
  | (relayed) i ch m where "map_of (hb_channels h) i = Some ch" "endpoint_of d c ch" "relay_channel_id m = Some i"
      "out = to_connection h' (fst (peer_of d c ch)) (snd (peer_of d c ch)) m" "hb_conns h' = hb_conns h"
      "\<And>j. j \<noteq> i \<Longrightarrow> map_of (hb_channels h') j = map_of (hb_channels h) j"
      "\<And>x. m = RE_ChannelData i x \<Longrightarrow> e = RE_ChannelData i x \<and> ch_accepted ch"
proof (cases "out = [] \<and> h' = h")
  case True
  show thesis by (rule nothing) (use True in simp_all)
next
  case False
  have tc: "to_connection (h\<lparr>hb_channels := k\<rparr>) = to_connection h" for k
    by (simp add: to_connection_def fun_eq_iff)
  from assms False show thesis
  proof (cases e)
    case (RE_ChannelAccepted i)
    with assms(1) False obtain ch where "map_of (hb_channels h) i = Some ch" "ch_target_device ch = d" "ch_target_conn ch = c"
      "h' = h\<lparr>hb_channels := AList.update i (ch\<lparr>ch_accepted := True\<rparr>) (hb_channels h)\<rparr>"
      "out = to_connection h' (ch_source_device ch) (ch_source_conn ch) (RE_ChannelAccepted i)"
      by (auto simp: handle_channel_accepted_def Let_def split: option.splits if_splits)
    then show thesis
      by (intro relayed [of i ch "RE_ChannelAccepted i"])
        (auto simp: endpoint_of_def peer_of_def AList.update_conv' tc)
  next
    case (RE_ChannelRejected i r)
    with assms(1) False obtain ch where "map_of (hb_channels h) i = Some ch" "ch_target_device ch = d" "ch_target_conn ch = c"
      "h' = h\<lparr>hb_channels := AList.delete i (hb_channels h)\<rparr>"
      "out = to_connection h (ch_source_device ch) (ch_source_conn ch) (RE_ChannelRejected i r)"
      by (auto simp: handle_channel_rejected_def split: option.splits if_splits)
    then show thesis
      by (intro relayed [of i ch "RE_ChannelRejected i r"])
        (auto simp: endpoint_of_def peer_of_def AList.delete_conv' tc)
  next
    case (RE_ChannelClose i r)
    with assms(1) False obtain ch where "map_of (hb_channels h) i = Some ch" "endpoint_of d c ch"
      "h' = h\<lparr>hb_channels := AList.delete i (hb_channels h)\<rparr>"
      "out = to_connection h (fst (peer_of d c ch)) (snd (peer_of d c ch)) (RE_ChannelClose i r)"
      by (auto simp: handle_channel_close_def split: option.splits if_splits)
    then show thesis
      by (intro relayed [of i ch "RE_ChannelClose i r"]) (auto simp: AList.delete_conv' tc)
  next
    case (RE_ChannelData i x)
    with assms(1) False obtain ch where "map_of (hb_channels h) i = Some ch" "endpoint_of d c ch" "ch_accepted ch"
      "h' = h" "out = to_connection h (fst (peer_of d c ch)) (snd (peer_of d c ch)) (RE_ChannelData i x)"
      by (auto simp: handle_channel_data_def endpoint_of_def peer_of_def split: option.splits if_splits)
    with RE_ChannelData show thesis
      by (intro relayed [of i ch "RE_ChannelData i x"]) auto
  next
    case RE_Ping
    show thesis by (rule pong) (use assms(1) RE_Ping in auto)
  qed auto
qed

text \<open>
  C27. A connection that handles an envelope cannot change a channel it is no end of. Everything it
  causes to be sent is an answer on its own queue, a message about a channel it is an end of on the
  queue of the other end, or an incoming channel it asked for. Data is sent only through an accepted
  channel, unchanged.
\<close>

theorem channels_isolated:
  assumes "hub_wf h" "handle_envelope closed rounds db d c e h = Some (out, h')"
  shows "(\<forall>i ch. map_of (hb_channels h) i = Some ch \<and> \<not> endpoint_of d c ch \<longrightarrow> map_of (hb_channels h') i = Some ch)
    \<and> (\<forall>q m. (q, m) \<in> set out \<longrightarrow> lookup_connection_sender h' d c = Some q \<and> (m = RE_Pong \<or> (\<exists>i r. m = RE_ChannelRejected i r))
      \<or> (\<exists>i ch. relay_channel_id m = Some i \<and> map_of (hb_channels h) i = Some ch \<and> endpoint_of d c ch
           \<and> lookup_connection_sender h (fst (peer_of d c ch)) (snd (peer_of d c ch)) = Some q
           \<and> (\<forall>x. m = RE_ChannelData i x \<longrightarrow> e = RE_ChannelData i x \<and> ch_accepted ch))
      \<or> (\<exists>i pk eph sig sid sid'. m = RE_IncomingChannel i d pk eph sig sid \<and> e = RE_OpenChannel i sid' eph sig))"
proof (cases "\<exists>i sid eph sig. e = RE_OpenChannel i sid eph sig")
  case True
  then obtain i sid eph sig where e: "e = RE_OpenChannel i sid eph sig" by blast
  let ?h = "note_connection_opened_channel closed d c h"
  have "handle_open_channel rounds db d c i sid eph sig ?h = Some (out, h')" using assms(2) e by simp
  from this note_connection_opened_channel_wf [OF assms(1)] show ?thesis
  proof (cases rule: handle_open_channel_cases)
    case (reject reason)
    then show ?thesis unfolding note_opened_frame(1) [OF assms(1)]
      by (simp add: to_connection_def split: option.split)
  next
    case (incoming service pk tc x)
    then show ?thesis unfolding note_opened_frame(1) [OF assms(1)] e by simp
  qed
next
  case False
  then have "\<And>i sid eph sig. e \<noteq> RE_OpenChannel i sid eph sig" by blast
  with assms(2) show ?thesis
  proof (cases rule: channel_handler_cases)
    case (relayed i ch m)
    then have "lookup_connection_sender h' = lookup_connection_sender h"
      by (simp add: lookup_connection_sender_def fun_eq_iff find_conn_cong [OF relayed(5)])
    moreover have "map_of (hb_channels h') j = Some ch'"
      if "map_of (hb_channels h) j = Some ch'" "\<not> endpoint_of d c ch'" for j ch'
      using that relayed(1,2,6) by (cases "j = i") auto
    ultimately show ?thesis using relayed(1-4,7)
      by (auto simp: to_connection_def split: option.splits)
  qed (auto simp: to_connection_def split: option.splits)
qed

text \<open>
  C28. A request to open a channel reaches a device only if the sender is granted the service: then
  the service's owner is told on one of its connections, with the sender's registered identity key,
  and the channel is recorded between the two connections, not yet accepted. A channel that
  already exists is never opened again.
\<close>

theorem incoming_only_granted:
  assumes "hub_wf h" "handle_envelope closed rounds db d c (RE_OpenChannel i sid eph sig) h = Some (out, h')"
    and "(q, RE_IncomingChannel j source pk eph' sig' sid') \<in> set out"
  shows "j = i \<and> source = d \<and> eph' = eph \<and> sig' = sig \<and> device_identity_public_key d db = Inr pk
    \<and> map_of (hb_channels h) i = None
    \<and> (\<exists>service tc. authorize_relay_service d sid db = Inr service \<and> sid' = sd_service_id service
        \<and> lookup_connection_sender h (sd_owner_device_id service) tc = Some q \<and> out = [(q, RE_IncomingChannel i d pk eph sig sid')]
        \<and> map_of (hb_channels h') i = Some \<lparr>ch_source_device = d, ch_source_conn = c,
             ch_target_device = sd_owner_device_id service, ch_target_conn = tc, ch_accepted = False\<rparr>)"
proof -
  let ?h = "note_connection_opened_channel closed d c h"
  have "handle_open_channel rounds db d c i sid eph sig ?h = Some (out, h')" using assms(2) by simp
  from this note_connection_opened_channel_wf [OF assms(1)] show ?thesis
  proof (cases rule: handle_open_channel_cases)
    case (reject reason)
    with assms(3) show ?thesis by (auto simp: to_connection_def split: option.splits)
  next
    case (incoming service pk tc x)
    have "lookup_connection_sender h (sd_owner_device_id service) tc = Some (hc_sender x)"
      using incoming(4) unfolding note_opened_frame(2) [OF assms(1), of closed d c, symmetric]
      by (simp add: lookup_connection_sender_def)
    with incoming assms(3) show ?thesis by (auto simp: note_opened_frame [OF assms(1)])
  qed
qed

text \<open>
  C29. Handling an envelope ends: with more rounds than any device has connections the loop that
  looks for an open connection of the service's owner is through, because every failed round
  forgets a connection.
\<close>

theorem handle_envelope_ends:
  assumes "hub_wf h" "\<forall>e. conn_count h e < length rounds"
  shows "\<exists>out h'. handle_envelope closed rounds db d c m h = Some (out, h')"
proof (cases m)
  case (RE_OpenChannel i sid eph sig)
  let ?h = "note_connection_opened_channel closed d c h"
  have "conn_count ?h e < length rounds" for e using assms by (simp add: note_opened_frame)
  note ends = open_loop_ends [OF note_connection_opened_channel_wf [OF assms(1)] this]
  show ?thesis unfolding RE_OpenChannel
    by (auto simp: handle_open_channel_def ends split: sum.split)
qed auto

section \<open>The life of a channel\<close>

text \<open>What one section can do to a channel.\<close>

lemma hub_exec_channel:
  assumes "hub_wf h" "map_of (hb_channels (hub_exec op h)) i = Some ch"
  obtains (same) "map_of (hb_channels h) i = Some ch"
  | (reserved) closed where "op = HS_Reserve closed (ch_source_device ch) (ch_source_conn ch) i (ch_target_device ch)"
      "map_of (hb_channels h) i = None" "\<not> ch_accepted ch"
  | (accepted) ch0 where "op = HS_Accept (ch_target_device ch) (ch_target_conn ch) i"
      "map_of (hb_channels h) i = Some ch0" "ch = ch0\<lparr>ch_accepted := True\<rparr>"
proof (cases op)
  case (HS_Register closed cid d q incoming)
  let ?m = "put_conn d cid \<lparr>hc_sender = q, hc_support = support_from_query incoming,
    hc_seq = hb_next_seq h, hc_originated = False\<rparr> (h\<lparr>hb_next_seq := hb_next_seq h + 1\<rparr>)"
  have "conns_ok (hb_conns ?m)" by (rule put_conn_ok) (simp add: hub_wf_parts [OF assms(1)])
  from maybe_assign_prefers(1) [OF this, of d closed cid]
  have "hb_channels (hub_exec op h) = hb_channels h"
    by (simp add: HS_Register hub_register_device_def prefers_def)
  with assms(2) same show thesis by simp
next
  case (HS_Disconnect closed d c)
  with assms same show thesis
    by (simp add: hub_disconnect_device_def Let_def disconnect_channels_state map_of_fold_delete split: if_splits)
next
  case HS_Reset
  with assms(2) show thesis by (simp add: hub_reset_def)
next
  case (HS_Opened closed d c)
  with assms same show thesis by (simp add: note_opened_frame)
next
  case (HS_Reserve closed sd sc j owner)
  obtain oc h1 where res: "open_reserve closed sd sc j owner h = (oc, h1)" by fastforce
  with assms(1) show thesis
  proof (cases rule: open_reserve_cases)
    case (reject reason)
    with assms(2) HS_Reserve res same show thesis by simp
  next
    case (reserved tc q x)
    with assms(2) HS_Reserve res same that(2) show thesis
      by (cases "i = j") (auto simp: AList.update_conv')
  qed
next
  case (HS_Rollback closed owner tc j)
  with assms same show thesis
    by (simp add: open_rollback_def Let_def AList.delete_conv' split: if_splits)
next
  case (HS_Accept d c j)
  with assms(2) same accepted show thesis
    by (cases "i = j") (auto simp: handle_channel_accepted_def Let_def AList.update_conv' split: option.splits if_splits)
next
  case (HS_Reject d c j r)
  with assms(2) same show thesis
    by (auto simp: handle_channel_rejected_def AList.delete_conv' split: option.splits if_splits)
next
  case (HS_Close d c j r)
  with assms(2) same show thesis
    by (auto simp: handle_channel_close_def AList.delete_conv' split: option.splits if_splits)
qed

text \<open>
  In every reachable state of the hub, a channel has been reserved by its source for the owner
  of a service, and it carries data only if since then its target has accepted it, on the very
  connection that was chosen.
\<close>

theorem channel_history:
  assumes "map_of (hb_channels (hub_run ops hub_new)) i = Some ch"
  shows "\<exists>xs closed ys. ops = xs @ HS_Reserve closed (ch_source_device ch) (ch_source_conn ch) i (ch_target_device ch) # ys
    \<and> (ch_accepted ch \<longrightarrow> HS_Accept (ch_target_device ch) (ch_target_conn ch) i \<in> set ys)"
  using assms
proof (induction ops arbitrary: ch rule: rev_induct)
  case Nil
  then show ?case by (simp add: hub_new_def)
next
  case (snoc op ops)
  have "map_of (hb_channels (hub_exec op (hub_run ops hub_new))) i = Some ch"
    using snoc.prems by (simp add: hubs.run_append)
  with hubs.run_inv [OF hub_new_wf] show ?case
  proof (cases rule: hub_exec_channel)
    case same
    from snoc.IH [OF this] obtain xs closed ys where
      "ops = xs @ HS_Reserve closed (ch_source_device ch) (ch_source_conn ch) i (ch_target_device ch) # ys"
      "ch_accepted ch \<longrightarrow> HS_Accept (ch_target_device ch) (ch_target_conn ch) i \<in> set ys" by blast
    then show ?thesis by (intro exI [of _ xs] exI [of _ closed] exI [of _ "ys @ [op]"]) auto
  next
    case (reserved closed)
    then show ?thesis by (intro exI [of _ ops] exI [of _ closed] exI [of _ "[]"]) simp
  next
    case (accepted ch0)
    from snoc.IH [OF accepted(2)] obtain xs closed ys where
      "ops = xs @ HS_Reserve closed (ch_source_device ch0) (ch_source_conn ch0) i (ch_target_device ch0) # ys" by blast
    with accepted(1,3) show ?thesis
      by (intro exI [of _ xs] exI [of _ closed] exI [of _ "ys @ [op]"]) simp
  qed
qed

section \<open>Disconnecting\<close>

lemma disconnect_channels_out:
  assumes "distinct is"
  shows "set (fst (disconnect_channels d c is h))
    = {(q, RE_ChannelClose i (Some ''peer disconnected'')) |q i ch. i \<in> set is \<and> map_of (hb_channels h) i = Some ch
        \<and> lookup_connection_sender h (fst (peer_of d c ch)) (snd (peer_of d c ch)) = Some q}"
  using assms
proof (induction "is" arbitrary: h)
  case (Cons i "is")
  let ?h = "h\<lparr>hb_channels := AList.delete i (hb_channels h)\<rparr>"
  have eq: "map_of (AList.delete i (hb_channels h)) j = map_of (hb_channels h) j" if "j \<in> set is" for j
    using Cons.prems that by (auto simp: AList.delete_conv')
  show ?case
  proof (cases "map_of (hb_channels h) i")
    case None
    with Cons show ?thesis by auto
  next
    case (Some ch)
    have "set (fst (disconnect_channels d c (i # is) h))
      = {(q, RE_ChannelClose i (Some ''peer disconnected'')) |q. lookup_connection_sender h (fst (peer_of d c ch)) (snd (peer_of d c ch)) = Some q}
        \<union> set (fst (disconnect_channels d c is ?h))"
      using Some by (auto simp: split_beta Let_def split: option.split)
    moreover have "set (fst (disconnect_channels d c is ?h))
      = {(q, RE_ChannelClose i (Some ''peer disconnected'')) |q i ch. i \<in> set is \<and> map_of (hb_channels h) i = Some ch
        \<and> lookup_connection_sender h (fst (peer_of d c ch)) (snd (peer_of d c ch)) = Some q}"
      using Cons.IH [of ?h] Cons.prems by (simp add: eq cong: conj_cong)
    ultimately show ?thesis using Some by auto
  qed
qed simp

text \<open>
  A disconnect forgets the connection and no other, removes the channels it was an end of and
  no other, and tells the other end of each, where that is still connected.
\<close>

theorem disconnect_cleans_up:
  assumes "hub_wf h" "hub_disconnect_device closed d c h = (out, h')"
  shows "find_conn h' e b = (if e = d \<and> b = c then None else find_conn h e b)
    \<and> map_of (hb_channels h') i
      = (case map_of (hb_channels h) i of None \<Rightarrow> None | Some ch \<Rightarrow> if endpoint_of d c ch then None else Some ch)
    \<and> set out = {(q, RE_ChannelClose i (Some ''peer disconnected'')) |q i ch. map_of (hb_channels h) i = Some ch
        \<and> endpoint_of d c ch \<and> lookup_connection_sender h' (fst (peer_of d c ch)) (snd (peer_of d c ch)) = Some q}"
proof -
  let ?r = "remove_connection_entry closed d c h"
  let ?is = "map fst (filter (\<lambda>(_, ch). endpoint_of d c ch) (hb_channels h))"
  have dist: "distinct (map fst (hb_channels h))" by (rule hub_wf_parts(2) [OF assms(1)])
  have mem: "i \<in> set ?is \<longleftrightarrow> (\<exists>ch. map_of (hb_channels h) i = Some ch \<and> endpoint_of d c ch)" for i
    using dist by force
  have res: "out = fst (disconnect_channels d c ?is ?r)" "h' = snd (disconnect_channels d c ?is ?r)"
    using assms by (simp_all add: hub_disconnect_device_def Let_def split: prod.splits)
  have h': "h' = ?r\<lparr>hb_channels := fold AList.delete ?is (hb_channels h)\<rparr>"
    using assms(1) by (simp add: res disconnect_channels_state)
  have "find_conn h' e b = (if e = d \<and> b = c then None else find_conn h e b)"
    by (simp add: h' find_remove_connection_entry [OF assms(1)])
  moreover have "map_of (hb_channels h') i
      = (case map_of (hb_channels h) i of None \<Rightarrow> None | Some ch \<Rightarrow> if endpoint_of d c ch then None else Some ch)"
    using mem by (auto simp: h' map_of_fold_delete split: option.split)
  moreover have "set out = {(q, RE_ChannelClose i (Some ''peer disconnected'')) |q i ch. map_of (hb_channels h) i = Some ch
        \<and> endpoint_of d c ch \<and> lookup_connection_sender h' (fst (peer_of d c ch)) (snd (peer_of d c ch)) = Some q}"
  proof -
    have "distinct ?is" using dist by (rule distinct_map_filter)
    from disconnect_channels_out [OF this, of d c ?r] show ?thesis
      using assms(1) mem by (simp add: res(1)) (auto simp: h')
  qed
  ultimately show ?thesis by blast
qed

section \<open>Examples\<close>

text \<open>
  Two devices are connected, the second takes incoming channels, and a channel between them has been
  accepted.
\<close>

abbreviation all_open :: queue_closed where
  "all_open \<equiv> \<lambda>q. False"

definition demo_hub_ops :: "hub_section list" where
  "demo_hub_ops = [HS_Register all_open ''s'' (demo_id (CHR ''B'')) 1 (Some False),
     HS_Register all_open ''t'' (demo_id (CHR ''A'')) 2 (Some True),
     HS_Reserve all_open (demo_id (CHR ''B'')) ''s'' ''ch'' (demo_id (CHR ''A'')),
     HS_Accept (demo_id (CHR ''A'')) ''t'' ''ch'']"

definition demo_hub :: hub where
  "demo_hub = hub_run (take 2 demo_hub_ops) hub_new"

definition demo_hub_open :: hub where
  "demo_hub_open = hub_run demo_hub_ops hub_new"

lemma demo_hub_wf: "hub_wf demo_hub" "hub_wf demo_hub_open"
  by (simp_all add: demo_hub_def demo_hub_open_def hubs.run_inv hub_new_wf)

lemma demo_ids: "demo_id (CHR ''B'') \<noteq> demo_id (CHR ''A'')" "demo_id (CHR ''A'') \<noteq> demo_id (CHR ''B'')"
  by (simp_all add: demo_id_def)

lemmas demo_hub_simps = hub_register_device_def maybe_assign_preferred_legacy_connection_def
  refresh_preferred_legacy_connection_def put_conn_def hub_new_def find_conn_def Let_def demo_ids
  is_eligible_legacy_incoming_connection_def

lemma demo_hub_conns: "hb_conns demo_hub
  = [(demo_id (CHR ''B''), [(''s'', \<lparr>hc_sender = 1, hc_support = ExplicitNo, hc_seq = 0, hc_originated = False\<rparr>)]),
     (demo_id (CHR ''A''), [(''t'', \<lparr>hc_sender = 2, hc_support = ExplicitYes, hc_seq = 1, hc_originated = False\<rparr>)])]"
  "hb_channels demo_hub = []" "hb_preferred demo_hub = []" "hb_next_seq demo_hub = 2"
  by (simp_all add: demo_hub_def demo_hub_ops_def demo_hub_simps)

definition demo_channel :: hub_channel where
  "demo_channel = \<lparr>ch_source_device = demo_id (CHR ''B''), ch_source_conn = ''s'',
     ch_target_device = demo_id (CHR ''A''), ch_target_conn = ''t'', ch_accepted = True\<rparr>"

lemma demo_open: "demo_hub_open = demo_hub\<lparr>hb_channels := [(''ch'', demo_channel)]\<rparr>"
proof -
  have "demo_hub_open = hub_run (drop 2 demo_hub_ops) demo_hub"
    by (simp add: demo_hub_open_def demo_hub_def flip: hubs.run_append)
  also have "\<dots> = demo_hub\<lparr>hb_channels := [(''ch'', demo_channel)]\<rparr>"
    by (simp add: demo_hub_ops_def open_reserve_def pick_incoming_connection_def demo_hub_conns demo_ids
        handle_channel_accepted_def Let_def demo_channel_def)
  finally show ?thesis .
qed

theorem incoming_connection_choice_witness:
  "fst (pick_incoming_connection all_open (demo_id (CHR ''A'')) demo_hub) = Some (''t'', 2)
   \<and> hc_support (the (find_conn demo_hub (demo_id (CHR ''A'')) ''t'')) = ExplicitYes"
  using incoming_connection_choice [OF demo_hub_wf(1), of all_open "demo_id (CHR ''A'')"]
  by (simp add: pick_incoming_connection_def demo_hub_conns demo_ids find_conn_def)

theorem channels_isolated_witness:
  "(2, RE_ChannelData ''ch'' ''x'') \<in> set (fst (handle_channel_data (demo_id (CHR ''B'')) ''s'' ''ch'' ''x'' demo_hub_open))
   \<and> endpoint_of (demo_id (CHR ''B'')) ''s'' demo_channel"
proof -
  obtain out h' where r: "handle_envelope all_open [] db_empty (demo_id (CHR ''B'')) ''s'' (RE_ChannelData ''ch'' ''x'')
      demo_hub_open = Some (out, h')" by (cases "handle_channel_data (demo_id (CHR ''B'')) ''s'' ''ch'' ''x'' demo_hub_open") simp
  then have "handle_channel_data (demo_id (CHR ''B'')) ''s'' ''ch'' ''x'' demo_hub_open = (out, h')" by simp
  then have out: "out = [(2, RE_ChannelData ''ch'' ''x'')]"
    "fst (handle_channel_data (demo_id (CHR ''B'')) ''s'' ''ch'' ''x'' demo_hub_open) = out"
    by (auto simp: handle_channel_data_def demo_open demo_channel_def to_connection_def
        lookup_connection_sender_def find_conn_def demo_hub_conns demo_ids)
  with channels_isolated [OF demo_hub_wf(2) r] show ?thesis by (auto simp: demo_open)
qed

lemma demo_key: "device_identity_public_key (demo_id (CHR ''B'')) demo_db3 = Inr (replicate 32 (CHR ''B''))"
  using demo_ids by (simp add: device_identity_public_key_def demo_db3_def demo_db2_def demo_db1_def new_device_row_def)

abbreviation demo_incoming :: relay_envelope where
  "demo_incoming \<equiv> RE_IncomingChannel ''ch'' (demo_id (CHR ''B'')) (replicate 32 (CHR ''B'')) ''e'' ''g'' (sd_service_id demo_service)"

lemma demo_opening: "\<exists>h'. handle_envelope all_open [(all_open, all_open, all_open)] demo_db3 (demo_id (CHR ''B'')) ''s''
    (RE_OpenChannel i (sd_service_id demo_service) eph sig) demo_hub = Some ([(2,
      RE_IncomingChannel i (demo_id (CHR ''B'')) (replicate 32 (CHR ''B'')) eph sig (sd_service_id demo_service))], h')"
proof -
  have "sd_owner_device_id demo_service = demo_id (CHR ''A'')" by (simp add: demo_service_def)
  moreover have "pick_incoming_connection all_open (demo_id (CHR ''A'')) h = (Some (''t'', 2), h)"
    if "map_of (hb_conns h) (demo_id (CHR ''A'')) = map_of (hb_conns demo_hub) (demo_id (CHR ''A''))" for h
    using that by (simp add: pick_incoming_connection_def demo_hub_conns demo_ids)
  ultimately show ?thesis
    by (simp add: handle_open_channel_def demo_authorized demo_key open_reserve_def note_connection_opened_channel_def
        demo_hub_conns demo_ids find_conn_def Let_def put_conn_def)
qed

theorem incoming_only_granted_witness:
  "\<exists>service. authorize_relay_service (demo_id (CHR ''B'')) (sd_service_id demo_service) demo_db3 = Inr service
     \<and> lookup_connection_sender demo_hub (sd_owner_device_id service) ''t'' = Some 2"
proof -
  from demo_opening obtain h' where "handle_envelope all_open [(all_open, all_open, all_open)] demo_db3
      (demo_id (CHR ''B'')) ''s'' (RE_OpenChannel ''ch'' (sd_service_id demo_service) ''e'' ''g'') demo_hub
    = Some ([(2, demo_incoming)], h')" ..
  from incoming_only_granted [OF demo_hub_wf(1) this] obtain service tc where
    s: "authorize_relay_service (demo_id (CHR ''B'')) (sd_service_id demo_service) demo_db3 = Inr service"
    "lookup_connection_sender demo_hub (sd_owner_device_id service) tc = Some 2" by auto
  moreover from s(1) have "sd_owner_device_id service = demo_id (CHR ''A'')"
    by (simp add: demo_authorized) (auto simp: demo_service_def)
  ultimately show ?thesis
    by (auto simp: lookup_connection_sender_def find_conn_def demo_hub_conns demo_ids split: if_splits)
qed

theorem handle_envelope_ends_witness:
  "\<exists>out h'. handle_envelope all_open (replicate 2 (all_open, all_open, all_open)) demo_db3 (demo_id (CHR ''B'')) ''s''
     (RE_OpenChannel ''ch'' ''svc'' ''e'' ''g'') demo_hub = Some (out, h')"
  by (rule handle_envelope_ends [OF demo_hub_wf(1)]) (simp add: conn_count_def demo_hub_conns)

theorem channel_history_witness:
  "HS_Accept (demo_id (CHR ''A'')) ''t'' ''ch'' \<in> set demo_hub_ops
   \<and> (\<exists>closed. HS_Reserve closed (demo_id (CHR ''B'')) ''s'' ''ch'' (demo_id (CHR ''A'')) \<in> set demo_hub_ops)"
proof -
  have "map_of (hb_channels (hub_run demo_hub_ops hub_new)) ''ch'' = Some demo_channel"
    using demo_open by (simp add: demo_hub_open_def)
  from channel_history [OF this] obtain xs closed ys where ops: "demo_hub_ops
      = xs @ HS_Reserve closed (demo_id (CHR ''B'')) ''s'' ''ch'' (demo_id (CHR ''A'')) # ys"
    "HS_Accept (demo_id (CHR ''A'')) ''t'' ''ch'' \<in> set ys" by (auto simp: demo_channel_def)
  then show ?thesis by (auto simp: ops(1))
qed

theorem disconnect_cleans_up_witness:
  "let (out, h') = hub_disconnect_device all_open (demo_id (CHR ''A'')) ''t'' demo_hub_open in
     find_conn h' (demo_id (CHR ''A'')) ''t'' = None \<and> map_of (hb_channels h') ''ch'' = None
     \<and> (1, RE_ChannelClose ''ch'' (Some ''peer disconnected'')) \<in> set out"
proof -
  obtain out h' where r: "hub_disconnect_device all_open (demo_id (CHR ''A'')) ''t'' demo_hub_open = (out, h')" by fastforce
  note d = disconnect_cleans_up [OF demo_hub_wf(2) r]
  have ends: "endpoint_of (demo_id (CHR ''A'')) ''t'' demo_channel"
    "peer_of (demo_id (CHR ''A'')) ''t'' demo_channel = (demo_id (CHR ''B''), ''s'')"
    using demo_ids by (simp_all add: demo_channel_def endpoint_of_def peer_of_def)
  have "find_conn h' (demo_id (CHR ''B'')) ''s'' = find_conn demo_hub (demo_id (CHR ''B'')) ''s''"
    using d [of "demo_id (CHR ''B'')" "''s''"] demo_ids by (simp add: demo_open)
  then have "lookup_connection_sender h' (demo_id (CHR ''B'')) ''s'' = Some 1"
    by (simp add: lookup_connection_sender_def find_conn_def demo_hub_conns)
  with d [of "demo_id (CHR ''A'')" "''t''" "''ch''"] ends show ?thesis
    unfolding r by (auto simp: demo_open)
qed

end
