(* ===== verification/Routes.thy ===== *)
theory Routes
  imports DatabaseInv RelayInv
begin

text \<open>
  The HTTP interface of the server (\<open>minipunch-server/src/routes.rs\<close>): the handlers over the
  database and the relay hub, and the relay socket of a connected device. The router, the headers
  and the JSON bodies are read by third-party code: a request arrives parsed, its headers are a
  function from a header's name to its value (if it is there and readable as a string), and the
  decoder of relay frames is a parameter. Current times and random bytes are arguments.
\<close>

section \<open>State and requests\<close>

record app_state =
  app_db :: database
  app_hub :: hub

definition app_new :: app_state where
  "app_new = \<lparr>app_db = db_empty, app_hub = hub_new\<rparr>"

type_synonym headers = "string \<Rightarrow> string option"

definition admin_token_from_headers :: "headers \<Rightarrow> server_error + string" where
  "admin_token_from_headers hs = (case hs ''x-admin-token'' of None \<Rightarrow> Inl Unauthorized | Some v \<Rightarrow> Inr v)"

definition bearer_token_from_headers :: "headers \<Rightarrow> server_error + string" where
  "bearer_token_from_headers hs =
     (case hs ''authorization'' of
        None \<Rightarrow> Inl Unauthorized
      | Some v \<Rightarrow> (case strip_prefix ''Bearer '' v of None \<Rightarrow> Inl Unauthorized | Some t \<Rightarrow> Inr t))"

datatype api_request =
    Api_Healthz
  | Api_BootstrapInit
  | Api_CreateJoinToken create_join_token_request
  | Api_AdminDevices
  | Api_ClearDevices
  | Api_RegisterDevice register_device_request
  | Api_Heartbeat
  | Api_UpsertService upsert_service_request
  | Api_DeleteService delete_service_request
  | Api_NetworkSnapshot
  | Api_StartRendezvous start_direct_rendezvous_request
  | Api_PendingRendezvous
  | Api_GetRendezvous string
  | Api_UpdateCandidates string update_direct_rendezvous_candidates_request

datatype api_response =
    Res_Ok
  | Res_BootstrapInit bootstrap_init_response
  | Res_JoinToken join_token_response
  | Res_AdminDevices admin_devices_response
  | Res_ClearDevices admin_clear_devices_response
  | Res_RegisterDevice register_device_response
  | Res_Heartbeat heartbeat_response
  | Res_Service service_definition
  | Res_Network network_snapshot
  | Res_Rendezvous direct_rendezvous_session
  | Res_Pending pending_direct_rendezvous_response

text \<open>The method and the path of every request.\<close>

fun build_router :: "api_request \<Rightarrow> string \<times> string list" where
  "build_router Api_Healthz = (''GET'', [''healthz''])"
| "build_router Api_BootstrapInit = (''POST'', [''api'', ''v1'', ''bootstrap'', ''init''])"
| "build_router (Api_CreateJoinToken _) = (''POST'', [''api'', ''v1'', ''admin'', ''join-tokens''])"
| "build_router Api_AdminDevices = (''GET'', [''api'', ''v1'', ''admin'', ''devices''])"
| "build_router Api_ClearDevices = (''DELETE'', [''api'', ''v1'', ''admin'', ''devices''])"
| "build_router (Api_RegisterDevice _) = (''POST'', [''api'', ''v1'', ''devices'', ''register''])"
| "build_router Api_Heartbeat = (''POST'', [''api'', ''v1'', ''devices'', ''heartbeat''])"
| "build_router (Api_UpsertService _) = (''POST'', [''api'', ''v1'', ''services'', ''upsert''])"
| "build_router (Api_DeleteService _) = (''DELETE'', [''api'', ''v1'', ''services''])"
| "build_router Api_NetworkSnapshot = (''GET'', [''api'', ''v1'', ''network''])"
| "build_router (Api_StartRendezvous _) = (''POST'', [''api'', ''v1'', ''direct'', ''rendezvous'', ''start''])"
| "build_router Api_PendingRendezvous = (''GET'', [''api'', ''v1'', ''direct'', ''rendezvous'', ''pending''])"
| "build_router (Api_GetRendezvous rid) = (''GET'', [''api'', ''v1'', ''direct'', ''rendezvous'', rid])"
| "build_router (Api_UpdateCandidates rid _) =
     (''POST'', [''api'', ''v1'', ''direct'', ''rendezvous'', rid, ''candidates''])"

section \<open>Handlers\<close>

text \<open>A call of the database, whose result the handler wraps.\<close>

definition on_db ::
  "('a \<Rightarrow> api_response) \<Rightarrow> (database \<Rightarrow> (server_error + 'a) \<times> database) \<Rightarrow> app_state
     \<Rightarrow> (server_error + api_response) \<times> app_state" where
  "on_db wrap f st =
     (let (r, db) = f (app_db st) in (map_sum id wrap r, st\<lparr>app_db := db\<rparr>))"

definition with_token ::
  "(server_error + string) \<Rightarrow> (string \<Rightarrow> app_state \<Rightarrow> (server_error + api_response) \<times> app_state)
     \<Rightarrow> app_state \<Rightarrow> (server_error + api_response) \<times> app_state" where
  "with_token tok f st = (case tok of Inl e \<Rightarrow> (Inl e, st) | Inr t \<Rightarrow> f t st)"

definition route_bootstrap_init ::
  "'a server_prims_scheme \<Rightarrow> int \<Rightarrow> byte list \<Rightarrow> byte list \<Rightarrow> app_state
     \<Rightarrow> (server_error + api_response) \<times> app_state" where
  "route_bootstrap_init P now r1 r2 = on_db Res_BootstrapInit (bootstrap_init P now r1 r2)"

definition route_create_join_token ::
  "'a server_prims_scheme \<Rightarrow> int \<Rightarrow> byte list \<Rightarrow> headers \<Rightarrow> create_join_token_request \<Rightarrow> app_state
     \<Rightarrow> (server_error + api_response) \<times> app_state" where
  "route_create_join_token P now rnd hs rq =
     with_token (admin_token_from_headers hs) (\<lambda>tok.
       on_db Res_JoinToken (create_join_token P now rnd tok rq))"

definition route_admin_devices ::
  "'a server_prims_scheme \<Rightarrow> int \<Rightarrow> headers \<Rightarrow> app_state \<Rightarrow> (server_error + api_response) \<times> app_state" where
  "route_admin_devices P now hs =
     with_token (admin_token_from_headers hs) (\<lambda>tok.
       on_db Res_AdminDevices (\<lambda>db. (admin_devices P now tok db, db)))"

definition route_clear_devices ::
  "'a server_prims_scheme \<Rightarrow> headers \<Rightarrow> app_state \<Rightarrow> (server_error + api_response) \<times> app_state" where
  "route_clear_devices P hs =
     with_token (admin_token_from_headers hs) (\<lambda>tok st.
       case on_db Res_ClearDevices (clear_devices P tok) st of
         (Inl e, st') \<Rightarrow> (Inl e, st')
       | (Inr r, st') \<Rightarrow> (Inr r, st'\<lparr>app_hub := hub_reset (app_hub st')\<rparr>))"

definition route_register_device ::
  "'a server_prims_scheme \<Rightarrow> int \<Rightarrow> byte list \<Rightarrow> register_device_request \<Rightarrow> app_state
     \<Rightarrow> (server_error + api_response) \<times> app_state" where
  "route_register_device P now rnd rq = on_db Res_RegisterDevice (register_device P now rnd rq)"

definition route_heartbeat ::
  "'a server_prims_scheme \<Rightarrow> int \<Rightarrow> headers \<Rightarrow> app_state \<Rightarrow> (server_error + api_response) \<times> app_state" where
  "route_heartbeat P now hs =
     with_token (bearer_token_from_headers hs) (\<lambda>tok. on_db Res_Heartbeat (heartbeat P now tok))"

definition route_upsert_service ::
  "'a server_prims_scheme \<Rightarrow> int \<Rightarrow> headers \<Rightarrow> upsert_service_request \<Rightarrow> app_state
     \<Rightarrow> (server_error + api_response) \<times> app_state" where
  "route_upsert_service P now hs rq =
     with_token (bearer_token_from_headers hs) (\<lambda>tok. on_db Res_Service (upsert_service P now tok rq))"

definition route_delete_service ::
  "'a server_prims_scheme \<Rightarrow> int \<Rightarrow> headers \<Rightarrow> delete_service_request \<Rightarrow> app_state
     \<Rightarrow> (server_error + api_response) \<times> app_state" where
  "route_delete_service P now hs rq =
     with_token (bearer_token_from_headers hs) (\<lambda>tok. on_db Res_Service (delete_service P now tok rq))"

definition route_network_snapshot ::
  "'a server_prims_scheme \<Rightarrow> int \<Rightarrow> headers \<Rightarrow> app_state \<Rightarrow> (server_error + api_response) \<times> app_state" where
  "route_network_snapshot P now hs =
     with_token (bearer_token_from_headers hs) (\<lambda>tok.
       on_db Res_Network (\<lambda>db. (db_network_snapshot P now tok db, db)))"

definition route_start_rendezvous ::
  "'a server_prims_scheme \<Rightarrow> int \<Rightarrow> byte list \<Rightarrow> headers \<Rightarrow> start_direct_rendezvous_request \<Rightarrow> app_state
     \<Rightarrow> (server_error + api_response) \<times> app_state" where
  "route_start_rendezvous P now rnd hs rq =
     with_token (bearer_token_from_headers hs) (\<lambda>tok.
       on_db Res_Rendezvous (start_direct_rendezvous P now rnd tok rq))"

definition route_pending_rendezvous ::
  "'a server_prims_scheme \<Rightarrow> int \<Rightarrow> headers \<Rightarrow> app_state \<Rightarrow> (server_error + api_response) \<times> app_state" where
  "route_pending_rendezvous P now hs =
     with_token (bearer_token_from_headers hs) (\<lambda>tok.
       on_db Res_Pending (\<lambda>db. (pending_direct_rendezvous P now tok db, db)))"

definition route_get_rendezvous ::
  "'a server_prims_scheme \<Rightarrow> int \<Rightarrow> headers \<Rightarrow> string \<Rightarrow> app_state
     \<Rightarrow> (server_error + api_response) \<times> app_state" where
  "route_get_rendezvous P now hs rid =
     with_token (bearer_token_from_headers hs) (\<lambda>tok.
       on_db Res_Rendezvous (\<lambda>db. (direct_rendezvous P now tok rid db, db)))"

definition route_update_candidates ::
  "'a server_prims_scheme \<Rightarrow> int \<Rightarrow> headers \<Rightarrow> string \<Rightarrow> update_direct_rendezvous_candidates_request
     \<Rightarrow> app_state \<Rightarrow> (server_error + api_response) \<times> app_state" where
  "route_update_candidates P now hs rid rq =
     with_token (bearer_token_from_headers hs) (\<lambda>tok.
       on_db Res_Rendezvous (update_direct_rendezvous_candidates P now tok rid rq))"

fun serve ::
  "'a server_prims_scheme \<Rightarrow> int \<Rightarrow> byte list \<Rightarrow> byte list \<Rightarrow> headers \<Rightarrow> api_request \<Rightarrow> app_state
     \<Rightarrow> (server_error + api_response) \<times> app_state" where
  "serve P now r1 r2 hs Api_Healthz st = (Inr Res_Ok, st)"
| "serve P now r1 r2 hs Api_BootstrapInit st = route_bootstrap_init P now r1 r2 st"
| "serve P now r1 r2 hs (Api_CreateJoinToken rq) st = route_create_join_token P now r1 hs rq st"
| "serve P now r1 r2 hs Api_AdminDevices st = route_admin_devices P now hs st"
| "serve P now r1 r2 hs Api_ClearDevices st = route_clear_devices P hs st"
| "serve P now r1 r2 hs (Api_RegisterDevice rq) st = route_register_device P now r1 rq st"
| "serve P now r1 r2 hs Api_Heartbeat st = route_heartbeat P now hs st"
| "serve P now r1 r2 hs (Api_UpsertService rq) st = route_upsert_service P now hs rq st"
| "serve P now r1 r2 hs (Api_DeleteService rq) st = route_delete_service P now hs rq st"
| "serve P now r1 r2 hs Api_NetworkSnapshot st = route_network_snapshot P now hs st"
| "serve P now r1 r2 hs (Api_StartRendezvous rq) st = route_start_rendezvous P now r1 hs rq st"
| "serve P now r1 r2 hs Api_PendingRendezvous st = route_pending_rendezvous P now hs st"
| "serve P now r1 r2 hs (Api_GetRendezvous rid) st = route_get_rendezvous P now hs rid st"
| "serve P now r1 r2 hs (Api_UpdateCandidates rid rq) st = route_update_candidates P now hs rid rq st"

text \<open>The status and, for an error, the body of the response.\<close>

definition api_status :: "server_error + api_response \<Rightarrow> nat" where
  "api_status r = (case r of Inl e \<Rightarrow> fst (error_into_response e) | Inr _ \<Rightarrow> 200)"

section \<open>The relay socket\<close>

definition relay_ws ::
  "'a server_prims_scheme \<Rightarrow> int \<Rightarrow> headers \<Rightarrow> app_state \<Rightarrow> (server_error + string) \<times> app_state" where
  "relay_ws P now hs st =
     (case result_bind (bearer_token_from_headers hs) (\<lambda>tok. session_device_id P now tok (app_db st)) of
        Inl e \<Rightarrow> (Inl e, st)
      | Inr device \<Rightarrow> (Inr device, st\<lparr>app_db := touch_device now device (app_db st)\<rparr>))"

text \<open>The socket of a device: its connection and the number of its queue.\<close>

record relay_socket =
  sk_device :: string
  sk_conn :: string
  sk_queue :: nat

datatype ws_message =
    WS_Text "byte list"
  | WS_Binary "byte list"
  | WS_Close
  | WS_Ping
  | WS_Pong
  | WS_Error

definition relay_max_batch_size :: nat where "relay_max_batch_size = 16"

definition socket_open :: "queue_closed \<Rightarrow> relay_socket \<Rightarrow> bool option \<Rightarrow> app_state \<Rightarrow> outgoing \<times> app_state" where
  "socket_open closed sk incoming st =
     ([(sk_queue sk, RE_Ready (sk_device sk))],
      st\<lparr>app_hub := hub_register_device closed (sk_conn sk) (sk_device sk) (sk_queue sk) incoming (app_hub st)\<rparr>)"

text \<open>
  The envelopes of a frame, one after the other, each with the closed queues of the moments of its
  sections.
\<close>

type_synonym hub_env = "queue_closed \<times> (queue_closed \<times> queue_closed \<times> queue_closed) list"

fun handle_envelopes ::
  "relay_socket \<Rightarrow> (hub_env \<times> relay_envelope) list \<Rightarrow> app_state \<Rightarrow> (outgoing \<times> app_state) option" where
  "handle_envelopes sk [] st = Some ([], st)"
| "handle_envelopes sk (((closed, rounds), e) # es) st =
     (case handle_envelope closed rounds (app_db st) (sk_device sk) (sk_conn sk) e (app_hub st) of
        None \<Rightarrow> None
      | Some (out, h) \<Rightarrow>
          map_option (\<lambda>(out', st'). (out @ out', st')) (handle_envelopes sk es (st\<lparr>app_hub := h\<rparr>)))"

definition decode_relay_transport_frame ::
  "(byte list \<Rightarrow> string + relay_transport_frame) \<Rightarrow> byte list \<Rightarrow> string + relay_envelope list" where
  "decode_relay_transport_frame dec payload = map_sum id frame_into_envelopes (dec payload)"

text \<open>One message of the socket: whether the loop goes on, what is sent, and the new state.\<close>

definition handle_relay_message ::
  "(byte list \<Rightarrow> string + relay_transport_frame) \<Rightarrow> int \<Rightarrow> (nat \<Rightarrow> hub_env) \<Rightarrow> relay_socket \<Rightarrow> ws_message
     \<Rightarrow> app_state \<Rightarrow> (bool \<times> outgoing \<times> app_state) option" where
  "handle_relay_message dec now envs sk msg st =
     (let payload = (\<lambda>bs. case decode_relay_transport_frame dec bs of
            Inl err \<Rightarrow> Some (True, [], st)
          | Inr es \<Rightarrow>
              if es = [] then Some (True, [], st)
              else map_option (\<lambda>(out, st'). (True, out, st'))
                     (handle_envelopes sk (zip (map envs [0..<length es]) es)
                        (st\<lparr>app_db := touch_device now (sk_device sk) (app_db st)\<rparr>)))
      in case msg of
           WS_Text bs \<Rightarrow> payload bs
         | WS_Binary bs \<Rightarrow> payload bs
         | WS_Close \<Rightarrow> Some (False, [], st)
         | WS_Ping \<Rightarrow> Some (True, [], st)
         | WS_Pong \<Rightarrow> Some (True, [], st)
         | WS_Error \<Rightarrow> Some (False, [], st))"

definition socket_end :: "queue_closed \<Rightarrow> relay_socket \<Rightarrow> app_state \<Rightarrow> outgoing \<times> app_state" where
  "socket_end closed sk st =
     (let (out, h) = hub_disconnect_device closed (sk_device sk) (sk_conn sk) (app_hub st)
      in (out, st\<lparr>app_hub := h\<rparr>))"

text \<open>The writer: a frame takes what is queued, at most sixteen envelopes.\<close>

function fill_batch :: "relay_envelope list \<Rightarrow> relay_envelope list \<Rightarrow> relay_envelope list \<times> relay_envelope list" where
  "fill_batch batch queue =
     (if length batch < relay_max_batch_size
      then case queue of [] \<Rightarrow> (batch, []) | e # es \<Rightarrow> fill_batch (batch @ [e]) es
      else (batch, queue))"
  by pat_completeness auto
termination
  by (relation "measure (\<lambda>(batch, queue). length queue)") auto

definition next_relay_transport_frame ::
  "relay_envelope list \<Rightarrow> (relay_transport_frame \<times> relay_envelope list) option" where
  "next_relay_transport_frame queue =
     (case queue of
        [] \<Rightarrow> None
      | e # es \<Rightarrow>
          let (batch, rest) = fill_batch [e] es
          in map_option (\<lambda>f. (f, rest)) (frame_from_envelopes batch))"

declare fill_batch.simps [simp del]

text \<open>The writer's loop: before every frame some envelopes arrive in the queue.\<close>

fun relay_writer ::
  "relay_envelope list list \<Rightarrow> relay_envelope list \<Rightarrow> relay_transport_frame list \<times> relay_envelope list" where
  "relay_writer [] queue = ([], queue)"
| "relay_writer (new # arrivals) queue =
     (case next_relay_transport_frame (queue @ new) of
        None \<Rightarrow> relay_writer arrivals (queue @ new)
      | Some (f, rest) \<Rightarrow> let (fs, q) = relay_writer arrivals rest in (f # fs, q))"

section \<open>The server as sections\<close>

datatype app_section = On_Db db_section | On_Hub hub_section

fun app_exec :: "'a server_prims_scheme \<Rightarrow> app_section \<Rightarrow> app_state \<Rightarrow> app_state" where
  "app_exec P (On_Db op) st = st\<lparr>app_db := db_exec P op (app_db st)\<rparr>"
| "app_exec P (On_Hub op) st = st\<lparr>app_hub := hub_exec op (app_hub st)\<rparr>"

definition app_wf :: "'a server_prims_scheme \<Rightarrow> app_state \<Rightarrow> bool" where
  "app_wf P st = (db_wf P (app_db st) \<and> hub_wf (app_hub st))"

definition app_run :: "'a server_prims_scheme \<Rightarrow> app_section list \<Rightarrow> app_state \<Rightarrow> app_state" where
  "app_run P ops st = fold (app_exec P) ops st"

lemma app_exec_wf: "app_wf P st \<Longrightarrow> app_wf P (app_exec P op st)"
  by (cases op) (simp_all add: app_wf_def db_exec_wf hub_exec_wf)

interpretation apps: invariant_system "app_wf P" "app_exec P"
  rewrites "invariant_system.run (app_exec P) = app_run P" for P :: "'a server_prims_scheme"
proof -
  show inv: "invariant_system (app_wf P) (app_exec P)"
    by unfold_locales (rule app_exec_wf)
  show "invariant_system.run (app_exec P) = app_run P"
    by (simp add: fun_eq_iff invariant_system.run_def [OF inv] app_run_def)
qed

text \<open>What can happen to the state: a finite number of sections.\<close>

definition app_reaches :: "'a server_prims_scheme \<Rightarrow> app_state \<Rightarrow> app_state \<Rightarrow> bool" where
  "app_reaches P st st' = (\<exists>ops. st' = app_run P ops st)"

lemma app_reaches_refl [simp]: "app_reaches P st st"
  unfolding app_reaches_def by (rule exI [of _ "[]"]) simp

lemma app_reaches_trans: "app_reaches P st st' \<Longrightarrow> app_reaches P st' st'' \<Longrightarrow> app_reaches P st st''"
  unfolding app_reaches_def by (metis apps.run_append)

lemma app_reaches_db [simp]: "app_reaches P st (st\<lparr>app_db := db_exec P op (app_db st)\<rparr>)"
  unfolding app_reaches_def by (rule exI [of _ "[On_Db op]"]) simp

lemma app_run_hub: "app_run P (map On_Hub ops) st = st\<lparr>app_hub := hub_run ops (app_hub st)\<rparr>"
  by (induction ops arbitrary: st) simp_all

lemma app_reaches_hub [simp]: "app_reaches P st (st\<lparr>app_hub := hub_run ops (app_hub st)\<rparr>)"
  unfolding app_reaches_def by (rule exI [of _ "map On_Hub ops"]) (simp add: app_run_hub)

lemma app_reaches_wf: "app_wf P st \<Longrightarrow> app_reaches P st st' \<Longrightarrow> app_wf P st'"
  by (auto simp: app_reaches_def apps.run_inv)

definition db_results :: "'a server_prims_scheme \<Rightarrow> database \<Rightarrow> database set" where
  "db_results P db = insert db (range (\<lambda>op. db_exec P op db))"

lemma db_resultsI [intro]: "db' = db \<or> (\<exists>op. db' = db_exec P op db) \<Longrightarrow> db' \<in> db_results P db"
  by (auto simp: db_results_def)

lemma db_operations:
  "snd (bootstrap_init P now r1 r2 db) \<in> db_results P db"
  "snd (create_join_token P now rnd tok rqj db) \<in> db_results P db"
  "snd (register_device P now rnd rqr db) \<in> db_results P db"
  "snd (heartbeat P now tok db) \<in> db_results P db"
  "snd (upsert_service P now tok rqu db) \<in> db_results P db"
  "snd (delete_service P now tok rqd db) \<in> db_results P db"
  "snd (clear_devices P tok db) \<in> db_results P db"
  "snd (update_direct_rendezvous_candidates P now tok rid rqc db) \<in> db_results P db"
proof -
  have "db_exec P op db \<in> db_results P db" for op by blast
  from this [of "Sec_Bootstrap now r1 r2"] this [of "Sec_Register now rnd rqr"]
  show "snd (bootstrap_init P now r1 r2 db) \<in> db_results P db" "snd (register_device P now rnd rqr db) \<in> db_results P db"
    by simp_all
  show "snd (create_join_token P now rnd tok rqj db) \<in> db_results P db"
    using operations_are_sections(1) [of P now rnd tok rqj db] by blast
  show "snd (heartbeat P now tok db) \<in> db_results P db" using operations_are_sections(2) [of P now tok db] by blast
  show "snd (upsert_service P now tok rqu db) \<in> db_results P db"
    using operations_are_sections(3) [of P now tok rqu db] by blast
  show "snd (delete_service P now tok rqd db) \<in> db_results P db"
    using operations_are_sections(4) [of P now tok rqd db] by blast
  show "snd (clear_devices P tok db) \<in> db_results P db" using operations_are_sections(5) [of P tok db] by blast
  show "snd (update_direct_rendezvous_candidates P now tok rid rqc db) \<in> db_results P db"
    using operations_are_sections(6) [of P now tok rid rqc db] by blast
qed

lemma on_db_sections:
  assumes "snd (f (app_db st)) \<in> db_results P (app_db st)"
  shows "app_reaches P st (snd (on_db wrap f st))"
  using assms by (auto simp: db_results_def on_db_def split_beta Let_def)

lemma start_is_section:
  assumes "db_wf P db"
  shows "snd (start_direct_rendezvous P now rnd tok rq db) \<in> db_results P db"
proof (cases "\<exists>source service. authorize_relay_service source (sid_of P (sr_target_device_id rq) (sr_service_name rq)) db = Inr service
    \<and> snd (start_direct_rendezvous P now rnd tok rq db)
      = snd (start_rendezvous_locked P now rnd source service (sr_source_candidates rq) db)")
  case True
  then obtain source service where auth: "authorize_relay_service source (sid_of P (sr_target_device_id rq) (sr_service_name rq)) db = Inr service"
    and start: "snd (start_direct_rendezvous P now rnd tok rq db)
      = snd (start_rendezvous_locked P now rnd source service (sr_source_candidates rq) db)" by blast
  from auth obtain r where "r \<in> set (db_services db)" "service = to_service_definition r"
    by (rule authorize_relay_service_row)
  then have "service = \<lparr>sd_service_id = sid_of P (sd_owner_device_id service) (sd_name service),
      sd_owner_device_id = sd_owner_device_id service, sd_name = sd_name service, sd_protocol = sd_protocol service\<rparr>"
    using db_wfD(3) [OF assms] by (auto simp: derived_ok_def to_service_definition_def)
  then have "db_exec P (Sec_StartRendezvous now rnd source (sd_owner_device_id service) (sd_name service)
      (sd_protocol service) (sr_source_candidates rq)) db = snd (start_direct_rendezvous P now rnd tok rq db)"
    unfolding start by simp
  then show ?thesis by (metis db_resultsI)
next
  case False
  then have "snd (start_direct_rendezvous P now rnd tok rq db) = db"
    by (auto simp: start_direct_rendezvous_def result_bind_Inr_iff split: sum.splits) blast
  then show ?thesis by blast
qed

end
