(* ===== verification/RoutesProps.thy ===== *)
theory RoutesProps
  imports Routes RelayProps
begin

text \<open>
  What the server does as a whole: every request and every socket message is a sequence of the
  lock-held sections whose invariants are proved, nothing happens without the right token, clearing
  the devices silences the sockets that survive, and the relay writer loses nothing.
\<close>

section \<open>Requests are sections\<close>

lemma with_token_cases:
  obtains e where "tok = Inl e" "with_token tok f st = (Inl e, st)"
  | t where "tok = Inr t" "with_token tok f st = f t st"
  by (cases tok) (auto simp: with_token_def)

lemma on_db_read [simp]: "snd (on_db wrap (\<lambda>db. (f db, db)) st) = st"
  by (simp add: on_db_def)

lemma with_token_sections: "(\<And>t. app_reaches P st (snd (f t st))) \<Longrightarrow> app_reaches P st (snd (with_token tok f st))"
  by (cases tok) (simp_all add: with_token_def)

lemma serve_sections:
  assumes "db_wf P (app_db st)"
  shows "app_reaches P st (snd (serve P now r1 r2 hs rq st))"
proof (cases rq)
  case Api_ClearDevices
  have "app_reaches P st (snd (route_clear_devices P hs st))" unfolding route_clear_devices_def
  proof (rule with_token_sections)
    fix t
    have base: "app_reaches P st (snd (on_db Res_ClearDevices (clear_devices P t) st))"
      by (intro on_db_sections db_operations)
    have hub: "app_reaches P s (s\<lparr>app_hub := hub_reset (app_hub s)\<rparr>)" for s
      using app_reaches_hub [of P s "[HS_Reset]"] by simp
    show "app_reaches P st (snd (case on_db Res_ClearDevices (clear_devices P t) st of
          (Inl e, st') \<Rightarrow> (Inl e, st') | (Inr r, st') \<Rightarrow> (Inr r, st'\<lparr>app_hub := hub_reset (app_hub st')\<rparr>)))"
      using base hub by (auto intro: app_reaches_trans split: prod.split sum.split)
  qed
  with Api_ClearDevices show ?thesis by simp
qed (simp_all add: route_bootstrap_init_def route_register_device_def route_create_join_token_def
    route_heartbeat_def route_upsert_service_def route_delete_service_def route_start_rendezvous_def
    route_update_candidates_def route_admin_devices_def route_network_snapshot_def
    route_pending_rendezvous_def route_get_rendezvous_def with_token_sections on_db_sections
    db_operations start_is_section [OF assms])

lemma handle_envelopes_sections:
  "handle_envelopes sk es st = Some (out, st') \<Longrightarrow> app_reaches P st st'"
proof (induction sk es st arbitrary: out rule: handle_envelopes.induct)
  case (2 sk closed rounds e es st)
  then obtain o1 h o2 where h: "handle_envelope closed rounds (app_db st) (sk_device sk) (sk_conn sk) e (app_hub st) = Some (o1, h)"
    and rest: "handle_envelopes sk es (st\<lparr>app_hub := h\<rparr>) = Some (o2, st')"
    by (auto split: option.splits)
  from handle_envelope_sections [OF h] obtain ops where "h = hub_run ops (app_hub st)" ..
  then have "app_reaches P st (st\<lparr>app_hub := h\<rparr>)" by simp
  with "2.IH" [OF h refl rest] show ?case by (rule app_reaches_trans [rotated])
qed simp

lemma relay_message_sections:
  assumes "handle_relay_message dec now envs sk msg st = Some (go, out, st')"
  shows "app_reaches P st st'"
proof -
  have "app_reaches P st (st\<lparr>app_db := touch_device now (sk_device sk) (app_db st)\<rparr>)"
    using app_reaches_db [of P st "Sec_Touch now (sk_device sk)"] by simp
  with assms show ?thesis
    by (auto simp: handle_relay_message_def Let_def split: ws_message.splits sum.splits if_splits
        intro: app_reaches_trans handle_envelopes_sections)
qed

text \<open>
  C24. The server never leaves the states in which its tables and its hub are consistent: every
  request, every upgrade to a relay socket, and every message, the start and the end of a socket is
  a finite sequence of lock-held sections, and all sections keep both invariants, however the tasks
  of the server interleave them.
\<close>

theorem server_integrity:
  assumes "app_reaches P app_new st"
  shows "db_wf P (app_db st) \<and> hub_wf (app_hub st)
    \<and> app_reaches P app_new (snd (serve P now r1 r2 hs rq st))
    \<and> app_reaches P app_new (snd (relay_ws P now hs st))
    \<and> app_reaches P app_new (snd (socket_open closed sk incoming st))
    \<and> (handle_relay_message dec now envs sk msg st = Some (go, out, st') \<longrightarrow> app_reaches P app_new st')
    \<and> app_reaches P app_new (snd (socket_end closed sk st))"
proof -
  have "app_wf P app_new" by (simp add: app_wf_def app_new_def hub_new_wf db_empty_wf)
  from app_reaches_wf [OF this assms] have wf: "db_wf P (app_db st)" "hub_wf (app_hub st)" by (simp_all add: app_wf_def)
  note then_reaches = app_reaches_trans [OF assms]
  have "app_reaches P app_new (snd (relay_ws P now hs st))"
    using then_reaches [OF app_reaches_db [of P st "Sec_Touch now _"]] assms
    by (auto simp: relay_ws_def split: sum.split)
  moreover have "app_reaches P app_new (snd (socket_open closed sk incoming st))"
    using then_reaches [OF app_reaches_hub [of P st "[HS_Register closed (sk_conn sk) (sk_device sk) (sk_queue sk) incoming]"]]
    by (simp add: socket_open_def)
  moreover have "app_reaches P app_new (snd (socket_end closed sk st))"
    using then_reaches [OF app_reaches_hub [of P st "[HS_Disconnect closed (sk_device sk) (sk_conn sk)]"]]
    by (simp add: socket_end_def split_beta Let_def)
  ultimately show ?thesis
    using wf then_reaches [OF serve_sections [OF wf(1)]] then_reaches [OF relay_message_sections] by blast
qed

section \<open>Access\<close>

text \<open>The token a request must carry.\<close>

fun credential :: "'a server_prims_scheme \<Rightarrow> int \<Rightarrow> headers \<Rightarrow> app_state \<Rightarrow> api_request \<Rightarrow> bool" where
  "credential P now hs st Api_Healthz = True"
| "credential P now hs st Api_BootstrapInit = True"
| "credential P now hs st (Api_RegisterDevice _) = True"
| "credential P now hs st rq =
     (if (\<exists>rj. rq = Api_CreateJoinToken rj) \<or> rq = Api_AdminDevices \<or> rq = Api_ClearDevices
      then result_bind (admin_token_from_headers hs) (\<lambda>t. ensure_admin P t (app_db st)) = Inr ()
      else \<exists>device. result_bind (bearer_token_from_headers hs) (\<lambda>t. session_device_id P now t (app_db st)) = Inr device)"

text \<open>
  C26. Without the token it needs, a request is refused and changes nothing: the administration needs
  the admin token, everything else but the health check, the initialisation and the registration
  needs the session token of a device.
\<close>

theorem no_token_no_effect:
  assumes "\<not> credential P now hs st rq"
  shows "\<exists>e. serve P now r1 r2 hs rq st = (Inl e, st)
    \<and> (bearer_token_from_headers hs = Inl Unauthorized \<and> admin_token_from_headers hs = Inl Unauthorized
       \<longrightarrow> api_status (Inl e) = 401)"
proof -
  have status: "api_status (Inl Unauthorized) = 401" by (simp add: api_status_def error_into_response_def)
  show ?thesis
  proof (cases rq)
    case (Api_CreateJoinToken rj)
    with assms status show ?thesis
      by (auto simp: route_create_join_token_def with_token_def on_db_def create_join_token_def
          result_bind_Inr_iff split: sum.splits)
  next
    case Api_AdminDevices
    with assms status show ?thesis
      by (auto simp: route_admin_devices_def with_token_def on_db_def admin_devices_def result_bind_def split: sum.splits)
  next
    case Api_ClearDevices
    with assms status show ?thesis
      by (auto simp: route_clear_devices_def with_token_def on_db_def clear_devices_def result_bind_def split: sum.splits)
  next
    case Api_Heartbeat
    with assms status show ?thesis
      by (auto simp: route_heartbeat_def with_token_def on_db_def heartbeat_def result_bind_def split: sum.splits)
  next
    case (Api_UpsertService ru)
    with assms status show ?thesis
      by (auto simp: route_upsert_service_def with_token_def on_db_def upsert_service_def result_bind_def split: sum.splits)
  next
    case (Api_DeleteService rd)
    with assms status show ?thesis
      by (auto simp: route_delete_service_def with_token_def on_db_def delete_service_def result_bind_def split: sum.splits)
  next
    case Api_NetworkSnapshot
    with assms status show ?thesis
      by (auto simp: route_network_snapshot_def with_token_def on_db_def db_network_snapshot_def result_bind_def split: sum.splits)
  next
    case (Api_StartRendezvous rs)
    with assms status show ?thesis
      by (auto simp: route_start_rendezvous_def with_token_def on_db_def start_direct_rendezvous_def result_bind_def split: sum.splits)
  next
    case Api_PendingRendezvous
    with assms status show ?thesis
      by (auto simp: route_pending_rendezvous_def with_token_def on_db_def pending_direct_rendezvous_def result_bind_def split: sum.splits)
  next
    case (Api_GetRendezvous rid)
    with assms status show ?thesis
      by (auto simp: route_get_rendezvous_def with_token_def on_db_def direct_rendezvous_def result_bind_def split: sum.splits)
  next
    case (Api_UpdateCandidates rid rc)
    with assms status show ?thesis
      by (auto simp: route_update_candidates_def with_token_def on_db_def update_direct_rendezvous_candidates_def
          result_bind_def split: sum.splits)
  qed (use assms in simp_all)
qed

section \<open>Clearing the devices\<close>

lemma cleared:
  assumes "serve P now r1 r2 hs Api_ClearDevices st = (Inr r, st')"
  shows "hb_conns (app_hub st') = []" "hb_channels (app_hub st') = []" "db_devices (app_db st') = []"
    "db_sessions (app_db st') = []" "db_services (app_db st') = []"
  using assms
  by (auto simp: route_clear_devices_def with_token_def on_db_def clear_devices_def clear_devices_locked_def
      delete_all_services_def delete_all_devices_def hub_reset_def Let_def result_bind_def
      split: sum.splits if_splits prod.splits)

definition mute :: "app_state \<Rightarrow> bool" where
  "mute st = (hb_conns (app_hub st) = [] \<and> hb_channels (app_hub st) = []
     \<and> db_devices (app_db st) = [] \<and> db_sessions (app_db st) = [] \<and> db_services (app_db st) = [])"

lemma mute_to_connection [simp]: "hb_conns h = [] \<Longrightarrow> to_connection h d c e = []"
  by (simp add: to_connection_def lookup_connection_sender_def find_conn_def)

lemma mute_envelope:
  assumes "mute st" "handle_envelope closed rounds (app_db st) d c e (app_hub st) = Some (out, h)"
  shows "out = [] \<and> h = app_hub st"
proof -
  have "note_connection_opened_channel closed d c (app_hub st) = app_hub st"
    using assms(1) by (simp add: note_connection_opened_channel_def find_conn_def mute_def)
  then show ?thesis using assms
    by (cases e) (auto simp: mute_def handle_open_channel_def authorize_relay_service_def
        handle_channel_accepted_def handle_channel_rejected_def handle_channel_data_def handle_channel_close_def)
qed

lemma mute_envelopes:
  "handle_envelopes sk es st = Some (out, st') \<Longrightarrow> mute st \<Longrightarrow> out = [] \<and> st' = st"
proof (induction sk es st arbitrary: out rule: handle_envelopes.induct)
  case (2 sk closed rounds e es st)
  then obtain o1 h o2 where h: "handle_envelope closed rounds (app_db st) (sk_device sk) (sk_conn sk) e (app_hub st) = Some (o1, h)"
    and rest: "handle_envelopes sk es (st\<lparr>app_hub := h\<rparr>) = Some (o2, st')" "out = o1 @ o2"
    by (auto split: option.splits)
  from mute_envelope [OF "2.prems"(2) h] have "o1 = []" "st\<lparr>app_hub := h\<rparr> = st" by simp_all
  with "2.IH" [OF h refl rest(1)] "2.prems"(2) rest(2) show ?case by simp
qed simp

text \<open>
  After the devices have been cleared, sockets that are still open are cut off: whatever they
  send, nothing is delivered to anyone and the hub stays empty, until a device is registered and
  connects again.
\<close>

theorem cleared_sockets_are_mute:
  assumes "serve P now r1 r2 hs Api_ClearDevices st = (Inr r, st')"
    and "handle_relay_message dec now' envs sk msg st' = Some (go, out, st'')"
  shows "hb_conns (app_hub st'') = [] \<and> hb_channels (app_hub st'') = []
    \<and> db_devices (app_db st'') = [] \<and> db_sessions (app_db st'') = [] \<and> out = []"
proof -
  have mute: "mute st'" using cleared [OF assms(1)] by (simp add: mute_def)
  then have "touch_device now' (sk_device sk) (app_db st') = app_db st'" by (simp add: touch_device_def mute_def)
  then have touched: "st'\<lparr>app_db := touch_device now' (sk_device sk) (app_db st')\<rparr> = st'" by simp
  have "out = [] \<and> st'' = st'"
    using assms(2) mute_envelopes [OF _ mute] unfolding handle_relay_message_def touched Let_def
    by (auto split: ws_message.splits sum.splits if_splits)
  with mute show ?thesis by (simp add: mute_def)
qed

section \<open>The relay writer\<close>

lemma fill_batch_spec:
  assumes "fill_batch batch queue = (b, rest)" "length batch \<le> relay_max_batch_size"
  shows "b @ rest = batch @ queue \<and> length batch \<le> length b \<and> length b \<le> relay_max_batch_size
    \<and> (rest = [] \<or> length b = relay_max_batch_size)"
  using assms
proof (induction batch queue arbitrary: b rest rule: fill_batch.induct)
  case (1 batch queue)
  show ?case
  proof (cases "length batch < relay_max_batch_size \<and> queue \<noteq> []")
    case True
    then obtain e es where q: "queue = e # es" by (cases queue) auto
    with True "1.prems" have "fill_batch (batch @ [e]) es = (b, rest)" by (subst (asm) fill_batch.simps) simp
    from "1.IH" [OF _ q this] True show ?thesis by (auto simp: q)
  next
    case False
    with "1.prems" show ?thesis by (subst (asm) fill_batch.simps) (auto split: list.splits if_splits)
  qed
qed

lemma next_frame_spec:
  assumes "queue \<noteq> []"
  obtains f rest where "next_relay_transport_frame queue = Some (f, rest)"
    "frame_into_envelopes f @ rest = queue" "1 \<le> length (frame_into_envelopes f)"
    "length (frame_into_envelopes f) \<le> relay_max_batch_size"
    "rest = [] \<or> length (frame_into_envelopes f) = relay_max_batch_size"
proof -
  from assms obtain e es where q: "queue = e # es" by (cases queue) auto
  obtain b rest where b: "fill_batch [e] es = (b, rest)" by fastforce
  have spec: "b @ rest = queue" "1 \<le> length b" "length b \<le> relay_max_batch_size" "rest = [] \<or> length b = relay_max_batch_size"
    using fill_batch_spec [OF b] by (auto simp: q relay_max_batch_size_def)
  then obtain f where f: "frame_from_envelopes b = Some f" using frame_from_envelopes_None [of b] by (cases "frame_from_envelopes b") auto
  show thesis
    by (rule that [of f rest])
      (use spec frame_roundtrip [OF f] in \<open>simp_all add: next_relay_transport_frame_def q b f\<close>)
qed

lemma relay_writer_spec:
  assumes "relay_writer arrivals queue = (fs, rest)"
  shows "concat (map frame_into_envelopes fs) @ rest = queue @ concat arrivals
    \<and> (\<forall>f\<in>set fs. 1 \<le> length (frame_into_envelopes f) \<and> length (frame_into_envelopes f) \<le> relay_max_batch_size)
    \<and> (concat arrivals = [] \<and> length queue \<le> relay_max_batch_size * length arrivals \<longrightarrow> rest = [])"
  using assms
proof (induction arrivals queue arbitrary: fs rest rule: relay_writer.induct)
  case (2 new arrivals queue)
  show ?case
  proof (cases "queue @ new = []")
    case True
    then have "next_relay_transport_frame (queue @ new) = None" by (simp add: next_relay_transport_frame_def)
    with 2 True show ?thesis by auto
  next
    case False
    then obtain f r where f: "next_relay_transport_frame (queue @ new) = Some (f, r)"
      "frame_into_envelopes f @ r = queue @ new" "1 \<le> length (frame_into_envelopes f)"
      "length (frame_into_envelopes f) \<le> relay_max_batch_size"
      "r = [] \<or> length (frame_into_envelopes f) = relay_max_batch_size" by (rule next_frame_spec)
    obtain gs where gs: "relay_writer arrivals r = (gs, rest)" "fs = f # gs"
      using "2.prems" f(1) by (auto split: prod.splits)
    note IH = "2.IH"(2) [OF f(1) refl gs(1)]
    have "rest = []" if "concat (new # arrivals) = []" "length queue \<le> relay_max_batch_size * length (new # arrivals)"
    proof -
      have "length queue = length (frame_into_envelopes f) + length r"
        using arg_cong [OF f(2), of length] that(1) by simp
      with that f(5) have "length r \<le> relay_max_batch_size * length arrivals" by auto
      with IH that(1) show ?thesis by simp
    qed
    moreover have "concat (map frame_into_envelopes fs) @ rest = queue @ concat (new # arrivals)"
      using IH f(2) gs(2) by (metis append.assoc concat.simps(2) list.simps(9))
    ultimately show ?thesis using IH f(3,4) gs(2) by auto
  qed
qed simp

text \<open>
  The frames a socket writes carry exactly the envelopes of its queue, in order, at most sixteen
  each and never an empty one, and the decoder of the other end gets them back. Once nothing new
  arrives the queue is emptied.
\<close>

theorem relay_writer_lossless:
  assumes "relay_writer arrivals queue = (fs, rest)" "\<forall>f\<in>set fs. dec (enc f) = Inr f"
  shows "concat (map (\<lambda>f. case decode_relay_transport_frame dec (enc f) of Inr es \<Rightarrow> es | Inl _ \<Rightarrow> []) fs) @ rest
      = queue @ concat arrivals
    \<and> (\<forall>f\<in>set fs. 1 \<le> length (frame_into_envelopes f) \<and> length (frame_into_envelopes f) \<le> relay_max_batch_size)
    \<and> (concat arrivals = [] \<and> length queue \<le> relay_max_batch_size * length arrivals \<longrightarrow> rest = [])"
proof -
  have read: "map (\<lambda>f. case decode_relay_transport_frame dec (enc f) of Inr es \<Rightarrow> es | Inl _ \<Rightarrow> []) fs = map frame_into_envelopes fs"
    using assms(2) by (simp add: decode_relay_transport_frame_def)
  show ?thesis unfolding read by (rule relay_writer_spec [OF assms(1)])
qed

section \<open>Examples\<close>

definition demo_app :: app_state where
  "demo_app = \<lparr>app_db = demo_db2, app_hub = demo_hub_open\<rparr>"

definition demo_socket :: relay_socket where
  "demo_socket = \<lparr>sk_device = demo_id (CHR ''B''), sk_conn = ''s'', sk_queue = 1\<rparr>"

definition demo_admin :: headers where
  "demo_admin name = (if name = ''x-admin-token'' then Some ''adm_A'' else None)"

theorem server_integrity_witness:
  "app_reaches toy_server app_new (snd (serve toy_server 0 [65] [66] demo_admin Api_BootstrapInit app_new))
   \<and> hub_wf (app_hub app_new)"
  using server_integrity [OF app_reaches_refl, of toy_server 0 "[65]" "[66]" demo_admin Api_BootstrapInit] by blast

theorem no_token_no_effect_witness:
  "\<exists>e. serve toy_server 9 [] [] demo_admin (Api_UpsertService demo_publish) demo_app = (Inl e, demo_app)"
  using no_token_no_effect [of toy_server 9 demo_admin demo_app "Api_UpsertService demo_publish" "[]" "[]"]
  by (auto simp: bearer_token_from_headers_def demo_admin_def)

theorem cleared_sockets_are_mute_witness:
  "\<exists>r st'. serve toy_server 30 [] [] demo_admin Api_ClearDevices demo_app = (Inr r, st')
     \<and> handle_relay_message (\<lambda>_. Inr (Frame_Single (RE_ChannelData ''ch'' ''x''))) 31 (\<lambda>_. (all_open, [])) demo_socket
         (WS_Binary []) st' = Some (True, [], st')"
proof -
  have "ensure_admin toy_server ''adm_A'' demo_db2 = Inr ()"
    by (simp add: ensure_admin_def demo_db2_def demo_db1_def demo_db0_def)
  then obtain r st' where r: "serve toy_server 30 [] [] demo_admin Api_ClearDevices demo_app = (Inr r, st')"
    by (auto simp: route_clear_devices_def with_token_def on_db_def clear_devices_def admin_token_from_headers_def
        demo_admin_def demo_app_def clear_devices_locked_def delete_all_services_def delete_all_devices_def Let_def)
  then have "handle_relay_message (\<lambda>_. Inr (Frame_Single (RE_ChannelData ''ch'' ''x''))) 31 (\<lambda>_. (all_open, [])) demo_socket
         (WS_Binary []) st' = Some (True, [], st')"
    using cleared [OF r]
    by (simp add: handle_relay_message_def decode_relay_transport_frame_def touch_device_def handle_channel_data_def)
  with cleared_sockets_are_mute [OF r this] r show ?thesis by blast
qed

theorem relay_writer_lossless_witness:
  "frame_into_envelopes (hd (fst (relay_writer [[RE_Ping]] [RE_Pong]))) = [RE_Pong, RE_Ping]"
proof -
  have w: "relay_writer [[RE_Ping]] [RE_Pong] = ([Frame_Batch [RE_Pong, RE_Ping]], [])"
    by (simp add: next_relay_transport_frame_def fill_batch.simps relay_max_batch_size_def frame_from_envelopes_def)
  from relay_writer_lossless [OF w, of "\<lambda>_. Inr (Frame_Batch [RE_Pong, RE_Ping])" "\<lambda>_. []"] w show ?thesis
    by (simp add: decode_relay_transport_frame_def)
qed

end
