(* ===== verification/AgentConfig.thy ===== *)
theory AgentConfig
  imports Crypto ServerError
begin

text \<open>
  The agent's configuration (\<open>minipunch-agent/src/config.rs\<close>) and what \<open>AgentRuntime\<close> in
  \<open>minipunch-agent/src/lib.rs\<close> does with it: validation, forward rules, published services, the
  session, registration and preparation of a run. The configuration file, the clock and the answers
  of the server are arguments.
\<close>

section \<open>Configuration\<close>

record published_service_config =
  ps_name :: string
  ps_target_host :: string
  ps_target_port :: nat
  ps_allowed_device_ids :: "string list"
  ps_direct_enabled :: bool
  ps_direct_udp_bind_addr :: string
  ps_direct_candidate_type :: string
  ps_direct_wait_seconds :: nat

record local_forward_config =
  fr_name :: string
  fr_target_device_id :: string
  fr_service_name :: string
  fr_local_bind_addr :: string
  fr_enabled :: bool
  fr_transport_mode :: string
  fr_direct_udp_bind_addr :: string
  fr_direct_candidate_type :: string
  fr_direct_wait_seconds :: nat

record agent_config =
  cf_server_url :: string
  cf_device_name :: string
  cf_device_id :: "string option"
  cf_private_key_base64 :: "string option"
  cf_relay_private_key_base64 :: "string option"
  cf_session_token :: "string option"
  cf_session_expires_at :: "int option"
  cf_published_services :: "published_service_config list"
  cf_forward_rules :: "local_forward_config list"

definition default_direct_candidate_type :: string where "default_direct_candidate_type = ''local''"
definition default_direct_wait_seconds :: nat where "default_direct_wait_seconds = 5"
definition default_forward_transport :: string where "default_forward_transport = ''relay''"

definition agent_config_default :: agent_config where
  "agent_config_default =
     \<lparr>cf_server_url = [], cf_device_name = [], cf_device_id = None, cf_private_key_base64 = None,
      cf_relay_private_key_base64 = None, cf_session_token = None, cf_session_expires_at = None,
      cf_published_services = [], cf_forward_rules = []\<rparr>"

definition has_valid_session :: "int \<Rightarrow> agent_config \<Rightarrow> bool" where
  "has_valid_session now c =
     (case (cf_session_token c, cf_session_expires_at c) of
        (Some _, Some expires_at) \<Rightarrow> i64_add now 60 < expires_at
      | _ \<Rightarrow> False)"

section \<open>Validation\<close>

definition normalize_forward_transport_mode :: "string \<Rightarrow> string result" where
  "normalize_forward_transport_mode mode =
     (let normalized = (if blank mode then default_forward_transport else to_ascii_lowercase (trim mode)) in
      if normalized = ''relay'' \<or> normalized = ''auto'' then Inr normalized
      else Inl (''unsupported transport_mode '' @ mode @ ''; expected relay or auto''))"

definition forward_transport_is_auto :: "string \<Rightarrow> bool" where
  "forward_transport_is_auto mode = eq_ignore_ascii_case (trim mode) ''auto''"

definition normalize_direct_candidate_type :: "string \<Rightarrow> string" where
  "normalize_direct_candidate_type t = (if blank t then default_direct_candidate_type else trim t)"

definition validate_published_service_config :: "published_service_config \<Rightarrow> unit result" where
  "validate_published_service_config s =
     (if blank (ps_name s) then Inl ''published service name cannot be empty''
      else if blank (ps_target_host s)
      then Inl (''published service '' @ ps_name s @ '' target_host cannot be empty'')
      else if ps_target_port s = 0
      then Inl (''published service '' @ ps_name s @ '' target_port must be greater than 0'')
      else if ps_direct_enabled s \<and> blank (ps_direct_udp_bind_addr s)
      then Inl (''published service '' @ ps_name s
             @ '' enables direct transport but direct_udp_bind_addr is empty'')
      else if ps_direct_enabled s \<and> ps_direct_wait_seconds s = 0
      then Inl (''published service '' @ ps_name s @ '' direct_wait_seconds must be greater than 0'')
      else Inr ())"

definition validate_forward_rule :: "local_forward_config \<Rightarrow> unit result" where
  "validate_forward_rule r =
     (if blank (fr_name r) then Inl ''forward rule name cannot be empty''
      else if blank (fr_target_device_id r) then Inl ''target_device_id cannot be empty''
      else if blank (fr_service_name r) then Inl ''service_name cannot be empty''
      else if blank (fr_local_bind_addr r) then Inl ''local_bind_addr cannot be empty''
      else result_bind (normalize_forward_transport_mode (fr_transport_mode r)) (\<lambda>mode.
        if forward_transport_is_auto mode then
          if blank (fr_direct_udp_bind_addr r)
          then Inl (''forward rule '' @ fr_name r @ '' uses auto transport but direct_udp_bind_addr is empty'')
          else if blank (fr_direct_candidate_type r)
          then Inl (''forward rule '' @ fr_name r @ '' uses auto transport but direct_candidate_type is empty'')
          else if fr_direct_wait_seconds r = 0
          then Inl (''forward rule '' @ fr_name r @ '' uses auto transport but direct_wait_seconds is 0'')
          else Inr ()
        else Inr ()))"

fun first_error :: "('a \<Rightarrow> unit result) \<Rightarrow> 'a list \<Rightarrow> unit result" where
  "first_error f [] = Inr ()"
| "first_error f (x # xs) = result_bind (f x) (\<lambda>_. first_error f xs)"

definition validate_runtime_config :: "agent_config \<Rightarrow> unit result" where
  "validate_runtime_config c =
     result_bind (first_error validate_published_service_config (cf_published_services c))
       (\<lambda>_. first_error validate_forward_rule (cf_forward_rules c))"

section \<open>Back-off\<close>

text \<open>Durations are nanoseconds; \<open>Duration::saturating_mul\<close> does not saturate below ages.\<close>

definition duration_max :: nat where "duration_max = (2 ^ 64 - 1) * 10 ^ 9 + 999999999"
definition seconds :: "nat \<Rightarrow> nat" where "seconds n = n * 10 ^ 9"

definition runtime_retry_initial_backoff :: nat where "runtime_retry_initial_backoff = seconds 1"
definition runtime_retry_max_backoff :: nat where "runtime_retry_max_backoff = seconds 15"
definition auto_direct_retry_initial_backoff :: nat where "auto_direct_retry_initial_backoff = seconds 5"
definition auto_direct_retry_max_backoff :: nat where "auto_direct_retry_max_backoff = seconds 60"

definition next_retry_delay :: "nat \<Rightarrow> nat" where
  "next_retry_delay current = min (min (current * 2) duration_max) runtime_retry_max_backoff"

definition next_auto_direct_retry_delay :: "nat \<Rightarrow> nat" where
  "next_auto_direct_retry_delay current = min (min (current * 2) duration_max) auto_direct_retry_max_backoff"

section \<open>The runtime\<close>

text \<open>
  The configuration in memory, the configuration file, and the two key pairs. Writing the file gives
  a result.
\<close>

record agent_runtime =
  rt_config :: agent_config
  rt_file :: agent_config
  rt_identity :: device_identity
  rt_relay_identity :: relay_keypair

definition runtime_save :: "unit result \<Rightarrow> agent_runtime \<Rightarrow> unit result \<times> agent_runtime" where
  "runtime_save io r = (case io of Inl e \<Rightarrow> (Inl e, r) | Inr () \<Rightarrow> (Inr (), r\<lparr>rt_file := rt_config r\<rparr>))"

definition current_session_token :: "agent_runtime \<Rightarrow> string result" where
  "current_session_token r =
     (case cf_session_token (rt_config r) of None \<Rightarrow> Inl ''missing session token'' | Some t \<Rightarrow> Inr t)"

definition invalidate_session :: "agent_runtime \<Rightarrow> agent_runtime" where
  "invalidate_session r = r\<lparr>rt_config := (rt_config r)\<lparr>cf_session_token := None, cf_session_expires_at := None\<rparr>\<rparr>"

definition load_or_create_identity ::
  "crypto_prims \<Rightarrow> byte list \<Rightarrow> agent_config \<Rightarrow> (device_identity \<times> agent_config) result" where
  "load_or_create_identity P rnd c =
     (case cf_private_key_base64 c of
        Some key \<Rightarrow>
          (case identity_from_private_key_base64 P key of
             Inl e \<Rightarrow> Inl (crypto_error_message e) | Inr i \<Rightarrow> Inr (i, c))
      | None \<Rightarrow>
          let i = \<lparr>di_signing_key = rnd\<rparr>
          in Inr (i, c\<lparr>cf_private_key_base64 := Some (identity_private_key_base64 P i)\<rparr>))"

definition load_or_create_relay_identity ::
  "crypto_prims \<Rightarrow> byte list \<Rightarrow> agent_config \<Rightarrow> (relay_keypair \<times> agent_config) result" where
  "load_or_create_relay_identity P rnd c =
     (case cf_relay_private_key_base64 c of
        Some key \<Rightarrow>
          (case keypair_from_private_key_base64 P key of
             Inl e \<Rightarrow> Inl (crypto_error_message e) | Inr i \<Rightarrow> Inr (i, c))
      | None \<Rightarrow>
          let i = \<lparr>rk_secret_bytes = rnd\<rparr>
          in Inr (i, c\<lparr>cf_relay_private_key_base64 := Some (keypair_private_key_base64 P i)\<rparr>))"

definition register_request ::
  "crypto_prims \<Rightarrow> string \<Rightarrow> string \<Rightarrow> byte list \<Rightarrow> string option \<Rightarrow> agent_runtime \<Rightarrow> register_device_request" where
  "register_request P os version rnd join_token r =
     (let i = rt_identity r;
          device_id = identity_device_id P i;
          nonce = generate_token P rnd ''nonce'';
          relay_key = keypair_public_key_base64 P (rt_relay_identity r);
          name = cf_device_name (rt_config r)
      in \<lparr>rq_join_token = join_token, rq_device_id = device_id, rq_device_name = name, rq_os = os,
          rq_version = version, rq_public_key = identity_public_key_base64 P i,
          rq_relay_public_key = relay_key,
          rq_relay_public_key_signature = sign_base64 P i (relay_key_binding_message device_id relay_key),
          rq_nonce = nonce,
          rq_signature = sign_base64 P i (registration_message device_id name os nonce)\<rparr>)"

text \<open>The answer of the server to the request.\<close>

definition agent_register ::
  "crypto_prims \<Rightarrow> register_device_response result \<Rightarrow> agent_runtime \<Rightarrow> unit result \<times> agent_runtime" where
  "agent_register P answer r =
     (case answer of
        Inl e \<Rightarrow> (Inl e, r)
      | Inr a \<Rightarrow> (Inr (), r\<lparr>rt_config := (rt_config r)\<lparr>
            cf_device_id := Some (rr_device_id a), cf_session_token := Some (rr_session_token a),
            cf_session_expires_at := Some (rr_session_expires_at a),
            cf_private_key_base64 := Some (identity_private_key_base64 P (rt_identity r)),
            cf_relay_private_key_base64 := Some (keypair_private_key_base64 P (rt_relay_identity r))\<rparr>\<rparr>))"

definition ensure_session ::
  "crypto_prims \<Rightarrow> int \<Rightarrow> register_device_response result \<Rightarrow> unit result \<Rightarrow> agent_runtime
     \<Rightarrow> unit result \<times> agent_runtime" where
  "ensure_session P now answer io r =
     (if has_valid_session now (rt_config r) then (Inr (), r)
      else case agent_register P answer r of
             (Inl e, r') \<Rightarrow> (Inl e, r')
           | (Inr (), r') \<Rightarrow> runtime_save io r')"

text \<open>Replaces the entry with the same key where it stands, or appends a new one.\<close>

fun upsert_by :: "('a \<Rightarrow> 'k) \<Rightarrow> 'a \<Rightarrow> 'a list \<Rightarrow> 'a list" where
  "upsert_by key x [] = [x]"
| "upsert_by key x (y # ys) = (if key y = key x then x # ys else y # upsert_by key x ys)"

definition publish_service ::
  "crypto_prims \<Rightarrow> int \<Rightarrow> register_device_response result \<Rightarrow> unit result
     \<Rightarrow> (string \<Rightarrow> upsert_service_request \<Rightarrow> service_definition result) \<Rightarrow> unit result
     \<Rightarrow> published_service_config \<Rightarrow> agent_runtime \<Rightarrow> service_definition result \<times> agent_runtime" where
  "publish_service P now answer io1 upsert io2 s r =
     (case validate_published_service_config s of
        Inl e \<Rightarrow> (Inl e, r)
      | Inr () \<Rightarrow>
          let s' = s\<lparr>ps_direct_candidate_type := normalize_direct_candidate_type (ps_direct_candidate_type s)\<rparr> in
          (case ensure_session P now answer io1 r of
             (Inl e, r1) \<Rightarrow> (Inl e, r1)
           | (Inr (), r1) \<Rightarrow>
               (case cf_session_token (rt_config r1) of
                  None \<Rightarrow> (Inl ''missing session token after ensure_session'', r1)
                | Some token \<Rightarrow>
                    (case upsert token \<lparr>us_name = ps_name s', us_allowed_device_ids = ps_allowed_device_ids s'\<rparr> of
                       Inl e \<Rightarrow> (Inl e, r1)
                     | Inr service \<Rightarrow>
                         let r2 = r1\<lparr>rt_config := (rt_config r1)\<lparr>cf_published_services :=
                               upsert_by ps_name s' (cf_published_services (rt_config r1))\<rparr>\<rparr>
                         in (case runtime_save io2 r2 of
                               (Inl e, r3) \<Rightarrow> (Inl e, r3) | (Inr (), r3) \<Rightarrow> (Inr service, r3))))))"

definition delete_published_service ::
  "crypto_prims \<Rightarrow> int \<Rightarrow> register_device_response result \<Rightarrow> unit result
     \<Rightarrow> (string \<Rightarrow> delete_service_request \<Rightarrow> service_definition result) \<Rightarrow> unit result
     \<Rightarrow> string \<Rightarrow> agent_runtime \<Rightarrow> service_definition result \<times> agent_runtime" where
  "delete_published_service P now answer io1 delete io2 name r =
     (if blank name then (Inl ''service name cannot be empty'', r)
      else case ensure_session P now answer io1 r of
             (Inl e, r1) \<Rightarrow> (Inl e, r1)
           | (Inr (), r1) \<Rightarrow>
               (case result_bind (current_session_token r1) (\<lambda>token. delete token \<lparr>ds_name = name\<rparr>) of
                  Inl e \<Rightarrow> (Inl e, r1)
                | Inr deleted \<Rightarrow>
                    let r2 = r1\<lparr>rt_config := (rt_config r1)\<lparr>cf_published_services :=
                          filter (\<lambda>s. ps_name s \<noteq> name) (cf_published_services (rt_config r1))\<rparr>\<rparr>
                    in (case runtime_save io2 r2 of
                          (Inl e, r3) \<Rightarrow> (Inl e, r3) | (Inr (), r3) \<Rightarrow> (Inr deleted, r3))))"

definition upsert_forward_rule ::
  "unit result \<Rightarrow> local_forward_config \<Rightarrow> agent_runtime \<Rightarrow> unit result \<times> agent_runtime" where
  "upsert_forward_rule io rule r =
     (case normalize_forward_transport_mode (fr_transport_mode rule) of
        Inl e \<Rightarrow> (Inl e, r)
      | Inr mode \<Rightarrow>
          let rule' = rule\<lparr>fr_transport_mode := mode,
                fr_direct_candidate_type := normalize_direct_candidate_type (fr_direct_candidate_type rule)\<rparr>
          in (case validate_forward_rule rule' of
                Inl e \<Rightarrow> (Inl e, r)
              | Inr () \<Rightarrow> runtime_save io (r\<lparr>rt_config := (rt_config r)\<lparr>cf_forward_rules :=
                  upsert_by fr_name rule' (cf_forward_rules (rt_config r))\<rparr>\<rparr>)))"

definition delete_forward_rule :: "unit result \<Rightarrow> string \<Rightarrow> agent_runtime \<Rightarrow> unit result \<times> agent_runtime" where
  "delete_forward_rule io name r =
     (let rules = filter (\<lambda>x. fr_name x \<noteq> name) (cf_forward_rules (rt_config r));
          r' = r\<lparr>rt_config := (rt_config r)\<lparr>cf_forward_rules := rules\<rparr>\<rparr>
      in if length rules = length (cf_forward_rules (rt_config r))
         then (Inl (''forward rule '' @ name @ '' was not found''), r')
         else runtime_save io r')"

text \<open>Every published service is announced in turn; the first failure ends it.\<close>

fun sync_published_services ::
  "(string \<Rightarrow> upsert_service_request \<Rightarrow> service_definition result) \<Rightarrow> string
     \<Rightarrow> published_service_config list \<Rightarrow> unit result" where
  "sync_published_services upsert token [] = Inr ()"
| "sync_published_services upsert token (s # ss) =
     (case upsert token \<lparr>us_name = ps_name s, us_allowed_device_ids = ps_allowed_device_ids s\<rparr> of
        Inl e \<Rightarrow> Inl (''failed to sync published service '' @ ps_name s)
      | Inr _ \<Rightarrow> sync_published_services upsert token ss)"

definition prepare_runtime_iteration ::
  "crypto_prims \<Rightarrow> int \<Rightarrow> unit result \<Rightarrow> register_device_response result \<Rightarrow> unit result
     \<Rightarrow> (string \<Rightarrow> upsert_service_request \<Rightarrow> service_definition result) \<Rightarrow> unit result \<Rightarrow> bool
     \<Rightarrow> agent_runtime \<Rightarrow> unit result \<times> agent_runtime" where
  "prepare_runtime_iteration P now io0 answer io1 upsert io2 force r =
     (case (if force then runtime_save io0 (invalidate_session r) else (Inr (), r)) of
        (Inl e, r1) \<Rightarrow> (Inl e, r1)
      | (Inr (), r1) \<Rightarrow>
          (case validate_runtime_config (rt_config r1) of
             Inl e \<Rightarrow> (Inl e, r1)
           | Inr () \<Rightarrow>
               (case ensure_session P now answer io1 r1 of
                  (Inl e, r2) \<Rightarrow> (Inl e, r2)
                | (Inr (), r2) \<Rightarrow>
                    (case result_bind (current_session_token r2)
                            (\<lambda>token. sync_published_services upsert token (cf_published_services (rt_config r2))) of
                       Inl e \<Rightarrow> (Inl e, r2)
                     | Inr () \<Rightarrow> runtime_save io2 r2))))"

end
