(* ===== verification/AgentStatus.thy ===== *)
theory AgentStatus
  imports AgentConfig Protocol
begin

text \<open>
  The status report of an agent (\<open>minipunch-agent/src/status.rs\<close>): what it says of every published
  service and every forward rule, from the configuration and the latest network snapshot.
\<close>

record session_status =
  ss_has_token :: bool
  ss_expires_at :: "int option"
  ss_is_valid :: bool

record published_service_status =
  pt_name :: string
  pt_target_host :: string
  pt_target_port :: nat
  pt_allowed_device_count :: nat
  pt_direct_enabled :: bool
  pt_direct_udp_bind_addr :: string
  pt_state :: string
  pt_detail :: string

record forward_rule_status =
  ft_name :: string
  ft_enabled :: bool
  ft_target_device_id :: string
  ft_target_device_name :: "string option"
  ft_service_name :: string
  ft_local_bind_addr :: string
  ft_transport_mode :: string
  ft_direct_udp_bind_addr :: string
  ft_state :: string
  ft_detail :: string

record agent_status_report =
  ar_device_name :: string
  ar_device_id :: "string option"
  ar_session :: session_status
  ar_local_device_online :: "bool option"
  ar_network_device_count :: nat
  ar_network_service_count :: nat
  ar_snapshot_error :: "string option"
  ar_published_services :: "published_service_status list"
  ar_forward_rules :: "forward_rule_status list"

abbreviation find_device :: "network_snapshot \<Rightarrow> string \<Rightarrow> device_summary option" where
  "find_device snap d \<equiv> List.find (\<lambda>x. dv_device_id x = d) (ns_devices snap)"

abbreviation find_service :: "network_snapshot \<Rightarrow> string \<Rightarrow> string \<Rightarrow> service_definition option" where
  "find_service snap owner name \<equiv>
     List.find (\<lambda>x. sd_owner_device_id x = owner \<and> sd_name x = name) (ns_services snap)"

definition direct_suffix :: "string \<Rightarrow> string \<Rightarrow> nat \<Rightarrow> string" where
  "direct_suffix addr kind wait = addr @ '' (type='' @ kind @ '', wait='' @ show_nat wait @ ''s)''"

definition build_published_service_status ::
  "agent_config \<Rightarrow> network_snapshot option \<Rightarrow> published_service_config \<Rightarrow> published_service_status" where
  "build_published_service_status c snapshot s =
     (let status = (\<lambda>state detail. \<lparr>pt_name = ps_name s, pt_target_host = ps_target_host s,
            pt_target_port = ps_target_port s, pt_allowed_device_count = length (ps_allowed_device_ids s),
            pt_direct_enabled = ps_direct_enabled s, pt_direct_udp_bind_addr = ps_direct_udp_bind_addr s,
            pt_state = state, pt_detail = detail\<rparr>)
      in if ps_direct_enabled s \<and> blank (ps_direct_udp_bind_addr s)
         then status ''misconfigured'' ''direct transport is enabled but direct UDP bind address is empty''
         else
           let direct_detail = (if ps_direct_enabled s
                 then ''direct enabled on '' @ direct_suffix (ps_direct_udp_bind_addr s)
                        (ps_direct_candidate_type s) (ps_direct_wait_seconds s)
                 else ''relay only'')
           in (case snapshot of
                 None \<Rightarrow> status ''unknown'' (''status not refreshed from control plane yet | '' @ direct_detail)
               | Some snap \<Rightarrow>
                   (case cf_device_id c of
                      None \<Rightarrow> status ''not_joined'' (''device has not joined the network yet | '' @ direct_detail)
                    | Some device \<Rightarrow>
                        (case find_service snap device (ps_name s) of
                           None \<Rightarrow> status ''not_synced''
                             (''service exists in local config, but is not visible in the latest network snapshot | ''
                               @ direct_detail)
                         | Some remote \<Rightarrow>
                             if (case find_device snap device of None \<Rightarrow> False | Some d \<Rightarrow> dv_is_online d)
                             then status ''ready''
                               (''published on control plane as '' @ sd_service_id remote @ '' | '' @ direct_detail)
                             else status ''registered_offline''
                               (''service is published, but this device currently looks offline | ''
                                 @ direct_detail)))))"

definition build_forward_rule_status ::
  "agent_config \<Rightarrow> network_snapshot option \<Rightarrow> local_forward_config \<Rightarrow> forward_rule_status" where
  "build_forward_rule_status c snapshot r =
     (let status = (\<lambda>state detail name. \<lparr>ft_name = fr_name r, ft_enabled = fr_enabled r,
            ft_target_device_id = fr_target_device_id r, ft_target_device_name = name,
            ft_service_name = fr_service_name r, ft_local_bind_addr = fr_local_bind_addr r,
            ft_transport_mode = fr_transport_mode r, ft_direct_udp_bind_addr = fr_direct_udp_bind_addr r,
            ft_state = state, ft_detail = detail\<rparr>);
          auto_mode = eq_ignore_ascii_case (trim (fr_transport_mode r)) ''auto''
      in if auto_mode \<and> blank (fr_direct_udp_bind_addr r)
         then status ''misconfigured'' ''auto transport requires a direct UDP bind address'' None
         else
           let transport_detail = (if auto_mode
                 then ''transport=auto via '' @ direct_suffix (fr_direct_udp_bind_addr r)
                        (fr_direct_candidate_type r) (fr_direct_wait_seconds r)
                 else ''transport=relay'')
           in if \<not> fr_enabled r
              then status ''disabled''
                     (''rule is disabled and will not be started by run mode | '' @ transport_detail) None
              else
                (case snapshot of
                   None \<Rightarrow> status ''unknown''
                     (''status not refreshed from control plane yet | '' @ transport_detail) None
                 | Some snap \<Rightarrow>
                     (case find_device snap (fr_target_device_id r) of
                        None \<Rightarrow> status (if cf_device_id c = None then ''not_joined'' else ''target_missing'')
                          (''target device is not visible in the latest network snapshot | '' @ transport_detail) None
                      | Some d \<Rightarrow>
                          if \<not> dv_is_online d
                          then status ''target_offline''
                            (''target device is known but offline; run mode will keep retrying in the background | ''
                              @ transport_detail) (Some (dv_device_name d))
                          else
                            (case find_service snap (fr_target_device_id r) (fr_service_name r) of
                               Some sv \<Rightarrow> status ''ready''
                                 (fr_local_bind_addr r @ '' can forward to '' @ dv_device_name d @ '' / ''
                                   @ sd_name sv @ '' ('' @ sd_service_id sv @ '') | '' @ transport_detail)
                                 (Some (dv_device_name d))
                             | None \<Rightarrow> status ''service_missing''
                                 (''target device is online, but this service is not accessible; run mode will keep resolving in the background | ''
                                   @ transport_detail) (Some (dv_device_name d))))))"

definition build_status_report ::
  "int \<Rightarrow> agent_config \<Rightarrow> network_snapshot option \<Rightarrow> string option \<Rightarrow> agent_status_report" where
  "build_status_report now c snapshot err =
     (let local_device = Option.bind snapshot (\<lambda>snap. Option.bind (cf_device_id c) (find_device snap))
      in \<lparr>ar_device_name = cf_device_name c, ar_device_id = cf_device_id c,
          ar_session = \<lparr>ss_has_token = (cf_session_token c \<noteq> None), ss_expires_at = cf_session_expires_at c,
                        ss_is_valid = has_valid_session now c\<rparr>,
          ar_local_device_online = map_option dv_is_online local_device,
          ar_network_device_count = (case snapshot of None \<Rightarrow> 0 | Some snap \<Rightarrow> length (ns_devices snap)),
          ar_network_service_count = (case snapshot of None \<Rightarrow> 0 | Some snap \<Rightarrow> length (ns_services snap)),
          ar_snapshot_error = err,
          ar_published_services = map (build_published_service_status c snapshot) (cf_published_services c),
          ar_forward_rules = map (build_forward_rule_status c snapshot) (cf_forward_rules c)\<rparr>)"

definition status_report_from_config :: "int \<Rightarrow> agent_config \<Rightarrow> agent_status_report" where
  "status_report_from_config now c = build_status_report now c None None"

end
