(* ===== verification/RuntimeState.thy ===== *)
theory RuntimeState
  imports AgentConfig Congestion
begin

text \<open>
  The runtime state an agent publishes for its user interface
  (\<open>minipunch-agent/src/runtime_state.rs\<close>): the snapshot behind the lock of
  \<open>RuntimeStateWriter\<close> and every operation on it. Writing the snapshot to its file is left out; the
  current time is an argument of every operation.
\<close>

section \<open>State\<close>

record runtime_event =
  ev_timestamp :: int
  ev_level :: string
  ev_message :: string

record forward_observation =
  fo_name :: string
  fo_configured_transport :: string
  fo_active_transport :: "string option"
  fo_state :: string
  fo_detail :: string
  fo_updated_at :: int
  fo_last_error :: "string option"
  fo_direct_attempt_count :: nat
  fo_relay_fallback_count :: nat
  fo_direct_connection_count :: nat
  fo_relay_connection_count :: nat
  fo_active_connection_count :: nat
  fo_last_transport_switch_at :: "int option"
  fo_last_peer :: "string option"
  fo_last_connection_opened_at :: "int option"
  fo_last_connection_closed_at :: "int option"
  fo_last_failure_transport :: "string option"
  fo_last_failure_stage :: "string option"
  fo_last_failure_error :: "string option"
  fo_last_failure_at :: "int option"
  fo_direct_metrics :: "direct_transport_metrics option"

record service_observation =
  so_name :: string
  so_direct_enabled :: bool
  so_active_transport :: "string option"
  so_state :: string
  so_detail :: string
  so_updated_at :: int
  so_last_error :: "string option"
  so_direct_session_count :: nat
  so_active_session_count :: nat
  so_direct_connection_count :: nat
  so_relay_connection_count :: nat
  so_last_transport_switch_at :: "int option"
  so_last_peer :: "string option"
  so_last_failure_transport :: "string option"
  so_last_failure_stage :: "string option"
  so_last_failure_error :: "string option"
  so_last_failure_at :: "int option"
  so_direct_metrics :: "direct_transport_metrics option"

record runtime_snapshot =
  rn_pid :: nat
  rn_config_path :: string
  rn_device_name :: string
  rn_device_id :: "string option"
  rn_status :: string
  rn_status_detail :: string
  rn_started_at :: int
  rn_updated_at :: int
  rn_session_expires_at :: "int option"
  rn_last_prepare_ok_at :: "int option"
  rn_last_heartbeat_ok_at :: "int option"
  rn_last_error :: "string option"
  rn_last_restart_reason :: "string option"
  rn_restart_count :: nat
  rn_enabled_forward_rules :: "string list"
  rn_published_services :: "string list"
  rn_forward_observations :: "forward_observation list"
  rn_service_observations :: "service_observation list"
  rn_recent_events :: "runtime_event list"

definition max_recent_events :: nat where "max_recent_events = 24"
definition runtime_state_stale_after_secs :: int where "runtime_state_stale_after_secs = 75"

definition runtime_state_is_stale :: "int \<Rightarrow> runtime_snapshot \<Rightarrow> bool" where
  "runtime_state_is_stale now s =
     (rn_status s \<notin> {''stopped'', ''failed''}
      \<and> i64_add (rn_updated_at s) runtime_state_stale_after_secs < now)"

definition observed_state :: "int \<Rightarrow> runtime_snapshot \<Rightarrow> string" where
  "observed_state now s = (if runtime_state_is_stale now s then ''stale'' else rn_status s)"

section \<open>Shared steps\<close>

definition push_event :: "int \<Rightarrow> string \<Rightarrow> string \<Rightarrow> runtime_snapshot \<Rightarrow> runtime_snapshot" where
  "push_event now level message s =
     (let events = rn_recent_events s @ [\<lparr>ev_timestamp = now, ev_level = level, ev_message = message\<rparr>]
      in s\<lparr>rn_recent_events :=
           (if max_recent_events < length events then drop (length events - max_recent_events) events
            else events)\<rparr>)"

definition clear_all_direct_metrics :: "runtime_snapshot \<Rightarrow> runtime_snapshot" where
  "clear_all_direct_metrics s =
     s\<lparr>rn_forward_observations := map (\<lambda>o'. o'\<lparr>fo_direct_metrics := None\<rparr>) (rn_forward_observations s),
       rn_service_observations := map (\<lambda>o'. o'\<lparr>so_direct_metrics := None\<rparr>) (rn_service_observations s)\<rparr>"

text \<open>
  \<open>iter_mut().find(..)\<close>: the first observation with the name is changed, and the snapshot with it;
  without one nothing happens. The change may also leave everything as it is.
\<close>

fun map_first :: "('a \<Rightarrow> bool) \<Rightarrow> ('a \<Rightarrow> 'a) \<Rightarrow> 'a list \<Rightarrow> 'a list" where
  "map_first p f [] = []"
| "map_first p f (x # xs) = (if p x then f x # xs else x # map_first p f xs)"

definition on_forward ::
  "string \<Rightarrow> (forward_observation \<Rightarrow> (forward_observation \<times> (runtime_snapshot \<Rightarrow> runtime_snapshot)) option)
     \<Rightarrow> runtime_snapshot \<Rightarrow> runtime_snapshot" where
  "on_forward name f s =
     (case List.find (\<lambda>o'. fo_name o' = name) (rn_forward_observations s) of
        None \<Rightarrow> s
      | Some obs \<Rightarrow>
          (case f obs of
             None \<Rightarrow> s
           | Some (obs', g) \<Rightarrow>
               g (s\<lparr>rn_forward_observations :=
                     map_first (\<lambda>o'. fo_name o' = name) (\<lambda>_. obs') (rn_forward_observations s)\<rparr>)))"

definition on_service ::
  "string \<Rightarrow> (service_observation \<Rightarrow> (service_observation \<times> (runtime_snapshot \<Rightarrow> runtime_snapshot)) option)
     \<Rightarrow> runtime_snapshot \<Rightarrow> runtime_snapshot" where
  "on_service name f s =
     (case List.find (\<lambda>o'. so_name o' = name) (rn_service_observations s) of
        None \<Rightarrow> s
      | Some obs \<Rightarrow>
          (case f obs of
             None \<Rightarrow> s
           | Some (obs', g) \<Rightarrow>
               g (s\<lparr>rn_service_observations :=
                     map_first (\<lambda>o'. so_name o' = name) (\<lambda>_. obs') (rn_service_observations s)\<rparr>)))"

abbreviation touch :: "int \<Rightarrow> runtime_snapshot \<Rightarrow> runtime_snapshot" where
  "touch now s \<equiv> s\<lparr>rn_updated_at := now\<rparr>"

section \<open>The configuration\<close>

definition mode_is_auto :: "local_forward_config \<Rightarrow> bool" where
  "mode_is_auto r = eq_ignore_ascii_case (trim (fr_transport_mode r)) ''auto''"

definition build_forward_observation ::
  "int \<Rightarrow> forward_observation list \<Rightarrow> local_forward_config \<Rightarrow> forward_observation" where
  "build_forward_observation now previous rule =
     (case List.find (\<lambda>o'. fo_name o' = fr_name rule) previous of
        Some existing \<Rightarrow> existing\<lparr>fo_configured_transport := fr_transport_mode rule\<rparr>
      | None \<Rightarrow>
          \<lparr>fo_name = fr_name rule, fo_configured_transport = fr_transport_mode rule,
           fo_active_transport = None, fo_state = ''configured'',
           fo_detail = (if mode_is_auto rule then ''waiting for direct attempt or relay fallback''
                        else ''waiting for relay forwarder''),
           fo_updated_at = now, fo_last_error = None, fo_direct_attempt_count = 0, fo_relay_fallback_count = 0,
           fo_direct_connection_count = 0, fo_relay_connection_count = 0, fo_active_connection_count = 0,
           fo_last_transport_switch_at = None, fo_last_peer = None, fo_last_connection_opened_at = None,
           fo_last_connection_closed_at = None, fo_last_failure_transport = None, fo_last_failure_stage = None,
           fo_last_failure_error = None, fo_last_failure_at = None, fo_direct_metrics = None\<rparr>)"

definition build_forward_observations ::
  "int \<Rightarrow> forward_observation list \<Rightarrow> agent_config \<Rightarrow> forward_observation list" where
  "build_forward_observations now previous c =
     map (build_forward_observation now previous) (filter fr_enabled (cf_forward_rules c))"

definition build_service_observation ::
  "int \<Rightarrow> service_observation list \<Rightarrow> published_service_config \<Rightarrow> service_observation" where
  "build_service_observation now previous service =
     (case List.find (\<lambda>o'. so_name o' = ps_name service) previous of
        Some existing \<Rightarrow> existing\<lparr>so_direct_enabled := ps_direct_enabled service\<rparr>
      | None \<Rightarrow>
          \<lparr>so_name = ps_name service, so_direct_enabled = ps_direct_enabled service,
           so_active_transport = None,
           so_state = (if ps_direct_enabled service then ''waiting_direct'' else ''relay_only''),
           so_detail = (if ps_direct_enabled service
                        then ''waiting for direct rendezvous on '' @ ps_direct_udp_bind_addr service
                        else ''relay-only published service''),
           so_updated_at = now, so_last_error = None, so_direct_session_count = 0, so_active_session_count = 0,
           so_direct_connection_count = 0, so_relay_connection_count = 0, so_last_transport_switch_at = None,
           so_last_peer = None, so_last_failure_transport = None, so_last_failure_stage = None,
           so_last_failure_error = None, so_last_failure_at = None, so_direct_metrics = None\<rparr>)"

definition build_published_service_observations ::
  "int \<Rightarrow> service_observation list \<Rightarrow> agent_config \<Rightarrow> service_observation list" where
  "build_published_service_observations now previous c =
     map (build_service_observation now previous) (cf_published_services c)"

definition sync_config :: "int \<Rightarrow> agent_config \<Rightarrow> runtime_snapshot \<Rightarrow> runtime_snapshot" where
  "sync_config now c s =
     s\<lparr>rn_device_name := cf_device_name c, rn_device_id := cf_device_id c,
       rn_session_expires_at := cf_session_expires_at c,
       rn_enabled_forward_rules :=
         map (\<lambda>r. if mode_is_auto r then fr_name r @ '' [auto]'' else fr_name r)
           (filter fr_enabled (cf_forward_rules c)),
       rn_published_services :=
         map (\<lambda>p. if ps_direct_enabled p then ps_name p @ '' [direct]'' else ps_name p) (cf_published_services c),
       rn_forward_observations := build_forward_observations now (rn_forward_observations s) c,
       rn_service_observations := build_published_service_observations now (rn_service_observations s) c,
       rn_updated_at := now\<rparr>"

section \<open>Phases of the runtime\<close>

definition mark_starting :: "int \<Rightarrow> agent_config \<Rightarrow> string \<Rightarrow> runtime_snapshot \<Rightarrow> runtime_snapshot" where
  "mark_starting now c detail s =
     push_event now ''info'' detail
       ((clear_all_direct_metrics (sync_config now c s))\<lparr>rn_status := ''starting'', rn_status_detail := detail\<rparr>)"

definition runtime_state_new :: "int \<Rightarrow> nat \<Rightarrow> string \<Rightarrow> agent_config \<Rightarrow> runtime_snapshot" where
  "runtime_state_new now pid path c =
     mark_starting now c ''runtime booted and is preparing background tasks''
       (sync_config now c
         \<lparr>rn_pid = pid, rn_config_path = path, rn_device_name = cf_device_name c, rn_device_id = cf_device_id c,
          rn_status = ''starting'', rn_status_detail = [], rn_started_at = now, rn_updated_at = now,
          rn_session_expires_at = cf_session_expires_at c, rn_last_prepare_ok_at = None,
          rn_last_heartbeat_ok_at = None, rn_last_error = None, rn_last_restart_reason = None,
          rn_restart_count = 0, rn_enabled_forward_rules = [], rn_published_services = [],
          rn_forward_observations = [], rn_service_observations = [], rn_recent_events = []\<rparr>)"

definition mark_prepare_failed ::
  "int \<Rightarrow> agent_config \<Rightarrow> string \<Rightarrow> nat \<Rightarrow> runtime_snapshot \<Rightarrow> runtime_snapshot" where
  "mark_prepare_failed now c err retry_delay s =
     (let detail = ''runtime preparation failed; retrying in '' @ show_nat (as_secs retry_delay) @ ''s'';
          full = detail @ '': '' @ err
      in push_event now ''error'' full
           ((sync_config now c s)\<lparr>rn_status := ''retrying'', rn_status_detail := full, rn_last_error := Some err\<rparr>))"

definition mark_running :: "int \<Rightarrow> agent_config \<Rightarrow> runtime_snapshot \<Rightarrow> runtime_snapshot" where
  "mark_running now c s =
     (let s1 = sync_config now c s;
          detail = ''relay service and '' @ show_nat (length (rn_enabled_forward_rules s1))
            @ '' enabled forward rules are active''
      in push_event now ''info'' detail
           (s1\<lparr>rn_status := ''running'', rn_status_detail := detail, rn_last_prepare_ok_at := Some now,
               rn_last_error := None, rn_updated_at := now\<rparr>))"

definition note_heartbeat_ok :: "int \<Rightarrow> runtime_snapshot \<Rightarrow> runtime_snapshot" where
  "note_heartbeat_ok now s = s\<lparr>rn_last_heartbeat_ok_at := Some now, rn_updated_at := now\<rparr>"

definition mark_restarting ::
  "int \<Rightarrow> agent_config \<Rightarrow> string \<Rightarrow> nat \<Rightarrow> runtime_snapshot \<Rightarrow> runtime_snapshot" where
  "mark_restarting now c reason retry_delay s =
     (let s1 = clear_all_direct_metrics (sync_config now c s);
          detail = ''runtime restarting in '' @ show_nat (as_secs retry_delay) @ ''s: '' @ reason
      in push_event now ''warn'' detail
           (s1\<lparr>rn_restart_count := wrap_add64 (rn_restart_count s1) 1, rn_last_restart_reason := Some reason,
               rn_last_error := Some reason, rn_status := ''restarting'', rn_status_detail := detail\<rparr>))"

definition mark_stopped :: "int \<Rightarrow> agent_config \<Rightarrow> string \<Rightarrow> runtime_snapshot \<Rightarrow> runtime_snapshot" where
  "mark_stopped now c detail s =
     push_event now ''info'' detail
       ((clear_all_direct_metrics (sync_config now c s))\<lparr>rn_status := ''stopped'', rn_status_detail := detail\<rparr>)"

end
