(* ===== verification/RuntimeNotes.thy ===== *)
theory RuntimeNotes
  imports RuntimeState
begin

text \<open>
  What the tasks of the runtime note about forward rules and published services
  (\<open>minipunch-agent/src/runtime_state.rs\<close>), and the invariant of the snapshot: at most 24 events are
  kept, and transport metrics are only shown for an observation whose transport is direct.
\<close>

section \<open>Forward rules\<close>

definition transport_label :: "string option \<Rightarrow> string" where
  "transport_label t = (case t of None \<Rightarrow> ''none'' | Some x \<Rightarrow> x)"

definition note_forward_observation ::
  "int \<Rightarrow> string \<Rightarrow> string \<Rightarrow> string option \<Rightarrow> string \<Rightarrow> string \<Rightarrow> string option
     \<Rightarrow> runtime_snapshot \<Rightarrow> runtime_snapshot" where
  "note_forward_observation now name configured active state detail err =
     on_forward name (\<lambda>obs.
       if fo_configured_transport obs = configured \<and> fo_active_transport obs = active
          \<and> fo_state obs = state \<and> fo_detail obs = detail \<and> fo_last_error obs = err
       then Some (obs\<lparr>fo_updated_at := now\<rparr>, touch now)
       else
         let obs1 = obs\<lparr>
               fo_direct_attempt_count :=
                 (if state = ''direct_connecting'' \<and> fo_state obs \<noteq> ''direct_connecting''
                  then wrap_add64 (fo_direct_attempt_count obs) 1 else fo_direct_attempt_count obs),
               fo_relay_fallback_count :=
                 (if state = ''relay_fallback'' \<and> fo_state obs \<noteq> ''relay_fallback''
                  then wrap_add64 (fo_relay_fallback_count obs) 1 else fo_relay_fallback_count obs),
               fo_last_transport_switch_at :=
                 (if fo_active_transport obs \<noteq> active then Some now else fo_last_transport_switch_at obs),
               fo_configured_transport := configured, fo_active_transport := active,
               fo_direct_metrics := (if active \<noteq> Some ''direct'' then None else fo_direct_metrics obs),
               fo_state := state, fo_detail := detail, fo_updated_at := now, fo_last_error := err\<rparr>;
             message = ''forward '' @ name @ '' state='' @ state @ '' configured='' @ configured
               @ '' active='' @ transport_label active @ '' detail='' @ detail
               @ (case err of None \<Rightarrow> [] | Some e \<Rightarrow> '' error='' @ e)
         in Some (obs1, \<lambda>s. push_event now ''info'' message (touch now s)))"

definition note_forward_connection :: "int \<Rightarrow> string \<Rightarrow> string \<Rightarrow> string \<Rightarrow> runtime_snapshot \<Rightarrow> runtime_snapshot" where
  "note_forward_connection now name transport peer =
     on_forward name (\<lambda>obs. Some
       (obs\<lparr>fo_direct_connection_count :=
              (if transport = ''direct'' then wrap_add64 (fo_direct_connection_count obs) 1
               else fo_direct_connection_count obs),
            fo_relay_connection_count :=
              (if transport = ''relay'' then wrap_add64 (fo_relay_connection_count obs) 1
               else fo_relay_connection_count obs),
            fo_active_connection_count := wrap_add64 (fo_active_connection_count obs) 1,
            fo_last_peer := Some peer, fo_last_connection_opened_at := Some now, fo_updated_at := now\<rparr>,
        \<lambda>s. push_event now ''info'' (''forward '' @ name @ '' accepted '' @ transport @ '' connection from '' @ peer)
              (touch now s)))"

definition note_forward_connection_closed :: "int \<Rightarrow> string \<Rightarrow> string \<Rightarrow> runtime_snapshot \<Rightarrow> runtime_snapshot" where
  "note_forward_connection_closed now name peer =
     on_forward name (\<lambda>obs. Some
       (obs\<lparr>fo_active_connection_count := fo_active_connection_count obs - 1, fo_last_peer := Some peer,
            fo_last_connection_closed_at := Some now, fo_updated_at := now\<rparr>, touch now))"

definition note_forward_failure ::
  "int \<Rightarrow> string \<Rightarrow> string \<Rightarrow> string \<Rightarrow> string \<Rightarrow> runtime_snapshot \<Rightarrow> runtime_snapshot" where
  "note_forward_failure now name transport stage err =
     on_forward name (\<lambda>obs. Some
       (obs\<lparr>fo_last_error := Some err, fo_last_failure_transport := Some transport,
            fo_last_failure_stage := Some stage, fo_last_failure_error := Some err,
            fo_last_failure_at := Some now, fo_updated_at := now\<rparr>,
        \<lambda>s. push_event now ''warn''
              (''forward '' @ name @ '' '' @ transport @ '' failure at '' @ stage @ '': '' @ err) (touch now s)))"

definition note_forward_direct_metrics ::
  "int \<Rightarrow> string \<Rightarrow> direct_transport_metrics \<Rightarrow> runtime_snapshot \<Rightarrow> runtime_snapshot" where
  "note_forward_direct_metrics now name metrics =
     on_forward name (\<lambda>obs.
       if fo_active_transport obs \<noteq> Some ''direct'' \<or> fo_direct_metrics obs = Some metrics then None
       else Some (obs\<lparr>fo_direct_metrics := Some metrics, fo_updated_at := now\<rparr>, touch now))"

definition clear_forward_direct_metrics :: "int \<Rightarrow> string \<Rightarrow> runtime_snapshot \<Rightarrow> runtime_snapshot" where
  "clear_forward_direct_metrics now name =
     on_forward name (\<lambda>obs.
       if fo_direct_metrics obs = None then None
       else Some (obs\<lparr>fo_direct_metrics := None, fo_updated_at := now\<rparr>, touch now))"

section \<open>Published services\<close>

definition bool_label :: "bool \<Rightarrow> string" where
  "bool_label b = (if b then ''true'' else ''false'')"

definition note_published_service_observation ::
  "int \<Rightarrow> string \<Rightarrow> bool \<Rightarrow> string option \<Rightarrow> string \<Rightarrow> string \<Rightarrow> string option
     \<Rightarrow> runtime_snapshot \<Rightarrow> runtime_snapshot" where
  "note_published_service_observation now name direct active state detail err =
     on_service name (\<lambda>obs.
       if so_direct_enabled obs = direct \<and> so_active_transport obs = active
          \<and> so_state obs = state \<and> so_detail obs = detail \<and> so_last_error obs = err
       then Some (obs\<lparr>so_updated_at := now\<rparr>, touch now)
       else
         let obs1 = obs\<lparr>
               so_last_transport_switch_at :=
                 (if so_active_transport obs \<noteq> active then Some now else so_last_transport_switch_at obs),
               so_direct_enabled := direct, so_active_transport := active,
               so_direct_metrics := (if active \<noteq> Some ''direct'' then None else so_direct_metrics obs),
               so_state := state, so_detail := detail, so_updated_at := now, so_last_error := err\<rparr>;
             message = ''service '' @ name @ '' state='' @ state @ '' direct_enabled='' @ bool_label direct
               @ '' active='' @ transport_label active @ '' detail='' @ detail
               @ (case err of None \<Rightarrow> [] | Some e \<Rightarrow> '' error='' @ e)
         in Some (obs1, \<lambda>s. push_event now ''info'' message (touch now s)))"

definition note_published_service_connection ::
  "int \<Rightarrow> string \<Rightarrow> string \<Rightarrow> string \<Rightarrow> runtime_snapshot \<Rightarrow> runtime_snapshot" where
  "note_published_service_connection now name transport peer =
     on_service name (\<lambda>obs. Some
       (obs\<lparr>so_direct_connection_count :=
              (if transport = ''direct'' then wrap_add64 (so_direct_connection_count obs) 1
               else so_direct_connection_count obs),
            so_relay_connection_count :=
              (if transport = ''relay'' then wrap_add64 (so_relay_connection_count obs) 1
               else so_relay_connection_count obs),
            so_last_peer := Some peer, so_updated_at := now\<rparr>,
        \<lambda>s. push_event now ''info'' (''service '' @ name @ '' accepted '' @ transport @ '' connection from '' @ peer)
              (touch now s)))"

definition note_published_service_session_started :: "int \<Rightarrow> string \<Rightarrow> runtime_snapshot \<Rightarrow> runtime_snapshot" where
  "note_published_service_session_started now name =
     on_service name (\<lambda>obs. Some
       (obs\<lparr>so_direct_session_count := wrap_add64 (so_direct_session_count obs) 1,
            so_active_session_count := wrap_add64 (so_active_session_count obs) 1, so_updated_at := now\<rparr>,
        touch now))"

definition note_published_service_session_ended :: "int \<Rightarrow> string \<Rightarrow> runtime_snapshot \<Rightarrow> runtime_snapshot" where
  "note_published_service_session_ended now name =
     on_service name (\<lambda>obs. Some
       (obs\<lparr>so_active_session_count := so_active_session_count obs - 1, so_updated_at := now\<rparr>, touch now))"

definition note_published_service_failure ::
  "int \<Rightarrow> string \<Rightarrow> string \<Rightarrow> string \<Rightarrow> string \<Rightarrow> runtime_snapshot \<Rightarrow> runtime_snapshot" where
  "note_published_service_failure now name transport stage err =
     on_service name (\<lambda>obs. Some
       (obs\<lparr>so_last_error := Some err, so_last_failure_transport := Some transport,
            so_last_failure_stage := Some stage, so_last_failure_error := Some err,
            so_last_failure_at := Some now, so_updated_at := now\<rparr>,
        \<lambda>s. push_event now ''warn''
              (''service '' @ name @ '' '' @ transport @ '' failure at '' @ stage @ '': '' @ err) (touch now s)))"

definition note_published_service_direct_metrics ::
  "int \<Rightarrow> string \<Rightarrow> direct_transport_metrics \<Rightarrow> runtime_snapshot \<Rightarrow> runtime_snapshot" where
  "note_published_service_direct_metrics now name metrics =
     on_service name (\<lambda>obs.
       if so_active_transport obs \<noteq> Some ''direct'' \<or> so_direct_metrics obs = Some metrics then None
       else Some (obs\<lparr>so_direct_metrics := Some metrics, so_updated_at := now\<rparr>, touch now))"

definition clear_published_service_direct_metrics :: "int \<Rightarrow> string \<Rightarrow> runtime_snapshot \<Rightarrow> runtime_snapshot" where
  "clear_published_service_direct_metrics now name =
     on_service name (\<lambda>obs.
       if so_direct_metrics obs = None then None
       else Some (obs\<lparr>so_direct_metrics := None, so_updated_at := now\<rparr>, touch now))"

section \<open>Hooks\<close>

text \<open>A task notes under the name and the transport it was started with.\<close>

record forward_hook =
  fk_rule_name :: string
  fk_configured_transport :: string
  fk_transport :: string

record service_hook =
  sh_service_name :: string
  sh_direct_enabled :: bool
  sh_transport :: string

definition forward_hook_state :: "int \<Rightarrow> forward_hook \<Rightarrow> string \<Rightarrow> string \<Rightarrow> runtime_snapshot \<Rightarrow> runtime_snapshot" where
  "forward_hook_state now k state detail =
     note_forward_observation now (fk_rule_name k) (fk_configured_transport k) (Some (fk_transport k)) state detail None"

definition forward_hook_connection :: "int \<Rightarrow> forward_hook \<Rightarrow> string \<Rightarrow> runtime_snapshot \<Rightarrow> runtime_snapshot" where
  "forward_hook_connection now k = note_forward_connection now (fk_rule_name k) (fk_transport k)"

definition forward_hook_closed :: "int \<Rightarrow> forward_hook \<Rightarrow> string \<Rightarrow> runtime_snapshot \<Rightarrow> runtime_snapshot" where
  "forward_hook_closed now k = note_forward_connection_closed now (fk_rule_name k)"

definition forward_hook_failure :: "int \<Rightarrow> forward_hook \<Rightarrow> string \<Rightarrow> string \<Rightarrow> runtime_snapshot \<Rightarrow> runtime_snapshot" where
  "forward_hook_failure now k = note_forward_failure now (fk_rule_name k) (fk_transport k)"

definition service_hook_state :: "int \<Rightarrow> service_hook \<Rightarrow> string \<Rightarrow> string \<Rightarrow> runtime_snapshot \<Rightarrow> runtime_snapshot" where
  "service_hook_state now k state detail =
     note_published_service_observation now (sh_service_name k) (sh_direct_enabled k) (Some (sh_transport k))
       state detail None"

definition service_hook_connection :: "int \<Rightarrow> service_hook \<Rightarrow> string \<Rightarrow> runtime_snapshot \<Rightarrow> runtime_snapshot" where
  "service_hook_connection now k = note_published_service_connection now (sh_service_name k) (sh_transport k)"

definition service_hook_failure :: "int \<Rightarrow> service_hook \<Rightarrow> string \<Rightarrow> string \<Rightarrow> runtime_snapshot \<Rightarrow> runtime_snapshot" where
  "service_hook_failure now k = note_published_service_failure now (sh_service_name k) (sh_transport k)"

section \<open>All operations\<close>

datatype runtime_op =
    Op_Starting agent_config string
  | Op_PrepareFailed agent_config string nat
  | Op_Running agent_config
  | Op_Heartbeat
  | Op_Restarting agent_config string nat
  | Op_Stopped agent_config string
  | Op_Forward string string "string option" string string "string option"
  | Op_ForwardConnection string string string
  | Op_ForwardClosed string string
  | Op_ForwardFailure string string string string
  | Op_ForwardMetrics string direct_transport_metrics
  | Op_ForwardClear string
  | Op_Service string bool "string option" string string "string option"
  | Op_ServiceConnection string string string
  | Op_SessionStarted string
  | Op_SessionEnded string
  | Op_ServiceFailure string string string string
  | Op_ServiceMetrics string direct_transport_metrics
  | Op_ServiceClear string

fun runtime_exec :: "int \<times> runtime_op \<Rightarrow> runtime_snapshot \<Rightarrow> runtime_snapshot" where
  "runtime_exec (now, Op_Starting c d) = mark_starting now c d"
| "runtime_exec (now, Op_PrepareFailed c e n) = mark_prepare_failed now c e n"
| "runtime_exec (now, Op_Running c) = mark_running now c"
| "runtime_exec (now, Op_Heartbeat) = note_heartbeat_ok now"
| "runtime_exec (now, Op_Restarting c r n) = mark_restarting now c r n"
| "runtime_exec (now, Op_Stopped c d) = mark_stopped now c d"
| "runtime_exec (now, Op_Forward n cf a st d e) = note_forward_observation now n cf a st d e"
| "runtime_exec (now, Op_ForwardConnection n t p) = note_forward_connection now n t p"
| "runtime_exec (now, Op_ForwardClosed n p) = note_forward_connection_closed now n p"
| "runtime_exec (now, Op_ForwardFailure n t st e) = note_forward_failure now n t st e"
| "runtime_exec (now, Op_ForwardMetrics n m) = note_forward_direct_metrics now n m"
| "runtime_exec (now, Op_ForwardClear n) = clear_forward_direct_metrics now n"
| "runtime_exec (now, Op_Service n de a st d e) = note_published_service_observation now n de a st d e"
| "runtime_exec (now, Op_ServiceConnection n t p) = note_published_service_connection now n t p"
| "runtime_exec (now, Op_SessionStarted n) = note_published_service_session_started now n"
| "runtime_exec (now, Op_SessionEnded n) = note_published_service_session_ended now n"
| "runtime_exec (now, Op_ServiceFailure n t st e) = note_published_service_failure now n t st e"
| "runtime_exec (now, Op_ServiceMetrics n m) = note_published_service_direct_metrics now n m"
| "runtime_exec (now, Op_ServiceClear n) = clear_published_service_direct_metrics now n"

section \<open>The invariant\<close>

definition forward_ok :: "forward_observation \<Rightarrow> bool" where
  "forward_ok obs = (fo_direct_metrics obs \<noteq> None \<longrightarrow> fo_active_transport obs = Some ''direct'')"

definition service_ok :: "service_observation \<Rightarrow> bool" where
  "service_ok obs = (so_direct_metrics obs \<noteq> None \<longrightarrow> so_active_transport obs = Some ''direct'')"

definition runtime_ok :: "runtime_snapshot \<Rightarrow> bool" where
  "runtime_ok s =
     (length (rn_recent_events s) \<le> max_recent_events
      \<and> (\<forall>obs\<in>set (rn_forward_observations s). forward_ok obs)
      \<and> (\<forall>obs\<in>set (rn_service_observations s). service_ok obs))"

lemma set_map_first: "set (map_first p f xs) \<subseteq> set xs \<union> f ` {x \<in> set xs. p x}"
  by (induction xs) auto

lemma push_event_ok: "runtime_ok (push_event now level message s) \<longleftrightarrow>
    (\<forall>obs\<in>set (rn_forward_observations s). forward_ok obs) \<and> (\<forall>obs\<in>set (rn_service_observations s). service_ok obs)"
  by (auto simp: runtime_ok_def push_event_def Let_def max_recent_events_def)

lemma push_event_keeps [simp]: "runtime_ok s \<Longrightarrow> runtime_ok (push_event now level message s)"
  by (subst push_event_ok) (simp add: runtime_ok_def)

lemma on_forward_ok:
  assumes "runtime_ok s"
    and "\<And>obs obs' g. forward_ok obs \<Longrightarrow> f obs = Some (obs', g) \<Longrightarrow> forward_ok obs' \<and> (\<forall>s. runtime_ok s \<longrightarrow> runtime_ok (g s))"
  shows "runtime_ok (on_forward name f s)"
proof -
  have "runtime_ok (g (s\<lparr>rn_forward_observations := map_first (\<lambda>o'. fo_name o' = name) (\<lambda>_. obs') (rn_forward_observations s)\<rparr>))"
    if "List.find (\<lambda>o'. fo_name o' = name) (rn_forward_observations s) = Some obs" "f obs = Some (obs', g)" for obs obs' g
  proof -
    from that(1) have "obs \<in> set (rn_forward_observations s)" by (auto simp: find_Some_iff)
    with assms(1) have "forward_ok obs" by (simp add: runtime_ok_def)
    from assms(2) [OF this that(2)] have g: "forward_ok obs'" "\<forall>s. runtime_ok s \<longrightarrow> runtime_ok (g s)" by auto
    have "runtime_ok (s\<lparr>rn_forward_observations := map_first (\<lambda>o'. fo_name o' = name) (\<lambda>_. obs') (rn_forward_observations s)\<rparr>)"
      using assms(1) g(1) set_map_first [of "\<lambda>o'. fo_name o' = name" "\<lambda>_. obs'" "rn_forward_observations s"]
      by (auto simp: runtime_ok_def)
    with g(2) show ?thesis by blast
  qed
  with assms(1) show ?thesis by (simp add: on_forward_def split: option.split)
qed

lemma on_service_ok:
  assumes "runtime_ok s"
    and "\<And>obs obs' g. service_ok obs \<Longrightarrow> f obs = Some (obs', g) \<Longrightarrow> service_ok obs' \<and> (\<forall>s. runtime_ok s \<longrightarrow> runtime_ok (g s))"
  shows "runtime_ok (on_service name f s)"
proof -
  have "runtime_ok (g (s\<lparr>rn_service_observations := map_first (\<lambda>o'. so_name o' = name) (\<lambda>_. obs') (rn_service_observations s)\<rparr>))"
    if "List.find (\<lambda>o'. so_name o' = name) (rn_service_observations s) = Some obs" "f obs = Some (obs', g)" for obs obs' g
  proof -
    from that(1) have "obs \<in> set (rn_service_observations s)" by (auto simp: find_Some_iff)
    with assms(1) have "service_ok obs" by (simp add: runtime_ok_def)
    from assms(2) [OF this that(2)] have g: "service_ok obs'" "\<forall>s. runtime_ok s \<longrightarrow> runtime_ok (g s)" by auto
    have "runtime_ok (s\<lparr>rn_service_observations := map_first (\<lambda>o'. so_name o' = name) (\<lambda>_. obs') (rn_service_observations s)\<rparr>)"
      using assms(1) g(1) set_map_first [of "\<lambda>o'. so_name o' = name" "\<lambda>_. obs'" "rn_service_observations s"]
      by (auto simp: runtime_ok_def)
    with g(2) show ?thesis by blast
  qed
  with assms(1) show ?thesis by (simp add: on_service_def split: option.split)
qed

lemma sync_config_ok: "runtime_ok s \<Longrightarrow> runtime_ok (sync_config now c s)"
  by (auto simp: runtime_ok_def sync_config_def build_forward_observations_def build_forward_observation_def
      build_published_service_observations_def build_service_observation_def forward_ok_def service_ok_def
      find_Some_iff split: option.splits)

lemma touch_ok [simp]: "runtime_ok (touch now s) = runtime_ok s"
  by (simp add: runtime_ok_def)

lemma clear_all_ok: "runtime_ok s \<Longrightarrow> runtime_ok (clear_all_direct_metrics s)"
  by (auto simp: runtime_ok_def clear_all_direct_metrics_def forward_ok_def service_ok_def)

lemma runtime_okD: "runtime_ok s \<Longrightarrow> (\<forall>obs\<in>set (rn_forward_observations s). forward_ok obs)
    \<and> (\<forall>obs\<in>set (rn_service_observations s). service_ok obs)"
  by (simp add: runtime_ok_def)

lemma phases_ok:
  assumes "runtime_ok s"
  shows "runtime_ok (mark_starting now c d s)" "runtime_ok (mark_prepare_failed now c e n s)"
    "runtime_ok (mark_running now c s)" "runtime_ok (note_heartbeat_ok now s)"
    "runtime_ok (mark_restarting now c r n s)" "runtime_ok (mark_stopped now c d s)"
proof -
  note cleared = runtime_okD [OF clear_all_ok [OF sync_config_ok [OF assms]]]
  note synced = runtime_okD [OF sync_config_ok [OF assms]]
  show "runtime_ok (mark_starting now c d s)" using cleared by (simp add: push_event_ok mark_starting_def)
  show "runtime_ok (mark_prepare_failed now c e n s)" using synced by (simp add: push_event_ok mark_prepare_failed_def Let_def)
  show "runtime_ok (mark_running now c s)" using synced by (simp add: push_event_ok mark_running_def Let_def)
  show "runtime_ok (note_heartbeat_ok now s)" using assms by (simp add: note_heartbeat_ok_def runtime_ok_def)
  show "runtime_ok (mark_restarting now c r n s)" using cleared by (simp add: push_event_ok mark_restarting_def Let_def)
  show "runtime_ok (mark_stopped now c d s)" using cleared by (simp add: push_event_ok mark_stopped_def)
qed

lemma forward_notes_ok:
  assumes "runtime_ok s"
  shows "runtime_ok (note_forward_observation now n cf a st d e s)" "runtime_ok (note_forward_connection now n t p s)"
    "runtime_ok (note_forward_connection_closed now n p s)" "runtime_ok (note_forward_failure now n t st e' s)"
    "runtime_ok (note_forward_direct_metrics now n m s)" "runtime_ok (clear_forward_direct_metrics now n s)"
proof -
  show "runtime_ok (note_forward_observation now n cf a st d e s)" unfolding note_forward_observation_def
    by (rule on_forward_ok [OF assms])
      (auto simp: forward_ok_def Let_def split: if_splits)
  show "runtime_ok (note_forward_connection now n t p s)" unfolding note_forward_connection_def
    by (rule on_forward_ok [OF assms])
      (auto simp: forward_ok_def Let_def split: if_splits)
  show "runtime_ok (note_forward_connection_closed now n p s)" unfolding note_forward_connection_closed_def
    by (rule on_forward_ok [OF assms])
      (auto simp: forward_ok_def Let_def split: if_splits)
  show "runtime_ok (note_forward_failure now n t st e' s)" unfolding note_forward_failure_def
    by (rule on_forward_ok [OF assms])
      (auto simp: forward_ok_def Let_def split: if_splits)
  show "runtime_ok (note_forward_direct_metrics now n m s)" unfolding note_forward_direct_metrics_def
    by (rule on_forward_ok [OF assms])
      (auto simp: forward_ok_def Let_def split: if_splits)
  show "runtime_ok (clear_forward_direct_metrics now n s)" unfolding clear_forward_direct_metrics_def
    by (rule on_forward_ok [OF assms])
      (auto simp: forward_ok_def Let_def split: if_splits)
qed

lemma service_notes_ok:
  assumes "runtime_ok s"
  shows "runtime_ok (note_published_service_observation now n de a st d e s)"
    "runtime_ok (note_published_service_connection now n t p s)"
    "runtime_ok (note_published_service_session_started now n s)"
    "runtime_ok (note_published_service_session_ended now n s)"
    "runtime_ok (note_published_service_failure now n t st e' s)"
    "runtime_ok (note_published_service_direct_metrics now n m s)"
    "runtime_ok (clear_published_service_direct_metrics now n s)"
proof -
  show "runtime_ok (note_published_service_observation now n de a st d e s)" unfolding note_published_service_observation_def
    by (rule on_service_ok [OF assms])
      (auto simp: service_ok_def Let_def split: if_splits)
  show "runtime_ok (note_published_service_connection now n t p s)" unfolding note_published_service_connection_def
    by (rule on_service_ok [OF assms])
      (auto simp: service_ok_def Let_def split: if_splits)
  show "runtime_ok (note_published_service_session_started now n s)" unfolding note_published_service_session_started_def
    by (rule on_service_ok [OF assms])
      (auto simp: service_ok_def Let_def split: if_splits)
  show "runtime_ok (note_published_service_session_ended now n s)" unfolding note_published_service_session_ended_def
    by (rule on_service_ok [OF assms])
      (auto simp: service_ok_def Let_def split: if_splits)
  show "runtime_ok (note_published_service_failure now n t st e' s)" unfolding note_published_service_failure_def
    by (rule on_service_ok [OF assms])
      (auto simp: service_ok_def Let_def split: if_splits)
  show "runtime_ok (note_published_service_direct_metrics now n m s)" unfolding note_published_service_direct_metrics_def
    by (rule on_service_ok [OF assms])
      (auto simp: service_ok_def Let_def split: if_splits)
  show "runtime_ok (clear_published_service_direct_metrics now n s)" unfolding clear_published_service_direct_metrics_def
    by (rule on_service_ok [OF assms])
      (auto simp: service_ok_def Let_def split: if_splits)
qed

lemma runtime_exec_ok: "runtime_ok s \<Longrightarrow> runtime_ok (runtime_exec op s)"
  by (cases op rule: runtime_exec.cases) (simp_all add: phases_ok forward_notes_ok service_notes_ok)

definition runtime_run :: "(int \<times> runtime_op) list \<Rightarrow> runtime_snapshot \<Rightarrow> runtime_snapshot" where
  "runtime_run ops s = fold runtime_exec ops s"

interpretation runtime: invariant_system runtime_ok runtime_exec
  rewrites "invariant_system.run runtime_exec = runtime_run"
proof -
  show inv: "invariant_system runtime_ok runtime_exec"
    by unfold_locales (rule runtime_exec_ok)
  show "invariant_system.run runtime_exec = runtime_run"
    by (simp add: fun_eq_iff invariant_system.run_def [OF inv] runtime_run_def)
qed

end
