(* ===== verification/ClientRouting.thy ===== *)
theory ClientRouting
  imports Protocol "HOL-Library.AList"
begin

text \<open>
  How an agent hands the envelopes of one connection to its channels: the channel routes of the relay
  connection (\<open>minipunch-agent/src/relay.rs\<close>) and of a direct connection
  (\<open>minipunch-agent/src/direct.rs\<close>), the readers that feed them, and how a caller waits for a channel
  to open. A channel's queue is a number; the routes map channel ids to queues. Both routers satisfy
  one interface, for which delivery is proved once.
\<close>

section \<open>Routes\<close>

type_synonym routes = "(string \<times> nat) list"

definition register_channel :: "string \<Rightarrow> nat \<Rightarrow> routes \<Rightarrow> routes" where
  "register_channel c q r = AList.update c q r"

definition unregister_channel :: "string \<Rightarrow> routes \<Rightarrow> routes" where
  "unregister_channel c r = AList.delete c r"

definition route_channel_message :: "relay_envelope \<Rightarrow> routes \<Rightarrow> (nat \<times> relay_envelope) list \<times> routes" where
  "route_channel_message e r =
     (case relay_channel_id e of
        None \<Rightarrow> ([], r)
      | Some c \<Rightarrow>
          ((case map_of r c of None \<Rightarrow> [] | Some q \<Rightarrow> [(q, e)]),
           if relay_is_terminal e then AList.delete c r else r))"

definition clear_all_channels :: "routes \<Rightarrow> (nat \<times> relay_envelope) list \<times> routes" where
  "clear_all_channels r =
     (map (\<lambda>(c, q). (q, RE_ChannelClose c (Some ''relay websocket closed''))) r, [])"

definition route_direct_channel_message ::
  "direct_tunnel_envelope \<Rightarrow> routes \<Rightarrow> (nat \<times> direct_tunnel_envelope) list \<times> routes" where
  "route_direct_channel_message e r =
     ((case map_of r (direct_channel_id e) of None \<Rightarrow> [] | Some q \<Rightarrow> [(q, e)]),
      if direct_is_terminal e then AList.delete (direct_channel_id e) r else r)"

definition clear_all_direct_channels ::
  "string \<Rightarrow> routes \<Rightarrow> (nat \<times> direct_tunnel_envelope) list \<times> routes" where
  "clear_all_direct_channels rendezvous r =
     (map (\<lambda>(c, q). (q, DT_ChannelClose rendezvous c 0 (Some ''direct UDP connection closed''))) r, [])"

section \<open>Readers\<close>

text \<open>What a reader hands on: an incoming channel to its acceptor, or an envelope to a channel.\<close>

datatype ('c, 'e) reader_output = To_Acceptor 'c | To_Channel nat 'e

record relay_incoming_channel =
  ri_channel_id :: string
  ri_source_device_id :: string
  ri_source_identity_public_key :: string
  ri_source_ephemeral_public_key :: string
  ri_source_open_signature :: string
  ri_service_id :: string

fun relay_reader_envelope ::
  "relay_envelope \<Rightarrow> routes \<Rightarrow> (relay_incoming_channel, relay_envelope) reader_output list \<times> routes" where
  "relay_reader_envelope (RE_IncomingChannel c d pk eph sig sid) r =
     ([To_Acceptor \<lparr>ri_channel_id = c, ri_source_device_id = d, ri_source_identity_public_key = pk,
         ri_source_ephemeral_public_key = eph, ri_source_open_signature = sig, ri_service_id = sid\<rparr>], r)"
| "relay_reader_envelope e r =
     (let (out, r') = route_channel_message e r in (map (\<lambda>(q, x). To_Channel q x) out, r'))"

record direct_incoming_channel =
  di_rendezvous_id :: string
  di_channel_id :: string
  di_service_id :: string
  di_source_device_id :: string
  di_source_ephemeral_public_key :: string
  di_source_open_signature :: string

text \<open>A packet of the direct connection: its sender's address and its envelope.\<close>

definition direct_reader_packet ::
  "string \<Rightarrow> string \<Rightarrow> string \<times> direct_tunnel_envelope \<Rightarrow> routes
     \<Rightarrow> (direct_incoming_channel, direct_tunnel_envelope) reader_output list \<times> routes" where
  "direct_reader_packet rendezvous peer packet r =
     (case packet of (sender, e) \<Rightarrow>
        if sender \<noteq> peer then ([], r)
        else case e of
               DT_OpenChannel rid c sid d eph sig \<Rightarrow>
                 if rid \<noteq> rendezvous then ([], r)
                 else ([To_Acceptor \<lparr>di_rendezvous_id = rid, di_channel_id = c, di_service_id = sid,
                          di_source_device_id = d, di_source_ephemeral_public_key = eph,
                          di_source_open_signature = sig\<rparr>], r)
             | _ \<Rightarrow> (let (out, r') = route_direct_channel_message e r
                     in (map (\<lambda>(q, x). To_Channel q x) out, r')))"

section \<open>Waiting for a channel to open\<close>

datatype open_state = Open_Accepted | Open_Rejected string

text \<open>
  What the caller takes from its queue. The result is None while the queue has nothing that decides;
  an error once it is closed. The rest of the queue is left to the bridge.
\<close>

fun wait_for_channel_open ::
  "relay_envelope list \<Rightarrow> bool \<Rightarrow> (open_state result \<times> relay_envelope list) option" where
  "wait_for_channel_open [] closed =
     (if closed then Some (Inl ''relay websocket closed while opening channel'', []) else None)"
| "wait_for_channel_open (e # es) closed =
     (case e of
        RE_ChannelAccepted _ \<Rightarrow> Some (Inr Open_Accepted, es)
      | RE_ChannelRejected _ reason \<Rightarrow> Some (Inr (Open_Rejected reason), es)
      | RE_ChannelClose _ reason \<Rightarrow>
          Some (Inr (Open_Rejected (case reason of None \<Rightarrow> ''channel closed before open'' | Some x \<Rightarrow> x)), es)
      | _ \<Rightarrow> wait_for_channel_open es closed)"

fun wait_for_direct_channel_open ::
  "direct_tunnel_envelope list \<Rightarrow> bool \<Rightarrow> (open_state result \<times> direct_tunnel_envelope list) option" where
  "wait_for_direct_channel_open [] closed =
     (if closed then Some (Inl ''direct UDP connection closed while opening channel'', []) else None)"
| "wait_for_direct_channel_open (e # es) closed =
     (case e of
        DT_ChannelAccepted _ _ \<Rightarrow> Some (Inr Open_Accepted, es)
      | DT_ChannelRejected _ _ reason \<Rightarrow> Some (Inr (Open_Rejected reason), es)
      | DT_ChannelClose _ _ _ reason \<Rightarrow>
          Some (Inr (Open_Rejected (case reason of None \<Rightarrow> ''channel closed before open'' | Some x \<Rightarrow> x)), es)
      | _ \<Rightarrow> wait_for_direct_channel_open es closed)"

section \<open>Delivery\<close>

text \<open>The reader's loop over a router.\<close>

fun route_all ::
  "('e \<Rightarrow> routes \<Rightarrow> (nat \<times> 'e) list \<times> routes) \<Rightarrow> 'e list \<Rightarrow> routes \<Rightarrow> (nat \<times> 'e) list \<times> routes" where
  "route_all route [] r = ([], r)"
| "route_all route (e # es) r =
     (let (out, r1) = route e r; (outs, r2) = route_all route es r1 in (out @ outs, r2))"

fun take_until :: "('a \<Rightarrow> bool) \<Rightarrow> 'a list \<Rightarrow> 'a list" where
  "take_until p [] = []"
| "take_until p (x # xs) = x # (if p x then [] else take_until p xs)"

definition received :: "nat \<Rightarrow> (nat \<times> 'e) list \<Rightarrow> 'e list" where
  "received q out = map snd (filter (\<lambda>x. fst x = q) out)"

lemma received_simps [simp]:
  "received q [] = []" "received q (xs @ ys) = received q xs @ received q ys"
  "received q ((p, e) # xs) = (if p = q then e # received q xs else received q xs)"
  by (simp_all add: received_def)

text \<open>No two channels share a queue.\<close>

definition queues_distinct :: "routes \<Rightarrow> bool" where
  "queues_distinct r = (\<forall>c d q. map_of r c = Some q \<and> map_of r d = Some q \<longrightarrow> c = d)"

lemma queues_distinct_delete: "queues_distinct r \<Longrightarrow> queues_distinct (AList.delete c r)"
  unfolding queues_distinct_def AList.delete_conv' by (auto split: if_splits)

lemma queues_distinct_register:
  "queues_distinct r \<Longrightarrow> q \<notin> ran (map_of r) \<Longrightarrow> queues_distinct (register_channel c q r)"
  by (fastforce simp: queues_distinct_def register_channel_def AList.update_conv' ran_def split: if_splits)

locale channel_router =
  fixes chan :: "'e \<Rightarrow> string option" and terminal :: "'e \<Rightarrow> bool"
    and route :: "'e \<Rightarrow> routes \<Rightarrow> (nat \<times> 'e) list \<times> routes"
  assumes route_out: "fst (route e r)
      = (case chan e of None \<Rightarrow> [] | Some c \<Rightarrow> (case map_of r c of None \<Rightarrow> [] | Some q \<Rightarrow> [(q, e)]))"
    and route_state: "map_of (snd (route e r))
      = (case chan e of None \<Rightarrow> map_of r | Some c \<Rightarrow> if terminal e then (map_of r)(c := None) else map_of r)"
begin

lemma route_distinct: "queues_distinct r \<Longrightarrow> queues_distinct (snd (route e r))"
  unfolding queues_distinct_def route_state by (auto split: option.splits if_splits)

lemma no_route_silent:
  "q \<notin> ran (map_of r) \<Longrightarrow> received q (fst (route_all route es r)) = []"
proof (induction es arbitrary: r)
  case (Cons e es)
  have "received q (fst (route e r)) = []"
    using Cons.prems by (auto simp: route_out ran_def split: option.splits)
  moreover have "q \<notin> ran (map_of (snd (route e r)))"
    using Cons.prems by (auto simp: route_state ran_def split: option.splits if_splits)
  ultimately show ?case using Cons.IH by (simp add: split_beta)
qed simp

text \<open>A queue gets exactly the envelopes of its channel, in order, up to the first terminal one.\<close>

lemma routed_exactly:
  assumes "queues_distinct r" "map_of r c = Some q"
  shows "received q (fst (route_all route es r)) = take_until terminal (filter (\<lambda>e. chan e = Some c) es)"
  using assms
proof (induction es arbitrary: r)
  case (Cons e es)
  let ?r = "snd (route e r)"
  have dist: "queues_distinct ?r" by (rule route_distinct [OF Cons.prems(1)])
  have all: "received q (fst (route_all route (e # es) r))
      = received q (fst (route e r)) @ received q (fst (route_all route es ?r))" by (simp add: split_beta)
  show ?case
  proof (cases "chan e = Some c")
    case True
    then have out: "received q (fst (route e r)) = [e]" using Cons.prems(2) by (simp add: route_out)
    show ?thesis
    proof (cases "terminal e")
      case True
      with \<open>chan e = Some c\<close> have "map_of ?r = (map_of r)(c := None)" by (simp add: route_state)
      moreover have "q \<notin> ran ((map_of r)(c := None))"
        using Cons.prems by (auto simp: queues_distinct_def ran_def)
      ultimately have "received q (fst (route_all route es ?r)) = []" using no_route_silent by simp
      with all out True \<open>chan e = Some c\<close> show ?thesis by simp
    next
      case False
      with \<open>chan e = Some c\<close> Cons.prems(2) have "map_of ?r c = Some q" by (simp add: route_state)
      from Cons.IH [OF dist this] all out False \<open>chan e = Some c\<close> show ?thesis by simp
    qed
  next
    case False
    have "received q (fst (route e r)) = []"
      using Cons.prems False by (auto simp: route_out queues_distinct_def split: option.splits)
    moreover have "map_of ?r c = Some q"
      using Cons.prems(2) False by (auto simp: route_state split: option.splits)
    ultimately show ?thesis using Cons.IH [OF dist] all False by simp
  qed
qed simp

end

interpretation relay_routes: channel_router relay_channel_id relay_is_terminal route_channel_message
  by unfold_locales (auto simp: route_channel_message_def AList.delete_conv' split: option.split)

interpretation direct_routes: channel_router "\<lambda>e. Some (direct_channel_id e)" direct_is_terminal
    route_direct_channel_message
  by unfold_locales (auto simp: route_direct_channel_message_def AList.delete_conv' split: option.split)

end
