(* ===== verification/AgentProps.thy ===== *)
theory AgentProps
  imports AgentStatus RuntimeNotes ClientRouting AccessProps
begin

text \<open>
  What the agent promises on its own side: its forward rules behave as a map of valid rules, its
  back-off is the capped doubling, a join succeeds against the server, the status report says
  ``ready'' only when it is, the runtime snapshot stays consistent, and every envelope of a connection
  reaches the channel it is for.
\<close>

section \<open>Entries with a name\<close>

lemma case_unit_simp [simp]: "(case u of () \<Rightarrow> x) = x"
  by (cases u, hypsubst, rule unit.case)

definition entries_by :: "('a \<Rightarrow> 'k) \<Rightarrow> 'a list \<Rightarrow> 'k \<Rightarrow> 'a option" where
  "entries_by key xs = map_of (map (\<lambda>x. (key x, x)) xs)"

lemma upsert_by_entries: "entries_by key (upsert_by key x xs) = (entries_by key xs)(key x \<mapsto> x)"
  by (induction xs) (auto simp: entries_by_def fun_eq_iff)

lemma remove_entries: "entries_by key (filter (\<lambda>x. key x \<noteq> k) xs) = (entries_by key xs)(k := None)"
  by (induction xs) (auto simp: entries_by_def fun_eq_iff)

lemma upsert_by_set: "set (upsert_by key x xs) \<subseteq> insert x (set xs)"
  by (induction xs) auto

lemma upsert_by_keys: "map key (upsert_by key x xs)
    = (if key x \<in> key ` set xs then map key xs else map key xs @ [key x])"
  by (induction xs) auto

lemma upsert_by_distinct: "distinct (map key xs) \<Longrightarrow> distinct (map key (upsert_by key x xs))"
  by (auto simp: upsert_by_keys)

lemma entries_by_None: "entries_by key xs k = None \<longleftrightarrow> k \<notin> key ` set xs"
  by (auto simp: entries_by_def map_of_eq_None_iff image_iff)

lemma removed_all: "length (filter (\<lambda>x. key x \<noteq> k) xs) = length xs \<longleftrightarrow> entries_by key xs k = None"
proof -
  have "length (filter (\<lambda>x. key x \<noteq> k) xs) = length xs \<longleftrightarrow> (\<forall>x\<in>set xs. key x \<noteq> k)"
    by (metis (mono_tags, lifting) filter_True length_filter_less less_irrefl)
  then show ?thesis by (auto simp: entries_by_None)
qed

section \<open>Forward rules\<close>

text \<open>The rules of the configuration as a map, and what is always true of them.\<close>

abbreviation rules_of :: "agent_runtime \<Rightarrow> local_forward_config list" where
  "rules_of r \<equiv> cf_forward_rules (rt_config r)"

definition rule_map :: "agent_runtime \<Rightarrow> string \<Rightarrow> local_forward_config option" where
  "rule_map r = entries_by fr_name (rules_of r)"

definition rules_ok :: "agent_runtime \<Rightarrow> bool" where
  "rules_ok r = (distinct (map fr_name (rules_of r))
     \<and> (\<forall>x\<in>set (rules_of r). validate_forward_rule x = Inr ()
         \<and> fr_transport_mode x \<in> {''relay'', ''auto''} \<and> \<not> blank (fr_direct_candidate_type x)))"

lemma normalize_mode_Inr: "normalize_forward_transport_mode m = Inr m' \<Longrightarrow> m' \<in> {''relay'', ''auto''}"
  by (auto simp: normalize_forward_transport_mode_def Let_def split: if_splits)

lemma normalize_type_not_blank: "\<not> blank (normalize_direct_candidate_type t)"
  by (simp add: normalize_direct_candidate_type_def)
    (simp add: default_direct_candidate_type_def blank_iff is_whitespace_def Let_def)

lemma runtime_save_unit: "runtime_save io r = (io, case io of Inl e \<Rightarrow> r | Inr _ \<Rightarrow> r\<lparr>rt_file := rt_config r\<rparr>)"
  by (cases io) (simp_all add: runtime_save_def)

lemma runtime_save_config [simp]: "rt_config (snd (runtime_save io r)) = rt_config r"
  by (simp add: runtime_save_unit split: sum.split)

text \<open>The rule that is stored for a given one, or why there is none.\<close>

definition admissible_rule :: "local_forward_config \<Rightarrow> local_forward_config result" where
  "admissible_rule rule =
     result_bind (normalize_forward_transport_mode (fr_transport_mode rule)) (\<lambda>mode.
       let rule' = rule\<lparr>fr_transport_mode := mode,
             fr_direct_candidate_type := normalize_direct_candidate_type (fr_direct_candidate_type rule)\<rparr>
       in result_bind (validate_forward_rule rule') (\<lambda>_. Inr rule'))"

lemma admissible_rule_Inr:
  assumes "admissible_rule rule = Inr rule'"
  shows "fr_name rule' = fr_name rule" "validate_forward_rule rule' = Inr ()"
    "fr_transport_mode rule' \<in> {''relay'', ''auto''}" "\<not> blank (fr_direct_candidate_type rule')"
  using assms by (auto simp: admissible_rule_def result_bind_Inr_iff Let_def normalize_type_not_blank
      dest!: normalize_mode_Inr)

lemma upsert_forward_rule_eq: "upsert_forward_rule io rule r =
    (case admissible_rule rule of Inl e \<Rightarrow> (Inl e, r)
     | Inr rule' \<Rightarrow> runtime_save io (r\<lparr>rt_config := (rt_config r)\<lparr>cf_forward_rules :=
         upsert_by fr_name rule' (rules_of r)\<rparr>\<rparr>))"
  by (simp add: upsert_forward_rule_def admissible_rule_def Let_def split: sum.splits)

lemma rules_ok_upsert:
  assumes "rules_ok r" "admissible_rule rule = Inr rule'" "rules_of r' = upsert_by fr_name rule' (rules_of r)"
  shows "rules_ok r'"
  using assms(1) admissible_rule_Inr [OF assms(2)] upsert_by_set [of fr_name rule' "rules_of r"]
  by (fastforce simp: rules_ok_def assms(3) upsert_by_distinct)

text \<open>
  C33. The forward rules implement a map from names to valid rules. Adding or changing a rule sets the
  entry of its name, in normal form, and nothing else, or reports why it is not valid and changes
  nothing; deleting removes exactly the entry of the name and fails when there is none. Names stay
  unique, every stored rule stays valid, and what is reported as done is in the configuration file.
\<close>

theorem forward_rules_refine:
  assumes "rules_ok r"
  shows "(case admissible_rule rule of
            Inl e \<Rightarrow> upsert_forward_rule io rule r = (Inl e, r)
          | Inr rule' \<Rightarrow> fst (upsert_forward_rule io rule r) = io
              \<and> rule_map (snd (upsert_forward_rule io rule r)) = (rule_map r)(fr_name rule \<mapsto> rule'))
    \<and> rules_ok (snd (upsert_forward_rule io rule r))
    \<and> fst (delete_forward_rule io name r)
        = (if rule_map r name = None then Inl (''forward rule '' @ name @ '' was not found'') else io)
    \<and> rule_map (snd (delete_forward_rule io name r)) = (rule_map r)(name := None)
    \<and> rules_ok (snd (delete_forward_rule io name r))
    \<and> (\<forall>r'. (Inr (), r') \<in> {upsert_forward_rule io rule r, delete_forward_rule io name r}
        \<longrightarrow> rt_file r' = rt_config r')"
proof -
  have 1: "case admissible_rule rule of
            Inl e \<Rightarrow> upsert_forward_rule io rule r = (Inl e, r)
          | Inr rule' \<Rightarrow> fst (upsert_forward_rule io rule r) = io
              \<and> rule_map (snd (upsert_forward_rule io rule r)) = (rule_map r)(fr_name rule \<mapsto> rule')"
    by (simp add: upsert_forward_rule_eq runtime_save_unit rule_map_def upsert_by_entries admissible_rule_Inr(1)
        split: sum.split)
  have 2: "rules_ok (snd (upsert_forward_rule io rule r))"
    using assms by (cases "admissible_rule rule") (auto simp: upsert_forward_rule_eq intro: rules_ok_upsert)
  let ?d = "delete_forward_rule io name r"
  have rules: "rules_of (snd ?d) = filter (\<lambda>x. fr_name x \<noteq> name) (rules_of r)"
    by (simp add: delete_forward_rule_def Let_def)
  have 3: "rule_map (snd ?d) = (rule_map r)(name := None)" "rules_ok (snd ?d)"
    using assms by (auto simp: rule_map_def rules remove_entries rules_ok_def distinct_map_filter)
  have 4: "fst ?d = (if rule_map r name = None then Inl (''forward rule '' @ name @ '' was not found'') else io)"
    by (simp add: delete_forward_rule_def Let_def removed_all rule_map_def runtime_save_unit)
  have 5: "rt_file r' = rt_config r'" if "(Inr (), r') \<in> {upsert_forward_rule io rule r, ?d}" for r'
    using that by (auto simp: upsert_forward_rule_eq delete_forward_rule_def Let_def runtime_save_unit
        split: sum.splits if_splits)
  show ?thesis using 1 2 3 4 5 by blast
qed

definition demo_rule :: local_forward_config where
  "demo_rule =
     \<lparr>fr_name = ''web'', fr_target_device_id = demo_id (CHR ''A''), fr_service_name = ''web'',
      fr_local_bind_addr = ''127.0.0.1:80'', fr_enabled = True, fr_transport_mode = '' Relay'',
      fr_direct_udp_bind_addr = [], fr_direct_candidate_type = [], fr_direct_wait_seconds = 5\<rparr>"

definition demo_runtime :: agent_runtime where
  "demo_runtime =
     \<lparr>rt_config = agent_config_default\<lparr>cf_device_name := ''A''\<rparr>, rt_file = agent_config_default,
      rt_identity = \<lparr>di_signing_key = replicate 32 65\<rparr>, rt_relay_identity = \<lparr>rk_secret_bytes = replicate 32 65\<rparr>\<rparr>"

lemma demo_admissible: "admissible_rule demo_rule
    = Inr (demo_rule\<lparr>fr_transport_mode := ''relay'', fr_direct_candidate_type := ''local''\<rparr>)"
  by code_simp

lemma demo_runtime_rules: "rules_ok demo_runtime"
  by (simp add: rules_ok_def demo_runtime_def agent_config_default_def)

theorem forward_rules_refine_witness:
  "rules_ok (snd (upsert_forward_rule (Inr ()) demo_rule demo_runtime))
    \<and> rule_map (snd (upsert_forward_rule (Inr ()) demo_rule demo_runtime)) ''web''
      = Some (demo_rule\<lparr>fr_transport_mode := ''relay'', fr_direct_candidate_type := ''local''\<rparr>)"
  using forward_rules_refine [OF demo_runtime_rules, where rule = demo_rule and io = "Inr ()"]
  unfolding demo_admissible by (simp add: demo_rule_def)

section \<open>Back-off\<close>

lemma capped_doubling:
  fixes d m :: nat
  assumes "\<And>d. f d = min (min (d * 2) M) m" "2 * m \<le> M" "d \<le> m"
  shows "(f ^^ n) d = min (d * 2 ^ n) m"
proof (induction n)
  case (Suc n)
  have "(f ^^ Suc n) d = min (min (min (d * 2 ^ n) m * 2) M) m" by (simp add: Suc assms(1))
  also have "\<dots> = min (d * 2 ^ Suc n) m" using assms(2) by (auto simp: min_def)
  finally show ?case .
qed (use assms in simp)

text \<open>
  The delays of the agent's retries double from one try to the next, up to 15 seconds for the
  runtime and from 5 up to 60 seconds for direct connections, so they never shrink and reach the
  cap after four doublings.
\<close>

theorem retry_delays:
  "(next_retry_delay ^^ n) runtime_retry_initial_backoff = min (seconds (2 ^ n)) (seconds 15)
    \<and> (next_auto_direct_retry_delay ^^ n) auto_direct_retry_initial_backoff = min (seconds (5 * 2 ^ n)) (seconds 60)"
proof -
  have "(next_retry_delay ^^ n) runtime_retry_initial_backoff
      = min (runtime_retry_initial_backoff * 2 ^ n) runtime_retry_max_backoff"
    by (rule capped_doubling) (auto simp: next_retry_delay_def duration_max_def runtime_retry_max_backoff_def
        runtime_retry_initial_backoff_def seconds_def)
  moreover have "(next_auto_direct_retry_delay ^^ n) auto_direct_retry_initial_backoff
      = min (auto_direct_retry_initial_backoff * 2 ^ n) auto_direct_retry_max_backoff"
    by (rule capped_doubling) (auto simp: next_auto_direct_retry_delay_def duration_max_def
        auto_direct_retry_max_backoff_def auto_direct_retry_initial_backoff_def seconds_def)
  ultimately show ?thesis
    by (simp add: runtime_retry_initial_backoff_def runtime_retry_max_backoff_def
        auto_direct_retry_max_backoff_def auto_direct_retry_initial_backoff_def seconds_def mult_ac)
qed

section \<open>Joining the network\<close>

lemma register_request_fields [simp]:
  "rq_device_id (register_request C os v rnd jt r) = identity_device_id C (rt_identity r)"
  "rq_public_key (register_request C os v rnd jt r) = identity_public_key_base64 C (rt_identity r)"
  "rq_join_token (register_request C os v rnd jt r) = jt"
  by (simp_all add: register_request_def Let_def)

lemma register_request_checks:
  fixes P :: server_prims
  assumes "b64_law (crypto_prims.truncate P)" "ed_law (crypto_prims.truncate P)"
    "length (di_signing_key (rt_identity r)) = 32"
  shows "check_registration P (register_request (crypto_prims.truncate P) os v rnd jt r) = Inr ()"
  using sign_verify [OF assms]
  by (simp add: check_registration_def register_request_def Let_def identity_device_id_def)

lemma new_key_unused:
  assumes "db_wf P db" "\<not> has_device db (device_id_from_public_key (crypto_prims.truncate P) k)"
  shows "\<not> list_ex (\<lambda>x. dr_public_key x = k) (db_devices db)"
  using assms by (auto simp: db_wf_defs has_device_def list_ex_iff)

text \<open>
  C31. Joining works: the request an agent with sound keys builds passes every check of the server, so
  with a valid join token a new device is admitted; the agent then holds a session until the token's
  deadline, the server knows that session as this device's, and its keys are in the configuration.
\<close>

theorem agent_joins:
  fixes P :: server_prims
  assumes laws: "b64_law (crypto_prims.truncate P)" "ed_law (crypto_prims.truncate P)"
    and keys: "length (di_signing_key (rt_identity r)) = 32"
    and wf: "db_wf P db" and fresh: "\<not> has_device db (identity_device_id (crypto_prims.truncate P) (rt_identity r))"
    and token: "tr \<in> set (db_join_tokens db)" "jk_token_hash tr = hash_of P tok" "jk_used_at tr = None"
      "now \<le> jk_expires_at tr"
    and unused: "hash_of P (token_of P rnd ''sess'') \<notin> se_token_hash ` set (db_sessions db)"
  shows "\<exists>rr db'. register_device P now rnd (register_request (crypto_prims.truncate P) os v rnd2 (Some tok) r) db = (Inr rr, db')
    \<and> fst (agent_register (crypto_prims.truncate P) (Inr rr) r) = Inr ()
    \<and> (let c = rt_config (snd (agent_register (crypto_prims.truncate P) (Inr rr) r)) in
        cf_device_id c = Some (identity_device_id (crypto_prims.truncate P) (rt_identity r))
        \<and> cf_session_expires_at c = Some (jk_expires_at tr)
        \<and> load_or_create_identity (crypto_prims.truncate P) rnd3 c = Inr (rt_identity r, c)
        \<and> (\<exists>t. cf_session_token c = Some t \<and> session_device_id P now t db'
            = Inr (identity_device_id (crypto_prims.truncate P) (rt_identity r))))"
proof -
  let ?C = "crypto_prims.truncate P"
  let ?rq = "register_request ?C os v rnd2 (Some tok) r"
  let ?e = "jk_expires_at tr"
  let ?s = "token_of P rnd ''sess''"
  let ?rr = "\<lparr>rr_device_id = rq_device_id ?rq, rr_session_token = ?s, rr_session_expires_at = ?e\<rparr>"
  have "List.find (\<lambda>x. jk_token_hash x = hash_of P tok) (db_join_tokens db) = Some tr"
    using find_Some_iff_distinct [of jk_token_hash "db_join_tokens db" tr] token db_wfD(1) [OF wf]
    by (simp add: keys_ok_def)
  with token obtain db1 where consume: "consume_join_token P now tok db = (Inr ?e, db1)"
    and db1: "db_devices db1 = db_devices db" "db_sessions db1 = db_sessions db"
    by (simp add: consume_join_token_def)
  have nodev: "\<not> has_device db1 (rq_device_id ?rq)" using fresh db1 by (simp add: has_device_def)
  have nokey: "\<not> list_ex (\<lambda>x. dr_public_key x = rq_public_key ?rq) (db_devices db1)"
    using new_key_unused [OF wf] fresh db1 by (simp add: identity_device_id_def)
  let ?db2 = "db1\<lparr>db_devices := db_devices db1 @ [new_device_row ?rq ?e now]\<rparr>"
  have find: "List.find (\<lambda>x. dr_device_id x = rq_device_id ?rq) (db_devices db) = None"
    using fresh by (auto simp: has_device_def list_ex_iff find_None_iff)
  have "insert_device (new_device_row ?rq ?e now) db1 = Inr ?db2"
    using nodev nokey by (simp add: insert_device_def new_device_row_def)
  then have admit: "admit_device P now ?rq db = (Inr ?e, ?db2)"
    using find consume by (simp add: admit_device_def)
  let ?db3 = "?db2\<lparr>db_sessions := filter (\<lambda>x. se_device_id x \<noteq> rq_device_id ?rq) (db_sessions ?db2)\<rparr>"
  let ?row = "\<lparr>se_token_hash = hash_of P ?s, se_device_id = rq_device_id ?rq, se_created_at = now, se_expires_at = ?e\<rparr>"
  have "insert_session ?row ?db3 = Inr (?db3\<lparr>db_sessions := db_sessions ?db3 @ [?row]\<rparr>)"
    using unused by (force simp: insert_session_def list_ex_iff db1 has_device_def new_device_row_def)
  then have reg: "register_device P now rnd ?rq db = (Inr ?rr, ?db3\<lparr>db_sessions := db_sessions ?db3 @ [?row]\<rparr>)"
    using register_request_checks [OF laws keys, of os v rnd2 "Some tok"] admit
    by (simp add: register_device_def replace_session_def Let_def)
  have "db_wf P (?db3\<lparr>db_sessions := db_sessions ?db3 @ [?row]\<rparr>)"
    using register_device_wf [OF wf, of now rnd ?rq] reg by simp
  from session_device_id_row [OF db_wfD(1) [OF this], where r = ?row and tok = ?s and P = P and now = now] token(4)
  have "session_device_id P now ?s (?db3\<lparr>db_sessions := db_sessions ?db3 @ [?row]\<rparr>) = Inr (rq_device_id ?rq)"
    by simp
  with reg identity_roundtrip [OF laws(1) keys] show ?thesis
    by (auto simp: agent_register_def load_or_create_identity_def Let_def)
qed

theorem agent_joins_witness:
  "\<exists>rr db'. register_device toy_server 5 [67]
      (register_request toy_prims ''os'' ''1'' [] (Some ''join_B'') demo_runtime) demo_db0 = (Inr rr, db')
    \<and> cf_session_expires_at (rt_config (snd (agent_register toy_prims (Inr rr) demo_runtime))) = Some 600"
proof -
  have used: "hash_of toy_server (token_of toy_server [67] ''sess'') \<notin> se_token_hash ` set (db_sessions demo_db0)"
    by (simp add: demo_db0_def)
  have fresh: "\<not> has_device demo_db0 (identity_device_id (crypto_prims.truncate toy_server) (rt_identity demo_runtime))"
    by (simp add: has_device_def demo_db0_def)
  have tok: "demo_token ''join_B'' None \<in> set (db_join_tokens demo_db0)"
    "jk_token_hash (demo_token ''join_B'' None) = hash_of toy_server ''join_B''"
    "jk_used_at (demo_token ''join_B'' None) = None" "5 \<le> jk_expires_at (demo_token ''join_B'' None)"
    by (simp_all add: demo_db0_def demo_token_def)
  have key: "length (di_signing_key (rt_identity demo_runtime)) = 32" by (simp add: demo_runtime_def)
  have laws: "b64_law (crypto_prims.truncate toy_server)" "ed_law (crypto_prims.truncate toy_server)"
    by (simp_all add: toy_laws)
  have e: "jk_expires_at (demo_token ''join_B'' None) = 600" by (simp add: demo_token_def)
  from agent_joins [OF laws key demo_wf(1) fresh tok used, where os = "''os''" and v = "''1''" and ?rnd2.0 = "[]"]
  show ?thesis unfolding toy_truncate e Let_def by blast
qed

section \<open>Status\<close>

lemma published_ready_iff:
  "pt_state (build_published_service_status c snapshot s) = ''ready'' \<longleftrightarrow>
     \<not> (ps_direct_enabled s \<and> blank (ps_direct_udp_bind_addr s))
     \<and> (\<exists>snap device. snapshot = Some snap \<and> cf_device_id c = Some device
         \<and> find_service snap device (ps_name s) \<noteq> None
         \<and> (\<exists>d. find_device snap device = Some d \<and> dv_is_online d))"
  by (auto simp: build_published_service_status_def Let_def split: option.splits)

lemma forward_ready_iff:
  "ft_state (build_forward_rule_status c snapshot r) = ''ready'' \<longleftrightarrow>
     \<not> (mode_is_auto r \<and> blank (fr_direct_udp_bind_addr r)) \<and> fr_enabled r
     \<and> (\<exists>snap. snapshot = Some snap
         \<and> find_service snap (fr_target_device_id r) (fr_service_name r) \<noteq> None
         \<and> (\<exists>d. find_device snap (fr_target_device_id r) = Some d \<and> dv_is_online d))"
  by (auto simp: build_forward_rule_status_def mode_is_auto_def Let_def split: option.splits)

lemma find_iff: "(\<exists>y. List.find p xs = Some y) \<longleftrightarrow> (\<exists>x\<in>set xs. p x)"
  using find_None_iff [of p xs] by auto

lemma find_device_of_rows:
  assumes "distinct (map dr_device_id rows)"
  shows "(\<exists>d. List.find (\<lambda>x. dv_device_id x = t) (map (summary_of now) rows) = Some d \<and> dv_is_online d)
    \<longleftrightarrow> (\<exists>r\<in>set rows. dr_device_id r = t \<and> i64_wrap (now - dr_last_seen_at r) \<le> online_window_seconds)"
  using assms by (induction rows) (auto simp: image_iff)

text \<open>
  C32. The status report tells the truth about the server's tables: with the snapshot the server sends
  this device, a forward rule is shown as ready exactly if it is enabled and complete, the device is
  authorised at the server for a service of that name on the target, and the server has heard from the
  target within 90 seconds; a published service is shown as ready exactly if it is registered for this
  device and the server has heard from this device in that time.
\<close>

theorem status_ready_iff:
  assumes "db_wf P db" "session_device_id P now tok db = Inr d" "db_network_snapshot P now tok db = Inr snap"
  shows "(ft_state (build_forward_rule_status c (Some snap) r) = ''ready'' \<longleftrightarrow>
      fr_enabled r \<and> \<not> (mode_is_auto r \<and> blank (fr_direct_udp_bind_addr r))
      \<and> (\<exists>sd. authorize_relay_service d (sd_service_id sd) db = Inr sd
          \<and> sd_owner_device_id sd = fr_target_device_id r \<and> sd_name sd = fr_service_name r)
      \<and> (\<exists>row\<in>set (db_devices db). dr_device_id row = fr_target_device_id r
          \<and> i64_wrap (now - dr_last_seen_at row) \<le> online_window_seconds))
    \<and> (pt_state (build_published_service_status c (Some snap) s) = ''ready'' \<longleftrightarrow>
      \<not> (ps_direct_enabled s \<and> blank (ps_direct_udp_bind_addr s))
      \<and> (\<exists>me. cf_device_id c = Some me
          \<and> (\<exists>sd. authorize_relay_service d (sd_service_id sd) db = Inr sd
              \<and> sd_owner_device_id sd = me \<and> sd_name sd = ps_name s)
          \<and> (\<exists>row\<in>set (db_devices db). dr_device_id row = me
              \<and> i64_wrap (now - dr_last_seen_at row) \<le> online_window_seconds)))"
proof -
  let ?rows = "sort_key dr_device_name (db_devices db)"
  have snap: "ns_devices snap = map (summary_of now) ?rows"
    "ns_services snap = map to_service_definition (visible_services d db)"
    using network_snapshot_eq [OF assms(1,2)] assms(3) by auto
  have "distinct (map dr_device_id ?rows)"
    using db_wfD(1) [OF assms(1)] by (simp add: keys_ok_def distinct_map)
  from find_device_of_rows [OF this] have dev: "(\<exists>x. find_device snap t = Some x \<and> dv_is_online x)
      \<longleftrightarrow> (\<exists>row\<in>set (db_devices db). dr_device_id row = t \<and> i64_wrap (now - dr_last_seen_at row) \<le> online_window_seconds)"
    for t by (simp add: snap)
  have vis: "sd \<in> set (ns_services snap) \<longleftrightarrow> authorize_relay_service d (sd_service_id sd) db = Inr sd" for sd
    using visible_authorized [OF assms(1)] by (simp add: snap)
  have svc: "(\<exists>y. find_service snap owner name = Some y) \<longleftrightarrow> (\<exists>sd. authorize_relay_service d (sd_service_id sd) db = Inr sd
      \<and> sd_owner_device_id sd = owner \<and> sd_name sd = name)" for owner name
    unfolding find_iff vis [symmetric] by blast
  show ?thesis by (simp add: forward_ready_iff published_ready_iff svc dev) blast
qed

lemma demo_snapshot: "\<exists>snap. db_network_snapshot toy_server 20 ''sess_C'' demo_db2 = Inr snap"
  using network_snapshot_eq [OF demo_wf(3) demo_session] by blast

theorem status_ready_iff_witness:
  "\<exists>snap. db_network_snapshot toy_server 20 ''sess_C'' demo_db2 = Inr snap
    \<and> ft_state (build_forward_rule_status agent_config_default (Some snap) demo_rule) = ''ready''"
proof -
  obtain snap where snap: "db_network_snapshot toy_server 20 ''sess_C'' demo_db2 = Inr snap"
    using demo_snapshot by blast
  have auth: "authorize_relay_service (demo_id (CHR ''A'')) (sd_service_id demo_service) demo_db2 = Inr demo_service"
    by (simp add: authorize_relay_service_def demo_db2_def to_service_definition_def)
      (simp add: demo_service_def)
  have rule: "fr_enabled demo_rule" "\<not> mode_is_auto demo_rule" "fr_target_device_id demo_rule = demo_id (CHR ''A'')"
    "fr_service_name demo_rule = ''web''"
    by (simp_all add: demo_rule_def mode_is_auto_def) code_simp
  have row: "\<exists>row\<in>set (db_devices demo_db2). dr_device_id row = demo_id (CHR ''A'')
      \<and> i64_wrap (20 - dr_last_seen_at row) \<le> online_window_seconds"
    by (simp add: demo_db2_def demo_db1_def new_device_row_def i64_wrap_def online_window_seconds_def)
  have "sd_owner_device_id demo_service = demo_id (CHR ''A'') \<and> sd_name demo_service = ''web''"
    by (simp add: demo_service_def)
  with auth have "\<exists>sd. authorize_relay_service (demo_id (CHR ''A'')) (sd_service_id sd) demo_db2 = Inr sd
      \<and> sd_owner_device_id sd = demo_id (CHR ''A'') \<and> sd_name sd = ''web''" by blast
  with row rule have "ft_state (build_forward_rule_status agent_config_default (Some snap) demo_rule) = ''ready''"
    unfolding status_ready_iff [OF demo_wf(3) demo_session snap, THEN conjunct1] rule by simp
  with snap show ?thesis by blast
qed

section \<open>The runtime snapshot\<close>

text \<open>The configuration an operation brings along, and the last one of a run.\<close>

fun op_config :: "runtime_op \<Rightarrow> agent_config option" where
  "op_config (Op_Starting c _) = Some c"
| "op_config (Op_PrepareFailed c _ _) = Some c"
| "op_config (Op_Running c) = Some c"
| "op_config (Op_Restarting c _ _) = Some c"
| "op_config (Op_Stopped c _) = Some c"
| "op_config _ = None"

definition next_config :: "int \<times> runtime_op \<Rightarrow> agent_config \<Rightarrow> agent_config" where
  "next_config x c = (case op_config (snd x) of None \<Rightarrow> c | Some c' \<Rightarrow> c')"

definition observes :: "runtime_snapshot \<Rightarrow> agent_config \<Rightarrow> bool" where
  "observes s c =
     (map fo_name (rn_forward_observations s) = map fr_name (filter fr_enabled (cf_forward_rules c))
      \<and> map so_name (rn_service_observations s) = map ps_name (cf_published_services c))"

lemma push_event_observes [simp]: "observes (push_event now level m s) c = observes s c"
  by (simp add: observes_def push_event_def Let_def)

lemma observes_frame [simp]:
  "observes (rn_status_update f s) c = observes s c" "observes (rn_status_detail_update f1 s) c = observes s c"
  "observes (rn_updated_at_update f2 s) c = observes s c" "observes (rn_last_error_update f3 s) c = observes s c"
  "observes (rn_last_prepare_ok_at_update f2' s) c = observes s c"
  "observes (rn_last_heartbeat_ok_at_update f2' s) c = observes s c"
  "observes (rn_last_restart_reason_update f3 s) c = observes s c"
  "observes (rn_restart_count_update f4 s) c = observes s c"
  by (simp_all add: observes_def)

lemma phase_observes [simp]:
  "observes (sync_config now c s) c'
    \<longleftrightarrow> map fr_name (filter fr_enabled (cf_forward_rules c)) = map fr_name (filter fr_enabled (cf_forward_rules c'))
      \<and> map ps_name (cf_published_services c) = map ps_name (cf_published_services c')"
  "observes (clear_all_direct_metrics s) c = observes s c"
proof -
  have f: "fo_name (build_forward_observation now prev r) = fr_name r" for prev r
    by (simp add: build_forward_observation_def split: option.split) (blast dest: find_Some_member)
  have s: "so_name (build_service_observation now prev p) = ps_name p" for prev p
    by (simp add: build_service_observation_def split: option.split) (blast dest: find_Some_member)
  show "observes (sync_config now c s) c'
    \<longleftrightarrow> map fr_name (filter fr_enabled (cf_forward_rules c)) = map fr_name (filter fr_enabled (cf_forward_rules c'))
      \<and> map ps_name (cf_published_services c) = map ps_name (cf_published_services c')"
    by (simp add: observes_def sync_config_def build_forward_observations_def
        build_published_service_observations_def comp_def f s)
  show "observes (clear_all_direct_metrics s) c = observes s c"
    by (simp add: observes_def clear_all_direct_metrics_def comp_def)
qed

lemma map_first_names:
  "List.find p xs = Some x \<Longrightarrow> n y = n x \<Longrightarrow> map n (map_first p (\<lambda>_. y) xs) = map n xs"
  by (induction xs) (auto split: if_splits)

lemma on_forward_observes:
  assumes "\<And>obs obs' g. f obs = Some (obs', g) \<Longrightarrow> fo_name obs' = fo_name obs \<and> (\<forall>s. observes (g s) c = observes s c)"
  shows "observes (on_forward name f s) c = observes s c"
proof -
  have "observes (g (s\<lparr>rn_forward_observations := map_first (\<lambda>o'. fo_name o' = name) (\<lambda>_. obs') (rn_forward_observations s)\<rparr>)) c
      = observes s c"
    if "List.find (\<lambda>o'. fo_name o' = name) (rn_forward_observations s) = Some obs" "f obs = Some (obs', g)" for obs obs' g
    using assms [OF that(2)] map_first_names [OF that(1), of fo_name obs'] by (simp add: observes_def)
  then show ?thesis by (simp add: on_forward_def split: option.split)
qed

lemma on_service_observes:
  assumes "\<And>obs obs' g. f obs = Some (obs', g) \<Longrightarrow> so_name obs' = so_name obs \<and> (\<forall>s. observes (g s) c = observes s c)"
  shows "observes (on_service name f s) c = observes s c"
proof -
  have "observes (g (s\<lparr>rn_service_observations := map_first (\<lambda>o'. so_name o' = name) (\<lambda>_. obs') (rn_service_observations s)\<rparr>)) c
      = observes s c"
    if "List.find (\<lambda>o'. so_name o' = name) (rn_service_observations s) = Some obs" "f obs = Some (obs', g)" for obs obs' g
    using assms [OF that(2)] map_first_names [OF that(1), of so_name obs'] by (simp add: observes_def)
  then show ?thesis by (simp add: on_service_def split: option.split)
qed

lemmas forward_note_defs = note_forward_observation_def note_forward_connection_def
  note_forward_connection_closed_def note_forward_failure_def note_forward_direct_metrics_def
  clear_forward_direct_metrics_def

lemmas service_note_defs = note_published_service_observation_def note_published_service_connection_def
  note_published_service_session_started_def note_published_service_session_ended_def
  note_published_service_failure_def note_published_service_direct_metrics_def
  clear_published_service_direct_metrics_def

lemma forward_notes_observe [simp]:
  "observes (note_forward_observation now n cf a st d e s) c = observes s c"
  "observes (note_forward_connection now n t p s) c = observes s c"
  "observes (note_forward_connection_closed now n p s) c = observes s c"
  "observes (note_forward_failure now n t st e' s) c = observes s c"
  "observes (note_forward_direct_metrics now n m s) c = observes s c"
  "observes (clear_forward_direct_metrics now n s) c = observes s c"
  unfolding forward_note_defs
  by ((rule on_forward_observes, auto simp: Let_def split: if_splits)[1])+

lemma service_notes_observe [simp]:
  "observes (note_published_service_observation now n de a st d e s) c = observes s c"
  "observes (note_published_service_connection now n t p s) c = observes s c"
  "observes (note_published_service_session_started now n s) c = observes s c"
  "observes (note_published_service_session_ended now n s) c = observes s c"
  "observes (note_published_service_failure now n t st e' s) c = observes s c"
  "observes (note_published_service_direct_metrics now n m s) c = observes s c"
  "observes (clear_published_service_direct_metrics now n s) c = observes s c"
  unfolding service_note_defs
  by ((rule on_service_observes, auto simp: Let_def split: if_splits)[1])+

lemma exec_observes: "observes s c \<Longrightarrow> observes (runtime_exec x s) (next_config x c)"
  by (cases x rule: runtime_exec.cases)
    (simp_all add: next_config_def mark_starting_def mark_prepare_failed_def mark_running_def
      note_heartbeat_ok_def mark_restarting_def mark_stopped_def Let_def)

lemma runtime_state_new_ok: "runtime_ok (runtime_state_new now pid path c)"
  unfolding runtime_state_new_def
  by (rule phases_ok(1), rule sync_config_ok) (simp add: runtime_ok_def)

lemma runtime_state_new_observes: "observes (runtime_state_new now pid path c) c"
  by (simp add: runtime_state_new_def mark_starting_def)

text \<open>
  C36. Whatever the tasks of the agent report, in whatever order, the runtime snapshot shows exactly one
  observation per enabled forward rule and per published service of the configuration last synced, in
  their order; it keeps at most 24 events; and it shows transport metrics only where the transport is
  direct.
\<close>

theorem runtime_snapshot_sound:
  "runtime_ok (runtime_run ops (runtime_state_new now pid path c))
    \<and> observes (runtime_run ops (runtime_state_new now pid path c)) (fold next_config ops c)"
proof -
  have "observes s c' \<Longrightarrow> observes (runtime_run ops s) (fold next_config ops c')" for s c'
    unfolding runtime_run_def by (induction ops arbitrary: s c') (simp_all add: exec_observes)
  with runtime.run_inv [OF runtime_state_new_ok] runtime_state_new_observes show ?thesis by blast
qed

section \<open>Channel routing\<close>

text \<open>
  However the envelopes of many channels are interleaved on one connection, the queue of a channel
  receives exactly the envelopes of its own channel, in order, up to and including the first one that
  ends the channel, on a relay connection and on a direct connection alike.
\<close>

theorem routing_exact:
  assumes "queues_distinct r" "map_of r c = Some q"
  shows "received q (fst (route_all route_channel_message es r))
      = take_until relay_is_terminal (filter (\<lambda>e. relay_channel_id e = Some c) es)
    \<and> received q (fst (route_all route_direct_channel_message ds r))
      = take_until direct_is_terminal (filter (\<lambda>e. direct_channel_id e = c) ds)"
  using relay_routes.routed_exactly [OF assms] direct_routes.routed_exactly [OF assms] by simp

theorem routing_exact_witness:
  "received 1 (fst (route_all route_channel_message
      [RE_ChannelData ''b'' ''y'', RE_ChannelData ''a'' ''x'', RE_ChannelClose ''a'' None, RE_ChannelData ''a'' ''z'']
      [(''a'', 1), (''b'', 2)]))
    = [RE_ChannelData ''a'' ''x'', RE_ChannelClose ''a'' None]"
proof -
  have "queues_distinct [(''a'', 1), (''b'', 2)]" by (auto simp: queues_distinct_def split: if_splits)
  from routing_exact [OF this, of "''a''" 1, THEN conjunct1] show ?thesis by (simp del: route_all.simps)
qed

end
