(* ===== verification/DirectProbe.thy ===== *)
theory DirectProbe
  imports Protocol Crypto
begin

text \<open>
  How two agents find a direct path (\<open>minipunch-agent/src/direct.rs\<close>): the candidates of the peer, the
  signed hellos and acknowledgements, and the two probing loops, on a socket of its own and on the
  socket shared by all sessions of a service. Socket addresses are kept in the form they print in;
  the parser of addresses is a parameter. Encoding an envelope as JSON cannot fail.
\<close>

section \<open>Candidates\<close>

definition direct_probe_send_interval :: nat where "direct_probe_send_interval = 250 * 10 ^ 6"

definition candidate_priority :: "string \<Rightarrow> nat" where
  "candidate_priority t =
     (if t = ''public'' \<or> t = ''srflx'' then 0 else if t = ''manual'' then 1 else if t = ''local'' then 2 else 3)"

definition sort_candidates :: "direct_connection_candidate list \<Rightarrow> direct_connection_candidate list" where
  "sort_candidates cs = sort_key (\<lambda>c. candidate_priority (dc_candidate_type c)) cs"

type_synonym addr_parser = "string \<Rightarrow> string option"

definition parse_socket_addr :: "addr_parser \<Rightarrow> direct_connection_candidate \<Rightarrow> string option" where
  "parse_socket_addr parse c = parse (dc_addr c)"

definition bind_candidate :: "string \<Rightarrow> string \<Rightarrow> direct_connection_candidate" where
  "bind_candidate bind_addr candidate_type =
     \<lparr>dc_protocol = ''udp'', dc_addr = bind_addr, dc_candidate_type = candidate_type\<rparr>"

section \<open>Who probes whom\<close>

record probe_setup =
  pt_role :: string
  pt_peer :: string
  pt_candidates :: "direct_connection_candidate list"
  pt_addrs :: "string list"

definition probe_participant ::
  "direct_rendezvous_session \<Rightarrow> string \<Rightarrow> (string \<times> string \<times> direct_connection_candidate list) result" where
  "probe_participant s local =
     (if rs_source_device_id s = local then Inr (''source'', rs_target_device_id s, rp_candidates (rs_target s))
      else if rs_target_device_id s = local then Inr (''target'', rs_source_device_id s, rp_candidates (rs_source s))
      else Inl (''local device '' @ local @ '' is not a participant in rendezvous '' @ rs_rendezvous_id s))"

definition probe_begin ::
  "crypto_prims \<Rightarrow> addr_parser \<Rightarrow> string \<Rightarrow> string \<Rightarrow> direct_rendezvous_session \<Rightarrow> probe_setup result" where
  "probe_begin P parse local peer_key s =
     result_bind (probe_participant s local) (\<lambda>(role, peer, candidates).
       if device_id_from_public_key P peer_key \<noteq> peer
       then Inl (''peer device '' @ peer @ '' has an invalid identity key binding'')
       else let sorted = sort_candidates candidates; addrs = List.map_filter (parse_socket_addr parse) sorted
            in if addrs = []
               then Inl (''rendezvous '' @ rs_rendezvous_id s @ '' does not contain any valid peer UDP candidates'')
               else Inr \<lparr>pt_role = role, pt_peer = peer, pt_candidates = sorted, pt_addrs = addrs\<rparr>)"

definition probe_hello :: "crypto_prims \<Rightarrow> device_identity \<Rightarrow> string \<Rightarrow> string \<Rightarrow> string \<Rightarrow> direct_probe_envelope" where
  "probe_hello P identity local rendezvous nonce =
     Probe_Hello rendezvous local nonce (sign_base64 P identity (direct_probe_hello_message rendezvous local nonce))"

definition probe_ack ::
  "crypto_prims \<Rightarrow> device_identity \<Rightarrow> string \<Rightarrow> string \<Rightarrow> string \<Rightarrow> string \<Rightarrow> direct_probe_envelope" where
  "probe_ack P identity local rendezvous hello_nonce ack_nonce =
     Probe_Ack rendezvous local hello_nonce ack_nonce
       (sign_base64 P identity (direct_probe_ack_message rendezvous local hello_nonce ack_nonce))"

section \<open>One envelope\<close>

record direct_probe_result =
  dp_rendezvous_id :: string
  dp_local_device_id :: string
  dp_peer_device_id :: string
  dp_local_bind_addr :: string
  dp_selected_peer_addr :: string
  dp_selected_peer_candidate_type :: "string option"
  dp_role :: string
  dp_completion_kind :: string
  dp_ack_nonce :: string
  dp_elapsed_ms :: nat

text \<open>The fixed arguments of a probe.\<close>

record probe_env =
  pe_identity :: device_identity
  pe_local :: string
  pe_peer_key :: string
  pe_rendezvous :: string
  pe_nonce :: string
  pe_local_addr :: string
  pe_setup :: probe_setup

definition probe_result_of :: "probe_env \<Rightarrow> string \<Rightarrow> string \<Rightarrow> string \<Rightarrow> nat \<Rightarrow> direct_probe_result" where
  "probe_result_of ev sender kind ack_nonce elapsed =
     \<lparr>dp_rendezvous_id = pe_rendezvous ev, dp_local_device_id = pe_local ev, dp_peer_device_id = pt_peer (pe_setup ev),
      dp_local_bind_addr = pe_local_addr ev, dp_selected_peer_addr = sender,
      dp_selected_peer_candidate_type =
        map_option dc_candidate_type (List.find (\<lambda>c. dc_addr c = sender) (pt_candidates (pe_setup ev))),
      dp_role = pt_role (pe_setup ev), dp_completion_kind = kind, dp_ack_nonce = ack_nonce, dp_elapsed_ms = elapsed\<rparr>"

definition probe_error :: "string \<Rightarrow> crypto_error + unit \<Rightarrow> unit result" where
  "probe_error what r = (case r of Inl e \<Rightarrow> Inl (what @ '': '' @ crypto_error_message e) | Inr _ \<Rightarrow> Inr ())"

text \<open>
  \<open>handle_incoming_probe_envelope\<close> with the random bytes of the acknowledgement's nonce and the answer of
  the socket to sending it: the outcome, and the datagram sent.
\<close>

definition handle_incoming_probe_envelope ::
  "crypto_prims \<Rightarrow> probe_env \<Rightarrow> byte list \<Rightarrow> unit result \<Rightarrow> nat \<Rightarrow> direct_probe_envelope \<Rightarrow> string
     \<Rightarrow> direct_probe_result option result \<times> (string \<times> direct_probe_envelope) list" where
  "handle_incoming_probe_envelope P ev rnd io elapsed envelope sender =
     (case envelope of
        Probe_Hello rendezvous device hello_nonce signature \<Rightarrow>
          if rendezvous \<noteq> pe_rendezvous ev \<or> device \<noteq> pt_peer (pe_setup ev) then (Inr None, [])
          else
            (case probe_error ''peer UDP probe hello verification failed''
                    (verify_signature_base64 P (pe_peer_key ev) (direct_probe_hello_message rendezvous device hello_nonce)
                      signature) of
               Inl e \<Rightarrow> (Inl e, [])
             | Inr _ \<Rightarrow>
                 let ack_nonce = generate_token P rnd ''ack'';
                     ack = probe_ack P (pe_identity ev) (pe_local ev) rendezvous hello_nonce ack_nonce
                 in (case io of
                       Inl e \<Rightarrow> (Inl (''failed to send UDP probe acknowledgement to '' @ sender), [])
                     | Inr _ \<Rightarrow> (Inr (Some (probe_result_of ev sender ''received_hello'' ack_nonce elapsed)), [(sender, ack)])))
      | Probe_Ack rendezvous device hello_nonce ack_nonce signature \<Rightarrow>
          if rendezvous \<noteq> pe_rendezvous ev \<or> device \<noteq> pt_peer (pe_setup ev) \<or> hello_nonce \<noteq> pe_nonce ev
          then (Inr None, [])
          else
            (case probe_error ''peer UDP probe acknowledgement verification failed''
                    (verify_signature_base64 P (pe_peer_key ev)
                      (direct_probe_ack_message rendezvous device hello_nonce ack_nonce) signature) of
               Inl e \<Rightarrow> (Inl e, [])
             | Inr _ \<Rightarrow> (Inr (Some (probe_result_of ev sender ''received_ack'' ack_nonce elapsed)), [])))"

section \<open>The probing loops\<close>

datatype shared_packet = SP_Probe direct_probe_envelope string | SP_Tunnel direct_tunnel_envelope string

text \<open>
  What wakes a loop: its timer, a packet (with the random bytes, the socket's answer and the time that
  go with handling it), the end of the packets, and the deadline. A datagram on a socket of its own
  that is no probe envelope is dropped; here that is a tunnel packet.
\<close>

datatype probe_event =
    PE_Tick
  | PE_Packet shared_packet "byte list" "unit result" nat
  | PE_Closed
  | PE_Deadline

record probe_state =
  pb_sent :: "(string \<times> direct_probe_envelope) list"
  pb_buffered :: "(string \<times> direct_tunnel_envelope) list"
  pb_done :: "(string \<times> direct_probe_result) result option"

definition send_probe_to_all :: "probe_env \<Rightarrow> crypto_prims \<Rightarrow> (string \<times> direct_probe_envelope) list" where
  "send_probe_to_all ev P =
     map (\<lambda>a. (a, probe_hello P (pe_identity ev) (pe_local ev) (pe_rendezvous ev) (pe_nonce ev))) (pt_addrs (pe_setup ev))"

definition probe_handled ::
  "crypto_prims \<Rightarrow> probe_env \<Rightarrow> direct_probe_envelope \<Rightarrow> string \<Rightarrow> byte list \<Rightarrow> unit result \<Rightarrow> nat
     \<Rightarrow> probe_state \<Rightarrow> probe_state" where
  "probe_handled P ev envelope sender rnd io elapsed st =
     (case handle_incoming_probe_envelope P ev rnd io elapsed envelope sender of
        (r, out) \<Rightarrow>
          let st1 = st\<lparr>pb_sent := pb_sent st @ out\<rparr> in
          (case r of
             Inl e \<Rightarrow> st1\<lparr>pb_done := Some (Inl e)\<rparr>
           | Inr None \<Rightarrow> st1
           | Inr (Some result) \<Rightarrow> st1\<lparr>pb_done := Some (Inr (sender, result))\<rparr>))"

definition probe_deadline_error :: "probe_env \<Rightarrow> string" where
  "probe_deadline_error ev =
     ''timed out waiting for a verified UDP probe acknowledgement from '' @ pt_peer (pe_setup ev)"

definition probe_step_on_hub :: "crypto_prims \<Rightarrow> probe_env \<Rightarrow> probe_event \<Rightarrow> probe_state \<Rightarrow> probe_state" where
  "probe_step_on_hub P ev w st =
     (if pb_done st \<noteq> None then st
      else case w of
             PE_Tick \<Rightarrow> st\<lparr>pb_sent := pb_sent st @ send_probe_to_all ev P\<rparr>
           | PE_Packet (SP_Probe envelope sender) rnd io elapsed \<Rightarrow> probe_handled P ev envelope sender rnd io elapsed st
           | PE_Packet (SP_Tunnel envelope sender) rnd io elapsed \<Rightarrow>
               st\<lparr>pb_buffered := pb_buffered st @ [(sender, envelope)]\<rparr>
           | PE_Closed \<Rightarrow>
               st\<lparr>pb_done := Some (Inl (''shared direct UDP hub closed while probing rendezvous '' @ pe_rendezvous ev))\<rparr>
           | PE_Deadline \<Rightarrow> st\<lparr>pb_done := Some (Inl (probe_deadline_error ev))\<rparr>)"

definition probe_step_on_socket :: "crypto_prims \<Rightarrow> probe_env \<Rightarrow> probe_event \<Rightarrow> probe_state \<Rightarrow> probe_state" where
  "probe_step_on_socket P ev w st =
     (if pb_done st \<noteq> None then st
      else case w of
             PE_Tick \<Rightarrow> st\<lparr>pb_sent := pb_sent st @ send_probe_to_all ev P\<rparr>
           | PE_Packet (SP_Probe envelope sender) rnd io elapsed \<Rightarrow> probe_handled P ev envelope sender rnd io elapsed st
           | PE_Packet (SP_Tunnel envelope sender) rnd io elapsed \<Rightarrow> st
           | PE_Closed \<Rightarrow> st\<lparr>pb_done := Some (Inl ''failed to receive UDP probe packet'')\<rparr>
           | PE_Deadline \<Rightarrow> st\<lparr>pb_done := Some (Inl (probe_deadline_error ev))\<rparr>)"

definition probe_env_of ::
  "crypto_prims \<Rightarrow> device_identity \<Rightarrow> string \<Rightarrow> string \<Rightarrow> direct_rendezvous_session \<Rightarrow> string \<Rightarrow> byte list \<Rightarrow> probe_setup \<Rightarrow> probe_env" where
  "probe_env_of P identity local peer_key s own rnd su =
     \<lparr>pe_identity = identity, pe_local = local, pe_peer_key = peer_key, pe_rendezvous = rs_rendezvous_id s,
      pe_nonce = generate_token P rnd ''probe'', pe_local_addr = own, pe_setup = su\<rparr>"

text \<open>Both loops start by sending a hello to every address.\<close>

definition probe_path ::
  "(crypto_prims \<Rightarrow> probe_env \<Rightarrow> probe_event \<Rightarrow> probe_state \<Rightarrow> probe_state)
     \<Rightarrow> crypto_prims \<Rightarrow> addr_parser \<Rightarrow> device_identity \<Rightarrow> string \<Rightarrow> string \<Rightarrow> direct_rendezvous_session
     \<Rightarrow> string result \<Rightarrow> byte list \<Rightarrow> probe_event list \<Rightarrow> probe_state" where
  "probe_path loop_step P parse identity local peer_key s local_addr rnd ws =
     (let failed = (\<lambda>e. \<lparr>pb_sent = [], pb_buffered = [], pb_done = Some (Inl e)\<rparr>) in
      case probe_begin P parse local peer_key s of
        Inl e \<Rightarrow> failed e
      | Inr su \<Rightarrow>
          (case local_addr of
             Inl _ \<Rightarrow> failed ''failed to read bound UDP socket address''
           | Inr own \<Rightarrow>
               let ev = probe_env_of P identity local peer_key s own rnd su
               in fold (loop_step P ev) ws \<lparr>pb_sent = send_probe_to_all ev P, pb_buffered = [], pb_done = None\<rparr>))"

definition probe_direct_path_on_hub ::
  "crypto_prims \<Rightarrow> addr_parser \<Rightarrow> device_identity \<Rightarrow> string \<Rightarrow> string \<Rightarrow> direct_rendezvous_session
     \<Rightarrow> string result \<Rightarrow> byte list \<Rightarrow> probe_event list \<Rightarrow> probe_state" where
  "probe_direct_path_on_hub = probe_path probe_step_on_hub"

definition probe_direct_path_on_socket ::
  "crypto_prims \<Rightarrow> addr_parser \<Rightarrow> device_identity \<Rightarrow> string \<Rightarrow> string \<Rightarrow> direct_rendezvous_session
     \<Rightarrow> string result \<Rightarrow> byte list \<Rightarrow> probe_event list \<Rightarrow> probe_state" where
  "probe_direct_path_on_socket = probe_path probe_step_on_socket"

text \<open>\<open>probe_direct_path\<close>: bind a socket first.\<close>

definition probe_direct_path ::
  "crypto_prims \<Rightarrow> addr_parser \<Rightarrow> device_identity \<Rightarrow> string \<Rightarrow> string \<Rightarrow> direct_rendezvous_session
     \<Rightarrow> string \<Rightarrow> unit result \<Rightarrow> string result \<Rightarrow> byte list \<Rightarrow> probe_event list \<Rightarrow> probe_state" where
  "probe_direct_path P parse identity local peer_key s bind_addr bound local_addr rnd ws =
     (case bound of
        Inl _ \<Rightarrow> \<lparr>pb_sent = [], pb_buffered = [], pb_done = Some (Inl (''failed to bind UDP socket on '' @ bind_addr))\<rparr>
      | Inr _ \<Rightarrow> probe_direct_path_on_socket P parse identity local peer_key s local_addr rnd ws)"

definition run_direct_probe ::
  "crypto_prims \<Rightarrow> addr_parser \<Rightarrow> device_identity \<Rightarrow> string \<Rightarrow> string \<Rightarrow> direct_rendezvous_session
     \<Rightarrow> string \<Rightarrow> unit result \<Rightarrow> string result \<Rightarrow> byte list \<Rightarrow> probe_event list \<Rightarrow> direct_probe_result result option" where
  "run_direct_probe P parse identity local peer_key s bind_addr bound local_addr rnd ws =
     map_option (map_sum id snd)
       (pb_done (probe_direct_path P parse identity local peer_key s bind_addr bound local_addr rnd ws))"

end
