(* ===== verification/DirectTasks.thy ===== *)
theory DirectTasks
  imports DirectProbe ClientRouting
begin

text \<open>
  The tasks behind a direct connection and behind the UDP socket that all sessions of a service share
  (\<open>minipunch-agent/src/direct.rs\<close>). A round of a task is what it does between two waits. Packets in
  the queue to a connection's reader start with those buffered while probing.
\<close>

section \<open>The shared socket\<close>

type_synonym session_routes = "(string \<times> nat) list"

definition register_session :: "string \<Rightarrow> nat \<Rightarrow> session_routes \<Rightarrow> nat result \<times> session_routes" where
  "register_session rendezvous q routes =
     (let routes' = AList.update rendezvous q routes in
      case map_of routes rendezvous of
        Some _ \<Rightarrow> (Inl (''shared direct UDP hub already has an active route for rendezvous '' @ rendezvous), routes')
      | None \<Rightarrow> (Inr q, routes'))"

definition unregister_session :: "string \<Rightarrow> session_routes \<Rightarrow> session_routes" where
  "unregister_session rendezvous routes = AList.delete rendezvous routes"

text \<open>
  One datagram, read as a probe envelope if it is one and else as a tunnel envelope: the queue it is
  for. A queue whose receiver is gone loses its route, if it still is the route.
\<close>

definition shared_packet_of ::
  "(byte list \<Rightarrow> direct_probe_envelope option) \<Rightarrow> (byte list \<Rightarrow> direct_tunnel_envelope option)
     \<Rightarrow> byte list \<Rightarrow> string \<Rightarrow> (string \<times> shared_packet) option" where
  "shared_packet_of probe tunnel bytes sender =
     (case probe bytes of
        Some e \<Rightarrow> Some (direct_probe_rendezvous_id e, SP_Probe e sender)
      | None \<Rightarrow>
          (case tunnel bytes of
             Some e \<Rightarrow> Some (direct_tunnel_rendezvous_id e, SP_Tunnel e sender)
           | None \<Rightarrow> None))"

definition shared_route :: "session_routes \<Rightarrow> string \<times> shared_packet \<Rightarrow> (nat \<times> shared_packet) option" where
  "shared_route routes p = map_option (\<lambda>q. (q, snd p)) (map_of routes (fst p))"

definition drop_dead_route :: "string \<Rightarrow> nat \<Rightarrow> session_routes \<Rightarrow> session_routes" where
  "drop_dead_route rendezvous q routes =
     (if map_of routes rendezvous = Some q then AList.delete rendezvous routes else routes)"

text \<open>The reader's loop; \<open>gone\<close> are the queues without a receiver, None is a failed read.\<close>

definition shared_hub_round ::
  "(byte list \<Rightarrow> direct_probe_envelope option) \<Rightarrow> (byte list \<Rightarrow> direct_tunnel_envelope option) \<Rightarrow> (nat \<Rightarrow> bool)
     \<Rightarrow> (byte list \<times> string) option \<Rightarrow> session_routes \<Rightarrow> (nat \<times> shared_packet) list \<times> bool \<times> session_routes" where
  "shared_hub_round probe tunnel gone datagram routes =
     (case datagram of
        None \<Rightarrow> ([], False, [])
      | Some (bytes, sender) \<Rightarrow>
          (case shared_packet_of probe tunnel bytes sender of
             None \<Rightarrow> ([], True, routes)
           | Some p \<Rightarrow>
               (case shared_route routes p of
                  None \<Rightarrow> ([], True, routes)
                | Some (q, packet) \<Rightarrow>
                    if gone q then ([], True, drop_dead_route (fst p) q routes)
                    else ([(q, packet)], True, routes))))"

section \<open>A connection\<close>

record direct_conn =
  dn_rendezvous :: string
  dn_peer :: string
  dn_outbound :: "direct_tunnel_envelope list"
  dn_writer :: bool
  dn_packets :: "(string \<times> direct_tunnel_envelope) list"
  dn_source :: bool
  dn_reader :: bool
  dn_closed :: bool
  dn_routes :: routes
  dn_incoming :: "direct_incoming_channel list"
  dn_delivered :: "(nat \<times> direct_tunnel_envelope) list"
  dn_wire :: "direct_tunnel_envelope list"

definition direct_from_shared_hub :: "string \<Rightarrow> string \<Rightarrow> (string \<times> direct_tunnel_envelope) list \<Rightarrow> direct_conn" where
  "direct_from_shared_hub rendezvous peer buffered =
     \<lparr>dn_rendezvous = rendezvous, dn_peer = peer, dn_outbound = [], dn_writer = True, dn_packets = buffered,
      dn_source = True, dn_reader = True, dn_closed = False, dn_routes = [], dn_incoming = [], dn_delivered = [], dn_wire = []\<rparr>"

definition direct_from_socket :: "string \<Rightarrow> string \<Rightarrow> direct_conn" where
  "direct_from_socket rendezvous peer = direct_from_shared_hub rendezvous peer []"

definition direct_send :: "direct_tunnel_envelope \<Rightarrow> direct_conn \<Rightarrow> unit result \<times> direct_conn" where
  "direct_send e dn =
     (if dn_writer dn then (Inr (), dn\<lparr>dn_outbound := dn_outbound dn @ [e]\<rparr>)
      else (Inl ''direct UDP connection is closed'', dn))"

definition dn_register :: "string \<Rightarrow> nat \<Rightarrow> direct_conn \<Rightarrow> direct_conn" where
  "dn_register c q dn = dn\<lparr>dn_routes := register_channel c q (dn_routes dn)\<rparr>"

definition dn_unregister :: "string \<Rightarrow> direct_conn \<Rightarrow> direct_conn" where
  "dn_unregister c dn = dn\<lparr>dn_routes := unregister_channel c (dn_routes dn)\<rparr>"

text \<open>The writer: a failure to encode or to send ends it, and nothing else.\<close>

definition direct_writer_round ::
  "(direct_tunnel_envelope \<Rightarrow> string + byte list) \<Rightarrow> unit result \<Rightarrow> direct_conn \<Rightarrow> direct_conn" where
  "direct_writer_round enc io dn =
     (case dn_outbound dn of
        [] \<Rightarrow> dn
      | e # rest \<Rightarrow>
          (case (enc e, io) of
             (Inr _, Inr _) \<Rightarrow> dn\<lparr>dn_outbound := rest, dn_wire := dn_wire dn @ [e]\<rparr>
           | _ \<Rightarrow> dn\<lparr>dn_outbound := [], dn_writer := False\<rparr>))"

definition push_packet :: "string \<times> direct_tunnel_envelope \<Rightarrow> direct_conn \<Rightarrow> direct_conn" where
  "push_packet p dn = (if dn_reader dn then dn\<lparr>dn_packets := dn_packets dn @ [p]\<rparr> else dn\<lparr>dn_source := False\<rparr>)"

text \<open>The task that reads the connection's own socket; None is a failed read.\<close>

definition direct_socket_round ::
  "(byte list \<Rightarrow> direct_tunnel_envelope option) \<Rightarrow> (byte list \<times> string) option \<Rightarrow> direct_conn \<Rightarrow> direct_conn" where
  "direct_socket_round tunnel datagram dn =
     (case datagram of
        None \<Rightarrow> dn\<lparr>dn_source := False\<rparr>
      | Some (bytes, sender) \<Rightarrow>
          if sender \<noteq> dn_peer dn then dn
          else (case tunnel bytes of
                  None \<Rightarrow> dn
                | Some e \<Rightarrow>
                    if direct_tunnel_rendezvous_id e \<noteq> dn_rendezvous dn then dn else push_packet (sender, e) dn))"

text \<open>The task that takes a session's packets from the shared socket; None is the end of the session.\<close>

definition direct_session_round :: "shared_packet option \<Rightarrow> direct_conn \<Rightarrow> direct_conn" where
  "direct_session_round packet dn =
     (case packet of
        None \<Rightarrow> dn\<lparr>dn_source := False\<rparr>
      | Some (SP_Probe _ _) \<Rightarrow> dn
      | Some (SP_Tunnel e sender) \<Rightarrow> push_packet (sender, e) dn)"

text \<open>The reader: with no packet left it waits, or ends once nobody can send one.\<close>

definition direct_reader_round :: "direct_conn \<Rightarrow> direct_conn" where
  "direct_reader_round dn =
     (case dn_packets dn of
        [] \<Rightarrow>
          if dn_source dn then dn
          else (case clear_all_direct_channels (dn_rendezvous dn) (dn_routes dn) of
                  (out, r) \<Rightarrow> dn\<lparr>dn_routes := r, dn_delivered := dn_delivered dn @ out, dn_closed := True, dn_reader := False\<rparr>)
      | p # rest \<Rightarrow>
          (case direct_reader_packet (dn_rendezvous dn) (dn_peer dn) p (dn_routes dn) of
             (out, r) \<Rightarrow>
               fold (\<lambda>o1 c. case o1 of
                       To_Acceptor ch \<Rightarrow> c\<lparr>dn_incoming := dn_incoming c @ [ch]\<rparr>
                     | To_Channel q x \<Rightarrow> c\<lparr>dn_delivered := dn_delivered c @ [(q, x)]\<rparr>)
                 out (dn\<lparr>dn_packets := rest, dn_routes := r\<rparr>)))"

section \<open>Runs of a connection\<close>

datatype direct_event =
    DV_Send direct_tunnel_envelope
  | DV_Register string nat
  | DV_Unregister string
  | DV_Writer "unit result"
  | DV_Socket "(byte list \<times> string) option"
  | DV_Session "shared_packet option"
  | DV_Reader

fun direct_step ::
  "(direct_tunnel_envelope \<Rightarrow> string + byte list) \<Rightarrow> (byte list \<Rightarrow> direct_tunnel_envelope option)
     \<Rightarrow> direct_event \<Rightarrow> direct_conn \<Rightarrow> direct_conn" where
  "direct_step enc tunnel (DV_Send e) dn = snd (direct_send e dn)"
| "direct_step enc tunnel (DV_Register c q) dn = dn_register c q dn"
| "direct_step enc tunnel (DV_Unregister c) dn = dn_unregister c dn"
| "direct_step enc tunnel (DV_Writer io) dn = (if dn_writer dn then direct_writer_round enc io dn else dn)"
| "direct_step enc tunnel (DV_Socket d) dn = (if dn_source dn then direct_socket_round tunnel d dn else dn)"
| "direct_step enc tunnel (DV_Session p) dn = (if dn_source dn then direct_session_round p dn else dn)"
| "direct_step enc tunnel DV_Reader dn = (if dn_reader dn then direct_reader_round dn else dn)"

definition direct_run ::
  "(direct_tunnel_envelope \<Rightarrow> string + byte list) \<Rightarrow> (byte list \<Rightarrow> direct_tunnel_envelope option)
     \<Rightarrow> direct_event list \<Rightarrow> direct_conn \<Rightarrow> direct_conn" where
  "direct_run enc tunnel evs dn = fold (direct_step enc tunnel) evs dn"

end
