(* ===== verification/RelayClient.thy ===== *)
theory RelayClient
  imports ClientRouting RuntimeNotes
begin

text \<open>
  The agent's relay client (\<open>minipunch-agent/src/relay.rs\<close>, and \<open>resolve_service_with_session\<close> of
  \<open>lib.rs\<close>): what it verifies before it opens or accepts a channel, the two sides of opening one, and
  the pair of tasks that carry a local stream over it. An asynchronous function is split where it
  waits; what it waits for is the argument of the next part. The connection is what its users see of
  it: whether its writer is gone, the envelopes sent, and the channel routes.
\<close>

section \<open>The connection\<close>

record relay_client =
  rc_closed :: bool
  rc_sent :: "relay_envelope list"
  rc_routes :: routes

definition relay_send :: "relay_envelope \<Rightarrow> relay_client \<Rightarrow> unit result \<times> relay_client" where
  "relay_send e st =
     (if rc_closed st then (Inl ''relay websocket is closed'', st)
      else (Inr (), st\<lparr>rc_sent := rc_sent st @ [e]\<rparr>))"

definition rc_register :: "string \<Rightarrow> nat \<Rightarrow> relay_client \<Rightarrow> relay_client" where
  "rc_register c q st = st\<lparr>rc_routes := register_channel c q (rc_routes st)\<rparr>"

definition rc_unregister :: "string \<Rightarrow> relay_client \<Rightarrow> relay_client" where
  "rc_unregister c st = st\<lparr>rc_routes := unregister_channel c (rc_routes st)\<rparr>"

definition bool_text :: "bool \<Rightarrow> string" where
  "bool_text b = (if b then ''true'' else ''false'')"

definition websocket_url :: "string \<Rightarrow> bool \<Rightarrow> string result" where
  "websocket_url server_url incoming =
     (case strip_prefix ''https://'' server_url of
        Some rest \<Rightarrow> Inr (''wss://'' @ rest @ ''/api/v1/relay/ws?incoming='' @ bool_text incoming)
      | None \<Rightarrow>
          (case strip_prefix ''http://'' server_url of
             Some rest \<Rightarrow> Inr (''ws://'' @ rest @ ''/api/v1/relay/ws?incoming='' @ bool_text incoming)
           | None \<Rightarrow> Inl ''server_url must start with http:// or https://''))"

section \<open>Resolving a service\<close>

record resolved_service =
  rz_service :: service_definition
  rz_target_relay_public_key :: string

definition crypto_result :: "string \<Rightarrow> crypto_error + 'a \<Rightarrow> 'a result" where
  "crypto_result what r = (case r of Inl e \<Rightarrow> Inl (what @ '': '' @ crypto_error_message e) | Inr a \<Rightarrow> Inr a)"

definition resolve_service_with_session ::
  "crypto_prims \<Rightarrow> network_snapshot result \<Rightarrow> string \<Rightarrow> string \<Rightarrow> resolved_service result" where
  "resolve_service_with_session P answer target name =
     result_bind answer (\<lambda>snap.
       case List.find (\<lambda>x. sd_owner_device_id x = target \<and> sd_name x = name) (ns_services snap) of
         None \<Rightarrow> Inl (''service '' @ name @ '' on device '' @ target @ '' was not found or is not accessible'')
       | Some service \<Rightarrow>
           (case List.find (\<lambda>x. dv_device_id x = target) (ns_devices snap) of
              None \<Rightarrow> Inl (''target device '' @ target @ '' was not found'')
            | Some d \<Rightarrow>
                if device_id_from_public_key P (dv_identity_public_key d) \<noteq> dv_device_id d
                then Inl (''target device '' @ target @ '' has an invalid identity key binding'')
                else result_bind
                  (crypto_result ''target device relay key verification failed''
                    (verify_signature_base64 P (dv_identity_public_key d)
                      (relay_key_binding_message (dv_device_id d) (dv_relay_public_key d))
                      (dv_relay_public_key_signature d)))
                  (\<lambda>_. Inr \<lparr>rz_service = service, rz_target_relay_public_key = dv_relay_public_key d\<rparr>)))"

definition lookup_device_public_key_with_session ::
  "crypto_prims \<Rightarrow> network_snapshot result \<Rightarrow> string \<Rightarrow> string result" where
  "lookup_device_public_key_with_session P answer device =
     result_bind answer (\<lambda>snap.
       case List.find (\<lambda>x. dv_device_id x = device) (ns_devices snap) of
         None \<Rightarrow> Inl (''device '' @ device @ '' was not found in network snapshot'')
       | Some d \<Rightarrow>
           if device_id_from_public_key P (dv_identity_public_key d) \<noteq> dv_device_id d
           then Inl (''device '' @ device @ '' has an invalid identity key binding'')
           else Inr (dv_identity_public_key d))"

section \<open>Accepting a channel\<close>

text \<open>\<open>PublishedServiceDirectory\<close>: of two services with one id the later one.\<close>

type_synonym service_directory = "string \<Rightarrow> published_service_config option"

definition published_service_directory ::
  "crypto_prims \<Rightarrow> string \<Rightarrow> published_service_config list \<Rightarrow> service_directory" where
  "published_service_directory P device services =
     map_of (rev (map (\<lambda>s. (service_id_of P device (ps_name s), s)) services))"

text \<open>
  Until the local target is connected: the checks, then the route of the channel. The result is the
  service to connect to, or None when the channel has been rejected.
\<close>

definition handle_incoming_begin ::
  "crypto_prims \<Rightarrow> service_directory \<Rightarrow> nat \<Rightarrow> relay_incoming_channel \<Rightarrow> relay_client
     \<Rightarrow> published_service_config option result \<times> relay_client" where
  "handle_incoming_begin P directory q ch st =
     (let reject = (\<lambda>reason. case relay_send (RE_ChannelRejected (ri_channel_id ch) reason) st of
            (Inl e, st1) \<Rightarrow> (Inl e, st1) | (Inr _, st1) \<Rightarrow> (Inr None, st1))
      in if device_id_from_public_key P (ri_source_identity_public_key ch) \<noteq> ri_source_device_id ch
         then reject ''source device identity key does not match source_device_id''
         else
           (case crypto_result ''source relay open signature verification failed''
                   (verify_signature_base64 P (ri_source_identity_public_key ch)
                     (relay_channel_open_message (ri_channel_id ch) (ri_service_id ch) (ri_source_device_id ch)
                       (ri_source_ephemeral_public_key ch))
                     (ri_source_open_signature ch)) of
              Inl e \<Rightarrow> (Inl e, st)
            | Inr _ \<Rightarrow>
                (case directory (ri_service_id ch) of
                   None \<Rightarrow> reject ''service is not published locally''
                 | Some service \<Rightarrow> (Inr (Some service), rc_register (ri_channel_id ch) q st))))"

text \<open>Once the connection to the local target is there or has failed.\<close>

definition handle_incoming_connected ::
  "crypto_prims \<Rightarrow> relay_keypair \<Rightarrow> relay_incoming_channel \<Rightarrow> published_service_config \<Rightarrow> unit result
     \<Rightarrow> relay_client \<Rightarrow> (secure_sender \<times> secure_receiver) option result \<times> runtime_op list \<times> relay_client" where
  "handle_incoming_connected P keys ch service connect st =
     (case connect of
        Inl err \<Rightarrow>
          (case relay_send (RE_ChannelRejected (ri_channel_id ch) (''failed to connect local target: '' @ err)) st of
             (Inl e, st1) \<Rightarrow> (Inl e, [], st1)
           | (Inr _, st1) \<Rightarrow> (Inr None, [], rc_unregister (ri_channel_id ch) st1))
      | Inr _ \<Rightarrow>
          (case crypto_result ''failed to derive relay shared secret''
                  (shared_secret_with_public_key P keys (ri_source_ephemeral_public_key ch)) of
             Inl e \<Rightarrow> (Inl e, [], st)
           | Inr secret \<Rightarrow>
               (case relay_send (RE_ChannelAccepted (ri_channel_id ch)) st of
                  (Inl e, st1) \<Rightarrow> (Inl e, [], st1)
                | (Inr _, st1) \<Rightarrow>
                    (Inr (Some (secure_channel_pair P secret (ri_channel_id ch) Responder)),
                     [Op_ServiceConnection (ps_name service) ''relay'' (ri_source_device_id ch)], st1))))"

section \<open>Opening a channel\<close>

text \<open>The ephemeral key pair and the token of the channel id are random.\<close>

definition local_forward_begin ::
  "crypto_prims \<Rightarrow> relay_keypair \<Rightarrow> byte list \<Rightarrow> nat \<Rightarrow> device_identity \<Rightarrow> resolved_service \<Rightarrow> relay_client
     \<Rightarrow> unit result \<times> string \<times> relay_client" where
  "local_forward_begin P ephemeral rnd q identity resolved st =
     (let device = identity_device_id P identity;
          eph = keypair_public_key_base64 P ephemeral;
          channel = generate_token P rnd ''ch'';
          sid = sd_service_id (rz_service resolved);
          sig = sign_base64 P identity (relay_channel_open_message channel sid device eph);
          (r, st1) = relay_send (RE_OpenChannel channel sid eph sig) (rc_register channel q st)
      in (r, channel, st1))"

definition hook_ops :: "forward_hook option \<Rightarrow> (forward_hook \<Rightarrow> runtime_op) \<Rightarrow> runtime_op list" where
  "hook_ops hook f = (case hook of None \<Rightarrow> [] | Some k \<Rightarrow> [f k])"

definition failure_op :: "string \<Rightarrow> string \<Rightarrow> forward_hook \<Rightarrow> runtime_op" where
  "failure_op stage err k = Op_ForwardFailure (fk_rule_name k) (fk_transport k) stage err"

text \<open>What the wait for the channel to open ended with; None is the timeout of ten seconds.\<close>

definition local_forward_opened ::
  "crypto_prims \<Rightarrow> relay_keypair \<Rightarrow> string \<Rightarrow> resolved_service \<Rightarrow> forward_hook option \<Rightarrow> string
     \<Rightarrow> open_state result option \<Rightarrow> relay_client
     \<Rightarrow> (secure_sender \<times> secure_receiver) result \<times> runtime_op list \<times> relay_client" where
  "local_forward_opened P ephemeral channel resolved hook peer outcome st =
     (case outcome of
        None \<Rightarrow>
          let err = ''timed out waiting for remote service to accept relay channel''
          in (Inl err, hook_ops hook (failure_op ''channel_open'' err),
              rc_unregister channel (snd (relay_send (RE_ChannelClose channel (Some err)) st)))
      | Some (Inl err) \<Rightarrow>
          (Inl err, hook_ops hook (failure_op ''channel_open'' err), rc_unregister channel st)
      | Some (Inr (Open_Rejected reason)) \<Rightarrow>
          let err = ''remote service rejected relay channel: '' @ reason
          in (Inl err, hook_ops hook (failure_op ''channel_open'' err), rc_unregister channel st)
      | Some (Inr Open_Accepted) \<Rightarrow>
          let noted = hook_ops hook (\<lambda>k. Op_ForwardConnection (fk_rule_name k) (fk_transport k) peer) in
          (case crypto_result ''failed to derive relay shared secret''
                  (shared_secret_with_public_key P ephemeral (rz_target_relay_public_key resolved)) of
             Inl e \<Rightarrow> (Inl e, noted, st)
           | Inr secret \<Rightarrow> (Inr (secure_channel_pair P secret channel Initiator), noted, st)))"

text \<open>After the bridge.\<close>

definition local_forward_closed ::
  "forward_hook option \<Rightarrow> string \<Rightarrow> unit result \<Rightarrow> runtime_op list" where
  "local_forward_closed hook peer bridge_result =
     (case bridge_result of Inl e \<Rightarrow> hook_ops hook (failure_op ''data_plane'' e) | Inr _ \<Rightarrow> [])
       @ hook_ops hook (\<lambda>k. Op_ForwardClosed (fk_rule_name k) peer)"

section \<open>Carrying a stream\<close>

text \<open>
  The two tasks of \<open>bridge_stream_with_channel\<close>: one reads the local stream, the other takes the
  channel's envelopes. The first that ends aborts the other. A step of either task is one round of
  its loop; the socket's answer to a write is the number of bytes it took before it failed, or success.
\<close>

record relay_bridge =
  rb_sender :: secure_sender
  rb_receiver :: secure_receiver
  rb_written :: "byte list"
  rb_shutdown :: bool
  rb_result :: "unit result option"

definition relay_bridge_init :: "secure_sender \<times> secure_receiver \<Rightarrow> relay_bridge" where
  "relay_bridge_init halves =
     \<lparr>rb_sender = fst halves, rb_receiver = snd halves, rb_written = [], rb_shutdown = False, rb_result = None\<rparr>"

datatype relay_bridge_event =
    RB_Read "byte list"
  | RB_ReadError string
  | RB_Incoming relay_envelope "nat + unit"
  | RB_IncomingClosed

definition rb_end :: "unit result \<Rightarrow> relay_bridge \<Rightarrow> relay_bridge" where
  "rb_end r b = b\<lparr>rb_result := Some r\<rparr>"

definition reader_round ::
  "crypto_prims \<Rightarrow> string \<Rightarrow> byte list \<Rightarrow> relay_bridge \<times> relay_client \<Rightarrow> relay_bridge \<times> relay_client" where
  "reader_round P channel bytes s =
     (case s of (b, st) \<Rightarrow>
        if bytes = []
        then (rb_end (Inr ()) b,
              snd (relay_send (RE_ChannelClose channel (Some ''local tcp stream closed'')) st))
        else
          (case encrypt_to_base64 P (rb_sender b) bytes of
             (r, sender') \<Rightarrow>
               let b1 = b\<lparr>rb_sender := sender'\<rparr> in
               (case crypto_result ''failed to encrypt relay payload'' r of
                  Inl e \<Rightarrow> (rb_end (Inl e) b1, st)
                | Inr data \<Rightarrow>
                    (case relay_send (RE_ChannelData channel data) st of
                       (Inl e, st1) \<Rightarrow> (rb_end (Inl e) b1, st1)
                     | (Inr _, st1) \<Rightarrow> (b1, st1)))))"

definition writer_round :: "crypto_prims \<Rightarrow> relay_envelope \<Rightarrow> nat + unit \<Rightarrow> relay_bridge \<Rightarrow> relay_bridge" where
  "writer_round P e io b =
     (case e of
        RE_ChannelData _ data \<Rightarrow>
          (case decrypt_from_base64 P (rb_receiver b) data of
             (r, receiver') \<Rightarrow>
               let b1 = b\<lparr>rb_receiver := receiver'\<rparr> in
               (case crypto_result ''failed to decrypt relay payload'' r of
                  Inl err \<Rightarrow> rb_end (Inl err) b1
                | Inr bytes \<Rightarrow>
                    (case io of
                       Inl n \<Rightarrow> rb_end (Inl ''failed to write local tcp stream'')
                                  (b1\<lparr>rb_written := rb_written b1 @ take n bytes\<rparr>)
                     | Inr _ \<Rightarrow> b1\<lparr>rb_written := rb_written b1 @ bytes\<rparr>)))
      | RE_ChannelClose _ _ \<Rightarrow>
          (case io of Inl _ \<Rightarrow> rb_end (Inl ''failed to shutdown local tcp stream'') b
           | Inr _ \<Rightarrow> rb_end (Inr ()) (b\<lparr>rb_shutdown := True\<rparr>))
      | RE_ChannelRejected _ _ \<Rightarrow>
          (case io of Inl _ \<Rightarrow> rb_end (Inl ''failed to shutdown local tcp stream'') b
           | Inr _ \<Rightarrow> rb_end (Inr ()) (b\<lparr>rb_shutdown := True\<rparr>))
      | _ \<Rightarrow> b)"

fun relay_bridge_step ::
  "crypto_prims \<Rightarrow> string \<Rightarrow> relay_bridge_event \<Rightarrow> relay_bridge \<times> relay_client \<Rightarrow> relay_bridge \<times> relay_client" where
  "relay_bridge_step P channel ev (b, st) =
     (if rb_result b \<noteq> None then (b, st)
      else case ev of
             RB_Read bytes \<Rightarrow> reader_round P channel bytes (b, st)
           | RB_ReadError err \<Rightarrow> (rb_end (Inl ''failed to read local tcp stream'') b, st)
           | RB_Incoming e io \<Rightarrow> (writer_round P e io b, st)
           | RB_IncomingClosed \<Rightarrow> (rb_end (Inr ()) b, st))"

definition relay_bridge_run ::
  "crypto_prims \<Rightarrow> string \<Rightarrow> relay_bridge_event list \<Rightarrow> relay_bridge \<times> relay_client \<Rightarrow> relay_bridge \<times> relay_client" where
  "relay_bridge_run P channel evs s = fold (relay_bridge_step P channel) evs s"

text \<open>\<open>bridge_stream_with_channel\<close>: once a task has ended, the route goes.\<close>

definition relay_bridge_finish :: "string \<Rightarrow> relay_bridge \<times> relay_client \<Rightarrow> unit result option \<times> relay_client" where
  "relay_bridge_finish channel s =
     (case rb_result (fst s) of None \<Rightarrow> (None, snd s) | Some r \<Rightarrow> (Some r, rc_unregister channel (snd s)))"

end
