(* ===== verification/DirectChannels.thy ===== *)
theory DirectChannels
  imports DirectTasks RelayClient
begin

text \<open>
  Channels over a direct connection (\<open>minipunch-agent/src/direct.rs\<close>): the two sides of opening one,
  what is reported around the bridge that then carries the stream, and a session of a service from the
  probe to its end. An asynchronous function is split where it waits; what it waits for is the argument
  of the next part.
\<close>

section \<open>Reports\<close>

definition service_ops :: "service_hook option \<Rightarrow> (service_hook \<Rightarrow> runtime_op) \<Rightarrow> runtime_op list" where
  "service_ops hook f = (case hook of None \<Rightarrow> [] | Some k \<Rightarrow> [f k])"

definition service_failure_op :: "string \<Rightarrow> string \<Rightarrow> service_hook \<Rightarrow> runtime_op" where
  "service_failure_op stage err k = Op_ServiceFailure (sh_service_name k) (sh_transport k) stage err"

definition service_state_op :: "string \<Rightarrow> string \<Rightarrow> service_hook \<Rightarrow> runtime_op" where
  "service_state_op state detail k =
     Op_Service (sh_service_name k) (sh_direct_enabled k) (Some (sh_transport k)) state detail None"

definition forward_state_op :: "string \<Rightarrow> string \<Rightarrow> forward_hook \<Rightarrow> runtime_op" where
  "forward_state_op state detail k =
     Op_Forward (fk_rule_name k) (fk_configured_transport k) (Some (fk_transport k)) state detail None"

section \<open>Opening a channel\<close>

text \<open>
  The switch for automated tests: the environment variable, and a flag that is set once per process.
\<close>

definition prebridge_enabled :: "string option \<Rightarrow> bool" where
  "prebridge_enabled env =
     (case env of None \<Rightarrow> False
      | Some v \<Rightarrow> let n = to_ascii_lowercase (trim v) in n \<noteq> '''' \<and> n \<noteq> ''0'' \<and> n \<noteq> ''false'')"

definition consume_direct_prebridge_fail_once :: "string option \<Rightarrow> bool \<Rightarrow> bool \<times> bool" where
  "consume_direct_prebridge_fail_once env flag = (if prebridge_enabled env then (flag, False) else (False, flag))"

text \<open>Up to the wait for the answer. The ephemeral key pair and the token of the channel id are random.\<close>

definition direct_forward_begin ::
  "crypto_prims \<Rightarrow> relay_keypair \<Rightarrow> byte list \<Rightarrow> nat \<Rightarrow> device_identity \<Rightarrow> resolved_service \<Rightarrow> forward_hook option
     \<Rightarrow> bool \<Rightarrow> direct_conn \<Rightarrow> unit result \<times> string \<times> runtime_op list \<times> direct_conn" where
  "direct_forward_begin P ephemeral rnd q identity resolved hook forced dn =
     (let device = identity_device_id P identity;
          eph = keypair_public_key_base64 P ephemeral;
          channel = generate_token P rnd ''dch'';
          dn1 = dn_register channel q dn;
          sid = sd_service_id (rz_service resolved);
          sig = sign_base64 P identity (relay_channel_open_message channel sid device eph);
          failed = (\<lambda>err st. (Inl err, channel, hook_ops hook (failure_op ''channel_open'' err), dn_unregister channel st))
      in if forced
         then failed ''forced direct pre-bridge failure for smoke automation before channel open'' dn1
         else (case direct_send (DT_OpenChannel (dn_rendezvous dn) channel sid device eph sig) dn1 of
                 (Inl err, dn2) \<Rightarrow> failed err dn2
               | (Inr _, dn2) \<Rightarrow> (Inr (), channel, [], dn2)))"

text \<open>What the wait ended with; None is the timeout of ten seconds.\<close>

definition direct_forward_opened ::
  "crypto_prims \<Rightarrow> relay_keypair \<Rightarrow> string \<Rightarrow> resolved_service \<Rightarrow> forward_hook option \<Rightarrow> string
     \<Rightarrow> open_state result option \<Rightarrow> direct_conn
     \<Rightarrow> (secure_sender \<times> secure_receiver) result \<times> runtime_op list \<times> direct_conn" where
  "direct_forward_opened P ephemeral channel resolved hook peer outcome dn =
     (let failed = (\<lambda>err ops. (Inl err, ops @ hook_ops hook (failure_op ''channel_open'' err), dn_unregister channel dn))
      in case outcome of
           None \<Rightarrow> failed ''timed out waiting for remote service to accept direct channel'' []
         | Some (Inl err) \<Rightarrow> failed err []
         | Some (Inr (Open_Rejected reason)) \<Rightarrow> failed (''remote service rejected direct channel: '' @ reason) []
         | Some (Inr Open_Accepted) \<Rightarrow>
             let noted = hook_ops hook (\<lambda>k. Op_ForwardConnection (fk_rule_name k) (fk_transport k) peer) in
             (case crypto_result ''failed to derive direct shared secret''
                     (shared_secret_with_public_key P ephemeral (rz_target_relay_public_key resolved)) of
                Inl err \<Rightarrow> failed err noted
              | Inr secret \<Rightarrow> (Inr (secure_channel_pair P secret channel Initiator), noted, dn)))"

text \<open>After the bridge.\<close>

definition direct_forward_closed :: "forward_hook option \<Rightarrow> string \<Rightarrow> unit result \<Rightarrow> runtime_op list" where
  "direct_forward_closed hook peer bridge_result =
     hook_ops hook (\<lambda>k. Op_ForwardClosed (fk_rule_name k) peer) @ hook_ops hook (\<lambda>k. Op_ForwardClear (fk_rule_name k))
       @ (case bridge_result of Inl e \<Rightarrow> hook_ops hook (failure_op ''data_plane'' e) | Inr _ \<Rightarrow> [])"

section \<open>Accepting a channel\<close>

text \<open>
  Until the local target is connected: the checks, then the route of the channel. The result says
  whether to go on, and is \<open>Inr False\<close> when the channel has been rejected.
\<close>

definition direct_incoming_begin ::
  "crypto_prims \<Rightarrow> string \<Rightarrow> string \<Rightarrow> string \<Rightarrow> service_hook option \<Rightarrow> nat \<Rightarrow> direct_incoming_channel \<Rightarrow> direct_conn
     \<Rightarrow> bool result \<times> runtime_op list \<times> direct_conn" where
  "direct_incoming_begin P source_key expected_source expected_service hook q ch dn =
     (let reject = (\<lambda>reason.
            let ops = service_ops hook (service_failure_op ''channel_open'' reason) in
            (case direct_send (DT_ChannelRejected (di_rendezvous_id ch) (di_channel_id ch) reason) dn of
               (Inl e, dn1) \<Rightarrow> (Inl e, ops, dn1)
             | (Inr _, dn1) \<Rightarrow> (Inr False, ops, dn1)))
      in if di_source_device_id ch \<noteq> expected_source then reject ''unexpected source device for direct channel''
         else if di_service_id ch \<noteq> expected_service then reject ''unexpected service for direct channel''
         else if device_id_from_public_key P source_key \<noteq> di_source_device_id ch
         then reject ''source device identity key does not match source_device_id''
         else
           (case crypto_result ''source direct open signature verification failed''
                   (verify_signature_base64 P source_key
                     (relay_channel_open_message (di_channel_id ch) (di_service_id ch) (di_source_device_id ch)
                       (di_source_ephemeral_public_key ch))
                     (di_source_open_signature ch)) of
              Inl err \<Rightarrow> (Inl err, service_ops hook (service_failure_op ''channel_open'' err), dn)
            | Inr _ \<Rightarrow> (Inr True, [], dn_register (di_channel_id ch) q dn)))"

text \<open>Once the connection to the local target is there or has failed.\<close>

definition direct_incoming_connected ::
  "crypto_prims \<Rightarrow> relay_keypair \<Rightarrow> service_hook option \<Rightarrow> direct_incoming_channel \<Rightarrow> unit result \<Rightarrow> direct_conn
     \<Rightarrow> (secure_sender \<times> secure_receiver) option result \<times> runtime_op list \<times> direct_conn" where
  "direct_incoming_connected P keys hook ch connect dn =
     (case connect of
        Inl err \<Rightarrow>
          let reason = ''failed to connect local target: '' @ err;
              ops = service_ops hook (service_failure_op ''channel_open'' reason) in
          (case direct_send (DT_ChannelRejected (di_rendezvous_id ch) (di_channel_id ch) reason) dn of
             (Inl e, dn1) \<Rightarrow> (Inl e, ops, dn1)
           | (Inr _, dn1) \<Rightarrow> (Inr None, ops, dn_unregister (di_channel_id ch) dn1))
      | Inr _ \<Rightarrow>
          (case crypto_result ''failed to derive direct shared secret''
                  (shared_secret_with_public_key P keys (di_source_ephemeral_public_key ch)) of
             Inl e \<Rightarrow> (Inl e, service_ops hook (service_failure_op ''channel_open'' e), dn_unregister (di_channel_id ch) dn)
           | Inr secret \<Rightarrow>
               (case direct_send (DT_ChannelAccepted (di_rendezvous_id ch) (di_channel_id ch)) dn of
                  (Inl e, dn1) \<Rightarrow> (Inl e, [], dn1)
                | (Inr _, dn1) \<Rightarrow>
                    (Inr (Some (secure_channel_pair P secret (di_channel_id ch) Responder)),
                     service_ops hook (\<lambda>k. Op_ServiceConnection (sh_service_name k) (sh_transport k) (di_source_device_id ch)),
                     dn1))))"

definition direct_incoming_closed :: "service_hook option \<Rightarrow> unit result \<Rightarrow> runtime_op list" where
  "direct_incoming_closed hook bridge_result =
     service_ops hook (\<lambda>k. Op_ServiceClear (sh_service_name k))
       @ (case bridge_result of Inl e \<Rightarrow> service_ops hook (service_failure_op ''data_plane'' e) | Inr _ \<Rightarrow> [])"

section \<open>A session of a service\<close>

datatype serve_event = SV_Channel direct_incoming_channel | SV_No_More | SV_Closed | SV_Interrupt

text \<open>The select loop: the channels that handlers are spawned for, the reports, and whether it has ended.\<close>

fun serve_loop ::
  "service_hook option \<Rightarrow> string \<Rightarrow> string \<Rightarrow> serve_event list
     \<Rightarrow> direct_incoming_channel list \<times> runtime_op list \<times> bool" where
  "serve_loop hook service rendezvous [] = ([], [], False)"
| "serve_loop hook service rendezvous (SV_Channel ch # evs) =
     (let (chs, ops, ended) = serve_loop hook service rendezvous evs in (ch # chs, ops, ended))"
| "serve_loop hook service rendezvous (SV_No_More # evs) = ([], [], True)"
| "serve_loop hook service rendezvous (SV_Closed # evs) =
     ([], service_ops hook (service_failure_op ''data_plane''
        (''direct UDP connection closed for service '' @ service @ '' on rendezvous '' @ rendezvous)), True)"
| "serve_loop hook service rendezvous (SV_Interrupt # evs) = ([], [], True)"

text \<open>From the end of the probe on; the result is None while the session lasts.\<close>

definition serve_session ::
  "service_hook option \<Rightarrow> string \<Rightarrow> string \<Rightarrow> string \<Rightarrow> unit result \<Rightarrow> serve_event list
     \<Rightarrow> direct_incoming_channel list \<times> runtime_op list \<times> unit result option" where
  "serve_session hook service rendezvous bind_addr probed evs =
     (case probed of
        Inl err \<Rightarrow> ([], service_ops hook (service_failure_op ''probe'' err), Some (Inl err))
      | Inr _ \<Rightarrow>
          let started = service_ops hook (\<lambda>k. Op_SessionStarted (sh_service_name k))
                @ service_ops hook (service_state_op ''direct_active''
                    (''serving rendezvous '' @ rendezvous @ '' via '' @ bind_addr));
              (chs, ops, ended) = serve_loop hook service rendezvous evs
          in if ended
             then (chs, started @ ops @ service_ops hook (\<lambda>k. Op_SessionEnded (sh_service_name k)), Some (Inr ()))
             else (chs, started @ ops, None))"

definition run_direct_tcp_serve_with_socket ::
  "service_hook option \<Rightarrow> string \<Rightarrow> string \<Rightarrow> string \<Rightarrow> unit result \<Rightarrow> serve_event list
     \<Rightarrow> direct_incoming_channel list \<times> runtime_op list \<times> unit result option" where
  "run_direct_tcp_serve_with_socket = serve_session"

text \<open>On the shared socket the session is registered first and unregistered last.\<close>

definition run_direct_tcp_serve_on_hub ::
  "service_hook option \<Rightarrow> string \<Rightarrow> string \<Rightarrow> string \<Rightarrow> nat \<Rightarrow> unit result \<Rightarrow> serve_event list \<Rightarrow> session_routes
     \<Rightarrow> (direct_incoming_channel list \<times> runtime_op list \<times> unit result option) \<times> session_routes" where
  "run_direct_tcp_serve_on_hub hook service rendezvous bind_addr q probed evs routes =
     (case register_session rendezvous q routes of
        (Inl e, routes1) \<Rightarrow> (([], [], Some (Inl e)), routes1)
      | (Inr _, routes1) \<Rightarrow>
          (case serve_session hook service rendezvous bind_addr probed evs of
             (chs, ops, None) \<Rightarrow> ((chs, ops, None), routes1)
           | (chs, ops, Some r) \<Rightarrow> ((chs, ops, Some r), unregister_session rendezvous routes1)))"

section \<open>A forward over a prepared path\<close>

definition prepare_direct_tcp_forward ::
  "forward_hook option \<Rightarrow> string \<Rightarrow> (string \<times> string) result \<Rightarrow> (string \<times> string \<times> string) result \<times> runtime_op list" where
  "prepare_direct_tcp_forward hook rendezvous probed =
     (case probed of
        Inl err \<Rightarrow> (Inl err, hook_ops hook (failure_op ''probe'' err))
      | Inr (peer_addr, peer) \<Rightarrow> (Inr (rendezvous, peer_addr, peer), []))"

definition into_direct_forward_ingress :: "string \<times> string \<times> string \<Rightarrow> string \<times> direct_conn \<times> string" where
  "into_direct_forward_ingress prepared =
     (case prepared of (rendezvous, peer_addr, peer) \<Rightarrow> (rendezvous, direct_from_socket rendezvous peer_addr, peer))"

datatype direct_forward_event = DF_Accept "string + string" | DF_Closed

fun direct_forward_loop ::
  "forward_hook option \<Rightarrow> string \<Rightarrow> direct_forward_event list \<Rightarrow> string list \<times> runtime_op list \<times> unit result option" where
  "direct_forward_loop hook bind [] = ([], [], None)"
| "direct_forward_loop hook bind (DF_Accept (Inl _) # evs) = ([], [], Some (Inl (''failed to accept on '' @ bind)))"
| "direct_forward_loop hook bind (DF_Accept (Inr peer) # evs) =
     (let (ps, ops, r) = direct_forward_loop hook bind evs in (peer # ps, ops, r))"
| "direct_forward_loop hook bind (DF_Closed # evs) =
     (let err = ''direct UDP connection closed for local forward '' @ bind
      in ([], hook_ops hook (failure_op ''data_plane'' err), Some (Inl err)))"

definition run_prepared_direct_tcp_forward ::
  "forward_hook option \<Rightarrow> string \<Rightarrow> string \<times> string \<times> string \<Rightarrow> unit result \<Rightarrow> direct_forward_event list
     \<Rightarrow> string list \<times> runtime_op list \<times> unit result option" where
  "run_prepared_direct_tcp_forward hook bind prepared listener evs =
     (case listener of
        Inl e \<Rightarrow>
          let err = ''failed to bind local direct forward address '' @ bind @ '': '' @ e
          in ([], hook_ops hook (failure_op ''local_bind'' err), Some (Inl err))
      | Inr _ \<Rightarrow>
          let active = hook_ops hook (forward_state_op ''direct_active''
                (''direct active on '' @ bind @ '' via rendezvous '' @ fst prepared));
              (ps, ops, r) = direct_forward_loop hook bind evs
          in (ps, active @ ops, r))"

definition run_direct_tcp_forward ::
  "forward_hook option \<Rightarrow> string \<Rightarrow> (string \<times> string) result \<Rightarrow> string \<Rightarrow> unit result \<Rightarrow> direct_forward_event list
     \<Rightarrow> string list \<times> runtime_op list \<times> unit result option" where
  "run_direct_tcp_forward hook rendezvous probed bind listener evs =
     (case prepare_direct_tcp_forward hook rendezvous probed of
        (Inl e, ops) \<Rightarrow> ([], ops, Some (Inl e))
      | (Inr prepared, ops) \<Rightarrow>
          (case run_prepared_direct_tcp_forward hook bind prepared listener evs of
             (ps, ops', r) \<Rightarrow> (ps, ops @ ops', r)))"

end
