(* ===== verification/Supervisors.thy ===== *)
theory Supervisors
  imports DirectChannels AgentConfig
begin

text \<open>
  The agent's background tasks that keep services and forwards going (\<open>minipunch-agent/src/lib.rs\<close>):
  waiting for a rendezvous, preparing a direct path, the sessions of a direct service and their
  supervisor, and the supervisors of the relay service and of a relay forward. The answers of the
  server and of the network are arguments; \<open>observed\<close> says whether there is a runtime state to report to.
\<close>

section \<open>Waiting for a rendezvous\<close>

text \<open>The answers to the polls, each with the time after it; None while the task still polls.\<close>

fun wait_for_ready_rendezvous_with_session ::
  "string \<Rightarrow> nat \<Rightarrow> (direct_rendezvous_session result \<times> nat) list \<Rightarrow> direct_rendezvous_session result option" where
  "wait_for_ready_rendezvous_with_session rendezvous deadline [] = None"
| "wait_for_ready_rendezvous_with_session rendezvous deadline ((answer, now) # polls) =
     (case answer of
        Inl e \<Rightarrow> Some (Inl e)
      | Inr s \<Rightarrow>
          if rs_status s = ''ready'' then Some (Inr s)
          else if rs_status s = ''expired''
          then Some (Inl (''direct rendezvous '' @ rendezvous @ '' has already expired''))
          else if deadline \<le> now
          then Some (Inl (''timed out waiting for direct rendezvous '' @ rendezvous @ '' to become ready''))
          else wait_for_ready_rendezvous_with_session rendezvous deadline polls)"

section \<open>Preparing a direct path\<close>

definition observing :: "bool \<Rightarrow> runtime_op list \<Rightarrow> runtime_op list" where
  "observing observed ops = (if observed then ops else [])"

text \<open>
  What \<open>prepare_auto_direct_forward\<close> is told: the answer to the start, what waiting ended with, the
  answer to the lookup, and what the probe ended with. The result is the rendezvous, the peer's address
  and its device.
\<close>

record direct_answers =
  da_start :: "direct_rendezvous_session result"
  da_ready :: "direct_rendezvous_session result"
  da_peer_key :: "string result"
  da_probed :: "(string \<times> string) result"

definition start_request :: "string \<Rightarrow> string \<Rightarrow> string \<Rightarrow> string \<Rightarrow> start_direct_rendezvous_request" where
  "start_request target service udp candidate_type =
     \<lparr>sr_target_device_id = target, sr_service_name = service, sr_source_candidates = [bind_candidate udp candidate_type]\<rparr>"

definition auto_direct_hook :: "bool \<Rightarrow> string \<Rightarrow> string \<Rightarrow> forward_hook option" where
  "auto_direct_hook observed rule transport =
     (if observed then Some \<lparr>fk_rule_name = rule, fk_configured_transport = ''auto'', fk_transport = transport\<rparr> else None)"

definition prepare_auto_direct_forward ::
  "bool \<Rightarrow> string \<Rightarrow> string \<Rightarrow> string \<Rightarrow> string \<Rightarrow> string option \<Rightarrow> string \<Rightarrow> string \<Rightarrow> direct_answers
     \<Rightarrow> (string \<times> string \<times> string) result \<times> runtime_op list" where
  "prepare_auto_direct_forward observed rule target service udp transport start_detail ready_prefix a =
     (let note = (\<lambda>detail. observing observed [Op_Forward rule ''auto'' transport ''direct_connecting'' detail None]);
          failed = (\<lambda>stage err ops. (Inl err, ops @ observing observed [Op_ForwardFailure rule ''direct'' stage err]))
      in case da_start a of
           Inl err \<Rightarrow> failed ''rendezvous_start'' err (note start_detail)
         | Inr s0 \<Rightarrow>
             let ops1 = note start_detail @ note (''waiting for rendezvous '' @ rs_rendezvous_id s0 @ '' to become ready'') in
             (case da_ready a of
                Inl err \<Rightarrow> failed ''rendezvous_wait'' err ops1
              | Inr s \<Rightarrow>
                  (case da_peer_key a of
                     Inl err \<Rightarrow> failed ''peer_lookup'' err ops1
                   | Inr _ \<Rightarrow>
                       let ops2 = ops1 @ note (''rendezvous '' @ rs_rendezvous_id s @ '' is ready; '' @ ready_prefix @ '' via '' @ udp) in
                       (case prepare_direct_tcp_forward (auto_direct_hook observed rule ''direct'') (rs_rendezvous_id s) (da_probed a) of
                          (Inl _, ops3) \<Rightarrow>
                            (Inl (''failed to prepare direct forward for '' @ target @ '':'' @ service), ops2 @ ops3)
                        | (Inr prepared, ops3) \<Rightarrow> (Inr prepared, ops2 @ ops3)))))"

section \<open>A session of a direct service\<close>

text \<open>The service announces its own candidate unless the rendezvous has exactly that one.\<close>

definition must_announce :: "string \<Rightarrow> string \<Rightarrow> direct_rendezvous_session \<Rightarrow> bool" where
  "must_announce udp candidate_type s =
     (rp_announced_at (rs_target s) = None \<or> length (rp_candidates (rs_target s)) \<noteq> 1
      \<or> dc_addr (rp_candidates (rs_target s) ! 0) \<noteq> udp \<or> dc_candidate_type (rp_candidates (rs_target s) ! 0) \<noteq> candidate_type)"

text \<open>The answer to the announcement, what waiting and the lookup ended with, and the serving of the session.\<close>

record session_answers =
  sa_announced :: "unit result"
  sa_ready :: "direct_rendezvous_session result"
  sa_peer_key :: "string result"
  sa_probed :: "unit result"
  sa_served :: "serve_event list"

definition run_direct_service_session ::
  "bool \<Rightarrow> published_service_config \<Rightarrow> string \<Rightarrow> string \<Rightarrow> direct_rendezvous_session \<Rightarrow> nat \<Rightarrow> nat \<Rightarrow> session_answers
     \<Rightarrow> session_routes \<Rightarrow> (unit result option \<times> direct_incoming_channel list \<times> runtime_op list) \<times> session_routes" where
  "run_direct_service_session observed service udp candidate_type s concurrent q a routes =
     (let rendezvous = rs_rendezvous_id s;
          name = ps_name service;
          note = (\<lambda>transport detail. observing observed
             [Op_Service name (ps_direct_enabled service) transport ''direct_connecting'' detail None]);
          failed = (\<lambda>stage err ops. ((Some (Inl err), [], ops @ observing observed [Op_ServiceFailure name ''direct'' stage err]), routes));
          serving = ''serving '' @ show_nat concurrent @ '' direct session(s); '';
          ops0 = (if 0 < concurrent
                  then note (Some ''direct'') (serving @ ''preparing rendezvous '' @ rendezvous @ '' via '' @ udp)
                  else note None (''preparing rendezvous '' @ rendezvous @ '' via '' @ udp))
      in case (if must_announce udp candidate_type s then sa_announced a else Inr ()) of
           Inl err \<Rightarrow> failed ''announce_candidate'' err ops0
         | Inr _ \<Rightarrow>
             (case sa_ready a of
                Inl err \<Rightarrow> failed ''rendezvous_wait'' err ops0
              | Inr ready \<Rightarrow>
                  (case sa_peer_key a of
                     Inl err \<Rightarrow> failed ''peer_lookup'' err ops0
                   | Inr _ \<Rightarrow>
                       let ops1 = ops0 @ note (Some ''direct'')
                             (if 0 < concurrent then serving @ ''probing rendezvous '' @ rendezvous @ '' via '' @ udp
                              else ''rendezvous '' @ rendezvous @ '' is ready; probing direct path via '' @ udp);
                           hook = (if observed then Some \<lparr>sh_service_name = name, sh_direct_enabled = ps_direct_enabled service,
                                     sh_transport = ''direct''\<rparr> else None)
                       in (case run_direct_tcp_serve_on_hub hook name (rs_rendezvous_id ready) udp q (sa_probed a) (sa_served a) routes of
                             ((chs, ops2, r), routes') \<Rightarrow> ((r, chs, ops1 @ ops2), routes')))))"

section \<open>The supervisor of a direct service\<close>

record direct_supervisor =
  du_handled :: "string list"
  du_active :: "string list"
  du_retry :: nat
  du_spawned :: "(direct_rendezvous_session \<times> nat) list"

definition direct_supervisor_init :: direct_supervisor where
  "direct_supervisor_init = \<lparr>du_handled = [], du_active = [], du_retry = runtime_retry_initial_backoff, du_spawned = []\<rparr>"

definition waiting_op :: "published_service_config \<Rightarrow> string \<Rightarrow> string option \<Rightarrow> runtime_op" where
  "waiting_op service detail err = Op_Service (ps_name service) (ps_direct_enabled service) None ''waiting_direct'' detail err"

text \<open>\<open>bind_hub\<close>, before the loop.\<close>

definition direct_supervisor_begin ::
  "bool \<Rightarrow> published_service_config \<Rightarrow> string \<Rightarrow> unit result \<Rightarrow> direct_supervisor result \<times> runtime_op list" where
  "direct_supervisor_begin observed service udp bound =
     (case bound of
        Inl err \<Rightarrow> (Inl err, observing observed [Op_ServiceFailure (ps_name service) ''direct'' ''bind_hub'' err])
      | Inr _ \<Rightarrow>
          (Inr direct_supervisor_init,
           observing observed
             [if ps_direct_enabled service then waiting_op service (''waiting for direct rendezvous on '' @ udp) None
              else Op_Service (ps_name service) False None ''relay_only'' ''relay-only published service'' None]))"

text \<open>A task that has ended: the rendezvous and its outcome, or None for a panic.\<close>

definition direct_supervisor_join ::
  "bool \<Rightarrow> published_service_config \<Rightarrow> (string \<times> unit result) option \<Rightarrow> direct_supervisor
     \<Rightarrow> runtime_op list \<times> direct_supervisor" where
  "direct_supervisor_join observed service ended st =
     (case ended of
        None \<Rightarrow> ([], st)
      | Some (rendezvous, outcome) \<Rightarrow>
          let st1 = st\<lparr>du_active := removeAll rendezvous (du_active st), du_handled := List.insert rendezvous (du_handled st)\<rparr> in
          (if du_active st1 = []
           then observing observed
             [case outcome of
                Inr _ \<Rightarrow> waiting_op service (''direct session '' @ rendezvous @ '' ended; waiting for the next rendezvous'') None
              | Inl err \<Rightarrow> waiting_op service (''direct session '' @ rendezvous @ '' failed; waiting for the next rendezvous'') (Some err)]
           else [], st1))"

definition direct_supervisor_wanted ::
  "string \<Rightarrow> published_service_config \<Rightarrow> direct_supervisor \<Rightarrow> direct_rendezvous_session \<Rightarrow> bool" where
  "direct_supervisor_wanted local service st s =
     (rs_target_device_id s = local \<and> rs_service_name s = ps_name service
      \<and> rs_rendezvous_id s \<notin> set (du_handled st) \<and> rs_rendezvous_id s \<notin> set (du_active st))"

definition direct_supervisor_attempt ::
  "bool \<Rightarrow> published_service_config \<Rightarrow> string \<Rightarrow> direct_rendezvous_session \<Rightarrow> runtime_op list \<times> direct_supervisor
     \<Rightarrow> runtime_op list \<times> direct_supervisor" where
  "direct_supervisor_attempt observed service udp s acc =
     (case acc of (ops, st) \<Rightarrow>
        if rs_status s = ''expired'' then (ops, st\<lparr>du_handled := List.insert (rs_rendezvous_id s) (du_handled st)\<rparr>)
        else
          let n = length (du_active st) in
          (ops @ observing observed
             [Op_Service (ps_name service) (ps_direct_enabled service) (if 0 < n then Some ''direct'' else None) ''direct_connecting''
                (if 0 < n then ''serving '' @ show_nat n @ '' direct session(s); polling and preparing additional rendezvous on shared hub '' @ udp
                 else ''preparing direct rendezvous on shared hub '' @ udp) None],
           st\<lparr>du_active := List.insert (rs_rendezvous_id s) (du_active st), du_spawned := du_spawned st @ [(s, n)],
              du_retry := runtime_retry_initial_backoff\<rparr>))"

text \<open>One poll: what is reported, how long the task then sleeps, and the new state.\<close>

definition direct_supervisor_poll ::
  "bool \<Rightarrow> string \<Rightarrow> published_service_config \<Rightarrow> string \<Rightarrow> pending_direct_rendezvous_response result \<Rightarrow> direct_supervisor
     \<Rightarrow> runtime_op list \<times> nat \<times> direct_supervisor" where
  "direct_supervisor_poll observed local service udp answer st =
     (case answer of
        Inl err \<Rightarrow>
          (observing observed
             [Op_ServiceFailure (ps_name service) ''direct'' ''pending_fetch'' err,
              waiting_op service ''failed to fetch pending direct rendezvous; retrying'' (Some err)],
           du_retry st, st\<lparr>du_retry := next_retry_delay (du_retry st)\<rparr>)
      | Inr pending \<Rightarrow>
          let st1 = st\<lparr>du_retry := runtime_retry_initial_backoff\<rparr>;
              attempts = filter (direct_supervisor_wanted local service st1) (pr_attempts pending)
          in if attempts = []
             then (if du_active st1 = [] then observing observed [waiting_op service (''waiting for pending direct rendezvous on '' @ udp) None] else [],
                   500 * 10 ^ 6, st1)
             else (case fold (direct_supervisor_attempt observed service udp) attempts ([], st1) of
                     (ops, st2) \<Rightarrow> (ops, if du_active st2 \<noteq> [] then 200 * 10 ^ 6 else 500 * 10 ^ 6, st2)))"

datatype supervisor_event = DU_Joined "(string \<times> unit result) option" | DU_Polled "pending_direct_rendezvous_response result"

fun direct_supervisor_step ::
  "bool \<Rightarrow> string \<Rightarrow> published_service_config \<Rightarrow> string \<Rightarrow> supervisor_event \<Rightarrow> direct_supervisor \<Rightarrow> direct_supervisor" where
  "direct_supervisor_step observed local service udp (DU_Joined ended) st = snd (direct_supervisor_join observed service ended st)"
| "direct_supervisor_step observed local service udp (DU_Polled answer) st =
     snd (snd (direct_supervisor_poll observed local service udp answer st))"

section \<open>The supervisors of relay services and forwards\<close>

text \<open>However the service loop ends, it is started again after a delay; the delays of so many rounds.\<close>

fun run_relay_service_supervisor :: "unit result list \<Rightarrow> nat \<Rightarrow> nat list" where
  "run_relay_service_supervisor [] retry = []"
| "run_relay_service_supervisor (outcome # outcomes) retry =
     retry # run_relay_service_supervisor outcomes (next_retry_delay retry)"

definition forward_rule_begin :: "bool \<Rightarrow> local_forward_config \<Rightarrow> runtime_op list" where
  "forward_rule_begin observed rule =
     observing observed [Op_Forward (fr_name rule) (fr_transport_mode rule) None ''resolving''
       (''resolving '' @ fr_service_name rule @ '' on '' @ fr_target_device_id rule @ '' via relay'') None]"

text \<open>One round: the answer to the resolution and how the forwarder loop ended; the sleep and the next delay.\<close>

definition forward_rule_round ::
  "bool \<Rightarrow> local_forward_config \<Rightarrow> resolved_service result \<Rightarrow> unit result \<Rightarrow> nat \<Rightarrow> runtime_op list \<times> nat \<times> nat" where
  "forward_rule_round observed rule resolved outcome retry =
     (let note = (\<lambda>transport state detail err. observing observed
            [Op_Forward (fr_name rule) (fr_transport_mode rule) transport state detail err])
      in case resolved of
           Inl err \<Rightarrow>
             (note None ''resolve_retry'' (''failed to resolve '' @ fr_service_name rule @ '' on '' @ fr_target_device_id rule
                 @ ''; retrying in '' @ show_nat (as_secs retry) @ ''s'') (Some err),
              retry, next_retry_delay retry)
         | Inr _ \<Rightarrow>
             let delay = runtime_retry_initial_backoff in
             (note (Some ''relay'') ''relay_active'' (''listening on '' @ fr_local_bind_addr rule @ '' via relay'') None
                @ (case outcome of
                     Inl err \<Rightarrow> note (Some ''relay'') ''relay_retry''
                       (''relay forwarder stopped; retrying in '' @ show_nat (as_secs delay) @ ''s'') (Some err)
                   | Inr _ \<Rightarrow> note (Some ''relay'') ''relay_retry''
                       (''relay forwarder exited unexpectedly; retrying in '' @ show_nat (as_secs delay) @ ''s'') None),
              delay, next_retry_delay delay))"

end
