(* ===== verification/AutoForward.thy ===== *)
theory AutoForward
  imports Supervisors
begin

text \<open>
  The automatic forward (\<open>run_auto_forward_loop\<close> in \<open>minipunch-agent/src/lib.rs\<close>): one listener, and behind
  it an ingress that is the direct path when there is one and the relay otherwise, with the handoff
  from the relay to a direct path and what becomes of connections that arrive during it. The loop is
  cut where it waits: selecting, serving directly, serving by relay.
\<close>

section \<open>The ingress\<close>

text \<open>A direct ingress has the relay to fall back to while relayed connections drain.\<close>

datatype ingress = No_Ingress | Relay_Ingress | Direct_Ingress bool

datatype connection_route = Refused | By_Relay | By_Direct bool

text \<open>The accept loop.\<close>

fun dispatch_connection :: "ingress \<Rightarrow> connection_route" where
  "dispatch_connection No_Ingress = Refused"
| "dispatch_connection Relay_Ingress = By_Relay"
| "dispatch_connection (Direct_Ingress fallback) = By_Direct fallback"

text \<open>
  \<open>handle_local_auto_direct_connection\<close> after the attempt to open a direct channel. The fallback, if the
  ingress has one, is the number of relayed connections and whether its relay is still there.
\<close>

datatype handled = Bridge_Direct | Bridge_Relay | Give_Up string

definition handle_local_auto_direct_connection ::
  "forward_hook option \<Rightarrow> unit result \<Rightarrow> (nat \<times> bool) option \<Rightarrow> handled \<times> runtime_op list" where
  "handle_local_auto_direct_connection hook prepared fallback =
     (case prepared of
        Inr _ \<Rightarrow> (Bridge_Direct, [])
      | Inl err \<Rightarrow>
          (case fallback of
             None \<Rightarrow> (Give_Up err, [])
           | Some (draining, relay_there) \<Rightarrow>
               if 0 < draining
               then (if relay_there then Bridge_Relay else Give_Up err,
                     hook_ops hook (forward_state_op ''direct_handoff_fallback''
                       (''direct handoff failed before channel open; serving this connection via relay while ''
                          @ show_nat draining @ '' relay connection(s) still drain'')))
               else (Give_Up err, [])))"

text \<open>The drain task at one look at the count: whether it has deactivated the fallback.\<close>

definition relay_drain_step :: "forward_hook option \<Rightarrow> string \<Rightarrow> nat \<Rightarrow> bool \<times> runtime_op list" where
  "relay_drain_step hook bind active =
     (if 0 < active then (False, [])
      else (True, hook_ops hook (forward_state_op ''direct_active''
              (''relay drain finished; direct is now the sole ingress on '' @ bind))))"

section \<open>The loop\<close>

datatype auto_phase = Selecting | Serving_Direct | Serving_Relay nat

record auto_forward =
  au_phase :: auto_phase
  au_ingress :: ingress
  au_selection_retry :: nat
  au_direct_retry :: nat

record auto_rule =
  ar_rule :: string
  ar_target :: string
  ar_service :: string
  ar_bind :: string
  ar_udp :: string

abbreviation auto_note :: "bool \<Rightarrow> auto_rule \<Rightarrow> string option \<Rightarrow> string \<Rightarrow> string \<Rightarrow> string option \<Rightarrow> runtime_op list" where
  "auto_note observed r transport state detail err \<equiv> observing observed [Op_Forward (ar_rule r) ''auto'' transport state detail err]"

definition secs :: "nat \<Rightarrow> string" where
  "secs d = show_nat (as_secs d) @ ''s''"

definition run_auto_forward_begin :: "bool \<Rightarrow> auto_rule \<Rightarrow> unit result \<Rightarrow> auto_forward result \<times> runtime_op list" where
  "run_auto_forward_begin observed r listener =
     (case listener of
        Inl e \<Rightarrow>
          let err = ''failed to bind local auto-forward address '' @ ar_bind r @ '': '' @ e
          in (Inl err, observing observed [Op_ForwardFailure (ar_rule r) ''auto'' ''local_bind'' err])
      | Inr _ \<Rightarrow>
          (Inr \<lparr>au_phase = Selecting, au_ingress = No_Ingress, au_selection_retry = runtime_retry_initial_backoff,
             au_direct_retry = auto_direct_retry_initial_backoff\<rparr>,
           auto_note observed r None ''resolving''
             (''resolving '' @ ar_service r @ '' on '' @ ar_target r @ '' for auto transport'') None))"

definition direct_active_ops :: "bool \<Rightarrow> auto_rule \<Rightarrow> string \<Rightarrow> runtime_op list" where
  "direct_active_ops observed r rendezvous =
     hook_ops (auto_direct_hook observed (ar_rule r) ''direct'')
       (forward_state_op ''direct_active'' (''direct active on '' @ ar_bind r @ '' via rendezvous '' @ rendezvous))"

text \<open>
  One pass of the selection: the resolution, the direct attempt, the relay. The second component is how
  long the loop sleeps before it selects again.
\<close>

definition auto_select ::
  "bool \<Rightarrow> auto_rule \<Rightarrow> resolved_service result \<Rightarrow> direct_answers \<Rightarrow> unit result \<Rightarrow> auto_forward
     \<Rightarrow> runtime_op list \<times> nat option \<times> auto_forward" where
  "auto_select observed r resolved direct relay st =
     (let st0 = st\<lparr>au_ingress := No_Ingress\<rparr> in
      case resolved of
        Inl err \<Rightarrow>
          (auto_note observed r None ''resolve_retry''
             (''failed to resolve '' @ ar_service r @ '' on '' @ ar_target r @ ''; retrying in '' @ secs (au_selection_retry st)) (Some err),
           Some (au_selection_retry st), st0\<lparr>au_selection_retry := next_retry_delay (au_selection_retry st)\<rparr>)
      | Inr _ \<Rightarrow>
          let st1 = st0\<lparr>au_selection_retry := runtime_retry_initial_backoff\<rparr> in
          (case prepare_auto_direct_forward observed (ar_rule r) (ar_target r) (ar_service r) (ar_udp r) (Some ''direct'')
                  (''starting direct rendezvous via '' @ ar_udp r) ''probing direct path'' direct of
             (Inr prepared, ops) \<Rightarrow>
               (ops @ direct_active_ops observed r (fst prepared), None,
                st1\<lparr>au_phase := Serving_Direct, au_ingress := Direct_Ingress False,
                    au_direct_retry := auto_direct_retry_initial_backoff,
                    au_selection_retry := runtime_retry_initial_backoff\<rparr>)
           | (Inl _, ops) \<Rightarrow>
               let ops1 = ops
                     @ auto_note observed r (Some ''relay'') ''relay_fallback''
                         (''direct failed; relay fallback is active on '' @ ar_bind r @ '' and will retry direct in ''
                            @ secs (au_direct_retry st)) None
                     @ auto_note observed r (Some ''relay'') ''relay_active''
                         (''listening on '' @ ar_bind r @ '' via relay; retrying direct in '' @ secs (au_direct_retry st)) None
               in (case relay of
                     Inl err \<Rightarrow>
                       (ops1 @ auto_note observed r None ''relay_retry''
                          (''failed to establish relay fallback; retrying in '' @ secs (au_selection_retry st1)) (Some err),
                        Some (au_selection_retry st1), st1\<lparr>au_selection_retry := next_retry_delay (au_selection_retry st1)\<rparr>)
                   | Inr _ \<Rightarrow>
                       (ops1, None, st1\<lparr>au_phase := Serving_Relay (au_direct_retry st), au_ingress := Relay_Ingress\<rparr>))))"

definition auto_direct_retry_idle_grace :: nat where "auto_direct_retry_idle_grace = 3 * 10 ^ 9"
definition auto_direct_retry_busy_poll_interval :: nat where "auto_direct_retry_busy_poll_interval = 2 * 10 ^ 9"

text \<open>While the relay serves: it has closed, or the wait is over, with the counts of its tracker then.\<close>

definition auto_relay_closed :: "bool \<Rightarrow> auto_rule \<Rightarrow> auto_forward \<Rightarrow> runtime_op list \<times> nat option \<times> auto_forward" where
  "auto_relay_closed observed r st =
     (auto_note observed r (Some ''relay'') ''relay_retry''
        (''relay forwarder stopped; retrying in '' @ secs (au_selection_retry st))
        (Some (''relay websocket closed for local forward '' @ ar_bind r)),
      Some (au_selection_retry st),
      st\<lparr>au_phase := Selecting, au_ingress := No_Ingress, au_selection_retry := next_retry_delay (au_selection_retry st)\<rparr>)"

definition auto_relay_round ::
  "bool \<Rightarrow> auto_rule \<Rightarrow> nat \<Rightarrow> nat \<Rightarrow> direct_answers \<Rightarrow> nat \<Rightarrow> auto_forward \<Rightarrow> runtime_op list \<times> nat option \<times> auto_forward" where
  "auto_relay_round observed r active idle direct draining st =
     (let grace = as_secs auto_direct_retry_idle_grace in
      if active = 0 \<and> idle < grace
      then let defer = min (grace - idle) (max (as_secs auto_direct_retry_busy_poll_interval) 1)
           in (auto_note observed r (Some ''relay'') ''direct_retry_deferred''
                 (''relay has been idle for '' @ show_nat idle @ ''s; waiting '' @ show_nat defer @ ''s more before retrying direct'') None,
               None, st\<lparr>au_phase := Serving_Relay (max defer 1 * 10 ^ 9)\<rparr>)
      else
        let detail = (if 0 < active
              then ''relay still has '' @ show_nat active @ '' active connection(s); prewarming direct rendezvous in parallel via '' @ ar_udp r
              else ''relay has been idle for '' @ show_nat idle @ ''s; prewarming direct rendezvous via '' @ ar_udp r)
        in (case prepare_auto_direct_forward observed (ar_rule r) (ar_target r) (ar_service r) (ar_udp r) (Some ''relay'')
                   detail ''prewarming direct path'' direct of
              (Inl _, ops) \<Rightarrow>
                let delay = next_auto_direct_retry_delay (au_direct_retry st)
                in (ops @ auto_note observed r (Some ''relay'') ''relay_active''
                      (''direct prewarm failed; keeping relay active on '' @ ar_bind r @ '' and retrying direct in '' @ secs delay) None,
                    None, st\<lparr>au_phase := Serving_Relay delay, au_direct_retry := delay\<rparr>)
            | (Inr prepared, ops) \<Rightarrow>
                (ops @ auto_note observed r (Some ''relay'') ''direct_ready''
                   (if 0 < draining
                    then ''direct path is ready; switching ingress on '' @ ar_bind r @ '' to direct while draining ''
                           @ show_nat draining @ '' relay connection(s)''
                    else ''direct path is ready; switching ingress on '' @ ar_bind r @ '' from relay to direct'') None
                   @ direct_active_ops observed r (fst prepared),
                 None, st\<lparr>au_phase := Serving_Direct, au_ingress := Direct_Ingress (0 < draining),
                    au_direct_retry := auto_direct_retry_initial_backoff,
                    au_selection_retry := runtime_retry_initial_backoff\<rparr>)))"

text \<open>\<open>wait_closed\<close> of the direct connection has returned.\<close>

definition auto_direct_closed :: "bool \<Rightarrow> auto_rule \<Rightarrow> string \<Rightarrow> auto_forward \<Rightarrow> runtime_op list \<times> nat option \<times> auto_forward" where
  "auto_direct_closed observed r detail st =
     (observing observed
        [Op_ForwardFailure (ar_rule r) ''direct'' ''data_plane'' (''direct UDP connection closed for local forward '' @ ar_bind r),
         Op_Forward (ar_rule r) ''auto'' None ''direct_retry'' detail None],
      None, st\<lparr>au_phase := Selecting, au_ingress := No_Ingress\<rparr>)"

section \<open>Runs\<close>

datatype auto_event =
    AE_Select "resolved_service result" direct_answers "unit result"
  | AE_Relay_Closed
  | AE_Relay_Wait_Over nat nat direct_answers nat
  | AE_Direct_Closed string

text \<open>An event that does not belong to the phase does not occur.\<close>

fun auto_step :: "bool \<Rightarrow> auto_rule \<Rightarrow> auto_event \<Rightarrow> auto_forward \<Rightarrow> runtime_op list \<times> nat option \<times> auto_forward" where
  "auto_step observed r ev st =
     (case (au_phase st, ev) of
        (Selecting, AE_Select resolved direct relay) \<Rightarrow> auto_select observed r resolved direct relay st
      | (Serving_Relay _, AE_Relay_Closed) \<Rightarrow> auto_relay_closed observed r st
      | (Serving_Relay _, AE_Relay_Wait_Over active idle direct draining) \<Rightarrow>
          auto_relay_round observed r active idle direct draining st
      | (Serving_Direct, AE_Direct_Closed detail) \<Rightarrow> auto_direct_closed observed r detail st
      | _ \<Rightarrow> ([], None, st))"

fun auto_run :: "bool \<Rightarrow> auto_rule \<Rightarrow> auto_event list \<Rightarrow> auto_forward \<Rightarrow> (runtime_op list \<times> nat option \<times> auto_forward) list" where
  "auto_run observed r [] st = []"
| "auto_run observed r (ev # evs) st =
     (let out = auto_step observed r ev st in out # auto_run observed r evs (snd (snd out)))"

end
