(* ===== verification/RuntimeLoop.thy ===== *)
theory RuntimeLoop
  imports AutoForward
begin

text \<open>
  The agent's commands that need a session, and its main loop (\<open>AgentRuntime\<close> in
  \<open>minipunch-agent/src/lib.rs\<close>): loading, joining, the rendezvous commands, the serving loops, the runtime
  that starts all background tasks and is started again whenever it fails, until it is shut down.
  The server's answers, the results of writing the file and the times are arguments.
\<close>

section \<open>Starting\<close>

definition agent_init ::
  "crypto_prims \<Rightarrow> agent_config result \<Rightarrow> string \<Rightarrow> string \<Rightarrow> byte list \<Rightarrow> byte list \<Rightarrow> register_device_response result
     \<Rightarrow> unit result \<Rightarrow> agent_runtime result" where
  "agent_init P loaded server_url device_name rnd1 rnd2 answer io =
     result_bind loaded (\<lambda>c0.
     result_bind (load_or_create_identity P rnd1 (c0\<lparr>cf_server_url := server_url, cf_device_name := device_name\<rparr>)) (\<lambda>(identity, c1).
     result_bind (load_or_create_relay_identity P rnd2 c1) (\<lambda>(relay_identity, c2).
       let r = \<lparr>rt_config = c2, rt_file = c0, rt_identity = identity, rt_relay_identity = relay_identity\<rparr> in
       (case agent_register P answer r of
          (Inl _, _) \<Rightarrow> Inl ''failed to join minipunch network''
        | (Inr _, r1) \<Rightarrow>
            (case runtime_save io r1 of (Inl e, _) \<Rightarrow> Inl e | (Inr _, r2) \<Rightarrow> Inr r2)))))"

definition agent_load ::
  "crypto_prims \<Rightarrow> agent_config result \<Rightarrow> byte list \<Rightarrow> byte list \<Rightarrow> agent_runtime result" where
  "agent_load P loaded rnd1 rnd2 =
     result_bind loaded (\<lambda>c0.
       if blank (cf_server_url c0) then Inl ''server_url is missing from config''
       else if blank (cf_device_name c0) then Inl ''device_name is missing from config''
       else result_bind (load_or_create_identity P rnd1 c0) (\<lambda>(identity, c1).
            result_bind (load_or_create_relay_identity P rnd2 c1) (\<lambda>(relay_identity, c2).
              Inr \<lparr>rt_config = c2, rt_file = c0, rt_identity = identity, rt_relay_identity = relay_identity\<rparr>)))"

section \<open>Commands with a session\<close>

text \<open>\<open>ensure_session\<close>, then a call with the session's token.\<close>

definition with_session ::
  "crypto_prims \<Rightarrow> int \<Rightarrow> register_device_response result \<Rightarrow> unit result \<Rightarrow> (string \<Rightarrow> 'a result) \<Rightarrow> agent_runtime
     \<Rightarrow> 'a result \<times> agent_runtime" where
  "with_session P now answer io f r =
     (case ensure_session P now answer io r of
        (Inl e, r1) \<Rightarrow> (Inl e, r1)
      | (Inr _, r1) \<Rightarrow> (result_bind (current_session_token r1) f, r1))"

definition agent_start_direct_rendezvous where
  "agent_start_direct_rendezvous P now answer io start target service candidates =
     with_session P now answer io
       (\<lambda>token. start token \<lparr>sr_target_device_id = target, sr_service_name = service, sr_source_candidates = candidates\<rparr>)"

definition agent_update_candidates where
  "agent_update_candidates P now answer io update rendezvous candidates =
     with_session P now answer io (\<lambda>token. update token rendezvous \<lparr>uc_candidates = candidates\<rparr>)"

definition agent_resolve_service where
  "agent_resolve_service P now answer io snapshot target name =
     with_session P now answer io (\<lambda>token. resolve_service_with_session P (snapshot token) target name)"

definition agent_lookup_device_public_key where
  "agent_lookup_device_public_key P now answer io snapshot device =
     with_session P now answer io (\<lambda>token. lookup_device_public_key_with_session P (snapshot token) device)"

definition agent_published_service_config :: "string \<Rightarrow> agent_config \<Rightarrow> published_service_config result" where
  "agent_published_service_config name c =
     (case List.find (\<lambda>s. ps_name s = name) (cf_published_services c) of
        None \<Rightarrow> Inl (''published service '' @ name @ '' was not found in local config'')
      | Some s \<Rightarrow> Inr s)"

text \<open>Whom \<open>direct_probe\<close> probes.\<close>

definition direct_probe_peer :: "agent_config \<Rightarrow> string \<Rightarrow> direct_rendezvous_session \<Rightarrow> string result" where
  "direct_probe_peer c rendezvous s =
     (if cf_device_id c = Some (rs_source_device_id s) then Inr (rs_target_device_id s)
      else if cf_device_id c = Some (rs_target_device_id s) then Inr (rs_source_device_id s)
      else Inl (''local device is not a participant in rendezvous '' @ rendezvous))"

text \<open>
  One attempt of the serving commands: skip it, give it up, or serve it, announcing a candidate first
  if the rendezvous has none of this side.
\<close>

datatype serve_choice = Skip | Forget | Serve bool

definition serve_choice_of :: "string \<Rightarrow> string \<Rightarrow> string list \<Rightarrow> direct_rendezvous_session \<Rightarrow> serve_choice" where
  "serve_choice_of local service completed s =
     (if rs_target_device_id s \<noteq> local \<or> rs_service_name s \<noteq> service \<or> rs_rendezvous_id s \<in> set completed then Skip
      else if rs_status s = ''expired'' then Forget
      else Serve (rp_announced_at (rs_target s) = None \<or> rp_candidates (rs_target s) = []))"

text \<open>
  \<open>direct_serve\<close> over one answer: \<open>update\<close> and \<open>probe\<close> answer for a rendezvous. A failed probe is tried
  again at the next poll, a failed announcement ends the command.
\<close>

fun direct_serve_round ::
  "string \<Rightarrow> string \<Rightarrow> (string \<Rightarrow> unit result) \<Rightarrow> (string \<Rightarrow> direct_probe_result result)
     \<Rightarrow> direct_rendezvous_session list \<Rightarrow> string list \<Rightarrow> string list result" where
  "direct_serve_round local service update probe [] completed = Inr completed"
| "direct_serve_round local service update probe (s # ss) completed =
     (case serve_choice_of local service completed s of
        Skip \<Rightarrow> direct_serve_round local service update probe ss completed
      | Forget \<Rightarrow> direct_serve_round local service update probe ss (rs_rendezvous_id s # completed)
      | Serve announce \<Rightarrow>
          (case (if announce then update (rs_rendezvous_id s) else Inr ()) of
             Inl e \<Rightarrow> Inl e
           | Inr _ \<Rightarrow>
               (case probe (rs_rendezvous_id s) of
                  Inr _ \<Rightarrow> direct_serve_round local service update probe ss (rs_rendezvous_id s # completed)
                | Inl _ \<Rightarrow> direct_serve_round local service update probe ss completed)))"

text \<open>
  \<open>direct_tcp_serve\<close>: the attempts are chosen before the first is served; each is served once, however it ends.
\<close>

fun direct_tcp_serve_attempts ::
  "(string \<Rightarrow> unit result) \<Rightarrow> direct_rendezvous_session list \<Rightarrow> string list \<Rightarrow> (string list \<times> string list) result" where
  "direct_tcp_serve_attempts update [] done = Inr ([], done)"
| "direct_tcp_serve_attempts update (s # ss) done =
     (if rs_status s = ''expired'' then direct_tcp_serve_attempts update ss (rs_rendezvous_id s # done)
      else
        (case (if rp_announced_at (rs_target s) = None \<or> rp_candidates (rs_target s) = [] then update (rs_rendezvous_id s) else Inr ()) of
           Inl e \<Rightarrow> Inl e
         | Inr _ \<Rightarrow>
             map_sum id (\<lambda>(served, done'). (rs_rendezvous_id s # served, done'))
               (direct_tcp_serve_attempts update ss (rs_rendezvous_id s # done))))"

definition direct_tcp_serve_round ::
  "string \<Rightarrow> string \<Rightarrow> (string \<Rightarrow> unit result) \<Rightarrow> direct_rendezvous_session list \<Rightarrow> string list \<Rightarrow> (string list \<times> string list) result" where
  "direct_tcp_serve_round local service update attempts done =
     direct_tcp_serve_attempts update
       (filter (\<lambda>s. rs_target_device_id s = local \<and> rs_service_name s = service \<and> rs_rendezvous_id s \<notin> set done) attempts) done"

section \<open>One iteration of the runtime\<close>

datatype background_task =
    BT_Relay_Service
  | BT_Direct_Service published_service_config
  | BT_Auto_Forward local_forward_config
  | BT_Forward_Rule local_forward_config

definition iteration_tasks :: "agent_config \<Rightarrow> background_task list" where
  "iteration_tasks c =
     BT_Relay_Service
     # map BT_Direct_Service (filter ps_direct_enabled (cf_published_services c))
     @ map (\<lambda>r. if forward_transport_is_auto (fr_transport_mode r) then BT_Auto_Forward r else BT_Forward_Rule r)
         (filter fr_enabled (cf_forward_rules c))"

datatype joined_task = Task_Ok | Task_Failed string | Task_Crashed string

datatype iteration_event =
    IE_Changed bool
  | IE_Sender_Gone
  | IE_Heartbeat int "unit result"
  | IE_Task "joined_task option"

datatype iteration_outcome = Shutdown_Requested | Restart string

definition iteration_round :: "agent_config \<Rightarrow> iteration_event \<Rightarrow> runtime_op list \<times> iteration_outcome option" where
  "iteration_round c ev =
     (case ev of
        IE_Changed requested \<Rightarrow> ([], if requested then Some Shutdown_Requested else None)
      | IE_Sender_Gone \<Rightarrow> ([], Some Shutdown_Requested)
      | IE_Heartbeat now answer \<Rightarrow>
          if \<not> has_valid_session now c
          then ([], Some (Restart ''current session is nearing expiry and will be refreshed''))
          else (case answer of
                  Inl err \<Rightarrow> ([], Some (Restart (''heartbeat failed: '' @ err)))
                | Inr _ \<Rightarrow> ([Op_Heartbeat], None))
      | IE_Task joined \<Rightarrow>
          ([], Some (Restart (case joined of
             Some Task_Ok \<Rightarrow> ''agent background task exited unexpectedly''
           | Some (Task_Failed err) \<Rightarrow> ''agent background task failed: '' @ err
           | Some (Task_Crashed err) \<Rightarrow> ''agent background task crashed: '' @ err
           | None \<Rightarrow> ''all agent background tasks exited unexpectedly''))))"

fun iteration_loop :: "agent_config \<Rightarrow> iteration_event list \<Rightarrow> runtime_op list \<times> iteration_outcome option" where
  "iteration_loop c [] = ([], None)"
| "iteration_loop c (ev # evs) =
     (case iteration_round c ev of
        (ops, Some outcome) \<Rightarrow> (ops, Some outcome)
      | (ops, None) \<Rightarrow> (case iteration_loop c evs of (ops', outcome) \<Rightarrow> (ops @ ops', outcome)))"

definition run_runtime_iteration :: "agent_config \<Rightarrow> iteration_event list \<Rightarrow> runtime_op list \<times> iteration_outcome option" where
  "run_runtime_iteration c evs =
     (case cf_device_id c of
        None \<Rightarrow> ([], Some (Restart ''device is not joined yet''))
      | Some _ \<Rightarrow> iteration_loop c evs)"

section \<open>The main loop\<close>

datatype wait_end = Wait_Over | Wait_Changed bool | Wait_Sender_Gone

definition wait_for_restart_or_shutdown :: "bool \<Rightarrow> wait_end \<Rightarrow> bool" where
  "wait_for_restart_or_shutdown requested ended =
     (if requested then True
      else case ended of Wait_Over \<Rightarrow> False | Wait_Changed v \<Rightarrow> v | Wait_Sender_Gone \<Rightarrow> True)"

text \<open>What one round is told.\<close>

record round_env =
  re_shutdown :: bool
  re_now :: int
  re_invalidated :: "unit result"
  re_registered :: "register_device_response result"
  re_session_saved :: "unit result"
  re_upsert :: "string \<Rightarrow> upsert_service_request \<Rightarrow> service_definition result"
  re_saved :: "unit result"
  re_events :: "iteration_event list"
  re_requested :: bool
  re_wait :: wait_end

record runtime_loop =
  rl_runtime :: agent_runtime
  rl_backoff :: nat
  rl_force :: bool

definition run_begin :: "agent_runtime \<Rightarrow> runtime_loop" where
  "run_begin r = \<lparr>rl_runtime = r, rl_backoff = runtime_retry_initial_backoff, rl_force = False\<rparr>"

text \<open>
  One round: the reports, the new state, and the result once the loop has ended. None and no result:
  the iteration is still running.
\<close>

datatype round_next = Running_On | Next_Round | Returns "unit result"

definition run_wait ::
  "round_env \<Rightarrow> string \<Rightarrow> runtime_op list \<Rightarrow> runtime_loop \<Rightarrow> runtime_op list \<times> runtime_loop \<times> round_next" where
  "run_wait e detail ops s =
     (if wait_for_restart_or_shutdown (re_requested e) (re_wait e)
      then (ops @ [Op_Stopped (rt_config (rl_runtime s)) detail], s, Returns (Inr ()))
      else (ops, s\<lparr>rl_backoff := next_retry_delay (rl_backoff s)\<rparr>, Next_Round))"

definition run_round ::
  "crypto_prims \<Rightarrow> round_env \<Rightarrow> runtime_loop \<Rightarrow> runtime_op list \<times> runtime_loop \<times> round_next" where
  "run_round P e s =
     (let c = rt_config (rl_runtime s) in
      if re_shutdown e then ([Op_Stopped c ''shutdown requested before next iteration''], s, Returns (Inr ()))
      else
        let starting = Op_Starting c (if rl_force s then ''refreshing session and preparing runtime after a previous failure''
              else ''preparing relay service and enabled forward rules'') in
        (case prepare_runtime_iteration P (re_now e) (re_invalidated e) (re_registered e) (re_session_saved e) (re_upsert e)
                (re_saved e) (rl_force s) (rl_runtime s) of
           (Inl err, r1) \<Rightarrow>
             run_wait e ''shutdown requested while waiting to retry runtime preparation''
               [starting, Op_PrepareFailed (rt_config r1) err (rl_backoff s)] (s\<lparr>rl_runtime := r1, rl_force := True\<rparr>)
         | (Inr _, r1) \<Rightarrow>
             (case current_session_token r1 of
                Inl err \<Rightarrow> ([starting], s\<lparr>rl_runtime := r1\<rparr>, Returns (Inl err))
              | Inr _ \<Rightarrow>
                  (case run_runtime_iteration (rt_config r1) (re_events e) of
                     (ops, None) \<Rightarrow> (starting # Op_Running (rt_config r1) # ops, s\<lparr>rl_runtime := r1\<rparr>, Running_On)
                   | (ops, Some Shutdown_Requested) \<Rightarrow>
                       (starting # Op_Running (rt_config r1) # ops @ [Op_Stopped (rt_config r1) ''shutdown requested''],
                        s\<lparr>rl_runtime := r1\<rparr>, Returns (Inr ()))
                   | (ops, Some (Restart reason)) \<Rightarrow>
                       run_wait e ''shutdown requested while waiting for runtime restart''
                         (starting # Op_Running (rt_config r1) # ops
                            @ [Op_Restarting (rt_config r1) reason runtime_retry_initial_backoff])
                         (s\<lparr>rl_runtime := r1, rl_force := True, rl_backoff := runtime_retry_initial_backoff\<rparr>)))))"

fun run_until_shutdown ::
  "crypto_prims \<Rightarrow> round_env list \<Rightarrow> runtime_loop \<Rightarrow> runtime_op list \<times> runtime_loop \<times> unit result option" where
  "run_until_shutdown P [] s = ([], s, None)"
| "run_until_shutdown P (e # es) s =
     (case run_round P e s of
        (ops, s', Running_On) \<Rightarrow> (ops, s', None)
      | (ops, s', Returns r) \<Rightarrow> (ops, s', Some r)
      | (ops, s', Next_Round) \<Rightarrow> (case run_until_shutdown P es s' of (ops', s'', r) \<Rightarrow> (ops @ ops', s'', r)))"

section \<open>Addresses\<close>

text \<open>
  The addresses held by tasks that are spawned on their own and run for as long as the process does: the
  accept loop of an automatic forward and the reader of a shared direct socket. The supervisors are
  aborted at the end of an iteration, these are not. Binding an address that is held fails, except
  for the ones for which the system picks a port (\<open>ephemeral\<close>).
\<close>

type_synonym held = "(string \<times> string) list"

definition os_bind :: "(string \<Rightarrow> bool) \<Rightarrow> string \<times> string \<Rightarrow> held \<Rightarrow> unit result \<times> held" where
  "os_bind ephemeral a held =
     (if ephemeral (snd a) then (Inr (), held)
      else if a \<in> set held then (Inl ''Address already in use'', held)
      else (Inr (), a # held))"

definition auto_rule_of :: "local_forward_config \<Rightarrow> auto_rule" where
  "auto_rule_of r = \<lparr>ar_rule = fr_name r, ar_target = fr_target_device_id r, ar_service = fr_service_name r,
     ar_bind = fr_local_bind_addr r, ar_udp = fr_direct_udp_bind_addr r\<rparr>"

text \<open>What a background task does first; a task that cannot bind its address has failed.\<close>

definition task_begin :: "(string \<Rightarrow> bool) \<Rightarrow> background_task \<Rightarrow> held \<Rightarrow> joined_task option \<times> held" where
  "task_begin ephemeral t held =
     (case t of
        BT_Relay_Service \<Rightarrow> (None, held)
      | BT_Forward_Rule _ \<Rightarrow> (None, held)
      | BT_Direct_Service s \<Rightarrow>
          (case os_bind ephemeral (''udp'', ps_direct_udp_bind_addr s) held of
             (bound, held') \<Rightarrow>
               (case fst (direct_supervisor_begin True s (ps_direct_udp_bind_addr s) bound) of
                  Inl err \<Rightarrow> (Some (Task_Failed err), held') | Inr _ \<Rightarrow> (None, held')))
      | BT_Auto_Forward r \<Rightarrow>
          (case os_bind ephemeral (''tcp'', fr_local_bind_addr r) held of
             (bound, held') \<Rightarrow>
               (case fst (run_auto_forward_begin True (auto_rule_of r) bound) of
                  Inl err \<Rightarrow> (Some (Task_Failed err), held') | Inr _ \<Rightarrow> (None, held'))))"

fun tasks_begin :: "(string \<Rightarrow> bool) \<Rightarrow> background_task list \<Rightarrow> held \<Rightarrow> joined_task option list \<times> held" where
  "tasks_begin ephemeral [] held = ([], held)"
| "tasks_begin ephemeral (t # ts) held =
     (case task_begin ephemeral t held of
        (j, held1) \<Rightarrow> (case tasks_begin ephemeral ts held1 of (js, held2) \<Rightarrow> (j # js, held2)))"

end
