(* ===== verification/DirectProbeProps.thy ===== *)
theory DirectProbeProps
  imports DirectProbe
begin

text \<open>
  What probing promises: a path is taken only on a message signed by the peer for this rendezvous, and
  two honest sides that hear each other agree; and what it does not: the side that is done first falls
  silent, and one forged datagram ends a probe.
\<close>

section \<open>Both loops\<close>

definition probing_loop :: "(crypto_prims \<Rightarrow> probe_env \<Rightarrow> probe_event \<Rightarrow> probe_state \<Rightarrow> probe_state) \<Rightarrow> bool" where
  "probing_loop loop_step \<longleftrightarrow> loop_step = probe_step_on_hub \<or> loop_step = probe_step_on_socket"

lemma probing_loops [simp]: "probing_loop probe_step_on_hub" "probing_loop probe_step_on_socket"
  by (simp_all add: probing_loop_def)

lemmas probe_step_defs = probe_step_on_hub_def probe_step_on_socket_def

lemma probe_done [simp]: "probing_loop f \<Longrightarrow> pb_done st = Some r \<Longrightarrow> f P ev w st = st"
  by (auto simp: probing_loop_def probe_step_defs)

lemma probe_done_fold: "probing_loop f \<Longrightarrow> pb_done st = Some r \<Longrightarrow> fold (f P ev) ws st = st"
  by (induction ws) simp_all

lemma probe_packet:
  "probing_loop f \<Longrightarrow> pb_done st = None
     \<Longrightarrow> f P ev (PE_Packet (SP_Probe envelope sender) rnd io elapsed) st = probe_handled P ev envelope sender rnd io elapsed st"
  by (auto simp: probing_loop_def probe_step_defs)

lemma probe_tick:
  "probing_loop f \<Longrightarrow> pb_done st = None \<Longrightarrow> f P ev PE_Tick st = st\<lparr>pb_sent := pb_sent st @ send_probe_to_all ev P\<rparr>"
  by (auto simp: probing_loop_def probe_step_defs)

lemma probe_deadline:
  "probing_loop f \<Longrightarrow> pb_done st = None \<Longrightarrow> f P ev PE_Deadline st = st\<lparr>pb_done := Some (Inl (probe_deadline_error ev))\<rparr>"
  by (auto simp: probing_loop_def probe_step_defs)

lemma probe_error_simps [simp]:
  "probe_error what (Inr u) = Inr ()"
  "probe_error what (Inl e) = Inl (what @ '': '' @ crypto_error_message e)"
  by (simp_all add: probe_error_def)

section \<open>What a path rests on\<close>

text \<open>The evidence for a path: the datagram and, for a hello, the acknowledgement sent for it.\<close>

definition probe_evidence ::
  "crypto_prims \<Rightarrow> probe_env \<Rightarrow> direct_probe_envelope \<Rightarrow> string \<Rightarrow> direct_probe_result \<Rightarrow> probe_state \<Rightarrow> bool" where
  "probe_evidence P ev envelope addr res st \<longleftrightarrow>
     (\<exists>n sig. envelope = Probe_Hello (pe_rendezvous ev) (pt_peer (pe_setup ev)) n sig
        \<and> verify_signature_base64 P (pe_peer_key ev) (direct_probe_hello_message (pe_rendezvous ev) (pt_peer (pe_setup ev)) n) sig = Inr ()
        \<and> (addr, probe_ack P (pe_identity ev) (pe_local ev) (pe_rendezvous ev) n (dp_ack_nonce res)) \<in> set (pb_sent st)
        \<and> dp_completion_kind res = ''received_hello'')
     \<or> (\<exists>n sig. envelope = Probe_Ack (pe_rendezvous ev) (pt_peer (pe_setup ev)) (pe_nonce ev) n sig
        \<and> verify_signature_base64 P (pe_peer_key ev)
            (direct_probe_ack_message (pe_rendezvous ev) (pt_peer (pe_setup ev)) (pe_nonce ev) n) sig = Inr ()
        \<and> dp_completion_kind res = ''received_ack'' \<and> dp_ack_nonce res = n)"

lemma probe_handled_cases:
  assumes "pb_done st = None" "pb_done (probe_handled P ev envelope sender rnd io elapsed st) = Some (Inr (addr, res))"
  obtains (hello) n sig where "envelope = Probe_Hello (pe_rendezvous ev) (pt_peer (pe_setup ev)) n sig"
      "verify_signature_base64 P (pe_peer_key ev) (direct_probe_hello_message (pe_rendezvous ev) (pt_peer (pe_setup ev)) n) sig = Inr ()"
      "addr = sender" "res = probe_result_of ev sender ''received_hello'' (generate_token P rnd ''ack'') elapsed"
      "pb_sent (probe_handled P ev envelope sender rnd io elapsed st) = pb_sent st @
         [(sender, probe_ack P (pe_identity ev) (pe_local ev) (pe_rendezvous ev) n (generate_token P rnd ''ack''))]"
  | (ack) n sig where "envelope = Probe_Ack (pe_rendezvous ev) (pt_peer (pe_setup ev)) (pe_nonce ev) n sig"
      "verify_signature_base64 P (pe_peer_key ev)
         (direct_probe_ack_message (pe_rendezvous ev) (pt_peer (pe_setup ev)) (pe_nonce ev) n) sig = Inr ()"
      "addr = sender" "res = probe_result_of ev sender ''received_ack'' n elapsed"
proof (cases envelope)
  case (Probe_Hello r d n sig)
  let ?v = "verify_signature_base64 P (pe_peer_key ev) (direct_probe_hello_message r d n) sig"
  show thesis
  proof (cases "r \<noteq> pe_rendezvous ev \<or> d \<noteq> pt_peer (pe_setup ev) \<or> ?v \<noteq> Inr () \<or> io \<noteq> Inr ()")
    case True
    with assms Probe_Hello show thesis
      by (cases ?v; cases io; cases "r \<noteq> pe_rendezvous ev \<or> d \<noteq> pt_peer (pe_setup ev)")
        (simp_all add: probe_handled_def handle_incoming_probe_envelope_def Let_def)
  next
    case False
    then have "r = pe_rendezvous ev" "d = pt_peer (pe_setup ev)" "?v = Inr ()" "io = Inr ()" by auto
    with assms Probe_Hello show thesis
      by (intro hello [of n sig]) (auto simp: probe_handled_def handle_incoming_probe_envelope_def Let_def)
  qed
next
  case (Probe_Ack r d h n sig)
  let ?v = "verify_signature_base64 P (pe_peer_key ev) (direct_probe_ack_message r d h n) sig"
  show thesis
  proof (cases "r \<noteq> pe_rendezvous ev \<or> d \<noteq> pt_peer (pe_setup ev) \<or> h \<noteq> pe_nonce ev \<or> ?v \<noteq> Inr ()")
    case True
    with assms Probe_Ack show thesis
      by (cases ?v; cases "r \<noteq> pe_rendezvous ev \<or> d \<noteq> pt_peer (pe_setup ev) \<or> h \<noteq> pe_nonce ev")
        (simp_all add: probe_handled_def handle_incoming_probe_envelope_def Let_def)
  next
    case False
    then have "r = pe_rendezvous ev" "d = pt_peer (pe_setup ev)" "h = pe_nonce ev" "?v = Inr ()" by auto
    with assms Probe_Ack show thesis
      by (intro ack [of n sig]) (auto simp: probe_handled_def handle_incoming_probe_envelope_def Let_def)
  qed
qed

lemma probe_result_of_fields [simp]:
  "dp_selected_peer_addr (probe_result_of ev a kind n t) = a" "dp_role (probe_result_of ev a kind n t) = pt_role (pe_setup ev)"
  "dp_completion_kind (probe_result_of ev a kind n t) = kind" "dp_ack_nonce (probe_result_of ev a kind n t) = n"
  "dp_peer_device_id (probe_result_of ev a kind n t) = pt_peer (pe_setup ev)"
  by (simp_all add: probe_result_of_def)

lemma probe_handled_evidence:
  assumes "pb_done st = None" "pb_done (probe_handled P ev envelope sender rnd io elapsed st) = Some (Inr (addr, res))"
  shows "addr = sender \<and> probe_evidence P ev envelope addr res (probe_handled P ev envelope sender rnd io elapsed st)
    \<and> dp_selected_peer_addr res = addr \<and> dp_role res = pt_role (pe_setup ev)"
  using assms by (cases rule: probe_handled_cases) (unfold probe_evidence_def, simp_all)

lemma probe_step_evidence:
  assumes "probing_loop f" "pb_done st = None" "pb_done (f P ev w st) = Some (Inr (addr, res))"
  obtains envelope rnd io elapsed where "w = PE_Packet (SP_Probe envelope addr) rnd io elapsed"
    "probe_evidence P ev envelope addr res (f P ev w st)" "dp_selected_peer_addr res = addr" "dp_role res = pt_role (pe_setup ev)"
proof (cases w)
  case (PE_Packet p rnd io elapsed)
  show thesis
  proof (cases p)
    case (SP_Probe envelope sender)
    note packet = probe_packet [OF assms(1,2), of P ev envelope sender rnd io elapsed]
    from assms(3) have done': "pb_done (probe_handled P ev envelope sender rnd io elapsed st) = Some (Inr (addr, res))"
      by (simp add: PE_Packet SP_Probe packet)
    note e = probe_handled_evidence [OF assms(2) done']
    then have "sender = addr" by simp
    with e PE_Packet SP_Probe packet show thesis
      by (intro that [of envelope rnd io elapsed]) simp_all
  next
    case (SP_Tunnel envelope sender)
    with assms PE_Packet show thesis by (auto simp: probing_loop_def probe_step_defs)
  qed
next
  case PE_Tick
  with assms show thesis by (simp add: probe_tick)
next
  case PE_Closed
  with assms show thesis by (auto simp: probing_loop_def probe_step_defs)
next
  case PE_Deadline
  with assms show thesis by (simp add: probe_deadline)
qed

lemma probe_fold_evidence:
  assumes "probing_loop f" "pb_done st = None" "pb_done (fold (f P ev) ws st) = Some (Inr (addr, res))"
  shows "\<exists>envelope rnd io elapsed. PE_Packet (SP_Probe envelope addr) rnd io elapsed \<in> set ws
    \<and> probe_evidence P ev envelope addr res (fold (f P ev) ws st)
    \<and> dp_selected_peer_addr res = addr \<and> dp_role res = pt_role (pe_setup ev)"
  using assms(2,3)
proof (induction ws arbitrary: st)
  case (Cons w ws)
  show ?case
  proof (cases "pb_done (f P ev w st)")
    case None
    from Cons.IH [OF None] Cons.prems(2) show ?thesis by auto
  next
    case (Some r)
    then have "fold (f P ev) (w # ws) st = f P ev w st" using probe_done_fold [OF assms(1) Some] by simp
    with probe_step_evidence [OF assms(1) Cons.prems(1), of P ev w addr res] Cons.prems(2) show ?thesis
      by (metis list.set_intros(1))
  qed
qed simp

lemma probe_begin_Inr:
  assumes "probe_begin P parse local peer_key s = Inr su"
  shows "device_id_from_public_key P peer_key = pt_peer su \<and> pt_addrs su \<noteq> []
    \<and> (if rs_source_device_id s = local then pt_role su = ''source'' \<and> pt_peer su = rs_target_device_id s
       else pt_role su = ''target'' \<and> pt_peer su = rs_source_device_id s \<and> rs_target_device_id s = local)"
  using assms by (auto simp: probe_begin_def probe_participant_def Let_def split: if_splits)

text \<open>
  C8. A direct path is taken only to an address from which a datagram came that the peer has signed for
  this rendezvous: a hello, which is then acknowledged to that address, or the acknowledgement of our
  own hello. The key it is checked with is the one the peer's device id is derived from, and the peer
  is the other participant. On either kind of socket.
\<close>

theorem probe_authentic:
  assumes "probing_loop f"
    and "pb_done (probe_path f P parse identity local peer_key s local_addr rnd ws) = Some (Inr (addr, res))"
  shows "\<exists>su own envelope rnd' io elapsed. probe_begin P parse local peer_key s = Inr su \<and> local_addr = Inr own
    \<and> device_id_from_public_key P peer_key = pt_peer su
    \<and> {local, pt_peer su} = {rs_source_device_id s, rs_target_device_id s}
    \<and> PE_Packet (SP_Probe envelope addr) rnd' io elapsed \<in> set ws
    \<and> probe_evidence P (probe_env_of P identity local peer_key s own rnd su) envelope addr res
        (probe_path f P parse identity local peer_key s local_addr rnd ws)
    \<and> dp_selected_peer_addr res = addr \<and> dp_role res = pt_role su"
proof -
  obtain su own where b: "probe_begin P parse local peer_key s = Inr su" "local_addr = Inr own"
    using assms(2) by (auto simp: probe_path_def Let_def split: sum.splits)
  let ?ev = "probe_env_of P identity local peer_key s own rnd su"
  let ?st = "\<lparr>pb_sent = send_probe_to_all ?ev P, pb_buffered = [], pb_done = None\<rparr>"
  have path: "probe_path f P parse identity local peer_key s local_addr rnd ws = fold (f P ?ev) ws ?st"
    by (simp add: probe_path_def b Let_def)
  have parts: "{local, pt_peer su} = {rs_source_device_id s, rs_target_device_id s}"
    using probe_begin_Inr [OF b(1)] by (auto split: if_splits)
  have "pt_role (pe_setup ?ev) = pt_role su" by (simp add: probe_env_of_def)
  with probe_fold_evidence [OF assms(1), of ?st P ?ev ws addr res] assms(2) b parts probe_begin_Inr [OF b(1)] show ?thesis
    unfolding path by fastforce
qed

section \<open>The handshake\<close>

lemma probe_roles:
  assumes "probe_begin P parse a ka s = Inr suA" "probe_begin P parse b kb s = Inr suB" "pt_peer suA = b" "a \<noteq> b"
  shows "{pt_role suA, pt_role suB} = {''source'', ''target''}"
proof (cases "rs_source_device_id s = a")
  case True
  with assms(4) have "rs_source_device_id s \<noteq> b" by simp
  with True probe_begin_Inr [OF assms(1)] probe_begin_Inr [OF assms(2)]
  have "pt_role suA = ''source''" "pt_role suB = ''target''" by presburger+
  then show ?thesis by simp
next
  case False
  with assms(3) probe_begin_Inr [OF assms(1)] have "pt_role suA = ''target''" "rs_source_device_id s = b" by presburger+
  moreover from this(2) probe_begin_Inr [OF assms(2)] have "pt_role suB = ''source''" by presburger
  ultimately show ?thesis by (simp add: insert_commute)
qed

lemma hello_handled:
  assumes "b64_law P" "ed_law P" "length (di_signing_key sender_id) = 32" "probing_loop f" "pb_done st = None"
    and "pe_peer_key ev = identity_public_key_base64 P sender_id"
  shows "f P ev (PE_Packet (SP_Probe (probe_hello P sender_id (pt_peer (pe_setup ev)) (pe_rendezvous ev) n) a) rnd (Inr ()) t) st
    = (let nonce = generate_token P rnd ''ack'' in
       st\<lparr>pb_sent := pb_sent st @ [(a, probe_ack P (pe_identity ev) (pe_local ev) (pe_rendezvous ev) n nonce)],
          pb_done := Some (Inr (a, probe_result_of ev a ''received_hello'' nonce t))\<rparr>)"
  using sign_verify [OF assms(1-3)] assms(4-6)
  by (simp add: probe_packet probe_handled_def handle_incoming_probe_envelope_def probe_hello_def Let_def)

lemma ack_handled:
  assumes "b64_law P" "ed_law P" "length (di_signing_key sender_id) = 32" "probing_loop f" "pb_done st = None"
    and "pe_peer_key ev = identity_public_key_base64 P sender_id"
  shows "f P ev (PE_Packet (SP_Probe (probe_ack P sender_id (pt_peer (pe_setup ev)) (pe_rendezvous ev) (pe_nonce ev) nonce) a) rnd io t) st
    = st\<lparr>pb_done := Some (Inr (a, probe_result_of ev a ''received_ack'' nonce t))\<rparr>"
  using sign_verify [OF assms(1-3)] assms(4-6)
  by (simp add: probe_packet probe_handled_def handle_incoming_probe_envelope_def probe_ack_def Let_def)

text \<open>
  C9. Two honest participants of one rendezvous agree on a path as soon as one hello and its
  acknowledgement get through: the receiver of the hello takes the address it came from and answers
  there, and the answer makes the sender of the hello take the receiver's address, with the same nonce
  and opposite roles.
\<close>

theorem probe_handshake:
  fixes P :: crypto_prims and A B :: device_identity and s :: direct_rendezvous_session
  defines "dA \<equiv> identity_device_id P A" and "dB \<equiv> identity_device_id P B"
  assumes laws: "b64_law P" "ed_law P" "length (di_signing_key A) = 32" "length (di_signing_key B) = 32"
    and distinct: "dA \<noteq> dB"
    and begun: "probe_begin P parse dA (identity_public_key_base64 P B) s = Inr suA"
      "probe_begin P parse dB (identity_public_key_base64 P A) s = Inr suB"
    and envs: "evA = probe_env_of P A dA (identity_public_key_base64 P B) s ownA rndA suA"
      "evB = probe_env_of P B dB (identity_public_key_base64 P A) s ownB rndB suB"
    and open_ends: "probing_loop f" "probing_loop g" "pb_done stA = None" "pb_done stB = None"
    and hello: "(b, m) \<in> set (send_probe_to_all evA P)"
  shows "\<exists>resA resB ack stB'. g P evB (PE_Packet (SP_Probe m a) rnd (Inr ()) t) stB = stB'
    \<and> pb_done stB' = Some (Inr (a, resB)) \<and> pb_sent stB' = pb_sent stB @ [(a, ack)]
    \<and> pb_done (f P evA (PE_Packet (SP_Probe ack b) rnd' io t') stA) = Some (Inr (b, resA))
    \<and> dp_ack_nonce resA = dp_ack_nonce resB \<and> {dp_role resA, dp_role resB} = {''source'', ''target''}
    \<and> dp_peer_device_id resA = dB \<and> dp_peer_device_id resB = dA"
proof -
  have peers: "pt_peer suA = dB" "pt_peer suB = dA"
    using probe_begin_Inr [OF begun(1), THEN conjunct1] probe_begin_Inr [OF begun(2), THEN conjunct1]
    by (simp_all add: dA_def dB_def identity_device_id_def)
  have roles: "{pt_role suA, pt_role suB} = {''source'', ''target''}"
    by (rule probe_roles [OF begun peers(1) distinct])
  have m: "m = probe_hello P A (pt_peer (pe_setup evB)) (pe_rendezvous evB) (pe_nonce evA)"
    using hello by (auto simp: send_probe_to_all_def envs probe_env_of_def peers)
  have ack: "probe_ack P (pe_identity evB) (pe_local evB) (pe_rendezvous evB) (pe_nonce evA) n
      = probe_ack P B (pt_peer (pe_setup evA)) (pe_rendezvous evA) (pe_nonce evA) n" for n
    by (simp add: envs probe_env_of_def peers)
  have keys: "pe_peer_key evB = identity_public_key_base64 P A" "pe_peer_key evA = identity_public_key_base64 P B"
    by (simp_all add: envs probe_env_of_def)
  show ?thesis
    unfolding m hello_handled [OF laws(1-3) open_ends(2,4) keys(1)] ack Let_def
    using roles
    by (simp add: ack_handled [OF laws(1,2,4) open_ends(1,3) keys(2)] probe_result_of_def)
      (simp add: envs probe_env_of_def peers insert_commute)
qed

text \<open>
  A probe that has taken a path answers nothing any more: when the acknowledgement it sent is lost,
  all further hellos of the peer are ignored and the peer times out, while this side considers the path
  established. And one datagram, from any address, that names the rendezvous and the peer but whose
  signature does not verify ends a probe with an error.
\<close>

theorem probe_fragile:
  assumes "probing_loop f" "probing_loop g"
  shows "(pb_done stB = Some r \<longrightarrow> fold (g P evB) ws stB = stB)
    \<and> (pb_done stA = None \<longrightarrow>
        pb_done (fold (f P evA) (replicate n PE_Tick @ [PE_Deadline]) stA) = Some (Inl (probe_deadline_error evA))
        \<and> pb_sent (fold (f P evA) (replicate n PE_Tick @ [PE_Deadline]) stA)
            = pb_sent stA @ concat (replicate n (send_probe_to_all evA P)))
    \<and> (pb_done stA = None \<longrightarrow>
        verify_signature_base64 P (pe_peer_key evA)
          (direct_probe_hello_message (pe_rendezvous evA) (pt_peer (pe_setup evA)) nonce) forged = Inl e \<longrightarrow>
        pb_done (fold (f P evA)
            (PE_Packet (SP_Probe (Probe_Hello (pe_rendezvous evA) (pt_peer (pe_setup evA)) nonce forged) anywhere) rnd io t # ws) stA)
          = Some (Inl (''peer UDP probe hello verification failed: '' @ crypto_error_message e)))"
proof (intro conjI impI)
  have ticks: "fold (f P evA) (replicate n PE_Tick) stA = stA\<lparr>pb_sent := pb_sent stA @ concat (replicate n (send_probe_to_all evA P))\<rparr>"
    if "pb_done stA = None" for stA
    using that by (induction n arbitrary: stA) (simp_all add: probe_tick [OF assms(1)] del: fold_replicate)
  show "pb_done (fold (f P evA) (replicate n PE_Tick @ [PE_Deadline]) stA) = Some (Inl (probe_deadline_error evA))"
    "pb_sent (fold (f P evA) (replicate n PE_Tick @ [PE_Deadline]) stA)
      = pb_sent stA @ concat (replicate n (send_probe_to_all evA P))" if "pb_done stA = None"
    using that by (simp_all add: ticks probe_deadline [OF assms(1)] del: fold_replicate)
next
  assume open_A: "pb_done stA = None" and bad: "verify_signature_base64 P (pe_peer_key evA)
    (direct_probe_hello_message (pe_rendezvous evA) (pt_peer (pe_setup evA)) nonce) forged = Inl e"
  let ?w = "PE_Packet (SP_Probe (Probe_Hello (pe_rendezvous evA) (pt_peer (pe_setup evA)) nonce forged) anywhere) rnd io t"
  have "pb_done (f P evA ?w stA) = Some (Inl (''peer UDP probe hello verification failed: '' @ crypto_error_message e))"
    using bad by (simp add: probe_packet [OF assms(1) open_A] probe_handled_def handle_incoming_probe_envelope_def)
  with probe_done_fold [OF assms(1) this] show "pb_done (fold (f P evA) (?w # ws) stA)
      = Some (Inl (''peer UDP probe hello verification failed: '' @ crypto_error_message e))" by simp
qed (simp add: probe_done_fold [OF assms(2)])

section \<open>Examples\<close>

definition demo_A :: device_identity where "demo_A = \<lparr>di_signing_key = replicate 32 65\<rparr>"
definition demo_B :: device_identity where "demo_B = \<lparr>di_signing_key = replicate 32 66\<rparr>"
abbreviation demo_dA :: string where "demo_dA \<equiv> identity_device_id toy_prims demo_A"
abbreviation demo_dB :: string where "demo_dB \<equiv> identity_device_id toy_prims demo_B"
abbreviation demo_kA :: string where "demo_kA \<equiv> identity_public_key_base64 toy_prims demo_A"
abbreviation demo_kB :: string where "demo_kB \<equiv> identity_public_key_base64 toy_prims demo_B"

lemma demo_devices_differ: "demo_dA \<noteq> demo_dB" by code_simp

definition demo_rendezvous :: direct_rendezvous_session where
  "demo_rendezvous = \<lparr>rs_rendezvous_id = ''rdv'', rs_service_id = ''svc'', rs_service_name = ''web'',
     rs_source_device_id = demo_dA, rs_target_device_id = demo_dB, rs_status = ''ready'',
     rs_created_at = 0, rs_updated_at = 0, rs_expires_at = 60,
     rs_source = \<lparr>rp_device_id = demo_dA, rp_announced_at = Some 0, rp_candidates = [bind_candidate ''a'' ''local'']\<rparr>,
     rs_target = \<lparr>rp_device_id = demo_dB, rp_announced_at = Some 0, rp_candidates = [bind_candidate ''b'' ''local'']\<rparr>\<rparr>"

definition demo_su_A :: probe_setup where
  "demo_su_A = \<lparr>pt_role = ''source'', pt_peer = demo_dB, pt_candidates = [bind_candidate ''b'' ''local''], pt_addrs = [''b'']\<rparr>"

definition demo_su_B :: probe_setup where
  "demo_su_B = \<lparr>pt_role = ''target'', pt_peer = demo_dA, pt_candidates = [bind_candidate ''a'' ''local''], pt_addrs = [''a'']\<rparr>"

lemma sort_candidates_single [simp]: "sort_candidates [c] = [c]"
  by (simp add: sort_candidates_def)

lemma demo_begins_A: "probe_begin toy_prims Some demo_dA demo_kB demo_rendezvous = Inr demo_su_A"
  by (simp add: probe_begin_def probe_participant_def demo_rendezvous_def demo_su_A_def parse_socket_addr_def bind_candidate_def
      List.map_filter_def flip: identity_device_id_def)

lemma demo_begins_B: "probe_begin toy_prims Some demo_dB demo_kA demo_rendezvous = Inr demo_su_B"
  using demo_devices_differ
  by (simp add: probe_begin_def probe_participant_def demo_rendezvous_def demo_su_B_def parse_socket_addr_def bind_candidate_def
      List.map_filter_def flip: identity_device_id_def)

definition demo_env_A :: probe_env where
  "demo_env_A = probe_env_of toy_prims demo_A demo_dA demo_kB demo_rendezvous ''a'' [] demo_su_A"

definition demo_env_B :: probe_env where
  "demo_env_B = probe_env_of toy_prims demo_B demo_dB demo_kA demo_rendezvous ''b'' [] demo_su_B"

definition demo_probing :: probe_state where
  "demo_probing = \<lparr>pb_sent = [], pb_buffered = [], pb_done = None\<rparr>"

definition demo_hello :: direct_probe_envelope where
  "demo_hello = probe_hello toy_prims demo_A demo_dA ''rdv'' (generate_token toy_prims [] ''probe'')"

lemma demo_hello_sent: "(''b'', demo_hello) \<in> set (send_probe_to_all demo_env_A toy_prims)"
  by (simp add: send_probe_to_all_def demo_env_A_def probe_env_of_def demo_su_A_def demo_hello_def demo_rendezvous_def)

lemma demo_keys: "length (di_signing_key demo_A) = 32" "length (di_signing_key demo_B) = 32"
  by (simp_all add: demo_A_def demo_B_def)

theorem probe_handshake_witness:
  "\<exists>ack resA resB. pb_done (probe_step_on_hub toy_prims demo_env_B (PE_Packet (SP_Probe demo_hello ''a'') [] (Inr ()) 5) demo_probing)
       = Some (Inr (''a'', resB))
     \<and> pb_done (probe_step_on_socket toy_prims demo_env_A (PE_Packet (SP_Probe ack ''b'') [] (Inr ()) 9) demo_probing)
       = Some (Inr (''b'', resA)) \<and> dp_ack_nonce resA = dp_ack_nonce resB"
proof -
  have "pb_done demo_probing = None" by (simp add: demo_probing_def)
  with probe_handshake [OF toy_b64_law toy_ed_law demo_keys demo_devices_differ demo_begins_A demo_begins_B demo_env_A_def demo_env_B_def
      probing_loops(2,1) _ _ demo_hello_sent] show ?thesis by metis
qed

theorem probe_authentic_witness:
  "\<exists>res. pb_done (probe_direct_path_on_hub toy_prims Some demo_B demo_dB demo_kA demo_rendezvous (Inr ''b'') []
        [PE_Tick, PE_Packet (SP_Probe demo_hello ''a'') [] (Inr ()) 5]) = Some (Inr (''a'', res))
     \<and> dp_role res = ''target''"
proof -
  let ?path = "probe_path probe_step_on_hub toy_prims Some demo_B demo_dB demo_kA demo_rendezvous (Inr ''b'') []
        [PE_Tick, PE_Packet (SP_Probe demo_hello ''a'') [] (Inr ()) 5]"
  let ?st = "probe_step_on_hub toy_prims demo_env_B PE_Tick \<lparr>pb_sent = send_probe_to_all demo_env_B toy_prims, pb_buffered = [], pb_done = None\<rparr>"
  have hello: "demo_hello = probe_hello toy_prims demo_A (pt_peer (pe_setup demo_env_B)) (pe_rendezvous demo_env_B) (generate_token toy_prims [] ''probe'')"
    by (simp add: demo_hello_def demo_env_B_def probe_env_of_def demo_su_B_def demo_rendezvous_def)
  have key: "pe_peer_key demo_env_B = demo_kA" by (simp add: demo_env_B_def probe_env_of_def)
  have "pb_done ?st = None" by (simp add: probe_tick)
  from hello_handled [OF toy_b64_law toy_ed_law demo_keys(1) probing_loops(1) this key]
  obtain res where "pb_done (probe_step_on_hub toy_prims demo_env_B (PE_Packet (SP_Probe demo_hello ''a'') [] (Inr ()) 5) ?st) = Some (Inr (''a'', res))"
    unfolding hello by (simp add: Let_def)
  then have done': "pb_done ?path = Some (Inr (''a'', res))"
    by (simp add: probe_path_def demo_begins_B flip: demo_env_B_def)
  from probe_authentic [OF probing_loops(1) done'] have "dp_role res = ''target''"
    by (auto simp: demo_begins_B demo_su_B_def)
  with done' show ?thesis by (simp add: probe_direct_path_on_hub_def)
qed

theorem probe_fragile_witness:
  "\<exists>err. pb_done (fold (probe_step_on_hub toy_prims demo_env_B)
      [PE_Packet (SP_Probe (Probe_Hello (pe_rendezvous demo_env_B) (pt_peer (pe_setup demo_env_B)) [] []) ''anywhere'') [] (Inr ()) 1,
       PE_Packet (SP_Probe demo_hello ''a'') [] (Inr ()) 5] demo_probing) = Some (Inl err)"
proof -
  have "\<not> verify_signature_base64 toy_prims k m [] = Inr ()" for k m
    by (auto simp: verify_signature_base64_def decode_fixed_def result_bind_def toy_prims_def split: sum.splits option.splits if_splits)
  then obtain e where "verify_signature_base64 toy_prims (pe_peer_key demo_env_B)
      (direct_probe_hello_message (pe_rendezvous demo_env_B) (pt_peer (pe_setup demo_env_B)) []) [] = Inl e"
    by (metis sum.exhaust old.unit.exhaust)
  moreover have "pb_done demo_probing = None" by (simp add: demo_probing_def)
  ultimately show ?thesis
    using probe_fragile [OF probing_loops(1,1), of demo_probing _ toy_prims demo_env_B] by metis
qed

end
