(* ===== verification/RelayStream.thy ===== *)
theory RelayStream
  imports RelayClient SecureStream "HOL-Library.Sublist"
begin

text \<open>
  The stream a pair of relay bridges carries: what the reading side has sent after any events, and what
  the writing side has written after any events that bring it a part of it.
\<close>

section \<open>The reading side\<close>

definition reads :: "relay_bridge_event list \<Rightarrow> byte list list" where
  "reads evs = concat (map (\<lambda>e. case e of RB_Read bytes \<Rightarrow> [bytes] | _ \<Rightarrow> [])
     (takeWhile (\<lambda>e. e \<noteq> RB_Read []) evs))"

abbreviation at_eof :: "relay_bridge_event list \<Rightarrow> bool" where
  "at_eof evs \<equiv> RB_Read [] \<in> set evs"

text \<open>The buffer of the reader is 16 KiB.\<close>

definition reads_fit :: "relay_bridge_event list \<Rightarrow> bool" where
  "reads_fit evs = list_all (\<lambda>e. case e of RB_Read bytes \<Rightarrow> length bytes \<le> 16 * 1024 | _ \<Rightarrow> True) evs"

definition data_envelopes :: "crypto_prims \<Rightarrow> secure_half \<Rightarrow> string \<Rightarrow> byte list list \<Rightarrow> relay_envelope list" where
  "data_envelopes P h channel c = map (\<lambda>k. RE_ChannelData channel (cipher P h c k)) [0..<length c]"

abbreviation local_close :: "string \<Rightarrow> relay_envelope" where
  "local_close channel \<equiv> RE_ChannelClose channel (Some ''local tcp stream closed'')"

lemma reads_Nil [simp]: "reads [] = []"
  by (simp add: reads_def)

lemma reads_snoc: "reads (evs @ [e]) = (if at_eof evs then reads evs
    else reads evs @ (case e of RB_Read bytes \<Rightarrow> if bytes = [] then [] else [bytes] | _ \<Rightarrow> []))"
proof (cases "at_eof evs")
  case True
  then have "takeWhile (\<lambda>e. e \<noteq> RB_Read []) (evs @ [e]) = takeWhile (\<lambda>e. e \<noteq> RB_Read []) evs"
    by (intro takeWhile_append1 [of "RB_Read []"]) auto
  with True show ?thesis by (simp add: reads_def)
next
  case False
  then have tw1: "takeWhile (\<lambda>e. e \<noteq> RB_Read []) (evs @ [e]) = evs @ takeWhile (\<lambda>e. e \<noteq> RB_Read []) [e]"
    by (intro takeWhile_append2) auto
  have tw2: "takeWhile (\<lambda>e. e \<noteq> RB_Read []) evs = evs"
    using False by (auto simp: takeWhile_eq_all_conv)
  show ?thesis unfolding reads_def tw1 tw2 using False by (simp split: relay_bridge_event.split)
qed

lemma reads_prefix: "prefix (reads evs) (reads (evs @ [e]))"
  by (simp add: reads_snoc)

lemma data_envelopes_snoc: "data_envelopes P h channel (c @ [m])
    = data_envelopes P h channel c @ [RE_ChannelData channel (cipher P h (c @ [m]) (length c))]"
  by (simp add: data_envelopes_def)

lemma run_snoc: "relay_bridge_run P channel (evs @ [e]) s = relay_bridge_step P channel e (relay_bridge_run P channel evs s)"
  by (simp add: relay_bridge_run_def)

text \<open>Running: everything read has been sent. Ended: a part of it, and the close only after all of it.\<close>

definition reader_inv ::
  "crypto_prims \<Rightarrow> secure_half \<Rightarrow> string \<Rightarrow> relay_bridge_event list \<Rightarrow> relay_client
     \<Rightarrow> relay_bridge \<times> relay_client \<Rightarrow> bool" where
  "reader_inv P h channel evs st0 s =
     (case s of (b, st) \<Rightarrow>
        if rb_result b = None
        then \<not> at_eof evs \<and> rb_sender b = half_at h (length (reads evs))
             \<and> rc_sent st = rc_sent st0 @ data_envelopes P h channel (reads evs)
        else \<exists>c. prefix c (reads evs)
             \<and> (rc_sent st = rc_sent st0 @ data_envelopes P h channel c
                \<or> at_eof evs \<and> c = reads evs
                  \<and> rc_sent st = rc_sent st0 @ data_envelopes P h channel c @ [local_close channel]))"

lemma reader_inv_ended:
  assumes "prefix c (reads evs)" "rc_sent st = rc_sent st0 @ data_envelopes P h channel c" "rb_result b \<noteq> None"
  shows "reader_inv P h channel evs st0 (b, st)"
  using assms by (auto simp: reader_inv_def)

lemma rb_end_simps [simp]:
  "rb_result (rb_end r b) = Some r" "rb_sender (rb_end r b) = rb_sender b" "rb_receiver (rb_end r b) = rb_receiver b"
  "rb_written (rb_end r b) = rb_written b" "rb_shutdown (rb_end r b) = rb_shutdown b"
  by (simp_all add: rb_end_def)

lemma writer_round_sender [simp]: "rb_sender (writer_round P e io b) = rb_sender b"
  by (auto simp: writer_round_def Let_def split: relay_envelope.split prod.split sum.split)

lemma reader_round_inv:
  assumes P: "stream_crypto P h" and len: "length bytes \<le> 16 * 1024"
    and inv: "reader_inv P h channel evs st0 (b, st)" and running: "rb_result b = None"
  shows "reader_inv P h channel (evs @ [RB_Read bytes]) st0 (reader_round P channel bytes (b, st))"
proof -
  let ?c = "reads evs"
  from inv running have sent: "rc_sent st = rc_sent st0 @ data_envelopes P h channel ?c"
    and snd: "rb_sender b = half_at h (length ?c)" and noeof: "\<not> at_eof evs" by (auto simp: reader_inv_def)
  show ?thesis
  proof (cases "bytes = []")
    case True
    with sent noeof show ?thesis
      by (auto simp: reader_inv_def reader_round_def relay_send_def reads_snoc)
  next
    case False
    let ?n = "length ?c" and ?d = "?c @ [bytes]"
    have all: "reads (evs @ [RB_Read bytes]) = ?d" using noeof False by (simp add: reads_snoc)
    have "encrypt_to_base64 P (half_at h ?n) (?d ! ?n) = (Inr (cipher P h ?d ?n), half_at h (Suc ?n))"
      by (rule cipher_step(1) [OF P]) (use len in simp)
    then have enc: "encrypt_to_base64 P (rb_sender b) bytes = (Inr (cipher P h ?d ?n), half_at h (Suc ?n))"
      by (simp add: snd)
    show ?thesis
    proof (cases "rc_closed st")
      case True
      then have "reader_round P channel bytes (b, st)
          = (rb_end (Inl ''relay websocket is closed'') (b\<lparr>rb_sender := half_at h (Suc ?n)\<rparr>), st)"
        using False by (simp add: reader_round_def enc crypto_result_def relay_send_def)
      with sent show ?thesis by (auto intro!: reader_inv_ended [of ?c] simp: all)
    next
      case open': False
      then have "reader_round P channel bytes (b, st) = (b\<lparr>rb_sender := half_at h (Suc ?n)\<rparr>,
          st\<lparr>rc_sent := rc_sent st @ [RE_ChannelData channel (cipher P h ?d ?n)]\<rparr>)"
        using False by (simp add: reader_round_def enc crypto_result_def relay_send_def)
      with sent noeof False running show ?thesis
        by (simp add: reader_inv_def all data_envelopes_snoc)
    qed
  qed
qed

lemma relay_reader_inv:
  assumes "stream_crypto P h" "rb_sender b0 = h" "rb_result b0 = None" "reads_fit evs"
  shows "reader_inv P h channel evs st0 (relay_bridge_run P channel evs (b0, st0))"
  using assms(4)
proof (induction evs rule: rev_induct)
  case Nil
  with assms show ?case by (simp add: reader_inv_def relay_bridge_run_def data_envelopes_def)
next
  case (snoc e evs)
  obtain b st where run: "relay_bridge_run P channel evs (b0, st0) = (b, st)" by fastforce
  from snoc have inv: "reader_inv P h channel evs st0 (b, st)" by (simp add: run reads_fit_def)
  show ?case
  proof (cases "rb_result b = None")
    case False
    then have stay: "relay_bridge_run P channel (evs @ [e]) (b0, st0) = (b, st)" by (simp add: run_snoc run)
    from False inv obtain c where c: "prefix c (reads evs)" "rc_sent st = rc_sent st0 @ data_envelopes P h channel c
        \<or> at_eof evs \<and> c = reads evs \<and> rc_sent st = rc_sent st0 @ data_envelopes P h channel c @ [local_close channel]"
      by (fastforce simp: reader_inv_def)
    from c(1) reads_prefix have "prefix c (reads (evs @ [e]))" by (rule prefix_order.trans)
    moreover have "reads (evs @ [e]) = reads evs \<and> at_eof (evs @ [e])" if "at_eof evs" using that by (simp add: reads_snoc)
    ultimately show ?thesis using False c unfolding stay reader_inv_def by fastforce
  next
    case True
    show ?thesis
    proof (cases e)
      case (RB_Read bytes)
      with snoc.prems have "length bytes \<le> 16 * 1024" by (simp add: reads_fit_def)
      from reader_round_inv [OF assms(1) this inv True] show ?thesis by (simp add: run_snoc run RB_Read True)
    qed (use inv True in \<open>auto simp: reader_inv_def run_snoc run reads_snoc\<close>)
  qed
qed

section \<open>The writing side\<close>

definition incoming :: "relay_bridge_event list \<Rightarrow> relay_envelope list" where
  "incoming evs = concat (map (\<lambda>e. case e of RB_Incoming env _ \<Rightarrow> [env] | _ \<Rightarrow> []) evs)"

fun is_data :: "relay_envelope \<Rightarrow> bool" where
  "is_data (RE_ChannelData _ _) = True"
| "is_data _ = False"

definition data_in :: "relay_bridge_event list \<Rightarrow> relay_envelope list" where
  "data_in evs = filter is_data (incoming evs)"

text \<open>The data that arrives before the first envelope that ends the channel.\<close>

definition data_before_end :: "relay_bridge_event list \<Rightarrow> relay_envelope list" where
  "data_before_end evs = filter is_data (takeWhile (\<lambda>e. \<not> relay_is_terminal e) (incoming evs))"

lemma incoming_snoc [simp]:
  "incoming (evs @ [e]) = incoming evs @ (case e of RB_Incoming env _ \<Rightarrow> [env] | _ \<Rightarrow> [])"
  by (simp add: incoming_def)

definition decrypt_error :: "unit result option \<Rightarrow> bool" where
  "decrypt_error r = (case r of Some (Inl e) \<Rightarrow> strip_prefix ''failed to decrypt relay payload'' e \<noteq> None | _ \<Rightarrow> False)"

lemma decrypt_error_simps [simp]:
  "\<not> decrypt_error None" "\<not> decrypt_error (Some (Inr u))"
  "\<not> decrypt_error (Some (Inl ''failed to read local tcp stream''))"
  "\<not> decrypt_error (Some (Inl ''failed to write local tcp stream''))"
  "\<not> decrypt_error (Some (Inl ''failed to shutdown local tcp stream''))"
  "\<not> decrypt_error (Some (Inl ''relay websocket is closed''))"
  by (simp_all add: decrypt_error_def)

lemma decrypt_error_encrypt [simp]: "\<not> decrypt_error (Some (Inl (''failed to encrypt relay payload'' @ e)))"
  by (simp add: decrypt_error_def)

definition writer_inv ::
  "crypto_prims \<Rightarrow> secure_half \<Rightarrow> byte list list \<Rightarrow> relay_bridge_event list \<Rightarrow> relay_bridge \<Rightarrow> bool" where
  "writer_inv P h c evs b =
     (prefix (rb_written b) (concat (take (length (data_in evs)) c))
      \<and> (rb_result b = None \<longrightarrow> (\<forall>e\<in>set (incoming evs). \<not> relay_is_terminal e)
           \<and> rb_receiver b = half_at h (length (data_in evs))
           \<and> rb_written b = concat (take (length (data_in evs)) c) \<and> \<not> rb_shutdown b)
      \<and> (rb_shutdown b \<longrightarrow> rb_written b = concat (take (length (data_before_end evs)) c)
           \<and> (\<exists>e\<in>set (incoming evs). relay_is_terminal e))
      \<and> \<not> decrypt_error (rb_result b))"

lemma data_in_snoc: "data_in (evs @ [e]) = data_in evs @ (case e of RB_Incoming env _ \<Rightarrow> if is_data env then [env] else [] | _ \<Rightarrow> [])"
  by (simp add: data_in_def split: relay_bridge_event.split)

lemma not_data_terminal: "relay_is_terminal e \<Longrightarrow> \<not> is_data e"
  by (cases e) simp_all

lemma data_before_end_quiet:
  "\<forall>e\<in>set (incoming evs). \<not> relay_is_terminal e \<Longrightarrow> data_before_end (evs @ [e]) = data_in (evs @ [e])"
  by (auto simp: data_before_end_def data_in_def not_data_terminal split: relay_bridge_event.split)

lemma data_before_end_ended:
  "\<exists>e\<in>set (incoming evs). relay_is_terminal e \<Longrightarrow> data_before_end (evs @ [e]) = data_before_end evs"
  by (auto simp: data_before_end_def)

lemma concat_take_prefix: "n \<le> m \<Longrightarrow> prefix (concat (take n xs)) (concat (take m xs))"
  by (metis concat_append le_add_diff_inverse prefix_def take_add)

lemma writer_data_inv:
  assumes P: "stream_crypto P h" and fit: "\<forall>m\<in>set c. length m \<le> 16 * 1024"
    and running: "rb_result b = None" "writer_inv P h c evs b"
    and data: "n = length (data_in evs)" "n < length c" "d = cipher P h c n"
  shows "writer_inv P h c (evs @ [RB_Incoming (RE_ChannelData ch d) io]) (writer_round P (RE_ChannelData ch d) io b)"
proof -
  let ?evs = "evs @ [RB_Incoming (RE_ChannelData ch d) io]"
  have n: "length (data_in ?evs) = Suc n" by (simp add: data_in_snoc data(1))
  have quiet: "\<forall>e\<in>set (incoming ?evs). \<not> relay_is_terminal e" using running by (simp add: writer_inv_def)
  have "length (c ! n) \<le> 16 * 1024" using fit data(2) by simp
  then have "length (c ! n) \<le> 2 ^ 32" by simp
  from cipher_step(2) [OF P this] running data
  have dec: "decrypt_from_base64 P (rb_receiver b) d = (Inr (c ! n), half_at h (Suc n))" by (simp add: writer_inv_def)
  have w: "rb_written b = concat (take n c)" "\<not> rb_shutdown b" using running data(1) by (simp_all add: writer_inv_def)
  have full: "concat (take (Suc n) c) = concat (take n c) @ c ! n" using data(2) by (simp add: take_Suc_conv_app_nth)
  have "writer_round P (RE_ChannelData ch d) io b = (let b1 = b\<lparr>rb_receiver := half_at h (Suc n)\<rparr> in
      case io of Inl k \<Rightarrow> rb_end (Inl ''failed to write local tcp stream'') (b1\<lparr>rb_written := concat (take n c) @ take k (c ! n)\<rparr>)
      | Inr _ \<Rightarrow> b1\<lparr>rb_written := concat (take (Suc n) c)\<rparr>)"
    by (cases io) (simp_all add: writer_round_def dec crypto_result_def w full Let_def)
  with quiet w(2) running(1) show ?thesis unfolding writer_inv_def n
    by (cases io) (simp_all add: full take_is_prefix)
qed

lemma writer_end_inv:
  assumes "rb_result b = None" "writer_inv P h c evs b" "relay_is_terminal e"
  shows "writer_inv P h c (evs @ [RB_Incoming e io]) (writer_round P e io b)"
proof -
  let ?evs = "evs @ [RB_Incoming e io]"
  have "data_in ?evs = data_in evs" using assms(3) by (simp add: data_in_snoc not_data_terminal)
  moreover have "data_before_end ?evs = data_in ?evs"
    using assms by (simp add: data_before_end_quiet writer_inv_def)
  ultimately show ?thesis using assms
    by (cases e; cases io) (auto simp: writer_inv_def writer_round_def)
qed

lemma writer_inv_later:
  assumes "writer_inv P h c evs b" "rb_result b \<noteq> None"
  shows "writer_inv P h c (evs @ [e]) b"
proof -
  have "prefix (concat (take (length (data_in evs)) c)) (concat (take (length (data_in (evs @ [e]))) c))"
    by (rule concat_take_prefix) (simp add: data_in_snoc)
  with assms show ?thesis
    by (auto simp: writer_inv_def data_before_end_ended intro: prefix_order.trans)
qed

lemma reader_round_frame [simp]:
  "rb_written (fst (reader_round P ch bytes (b, st))) = rb_written b"
  "rb_receiver (fst (reader_round P ch bytes (b, st))) = rb_receiver b"
  "rb_shutdown (fst (reader_round P ch bytes (b, st))) = rb_shutdown b"
  by (simp_all add: reader_round_def Let_def split: prod.split sum.split)

lemma reader_round_result: "rb_result b = None \<Longrightarrow> \<not> decrypt_error (rb_result (fst (reader_round P ch bytes (b, st))))"
  by (simp add: reader_round_def Let_def relay_send_def crypto_result_def split: prod.splits sum.splits)
    (simp add: decrypt_error_def)

lemma relay_writer_inv:
  assumes "stream_crypto P h" "\<forall>m\<in>set c. length m \<le> 16 * 1024"
    "rb_receiver b0 = h" "rb_result b0 = None" "rb_written b0 = []" "\<not> rb_shutdown b0"
    "prefix (data_in evs) (data_envelopes P h channel c)"
  shows "writer_inv P h c evs (fst (relay_bridge_run P channel' evs (b0, st0)))"
  using assms(7)
proof (induction evs rule: rev_induct)
  case Nil
  with assms show ?case by (simp add: writer_inv_def relay_bridge_run_def data_in_def incoming_def)
next
  case (snoc e evs)
  obtain b st where run: "relay_bridge_run P channel' evs (b0, st0) = (b, st)" by fastforce
  have "prefix (data_in evs) (data_in (evs @ [e]))" by (simp add: data_in_snoc)
  from prefix_order.trans [OF this snoc.prems] snoc.IH have inv: "writer_inv P h c evs b" by (simp add: run)
  show ?case
  proof (cases "rb_result b = None")
    case False
    with writer_inv_later [OF inv] show ?thesis by (simp add: run_snoc run)
  next
    case True
    show ?thesis
    proof (cases e)
      case (RB_Read bytes)
      have "writer_inv P h c (evs @ [e]) (fst (reader_round P channel' bytes (b, st)))"
        using inv True reader_round_result [OF True, of P channel' bytes st]
        by (simp add: writer_inv_def RB_Read data_in_snoc data_before_end_def)
      with True show ?thesis by (simp add: run_snoc run RB_Read)
    next
      case (RB_Incoming env io)
      show ?thesis
      proof (cases "is_data env")
        case data: True
        then obtain ch d where env: "env = RE_ChannelData ch d" by (cases env) auto
        let ?n = "length (data_in evs)"
        have p: "prefix (data_in evs @ [RE_ChannelData ch d]) (data_envelopes P h channel c)"
          using snoc.prems by (simp add: RB_Incoming data_in_snoc env)
        then have "?n < length c" by (auto dest: prefix_length_le simp: data_envelopes_def)
        moreover obtain rest where "data_envelopes P h channel c = (data_in evs @ [RE_ChannelData ch d]) @ rest"
          using p by (rule prefixE)
        then have "data_envelopes P h channel c ! ?n = RE_ChannelData ch d" by simp
        ultimately have "?n < length c" "d = cipher P h c ?n" by (simp_all add: data_envelopes_def)
        from writer_data_inv [OF assms(1,2) True inv refl this] show ?thesis
          by (simp add: run_snoc run RB_Incoming env True)
      next
        case nodata: False
        show ?thesis
        proof (cases "relay_is_terminal env")
          case ending: True
          from writer_end_inv [OF True inv this] show ?thesis by (simp add: run_snoc run RB_Incoming True)
        next
          case False
          with nodata have "writer_round P env io b = b" by (cases env) (simp_all add: writer_round_def)
          with nodata False inv True show ?thesis
            by (auto simp: run_snoc run RB_Incoming writer_inv_def data_in_snoc)
        qed
      qed
    qed (use inv True in \<open>auto simp: run_snoc run writer_inv_def data_in_snoc\<close>)
  qed
qed

end
