(* ===== verification/RelayClientProps.thy ===== *)
theory RelayClientProps
  imports RelayStream AgentProps RelayProps
begin

text \<open>
  What the agent's relay client promises: an authentic relay key, an opening handshake that ends with
  matching keys, and a stream that is a prefix of what was read; and where it falls short.
\<close>

section \<open>Streams\<close>

lemma reader_inv_sent:
  assumes "reader_inv P h channel evs st0 (a, st)" "rc_sent st0 = []"
  obtains c where "prefix c (reads evs)" "filter is_data (rc_sent st) = data_envelopes P h channel c"
    "local_close channel \<in> set (rc_sent st) \<Longrightarrow> c = reads evs"
proof -
  have data: "filter is_data (data_envelopes P h channel c) = data_envelopes P h channel c"
    and none: "local_close channel \<notin> set (data_envelopes P h channel c)" for c
    by (auto simp: data_envelopes_def filter_id_conv)
  from assms consider (part) c where "prefix c (reads evs)" "rc_sent st = data_envelopes P h channel c"
    | (all) "rc_sent st = data_envelopes P h channel (reads evs) @ [local_close channel]"
    by (fastforce simp: reader_inv_def split: if_splits)
  then show thesis
  proof cases
    case part
    with that [of c] data none show thesis by simp
  next
    case all
    with that [of "reads evs"] data show thesis by simp
  qed
qed

lemma reads_fit_mem: "reads_fit evs \<Longrightarrow> m \<in> set (reads evs) \<Longrightarrow> length m \<le> 16 * 1024"
  by (auto simp: reads_fit_def reads_def list_all_iff split: relay_bridge_event.splits dest!: set_takeWhileD)


text \<open>
  A half-closed stream is cut and a broken one looks complete: as soon as the local side has closed
  its half, the relay bridge ends with success and nothing that still arrives for it is written; and a
  close of any kind, also the one the agent itself makes up when the websocket is lost, ends the stream
  with success and a clean end of file.
\<close>

theorem relay_stream_cut:
  assumes "relay_bridge_run P channel evs s0 = (b, st)" "rb_result b = None"
  shows "rb_result (fst (relay_bridge_run P channel (evs @ RB_Read [] # later) s0)) = Some (Inr ())
    \<and> rb_written (fst (relay_bridge_run P channel (evs @ RB_Read [] # later) s0)) = rb_written b
    \<and> rb_result (fst (relay_bridge_run P channel (evs @ [RB_Incoming (RE_ChannelClose channel why) (Inr ())]) s0)) = Some (Inr ())
    \<and> rb_shutdown (fst (relay_bridge_run P channel (evs @ [RB_Incoming (RE_ChannelClose channel why) (Inr ())]) s0))"
proof -
  have stuck: "relay_bridge_run P channel later (b', st') = (b', st')" if "rb_result b' \<noteq> None" for b' st'
    using that by (induction later) (simp_all add: relay_bridge_run_def)
  have "relay_bridge_run P channel (evs @ RB_Read [] # later) s0
      = relay_bridge_run P channel later (reader_round P channel [] (b, st))"
    using assms by (simp add: relay_bridge_run_def)
  then have "relay_bridge_run P channel (evs @ RB_Read [] # later) s0 = reader_round P channel [] (b, st)"
    by (simp add: reader_round_def stuck)
  with assms show ?thesis by (simp add: reader_round_def run_snoc writer_round_def)
qed

section \<open>Resolving and opening\<close>

lemma resolve_Inr:
  assumes "resolve_service_with_session P (Inr snap) target name = Inr rz"
  obtains d where "List.find (\<lambda>x. dv_device_id x = target) (ns_devices snap) = Some d"
    "rz_target_relay_public_key rz = dv_relay_public_key d"
    "device_id_from_public_key P (dv_identity_public_key d) = target"
    "verify_signature_base64 P (dv_identity_public_key d)
      (relay_key_binding_message target (dv_relay_public_key d)) (dv_relay_public_key_signature d) = Inr ()"
    "rz_service rz \<in> set (ns_services snap)" "sd_owner_device_id (rz_service rz) = target" "sd_name (rz_service rz) = name"
proof -
  from assms obtain sv d where "List.find (\<lambda>x. sd_owner_device_id x = target \<and> sd_name x = name) (ns_services snap) = Some sv"
    "List.find (\<lambda>x. dv_device_id x = target) (ns_devices snap) = Some d"
    "device_id_from_public_key P (dv_identity_public_key d) = dv_device_id d"
    "verify_signature_base64 P (dv_identity_public_key d)
      (relay_key_binding_message (dv_device_id d) (dv_relay_public_key d)) (dv_relay_public_key_signature d) = Inr ()"
    "rz = \<lparr>rz_service = sv, rz_target_relay_public_key = dv_relay_public_key d\<rparr>"
    by (auto simp: resolve_service_with_session_def result_bind_Inr_iff crypto_result_def split: option.splits if_splits sum.splits)
  moreover note find_Some_member [OF this(1)] find_Some_member [OF this(2)]
  ultimately show thesis using that by auto
qed

text \<open>
  C7. Whatever the server answers, a relay key an agent accepts for a service was signed by the identity
  key the target's device id is derived from, for that very device; and the service it names belongs to
  that device. With the answer of a server whose tables hold the target's registration it is the
  registered relay key, and the service is one the agent is authorised for.
\<close>

theorem resolved_key_authentic:
  assumes "resolve_service_with_session C (Inr snap) target name = Inr rz"
    and "db_wf P db" "session_device_id P now tok db = Inr d" "db_network_snapshot P now tok db = Inr snap'"
      "resolve_service_with_session C (Inr snap') target name = Inr rz'"
  shows "(\<exists>pk sig. device_id_from_public_key C pk = target
        \<and> verify_signature_base64 C pk (relay_key_binding_message target (rz_target_relay_public_key rz)) sig = Inr ())
    \<and> sd_owner_device_id (rz_service rz) = target \<and> sd_name (rz_service rz) = name
    \<and> (\<exists>row\<in>set (db_devices db). dr_device_id row = target \<and> dr_relay_public_key row = Some (rz_target_relay_public_key rz'))
    \<and> authorize_relay_service d (sd_service_id (rz_service rz')) db = Inr (rz_service rz')"
proof -
  from assms(5) obtain dv where dv: "List.find (\<lambda>x. dv_device_id x = target) (ns_devices snap') = Some dv"
    "rz_target_relay_public_key rz' = dv_relay_public_key dv" and sv: "rz_service rz' \<in> set (ns_services snap')"
    by (rule resolve_Inr) blast
  have snap: "ns_devices snap' = map (summary_of now) (sort_key dr_device_name (db_devices db))"
    "ns_services snap' = map to_service_definition (visible_services d db)"
    using network_snapshot_eq [OF assms(2,3)] assms(4) by auto
  have "dv \<in> summary_of now ` set (db_devices db)" and id: "dv_device_id dv = target"
    using find_Some_member [OF dv(1)] by (simp_all add: snap)
  then obtain row where "row \<in> set (db_devices db)" "dv = summary_of now row" by blast
  with id have row: "row \<in> set (db_devices db)" "dv = summary_of now row" "dr_device_id row = target" by simp_all
  moreover have "dr_relay_public_key row = Some (dv_relay_public_key dv)"
    using row db_wfD(3) [OF assms(2)] by (auto simp: derived_ok_def summary_of_def)
  moreover have "authorize_relay_service d (sd_service_id (rz_service rz')) db = Inr (rz_service rz')"
    using sv visible_authorized [OF assms(2), of "rz_service rz'" d] by (simp add: snap)
  moreover from assms(1) have "(\<exists>pk sig. device_id_from_public_key C pk = target
        \<and> verify_signature_base64 C pk (relay_key_binding_message target (rz_target_relay_public_key rz)) sig = Inr ())
    \<and> sd_owner_device_id (rz_service rz) = target \<and> sd_name (rz_service rz) = name"
  proof (rule resolve_Inr, intro conjI exI)
    fix d
    assume "rz_target_relay_public_key rz = dv_relay_public_key d" "verify_signature_base64 C (dv_identity_public_key d)
      (relay_key_binding_message target (dv_relay_public_key d)) (dv_relay_public_key_signature d) = Inr ()"
    then show "verify_signature_base64 C (dv_identity_public_key d)
      (relay_key_binding_message target (rz_target_relay_public_key rz)) (dv_relay_public_key_signature d) = Inr ()" by simp
  qed
  ultimately show ?thesis using dv(2) by auto
qed

lemma directory_Some:
  assumes "s \<in> set services"
  shows "\<exists>s'. published_service_directory P device services (service_id_of P device (ps_name s)) = Some s'"
proof -
  have "(service_id_of P device (ps_name s), s) \<in> set (rev (map (\<lambda>s. (service_id_of P device (ps_name s), s)) services))"
    using assms by simp
  then show ?thesis unfolding published_service_directory_def by (meson weak_map_of_SomeI)
qed

lemma incoming_accepted:
  assumes "device_id_from_public_key P (ri_source_identity_public_key ch) = ri_source_device_id ch"
    "verify_signature_base64 P (ri_source_identity_public_key ch) (relay_channel_open_message (ri_channel_id ch)
      (ri_service_id ch) (ri_source_device_id ch) (ri_source_ephemeral_public_key ch)) (ri_source_open_signature ch) = Inr ()"
    "directory (ri_service_id ch) = Some s"
  shows "handle_incoming_begin P directory q ch st = (Inr (Some s), rc_register (ri_channel_id ch) q st)"
  using assms by (simp add: handle_incoming_begin_def crypto_result_def)

text \<open>
  C5. The opening handshake works end to end. The request an agent sends for a service it has resolved
  carries its signature; whatever connection of the target the hub hands it to, the target verifies it,
  finds its published service, accepts the channel, and both ends then hold matching halves of one
  secure channel, each one's sender the other's receiver.
\<close>

theorem relay_channel_opens:
  fixes P :: server_prims and h :: hub
  defines "C \<equiv> crypto_prims.truncate P"
  assumes laws: "b64_law C" "ed_law C" "dh_law C"
    and source: "length (di_signing_key src) = 32" "length (rk_secret_bytes eph) = 32"
      "device_identity_public_key (identity_device_id C src) db = Inr (identity_public_key_base64 C src)"
    and target: "length (rk_secret_bytes keys) = 32" "rz_target_relay_public_key rz = keypair_public_key_base64 C keys"
      "sd_service_id (rz_service rz) = service_id_of C me (ps_name s)" "s \<in> set services" "\<not> rc_closed st2"
    and request: "local_forward_begin C eph rnd q1 src rz st1 = (Inr (), channel, st1')"
      "RE_OpenChannel channel sid pk sig \<in> set (rc_sent st1')" "RE_OpenChannel channel sid pk sig \<notin> set (rc_sent st1)"
    and hub: "hub_wf h" "handle_envelope gone rounds db (identity_device_id C src) c (RE_OpenChannel channel sid pk sig) h = Some (out, h')"
      "(q, e) \<in> set out" "relay_reader_envelope e [] = ([To_Acceptor ch], [])"
  shows "\<exists>s' st3 mine theirs ops st4.
      handle_incoming_begin C (published_service_directory C me services) q2 ch st2 = (Inr (Some s'), st3)
      \<and> handle_incoming_connected C keys ch s' (Inr ()) st3 = (Inr (Some theirs), ops, st4)
      \<and> rc_sent st4 = rc_sent st2 @ [RE_ChannelAccepted channel]
      \<and> fst (local_forward_opened C eph channel rz hook peer (Some (Inr Open_Accepted)) st1') = Inr mine
      \<and> fst mine = snd theirs \<and> snd mine = fst theirs"
proof -
  let ?d = "identity_device_id C src" and ?eph = "keypair_public_key_base64 C eph"
  let ?sid = "sd_service_id (rz_service rz)"
  from request have req: "sid = ?sid" "pk = ?eph" "sig = sign_base64 C src (relay_channel_open_message channel ?sid ?d ?eph)"
    by (auto simp: local_forward_begin_def relay_send_def rc_register_def Let_def split: if_splits)
  have e: "\<exists>j source ik eph' sig' sid'. e = RE_IncomingChannel j source ik eph' sig' sid'
      \<and> ch = \<lparr>ri_channel_id = j, ri_source_device_id = source, ri_source_identity_public_key = ik,
            ri_source_ephemeral_public_key = eph', ri_source_open_signature = sig', ri_service_id = sid'\<rparr>"
    using hub(4) by (cases e) (auto simp: route_channel_message_def split: prod.splits)
  then obtain j source ik eph' sig' sid' where e: "e = RE_IncomingChannel j source ik eph' sig' sid'"
    and ch: "ch = \<lparr>ri_channel_id = j, ri_source_device_id = source, ri_source_identity_public_key = ik,
            ri_source_ephemeral_public_key = eph', ri_source_open_signature = sig', ri_service_id = sid'\<rparr>" by blast
  have "handle_open_channel rounds db ?d c channel sid pk sig (note_connection_opened_channel gone ?d c h) = Some (out, h')"
    using hub(2) by simp
  from this note_connection_opened_channel_wf [OF hub(1)]
  have fields: "j = channel \<and> source = ?d \<and> ik = identity_public_key_base64 C src \<and> eph' = ?eph \<and> sig' = sig \<and> sid' = ?sid"
  proof (cases rule: handle_open_channel_cases)
    case (reject reason)
    with hub(3) show ?thesis by (auto simp: e to_connection_def split: option.splits)
  next
    case (incoming service ik' tc x)
    from incoming(1) have "sd_service_id service = sid"
      by (rule authorize_relay_service_row) (simp add: to_service_definition_def)
    with incoming hub(3) source(3) show ?thesis by (simp add: e req)
  qed
  obtain s' where s': "published_service_directory C me services ?sid = Some s'"
    using directory_Some [OF target(4), of C me] by (auto simp: target(3))
  have accepted: "handle_incoming_begin C (published_service_directory C me services) q2 ch st2
      = (Inr (Some s'), rc_register channel q2 st2)"
    using incoming_accepted [of C ch "published_service_directory C me services" s' q2 st2]
      sign_verify [OF laws(1,2) source(1)] s' fields
    by (simp add: ch req identity_device_id_def)
  from shared_secret_agree [OF laws(1,3) source(2) target(1)] obtain k where
    k: "shared_secret_with_public_key C eph (keypair_public_key_base64 C keys) = Inr k"
    "shared_secret_with_public_key C keys ?eph = Inr k" by blast
  let ?st3 = "rc_register channel q2 st2"
  have "handle_incoming_connected C keys ch s' (Inr ()) ?st3 = (Inr (Some (secure_channel_pair C k channel Responder)),
      [Op_ServiceConnection (ps_name s') ''relay'' ?d], ?st3\<lparr>rc_sent := rc_sent ?st3 @ [RE_ChannelAccepted channel]\<rparr>)"
    using target(5) fields by (simp add: handle_incoming_connected_def ch crypto_result_def k relay_send_def rc_register_def)
  moreover have "fst (local_forward_opened C eph channel rz hook peer (Some (Inr Open_Accepted)) st1')
      = Inr (secure_channel_pair C k channel Initiator)"
    by (simp add: local_forward_opened_def target(2) crypto_result_def k)
  moreover have "fst (secure_channel_pair C k channel Initiator) = snd (secure_channel_pair C k channel Responder)"
    "snd (secure_channel_pair C k channel Initiator) = fst (secure_channel_pair C k channel Responder)"
    using secure_channel_pair_match [of C k channel Initiator] secure_channel_pair_match [of C k channel Responder] by simp_all
  moreover have "rc_sent (?st3\<lparr>rc_sent := rc_sent ?st3 @ [RE_ChannelAccepted channel]\<rparr>) = rc_sent st2 @ [RE_ChannelAccepted channel]"
    by (simp add: rc_register_def)
  ultimately show ?thesis using accepted by blast
qed

section \<open>Examples\<close>

definition demo_client :: relay_client where
  "demo_client = \<lparr>rc_closed = False, rc_sent = [], rc_routes = []\<rparr>"

definition demo_end :: "secure_channel_role \<Rightarrow> relay_bridge \<times> relay_client" where
  "demo_end role = (relay_bridge_init (secure_channel_pair toy_prims [] ''c'' role), demo_client)"

definition demo_source_events :: "relay_bridge_event list" where
  "demo_source_events = [RB_Read [104, 105], RB_Read []]"

definition demo_target_events :: "relay_bridge_event list" where
  "demo_target_events = map (\<lambda>e. RB_Incoming e (Inr ())) (rc_sent (snd (relay_bridge_run toy_prims ''c'' demo_source_events (demo_end Initiator))))"

lemma demo_incoming: "incoming demo_target_events
    = rc_sent (snd (relay_bridge_run toy_prims ''c'' demo_source_events (demo_end Initiator)))"
  by (simp add: incoming_def demo_target_events_def comp_def)

lemma demo_reads: "reads demo_source_events = [[104, 105]]"
  by (simp add: reads_def demo_source_events_def)

lemma demo_target_ends:
  "rb_shutdown (fst (relay_bridge_run toy_prims ''c'' demo_target_events (demo_end Responder)))"
  "data_before_end demo_target_events = data_in demo_target_events"
  "local_close ''c'' \<in> set (incoming demo_target_events)"
  by code_simp+


theorem relay_stream_cut_witness:
  "rb_result (fst (relay_bridge_run toy_prims ''c'' ([RB_Read [104]] @ RB_Read [] # demo_target_events) (demo_end Initiator))) = Some (Inr ())"
proof -
  obtain b st where r: "relay_bridge_run toy_prims ''c'' [RB_Read [104]] (demo_end Initiator) = (b, st)" by fastforce
  have "rb_result (fst (relay_bridge_run toy_prims ''c'' [RB_Read [104]] (demo_end Initiator))) = None" by code_simp
  then have "rb_result b = None" by (simp add: r)
  from relay_stream_cut [OF r this] show ?thesis by blast
qed

definition demo_resolved :: resolved_service where
  "demo_resolved = \<lparr>rz_service = demo_service, rz_target_relay_public_key = replicate 32 (CHR ''A'')\<rparr>"

definition demo_answer :: "network_snapshot result" where
  "demo_answer = (case db_network_snapshot toy_server 20 ''sess_E'' demo_db3 of Inl e \<Rightarrow> Inl (server_error_message e) | Inr snap \<Rightarrow> Inr snap)"

lemma demo_session_B: "session_device_id toy_server 20 ''sess_E'' demo_db3 = Inr (demo_id (CHR ''B''))"
proof -
  have "demo_hash ''sess_E'' \<noteq> demo_hash ''sess_C''" by (simp add: demo_hash_def)
  moreover have "hash_secret toy_prims ''sess_E'' = demo_hash ''sess_E''" by code_simp
  ultimately show ?thesis by (simp add: session_device_id_def demo_db3_def demo_db2_def demo_db1_def)
qed

lemma demo_resolves: "resolve_service_with_session toy_prims demo_answer (demo_id (CHR ''A'')) ''web'' = Inr demo_resolved"
  by code_simp

theorem resolved_key_authentic_witness:
  "\<exists>pk sig. device_id_from_public_key toy_prims pk = demo_id (CHR ''A'')
     \<and> verify_signature_base64 toy_prims pk (relay_key_binding_message (demo_id (CHR ''A''))
         (rz_target_relay_public_key demo_resolved)) sig = Inr ()"
proof -
  from network_snapshot_eq [OF demo_wf3 demo_session_B] obtain snap
    where snap: "db_network_snapshot toy_server 20 ''sess_E'' demo_db3 = Inr snap" by blast
  with demo_resolves have r: "resolve_service_with_session toy_prims (Inr snap) (demo_id (CHR ''A'')) ''web'' = Inr demo_resolved"
    by (simp add: demo_answer_def)
  from resolved_key_authentic [OF r demo_wf3 demo_session_B snap r] show ?thesis by blast
qed

definition demo_source_identity :: device_identity where "demo_source_identity = \<lparr>di_signing_key = replicate 32 66\<rparr>"
definition demo_ephemeral :: relay_keypair where "demo_ephemeral = \<lparr>rk_secret_bytes = replicate 32 7\<rparr>"
definition demo_target_keys :: relay_keypair where "demo_target_keys = \<lparr>rk_secret_bytes = replicate 32 65\<rparr>"

definition demo_published :: published_service_config where
  "demo_published = \<lparr>ps_name = ''web'', ps_target_host = ''localhost'', ps_target_port = 80, ps_allowed_device_ids = [],
     ps_direct_enabled = False, ps_direct_udp_bind_addr = [], ps_direct_candidate_type = [], ps_direct_wait_seconds = 5\<rparr>"

lemma demo_chars [simp]: "char_of (65 :: nat) = CHR ''A''" "char_of (66 :: nat) = CHR ''B''"
  by code_simp+

lemma demo_source_id: "identity_public_key_base64 toy_prims demo_source_identity = replicate 32 (CHR ''B'')"
  "identity_device_id toy_prims demo_source_identity = demo_id (CHR ''B'')"
proof -
  show key: "identity_public_key_base64 toy_prims demo_source_identity = replicate 32 (CHR ''B'')"
    by (simp add: identity_public_key_base64_def toy_prims_def demo_source_identity_def)
  show "identity_device_id toy_prims demo_source_identity = demo_id (CHR ''B'')"
    by (simp add: identity_device_id_def key demo_device_id)
qed

lemma demo_target_key: "keypair_public_key_base64 toy_prims demo_target_keys = rz_target_relay_public_key demo_resolved"
  by (simp add: keypair_public_key_base64_def toy_prims_def demo_target_keys_def demo_resolved_def)

lemma demo_begins: "\<exists>sig st. local_forward_begin toy_prims demo_ephemeral [] 1 demo_source_identity demo_resolved demo_client
      = (Inr (), ''ch_'', st)
    \<and> rc_sent st = [RE_OpenChannel ''ch_'' (sd_service_id demo_service) (keypair_public_key_base64 toy_prims demo_ephemeral) sig]"
proof -
  have "generate_token toy_prims [] ''ch'' = ''ch_''" by code_simp
  then show ?thesis
    by (simp add: local_forward_begin_def relay_send_def rc_register_def demo_client_def Let_def) (simp add: demo_resolved_def)
qed

theorem relay_channel_opens_witness:
  "\<exists>ch s st st3 ops theirs mine st'.
     local_forward_begin toy_prims demo_ephemeral [] 1 demo_source_identity demo_resolved demo_client = (Inr (), ''ch_'', st)
     \<and> handle_incoming_connected toy_prims demo_target_keys ch s (Inr ()) st3 = (Inr (Some theirs), ops, st')
     \<and> rc_sent st' = [RE_ChannelAccepted ''ch_'']
     \<and> fst (local_forward_opened toy_prims demo_ephemeral ''ch_'' demo_resolved None ''peer'' (Some (Inr Open_Accepted)) st) = Inr mine
     \<and> fst mine = snd theirs"
proof -
  let ?eph = "keypair_public_key_base64 toy_prims demo_ephemeral"
  obtain sig st where b: "local_forward_begin toy_prims demo_ephemeral [] 1 demo_source_identity demo_resolved demo_client = (Inr (), ''ch_'', st)"
    and sent: "rc_sent st = [RE_OpenChannel ''ch_'' (sd_service_id demo_service) ?eph sig]" using demo_begins by blast
  let ?in = "RE_IncomingChannel ''ch_'' (demo_id (CHR ''B'')) (replicate 32 (CHR ''B'')) ?eph sig (sd_service_id demo_service)"
  from demo_opening [of "''ch_''" ?eph sig] obtain h' where
    hub: "handle_envelope all_open [(all_open, all_open, all_open)] demo_db3 (demo_id (CHR ''B'')) ''s''
      (RE_OpenChannel ''ch_'' (sd_service_id demo_service) ?eph sig) demo_hub = Some ([(2, ?in)], h')" by blast
  then have hub': "handle_envelope all_open [(all_open, all_open, all_open)] demo_db3
      (identity_device_id toy_prims demo_source_identity) ''s''
      (RE_OpenChannel ''ch_'' (sd_service_id demo_service) ?eph sig) demo_hub = Some ([(2, ?in)], h')"
    by (simp only: demo_source_id)
  let ?ch = "\<lparr>ri_channel_id = ''ch_'', ri_source_device_id = demo_id (CHR ''B''), ri_source_identity_public_key = replicate 32 (CHR ''B''),
     ri_source_ephemeral_public_key = ?eph, ri_source_open_signature = sig, ri_service_id = sd_service_id demo_service\<rparr>"
  have t: "crypto_prims.truncate toy_server = toy_prims" by simp
  have keys: "length (di_signing_key demo_source_identity) = 32" "length (rk_secret_bytes demo_ephemeral) = 32"
    "length (rk_secret_bytes demo_target_keys) = 32"
    by (simp_all add: demo_source_identity_def demo_ephemeral_def demo_target_keys_def)
  have pub: "device_identity_public_key (identity_device_id toy_prims demo_source_identity) demo_db3
      = Inr (identity_public_key_base64 toy_prims demo_source_identity)" by (simp add: demo_source_id demo_key)
  have sid: "sd_service_id (rz_service demo_resolved) = service_id_of toy_prims (demo_id (CHR ''A'')) (ps_name demo_published)"
    by (simp add: demo_resolved_def demo_published_def)
  have mem: "demo_published \<in> set [demo_published]" "\<not> rc_closed demo_client" "(2, ?in) \<in> set [(2, ?in)]"
    "RE_OpenChannel ''ch_'' (sd_service_id demo_service) ?eph sig \<in> set (rc_sent st)"
    "RE_OpenChannel ''ch_'' (sd_service_id demo_service) ?eph sig \<notin> set (rc_sent demo_client)"
    "relay_reader_envelope ?in [] = ([To_Acceptor ?ch], [])" "rc_sent demo_client @ xs = xs" for xs
    by (simp_all add: demo_client_def sent)
  from relay_channel_opens [of toy_server demo_source_identity demo_ephemeral demo_db3 demo_target_keys demo_resolved,
      unfolded t, OF toy_b64_law toy_ed_law toy_dh_law keys(1,2) pub keys(3) demo_target_key [symmetric] sid mem(1,2) b mem(4,5)
        demo_hub_wf(1) hub' mem(3,6), of 2 None "''peer''"] b
  show ?thesis unfolding mem(7) by blast
qed

end
