(* ===== verification/SupervisorProps.thy ===== *)
theory SupervisorProps
  imports RuntimeLoop DirectProbeProps RelayClientProps AgentProps
begin

text \<open>
  What the agent's background tasks promise: waiting ends, a rendezvous is served once, the automatic
  forward's ingress and reports follow its phase, the runtime goes on until it is shut down; and what a
  restart breaks.
\<close>

section \<open>Waiting for a rendezvous\<close>

lemma wait_ready_Some:
  "wait_for_ready_rendezvous_with_session rdv deadline polls = Some (Inr s)
    \<Longrightarrow> rs_status s = ''ready'' \<and> (\<exists>now. (Inr s, now) \<in> set polls)"
  by (induction rdv deadline polls rule: wait_for_ready_rendezvous_with_session.induct)
    (auto split: sum.splits if_splits)

lemma wait_ready_ends:
  "(answer, now) \<in> set polls \<Longrightarrow> deadline \<le> now \<Longrightarrow> wait_for_ready_rendezvous_with_session rdv deadline polls \<noteq> None"
  by (induction rdv deadline polls rule: wait_for_ready_rendezvous_with_session.induct)
    (auto split: sum.splits if_splits)

text \<open>
  Waiting for a rendezvous ends with the first poll at or after the deadline at the latest, it gives
  a session only if the server has reported that very session as ready, and it gives one if the first
  poll that does not answer "pending" before the deadline does so with "ready".
\<close>

theorem rendezvous_wait_ends:
  assumes "wait_for_ready_rendezvous_with_session rdv deadline polls = r"
  shows "((\<exists>answer now. (answer, now) \<in> set polls \<and> deadline \<le> now) \<longrightarrow> r \<noteq> None)
    \<and> (\<forall>s. r = Some (Inr s) \<longrightarrow> rs_status s = ''ready'' \<and> (\<exists>now. (Inr s, now) \<in> set polls))
    \<and> (\<forall>before s now after. polls = before @ (Inr s, now) # after \<longrightarrow> rs_status s = ''ready'' \<longrightarrow>
         (\<forall>(a, t)\<in>set before. t < deadline \<and> (\<exists>p. a = Inr p \<and> rs_status p = ''pending'')) \<longrightarrow> r = Some (Inr s))"
proof (intro conjI allI impI)
  fix before s now after
  assume p: "polls = before @ (Inr s, now) # after" and ready: "rs_status s = ''ready''"
    and pending: "\<forall>(a, t)\<in>set before. t < deadline \<and> (\<exists>p. a = Inr p \<and> rs_status p = ''pending'')"
  from pending have "wait_for_ready_rendezvous_with_session rdv deadline (before @ (Inr s, now) # after) = Some (Inr s)"
    by (induction before) (auto simp: ready)
  then show "r = Some (Inr s)" using assms p by simp
qed (use assms wait_ready_Some wait_ready_ends in blast)+

section \<open>One session for each rendezvous\<close>

definition spawned_ids :: "direct_supervisor \<Rightarrow> string list" where
  "spawned_ids st = map (rs_rendezvous_id \<circ> fst) (du_spawned st)"

lemma spawned_ids_simps [simp]:
  "spawned_ids (st\<lparr>du_active := a\<rparr>) = spawned_ids st"
  "spawned_ids (st\<lparr>du_handled := h\<rparr>) = spawned_ids st"
  "spawned_ids (st\<lparr>du_retry := t\<rparr>) = spawned_ids st"
  "spawned_ids (st\<lparr>du_spawned := xs @ [(s, n)]\<rparr>) = spawned_ids (st\<lparr>du_spawned := xs\<rparr>) @ [rs_rendezvous_id s]"
  "spawned_ids (st\<lparr>du_spawned := du_spawned st\<rparr>) = spawned_ids st"
  "spawned_ids direct_supervisor_init = []"
  by (simp_all add: spawned_ids_def direct_supervisor_init_def)

definition supervisor_inv :: "string \<Rightarrow> published_service_config \<Rightarrow> direct_supervisor \<Rightarrow> bool" where
  "supervisor_inv local service st \<longleftrightarrow>
     distinct (spawned_ids st)
     \<and> (\<forall>i\<in>set (spawned_ids st). i \<in> set (du_active st) \<union> set (du_handled st))
     \<and> (\<forall>(s, n)\<in>set (du_spawned st). rs_target_device_id s = local \<and> rs_service_name s = ps_name service \<and> rs_status s \<noteq> ''expired'')
     \<and> du_retry st \<le> runtime_retry_max_backoff"

lemma initial_le_max [simp]: "runtime_retry_initial_backoff \<le> runtime_retry_max_backoff"
  by (simp add: runtime_retry_initial_backoff_def runtime_retry_max_backoff_def seconds_def)

lemma next_retry_le [simp]: "next_retry_delay d \<le> runtime_retry_max_backoff"
  by (simp add: next_retry_delay_def)

lemma supervisor_attempts_inv:
  assumes "supervisor_inv local service st" "distinct (map rs_rendezvous_id ss)"
    "\<forall>s\<in>set ss. rs_target_device_id s = local \<and> rs_service_name s = ps_name service
       \<and> rs_rendezvous_id s \<notin> set (du_active st) \<union> set (du_handled st)"
  shows "supervisor_inv local service (snd (fold (direct_supervisor_attempt observed service udp) ss (ops, st)))"
  using assms
proof (induction ss arbitrary: ops st)
  case (Cons s ss)
  obtain ops1 st1 where a: "direct_supervisor_attempt observed service udp s (ops, st) = (ops1, st1)" by fastforce
  have new: "rs_rendezvous_id s \<notin> set (spawned_ids st)"
    using Cons.prems(1,3) unfolding supervisor_inv_def by fastforce
  have "supervisor_inv local service st1"
    using a Cons.prems(1,3) new
    by (auto simp: direct_supervisor_attempt_def supervisor_inv_def Let_def split: if_splits)
  moreover have "\<forall>t\<in>set ss. rs_target_device_id t = local \<and> rs_service_name t = ps_name service
       \<and> rs_rendezvous_id t \<notin> set (du_active st1) \<union> set (du_handled st1)"
    using a Cons.prems(2,3) by (auto simp: direct_supervisor_attempt_def Let_def image_iff split: if_splits)
  ultimately show ?case using Cons.IH [of st1 ops1] Cons.prems(2) by (simp add: a)
qed simp

text \<open>The server's answers list a rendezvous once: its id is the key of the table.\<close>

definition answers_distinct :: "supervisor_event list \<Rightarrow> bool" where
  "answers_distinct evs \<longleftrightarrow>
     (\<forall>p. DU_Polled (Inr p) \<in> set evs \<longrightarrow> distinct (map rs_rendezvous_id (pr_attempts p)))"

lemma supervisor_step_inv:
  assumes "supervisor_inv local service st" "answers_distinct [ev]"
  shows "supervisor_inv local service (direct_supervisor_step observed local service udp ev st)"
proof (cases ev)
  case (DU_Joined ended)
  with assms show ?thesis
    by (auto simp: direct_supervisor_join_def supervisor_inv_def Let_def split: option.split)
next
  case (DU_Polled answer)
  show ?thesis
  proof (cases answer)
    case (Inl e)
    with DU_Polled assms show ?thesis by (simp add: direct_supervisor_poll_def supervisor_inv_def)
  next
    case (Inr p)
    let ?st1 = "st\<lparr>du_retry := runtime_retry_initial_backoff\<rparr>"
    let ?ss = "filter (direct_supervisor_wanted local service ?st1) (pr_attempts p)"
    have "supervisor_inv local service ?st1" using assms(1) by (simp add: supervisor_inv_def)
    moreover have "distinct (map rs_rendezvous_id (pr_attempts p))"
      using assms(2) DU_Polled Inr by (simp add: answers_distinct_def)
    ultimately have "supervisor_inv local service (snd (fold (direct_supervisor_attempt observed service udp) ?ss ([], ?st1)))"
      by (intro supervisor_attempts_inv) (auto simp: direct_supervisor_wanted_def distinct_map_filter)
    with DU_Polled Inr \<open>supervisor_inv local service ?st1\<close> show ?thesis
      by (simp add: direct_supervisor_poll_def Let_def split_beta)
  qed
qed

text \<open>
  C14. The supervisor of a direct service starts one session for a rendezvous, whatever the polls answer
  and however sessions end, and only for attempts on its own service at its own device that have not
  expired; so no session on the shared socket is registered while another of the same rendezvous is
  served. Between failed polls it waits at most fifteen seconds.
\<close>

theorem rendezvous_served_once:
  assumes "answers_distinct evs"
    and "fold (direct_supervisor_step observed local service udp) evs direct_supervisor_init = st"
  shows "distinct (map (rs_rendezvous_id \<circ> fst) (du_spawned st))
    \<and> (\<forall>(s, n)\<in>set (du_spawned st). rs_target_device_id s = local \<and> rs_service_name s = ps_name service \<and> rs_status s \<noteq> ''expired'')
    \<and> du_retry st \<le> runtime_retry_max_backoff"
proof -
  have "supervisor_inv local service (fold (direct_supervisor_step observed local service udp) evs st0)"
    if "supervisor_inv local service st0" for st0
    using assms(1) that
  proof (induction evs arbitrary: st0)
    case (Cons ev evs)
    have "answers_distinct [ev]" "answers_distinct evs" using Cons.prems(1) by (auto simp: answers_distinct_def)
    with Cons.IH supervisor_step_inv Cons.prems(2) show ?case by simp
  qed simp
  moreover have "supervisor_inv local service direct_supervisor_init"
    by (simp add: supervisor_inv_def) (simp add: direct_supervisor_init_def)
  ultimately have "supervisor_inv local service st" using assms(2) by blast
  then show ?thesis by (simp add: supervisor_inv_def spawned_ids_def)
qed

section \<open>The automatic forward\<close>

text \<open>The retry delays the selection and the direct attempts can have.\<close>

definition delays_ok :: "auto_forward \<Rightarrow> bool" where
  "delays_ok st \<longleftrightarrow> au_selection_retry st \<le> runtime_retry_max_backoff \<and> au_direct_retry st \<le> auto_direct_retry_max_backoff"

text \<open>The ingress that belongs to a phase, and what the user is told in it.\<close>

fun phase_ingress :: "auto_phase \<Rightarrow> ingress \<Rightarrow> bool" where
  "phase_ingress Selecting i \<longleftrightarrow> i = No_Ingress"
| "phase_ingress Serving_Direct i \<longleftrightarrow> i = Direct_Ingress True \<or> i = Direct_Ingress False"
| "phase_ingress (Serving_Relay wait) i \<longleftrightarrow> i = Relay_Ingress \<and> wait \<le> auto_direct_retry_max_backoff"

fun phase_shown :: "auto_phase \<Rightarrow> string option \<Rightarrow> string \<Rightarrow> bool" where
  "phase_shown Selecting transport state \<longleftrightarrow> state \<in> {''resolve_retry'', ''relay_retry'', ''direct_retry''}"
| "phase_shown Serving_Direct transport state \<longleftrightarrow> transport = Some ''direct'' \<and> state = ''direct_active''"
| "phase_shown (Serving_Relay _) transport state \<longleftrightarrow>
     transport = Some ''relay'' \<and> state \<in> {''relay_active'', ''direct_retry_deferred''}"

fun tells :: "auto_rule \<Rightarrow> auto_phase \<Rightarrow> runtime_op \<Rightarrow> bool" where
  "tells r phase (Op_Forward rule configured transport state detail err) \<longleftrightarrow>
     rule = ar_rule r \<and> configured = ''auto'' \<and> phase_shown phase transport state"
| "tells r phase _ \<longleftrightarrow> False"

definition auto_ok :: "auto_rule \<Rightarrow> runtime_op list \<times> nat option \<times> auto_forward \<Rightarrow> bool" where
  "auto_ok r out \<longleftrightarrow> (case out of (ops, sleep, st) \<Rightarrow>
     phase_ingress (au_phase st) (au_ingress st) \<and> delays_ok st
     \<and> (case sleep of None \<Rightarrow> True | Some d \<Rightarrow> au_phase st = Selecting \<and> d \<le> runtime_retry_max_backoff)
     \<and> (ops = [] \<or> tells r (au_phase st) (last ops)))"

lemma auto_delay_bounds [simp]:
  "next_auto_direct_retry_delay d \<le> auto_direct_retry_max_backoff"
  "auto_direct_retry_initial_backoff \<le> auto_direct_retry_max_backoff"
  by (simp_all add: next_auto_direct_retry_delay_def auto_direct_retry_initial_backoff_def auto_direct_retry_max_backoff_def seconds_def)

lemma defer_bound: "max (min (a - b) (max (as_secs auto_direct_retry_busy_poll_interval) 1)) 1 * 10 ^ 9 \<le> auto_direct_retry_max_backoff"
  by (simp add: as_secs_def auto_direct_retry_busy_poll_interval_def auto_direct_retry_max_backoff_def seconds_def)

lemma tells_note [simp]:
  "tells r phase (Op_Forward (ar_rule r) ''auto'' transport state detail err) \<longleftrightarrow> phase_shown phase transport state"
  by simp

lemma direct_active_ops_eq:
  "direct_active_ops True r rdv = [Op_Forward (ar_rule r) ''auto'' (Some ''direct'') ''direct_active''
     (''direct active on '' @ ar_bind r @ '' via rendezvous '' @ rdv) None]"
  by (simp add: direct_active_ops_def auto_direct_hook_def hook_ops_def forward_state_op_def)

lemma auto_select_ok: "delays_ok st \<Longrightarrow> au_phase st = Selecting \<Longrightarrow> auto_ok r (auto_select True r resolved direct relay st)"
  by (cases "fst (prepare_auto_direct_forward True (ar_rule r) (ar_target r) (ar_service r) (ar_udp r) (Some ''direct'')
      (''starting direct rendezvous via '' @ ar_udp r) ''probing direct path'' direct)"; cases resolved; cases relay)
    (simp_all add: auto_select_def auto_ok_def delays_ok_def observing_def direct_active_ops_eq Let_def split_beta del: tells.simps)

lemma auto_relay_ok:
  "delays_ok st \<Longrightarrow> au_phase st = Serving_Relay w \<Longrightarrow> au_ingress st = Relay_Ingress
     \<Longrightarrow> auto_ok r (auto_relay_round True r active idle direct draining st)"
  using defer_bound [of "as_secs auto_direct_retry_idle_grace" idle]
  by (simp add: auto_relay_round_def auto_ok_def delays_ok_def observing_def direct_active_ops_eq Let_def
      del: tells.simps split: prod.split sum.split)

lemma auto_step_ok:
  assumes "phase_ingress (au_phase st) (au_ingress st)" "delays_ok st"
  shows "auto_ok r (auto_step True r ev st)"
proof (cases "au_phase st"; cases ev)
  fix resolved direct relay
  assume "au_phase st = Selecting" "ev = AE_Select resolved direct relay"
  with assms auto_select_ok show ?thesis by simp
next
  fix w active idle direct draining
  assume "au_phase st = Serving_Relay w" "ev = AE_Relay_Wait_Over active idle direct draining"
  with assms auto_relay_ok show ?thesis by simp
qed (use assms in \<open>simp_all add: auto_ok_def auto_relay_closed_def auto_direct_closed_def observing_def delays_ok_def del: tells.simps\<close>)


section \<open>The main loop\<close>

lemma saved_config: "runtime_save io r = (x, r') \<Longrightarrow> rt_config r' = rt_config r"
  using runtime_save_config [of io r] by simp

lemma token_current: "cf_session_token (rt_config r) \<noteq> None \<longleftrightarrow> (\<exists>t. current_session_token r = Inr t)"
  unfolding current_session_token_def by (cases "cf_session_token (rt_config r)") simp_all

lemma valid_session_token: "has_valid_session now c \<Longrightarrow> cf_session_token c \<noteq> None"
  unfolding has_valid_session_def by (cases "cf_session_token c") simp_all

lemma agent_register_token: "agent_register P answer r = (Inr (), r') \<Longrightarrow> cf_session_token (rt_config r') \<noteq> None"
  unfolding agent_register_def by (cases answer) auto

lemma ensure_session_config:
  assumes "ensure_session P now answer io r = (Inr (), r')"
  shows "cf_session_token (rt_config r') \<noteq> None"
proof (cases "has_valid_session now (rt_config r)")
  case True
  with assms valid_session_token show ?thesis by (simp add: ensure_session_def)
next
  case False
  obtain res r1 where g: "agent_register P answer r = (res, r1)" by fastforce
  from assms False have "res = Inr () \<and> runtime_save io r1 = (Inr (), r')"
    unfolding ensure_session_def g by (cases res) (simp_all cong del: unit.case_cong_weak)
  with agent_register_token g saved_config show ?thesis by metis
qed

lemma prepare_saves:
  assumes "prepare_runtime_iteration P now io0 answer io1 upsert io2 force r = (Inr (), r')"
  shows "\<exists>r1 r2. ensure_session P now answer io1 r1 = (Inr (), r2) \<and> runtime_save io2 r2 = (Inr (), r')
    \<and> cf_published_services (rt_config r1) = cf_published_services (rt_config r)
    \<and> cf_forward_rules (rt_config r1) = cf_forward_rules (rt_config r)"
proof -
  obtain res r1 where a: "(if force then runtime_save io0 (invalidate_session r) else (Inr (), r)) = (res, r1)" by fastforce
  obtain res2 r2 where b: "ensure_session P now answer io1 r1 = (res2, r2)" by fastforce
  let ?sync = "result_bind (current_session_token r2) (\<lambda>token. sync_published_services upsert token (cf_published_services (rt_config r2)))"
  have res: "res = Inr ()" using assms unfolding prepare_runtime_iteration_def a by (cases res) simp_all
  have valid: "validate_runtime_config (rt_config r1) = Inr ()"
    using assms unfolding prepare_runtime_iteration_def a res by (cases "validate_runtime_config (rt_config r1)") (simp_all cong del: unit.case_cong_weak)
  have res2: "res2 = Inr ()"
    using assms unfolding prepare_runtime_iteration_def a res by (cases res2) (simp_all add: valid b cong del: unit.case_cong_weak)
  have "runtime_save io2 r2 = (Inr (), r')"
    using assms unfolding prepare_runtime_iteration_def a res by (cases ?sync) (simp_all add: valid b res2 cong del: unit.case_cong_weak)
  moreover have "cf_published_services (rt_config r1) = cf_published_services (rt_config r)
      \<and> cf_forward_rules (rt_config r1) = cf_forward_rules (rt_config r)"
    using a by (cases force) (auto simp: invalidate_session_def dest!: saved_config)
  ultimately show ?thesis using b res2 by blast
qed

lemma prepare_has_token:
  assumes "prepare_runtime_iteration P now io0 answer io1 upsert io2 force r = (Inr (), r')"
  shows "\<exists>t. current_session_token r' = Inr t"
proof -
  obtain r1 r2 where e: "ensure_session P now answer io1 r1 = (Inr (), r2)" and s: "runtime_save io2 r2 = (Inr (), r')"
    using prepare_saves [OF assms] by blast
  from ensure_session_config [OF e] saved_config [OF s] show ?thesis by (simp flip: token_current)
qed
text \<open>Somebody asks for the end.\<close>

definition asks_to_stop :: "round_env \<Rightarrow> bool" where
  "asks_to_stop e \<longleftrightarrow> re_shutdown e \<or> wait_for_restart_or_shutdown (re_requested e) (re_wait e)
     \<or> IE_Changed True \<in> set (re_events e) \<or> IE_Sender_Gone \<in> set (re_events e)"

lemma iteration_shutdown:
  "iteration_loop c evs = (ops, Some Shutdown_Requested) \<Longrightarrow> IE_Changed True \<in> set evs \<or> IE_Sender_Gone \<in> set evs"
  by (induction c evs arbitrary: ops rule: iteration_loop.induct)
    (auto simp: iteration_round_def split: prod.splits option.splits iteration_event.splits if_splits sum.splits)

lemma run_iteration_shutdown:
  "run_runtime_iteration c evs = (ops, Some Shutdown_Requested) \<Longrightarrow> IE_Changed True \<in> set evs \<or> IE_Sender_Gone \<in> set evs"
  using iteration_shutdown by (auto simp: run_runtime_iteration_def split: option.splits)

definition round_ok :: "round_env \<Rightarrow> runtime_op list \<times> runtime_loop \<times> round_next \<Rightarrow> bool" where
  "round_ok e out \<longleftrightarrow> (case out of (ops, s, next1) \<Rightarrow>
     rl_backoff s \<le> runtime_retry_max_backoff
     \<and> (\<forall>res. next1 = Returns res \<longrightarrow> res = Inr () \<and> asks_to_stop e \<and> (\<exists>detail. last ops = Op_Stopped (rt_config (rl_runtime s)) detail) \<and> ops \<noteq> []))"

lemma run_wait_ok:
  "rl_backoff s \<le> runtime_retry_max_backoff \<Longrightarrow> round_ok e (run_wait e detail ops s)"
  by (simp add: run_wait_def round_ok_def asks_to_stop_def)

lemma run_round_ok:
  assumes "rl_backoff s \<le> runtime_retry_max_backoff"
  shows "round_ok e (run_round P e s)"
proof (cases "re_shutdown e")
  case True
  with assms show ?thesis by (simp add: run_round_def round_ok_def asks_to_stop_def)
next
  case False
  obtain res r1 where p: "prepare_runtime_iteration P (re_now e) (re_invalidated e) (re_registered e) (re_session_saved e) (re_upsert e)
      (re_saved e) (rl_force s) (rl_runtime s) = (res, r1)" by fastforce
  show ?thesis
  proof (cases res)
    case (Inl err)
    with False p assms show ?thesis by (simp add: run_round_def run_wait_ok Let_def)
  next
    case (Inr u)
    with p prepare_has_token obtain t where t: "current_session_token r1 = Inr t" by (metis old.unit.exhaust)
    obtain ops outcome where i: "run_runtime_iteration (rt_config r1) (re_events e) = (ops, outcome)" by fastforce
    consider (on) "outcome = None" | (stop) "outcome = Some Shutdown_Requested" | (again) reason where "outcome = Some (Restart reason)"
      by (metis iteration_outcome.exhaust option.exhaust)
    then show ?thesis
    proof cases
      case on
      with False p Inr t i assms show ?thesis by (simp add: run_round_def round_ok_def Let_def)
    next
      case stop
      with run_iteration_shutdown i have "asks_to_stop e" by (metis asks_to_stop_def)
      with stop False p Inr t i assms show ?thesis by (simp add: run_round_def round_ok_def Let_def)
    next
      case again
      with False p Inr t i show ?thesis by (simp add: run_round_def run_wait_ok Let_def)
    qed
  qed
qed

lemma run_loop_ok:
  assumes "rl_backoff s \<le> runtime_retry_max_backoff" "run_until_shutdown P es s = (ops, s', res)"
  shows "rl_backoff s' \<le> runtime_retry_max_backoff
    \<and> (\<forall>r. res = Some r \<longrightarrow> r = Inr () \<and> (\<exists>e\<in>set es. asks_to_stop e)
         \<and> (\<exists>detail. last ops = Op_Stopped (rt_config (rl_runtime s')) detail) \<and> ops \<noteq> [])"
  using assms
proof (induction es arbitrary: s ops s' res)
  case (Cons e es)
  obtain ops1 s1 n where r: "run_round P e s = (ops1, s1, n)" by (metis prod_cases3)
  note ok = run_round_ok [OF Cons.prems(1), of e P, unfolded r]
  show ?case
  proof (cases n)
    case Next_Round
    obtain ops2 s2 r2 where rest: "run_until_shutdown P es s1 = (ops2, s2, r2)" by (metis prod_cases3)
    have "rl_backoff s1 \<le> runtime_retry_max_backoff" using ok by (simp add: round_ok_def)
    from Cons.IH [OF this rest] Cons.prems(2) show ?thesis by (auto simp: r Next_Round rest)
  qed (use Cons.prems ok in \<open>auto simp: r round_ok_def\<close>)
qed simp

text \<open>
  C13. The runtime runs until it is told to stop: no failed preparation, failed heartbeat, expiring session
  or lost background task ends it, it never returns an error, it returns only when a shutdown has been
  asked for, and then the last thing it reports is that it has stopped. It never waits more than
  fifteen seconds before it tries again.
\<close>

theorem runtime_survives:
  assumes "run_until_shutdown P es (run_begin r) = (ops, s, res)"
  shows "rl_backoff s \<le> runtime_retry_max_backoff
    \<and> (\<forall>x. res = Some x \<longrightarrow> x = Inr () \<and> (\<exists>e\<in>set es. asks_to_stop e)
         \<and> (\<exists>detail. last ops = Op_Stopped (rt_config (rl_runtime s)) detail) \<and> ops \<noteq> [])"
  by (rule run_loop_ok [OF _ assms]) (simp add: run_begin_def)

section \<open>What a restart breaks\<close>

lemma os_bind_mono: "set held \<subseteq> set (snd (os_bind ephemeral a held))"
  by (auto simp: os_bind_def)

lemma task_begin_mono: "set held \<subseteq> set (snd (task_begin ephemeral t held))"
  using os_bind_mono
  by (cases t) (auto simp: task_begin_def split_beta split: sum.split)

lemma tasks_begin_mono: "set held \<subseteq> set (snd (tasks_begin ephemeral ts held))"
  using task_begin_mono
  by (induction ts arbitrary: held) (auto simp: split_beta, blast)

text \<open>The address a task binds for good.\<close>

fun lasting_address :: "background_task \<Rightarrow> (string \<times> string) option" where
  "lasting_address (BT_Direct_Service s) = Some (''udp'', ps_direct_udp_bind_addr s)"
| "lasting_address (BT_Auto_Forward r) = Some (''tcp'', fr_local_bind_addr r)"
| "lasting_address _ = None"

lemma task_begin_holds:
  "lasting_address t = Some a \<Longrightarrow> \<not> ephemeral (snd a) \<Longrightarrow> a \<in> set (snd (task_begin ephemeral t held))"
  by (cases t) (auto simp: task_begin_def os_bind_def split_beta split: sum.split)

lemma tasks_begin_holds:
  assumes "t \<in> set ts" "lasting_address t = Some a" "\<not> ephemeral (snd a)"
  shows "a \<in> set (snd (tasks_begin ephemeral ts held))"
  using assms(1)
proof (induction ts arbitrary: held)
  case (Cons t' ts)
  have split: "snd (tasks_begin ephemeral (t' # ts) held) = snd (tasks_begin ephemeral ts (snd (task_begin ephemeral t' held)))"
    by (simp add: split_beta)
  from Cons.prems consider "t' = t" | "t \<in> set ts" by auto
  then show ?case
  proof cases
    case 1
    then have "a \<in> set (snd (task_begin ephemeral t' held))" using task_begin_holds [where ephemeral = ephemeral, OF assms(2,3)] by simp
    with tasks_begin_mono show ?thesis unfolding split by blast
  next
    case 2
    with Cons.IH show ?thesis unfolding split by simp
  qed
qed simp

lemma task_begin_fails:
  "lasting_address t = Some a \<Longrightarrow> \<not> ephemeral (snd a) \<Longrightarrow> a \<in> set held
    \<Longrightarrow> \<exists>err. fst (task_begin ephemeral t held) = Some (Task_Failed err)"
  by (cases t) (auto simp: task_begin_def os_bind_def direct_supervisor_begin_def run_auto_forward_begin_def Let_def)

lemma tasks_begin_fails:
  assumes "t \<in> set ts" "lasting_address t = Some a" "\<not> ephemeral (snd a)" "a \<in> set held"
  shows "\<exists>err. Some (Task_Failed err) \<in> set (fst (tasks_begin ephemeral ts held))"
  using assms(1,4)
proof (induction ts arbitrary: held)
  case (Cons t' ts)
  have split: "fst (tasks_begin ephemeral (t' # ts) held)
      = fst (task_begin ephemeral t' held) # fst (tasks_begin ephemeral ts (snd (task_begin ephemeral t' held)))"
    by (simp add: split_beta)
  from Cons.prems consider "t' = t" | "t \<in> set ts" by auto
  then show ?case
  proof cases
    case 1
    with task_begin_fails [where ephemeral = ephemeral, OF assms(2,3) Cons.prems(2)] show ?thesis unfolding split by auto
  next
    case 2
    have "a \<in> set (snd (task_begin ephemeral t' held))" using task_begin_mono Cons.prems(2) by blast
    from Cons.IH [OF 2 this] show ?thesis unfolding split by auto
  qed
qed simp


section \<open>Witnesses\<close>

theorem rendezvous_wait_ends_witness:
  "wait_for_ready_rendezvous_with_session ''rdv'' 5
     [(Inr (demo_rendezvous\<lparr>rs_status := ''pending''\<rparr>), 1), (Inr demo_rendezvous, 2)] = Some (Inr demo_rendezvous)"
proof -
  have ready: "rs_status demo_rendezvous = ''ready''" by (simp add: demo_rendezvous_def)
  have pending: "\<forall>(a, t)\<in>set [(Inr (demo_rendezvous\<lparr>rs_status := ''pending''\<rparr>), 1)].
      t < (5 :: nat) \<and> (\<exists>p. a = Inr p \<and> rs_status p = ''pending'')" by simp
  show ?thesis
    using rendezvous_wait_ends [OF refl, THEN conjunct2, THEN conjunct2, rule_format,
        where before = "[(Inr (demo_rendezvous\<lparr>rs_status := ''pending''\<rparr>), 1)]" and after = "[]" and now = 2 and deadline = 5,
        OF _ ready] pending by auto
qed

definition demo_polls :: "supervisor_event list" where
  "demo_polls = [DU_Polled (Inr \<lparr>pr_attempts = [demo_rendezvous]\<rparr>), DU_Joined (Some (''rdv'', Inr ())),
     DU_Polled (Inr \<lparr>pr_attempts = [demo_rendezvous]\<rparr>)]"

lemma demo_attempt:
  "rs_rendezvous_id demo_rendezvous = ''rdv''" "rs_target_device_id demo_rendezvous = demo_dB"
  "rs_service_name demo_rendezvous = ps_name demo_published" "rs_status demo_rendezvous \<noteq> ''expired''"
  by (simp_all add: demo_rendezvous_def demo_published_def)

theorem rendezvous_served_once_witness:
  "map (rs_rendezvous_id \<circ> fst) (du_spawned (fold (direct_supervisor_step True demo_dB demo_published ''b'') demo_polls direct_supervisor_init))
     = [''rdv'']
   \<and> distinct (map (rs_rendezvous_id \<circ> fst)
        (du_spawned (fold (direct_supervisor_step True demo_dB demo_published ''b'') demo_polls direct_supervisor_init)))"
proof
  show "map (rs_rendezvous_id \<circ> fst) (du_spawned (fold (direct_supervisor_step True demo_dB demo_published ''b'') demo_polls direct_supervisor_init))
     = [''rdv'']"
    by (simp add: demo_polls_def direct_supervisor_poll_def direct_supervisor_join_def direct_supervisor_attempt_def
        direct_supervisor_wanted_def direct_supervisor_init_def demo_attempt Let_def)
  have "answers_distinct demo_polls" by (simp add: answers_distinct_def demo_polls_def)
  from rendezvous_served_once [OF this refl] show "distinct (map (rs_rendezvous_id \<circ> fst)
      (du_spawned (fold (direct_supervisor_step True demo_dB demo_published ''b'') demo_polls direct_supervisor_init)))"
    by blast
qed

definition demo_auto_rule :: auto_rule where "demo_auto_rule = auto_rule_of demo_rule"

definition demo_auto :: auto_forward where
  "demo_auto = \<lparr>au_phase = Selecting, au_ingress = No_Ingress, au_selection_retry = runtime_retry_initial_backoff,
     au_direct_retry = auto_direct_retry_initial_backoff\<rparr>"

definition demo_selection :: auto_event where
  "demo_selection = AE_Select (Inr demo_resolved) \<lparr>da_start = Inl ''refused'', da_ready = Inl [], da_peer_key = Inl [], da_probed = Inl []\<rparr>
     (Inr ())"


definition demo_round :: "bool \<Rightarrow> round_env" where
  "demo_round shutdown = \<lparr>re_shutdown = shutdown, re_now = 0, re_invalidated = Inr (), re_registered = Inl ''refused'',
     re_session_saved = Inr (), re_upsert = (\<lambda>_ _. Inl []), re_saved = Inr (), re_events = [], re_requested = False, re_wait = Wait_Over\<rparr>"

lemma demo_round_fails:
  "run_round P (demo_round False) (run_begin demo_runtime)
     = ([Op_Starting (rt_config demo_runtime) ''preparing relay service and enabled forward rules'',
         Op_PrepareFailed (rt_config demo_runtime) ''refused'' runtime_retry_initial_backoff],
        \<lparr>rl_runtime = demo_runtime, rl_backoff = next_retry_delay runtime_retry_initial_backoff, rl_force = True\<rparr>, Next_Round)"
proof -
  have session: "\<not> has_valid_session 0 (rt_config demo_runtime)" by code_simp
  have valid: "validate_runtime_config (rt_config demo_runtime) = Inr ()" by code_simp
  have "prepare_runtime_iteration P 0 (Inr ()) (Inl ''refused'') (Inr ()) (\<lambda>_ _. Inl []) (Inr ()) False demo_runtime
      = (Inl ''refused'', demo_runtime)"
    by (simp add: prepare_runtime_iteration_def ensure_session_def agent_register_def session valid)
  then show ?thesis
    by (simp add: run_round_def run_begin_def demo_round_def run_wait_def wait_for_restart_or_shutdown_def Let_def)
qed

theorem runtime_survives_witness:
  "\<exists>ops s. run_until_shutdown toy_prims [demo_round False, demo_round True] (run_begin demo_runtime) = (ops, s, Some (Inr ()))
     \<and> (\<exists>detail. last ops = Op_Stopped (rt_config (rl_runtime s)) detail)"
proof -
  obtain ops s where run: "run_until_shutdown toy_prims [demo_round False, demo_round True] (run_begin demo_runtime) = (ops, s, Some (Inr ()))"
    by (simp add: demo_round_fails) (simp add: run_round_def demo_round_def Let_def)
  with runtime_survives [OF run] show ?thesis by blast
qed

definition demo_auto_config :: agent_config where
  "demo_auto_config = agent_config_default\<lparr>cf_device_id := Some ''dev'', cf_forward_rules := [demo_rule\<lparr>fr_transport_mode := ''auto''\<rparr>]\<rparr>"


end
