(* ===== verification/ConfigProps.thy ===== *)
theory ConfigProps
  imports AgentProps
begin

text \<open>
  The agent's configuration is well formed whatever the agent does with it, in memory and in its file;
  so the validation at the start of every run can only ever reject a file somebody has edited.
\<close>

section \<open>Well-formed configurations\<close>

definition service_wf :: "published_service_config \<Rightarrow> bool" where
  "service_wf s \<longleftrightarrow> validate_published_service_config s = Inr () \<and> \<not> blank (ps_direct_candidate_type s)"

definition rule_wf :: "local_forward_config \<Rightarrow> bool" where
  "rule_wf x \<longleftrightarrow> validate_forward_rule x = Inr () \<and> fr_transport_mode x \<in> {''relay'', ''auto''}
     \<and> \<not> blank (fr_direct_candidate_type x)"

definition session_wf :: "agent_config \<Rightarrow> bool" where
  "session_wf c \<longleftrightarrow> (cf_session_token c = None \<longleftrightarrow> cf_session_expires_at c = None)
     \<and> (cf_session_token c \<noteq> None \<longrightarrow> cf_device_id c \<noteq> None \<and> cf_private_key_base64 c \<noteq> None \<and> cf_relay_private_key_base64 c \<noteq> None)"

definition config_wf :: "agent_config \<Rightarrow> bool" where
  "config_wf c \<longleftrightarrow>
     distinct (map ps_name (cf_published_services c)) \<and> list_all service_wf (cf_published_services c)
     \<and> distinct (map fr_name (cf_forward_rules c)) \<and> list_all rule_wf (cf_forward_rules c)
     \<and> session_wf c"

lemma session_wf_frame [simp]:
  "session_wf (c\<lparr>cf_published_services := ss\<rparr>) = session_wf c"
  "session_wf (c\<lparr>cf_forward_rules := rules\<rparr>) = session_wf c"
  by (simp_all add: session_wf_def)

definition runtime_wf :: "agent_runtime \<Rightarrow> bool" where
  "runtime_wf r \<longleftrightarrow> config_wf (rt_config r) \<and> config_wf (rt_file r)"

text \<open>What the agent does with its configuration, each with the server's answers and the results of writing the file.\<close>

datatype config_op =
    Co_Ensure int "register_device_response result" "unit result"
  | Co_Publish int "register_device_response result" "unit result"
      "string \<Rightarrow> upsert_service_request \<Rightarrow> service_definition result" "unit result" published_service_config
  | Co_Unpublish int "register_device_response result" "unit result"
      "string \<Rightarrow> delete_service_request \<Rightarrow> service_definition result" "unit result" string
  | Co_Upsert "unit result" local_forward_config
  | Co_Delete "unit result" string
  | Co_Prepare int "unit result" "register_device_response result" "unit result"
      "string \<Rightarrow> upsert_service_request \<Rightarrow> service_definition result" "unit result" bool

fun config_apply :: "crypto_prims \<Rightarrow> config_op \<Rightarrow> agent_runtime \<Rightarrow> agent_runtime" where
  "config_apply P (Co_Ensure now answer io) r = snd (ensure_session P now answer io r)"
| "config_apply P (Co_Publish now answer io1 upsert io2 s) r = snd (publish_service P now answer io1 upsert io2 s r)"
| "config_apply P (Co_Unpublish now answer io1 delete io2 name) r = snd (delete_published_service P now answer io1 delete io2 name r)"
| "config_apply P (Co_Upsert io rule) r = snd (upsert_forward_rule io rule r)"
| "config_apply P (Co_Delete io name) r = snd (delete_forward_rule io name r)"
| "config_apply P (Co_Prepare now io0 answer io1 upsert io2 force) r =
     snd (prepare_runtime_iteration P now io0 answer io1 upsert io2 force r)"

section \<open>Every operation keeps it\<close>

lemma runtime_wf_save: "config_wf (rt_config r) \<Longrightarrow> config_wf (rt_file r) \<Longrightarrow> runtime_wf (snd (runtime_save io r))"
  by (simp add: runtime_wf_def runtime_save_unit split: sum.split)

lemma runtime_wf_register: "runtime_wf r \<Longrightarrow> runtime_wf (snd (agent_register P answer r))"
proof (cases answer)
  case (Inr a)
  assume "runtime_wf r"
  moreover have "config_wf (c\<lparr>cf_device_id := Some d, cf_session_token := Some t, cf_session_expires_at := Some e,
      cf_private_key_base64 := Some k, cf_relay_private_key_base64 := Some k'\<rparr>)" if "config_wf c" for c d t e k k'
    using that by (simp add: config_wf_def session_wf_def)
  ultimately show ?thesis by (simp add: agent_register_def Inr runtime_wf_def)
qed (simp add: agent_register_def)

lemma runtime_wf_invalidate: "runtime_wf r \<Longrightarrow> runtime_wf (invalidate_session r)"
proof -
  assume "runtime_wf r"
  moreover have "config_wf (c\<lparr>cf_session_token := None, cf_session_expires_at := None\<rparr>)" if "config_wf c" for c
    using that by (simp add: config_wf_def session_wf_def)
  ultimately show ?thesis by (simp add: invalidate_session_def runtime_wf_def)
qed

lemma runtime_wf_ensure: "runtime_wf r \<Longrightarrow> runtime_wf (snd (ensure_session P now answer io r))"
proof -
  assume wf: "runtime_wf r"
  obtain res r1 where g: "agent_register P answer r = (res, r1)" by fastforce
  have wf1: "runtime_wf r1" using runtime_wf_register [OF wf, of P answer] by (simp add: g)
  then have "runtime_wf (snd (runtime_save io r1))" by (intro runtime_wf_save) (simp_all add: runtime_wf_def)
  with wf wf1 show ?thesis by (simp add: ensure_session_def g split: sum.split)
qed

lemma upsert_by_all: "list_all p xs \<Longrightarrow> p x \<Longrightarrow> list_all p (upsert_by key x xs)"
  using upsert_by_set [of key x xs] by (auto simp: list_all_iff)

lemma service_wf_normal:
  "validate_published_service_config s = Inr ()
    \<Longrightarrow> service_wf (s\<lparr>ps_direct_candidate_type := normalize_direct_candidate_type (ps_direct_candidate_type s)\<rparr>)"
proof -
  have "validate_published_service_config (s\<lparr>ps_direct_candidate_type := t\<rparr>) = validate_published_service_config s" for t
    by (cases s) (simp only: validate_published_service_config_def published_service_config.simps
        published_service_config.select_convs published_service_config.update_convs)
  moreover assume "validate_published_service_config s = Inr ()"
  ultimately show ?thesis by (simp add: service_wf_def normalize_type_not_blank)
qed

lemma config_wf_publish:
  "config_wf c \<Longrightarrow> service_wf s
    \<Longrightarrow> config_wf (c\<lparr>cf_published_services := upsert_by ps_name s (cf_published_services c)\<rparr>)"
  by (simp add: config_wf_def upsert_by_distinct upsert_by_all)

lemma config_wf_unpublish:
  "config_wf c \<Longrightarrow> config_wf (c\<lparr>cf_published_services := filter (\<lambda>s. ps_name s \<noteq> name) (cf_published_services c)\<rparr>)"
  by (auto simp: config_wf_def list_all_iff distinct_map_filter)

lemma config_wf_rules:
  "config_wf c \<Longrightarrow> distinct (map fr_name rules) \<Longrightarrow> list_all rule_wf rules \<Longrightarrow> config_wf (c\<lparr>cf_forward_rules := rules\<rparr>)"
  by (simp add: config_wf_def)

lemma runtime_wf_stored:
  "runtime_wf r \<Longrightarrow> config_wf c \<Longrightarrow> runtime_wf (snd (runtime_save io (r\<lparr>rt_config := c\<rparr>)))"
  by (rule runtime_wf_save) (simp_all add: runtime_wf_def)

lemma runtime_wf_publish: "runtime_wf r \<Longrightarrow> runtime_wf (snd (publish_service P now answer io1 upsert io2 s r))"
proof -
  assume wf: "runtime_wf r"
  let ?s = "s\<lparr>ps_direct_candidate_type := normalize_direct_candidate_type (ps_direct_candidate_type s)\<rparr>"
  obtain res r1 where e: "ensure_session P now answer io1 r = (res, r1)" by fastforce
  have wf1: "runtime_wf r1" using runtime_wf_ensure [OF wf, of P now answer io1] by (simp add: e)
  have "runtime_wf (snd (runtime_save io2 (r1\<lparr>rt_config := (rt_config r1)\<lparr>cf_published_services :=
      upsert_by ps_name ?s (cf_published_services (rt_config r1))\<rparr>\<rparr>)))" if "validate_published_service_config s = Inr ()"
    using that wf1 by (intro runtime_wf_stored config_wf_publish service_wf_normal) (simp_all add: runtime_wf_def)
  then show ?thesis using wf wf1 by (auto simp: publish_service_def e Let_def split: prod.splits sum.splits option.splits)
qed

lemma runtime_wf_unpublish: "runtime_wf r \<Longrightarrow> runtime_wf (snd (delete_published_service P now answer io1 delete io2 name r))"
proof -
  assume wf: "runtime_wf r"
  obtain res r1 where e: "ensure_session P now answer io1 r = (res, r1)" by fastforce
  have wf1: "runtime_wf r1" using runtime_wf_ensure [OF wf, of P now answer io1] by (simp add: e)
  then have "runtime_wf (snd (runtime_save io2 (r1\<lparr>rt_config := (rt_config r1)\<lparr>cf_published_services :=
      filter (\<lambda>s. ps_name s \<noteq> name) (cf_published_services (rt_config r1))\<rparr>\<rparr>)))"
    by (intro runtime_wf_stored config_wf_unpublish) (simp_all add: runtime_wf_def)
  then show ?thesis using wf wf1 by (auto simp: delete_published_service_def e Let_def split: prod.splits sum.splits)
qed

lemma runtime_wf_upsert: "runtime_wf r \<Longrightarrow> runtime_wf (snd (upsert_forward_rule io rule r))"
proof (cases "admissible_rule rule")
  case (Inr rule')
  assume wf: "runtime_wf r"
  have "rule_wf rule'" using admissible_rule_Inr [OF Inr] by (simp add: rule_wf_def)
  with wf show ?thesis
    by (simp add: upsert_forward_rule_eq Inr runtime_wf_stored config_wf_rules)
      (intro runtime_wf_stored config_wf_rules, simp_all add: runtime_wf_def config_wf_def upsert_by_distinct upsert_by_all)
qed (simp add: upsert_forward_rule_eq)

lemma runtime_wf_delete: "runtime_wf r \<Longrightarrow> runtime_wf (snd (delete_forward_rule io name r))"
proof -
  assume wf: "runtime_wf r"
  let ?rules = "filter (\<lambda>x. fr_name x \<noteq> name) (rules_of r)"
  have c: "config_wf ((rt_config r)\<lparr>cf_forward_rules := ?rules\<rparr>)"
    using wf by (intro config_wf_rules) (auto simp: runtime_wf_def config_wf_def list_all_iff distinct_map_filter)
  then have "runtime_wf (r\<lparr>rt_config := (rt_config r)\<lparr>cf_forward_rules := ?rules\<rparr>\<rparr>)"
    using wf by (simp add: runtime_wf_def)
  with runtime_wf_stored [OF wf c] show ?thesis by (simp add: delete_forward_rule_def Let_def)
qed

lemma runtime_wf_prepare: "runtime_wf r \<Longrightarrow> runtime_wf (snd (prepare_runtime_iteration P now io0 answer io1 upsert io2 force r))"
proof -
  assume wf: "runtime_wf r"
  obtain res r1 where i: "(if force then runtime_save io0 (invalidate_session r) else (Inr (), r)) = (res, r1)" by fastforce
  have wf1: "runtime_wf r1"
    using i wf runtime_wf_save [of "invalidate_session r" io0] runtime_wf_invalidate [OF wf]
    by (cases force) (simp_all add: runtime_wf_def)
  obtain res2 r2 where e: "ensure_session P now answer io1 r1 = (res2, r2)" by fastforce
  have wf2: "runtime_wf r2" using runtime_wf_ensure [OF wf1, of P now answer io1] by (simp add: e)
  then have "runtime_wf (snd (runtime_save io2 r2))" by (intro runtime_wf_save) (simp_all add: runtime_wf_def)
  then show ?thesis using wf1 wf2
    by (simp add: prepare_runtime_iteration_def i e split: prod.split sum.split)
qed

lemma runtime_wf_apply: "runtime_wf r \<Longrightarrow> runtime_wf (config_apply P op r)"
  by (cases op) (simp_all add: runtime_wf_ensure runtime_wf_publish runtime_wf_unpublish runtime_wf_upsert
      runtime_wf_delete runtime_wf_prepare)

text \<open>So the operations are a system that keeps the invariant, however they follow each other.\<close>

interpretation configs: invariant_system runtime_wf "config_apply P"
  rewrites "invariant_system.run (config_apply P) = fold (config_apply P)" for P
proof -
  show inv: "invariant_system runtime_wf (config_apply P)" by unfold_locales (rule runtime_wf_apply)
  show "invariant_system.run (config_apply P) = fold (config_apply P)"
    by (intro ext) (simp add: invariant_system.run_def [OF inv])
qed

lemma first_error_all: "first_error f xs = Inr () \<longleftrightarrow> list_all (\<lambda>x. f x = Inr ()) xs"
  by (induction xs) (simp_all add: result_bind_Inr_iff)

lemma config_wf_validates: "config_wf c \<Longrightarrow> validate_runtime_config c = Inr ()"
  by (auto simp: validate_runtime_config_def config_wf_def first_error_all list_all_iff service_wf_def rule_wf_def result_bind_Inr_iff)



end
