(* ===== verification/ControlClient.thy ===== *)
theory ControlClient
  imports Routes RuntimeLoop AgentStatus
begin

text \<open>
  The agent's client of the server's interface (\<open>minipunch-agent/src/client.rs\<close>): each call builds one
  request, sends it and reads the answer. Sending is a parameter, a function on the state of
  whatever is behind it; bodies are the values their JSON stands for.
\<close>

section \<open>Requests and answers\<close>

datatype request_body =
    Json_Register register_device_request
  | Json_Upsert upsert_service_request
  | Json_Delete delete_service_request
  | Json_Start start_direct_rendezvous_request
  | Json_Update update_direct_rendezvous_candidates_request

datatype response_body = Json_Of api_response | Json_Error error_response | Not_Json

record http_request =
  hr_method :: string
  hr_url :: string
  hr_bearer :: "string option"
  hr_body :: "request_body option"

record http_response =
  ht_status :: nat
  ht_body :: response_body

type_synonym 's http_send = "http_request \<Rightarrow> 's \<Rightarrow> http_response result \<times> 's"

text \<open>What a body decodes to as the type a call expects.\<close>

fun as_register_response :: "response_body \<Rightarrow> register_device_response option" where
  "as_register_response (Json_Of (Res_RegisterDevice a)) = Some a"
| "as_register_response _ = None"

fun as_heartbeat_response :: "response_body \<Rightarrow> heartbeat_response option" where
  "as_heartbeat_response (Json_Of (Res_Heartbeat a)) = Some a"
| "as_heartbeat_response _ = None"

fun as_service_definition :: "response_body \<Rightarrow> service_definition option" where
  "as_service_definition (Json_Of (Res_Service a)) = Some a"
| "as_service_definition _ = None"

fun as_network_snapshot :: "response_body \<Rightarrow> network_snapshot option" where
  "as_network_snapshot (Json_Of (Res_Network a)) = Some a"
| "as_network_snapshot _ = None"

fun as_rendezvous_session :: "response_body \<Rightarrow> direct_rendezvous_session option" where
  "as_rendezvous_session (Json_Of (Res_Rendezvous a)) = Some a"
| "as_rendezvous_session _ = None"

fun as_pending_response :: "response_body \<Rightarrow> pending_direct_rendezvous_response option" where
  "as_pending_response (Json_Of (Res_Pending a)) = Some a"
| "as_pending_response _ = None"

text \<open>The status line's text is the HTTP library's.\<close>

definition parse_json_response :: "(nat \<Rightarrow> string) \<Rightarrow> (response_body \<Rightarrow> 'a option) \<Rightarrow> http_response \<Rightarrow> 'a result" where
  "parse_json_response status_text decode response =
     (let status = ht_status response in
      if 200 \<le> status \<and> status < 300
      then case decode (ht_body response) of None \<Rightarrow> Inl ''failed to decode success response'' | Some a \<Rightarrow> Inr a
      else case ht_body response of
             Json_Error err \<Rightarrow> Inl (''server returned '' @ status_text status @ '': '' @ er_error err)
           | _ \<Rightarrow> Inl (''server returned non-success status '' @ status_text status))"

section \<open>The client\<close>

text \<open>The base URL, and what the HTTP library is.\<close>

record 's control_plane_client =
  cc_base_url :: string
  cc_status_text :: "nat \<Rightarrow> string"
  cc_send :: "'s http_send"

definition trim_end_slashes :: "string \<Rightarrow> string" where
  "trim_end_slashes s = rev (dropWhile (\<lambda>c. c = CHR ''/'') (rev s))"

definition client_new :: "(nat \<Rightarrow> string) \<Rightarrow> 's http_send \<Rightarrow> string \<Rightarrow> 's control_plane_client" where
  "client_new status_text send base = \<lparr>cc_base_url = trim_end_slashes base, cc_status_text = status_text, cc_send = send\<rparr>"

definition client_endpoint :: "'s control_plane_client \<Rightarrow> string \<Rightarrow> string" where
  "client_endpoint c path = cc_base_url c @ path"

text \<open>Sending a request, with the context of its failure, and reading the answer.\<close>

definition control_call ::
  "'s control_plane_client \<Rightarrow> string \<Rightarrow> (response_body \<Rightarrow> 'a option) \<Rightarrow> http_request \<Rightarrow> 's \<Rightarrow> 'a result \<times> 's" where
  "control_call c context decode rq st =
     (case cc_send c rq st of
        (Inl _, st') \<Rightarrow> (Inl context, st')
      | (Inr response, st') \<Rightarrow> (parse_json_response (cc_status_text c) decode response, st'))"

definition client_register_device where
  "client_register_device c rq =
     control_call c ''failed to call register endpoint'' as_register_response
       \<lparr>hr_method = ''POST'', hr_url = client_endpoint c ''/api/v1/devices/register'', hr_bearer = None, hr_body = Some (Json_Register rq)\<rparr>"

definition client_heartbeat where
  "client_heartbeat c token =
     control_call c ''failed to call heartbeat endpoint'' as_heartbeat_response
       \<lparr>hr_method = ''POST'', hr_url = client_endpoint c ''/api/v1/devices/heartbeat'', hr_bearer = Some token, hr_body = None\<rparr>"

definition client_upsert_service where
  "client_upsert_service c token rq =
     control_call c ''failed to call upsert service endpoint'' as_service_definition
       \<lparr>hr_method = ''POST'', hr_url = client_endpoint c ''/api/v1/services/upsert'', hr_bearer = Some token, hr_body = Some (Json_Upsert rq)\<rparr>"

definition client_delete_service where
  "client_delete_service c token rq =
     control_call c ''failed to call delete service endpoint'' as_service_definition
       \<lparr>hr_method = ''DELETE'', hr_url = client_endpoint c ''/api/v1/services'', hr_bearer = Some token, hr_body = Some (Json_Delete rq)\<rparr>"

definition client_network_snapshot where
  "client_network_snapshot c token =
     control_call c ''failed to call network endpoint'' as_network_snapshot
       \<lparr>hr_method = ''GET'', hr_url = client_endpoint c ''/api/v1/network'', hr_bearer = Some token, hr_body = None\<rparr>"

definition client_start_direct_rendezvous where
  "client_start_direct_rendezvous c token rq =
     control_call c ''failed to call start direct rendezvous endpoint'' as_rendezvous_session
       \<lparr>hr_method = ''POST'', hr_url = client_endpoint c ''/api/v1/direct/rendezvous/start'', hr_bearer = Some token,
        hr_body = Some (Json_Start rq)\<rparr>"

definition client_pending_direct_rendezvous where
  "client_pending_direct_rendezvous c token =
     control_call c ''failed to call pending direct rendezvous endpoint'' as_pending_response
       \<lparr>hr_method = ''GET'', hr_url = client_endpoint c ''/api/v1/direct/rendezvous/pending'', hr_bearer = Some token, hr_body = None\<rparr>"

definition client_direct_rendezvous where
  "client_direct_rendezvous c token rendezvous =
     control_call c ''failed to call direct rendezvous status endpoint'' as_rendezvous_session
       \<lparr>hr_method = ''GET'', hr_url = client_endpoint c (''/api/v1/direct/rendezvous/'' @ rendezvous), hr_bearer = Some token, hr_body = None\<rparr>"

definition client_update_candidates where
  "client_update_candidates c token rendezvous rq =
     control_call c ''failed to call direct rendezvous candidates endpoint'' as_rendezvous_session
       \<lparr>hr_method = ''POST'', hr_url = client_endpoint c (''/api/v1/direct/rendezvous/'' @ rendezvous @ ''/candidates''),
        hr_bearer = Some token, hr_body = Some (Json_Update rq)\<rparr>"

section \<open>Commands that are one call\<close>

definition agent_heartbeat ::
  "'s control_plane_client \<Rightarrow> crypto_prims \<Rightarrow> int \<Rightarrow> register_device_response result \<Rightarrow> unit result \<Rightarrow> agent_runtime \<Rightarrow> 's
     \<Rightarrow> unit result \<times> agent_runtime \<times> 's" where
  "agent_heartbeat c P now answer io r st =
     (case ensure_session P now answer io r of
        (Inl e, r1) \<Rightarrow> (Inl e, r1, st)
      | (Inr _, r1) \<Rightarrow>
          (case cf_session_token (rt_config r1) of
             None \<Rightarrow> (Inl ''missing session token after ensure_session'', r1, st)
           | Some token \<Rightarrow> (case client_heartbeat c token st of (a, st') \<Rightarrow> (map_sum id (\<lambda>_. ()) a, r1, st'))))"

definition agent_network_snapshot ::
  "'s control_plane_client \<Rightarrow> crypto_prims \<Rightarrow> int \<Rightarrow> register_device_response result \<Rightarrow> unit result \<Rightarrow> agent_runtime \<Rightarrow> 's
     \<Rightarrow> network_snapshot result \<times> agent_runtime \<times> 's" where
  "agent_network_snapshot c P now answer io r st =
     (case ensure_session P now answer io r of
        (Inl e, r1) \<Rightarrow> (Inl e, r1, st)
      | (Inr _, r1) \<Rightarrow>
          (case cf_session_token (rt_config r1) of
             None \<Rightarrow> (Inl ''missing session token after ensure_session'', r1, st)
           | Some token \<Rightarrow> (case client_network_snapshot c token st of (a, st') \<Rightarrow> (a, r1, st'))))"

definition agent_status where
  "agent_status c P now answer io r st =
     (case agent_network_snapshot c P now answer io r st of
        (Inr snapshot, r1, st') \<Rightarrow> (build_status_report now (rt_config r1) (Some snapshot) None, r1, st')
      | (Inl err, r1, st') \<Rightarrow> (build_status_report now (rt_config r1) None (Some err), r1, st'))"

end
