(* ===== verification/HttpProps.thy ===== *)
theory HttpProps
  imports ControlClient RoutesProps AgentProps
begin

text \<open>
  The agent's client against the server's routes: a call over the network is the operation of the
  server's database, with the same result and the same effect.
\<close>

section \<open>The network between them\<close>

text \<open>The value of a path parameter that the router gives back as it is.\<close>

definition path_param_ok :: "string \<Rightarrow> bool" where
  "path_param_ok s \<longleftrightarrow> s \<noteq> [] \<and> CHR ''/'' \<notin> set s \<and> s \<noteq> ''start'' \<and> s \<noteq> ''pending''"

text \<open>A header's value that can be sent and read as a string: visible ASCII.\<close>

definition header_ok :: "string \<Rightarrow> bool" where
  "header_ok s \<longleftrightarrow> (\<forall>c\<in>set s. 32 \<le> (of_char c :: nat) \<and> (of_char c :: nat) < 127)"

fun body_of :: "api_request \<Rightarrow> request_body option" where
  "body_of (Api_RegisterDevice rq) = Some (Json_Register rq)"
| "body_of (Api_UpsertService rq) = Some (Json_Upsert rq)"
| "body_of (Api_DeleteService rq) = Some (Json_Delete rq)"
| "body_of (Api_StartRendezvous rq) = Some (Json_Start rq)"
| "body_of (Api_UpdateCandidates _ rq) = Some (Json_Update rq)"
| "body_of _ = None"

fun params_ok :: "api_request \<Rightarrow> bool" where
  "params_ok (Api_GetRendezvous s) = path_param_ok s"
| "params_ok (Api_UpdateCandidates s _) = path_param_ok s"
| "params_ok (Api_CreateJoinToken _) = False"
| "params_ok _ = True"

definition path_string :: "string list \<Rightarrow> string" where
  "path_string segments = concat (map (\<lambda>s. CHR ''/'' # s) segments)"

text \<open>The request a route of the server at this origin is for.\<close>

definition reaches :: "string \<Rightarrow> http_request \<Rightarrow> api_request \<Rightarrow> bool" where
  "reaches origin rq api \<longleftrightarrow>
     hr_method rq = fst (build_router api) \<and> hr_url rq = origin @ path_string (snd (build_router api))
     \<and> hr_body rq = body_of api \<and> params_ok api"

definition request_headers :: "http_request \<Rightarrow> headers" where
  "request_headers rq name = (if name = ''authorization'' then map_option (\<lambda>t. ''Bearer '' @ t) (hr_bearer rq) else None)"

definition response_of :: "server_error + api_response \<Rightarrow> http_response" where
  "response_of r = (case r of
       Inl e \<Rightarrow> \<lparr>ht_status = fst (error_into_response e), ht_body = Json_Error (snd (error_into_response e))\<rparr>
     | Inr a \<Rightarrow> \<lparr>ht_status = 200, ht_body = Json_Of a\<rparr>)"

text \<open>
  What the HTTP client and the router do: a request that a route is for gets that handler's answer, and
  the server is what the handler has left.
\<close>

definition http_law ::
  "string \<Rightarrow> 'a server_prims_scheme \<Rightarrow> int \<Rightarrow> byte list \<Rightarrow> byte list \<Rightarrow> app_state http_send \<Rightarrow> bool" where
  "http_law origin P now r1 r2 send \<longleftrightarrow>
     (\<forall>rq api st. reaches origin rq api \<longrightarrow> (\<forall>t. hr_bearer rq = Some t \<longrightarrow> header_ok t) \<longrightarrow>
        send rq st = (case serve P now r1 r2 (request_headers rq) api st of (r, st') \<Rightarrow> (Inr (response_of r), st')))"

section \<open>A call is the operation\<close>

text \<open>The agent's view of a result of the server.\<close>

definition remote :: "(nat \<Rightarrow> string) \<Rightarrow> server_error + 'a \<Rightarrow> 'a result" where
  "remote status_text r = (case r of
       Inl e \<Rightarrow> Inl (''server returned '' @ status_text (server_error_status e) @ '': '' @ server_error_message e)
     | Inr a \<Rightarrow> Inr a)"

definition over_http ::
  "(nat \<Rightarrow> string) \<Rightarrow> (database \<Rightarrow> (server_error + 'a) \<times> database) \<Rightarrow> app_state \<Rightarrow> 'a result \<times> app_state" where
  "over_http status_text f st = (case f (app_db st) of (r, db) \<Rightarrow> (remote status_text r, st\<lparr>app_db := db\<rparr>))"

lemma trim_end_slashes_origin:
  assumes "origin = [] \<or> last origin \<noteq> CHR ''/''"
  shows "trim_end_slashes (origin @ replicate n (CHR ''/'')) = origin"
proof -
  have "dropWhile (\<lambda>c. c = CHR ''/'') (replicate n (CHR ''/'') @ rev origin) = rev origin"
    using assms by (induction n) (auto simp: dropWhile_eq_self_iff hd_rev)
  then show ?thesis by (simp add: trim_end_slashes_def)
qed

lemma parse_response_of:
  assumes "\<And>a. decode (Json_Of (wrap a)) = Some a"
  shows "parse_json_response status_text decode (response_of (map_sum id wrap r)) = remote status_text r"
proof (cases r)
  case (Inl e)
  then show ?thesis
    by (cases e) (simp_all add: parse_json_response_def response_of_def remote_def error_into_response_def Let_def)
next
  case (Inr a)
  with assms show ?thesis by (simp add: parse_json_response_def response_of_def remote_def)
qed

lemma control_call_over_http:
  assumes "http_law origin P now r1 r2 (cc_send c)" "reaches origin rq api"
    and "\<And>t. hr_bearer rq = Some t \<Longrightarrow> header_ok t"
    and "\<And>a. decode (Json_Of (wrap a)) = Some a"
    and "serve P now r1 r2 (request_headers rq) api st = on_db wrap f st"
  shows "control_call c context decode rq st = over_http (cc_status_text c) f st"
proof -
  have "cc_send c rq st = (case on_db wrap f st of (r, st') \<Rightarrow> (Inr (response_of r), st'))"
    using assms(1-3,5) unfolding http_law_def by metis
  then show ?thesis
    by (simp add: control_call_def over_http_def on_db_def parse_response_of [OF assms(4)] split: prod.split)
qed

lemma bearer_of_request [simp]:
  "hr_bearer rq = Some t \<Longrightarrow> bearer_token_from_headers (request_headers rq) = Inr t"
  by (simp add: bearer_token_from_headers_def request_headers_def strip_prefix_iff split: option.split)

lemma with_token_ok [simp]: "with_token (Inr t) f = f t"
  by (rule ext) (simp add: with_token_def)

lemmas call_defs = client_register_device_def client_heartbeat_def client_upsert_service_def client_delete_service_def
  client_network_snapshot_def client_start_direct_rendezvous_def client_pending_direct_rendezvous_def
  client_direct_rendezvous_def client_update_candidates_def

lemmas route_defs = route_register_device_def route_heartbeat_def route_upsert_service_def route_delete_service_def
  route_network_snapshot_def route_start_rendezvous_def route_pending_rendezvous_def route_get_rendezvous_def
  route_update_candidates_def

lemma client_new_origin:
  assumes "c = client_new status_text send (origin @ replicate n (CHR ''/''))" "origin = [] \<or> last origin \<noteq> CHR ''/''"
  shows "cc_base_url c = origin" "cc_status_text c = status_text" "cc_send c = send"
  by (simp_all add: assms client_new_def trim_end_slashes_origin)

lemma upsert_over_http:
  assumes "http_law origin P now r1 r2 send" "origin = [] \<or> last origin \<noteq> CHR ''/''" "header_ok token"
    "c = client_new status_text send (origin @ replicate n (CHR ''/''))"
  shows "client_upsert_service c token upsert st = over_http status_text (upsert_service P now token upsert) st"
proof -
  note c = client_new_origin [OF assms(4,2)]
  show ?thesis unfolding client_upsert_service_def
    by (rule control_call_over_http [of origin P now r1 r2 c, unfolded c, OF assms(1),
          where api = "Api_UpsertService upsert" and wrap = Res_Service])
      (simp_all add: reaches_def path_string_def client_endpoint_def c route_defs assms(3))
qed


section \<open>Publishing, end to end\<close>

lemma publish_service_Inr:
  assumes "publish_service P now answer io1 upsert io2 s r = (Inr sd, r')" "ensure_session P now answer io1 r = (Inr (), r1)"
    "cf_session_token (rt_config r1) = Some token"
  shows "upsert token \<lparr>us_name = ps_name s, us_allowed_device_ids = ps_allowed_device_ids s\<rparr> = Inr sd
    \<and> entries_by ps_name (cf_published_services (rt_file r')) (ps_name s)
        = Some (s\<lparr>ps_direct_candidate_type := normalize_direct_candidate_type (ps_direct_candidate_type s)\<rparr>)"
  using assms
  by (auto simp: publish_service_def Let_def runtime_save_unit upsert_by_entries split: sum.splits prod.splits)

text \<open>
  C21. What an agent publishes is what the other devices see. When publishing a service over the network
  has succeeded, the service is in the agent's configuration file, the server authorises exactly the
  publishing device and the devices listed for it, and the network snapshot of a device with a
  session shows the service if and only if the device is one of these. (The id of the service must not
  collide with the id of another one.)
\<close>

theorem publishing_reaches_devices:
  assumes "http_law origin P now r1 r2 send" "origin = [] \<or> last origin \<noteq> CHR ''/''"
    and "c = client_new status_text send (origin @ replicate n (CHR ''/''))"
    and "db_wf P (app_db st)" "header_ok token"
    and "ensure_session Q clock answer io1 r = (Inr (), ra)" "cf_session_token (rt_config ra) = Some token"
    and "publish_service Q clock answer io1 (\<lambda>tok rq. fst (client_upsert_service c tok rq st)) io2 s r = (Inr sd, r')"
    and "client_upsert_service c token \<lparr>us_name = ps_name s, us_allowed_device_ids = ps_allowed_device_ids s\<rparr> st = (answered, st')"
    and "session_device_id P now token (app_db st) = Inr owner"
    and "\<forall>row\<in>set (db_services (app_db st)). sv_service_id row = sd_service_id sd
       \<longrightarrow> sv_owner_device_id row = owner \<and> sv_service_name row = ps_name s"
  shows "(\<forall>d. authorize_relay_service d (sd_service_id sd) (app_db st')
             = (if d = owner \<or> d \<in> set (ps_allowed_device_ids s) then Inr sd else Inl Forbidden))
    \<and> (\<forall>later tok d. session_device_id P later tok (app_db st') = Inr d \<longrightarrow>
          (\<exists>snap. db_network_snapshot P later tok (app_db st') = Inr snap
             \<and> (sd \<in> set (ns_services snap) \<longleftrightarrow> d = owner \<or> d \<in> set (ps_allowed_device_ids s))))
    \<and> entries_by ps_name (cf_published_services (rt_file r')) (ps_name s)
        = Some (s\<lparr>ps_direct_candidate_type := normalize_direct_candidate_type (ps_direct_candidate_type s)\<rparr>)"
proof -
  let ?rq = "\<lparr>us_name = ps_name s, us_allowed_device_ids = ps_allowed_device_ids s\<rparr>"
  note published = publish_service_Inr [OF assms(8,6,7)]
  have "client_upsert_service c token ?rq st = over_http status_text (upsert_service P now token ?rq) st"
    using upsert_over_http [OF assms(1,2,5,3)] by blast
  with published assms(9) have up: "upsert_service P now token ?rq (app_db st) = (Inr sd, app_db st')"
    by (auto simp: over_http_def remote_def split: prod.splits sum.splits)
  then have locked: "upsert_service_locked P now owner ?rq (app_db st) = (Inr sd, app_db st')"
    using assms(10) by (simp add: upsert_service_def split: if_splits)
  have auth: "authorize_relay_service d (sd_service_id sd) (app_db st')
      = (if d = owner \<or> d \<in> set (ps_allowed_device_ids s) then Inr sd else Inl Forbidden)" for d
    using upsert_grants [OF assms(4) locked, of d] assms(11) by simp
  have wf: "db_wf P (app_db st')" using upsert_service_locked_wf [OF assms(4), of now owner ?rq] locked by simp
  have snap: "\<exists>snap. db_network_snapshot P later tok (app_db st') = Inr snap
      \<and> (sd \<in> set (ns_services snap) \<longleftrightarrow> d = owner \<or> d \<in> set (ps_allowed_device_ids s))"
    if "session_device_id P later tok (app_db st') = Inr d" for later tok d
    using visible_authorized [OF wf, of sd d] auth [of d] by (simp add: network_snapshot_eq [OF wf that])
  show ?thesis using auth snap published by blast
qed

section \<open>Witnesses\<close>

text \<open>A network that is nothing but the server.\<close>

definition route_candidates :: "string \<Rightarrow> http_request \<Rightarrow> api_request list" where
  "route_candidates origin rq =
     (let tail = drop (length origin + length ''/api/v1/direct/rendezvous/'') (hr_url rq) in
      case hr_body rq of
        Some (Json_Register q) \<Rightarrow> [Api_RegisterDevice q]
      | Some (Json_Upsert q) \<Rightarrow> [Api_UpsertService q]
      | Some (Json_Delete q) \<Rightarrow> [Api_DeleteService q]
      | Some (Json_Start q) \<Rightarrow> [Api_StartRendezvous q]
      | Some (Json_Update q) \<Rightarrow> [Api_UpdateCandidates (take (length tail - length ''/candidates'') tail) q]
      | None \<Rightarrow> [Api_Healthz, Api_BootstrapInit, Api_AdminDevices, Api_ClearDevices, Api_Heartbeat, Api_NetworkSnapshot,
                 Api_PendingRendezvous, Api_GetRendezvous tail])"

definition server_send :: "string \<Rightarrow> 'a server_prims_scheme \<Rightarrow> int \<Rightarrow> byte list \<Rightarrow> byte list \<Rightarrow> app_state http_send" where
  "server_send origin P now r1 r2 rq st =
     (case List.find (reaches origin rq) (route_candidates origin rq) of
        None \<Rightarrow> (Inr \<lparr>ht_status = 404, ht_body = Not_Json\<rparr>, st)
      | Some api \<Rightarrow> (case serve P now r1 r2 (request_headers rq) api st of (r, st') \<Rightarrow> (Inr (response_of r), st')))"

lemma find_route: "reaches origin rq api \<Longrightarrow> List.find (reaches origin rq) (route_candidates origin rq) = Some api"
  by (cases api) (simp_all add: reaches_def route_candidates_def path_string_def path_param_ok_def Let_def)

lemma server_send_law: "http_law origin P now r1 r2 (server_send origin P now r1 r2)"
  by (simp add: http_law_def server_send_def find_route)

definition demo_client_of :: "app_state control_plane_client" where
  "demo_client_of = client_new (\<lambda>_. ''status'') (server_send ''http://m'' toy_server 20 [] []) ''http://m//''"


definition demo_publisher :: "app_state control_plane_client" where
  "demo_publisher = client_new (\<lambda>_. ''status'') (server_send ''http://m'' toy_server 9 [] []) ''http://m''"

definition demo_publisher_runtime :: agent_runtime where
  "demo_publisher_runtime = demo_runtime\<lparr>rt_config := (rt_config demo_runtime)\<lparr>cf_session_token := Some ''sess_C'',
     cf_session_expires_at := Some 600\<rparr>\<rparr>"

definition demo_web :: published_service_config where
  "demo_web = \<lparr>ps_name = ''web'', ps_target_host = ''localhost'', ps_target_port = 80, ps_allowed_device_ids = [demo_id (CHR ''B'')],
     ps_direct_enabled = False, ps_direct_udp_bind_addr = [], ps_direct_candidate_type = [], ps_direct_wait_seconds = 5\<rparr>"

lemma demo_publisher_session:
  "ensure_session toy_prims 0 (Inl []) (Inr ()) demo_publisher_runtime = (Inr (), demo_publisher_runtime)"
  by (simp add: ensure_session_def has_valid_session_def demo_publisher_runtime_def i64_add_def i64_wrap_def)

lemma demo_publisher_eq: "demo_publisher = client_new (\<lambda>_. ''status'') (server_send ''http://m'' toy_server 9 [] []) (''http://m'' @ replicate 0 (CHR ''/''))"
  by (simp add: demo_publisher_def)

lemma demo_upsert_call:
  "client_upsert_service demo_publisher ''sess_C'' demo_publish (demo_app\<lparr>app_db := demo_db1\<rparr>)
     = (Inr demo_service, demo_app\<lparr>app_db := demo_db2\<rparr>)"
proof -
  have s: "session_device_id toy_server 9 ''sess_C'' demo_db1 = Inr (demo_id (CHR ''A''))"
    by (simp add: session_device_id_def demo_db1_def)
  have b: "\<not> blank (us_name demo_publish)" by code_simp
  have "upsert_service toy_server 9 ''sess_C'' demo_publish demo_db1 = (Inr demo_service, demo_db2)"
    by (simp add: upsert_service_def s b demo_published)
  with upsert_over_http [OF server_send_law _ _ demo_publisher_eq, of "''sess_C''" demo_publish "demo_app\<lparr>app_db := demo_db1\<rparr>"]
  show ?thesis by (simp add: over_http_def remote_def header_ok_def)
qed

theorem publishing_reaches_devices_witness:
  "\<exists>r'. publish_service toy_prims 0 (Inl []) (Inr ())
        (\<lambda>tok rq. fst (client_upsert_service demo_publisher tok rq (demo_app\<lparr>app_db := demo_db1\<rparr>))) (Inr ()) demo_web demo_publisher_runtime
        = (Inr demo_service, r')
     \<and> authorize_relay_service (demo_id (CHR ''B'')) (sd_service_id demo_service) demo_db2 = Inr demo_service
     \<and> entries_by ps_name (cf_published_services (rt_file r')) ''web'' \<noteq> None"
proof -
  have rq: "\<lparr>us_name = ps_name demo_web, us_allowed_device_ids = ps_allowed_device_ids demo_web\<rparr> = demo_publish"
    by (simp add: demo_web_def demo_publish_def)
  have valid: "validate_published_service_config demo_web = Inr ()" by code_simp
  have token: "cf_session_token (rt_config demo_publisher_runtime) = Some ''sess_C''" by (simp add: demo_publisher_runtime_def)
  obtain r' where pub: "publish_service toy_prims 0 (Inl []) (Inr ())
      (\<lambda>tok rq. fst (client_upsert_service demo_publisher tok rq (demo_app\<lparr>app_db := demo_db1\<rparr>))) (Inr ()) demo_web demo_publisher_runtime
      = (Inr demo_service, r')"
    using rq by (simp add: publish_service_def valid demo_publisher_session token Let_def demo_upsert_call runtime_save_unit)
  have s: "session_device_id toy_server 9 ''sess_C'' (app_db (demo_app\<lparr>app_db := demo_db1\<rparr>)) = Inr (demo_id (CHR ''A''))"
    by (simp add: session_device_id_def demo_db1_def)
  have n: "ps_name demo_web = ''web''" "ps_allowed_device_ids demo_web = [demo_id (CHR ''B'')]" by (simp_all add: demo_web_def)
  have wf: "db_wf toy_server (app_db (demo_app\<lparr>app_db := demo_db1\<rparr>))" by (simp add: demo_wf)
  have fresh: "\<forall>row\<in>set (db_services (app_db (demo_app\<lparr>app_db := demo_db1\<rparr>))). sv_service_id row = sd_service_id demo_service
      \<longrightarrow> sv_owner_device_id row = demo_id (CHR ''A'') \<and> sv_service_name row = ps_name demo_web"
    by (simp add: demo_db1_def)
  have "''http://m'' = [] \<or> last ''http://m'' \<noteq> CHR ''/''" "header_ok ''sess_C''" by (simp_all add: header_ok_def)
  note reach = publishing_reaches_devices [OF server_send_law this(1) demo_publisher_eq wf this(2) demo_publisher_session token pub
      demo_upsert_call [folded rq] s fresh, unfolded n]
  have "authorize_relay_service (demo_id (CHR ''B'')) (sd_service_id demo_service) demo_db2 = Inr demo_service"
    using reach [THEN conjunct1, rule_format, of "demo_id (CHR ''B'')"] by simp
  with reach pub show ?thesis by simp
qed

end
