(* ===== verification/Signals.thy ===== *)
theory Signals
  imports Prelude
begin

text \<open>
  Three places where tasks of the agent share a few variables without a lock: the count of relayed
  connections (\<open>RelayForwarderTracker\<close> in \<open>minipunch-agent/src/relay.rs\<close>), and the two ways of waiting for
  a connection to close (\<open>RelayConnection::wait_closed\<close> there and \<open>DirectConnection::wait_closed\<close> in
  \<open>direct.rs\<close>). Every access of an atomic variable is one step.

  \<open>tokio::sync::Notify\<close> is used as documented: \<open>notify_waiters\<close> wakes the \<open>Notified\<close> futures that exist
  when it is called, also those not yet polled, and no others.
\<close>

section \<open>Counting relayed connections\<close>

record forwarder_tracker =
  ft_active :: nat
  ft_idle_at :: int

definition tracker_new :: "int \<Rightarrow> forwarder_tracker" where
  "tracker_new now = \<lparr>ft_active = 0, ft_idle_at = now\<rparr>"

definition note_connection_started :: "forwarder_tracker \<Rightarrow> forwarder_tracker" where
  "note_connection_started t = t\<lparr>ft_active := wrap_add64 (ft_active t) 1\<rparr>"

text \<open>\<open>note_connection_finished\<close> is up to three steps: \<open>fetch_sub\<close>, and after the last connection two stores.\<close>

definition finish_sub :: "forwarder_tracker \<Rightarrow> bool \<times> forwarder_tracker" where
  "finish_sub t = (ft_active t \<le> 1, t\<lparr>ft_active := wrap_add64 (ft_active t) u64_max\<rparr>)"

definition finish_zero :: "forwarder_tracker \<Rightarrow> forwarder_tracker" where
  "finish_zero t = t\<lparr>ft_active := 0\<rparr>"

definition finish_stamp :: "int \<Rightarrow> forwarder_tracker \<Rightarrow> forwarder_tracker" where
  "finish_stamp now t = t\<lparr>ft_idle_at := now\<rparr>"

definition idle_for_secs :: "int \<Rightarrow> forwarder_tracker \<Rightarrow> nat" where
  "idle_for_secs now t = (if 0 < ft_active t then 0 else nat ((now - ft_idle_at t) mod 2 ^ 64))"

text \<open>
  The connections: those whose guard exists, those whose \<open>drop\<close> is about to store the zero, and those
  about to store the time.
\<close>

record tracker_state =
  ts_tracker :: forwarder_tracker
  ts_live :: nat
  ts_zeroing :: nat
  ts_stamping :: nat

inductive tracker_step :: "tracker_state \<Rightarrow> tracker_state \<Rightarrow> bool" where
  start: "tracker_step s (s\<lparr>ts_tracker := note_connection_started (ts_tracker s), ts_live := ts_live s + 1\<rparr>)"
| finish_more: "0 < ts_live s \<Longrightarrow> finish_sub (ts_tracker s) = (False, t)
    \<Longrightarrow> tracker_step s (s\<lparr>ts_tracker := t, ts_live := ts_live s - 1\<rparr>)"
| finish_last: "0 < ts_live s \<Longrightarrow> finish_sub (ts_tracker s) = (True, t)
    \<Longrightarrow> tracker_step s (s\<lparr>ts_tracker := t, ts_live := ts_live s - 1, ts_zeroing := ts_zeroing s + 1\<rparr>)"
| zero: "0 < ts_zeroing s
    \<Longrightarrow> tracker_step s (s\<lparr>ts_tracker := finish_zero (ts_tracker s), ts_zeroing := ts_zeroing s - 1,
          ts_stamping := ts_stamping s + 1\<rparr>)"
| stamp: "0 < ts_stamping s
    \<Longrightarrow> tracker_step s (s\<lparr>ts_tracker := finish_stamp now (ts_tracker s), ts_stamping := ts_stamping s - 1\<rparr>)"

inductive_cases tracker_stepE: "tracker_step s s'"

definition tracker_init :: "int \<Rightarrow> tracker_state" where
  "tracker_init now = \<lparr>ts_tracker = tracker_new now, ts_live = 0, ts_zeroing = 0, ts_stamping = 0\<rparr>"

text \<open>Reached with at most \<open>2 ^ 64 - 1\<close> connections at any time.\<close>

inductive tracker_reachable :: "int \<Rightarrow> tracker_state \<Rightarrow> bool" for now where
  init: "tracker_reachable now (tracker_init now)"
| step: "tracker_reachable now s \<Longrightarrow> tracker_step s s' \<Longrightarrow> ts_live s' \<le> u64_max \<Longrightarrow> tracker_reachable now s'"

text \<open>Reached without a connection starting or ending while the zero of another is due.\<close>

inductive tracker_orderly :: "int \<Rightarrow> tracker_state \<Rightarrow> bool" for now where
  init: "tracker_orderly now (tracker_init now)"
| step: "tracker_orderly now s \<Longrightarrow> tracker_step s s' \<Longrightarrow> ts_live s' \<le> u64_max
    \<Longrightarrow> ts_zeroing s = 0 \<or> ts_live s' = ts_live s \<Longrightarrow> tracker_orderly now s'"

lemma wrap_dec: "0 < a \<Longrightarrow> a \<le> u64_max \<Longrightarrow> wrap_add64 a u64_max = a - 1"
  by (cases a) (simp_all add: wrap_add64_def u64_max_def)

lemma tracker_bound:
  "tracker_reachable now s \<Longrightarrow> ts_live s \<le> u64_max \<and> ft_active (ts_tracker s) \<le> u64_max
    \<and> (ts_zeroing s = 0 \<longrightarrow> ft_active (ts_tracker s) \<le> ts_live s)"
proof (induction rule: tracker_reachable.induct)
  case (step s s')
  from step(2) show ?case
    using step(3,4)
    by cases (auto simp: note_connection_started_def finish_sub_def finish_zero_def finish_stamp_def wrap_add64_eq
        wrap_dec, auto simp: wrap_add64_def u64_max_def)
qed (simp add: tracker_init_def tracker_new_def)

lemma tracker_exact:
  "tracker_orderly now s \<Longrightarrow> ts_live s \<le> u64_max \<and> ft_active (ts_tracker s) = ts_live s \<and> (0 < ts_zeroing s \<longrightarrow> ts_live s = 0)"
proof (induction rule: tracker_orderly.induct)
  case (step s s')
  from step(2) show ?case
    using step(3-5)
    by cases (auto simp: note_connection_started_def finish_sub_def finish_zero_def finish_stamp_def wrap_add64_eq wrap_dec)
qed (simp add: tracker_init_def tracker_new_def)

text \<open>The interleaving that loses a connection: the last one ends, and another starts before the zero is stored.\<close>

definition tracker_lost :: "int \<Rightarrow> tracker_state" where
  "tracker_lost now = \<lparr>ts_tracker = tracker_new now, ts_live = 1, ts_zeroing = 0, ts_stamping = 0\<rparr>"

lemma tracker_lost_reachable: "tracker_reachable now (tracker_lost now)"
proof -
  define s1 where "s1 = \<lparr>ts_tracker = note_connection_started (tracker_new now), ts_live = 1, ts_zeroing = 0, ts_stamping = 0\<rparr>"
  define s2 where "s2 = \<lparr>ts_tracker = tracker_new now, ts_live = 0, ts_zeroing = 1, ts_stamping = 0\<rparr>"
  define s3 where "s3 = \<lparr>ts_tracker = note_connection_started (tracker_new now), ts_live = 1, ts_zeroing = 1, ts_stamping = 0\<rparr>"
  define s4 where "s4 = \<lparr>ts_tracker = tracker_new now, ts_live = 1, ts_zeroing = 0, ts_stamping = 1\<rparr>"
  note defs = s1_def s2_def s3_def s4_def tracker_init_def tracker_new_def note_connection_started_def finish_sub_def
    finish_zero_def finish_stamp_def wrap_add64_def u64_max_def tracker_lost_def
  have 1: "tracker_step (tracker_init now) s1"
    using tracker_step.start [of "tracker_init now"] by (simp add: defs)
  have 2: "tracker_step s1 s2"
    using tracker_step.finish_last [of s1 "tracker_new now"] by (simp add: defs)
  have 3: "tracker_step s2 s3"
    using tracker_step.start [of s2] by (simp add: defs)
  have 4: "tracker_step s3 s4"
    using tracker_step.zero [of s3] by (simp add: defs)
  have 5: "tracker_step s4 (tracker_lost now)"
    using tracker_step.stamp [of s4 now] by (simp add: defs)
  have "tracker_reachable now s1"
    by (rule tracker_reachable.intros(2) [OF tracker_reachable.intros(1) 1]) (simp add: defs)
  from tracker_reachable.intros(2) [OF this 2] have "tracker_reachable now s2" by (simp add: defs)
  from tracker_reachable.intros(2) [OF this 3] have "tracker_reachable now s3" by (simp add: defs)
  from tracker_reachable.intros(2) [OF this 4] have "tracker_reachable now s4" by (simp add: defs)
  from tracker_reachable.intros(2) [OF this 5] show ?thesis by (simp add: defs)
qed

text \<open>
  The count of relayed connections never exceeds the live ones once no zero is due, and it is exact
  as long as no connection starts or ends between the \<open>fetch_sub\<close> that ended the last one and the store
  of the zero. In general it is not: there is a run after which a connection is live, nothing is
  pending, and the count says zero, so the relay of a live connection counts as idle.
\<close>

theorem relay_count:
  "(tracker_reachable now s \<longrightarrow> ts_zeroing s = 0 \<longrightarrow> ft_active (ts_tracker s) \<le> ts_live s)
   \<and> (tracker_orderly now s \<longrightarrow> ft_active (ts_tracker s) = ts_live s
        \<and> (0 < ts_live s \<longrightarrow> idle_for_secs t (ts_tracker s) = 0))
   \<and> (\<exists>s. tracker_reachable now s \<and> ts_live s = 1 \<and> ts_zeroing s = 0 \<and> ts_stamping s = 0
        \<and> ft_active (ts_tracker s) = 0 \<and> idle_for_secs (now + 60) (ts_tracker s) = 60)"
proof (intro conjI)
  show "tracker_reachable now s \<longrightarrow> ts_zeroing s = 0 \<longrightarrow> ft_active (ts_tracker s) \<le> ts_live s"
    using tracker_bound by blast
  show "tracker_orderly now s \<longrightarrow> ft_active (ts_tracker s) = ts_live s
      \<and> (0 < ts_live s \<longrightarrow> idle_for_secs t (ts_tracker s) = 0)"
    using tracker_exact [of now s] by (simp add: idle_for_secs_def)
  show "\<exists>s. tracker_reachable now s \<and> ts_live s = 1 \<and> ts_zeroing s = 0 \<and> ts_stamping s = 0
      \<and> ft_active (ts_tracker s) = 0 \<and> idle_for_secs (now + 60) (ts_tracker s) = 60"
    using tracker_lost_reachable [of now]
    by (intro exI [of _ "tracker_lost now"]) (simp add: tracker_lost_def tracker_new_def idle_for_secs_def)
qed

theorem relay_count_witness:
  "\<exists>s. tracker_orderly 7 s \<and> ts_live s = 1 \<and> ft_active (ts_tracker s) = 1 \<and> idle_for_secs 90 (ts_tracker s) = 0
     \<and> ft_active (ts_tracker (tracker_init 7)) \<le> ts_live (tracker_init 7)"
proof -
  let ?s = "(tracker_init 7)\<lparr>ts_tracker := note_connection_started (ts_tracker (tracker_init 7)), ts_live := 1\<rparr>"
  have o: "tracker_orderly 7 ?s"
    using tracker_orderly.intros(2) [OF tracker_orderly.intros(1) tracker_step.start]
    by (simp add: tracker_init_def u64_max_def)
  have "ts_zeroing (tracker_init 7) = 0" "ts_live ?s = 1"
    by (simp_all add: tracker_init_def)
  with o relay_count [of 7 ?s 90] relay_count [of 7 "tracker_init 7" 90] tracker_reachable.intros(1) [of 7] show ?thesis
    by (metis zero_less_one)
qed

section \<open>Waiting for a connection to close\<close>

text \<open>
  Where a waiter stands: before its first step, with a \<open>Notified\<close> future it has not awaited yet, having
  seen the connection open without a future, awaiting its future, and returned. A future is \<open>True\<close> once
  \<open>notify_waiters\<close> has been called after its creation.
\<close>

datatype waiter = Entered | Armed bool | Seen_Open | Awaiting bool | Returned

text \<open>\<open>None\<close>: the task is suspended (or has returned).\<close>

fun relay_wait_closed :: "bool \<Rightarrow> waiter \<Rightarrow> waiter option" where
  "relay_wait_closed is_closed Entered = Some (Armed False)"
| "relay_wait_closed is_closed (Armed woken) = Some (if is_closed then Returned else Awaiting woken)"
| "relay_wait_closed is_closed (Awaiting True) = Some (if is_closed then Returned else Entered)"
| "relay_wait_closed _ _ = None"

fun direct_wait_closed :: "bool \<Rightarrow> waiter \<Rightarrow> waiter option" where
  "direct_wait_closed is_closed Entered = Some (if is_closed then Returned else Seen_Open)"
| "direct_wait_closed is_closed Seen_Open = Some (Awaiting False)"
| "direct_wait_closed is_closed (Awaiting True) = Some Returned"
| "direct_wait_closed _ _ = None"

fun wake :: "waiter \<Rightarrow> waiter" where
  "wake (Armed _) = Armed True"
| "wake (Awaiting _) = Awaiting True"
| "wake w = w"

text \<open>The task that closes: \<open>mark_closed\<close> of the relay, the end of the packet reader of a direct connection.\<close>

datatype closer = Running | Stored | Notified

record wait_state =
  ws_closed :: bool
  ws_closer :: closer
  ws_waiter :: waiter

fun closer_step :: "wait_state \<Rightarrow> wait_state option" where
  "closer_step s = (case ws_closer s of
      Running \<Rightarrow> Some (s\<lparr>ws_closed := True, ws_closer := Stored\<rparr>)
    | Stored \<Rightarrow> Some (s\<lparr>ws_closer := Notified, ws_waiter := wake (ws_waiter s)\<rparr>)
    | Notified \<Rightarrow> None)"

definition waiter_step :: "(bool \<Rightarrow> waiter \<Rightarrow> waiter option) \<Rightarrow> wait_state \<Rightarrow> wait_state option" where
  "waiter_step f s = map_option (\<lambda>w. s\<lparr>ws_waiter := w\<rparr>) (f (ws_closed s) (ws_waiter s))"

definition wait_init :: wait_state where
  "wait_init = \<lparr>ws_closed = False, ws_closer = Running, ws_waiter = Entered\<rparr>"

inductive wait_reachable :: "(bool \<Rightarrow> waiter \<Rightarrow> waiter option) \<Rightarrow> wait_state \<Rightarrow> bool" for f where
  init: "wait_reachable f wait_init"
| close: "wait_reachable f s \<Longrightarrow> closer_step s = Some s' \<Longrightarrow> wait_reachable f s'"
| wait: "wait_reachable f s \<Longrightarrow> waiter_step f s = Some s' \<Longrightarrow> wait_reachable f s'"

text \<open>The waiter runs alone for \<open>n\<close> steps, or until it is suspended.\<close>

fun wait_run :: "(bool \<Rightarrow> waiter \<Rightarrow> waiter option) \<Rightarrow> nat \<Rightarrow> wait_state \<Rightarrow> wait_state" where
  "wait_run f 0 s = s"
| "wait_run f (Suc n) s = (case waiter_step f s of None \<Rightarrow> s | Some s' \<Rightarrow> wait_run f n s')"

lemma relay_wait_inv:
  "wait_reachable relay_wait_closed s \<Longrightarrow> (ws_closed s \<longleftrightarrow> ws_closer s \<noteq> Running) \<and> (ws_waiter s = Returned \<longrightarrow> ws_closed s)
     \<and> (ws_closer s = Notified \<longrightarrow> ws_waiter s \<noteq> Awaiting False) \<and> ws_waiter s \<noteq> Seen_Open"
proof (induction rule: wait_reachable.induct)
  case (close s s')
  then show ?case by (cases "ws_closer s"; cases "ws_waiter s") auto
next
  case (wait s s')
  then obtain w where w: "relay_wait_closed (ws_closed s) (ws_waiter s) = Some w" "s' = s\<lparr>ws_waiter := w\<rparr>"
    by (auto simp: waiter_step_def)
  from wait.IH w show ?case
    by (cases "(ws_closed s, ws_waiter s)" rule: relay_wait_closed.cases) (auto split: if_splits)
qed (simp add: wait_init_def)

lemma direct_wait_inv:
  "wait_reachable direct_wait_closed s \<Longrightarrow> (ws_closed s \<longleftrightarrow> ws_closer s \<noteq> Running) \<and> (ws_waiter s = Returned \<longrightarrow> ws_closed s)
     \<and> (ws_waiter s = Awaiting True \<longrightarrow> ws_closed s)"
proof (induction rule: wait_reachable.induct)
  case (close s s')
  then show ?case by (cases "ws_closer s"; cases "ws_waiter s") auto
next
  case (wait s s')
  then obtain w where w: "direct_wait_closed (ws_closed s) (ws_waiter s) = Some w" "s' = s\<lparr>ws_waiter := w\<rparr>"
    by (auto simp: waiter_step_def)
  from wait.IH w show ?case
    by (cases "(ws_closed s, ws_waiter s)" rule: direct_wait_closed.cases) (auto split: if_splits)
qed (simp add: wait_init_def)

definition wait_lost :: wait_state where
  "wait_lost = \<lparr>ws_closed = True, ws_closer = Notified, ws_waiter = Awaiting False\<rparr>"

lemma wait_lost_reachable: "wait_reachable direct_wait_closed wait_lost"
proof -
  have "wait_reachable direct_wait_closed (wait_init\<lparr>ws_waiter := Seen_Open\<rparr>)"
    by (rule wait_reachable.wait [OF wait_reachable.init]) (simp add: waiter_step_def wait_init_def)
  from wait_reachable.close [OF this]
  have "wait_reachable direct_wait_closed \<lparr>ws_closed = True, ws_closer = Stored, ws_waiter = Seen_Open\<rparr>"
    by (simp add: wait_init_def)
  from wait_reachable.close [OF this]
  have "wait_reachable direct_wait_closed \<lparr>ws_closed = True, ws_closer = Notified, ws_waiter = Seen_Open\<rparr>"
    by simp
  from wait_reachable.wait [OF this] show ?thesis
    by (simp add: waiter_step_def wait_lost_def)
qed

text \<open>
  Once a relay connection has been closed, \<open>wait_closed\<close> returns within two steps of its own, from
  wherever it stands, and it never returns before. A direct connection's \<open>wait_closed\<close> does not return
  early either, but it can miss the closing: there is a run in which the connection is closed and the
  notification sent, and the waiter sleeps for ever.
\<close>

theorem wait_closed_returns:
  "(wait_reachable relay_wait_closed s \<longrightarrow> ws_closer s = Notified
      \<longrightarrow> ws_waiter (wait_run relay_wait_closed 2 s) = Returned)
   \<and> (wait_reachable relay_wait_closed s \<or> wait_reachable direct_wait_closed s
      \<longrightarrow> ws_waiter s = Returned \<longrightarrow> ws_closed s)
   \<and> (\<exists>s. wait_reachable direct_wait_closed s \<and> ws_closed s \<and> ws_waiter s \<noteq> Returned
        \<and> closer_step s = None \<and> waiter_step direct_wait_closed s = None)"
proof (intro conjI impI)
  assume r: "wait_reachable relay_wait_closed s" and n: "ws_closer s = Notified"
  with relay_wait_inv [OF r] have c: "ws_closed s" "ws_waiter s \<noteq> Awaiting False" "ws_waiter s \<noteq> Seen_Open"
    by auto
  then show "ws_waiter (wait_run relay_wait_closed 2 s) = Returned"
    by (cases "ws_waiter s") (auto simp: numeral_eq_Suc waiter_step_def)
next
  show "wait_reachable relay_wait_closed s \<or> wait_reachable direct_wait_closed s \<Longrightarrow> ws_waiter s = Returned \<Longrightarrow> ws_closed s"
    using relay_wait_inv direct_wait_inv by blast
next
  show "\<exists>s. wait_reachable direct_wait_closed s \<and> ws_closed s \<and> ws_waiter s \<noteq> Returned
      \<and> closer_step s = None \<and> waiter_step direct_wait_closed s = None"
    using wait_lost_reachable by (intro exI [of _ wait_lost]) (simp add: wait_lost_def waiter_step_def)
qed

theorem wait_closed_returns_witness:
  "\<exists>s. wait_reachable relay_wait_closed s \<and> ws_closer s = Notified
     \<and> ws_waiter (wait_run relay_wait_closed 2 s) = Returned"
proof -
  from wait_reachable.close [OF wait_reachable.init [of relay_wait_closed]]
  have "wait_reachable relay_wait_closed (wait_init\<lparr>ws_closed := True, ws_closer := Stored\<rparr>)"
    by (simp add: wait_init_def)
  from wait_reachable.close [OF this]
  have "wait_reachable relay_wait_closed (wait_init\<lparr>ws_closed := True, ws_closer := Notified\<rparr>)"
    by (simp add: wait_init_def)
  with wait_closed_returns show ?thesis
    by (metis wait_state.select_convs(2) wait_state.surjective wait_state.update_convs(1,2))
qed

end
