(* ===== verification/RelayTasks.thy ===== *)
theory RelayTasks
  imports RoutesProps RelayClient
begin

text \<open>
  What runs behind an agent's \<open>RelayConnection\<close> (\<open>minipunch-agent/src/relay.rs\<close>): the writer, reader and
  keepalive tasks of \<open>connect\<close>, \<open>close\<close> and \<open>drop\<close>, and the loop that accepts local connections. The
  functions that pack and unpack frames are the same code as the server's and are taken from there.
  A round of a task is what it does between two waits.
\<close>

section \<open>The tasks of a connection\<close>

record relay_conn =
  cn_closed :: bool
  cn_queue :: "relay_envelope list"
  cn_writer :: bool
  cn_reader :: bool
  cn_keepalive :: bool
  cn_routes :: routes
  cn_frames :: "relay_transport_frame list"
  cn_delivered :: "(nat \<times> relay_envelope) list"
  cn_incoming :: "relay_incoming_channel list"

definition relay_connected :: relay_conn where
  "relay_connected = \<lparr>cn_closed = False, cn_queue = [], cn_writer = True, cn_reader = True, cn_keepalive = True,
     cn_routes = [], cn_frames = [], cn_delivered = [], cn_incoming = []\<rparr>"

text \<open>The queue's receiver lives in the writer task.\<close>

definition cn_send :: "relay_envelope \<Rightarrow> relay_conn \<Rightarrow> unit result \<times> relay_conn" where
  "cn_send e cn =
     (if cn_writer cn then (Inr (), cn\<lparr>cn_queue := cn_queue cn @ [e]\<rparr>)
      else (Inl ''relay websocket is closed'', cn))"

definition mark_closed :: "relay_conn \<Rightarrow> relay_conn" where
  "mark_closed cn = cn\<lparr>cn_closed := True\<rparr>"

definition cn_clear :: "relay_conn \<Rightarrow> relay_conn" where
  "cn_clear cn = (case clear_all_channels (cn_routes cn) of
     (out, r) \<Rightarrow> cn\<lparr>cn_routes := r, cn_delivered := cn_delivered cn @ out\<rparr>)"

definition writer_end :: "relay_conn \<Rightarrow> relay_conn" where
  "writer_end cn = (cn_clear (mark_closed cn))\<lparr>cn_writer := False, cn_queue := []\<rparr>"

definition reader_end :: "relay_conn \<Rightarrow> relay_conn" where
  "reader_end cn = (cn_clear (mark_closed cn))\<lparr>cn_reader := False\<rparr>"

datatype write_answer = Write_Ok | Write_Failed | Write_Timed_Out

text \<open>A round with an empty queue is the wake-up by \<open>closed_notify\<close>, or still a wait.\<close>

definition conn_writer_round ::
  "(relay_transport_frame \<Rightarrow> string + byte list) \<Rightarrow> write_answer \<Rightarrow> relay_conn \<Rightarrow> relay_conn" where
  "conn_writer_round enc answer cn =
     (if cn_closed cn then writer_end cn
      else case next_relay_transport_frame (cn_queue cn) of
             None \<Rightarrow> cn
           | Some (frame, rest) \<Rightarrow>
               let cn1 = cn\<lparr>cn_queue := rest\<rparr> in
               (case enc frame of
                  Inl _ \<Rightarrow> writer_end cn1
                | Inr _ \<Rightarrow>
                    (case answer of
                       Write_Ok \<Rightarrow> cn1\<lparr>cn_frames := cn_frames cn @ [frame]\<rparr>
                     | Write_Failed \<Rightarrow> writer_end cn1
                     | Write_Timed_Out \<Rightarrow> writer_end cn1)))"

definition conn_reader_envelope :: "relay_envelope \<Rightarrow> relay_conn \<Rightarrow> relay_conn" where
  "conn_reader_envelope e cn =
     (case relay_reader_envelope e (cn_routes cn) of
        (out, r) \<Rightarrow>
          fold (\<lambda>o1 c. case o1 of
                  To_Acceptor ch \<Rightarrow> c\<lparr>cn_incoming := cn_incoming c @ [ch]\<rparr>
                | To_Channel q x \<Rightarrow> c\<lparr>cn_delivered := cn_delivered c @ [(q, x)]\<rparr>)
            out (cn\<lparr>cn_routes := r\<rparr>))"

text \<open>\<open>None\<close> is the end of the stream.\<close>

definition conn_reader_round ::
  "(byte list \<Rightarrow> string + relay_transport_frame) \<Rightarrow> ws_message option \<Rightarrow> relay_conn \<Rightarrow> relay_conn" where
  "conn_reader_round dec msg cn =
     (let payload = (\<lambda>bs. case decode_relay_transport_frame dec bs of
            Inl _ \<Rightarrow> cn | Inr es \<Rightarrow> fold conn_reader_envelope es cn)
      in if cn_closed cn then reader_end cn
         else case msg of
                None \<Rightarrow> reader_end cn
              | Some (WS_Text bs) \<Rightarrow> payload bs
              | Some (WS_Binary bs) \<Rightarrow> payload bs
              | Some WS_Close \<Rightarrow> reader_end cn
              | Some WS_Ping \<Rightarrow> snd (cn_send RE_Pong cn)
              | Some WS_Pong \<Rightarrow> cn
              | Some WS_Error \<Rightarrow> reader_end cn)"

definition conn_keepalive_round :: "relay_conn \<Rightarrow> relay_conn" where
  "conn_keepalive_round cn =
     (if cn_closed cn then cn\<lparr>cn_keepalive := False\<rparr>
      else case cn_send RE_Ping cn of
             (Inl _, cn1) \<Rightarrow> (mark_closed cn1)\<lparr>cn_keepalive := False\<rparr>
           | (Inr _, cn1) \<Rightarrow> cn1)"

text \<open>\<open>close\<close>: mark, abort the three tasks, clear.\<close>

definition cn_close :: "relay_conn \<Rightarrow> relay_conn" where
  "cn_close cn = cn_clear ((mark_closed cn)
     \<lparr>cn_writer := False, cn_reader := False, cn_keepalive := False, cn_queue := []\<rparr>)"

text \<open>
  \<open>drop\<close> of one of \<open>handles\<close> clones: each running task keeps its own reference to the inner state, so the
  strong count the code looks at is this sum.
\<close>

definition strong_count :: "nat \<Rightarrow> relay_conn \<Rightarrow> nat" where
  "strong_count handles cn = handles + of_bool (cn_writer cn) + of_bool (cn_reader cn) + of_bool (cn_keepalive cn)"

definition cn_drop :: "nat \<Rightarrow> relay_conn \<Rightarrow> relay_conn" where
  "cn_drop handles cn =
     (if strong_count handles cn \<noteq> 1 then cn
      else (mark_closed cn)\<lparr>cn_writer := False, cn_reader := False, cn_keepalive := False, cn_queue := []\<rparr>)"

section \<open>Runs of a connection\<close>

datatype conn_event =
    Ev_Send relay_envelope
  | Ev_Register string nat
  | Ev_Unregister string
  | Ev_Writer write_answer
  | Ev_Reader "ws_message option"
  | Ev_Keepalive
  | Ev_Close
  | Ev_Drop nat

text \<open>A task that has ended has no rounds.\<close>

fun conn_step ::
  "(relay_transport_frame \<Rightarrow> string + byte list) \<Rightarrow> (byte list \<Rightarrow> string + relay_transport_frame)
     \<Rightarrow> conn_event \<Rightarrow> relay_conn \<Rightarrow> relay_conn" where
  "conn_step enc dec (Ev_Send e) cn = snd (cn_send e cn)"
| "conn_step enc dec (Ev_Register c q) cn = cn\<lparr>cn_routes := register_channel c q (cn_routes cn)\<rparr>"
| "conn_step enc dec (Ev_Unregister c) cn = cn\<lparr>cn_routes := unregister_channel c (cn_routes cn)\<rparr>"
| "conn_step enc dec (Ev_Writer a) cn = (if cn_writer cn then conn_writer_round enc a cn else cn)"
| "conn_step enc dec (Ev_Reader m) cn = (if cn_reader cn then conn_reader_round dec m cn else cn)"
| "conn_step enc dec Ev_Keepalive cn = (if cn_keepalive cn then conn_keepalive_round cn else cn)"
| "conn_step enc dec Ev_Close cn = cn_close cn"
| "conn_step enc dec (Ev_Drop n) cn = cn_drop n cn"

definition conn_run ::
  "(relay_transport_frame \<Rightarrow> string + byte list) \<Rightarrow> (byte list \<Rightarrow> string + relay_transport_frame)
     \<Rightarrow> conn_event list \<Rightarrow> relay_conn" where
  "conn_run enc dec evs = fold (conn_step enc dec) evs relay_connected"

section \<open>The loop that accepts local connections\<close>

text \<open>
  \<open>wait_for_forwarder_shutdown\<close>: the watch, if any, with its value, and what waiting for a change
  answers: nothing yet, that the sender is gone, or the new value. None: it does not return.
\<close>

definition wait_for_forwarder_shutdown :: "bool option \<Rightarrow> (unit + bool) option \<Rightarrow> bool option" where
  "wait_for_forwarder_shutdown rx change =
     (case rx of
        None \<Rightarrow> None
      | Some True \<Rightarrow> Some True
      | Some False \<Rightarrow> (case change of None \<Rightarrow> None | Some (Inl _) \<Rightarrow> Some True | Some (Inr v) \<Rightarrow> Some v))"

datatype forwarder_event = FW_Accept "string + string" | FW_Relay_Closed | FW_Shutdown bool

datatype forwarder_outcome = FW_Spawn string | FW_Continue | FW_Return "unit result"

fun local_forwarder_round :: "string \<Rightarrow> forwarder_event \<Rightarrow> forwarder_outcome" where
  "local_forwarder_round bind (FW_Accept (Inl err)) = FW_Return (Inl (''failed to accept on '' @ bind))"
| "local_forwarder_round bind (FW_Accept (Inr peer)) = FW_Spawn peer"
| "local_forwarder_round bind FW_Relay_Closed = FW_Return (Inl (''relay websocket closed for local forward '' @ bind))"
| "local_forwarder_round bind (FW_Shutdown requested) = (if requested then FW_Return (Inr ()) else FW_Continue)"

text \<open>
  \<open>run_local_forwarder_loop_with_control\<close>: the listener's answer to the bind, then the rounds until one
  returns. However it ends, all that happens to the connection is the drop of the loop's handle, while
  \<open>live\<close> handlers of accepted connections hold theirs.
\<close>

fun local_forwarder_loop :: "string \<Rightarrow> forwarder_event list \<Rightarrow> string list \<times> unit result option" where
  "local_forwarder_loop bind [] = ([], None)"
| "local_forwarder_loop bind (ev # evs) =
     (case local_forwarder_round bind ev of
        FW_Return r \<Rightarrow> ([], Some r)
      | FW_Continue \<Rightarrow> local_forwarder_loop bind evs
      | FW_Spawn peer \<Rightarrow> (let (ps, r) = local_forwarder_loop bind evs in (peer # ps, r)))"

definition run_local_forwarder_loop_with_control ::
  "string \<Rightarrow> relay_conn result \<Rightarrow> unit result \<Rightarrow> forwarder_event list \<Rightarrow> nat
     \<Rightarrow> (string list \<times> unit result option) \<times> relay_conn option" where
  "run_local_forwarder_loop_with_control bind conn listener evs live =
     (case conn of
        Inl e \<Rightarrow> (([], Some (Inl e)), None)
      | Inr cn \<Rightarrow>
          (case listener of
             Inl e \<Rightarrow> (([], Some (Inl (''failed to bind local forward address '' @ bind))), Some (cn_drop 1 cn))
           | Inr _ \<Rightarrow>
               (case local_forwarder_loop bind evs of
                  (ps, None) \<Rightarrow> ((ps, None), Some cn)
                | (ps, Some r) \<Rightarrow> ((ps, Some r), Some (cn_drop (live + 1) cn)))))"

section \<open>Invariants\<close>

text \<open>The envelopes accepted by \<open>send\<close> in a run, also those of the tasks themselves.\<close>

definition accepted :: "conn_event \<Rightarrow> relay_conn \<Rightarrow> relay_envelope list" where
  "accepted ev cn =
     (if \<not> cn_writer cn then []
      else case ev of
             Ev_Send e \<Rightarrow> [e]
           | Ev_Reader (Some WS_Ping) \<Rightarrow> (if cn_reader cn \<and> \<not> cn_closed cn then [RE_Pong] else [])
           | Ev_Keepalive \<Rightarrow> (if cn_keepalive cn \<and> \<not> cn_closed cn then [RE_Ping] else [])
           | _ \<Rightarrow> [])"

fun conn_sent ::
  "(relay_transport_frame \<Rightarrow> string + byte list) \<Rightarrow> (byte list \<Rightarrow> string + relay_transport_frame)
     \<Rightarrow> conn_event list \<Rightarrow> relay_conn \<Rightarrow> relay_envelope list" where
  "conn_sent enc dec [] cn = []"
| "conn_sent enc dec (ev # evs) cn = accepted ev cn @ conn_sent enc dec evs (conn_step enc dec ev cn)"

definition on_wire :: "relay_conn \<Rightarrow> relay_envelope list" where
  "on_wire cn = concat (map frame_into_envelopes (cn_frames cn))"

definition frames_small :: "relay_conn \<Rightarrow> bool" where
  "frames_small cn = (\<forall>f\<in>set (cn_frames cn). 1 \<le> length (frame_into_envelopes f) \<and> length (frame_into_envelopes f) \<le> relay_max_batch_size)"

text \<open>Open: every task runs and nothing is lost. Closed without a task left to clear: no routes remain.\<close>

definition conn_ok :: "relay_envelope list \<Rightarrow> relay_conn \<Rightarrow> bool" where
  "conn_ok sent cn \<longleftrightarrow>
     frames_small cn
     \<and> (cn_writer cn \<longrightarrow> on_wire cn @ cn_queue cn = sent)
     \<and> (\<exists>rest. on_wire cn @ rest = sent)
     \<and> (\<not> cn_closed cn \<longrightarrow> cn_writer cn \<and> cn_reader cn \<and> cn_keepalive cn)"

lemmas conn_defs = cn_send_def mark_closed_def cn_clear_def writer_end_def reader_end_def clear_all_channels_def on_wire_def
  frames_small_def split_beta

lemma reader_envelope_frame [simp]:
  "cn_closed (conn_reader_envelope e cn) = cn_closed cn"
  "cn_queue (conn_reader_envelope e cn) = cn_queue cn"
  "cn_frames (conn_reader_envelope e cn) = cn_frames cn"
  "cn_writer (conn_reader_envelope e cn) = cn_writer cn"
  "cn_reader (conn_reader_envelope e cn) = cn_reader cn"
  "cn_keepalive (conn_reader_envelope e cn) = cn_keepalive cn"
  by (cases e; simp add: conn_reader_envelope_def route_channel_message_def split: option.split)+

lemma reader_payload_frame [simp]:
  "cn_closed (fold conn_reader_envelope es cn) = cn_closed cn"
  "cn_queue (fold conn_reader_envelope es cn) = cn_queue cn"
  "cn_frames (fold conn_reader_envelope es cn) = cn_frames cn"
  "cn_writer (fold conn_reader_envelope es cn) = cn_writer cn"
  "cn_reader (fold conn_reader_envelope es cn) = cn_reader cn"
  "cn_keepalive (fold conn_reader_envelope es cn) = cn_keepalive cn"
  by (induction es arbitrary: cn) simp_all

lemma conn_ok_writer:
  assumes "conn_ok sent cn" "cn_writer cn"
  shows "conn_ok sent (conn_writer_round enc answer cn)"
proof (cases "cn_closed cn \<or> cn_queue cn = []")
  case True
  with assms show ?thesis
    by (auto simp: conn_writer_round_def conn_ok_def conn_defs next_relay_transport_frame_def)
next
  case False
  then obtain f rest where f: "next_relay_transport_frame (cn_queue cn) = Some (f, rest)"
    "cn_queue cn = frame_into_envelopes f @ rest"
    "1 \<le> length (frame_into_envelopes f)" "length (frame_into_envelopes f) \<le> relay_max_batch_size"
    by (metis next_frame_spec)
  with assms False show ?thesis
    by (cases "enc f"; cases answer)
      (auto simp: conn_writer_round_def conn_ok_def conn_defs Let_def)
qed

lemma conn_ok_reader_end: "conn_ok sent cn \<Longrightarrow> conn_ok sent (reader_end cn)"
  by (simp add: conn_ok_def conn_defs)

lemma conn_ok_payload: "conn_ok sent cn \<Longrightarrow> conn_ok sent (fold conn_reader_envelope es cn)"
  by (simp add: conn_ok_def on_wire_def frames_small_def)

lemma conn_reader_round_cases:
  "m \<noteq> Some WS_Ping \<Longrightarrow> conn_reader_round dec m cn = reader_end cn \<or> (\<exists>es. conn_reader_round dec m cn = fold conn_reader_envelope es cn)"
  by (auto simp: conn_reader_round_def Let_def intro: exI [of _ "[]"] split: option.split ws_message.split sum.split)

lemma conn_ok_step: "conn_ok sent cn \<Longrightarrow> conn_ok (sent @ accepted ev cn) (conn_step enc dec ev cn)"
proof (cases ev)
  case (Ev_Writer a)
  assume "conn_ok sent cn"
  with Ev_Writer show ?thesis using conn_ok_writer by (simp add: accepted_def)
next
  case (Ev_Reader m)
  assume ok: "conn_ok sent cn"
  show ?thesis
  proof (cases "m = Some WS_Ping")
    case True
    with ok Ev_Reader show ?thesis
      by (auto simp: accepted_def conn_ok_def conn_defs conn_reader_round_def)
  next
    case False
    then have "accepted ev cn = []" using Ev_Reader by (auto simp: accepted_def split: option.split ws_message.split)
    with ok Ev_Reader conn_reader_round_cases [OF False, of dec cn] conn_ok_reader_end [OF ok] conn_ok_payload [OF ok]
    show ?thesis by auto
  qed
qed (auto simp: accepted_def conn_ok_def conn_defs conn_keepalive_round_def cn_close_def cn_drop_def)

lemma conn_ok_run: "conn_ok sent cn \<Longrightarrow> conn_ok (sent @ conn_sent enc dec evs cn) (fold (conn_step enc dec) evs cn)"
proof (induction evs arbitrary: sent cn)
  case (Cons ev evs)
  from Cons.IH [OF conn_ok_step [OF Cons.prems, of ev enc dec]] show ?case by simp
qed simp

lemma conn_run_ok: "conn_ok (conn_sent enc dec evs relay_connected) (conn_run enc dec evs)"
  using conn_ok_run [of "[]" relay_connected enc dec evs]
  by (simp add: conn_run_def conn_ok_def relay_connected_def conn_defs)

text \<open>
  The frames an agent's relay connection has written, unpacked, are a prefix of the envelopes it
  accepted, in order, at most sixteen to a frame; as long as the writer runs the rest is in its queue,
  so an envelope is lost only with the connection.
\<close>

theorem relay_connection_outbound:
  "\<exists>rest. on_wire (conn_run enc dec evs) @ rest = conn_sent enc dec evs relay_connected
     \<and> (cn_writer (conn_run enc dec evs) \<longrightarrow> rest = cn_queue (conn_run enc dec evs))
     \<and> (\<forall>f\<in>set (cn_frames (conn_run enc dec evs)). length (frame_into_envelopes f) \<le> relay_max_batch_size)"
  using conn_run_ok [of enc dec evs] by (auto simp: conn_ok_def frames_small_def)

theorem relay_connection_outbound_witness:
  "on_wire (conn_run (\<lambda>_. Inr []) (\<lambda>_. Inl []) [Ev_Send RE_Pong, Ev_Keepalive, Ev_Writer Write_Ok, Ev_Send RE_Ping])
     = [RE_Pong, RE_Ping]"
proof -
  let ?evs = "[Ev_Send RE_Pong, Ev_Keepalive, Ev_Writer Write_Ok, Ev_Send RE_Ping]"
  have w: "cn_writer (conn_run (\<lambda>_. Inr []) (\<lambda>_. Inl []) ?evs)"
    "cn_queue (conn_run (\<lambda>_. Inr []) (\<lambda>_. Inl []) ?evs) = [RE_Ping]"
    "conn_sent (\<lambda>_. Inr []) (\<lambda>_. Inl []) ?evs relay_connected = [RE_Pong, RE_Ping, RE_Ping]"
    by (simp_all add: conn_run_def relay_connected_def cn_send_def conn_keepalive_round_def conn_writer_round_def
        next_relay_transport_frame_def fill_batch.simps relay_max_batch_size_def frame_from_envelopes_def accepted_def)
  from relay_connection_outbound [of "\<lambda>_. Inr []" "\<lambda>_. Inl []" ?evs] w show ?thesis by simp
qed

text \<open>
  A relay connection that is dropped is not closed: as long as it is open its three tasks run and
  hold the inner state, so dropping the last handle changes nothing, and the socket stays connected
  and is pinged as before. So does the one of a forward whose address cannot be bound, and of one
  that is shut down, while \<open>close\<close> ends the tasks and clears the routes.
\<close>

theorem dropped_relay_stays_open:
  assumes "\<not> cn_closed (conn_run enc dec evs)"
  shows "conn_run enc dec (evs @ [Ev_Drop 1]) = conn_run enc dec evs
    \<and> cn_queue (conn_run enc dec (evs @ [Ev_Drop 1, Ev_Keepalive])) = cn_queue (conn_run enc dec evs) @ [RE_Ping]
    \<and> run_local_forwarder_loop_with_control bind (Inr (conn_run enc dec evs)) (Inl err) events 0
        = (([], Some (Inl (''failed to bind local forward address '' @ bind))), Some (conn_run enc dec evs))
    \<and> run_local_forwarder_loop_with_control bind (Inr (conn_run enc dec evs)) (Inr ()) [FW_Shutdown True] 0
        = (([], Some (Inr ())), Some (conn_run enc dec evs))
    \<and> cn_routes (conn_run enc dec (evs @ [Ev_Close])) = [] \<and> \<not> cn_writer (conn_run enc dec (evs @ [Ev_Close]))"
proof -
  let ?cn = "conn_run enc dec evs"
  have run: "cn_writer ?cn" "cn_reader ?cn" "cn_keepalive ?cn"
    using assms conn_run_ok [of enc dec evs] by (auto simp: conn_ok_def)
  then have drop1: "cn_drop 1 ?cn = ?cn" by (simp add: cn_drop_def strong_count_def)
  have step: "conn_run enc dec (evs @ more) = fold (conn_step enc dec) more ?cn" for more
    by (simp add: conn_run_def)
  show ?thesis
    using drop1 run assms
    by (simp add: step run_local_forwarder_loop_with_control_def conn_keepalive_round_def conn_defs cn_close_def)
qed

theorem dropped_relay_stays_open_witness:
  "conn_run (\<lambda>_. Inr []) (\<lambda>_. Inl []) [Ev_Register ''c'' 0, Ev_Drop 1]
     = conn_run (\<lambda>_. Inr []) (\<lambda>_. Inl []) [Ev_Register ''c'' 0]
   \<and> \<not> cn_closed (conn_run (\<lambda>_. Inr []) (\<lambda>_. Inl []) [Ev_Register ''c'' 0])"
proof -
  have "\<not> cn_closed (conn_run (\<lambda>_. Inr []) (\<lambda>_. Inl []) [Ev_Register ''c'' 0])"
    by (simp add: conn_run_def relay_connected_def)
  with dropped_relay_stays_open [OF this] show ?thesis by simp
qed

end
