(* ===== verification/DirectTasksProps.thy ===== *)
theory DirectTasksProps
  imports DirectTasks "HOL-Library.Sublist"
begin

text \<open>
  What a direct connection's tasks do with packets, and that neither the loss of the peer nor of its
  own writer closes a connection; and that registering a session twice ends the first.
\<close>

section \<open>Frames\<close>

lemma reader_fold_frame [simp]:
  fixes out :: "(direct_incoming_channel, direct_tunnel_envelope) reader_output list"
  defines "d \<equiv> \<lambda>o1 c. case o1 of
      To_Acceptor ch \<Rightarrow> c\<lparr>dn_incoming := dn_incoming c @ [ch]\<rparr>
    | To_Channel q x \<Rightarrow> c\<lparr>dn_delivered := dn_delivered c @ [(q, x)]\<rparr>"
  shows "dn_rendezvous (fold d out dn) = dn_rendezvous dn" "dn_peer (fold d out dn) = dn_peer dn"
    "dn_writer (fold d out dn) = dn_writer dn" "dn_outbound (fold d out dn) = dn_outbound dn"
    "dn_source (fold d out dn) = dn_source dn" "dn_reader (fold d out dn) = dn_reader dn"
    "dn_closed (fold d out dn) = dn_closed dn" "dn_packets (fold d out dn) = dn_packets dn"
    "dn_routes (fold d out dn) = dn_routes dn" "dn_wire (fold d out dn) = dn_wire dn"
  by (induction out arbitrary: dn) (simp_all add: d_def split: reader_output.split)

lemma reader_fold_delivered:
  "dn_delivered (fold (\<lambda>o1 c. case o1 of
      To_Acceptor ch \<Rightarrow> c\<lparr>dn_incoming := dn_incoming c @ [ch]\<rparr>
    | To_Channel q x \<Rightarrow> c\<lparr>dn_delivered := dn_delivered c @ [(q, x)]\<rparr>) out dn)
   = dn_delivered dn @ concat (map (\<lambda>o1. case o1 of To_Acceptor _ \<Rightarrow> [] | To_Channel q x \<Rightarrow> [(q, x)]) out)"
  by (induction out arbitrary: dn) (simp_all split: reader_output.split)

lemma reader_fold_incoming:
  "dn_incoming (fold (\<lambda>o1 c. case o1 of
      To_Acceptor ch \<Rightarrow> c\<lparr>dn_incoming := dn_incoming c @ [ch]\<rparr>
    | To_Channel q x \<Rightarrow> c\<lparr>dn_delivered := dn_delivered c @ [(q, x)]\<rparr>) out dn)
   = dn_incoming dn @ concat (map (\<lambda>o1. case o1 of To_Acceptor ch \<Rightarrow> [ch] | To_Channel q x \<Rightarrow> []) out)"
  by (induction out arbitrary: dn) (simp_all split: reader_output.split)

section \<open>Closing\<close>

text \<open>The events that end the source of packets: a failed read of the socket, or the end of the session.\<close>

definition source_ends :: "direct_event \<Rightarrow> bool" where
  "source_ends ev \<longleftrightarrow> ev = DV_Socket None \<or> ev = DV_Session None"

lemma direct_step_open:
  assumes "\<not> source_ends ev" "dn_source dn \<and> dn_reader dn \<and> \<not> dn_closed dn"
  shows "dn_source (direct_step enc tunnel ev dn) \<and> dn_reader (direct_step enc tunnel ev dn) \<and> \<not> dn_closed (direct_step enc tunnel ev dn)
    \<and> (\<not> dn_writer dn \<longrightarrow> \<not> dn_writer (direct_step enc tunnel ev dn) \<and> dn_wire (direct_step enc tunnel ev dn) = dn_wire dn)"
  using assms
  by (cases ev)
    (auto simp: source_ends_def direct_send_def dn_register_def dn_unregister_def direct_writer_round_def direct_socket_round_def
      direct_session_round_def push_packet_def direct_reader_round_def
      split: list.split sum.split option.split shared_packet.split prod.split)

lemma direct_run_open:
  "\<forall>ev\<in>set evs. \<not> source_ends ev \<Longrightarrow> dn_source dn \<and> dn_reader dn \<and> \<not> dn_closed dn
    \<Longrightarrow> \<not> dn_closed (direct_run enc tunnel evs dn)
      \<and> (\<not> dn_writer dn \<longrightarrow> \<not> dn_writer (direct_run enc tunnel evs dn) \<and> dn_wire (direct_run enc tunnel evs dn) = dn_wire dn)"
proof (induction evs arbitrary: dn)
  case (Cons ev evs)
  have "\<not> source_ends ev" using Cons.prems(1) by simp
  note step = direct_step_open [OF this Cons.prems(2), of enc tunnel]
  from Cons.IH [of "direct_step enc tunnel ev dn"] Cons.prems(1) step show ?case
    by (auto simp: direct_run_def)
qed (simp add: direct_run_def)

text \<open>
  A direct connection is closed only after a failed read of its socket or the end of its session:
  whatever else happens, and however long nothing is heard from the peer, it stays open. In particular
  it stays open after its writer has ended on a failed write, while every send fails and nothing
  reaches the wire any more.
\<close>

theorem direct_closes_only_by_source:
  assumes "\<forall>ev\<in>set evs. \<not> source_ends ev"
  shows "\<not> dn_closed (direct_run enc tunnel evs (direct_from_shared_hub rdv peer buffered))
    \<and> (\<forall>e. dn_outbound (direct_run enc tunnel evs (direct_from_shared_hub rdv peer buffered)) \<noteq> [] \<longrightarrow>
         dn_writer (direct_run enc tunnel evs (direct_from_shared_hub rdv peer buffered)) \<longrightarrow>
         (let broken = direct_step enc tunnel (DV_Writer (Inl err)) (direct_run enc tunnel evs (direct_from_shared_hub rdv peer buffered))
          in (\<forall>more. (\<forall>ev\<in>set more. \<not> source_ends ev) \<longrightarrow>
                \<not> dn_closed (direct_run enc tunnel more broken)
                \<and> fst (direct_send e (direct_run enc tunnel more broken)) = Inl ''direct UDP connection is closed''
                \<and> dn_wire (direct_run enc tunnel more broken) = dn_wire broken)))"
proof (intro conjI allI impI)
  let ?dn0 = "direct_from_shared_hub rdv peer buffered"
  have init: "dn_source ?dn0 \<and> dn_reader ?dn0 \<and> \<not> dn_closed ?dn0" by (simp add: direct_from_shared_hub_def)
  show "\<not> dn_closed (direct_run enc tunnel evs ?dn0)" using direct_run_open [OF assms init] by simp
  have inv: "dn_source (direct_run enc tunnel evs dn) \<and> dn_reader (direct_run enc tunnel evs dn) \<and> \<not> dn_closed (direct_run enc tunnel evs dn)"
    if "\<forall>ev\<in>set evs. \<not> source_ends ev" "dn_source dn \<and> dn_reader dn \<and> \<not> dn_closed dn" for evs dn
    using that by (induction evs arbitrary: dn) (simp_all add: direct_run_def direct_step_open)
  fix e
  let ?dn = "direct_run enc tunnel evs ?dn0"
  let ?broken = "direct_step enc tunnel (DV_Writer (Inl err)) ?dn"
  assume "dn_outbound ?dn \<noteq> []" "dn_writer ?dn"
  then have dead: "\<not> dn_writer ?broken"
    by (auto simp: direct_writer_round_def split: list.split sum.split)
  have "dn_source ?broken \<and> dn_reader ?broken \<and> \<not> dn_closed ?broken"
    using direct_step_open [OF _ inv [OF assms init], of "DV_Writer (Inl err)" enc tunnel] by (simp add: source_ends_def)
  from direct_run_open [OF _ this] dead
  show "let broken = ?broken in \<forall>more. (\<forall>ev\<in>set more. \<not> source_ends ev) \<longrightarrow>
      \<not> dn_closed (direct_run enc tunnel more broken)
      \<and> fst (direct_send e (direct_run enc tunnel more broken)) = Inl ''direct UDP connection is closed''
      \<and> dn_wire (direct_run enc tunnel more broken) = dn_wire broken"
    by (simp add: Let_def direct_send_def)
qed

theorem direct_closes_only_by_source_witness:
  "\<not> dn_closed (direct_run (\<lambda>_. Inr []) (\<lambda>_. None) [DV_Send (DT_ChannelAccepted ''r'' ''c''), DV_Writer (Inl ''unreachable''), DV_Reader]
      (direct_from_socket ''r'' ''p''))
   \<and> fst (direct_send (DT_ChannelAccepted ''r'' ''c'') (direct_run (\<lambda>_. Inr []) (\<lambda>_. None)
        [DV_Send (DT_ChannelAccepted ''r'' ''c''), DV_Writer (Inl ''unreachable'')] (direct_from_socket ''r'' ''p'')))
      = Inl ''direct UDP connection is closed''"
proof -
  let ?send = "[DV_Send (DT_ChannelAccepted ''r'' ''c'')]"
  have ok: "\<forall>ev\<in>set ?send. \<not> source_ends ev" by (simp add: source_ends_def)
  have "dn_outbound (direct_run (\<lambda>_. Inr []) (\<lambda>_. None) ?send (direct_from_shared_hub ''r'' ''p'' [])) \<noteq> []"
    "dn_writer (direct_run (\<lambda>_. Inr []) (\<lambda>_. None) ?send (direct_from_shared_hub ''r'' ''p'' []))"
    by (simp_all add: direct_run_def direct_send_def direct_from_shared_hub_def)
  with direct_closes_only_by_source [OF ok, of "\<lambda>_. Inr []" "\<lambda>_. None" "''r''" "''p''" "[]" "''unreachable''"]
  have a: "\<forall>e more. (\<forall>ev\<in>set more. \<not> source_ends ev) \<longrightarrow>
      fst (direct_send e (direct_run (\<lambda>_. Inr []) (\<lambda>_. None) more
        (direct_step (\<lambda>_. Inr []) (\<lambda>_. None) (DV_Writer (Inl ''unreachable''))
          (direct_run (\<lambda>_. Inr []) (\<lambda>_. None) ?send (direct_from_shared_hub ''r'' ''p'' []))))) = Inl ''direct UDP connection is closed''"
    by (simp add: Let_def)
  from a [rule_format, of "[]" "DT_ChannelAccepted ''r'' ''c''"]
    direct_closes_only_by_source [of "?send @ [DV_Writer (Inl ''unreachable''), DV_Reader]" "\<lambda>_. Inr []" "\<lambda>_. None" "''r''" "''p''" "[]"]
  show ?thesis by (simp add: direct_run_def direct_from_socket_def source_ends_def)
qed

section \<open>Sessions of the shared socket\<close>

text \<open>
  The shared socket hands a datagram to the session of the rendezvous it names, and registering and
  unregistering one rendezvous leaves the others alone. But registering a rendezvous that is being
  served fails only after it has replaced the session's route: the refused session never receives
  anything, its queue is dropped, and the first datagram that follows removes the route, so the
  session that was running is cut off.
\<close>

theorem second_registration_cuts_session:
  assumes "map_of routes rdv = Some q1" "shared_packet_of probe tunnel bytes sender = Some (rdv, packet)"
    and "register_session rdv q2 routes = (r, routes')" "gone q2" "\<not> gone q1"
  shows "fst (shared_hub_round probe tunnel gone (Some (bytes, sender)) routes) = [(q1, packet)]
    \<and> (\<exists>e. r = Inl e)
    \<and> fst (shared_hub_round probe tunnel gone (Some (bytes, sender)) routes') = []
    \<and> map_of (snd (snd (shared_hub_round probe tunnel gone (Some (bytes, sender)) routes'))) rdv = None
    \<and> (\<forall>other. other \<noteq> rdv \<longrightarrow> map_of routes' other = map_of routes other
         \<and> map_of (unregister_session rdv routes') other = map_of routes other)"
  using assms
  by (auto simp: register_session_def shared_hub_round_def shared_route_def drop_dead_route_def unregister_session_def Let_def
      AList.update_conv' AList.delete_conv')

theorem second_registration_cuts_session_witness:
  "\<exists>e routes'. register_session ''r'' 1 [(''r'', 0)] = (Inl e, routes')
     \<and> fst (shared_hub_round (\<lambda>_. None) (\<lambda>_. Some (DT_ChannelAccepted ''r'' ''c'')) (\<lambda>q. q = 1) (Some ([], ''p'')) routes') = []"
proof -
  obtain r routes' where reg: "register_session ''r'' 1 [(''r'', 0)] = (r, routes')" by fastforce
  have 1: "map_of [(''r'', 0::nat)] ''r'' = Some 0" by simp
  have 2: "shared_packet_of (\<lambda>_. None) (\<lambda>_. Some (DT_ChannelAccepted ''r'' ''c'')) [] ''p''
      = Some (''r'', SP_Tunnel (DT_ChannelAccepted ''r'' ''c'') ''p'')" by (simp add: shared_packet_of_def)
  from second_registration_cuts_session [where gone = "\<lambda>q. q = 1", OF 1 2 reg] reg show ?thesis by auto
qed

end
