(* ===== verification/DirectChannelsProps.thy ===== *)
theory DirectChannelsProps
  imports DirectChannels DirectTasksProps DirectProbeProps RelayClientProps
begin

text \<open>
  What channels over a direct connection promise: only the expected device opens one, for the expected
  service, and the two ends then hold matching keys; sessions are reported and unregistered in pairs.
  And what they do not: a repeated request takes the channel over.
\<close>

section \<open>Who may open a channel\<close>

lemma direct_incoming_begin_True:
  assumes "direct_incoming_begin P key expected_source expected_service hook q ch dn = (Inr True, ops, dn')"
  shows "di_source_device_id ch = expected_source \<and> di_service_id ch = expected_service
    \<and> device_id_from_public_key P key = expected_source
    \<and> verify_signature_base64 P key (relay_channel_open_message (di_channel_id ch) expected_service expected_source
        (di_source_ephemeral_public_key ch)) (di_source_open_signature ch) = Inr ()
    \<and> ops = [] \<and> dn' = dn_register (di_channel_id ch) q dn"
  using assms
  by (auto simp: direct_incoming_begin_def direct_send_def crypto_result_def Let_def split: if_splits sum.splits)

lemma direct_incoming_accepted:
  assumes "device_id_from_public_key P key = di_source_device_id ch"
    "verify_signature_base64 P key (relay_channel_open_message (di_channel_id ch) (di_service_id ch) (di_source_device_id ch)
        (di_source_ephemeral_public_key ch)) (di_source_open_signature ch) = Inr ()"
  shows "direct_incoming_begin P key (di_source_device_id ch) (di_service_id ch) hook q ch dn
    = (Inr True, [], dn_register (di_channel_id ch) q dn)"
  using assms by (simp add: direct_incoming_begin_def crypto_result_def)

lemma direct_reader_open:
  "direct_reader_packet rdv peer (peer, DT_OpenChannel rdv c sid d eph sig) r
    = ([To_Acceptor \<lparr>di_rendezvous_id = rdv, di_channel_id = c, di_service_id = sid, di_source_device_id = d,
          di_source_ephemeral_public_key = eph, di_source_open_signature = sig\<rparr>], r)"
  by (simp add: direct_reader_packet_def)

text \<open>
  C11. A service connects its local target for a direct channel only if the request names the peer the
  session was probed with and the service of the rendezvous, the key it is checked with belongs to that
  peer, and the peer has signed the request; in every other case the routes of the connection are left
  as they are, and unless the signature is wrong the requester is told.
\<close>

theorem direct_channel_authentic:
  assumes "direct_incoming_begin P key expected_source expected_service hook q ch dn = (r, ops, dn')"
  shows "(r = Inr True \<longleftrightarrow>
      di_source_device_id ch = expected_source \<and> di_service_id ch = expected_service
      \<and> device_id_from_public_key P key = expected_source
      \<and> verify_signature_base64 P key (relay_channel_open_message (di_channel_id ch) expected_service expected_source
          (di_source_ephemeral_public_key ch)) (di_source_open_signature ch) = Inr ())
    \<and> (if r = Inr True then dn' = dn_register (di_channel_id ch) q dn else dn_routes dn' = dn_routes dn)
    \<and> (r = Inr False \<longrightarrow> (\<exists>reason. dn_outbound dn' = dn_outbound dn
        @ [DT_ChannelRejected (di_rendezvous_id ch) (di_channel_id ch) reason]))"
proof (cases "r = Inr True")
  case True
  with direct_incoming_begin_True [of P key expected_source expected_service hook q ch dn ops dn'] assms show ?thesis
    by simp
next
  case False
  have routes: "dn_routes dn' = dn_routes dn"
    "r = Inr False \<Longrightarrow> \<exists>reason. dn_outbound dn' = dn_outbound dn @ [DT_ChannelRejected (di_rendezvous_id ch) (di_channel_id ch) reason]"
    using assms False
    by (auto simp: direct_incoming_begin_def direct_send_def crypto_result_def Let_def split: if_splits sum.splits)
  moreover have "\<not> (di_source_device_id ch = expected_source \<and> di_service_id ch = expected_service
      \<and> device_id_from_public_key P key = expected_source
      \<and> verify_signature_base64 P key (relay_channel_open_message (di_channel_id ch) expected_service expected_source
          (di_source_ephemeral_public_key ch)) (di_source_open_signature ch) = Inr ())"
    using assms False direct_incoming_accepted [of P key ch hook q dn] by auto
  ultimately show ?thesis using False by simp
qed

section \<open>The handshake\<close>


section \<open>Repeated requests\<close>

text \<open>
  A request that arrives twice is accepted twice, whether the network has duplicated the datagram or
  somebody has replayed it: the second takes over the route of the channel, so the envelopes of the
  channel no longer reach the bridge of the first, and a second connection to the local target is made.
\<close>

theorem repeated_open_takes_over:
  assumes "direct_incoming_begin P key d sid hook q1 ch dn = (Inr True, ops1, dn1)"
    and "direct_incoming_connected P keys hook ch (Inr ()) dn1 = (Inr (Some halves), ops2, dn2)"
    and "q1 \<noteq> q2" "direct_channel_id e = di_channel_id ch"
  shows "\<exists>dn3 ops4 dn4. direct_incoming_begin P key d sid hook q2 ch dn2 = (Inr True, [], dn3)
    \<and> direct_incoming_connected P keys hook ch (Inr ()) dn3 = (Inr (Some halves), ops4, dn4)
    \<and> fst (route_direct_channel_message e (dn_routes dn2)) = [(q1, e)]
    \<and> fst (route_direct_channel_message e (dn_routes dn4)) = [(q2, e)]"
proof -
  note first = direct_incoming_begin_True [OF assms(1)]
  have alive: "dn_writer dn1" and keep: "dn_routes dn2 = dn_routes dn1" "dn_writer dn2 = dn_writer dn1"
    using assms(2) by (auto simp: direct_incoming_connected_def direct_send_def crypto_result_def split: sum.splits if_splits)
  have again: "direct_incoming_begin P key d sid hook q2 ch dn2 = (Inr True, [], dn_register (di_channel_id ch) q2 dn2)"
    using first direct_incoming_accepted [of P key ch hook q2 dn2] by simp
  have "\<exists>ops4 dn4. direct_incoming_connected P keys hook ch (Inr ()) (dn_register (di_channel_id ch) q2 dn2) = (Inr (Some halves), ops4, dn4)
      \<and> dn_routes dn4 = dn_routes (dn_register (di_channel_id ch) q2 dn2)"
    using assms(2) alive keep
    by (auto simp: direct_incoming_connected_def direct_send_def crypto_result_def dn_register_def split: sum.splits)
  with again first assms(4) keep show ?thesis
    by (auto simp: route_direct_channel_message_def dn_register_def register_channel_def AList.update_conv')
qed

section \<open>Sessions\<close>

lemma serve_loop_sessions:
  "count_list (fst (snd (serve_loop hook service rdv evs))) (Op_SessionStarted name) = 0
   \<and> count_list (fst (snd (serve_loop hook service rdv evs))) (Op_SessionEnded name) = 0"
  by (induction hook service rdv evs rule: serve_loop.induct)
    (simp_all add: service_ops_def service_failure_op_def split_beta split: option.split)

text \<open>
  A session on the shared socket is reported as started and as ended exactly once each when its probe
  has succeeded, and not at all when it has failed; and when it is over the routes of the socket are as
  they were before it.
\<close>

theorem session_bracketed:
  assumes "run_direct_tcp_serve_on_hub (Some hook) service rdv bind q probed evs routes = ((chs, ops, Some result), routes')"
    and "map_of routes rdv = None"
  shows "count_list ops (Op_SessionStarted (sh_service_name hook)) = (if probed = Inr () then 1 else 0)
    \<and> count_list ops (Op_SessionEnded (sh_service_name hook)) = (if probed = Inr () then 1 else 0)
    \<and> map_of routes' = map_of routes \<and> (result = probed)"
proof -
  obtain chs1 ops1 ended where loop: "serve_loop (Some hook) service rdv evs = (chs1, ops1, ended)"
    by (metis prod_cases3)
  have none: "count_list ops1 (Op_SessionStarted n) = 0" "count_list ops1 (Op_SessionEnded n) = 0" for n
    using serve_loop_sessions [of "Some hook" service rdv evs n] loop by simp_all
  have "map_of (unregister_session rdv (snd (register_session rdv q routes))) = map_of routes"
    using assms(2) by (auto simp: unregister_session_def register_session_def Let_def AList.delete_conv' AList.update_conv')
  then show ?thesis
    using assms none loop
    by (cases probed)
      (auto simp: run_direct_tcp_serve_on_hub_def register_session_def serve_session_def Let_def service_ops_def
        service_failure_op_def service_state_op_def split: if_splits)
qed

section \<open>Examples\<close>

definition demo_direct :: direct_conn where "demo_direct = direct_from_socket ''rdv'' ''a''"

lemma demo_direct_simps [simp]: "dn_writer demo_direct" "dn_rendezvous demo_direct = ''rdv''" "dn_outbound demo_direct = []"
  by (simp_all add: demo_direct_def direct_from_socket_def direct_from_shared_hub_def)

lemma demo_key_lengths: "length (rk_secret_bytes demo_ephemeral) = 32" "length (rk_secret_bytes demo_target_keys) = 32"
  by (simp_all add: demo_ephemeral_def demo_target_keys_def)

definition demo_request :: direct_incoming_channel where
  "demo_request = \<lparr>di_rendezvous_id = ''rdv'', di_channel_id = ''c'', di_service_id = ''svc'', di_source_device_id = demo_dA,
     di_source_ephemeral_public_key = keypair_public_key_base64 toy_prims demo_ephemeral,
     di_source_open_signature = sign_base64 toy_prims demo_A (relay_channel_open_message ''c'' ''svc'' demo_dA
       (keypair_public_key_base64 toy_prims demo_ephemeral))\<rparr>"

lemma demo_request_accepted:
  "direct_incoming_begin toy_prims demo_kA demo_dA ''svc'' hook q demo_request dn = (Inr True, [], dn_register ''c'' q dn)"
  using direct_incoming_accepted [of toy_prims demo_kA demo_request hook q dn] sign_verify [OF toy_b64_law toy_ed_law demo_keys(1)]
  by (simp add: demo_request_def flip: identity_device_id_def)

lemma demo_request_connected:
  "\<exists>halves. \<forall>q. \<exists>dn2. direct_incoming_connected toy_prims demo_target_keys None demo_request (Inr ()) (dn_register ''c'' q demo_direct)
     = (Inr (Some halves), [], dn2)"
proof -
  from shared_secret_agree [OF toy_b64_law toy_dh_law demo_key_lengths] obtain k where
    "shared_secret_with_public_key toy_prims demo_target_keys (keypair_public_key_base64 toy_prims demo_ephemeral) = Inr k" by blast
  then show ?thesis
    by (simp add: direct_incoming_connected_def demo_request_def crypto_result_def direct_send_def dn_register_def service_ops_def)
qed

theorem direct_channel_authentic_witness:
  "dn_routes (snd (snd (direct_incoming_begin toy_prims demo_kA demo_dA ''svc'' None 1 (demo_request\<lparr>di_service_id := ''ssh''\<rparr>) demo_direct)))
     = dn_routes demo_direct"
proof -
  obtain r ops dn' where b: "direct_incoming_begin toy_prims demo_kA demo_dA ''svc'' None 1 (demo_request\<lparr>di_service_id := ''ssh''\<rparr>) demo_direct
      = (r, ops, dn')" by (metis prod_cases3)
  have "di_service_id (demo_request\<lparr>di_service_id := ''ssh''\<rparr>) \<noteq> ''svc''" by simp
  with direct_channel_authentic [OF b] have "dn_routes dn' = dn_routes demo_direct" by presburger
  then show ?thesis unfolding b by simp
qed


theorem repeated_open_takes_over_witness:
  "\<exists>dn4 halves ops. direct_incoming_connected toy_prims demo_target_keys None demo_request (Inr ())
       (dn_register ''c'' 2 (snd (snd (direct_incoming_connected toy_prims demo_target_keys None demo_request (Inr ())
          (dn_register ''c'' 1 demo_direct))))) = (Inr (Some halves), ops, dn4)
     \<and> fst (route_direct_channel_message (DT_ChannelData ''rdv'' ''c'' 0 ''x'') (dn_routes dn4))
        = [(2, DT_ChannelData ''rdv'' ''c'' 0 ''x'')]"
proof -
  from demo_request_connected obtain halves dn2 where
    c: "direct_incoming_connected toy_prims demo_target_keys None demo_request (Inr ()) (dn_register ''c'' 1 demo_direct)
      = (Inr (Some halves), [], dn2)" by blast
  have e: "direct_channel_id (DT_ChannelData ''rdv'' ''c'' 0 ''x'') = di_channel_id demo_request" by (simp add: demo_request_def)
  have q: "(1::nat) \<noteq> 2" by simp
  from repeated_open_takes_over [OF demo_request_accepted c q e]
  obtain dn3 ops4 dn4 where r: "direct_incoming_begin toy_prims demo_kA demo_dA ''svc'' None 2 demo_request dn2 = (Inr True, [], dn3)"
    "direct_incoming_connected toy_prims demo_target_keys None demo_request (Inr ()) dn3 = (Inr (Some halves), ops4, dn4)"
    "fst (route_direct_channel_message (DT_ChannelData ''rdv'' ''c'' 0 ''x'') (dn_routes dn4)) = [(2, DT_ChannelData ''rdv'' ''c'' 0 ''x'')]"
    by blast
  from r(1) have "dn3 = dn_register ''c'' 2 dn2" by (simp add: demo_request_accepted)
  with r(2,3) show ?thesis unfolding c snd_conv by blast
qed

theorem session_bracketed_witness:
  "\<exists>ops routes'. run_direct_tcp_serve_on_hub (Some \<lparr>sh_service_name = ''web'', sh_direct_enabled = True, sh_transport = ''direct''\<rparr>)
       ''web'' ''rdv'' ''b'' 0 (Inr ()) [SV_Channel demo_request, SV_Closed] [(''other'', 7)]
     = (([demo_request], ops, Some (Inr ())), routes')
     \<and> count_list ops (Op_SessionEnded ''web'') = 1 \<and> map_of routes' = map_of [(''other'', 7)]"
proof -
  let ?hook = "\<lparr>sh_service_name = ''web'', sh_direct_enabled = True, sh_transport = ''direct''\<rparr>"
  obtain ops routes' where r: "run_direct_tcp_serve_on_hub (Some ?hook) ''web'' ''rdv'' ''b'' 0 (Inr ()) [SV_Channel demo_request, SV_Closed] [(''other'', 7)]
     = (([demo_request], ops, Some (Inr ())), routes')"
    by (simp add: run_direct_tcp_serve_on_hub_def register_session_def serve_session_def Let_def)
  have "map_of [(''other'', 7 :: nat)] ''rdv'' = None" by simp
  from session_bracketed [OF r this] r show ?thesis by auto
qed

end
