(* ===== verification/Text.thy ===== *)
theory Text
  imports Prelude
begin

text \<open>
  Text that is split, joined and read back: \<open>str::split\<close> and \<open>split_once\<close> at a character, \<open>join\<close>,
  \<open>replace\<close> of a character, and \<open>parse\<close> of unsigned integers with the messages of the standard library.
\<close>

section \<open>Splitting and joining\<close>

fun split_on :: "char \<Rightarrow> string \<Rightarrow> string list" where
  "split_on c [] = [[]]"
| "split_on c (x # xs) =
     (if x = c then [] # split_on c xs
      else case split_on c xs of [] \<Rightarrow> [[x]] | y # ys \<Rightarrow> (x # y) # ys)"

fun join_with :: "string \<Rightarrow> string list \<Rightarrow> string" where
  "join_with sep [] = []"
| "join_with sep [x] = x"
| "join_with sep (x # xs) = x @ sep @ join_with sep xs"

fun split_once :: "char \<Rightarrow> string \<Rightarrow> (string \<times> string) option" where
  "split_once c [] = None"
| "split_once c (x # xs) =
     (if x = c then Some ([], xs) else map_option (\<lambda>(a, b). (x # a, b)) (split_once c xs))"

definition replace_char :: "char \<Rightarrow> string \<Rightarrow> string \<Rightarrow> string" where
  "replace_char c by s = concat (map (\<lambda>x. if x = c then by else [x]) s)"

lemma split_on_nonempty [simp]: "split_on c s \<noteq> []"
  by (induction s) (auto split: list.split)

lemma split_on_plain: "c \<notin> set s \<Longrightarrow> split_on c s = [s]"
  by (induction s) auto

lemma split_on_append: "c \<notin> set s \<Longrightarrow> split_on c (s @ c # t) = s # split_on c t"
  by (induction s) auto

lemma split_join:
  assumes "xs \<noteq> []" "\<And>x. x \<in> set xs \<Longrightarrow> c \<notin> set x"
  shows "split_on c (join_with [c] xs) = xs"
  using assms by (induction "[c]" xs rule: join_with.induct) (simp_all add: split_on_plain split_on_append)

lemma split_once_Some: "split_once c s = Some (a, b) \<Longrightarrow> s = a @ c # b \<and> c \<notin> set a"
  by (induction s arbitrary: a) (auto split: if_splits)

lemma split_once_None: "split_once c s = None \<longleftrightarrow> c \<notin> set s"
  by (induction s) auto

lemma split_once_append: "c \<notin> set a \<Longrightarrow> split_once c (a @ c # b) = Some (a, b)"
  by (induction a) auto

lemma replace_char_simps [simp]:
  "replace_char c by [] = []"
  "replace_char c by (x # xs) = (if x = c then by else [x]) @ replace_char c by xs"
  by (simp_all add: replace_char_def)

lemma trim_words: "trim s = s \<Longrightarrow> s \<noteq> [] \<Longrightarrow> \<not> blank s"
  by (simp add: blank_def)

section \<open>Unsigned integers\<close>

definition digit_value :: "char \<Rightarrow> nat option" where
  "digit_value c = (let n = (of_char c :: nat) in if 48 \<le> n \<and> n \<le> 57 then Some (n - 48) else None)"

fun parse_digits :: "nat \<Rightarrow> nat \<Rightarrow> string \<Rightarrow> string + nat" where
  "parse_digits m acc [] = Inr acc"
| "parse_digits m acc (c # cs) =
     (case digit_value c of
        None \<Rightarrow> Inl ''invalid digit found in string''
      | Some d \<Rightarrow> if acc * 10 + d \<le> m then parse_digits m (acc * 10 + d) cs else Inl ''number too large to fit in target type'')"

text \<open>A plus sign may stand in front of the digits.\<close>

definition parse_uint :: "nat \<Rightarrow> string \<Rightarrow> string + nat" where
  "parse_uint m s =
     (case s of
        [] \<Rightarrow> Inl ''cannot parse integer from empty string''
      | c # cs \<Rightarrow>
          if c = CHR ''+'' then (if cs = [] then Inl ''invalid digit found in string'' else parse_digits m 0 cs)
          else parse_digits m 0 s)"

lemma parse_digits_append: "parse_digits m acc (xs @ ys) = result_bind (parse_digits m acc xs) (\<lambda>a. parse_digits m a ys)"
  by (induction xs arbitrary: acc) (simp_all split: option.split)

lemma digit_value_char [simp]: "d < 10 \<Longrightarrow> digit_value (char_of (48 + d)) = Some d"
  by (simp add: digit_value_def take_bit_eq_mod)

lemma parse_digits_of: "n \<le> m \<Longrightarrow> parse_digits m 0 (digits_of n) = Inr n"
proof (induction n rule: digits_of.induct)
  case (1 n)
  show ?case
  proof (cases "n < 10")
    case True
    with 1 show ?thesis by (subst digits_of.simps) simp
  next
    case False
    then have "parse_digits m 0 (digits_of (n div 10)) = Inr (n div 10)" using 1 by simp
    with False 1(2) show ?thesis by (subst digits_of.simps) (simp add: parse_digits_append)
  qed
qed

lemma digits_of_digits: "c \<in> set (digits_of n) \<Longrightarrow> 48 \<le> (of_char c :: nat) \<and> (of_char c :: nat) \<le> 57"
proof (induction n arbitrary: c rule: digits_of.induct)
  case (1 n)
  have d: "(of_char (char_of (48 + d) :: char) :: nat) = 48 + d" if "d < 10" for d :: nat
    using that by (simp add: take_bit_eq_mod)
  from 1 show ?case
    by (subst (asm) (2) digits_of.simps) (auto simp: d split: if_splits)
qed

lemma digits_of_nonempty [simp]: "digits_of n \<noteq> []"
  by (subst digits_of.simps) simp

lemma parse_show: "n \<le> m \<Longrightarrow> parse_uint m (show_nat n) = Inr n"
proof -
  assume n: "n \<le> m"
  obtain c cs where s: "digits_of n = c # cs" by (cases "digits_of n") auto
  with digits_of_digits [of c n] have "c \<noteq> CHR ''+''" by auto
  with s parse_digits_of [OF n] show ?thesis by (simp add: parse_uint_def show_nat_def)
qed

lemma trim_show [simp]: "trim (show_nat n) = show_nat n"
proof -
  have plain: "\<not> is_whitespace c" if "c \<in> set (digits_of n)" for c
    using digits_of_digits [OF that] by (auto simp: is_whitespace_def Let_def)
  have fix1: "dropWhile is_whitespace (digits_of n) = digits_of n"
    and fix2: "dropWhile is_whitespace (rev (digits_of n)) = rev (digits_of n)"
    by (rule dropWhile_fix, simp add: plain hd_rev)+
  show ?thesis unfolding trim_def show_nat_def fix1 fix2 by simp
qed

lemma show_nat_nonempty [simp]: "show_nat n \<noteq> []"
  by (simp add: show_nat_def)

lemma parse_digits_bound: "parse_digits m acc s = Inr n \<Longrightarrow> acc \<le> m \<Longrightarrow> n \<le> m"
  by (induction s arbitrary: acc) (auto split: option.splits if_splits)

lemma parse_uint_bound: "parse_uint m s = Inr n \<Longrightarrow> n \<le> m"
  by (auto simp: parse_uint_def simp del: parse_digits.simps split: list.splits if_splits dest: parse_digits_bound)

end
