(* ===== verification/DesktopDrafts.thy ===== *)
theory DesktopDrafts
  imports Text AgentConfig
begin

text \<open>
  The forms of the desktop application (\<open>minipunch-desktop/src-tauri/src/desktop.rs\<close>): services and
  forward rules as text fields, how they are filled from the configuration and read back into it, the
  launch arguments, and the check before a start at boot. The messages of the application are Chinese
  sentences; each is a constructor with the parts that are filled in.
\<close>

section \<open>Messages\<close>

datatype desktop_error =
    Service_Name_Empty nat
  | Service_Host_Empty string
  | Service_Port_Invalid string string
  | Service_Port_Zero string
  | Service_Wait_Invalid string string
  | Service_Wait_Zero string
  | Service_Udp_Empty string
  | Rule_Name_Empty nat
  | Rule_Target_Empty string
  | Rule_Service_Empty string
  | Rule_Bind_Empty string
  | Rule_Mode_Unknown string
  | Rule_Wait_Invalid string string
  | Rule_Wait_Zero string
  | Rule_Udp_Empty string
  | Boot_Server_Missing
  | Boot_Name_Missing
  | Boot_Device_Missing
  | Boot_Identity_Missing
  | Boot_Relay_Key_Missing
  | Boot_Config_Unreadable string
  | Boot_Preflight_Failed string
  | Agent_Config_Unreadable string
  | Agent_Already_Running
  | Agent_Not_Running
  | Agent_Stop_Timeout
  | Agent_Error string

type_synonym 'a desktop_result = "desktop_error + 'a"

section \<open>Services\<close>

record service_draft =
  vd_name :: string
  vd_target_host :: string
  vd_target_port :: string
  vd_allowed_device_ids :: string
  vd_direct_enabled :: bool
  vd_direct_udp_bind_addr :: string
  vd_direct_candidate_type :: string
  vd_direct_wait_seconds :: string

definition split_csv :: "string \<Rightarrow> string list" where
  "split_csv raw = filter (\<lambda>v. v \<noteq> []) (map trim (split_on (CHR '','') raw))"

definition service_draft_from_config :: "published_service_config \<Rightarrow> service_draft" where
  "service_draft_from_config s =
     \<lparr>vd_name = ps_name s, vd_target_host = ps_target_host s, vd_target_port = show_nat (ps_target_port s),
      vd_allowed_device_ids = join_with '','' (ps_allowed_device_ids s), vd_direct_enabled = ps_direct_enabled s,
      vd_direct_udp_bind_addr = ps_direct_udp_bind_addr s, vd_direct_candidate_type = ps_direct_candidate_type s,
      vd_direct_wait_seconds = show_nat (ps_direct_wait_seconds s)\<rparr>"

text \<open>A field for seconds: empty means the default.\<close>

definition wait_seconds_of :: "(string \<Rightarrow> desktop_error) \<Rightarrow> desktop_error \<Rightarrow> string \<Rightarrow> nat desktop_result" where
  "wait_seconds_of invalid zero text =
     (case (if blank text then Inr default_direct_wait_seconds else parse_uint u64_max (trim text)) of
        Inl err \<Rightarrow> Inl (invalid err)
      | Inr n \<Rightarrow> if n = 0 then Inl zero else Inr n)"

definition candidate_type_of :: "string \<Rightarrow> string" where
  "candidate_type_of text = (if blank text then default_direct_candidate_type else trim text)"

definition service_draft_to_config :: "nat \<Rightarrow> service_draft \<Rightarrow> published_service_config desktop_result" where
  "service_draft_to_config index d =
     (let name = trim (vd_name d); host = trim (vd_target_host d) in
      if name = [] then Inl (Service_Name_Empty (index + 1))
      else if host = [] then Inl (Service_Host_Empty name)
      else case parse_uint u16_max (trim (vd_target_port d)) of
             Inl err \<Rightarrow> Inl (Service_Port_Invalid name err)
           | Inr port \<Rightarrow>
               if port = 0 then Inl (Service_Port_Zero name)
               else result_bind (wait_seconds_of (Service_Wait_Invalid name) (Service_Wait_Zero name) (vd_direct_wait_seconds d)) (\<lambda>wait.
                 let udp = trim (vd_direct_udp_bind_addr d) in
                 if vd_direct_enabled d \<and> udp = [] then Inl (Service_Udp_Empty name)
                 else Inr \<lparr>ps_name = name, ps_target_host = host, ps_target_port = port,
                        ps_allowed_device_ids = split_csv (vd_allowed_device_ids d), ps_direct_enabled = vd_direct_enabled d,
                        ps_direct_udp_bind_addr = udp, ps_direct_candidate_type = candidate_type_of (vd_direct_candidate_type d),
                        ps_direct_wait_seconds = wait\<rparr>))"

section \<open>Forward rules\<close>

record rule_draft =
  ud_name :: string
  ud_target_device_id :: string
  ud_service_name :: string
  ud_local_bind_addr :: string
  ud_enabled :: bool
  ud_transport_mode :: string
  ud_direct_udp_bind_addr :: string
  ud_direct_candidate_type :: string
  ud_direct_wait_seconds :: string

definition rule_draft_from_config :: "local_forward_config \<Rightarrow> rule_draft" where
  "rule_draft_from_config r =
     \<lparr>ud_name = fr_name r, ud_target_device_id = fr_target_device_id r, ud_service_name = fr_service_name r,
      ud_local_bind_addr = fr_local_bind_addr r, ud_enabled = fr_enabled r, ud_transport_mode = fr_transport_mode r,
      ud_direct_udp_bind_addr = fr_direct_udp_bind_addr r, ud_direct_candidate_type = fr_direct_candidate_type r,
      ud_direct_wait_seconds = show_nat (fr_direct_wait_seconds r)\<rparr>"

definition rule_draft_to_config :: "nat \<Rightarrow> rule_draft \<Rightarrow> local_forward_config desktop_result" where
  "rule_draft_to_config index d =
     (let name = trim (ud_name d) in
      if name = [] then Inl (Rule_Name_Empty (index + 1))
      else if blank (ud_target_device_id d) then Inl (Rule_Target_Empty name)
      else if blank (ud_service_name d) then Inl (Rule_Service_Empty name)
      else if blank (ud_local_bind_addr d) then Inl (Rule_Bind_Empty name)
      else
        let mode = (if blank (ud_transport_mode d) then default_forward_transport
                    else to_ascii_lowercase (trim (ud_transport_mode d))) in
        if mode \<noteq> ''relay'' \<and> mode \<noteq> ''auto'' then Inl (Rule_Mode_Unknown name)
        else result_bind (wait_seconds_of (Rule_Wait_Invalid name) (Rule_Wait_Zero name) (ud_direct_wait_seconds d)) (\<lambda>wait.
          let udp = trim (ud_direct_udp_bind_addr d) in
          if mode = ''auto'' \<and> udp = [] then Inl (Rule_Udp_Empty name)
          else Inr \<lparr>fr_name = name, fr_target_device_id = trim (ud_target_device_id d), fr_service_name = trim (ud_service_name d),
                 fr_local_bind_addr = trim (ud_local_bind_addr d), fr_enabled = ud_enabled d, fr_transport_mode = mode,
                 fr_direct_udp_bind_addr = udp, fr_direct_candidate_type = candidate_type_of (ud_direct_candidate_type d),
                 fr_direct_wait_seconds = wait\<rparr>))"

section \<open>Saving the forms\<close>

text \<open>\<open>enumerate\<close> and \<open>collect\<close>: the first draft that is not valid ends it.\<close>

fun collect_drafts :: "(nat \<Rightarrow> 'd \<Rightarrow> 'c desktop_result) \<Rightarrow> nat \<Rightarrow> 'd list \<Rightarrow> 'c list desktop_result" where
  "collect_drafts f index [] = Inr []"
| "collect_drafts f index (d # ds) =
     result_bind (f index d) (\<lambda>c. map_sum id (\<lambda>cs. c # cs) (collect_drafts f (Suc index) ds))"

definition collect_published_services_from_drafts :: "service_draft list \<Rightarrow> published_service_config list desktop_result" where
  "collect_published_services_from_drafts = collect_drafts service_draft_to_config 0"

definition collect_forward_rules_from_drafts :: "rule_draft list \<Rightarrow> local_forward_config list desktop_result" where
  "collect_forward_rules_from_drafts = collect_drafts rule_draft_to_config 0"

definition default_device_name :: "string option \<Rightarrow> string" where
  "default_device_name hostname =
     (case hostname of None \<Rightarrow> ''minipunch-device'' | Some h \<Rightarrow> if blank h then ''minipunch-device'' else h)"

record save_config_request =
  sq_config_path :: string
  sq_server_url :: string
  sq_device_name :: string
  sq_service_drafts :: "service_draft list"
  sq_forward_drafts :: "rule_draft list"

text \<open>The configuration found at the path, and the result of writing the new one there.\<close>

definition save_config_from_drafts ::
  "string option \<Rightarrow> agent_config result \<Rightarrow> unit result \<Rightarrow> save_config_request \<Rightarrow> agent_config desktop_result" where
  "save_config_from_drafts hostname loaded io rq =
     result_bind (collect_published_services_from_drafts (sq_service_drafts rq)) (\<lambda>services.
     result_bind (collect_forward_rules_from_drafts (sq_forward_drafts rq)) (\<lambda>rules.
     result_bind (map_sum Agent_Error id loaded) (\<lambda>c.
       let c' = c\<lparr>cf_server_url := trim (sq_server_url rq),
             cf_device_name := (if blank (sq_device_name rq) then default_device_name hostname else trim (sq_device_name rq)),
             cf_published_services := services, cf_forward_rules := rules\<rparr>
       in result_bind (map_sum Agent_Error id io) (\<lambda>_. Inr c'))))"

section \<open>Starting\<close>

record launch_args =
  la_config_path :: "string option"
  la_background :: bool
  la_start_agent :: bool
  la_autostart :: bool

text \<open>The arguments after the program's name, from left to right; unknown ones are skipped.\<close>

fun parse_launch_args :: "string list \<Rightarrow> launch_args \<Rightarrow> launch_args" where
  "parse_launch_args [] l = l"
| "parse_launch_args (arg # args) l =
     (if arg = ''--config''
      then (case args of [] \<Rightarrow> l | value # rest \<Rightarrow> parse_launch_args rest (l\<lparr>la_config_path := Some value\<rparr>))
      else parse_launch_args args
        (if arg = ''--background'' then l\<lparr>la_background := True\<rparr>
         else if arg = ''--start-agent'' then l\<lparr>la_start_agent := True\<rparr>
         else if arg = ''--autostart'' then l\<lparr>la_autostart := True, la_background := True, la_start_agent := True\<rparr>
         else l))"

definition no_launch_args :: launch_args where
  "no_launch_args = \<lparr>la_config_path = None, la_background = False, la_start_agent = False, la_autostart = False\<rparr>"

definition uses_boot_managed_agent_mode :: "launch_args \<Rightarrow> bool" where
  "uses_boot_managed_agent_mode l \<longleftrightarrow> la_autostart l \<or> (la_background l \<and> la_start_agent l)"

definition present :: "string option \<Rightarrow> bool" where
  "present v \<longleftrightarrow> (case v of None \<Rightarrow> False | Some s \<Rightarrow> \<not> blank s)"

definition validate_boot_ready_config :: "agent_config \<Rightarrow> unit desktop_result" where
  "validate_boot_ready_config c =
     (if blank (cf_server_url c) then Inl Boot_Server_Missing
      else if blank (cf_device_name c) then Inl Boot_Name_Missing
      else if \<not> present (cf_device_id c) then Inl Boot_Device_Missing
      else if \<not> present (cf_private_key_base64 c) then Inl Boot_Identity_Missing
      else if \<not> present (cf_relay_private_key_base64 c) then Inl Boot_Relay_Key_Missing
      else Inr ())"

datatype session_summary = Session_Valid int | Session_Expired int | Session_Without_Deadline | No_Session

definition render_session_summary :: "int \<Rightarrow> agent_config \<Rightarrow> session_summary" where
  "render_session_summary now c =
     (case (cf_session_token c, cf_session_expires_at c) of
        (Some _, Some e) \<Rightarrow> if has_valid_session now c then Session_Valid e else Session_Expired e
      | (Some _, None) \<Rightarrow> Session_Without_Deadline
      | _ \<Rightarrow> No_Session)"

end
