(* ===== verification/Autostart.thy ===== *)
theory Autostart
  imports Text
begin

text \<open>
  Starting with the system (\<open>minipunch-desktop/src-tauri/src/autostart.rs\<close>): the entry that each platform's
  launcher reads, how paths are escaped in it, and installing, removing and recognising it. The file at
  the entry's path is its contents, or nothing; paths are absolute. Texts beyond ASCII are UTF-8 bytes.
\<close>

section \<open>Escaping\<close>

abbreviation newline :: string where "newline \<equiv> [CHR 0x0A]"
abbreviation crlf :: string where "crlf \<equiv> [CHR 0x0D, CHR 0x0A]"
abbreviation quote :: string where "quote \<equiv> [CHR 0x22]"

definition xml_escape :: "string \<Rightarrow> string" where
  "xml_escape s =
     replace_char (CHR 0x27) ''&apos;'' (replace_char (CHR 0x22) ''&quot;'' (replace_char (CHR ''>'') ''&gt;''
       (replace_char (CHR ''<'') ''&lt;'' (replace_char (CHR ''&'') ''&amp;'' s))))"

definition desktop_quote_arg :: "string \<Rightarrow> string" where
  "desktop_quote_arg s =
     quote @ replace_char (CHR ''$'') [CHR 0x5C, CHR ''$''] (replace_char (CHR 0x60) [CHR 0x5C, CHR 0x60]
       (replace_char (CHR 0x22) [CHR 0x5C, CHR 0x22] (replace_char (CHR 0x5C) [CHR 0x5C, CHR 0x5C] s))) @ quote"

definition windows_vbs_escape :: "string \<Rightarrow> string" where
  "windows_vbs_escape = replace_char (CHR 0x22) [CHR 0x22, CHR 0x22]"

section \<open>The entry\<close>

datatype platform = Macos | Linux | Windows

definition autostart_entry_basename :: string where "autostart_entry_basename = ''minipunch-desktop''"

fun autostart_entry_path :: "platform \<Rightarrow> string \<Rightarrow> string list" where
  "autostart_entry_path Macos home = [home, ''Library'', ''LaunchAgents'', autostart_entry_basename @ ''.plist'']"
| "autostart_entry_path Linux config_dir = [config_dir, ''autostart'', autostart_entry_basename @ ''.desktop'']"
| "autostart_entry_path Windows data_dir =
     [data_dir, ''Microsoft'', ''Windows'', ''Start Menu'', ''Programs'', ''Startup'', autostart_entry_basename @ ''.vbs'']"

fun autostart_platform_label :: "platform \<Rightarrow> string" where
  "autostart_platform_label Macos = ''launchd''"
| "autostart_platform_label Linux = ''xdg-autostart''"
| "autostart_platform_label Windows = ''startup-folder''"

definition render_windows_autostart_entry :: "string \<Rightarrow> string \<Rightarrow> string" where
  "render_windows_autostart_entry exe config =
     ''Set shell = CreateObject('' @ quote @ ''WScript.Shell'' @ quote @ '')'' @ crlf
     @ ''shell.Run '' @ quote @ quote @ quote @ quote @ '' & '' @ quote @ windows_vbs_escape exe @ quote @ '' & ''
     @ quote @ quote @ quote @ quote @ '' & '' @ quote @ '' --autostart --config '' @ quote @ '' & ''
     @ quote @ quote @ quote @ quote @ '' & '' @ quote @ windows_vbs_escape config @ quote @ '' & ''
     @ quote @ quote @ quote @ quote @ '', 0, False'' @ crlf @ ''Set shell = Nothing'' @ crlf"

definition linux_name :: string where
  "linux_name = ''MiniPunch '' @ [CHR 0xE6, CHR 0xA1, CHR 0x8C, CHR 0xE9, CHR 0x9D, CHR 0xA2, CHR 0xE7, CHR 0xAB, CHR 0xAF]"

definition linux_comment :: string where
  "linux_comment = ''MiniPunch '' @ [CHR 0xE6, CHR 0x9E, CHR 0x81, CHR 0xE7, CHR 0xAE, CHR 0x80, CHR 0xE7, CHR 0xA7, CHR 0x81, CHR 0xE7, CHR 0xBD, CHR 0x91, CHR 0xE6, CHR 0xA1, CHR 0x8C, CHR 0xE9, CHR 0x9D, CHR 0xA2, CHR 0xE7, CHR 0xAB, CHR 0xAF]"

definition xml_line :: "nat \<Rightarrow> string \<Rightarrow> string" where
  "xml_line indent text = replicate indent (CHR '' '') @ text @ newline"

definition xml_string :: "string \<Rightarrow> string" where
  "xml_string text = ''<string>'' @ text @ ''</string>''"

fun render_autostart_entry :: "platform \<Rightarrow> string \<Rightarrow> string \<Rightarrow> string" where
  "render_autostart_entry Macos exe config =
     xml_line 0 (''<?xml version='' @ quote @ ''1.0'' @ quote @ '' encoding='' @ quote @ ''UTF-8'' @ quote @ ''?>'')
     @ xml_line 0 (''<!DOCTYPE plist PUBLIC '' @ quote @ ''-//Apple//DTD PLIST 1.0//EN'' @ quote @ '' ''
         @ quote @ ''http://www.apple.com/DTDs/PropertyList-1.0.dtd'' @ quote @ ''>'')
     @ xml_line 0 (''<plist version='' @ quote @ ''1.0'' @ quote @ ''>'')
     @ xml_line 0 ''<dict>''
     @ xml_line 4 ''<key>Label</key>'' @ xml_line 4 (xml_string autostart_entry_basename)
     @ xml_line 4 ''<key>ProgramArguments</key>'' @ xml_line 4 ''<array>''
     @ xml_line 8 (xml_string (xml_escape exe))
     @ xml_line 8 (xml_string ''--autostart'') @ xml_line 8 (xml_string ''--config'')
     @ xml_line 8 (xml_string (xml_escape config))
     @ xml_line 4 ''</array>''
     @ xml_line 4 ''<key>RunAtLoad</key>'' @ xml_line 4 ''<true/>''
     @ xml_line 4 ''<key>KeepAlive</key>'' @ xml_line 4 ''<false/>''
     @ xml_line 0 ''</dict>'' @ xml_line 0 ''</plist>''"
| "render_autostart_entry Linux exe config =
     ''[Desktop Entry]'' @ newline @ ''Type=Application'' @ newline @ ''Version=1.0'' @ newline
     @ ''Name='' @ linux_name @ newline @ ''Comment='' @ linux_comment @ newline
     @ ''Exec='' @ desktop_quote_arg exe @ '' --autostart --config '' @ desktop_quote_arg config @ newline
     @ ''Terminal=false'' @ newline @ ''Hidden=false'' @ newline @ ''X-GNOME-Autostart-enabled=true'' @ newline"
| "render_autostart_entry Windows exe config = render_windows_autostart_entry exe config"

section \<open>Installing and recognising it\<close>

fun crlf_to_lf :: "string \<Rightarrow> string" where
  "crlf_to_lf [] = []"
| "crlf_to_lf [c] = [c]"
| "crlf_to_lf (c # d # s) = (if c = CHR 0x0D \<and> d = CHR 0x0A then d # crlf_to_lf s else c # crlf_to_lf (d # s))"

definition normalize_contents :: "string \<Rightarrow> string" where
  "normalize_contents s = trim (crlf_to_lf s)"

datatype autostart_detail = Entry_Installed | Entry_Differs | Entry_Absent

record autostart_status =
  as_enabled :: bool
  as_entry_path :: "string list"
  as_label :: string
  as_detail :: autostart_detail

text \<open>Reading the file gives its contents, that there is none, or another error.\<close>

definition detect_autostart ::
  "platform \<Rightarrow> string \<Rightarrow> string \<Rightarrow> string \<Rightarrow> string + string option \<Rightarrow> string + autostart_status" where
  "detect_autostart p dir exe config found =
     (let expected = render_autostart_entry p exe config;
          status = (\<lambda>enabled detail. \<lparr>as_enabled = enabled, as_entry_path = autostart_entry_path p dir,
            as_label = autostart_platform_label p, as_detail = detail\<rparr>)
      in case found of
           Inl err \<Rightarrow> Inl err
         | Inr None \<Rightarrow> Inr (status False Entry_Absent)
         | Inr (Some existing) \<Rightarrow>
             if normalize_contents existing = normalize_contents expected then Inr (status True Entry_Installed)
             else Inr (status False Entry_Differs))"

text \<open>The file afterwards, and the answer; \<open>io\<close> is the result of writing or removing.\<close>

definition enable_autostart ::
  "platform \<Rightarrow> string \<Rightarrow> string \<Rightarrow> string \<Rightarrow> string + unit \<Rightarrow> string option \<Rightarrow> (string + autostart_status) \<times> string option" where
  "enable_autostart p dir exe config io file =
     (case io of
        Inl err \<Rightarrow> (Inl err, file)
      | Inr _ \<Rightarrow>
          let file' = Some (render_autostart_entry p exe config)
          in (detect_autostart p dir exe config (Inr file'), file'))"

definition disable_autostart ::
  "platform \<Rightarrow> string \<Rightarrow> string \<Rightarrow> string \<Rightarrow> string + unit \<Rightarrow> string option \<Rightarrow> (string + autostart_status) \<times> string option" where
  "disable_autostart p dir exe config io file =
     (case (file, io) of
        (Some _, Inl err) \<Rightarrow> (Inl err, file)
      | _ \<Rightarrow> (detect_autostart p dir exe config (Inr None), None))"

text \<open>The command and the tray's menu: from one to the other.\<close>

definition toggle_autostart ::
  "platform \<Rightarrow> string \<Rightarrow> string \<Rightarrow> string \<Rightarrow> string + unit \<Rightarrow> string option \<Rightarrow> (string + autostart_status) \<times> string option" where
  "toggle_autostart p dir exe config io file =
     (case detect_autostart p dir exe config (Inr file) of
        Inl err \<Rightarrow> (Inl err, file)
      | Inr status \<Rightarrow>
          if as_enabled status then disable_autostart p dir exe config io file else enable_autostart p dir exe config io file)"

end
