(* ===== verification/Desktop.thy ===== *)
theory Desktop
  imports DesktopDrafts RuntimeLoop AgentStatus Autostart
begin

text \<open>
  The state of the desktop application and its commands (\<open>desktop.rs\<close>): the agent it manages in its own
  process, the views it keeps, and what every command does to them. The agent's own operations, the
  files and the operating system give results. A runtime that has been started is a number; it has been
  asked to stop when \<open>true\<close> has been sent to it or its sender has been dropped.
\<close>

section \<open>State\<close>

datatype managed_agent_state = Ma_Stopped | Ma_Running | Ma_Stopping | Ma_Failed

fun managed_agent_state_str :: "managed_agent_state \<Rightarrow> string" where
  "managed_agent_state_str Ma_Stopped = ''stopped''"
| "managed_agent_state_str Ma_Running = ''running''"
| "managed_agent_state_str Ma_Stopping = ''stopping''"
| "managed_agent_state_str Ma_Failed = ''failed''"

datatype desktop_text =
    Tx_Initial_Output
  | Tx_Network_Unread
  | Tx_Network_Updated nat nat
  | Tx_Network_Failed string
  | Tx_Joined_Refresh
  | Tx_Agent_Never_Started
  | Tx_Agent_Stopped_As_Asked
  | Tx_Agent_Ended
  | Tx_Agent_Error string
  | Tx_Agent_Join_Failed string
  | Tx_Agent_Start_Failed desktop_error
  | Tx_Agent_Note desktop_error
  | Tx_Agent_Started string
  | Tx_Agent_Running
  | Tx_Agent_Stop_Waiting
  | Tx_Agent_Stop_Sent
  | Tx_Config_Loaded string
  | Tx_Config_Saved string nat nat
  | Tx_Joined string
  | Tx_Heartbeat_Ok
  | Tx_Snapshot_Json network_snapshot
  | Tx_Status_Ok
  | Tx_Status_Failed string
  | Tx_Published_Json "service_definition list"
  | Tx_Autostart autostart_status

record managed_agent =
  mg_state :: managed_agent_state
  mg_note :: desktop_text
  mg_shutdown :: "nat option"
  mg_task :: "nat option"

definition managed_agent_new :: managed_agent where
  "managed_agent_new = \<lparr>mg_state = Ma_Stopped, mg_note = Tx_Agent_Never_Started, mg_shutdown = None, mg_task = None\<rparr>"

record desktop_state =
  dk_path :: string
  dk_network :: "network_snapshot option"
  dk_network_note :: desktop_text
  dk_error :: "string option"
  dk_output :: desktop_text
  dk_agent :: managed_agent
  dk_quitting :: bool
  dk_spawned :: "nat list"
  dk_asked :: "nat set"

definition desktop_state_new :: "string \<Rightarrow> desktop_state" where
  "desktop_state_new path =
     \<lparr>dk_path = path, dk_network = None, dk_network_note = Tx_Network_Unread, dk_error = None, dk_output = Tx_Initial_Output,
      dk_agent = managed_agent_new, dk_quitting = False, dk_spawned = [], dk_asked = {}\<rparr>"

text \<open>Replacing the sender drops the old one, which the runtime it belongs to notices.\<close>

definition set_shutdown :: "nat option \<Rightarrow> desktop_state \<Rightarrow> desktop_state" where
  "set_shutdown sender st =
     st\<lparr>dk_agent := (dk_agent st)\<lparr>mg_shutdown := sender\<rparr>,
        dk_asked := dk_asked st \<union> set_option (mg_shutdown (dk_agent st))\<rparr>"

definition set_agent :: "managed_agent_state \<Rightarrow> desktop_text \<Rightarrow> desktop_state \<Rightarrow> desktop_state" where
  "set_agent s note st = st\<lparr>dk_agent := (dk_agent st)\<lparr>mg_state := s, mg_note := note\<rparr>\<rparr>"

definition set_task :: "nat option \<Rightarrow> desktop_state \<Rightarrow> desktop_state" where
  "set_task t st = st\<lparr>dk_agent := (dk_agent st)\<lparr>mg_task := t\<rparr>\<rparr>"

section \<open>The managed agent\<close>

text \<open>
  Looking after a task that has ended: it is taken under the lock, and its result is written down under
  the lock again. \<open>joined\<close> says how a task has ended, if it has.
\<close>

type_synonym joined = "nat \<Rightarrow> joined_task option"

definition reconcile_take :: "joined \<Rightarrow> desktop_state \<Rightarrow> (nat \<times> bool) option \<times> desktop_state" where
  "reconcile_take joined st =
     (case mg_task (dk_agent st) of
        Some t \<Rightarrow>
          if joined t \<noteq> None then (Some (t, mg_state (dk_agent st) = Ma_Stopping), set_task None st) else (None, st)
      | None \<Rightarrow> (None, st))"

definition reconcile_note :: "joined_task \<Rightarrow> bool \<Rightarrow> desktop_state \<Rightarrow> desktop_state" where
  "reconcile_note result was_stopping st =
     (let st1 = set_shutdown None st in
      case result of
        Task_Ok \<Rightarrow> set_agent Ma_Stopped (if was_stopping then Tx_Agent_Stopped_As_Asked else Tx_Agent_Ended) st1
      | Task_Failed err \<Rightarrow> (set_agent Ma_Failed (Tx_Agent_Error err) st1)\<lparr>dk_output := Tx_Agent_Error err\<rparr>
      | Task_Crashed err \<Rightarrow> (set_agent Ma_Failed (Tx_Agent_Join_Failed err) st1)\<lparr>dk_output := Tx_Agent_Join_Failed err\<rparr>)"

definition reconcile_managed_agent :: "joined \<Rightarrow> desktop_state \<Rightarrow> desktop_state" where
  "reconcile_managed_agent joined st =
     (case reconcile_take joined st of
        (None, st1) \<Rightarrow> st1
      | (Some (t, was_stopping), st1) \<Rightarrow> (case joined t of None \<Rightarrow> st1 | Some result \<Rightarrow> reconcile_note result was_stopping st1))"

definition note_managed_agent_start_failure :: "desktop_error \<Rightarrow> desktop_state \<Rightarrow> desktop_state" where
  "note_managed_agent_start_failure err st =
     (set_agent Ma_Failed (Tx_Agent_Note err) st)\<lparr>dk_output := Tx_Agent_Start_Failed err\<rparr>"

datatype start_trigger = Interactive | Boot_Autostart

definition preflight_managed_agent_start ::
  "string \<Rightarrow> start_trigger \<Rightarrow> agent_config result \<Rightarrow> agent_runtime result \<Rightarrow> agent_runtime desktop_result" where
  "preflight_managed_agent_start path trigger config runtime =
     (case trigger of
        Interactive \<Rightarrow> map_sum (\<lambda>_. Agent_Config_Unreadable path) id runtime
      | Boot_Autostart \<Rightarrow>
          (case config of
             Inl _ \<Rightarrow> Inl (Boot_Config_Unreadable path)
           | Inr c \<Rightarrow> result_bind (validate_boot_ready_config c) (\<lambda>_. map_sum (\<lambda>_. Boot_Preflight_Failed path) id runtime)))"

definition start_check :: "desktop_state \<Rightarrow> unit desktop_result" where
  "start_check st = (if mg_task (dk_agent st) \<noteq> None then Inl Agent_Already_Running else Inr ())"

definition start_install :: "nat \<Rightarrow> desktop_state \<Rightarrow> desktop_state" where
  "start_install t st =
     (set_task (Some t) (set_shutdown (Some t) (set_agent Ma_Running Tx_Agent_Running st)))
       \<lparr>dk_output := Tx_Agent_Started (dk_path st), dk_spawned := dk_spawned st @ [t]\<rparr>"

text \<open>The preflight waits between the check and the installation; here nothing else happens meanwhile.\<close>

definition start_managed_agent_for_path ::
  "joined \<Rightarrow> agent_runtime desktop_result \<Rightarrow> nat \<Rightarrow> desktop_state \<Rightarrow> unit desktop_result \<times> desktop_state" where
  "start_managed_agent_for_path joined preflight t st =
     (let st1 = reconcile_managed_agent joined st in
      case start_check st1 of
        Inl e \<Rightarrow> (Inl e, st1)
      | Inr _ \<Rightarrow> (case preflight of Inl e \<Rightarrow> (Inl e, st1) | Inr _ \<Rightarrow> (Inr (), start_install t st1)))"

definition stop_request :: "desktop_state \<Rightarrow> unit desktop_result \<times> desktop_state" where
  "stop_request st =
     (case mg_shutdown (dk_agent st) of
        None \<Rightarrow> (Inl Agent_Not_Running, st)
      | Some t \<Rightarrow>
          (Inr (), (set_agent Ma_Stopping Tx_Agent_Stop_Waiting st)\<lparr>dk_output := Tx_Agent_Stop_Sent, dk_asked := insert t (dk_asked st)\<rparr>))"

definition stop_managed_agent_for_current_path :: "joined \<Rightarrow> desktop_state \<Rightarrow> unit desktop_result \<times> desktop_state" where
  "stop_managed_agent_for_current_path joined st = stop_request (reconcile_managed_agent joined st)"

definition agent_busy :: "desktop_state \<Rightarrow> bool" where
  "agent_busy st \<longleftrightarrow> mg_state (dk_agent st) \<in> {Ma_Running, Ma_Stopping}"

definition still_running :: "desktop_state \<Rightarrow> bool" where
  "still_running st \<longleftrightarrow> mg_task (dk_agent st) \<noteq> None \<or> agent_busy st"

text \<open>At most a hundred looks, one each tenth of a second; \<open>later\<close> is what has ended by then.\<close>

definition shutdown_max_attempts :: nat where "shutdown_max_attempts = 100"

fun wait_for_managed_agent_shutdown ::
  "nat \<Rightarrow> (nat \<Rightarrow> joined) \<Rightarrow> nat \<Rightarrow> desktop_state \<Rightarrow> unit desktop_result \<times> desktop_state" where
  "wait_for_managed_agent_shutdown 0 later k st = (Inl Agent_Stop_Timeout, st)"
| "wait_for_managed_agent_shutdown (Suc n) later k st =
     (let st1 = reconcile_managed_agent (later k) st in
      if still_running st1 then wait_for_managed_agent_shutdown n later (Suc k) st1 else (Inr (), st1))"

definition toggle_managed_agent ::
  "joined \<Rightarrow> joined \<Rightarrow> agent_runtime desktop_result \<Rightarrow> nat \<Rightarrow> desktop_state \<Rightarrow> unit desktop_result \<times> desktop_state" where
  "toggle_managed_agent joined joined' preflight t st =
     (let st1 = reconcile_managed_agent joined st in
      if agent_busy st1 then stop_managed_agent_for_current_path joined' st1
      else start_managed_agent_for_path joined' preflight t st1)"

text \<open>The command: the running agent is stopped first; what ends meanwhile is in \<open>later\<close>.\<close>

definition restart_managed_agent ::
  "joined \<Rightarrow> joined \<Rightarrow> (nat \<Rightarrow> joined) \<Rightarrow> joined \<Rightarrow> agent_runtime desktop_result \<Rightarrow> nat \<Rightarrow> desktop_state
     \<Rightarrow> (bool desktop_result) \<times> desktop_state" where
  "restart_managed_agent joined joined' later joined'' preflight t st =
     (let st1 = reconcile_managed_agent joined st;
          was_running = still_running st1;
          start = (\<lambda>s. case start_managed_agent_for_path joined'' preflight t s of (r, s') \<Rightarrow> (map_sum id (\<lambda>_. was_running) r, s'))
      in if was_running
         then (case stop_managed_agent_for_current_path joined' st1 of
                 (Inl e, st2) \<Rightarrow> (Inl e, st2)
               | (Inr _, st2) \<Rightarrow>
                   (case wait_for_managed_agent_shutdown shutdown_max_attempts later 0 st2 of
                      (Inl e, st3) \<Rightarrow> (Inl e, st3) | (Inr _, st3) \<Rightarrow> start st3))
         else start st1)"

text \<open>The start at launch: a failure is noted, and at boot the application ends.\<close>

definition request_quit :: "desktop_state \<Rightarrow> desktop_state" where
  "request_quit st = st\<lparr>dk_quitting := True\<rparr>"

definition launch_trigger :: "launch_args \<Rightarrow> start_trigger" where
  "launch_trigger l = (if uses_boot_managed_agent_mode l then Boot_Autostart else Interactive)"

definition desktop_setup :: "launch_args \<Rightarrow> desktop_state \<Rightarrow> desktop_state" where
  "desktop_setup l st = (case la_config_path l of None \<Rightarrow> st | Some p \<Rightarrow> st\<lparr>dk_path := p\<rparr>)"

definition launch_agent ::
  "launch_args \<Rightarrow> joined \<Rightarrow> agent_config result \<Rightarrow> agent_runtime result \<Rightarrow> nat \<Rightarrow> desktop_state \<Rightarrow> desktop_state" where
  "launch_agent l joined config runtime t st =
     (if \<not> la_start_agent l then st
      else case start_managed_agent_for_path joined (preflight_managed_agent_start (dk_path st) (launch_trigger l) config runtime) t st of
             (Inr _, st1) \<Rightarrow> st1
           | (Inl e, st1) \<Rightarrow>
               let st2 = note_managed_agent_start_failure e st1 in
               (if launch_trigger l = Boot_Autostart then request_quit st2 else st2))"

text \<open>Closing the main window only hides it, unless the application is quitting.\<close>

definition close_hides_window :: "desktop_state \<Rightarrow> bool" where
  "close_hides_window st \<longleftrightarrow> \<not> dk_quitting st"

end
