(* ===== verification/DesktopCommands.thy ===== *)
theory DesktopCommands
  imports Desktop RuntimeState
begin

text \<open>
  The snapshot the desktop application shows and its commands (\<open>desktop.rs\<close>). A command first looks after
  the managed agent and takes the path of the request; what files, network and operating system give
  are arguments.
\<close>

section \<open>The snapshot\<close>

datatype view_detail = Detail autostart_detail | Detail_Unreadable string

record autostart_view =
  av_enabled :: bool
  av_entry_path :: "string list"
  av_platform_label :: string
  av_detail :: view_detail

definition autostart_status_view :: "autostart_status \<Rightarrow> autostart_view" where
  "autostart_status_view s =
     \<lparr>av_enabled = as_enabled s, av_entry_path = as_entry_path s, av_platform_label = as_label s, av_detail = Detail (as_detail s)\<rparr>"

definition map_autostart_status :: "string \<Rightarrow> string + autostart_status \<Rightarrow> autostart_view" where
  "map_autostart_status config_path found =
     (case found of
        Inr status \<Rightarrow> autostart_status_view status
      | Inl err \<Rightarrow> \<lparr>av_enabled = False, av_entry_path = [config_path], av_platform_label = ''unavailable'',
          av_detail = Detail_Unreadable err\<rparr>)"

datatype runtime_note = Rn_Missing string | Rn_Left_Over string | Rn_Shown string | Rn_Unreadable string string

definition should_ignore_runtime_snapshot :: "int \<Rightarrow> runtime_snapshot \<Rightarrow> bool" where
  "should_ignore_runtime_snapshot now s \<longleftrightarrow> runtime_state_is_stale now s \<or> rn_status s = ''stopped'' \<or> rn_status s = ''failed''"

text \<open>The runtime state file, if there is one, and what reading it gives.\<close>

definition runtime_snapshot_for_config ::
  "int \<Rightarrow> string \<Rightarrow> runtime_snapshot result option \<Rightarrow> runtime_snapshot option \<times> runtime_note" where
  "runtime_snapshot_for_config now path found =
     (case found of
        None \<Rightarrow> (None, Rn_Missing path)
      | Some (Inl err) \<Rightarrow> (None, Rn_Unreadable path err)
      | Some (Inr s) \<Rightarrow> if should_ignore_runtime_snapshot now s then (None, Rn_Left_Over path) else (Some s, Rn_Shown path))"

datatype raw_note = Raw_From string | Raw_Unreadable string string

definition raw_config_preview_for_path :: "string \<Rightarrow> string result \<Rightarrow> string \<times> raw_note" where
  "raw_config_preview_for_path path contents =
     (case contents of Inr text \<Rightarrow> (text, Raw_From path) | Inl err \<Rightarrow> ([], Raw_Unreadable path err))"

text \<open>What is found outside when a snapshot is built.\<close>

record snapshot_env =
  se_now :: int
  se_hostname :: "string option"
  se_config :: "agent_config result"
  se_runtime_path :: string
  se_runtime :: "runtime_snapshot result option"
  se_raw :: "string result"
  se_autostart :: "string + autostart_status"

record desktop_snapshot =
  sn_config_path :: string
  sn_server_url :: string
  sn_device_name :: string
  sn_device_id :: "string option"
  sn_session :: session_summary
  sn_status :: agent_status_report
  sn_network :: "network_snapshot option"
  sn_network_note :: desktop_text
  sn_agent_state :: string
  sn_agent_note :: desktop_text
  sn_runtime :: "runtime_snapshot option"
  sn_runtime_note :: runtime_note
  sn_autostart :: autostart_view
  sn_services :: "service_draft list"
  sn_forwards :: "rule_draft list"
  sn_raw :: string
  sn_raw_note :: raw_note
  sn_output :: desktop_text

definition build_snapshot :: "snapshot_env \<Rightarrow> string \<Rightarrow> desktop_state \<Rightarrow> desktop_snapshot desktop_result" where
  "build_snapshot env path st =
     result_bind (map_sum Agent_Error id (se_config env)) (\<lambda>c.
       let runtime = runtime_snapshot_for_config (se_now env) (se_runtime_path env) (se_runtime env);
           raw = raw_config_preview_for_path path (se_raw env)
       in Inr \<lparr>sn_config_path = path, sn_server_url = cf_server_url c,
            sn_device_name = (if blank (cf_device_name c) then default_device_name (se_hostname env) else cf_device_name c),
            sn_device_id = cf_device_id c, sn_session = render_session_summary (se_now env) c,
            sn_status = build_status_report (se_now env) c (dk_network st) (dk_error st),
            sn_network = dk_network st, sn_network_note = dk_network_note st,
            sn_agent_state = managed_agent_state_str (mg_state (dk_agent st)), sn_agent_note = mg_note (dk_agent st),
            sn_runtime = fst runtime, sn_runtime_note = snd runtime, sn_autostart = map_autostart_status path (se_autostart env),
            sn_services = map service_draft_from_config (cf_published_services c),
            sn_forwards = map rule_draft_from_config (cf_forward_rules c),
            sn_raw = fst raw, sn_raw_note = snd raw, sn_output = dk_output st\<rparr>)"

section \<open>Commands\<close>

text \<open>
  The notice of an answer is named by its title; the messages repeat what the output says. The flag
  tells the form to forget the join token.
\<close>

datatype notice =
    No_Config_Loaded
  | No_Config_Saved
  | No_Joined
  | No_Heartbeat
  | No_Network_Refreshed
  | No_Status_Refreshed
  | No_Status_Failed string
  | No_Services_Published nat
  | No_Agent_Started bool
  | No_Agent_Stopping
  | No_Autostart bool autostart_detail

fun notice_level :: "notice \<Rightarrow> string" where
  "notice_level (No_Status_Failed _) = ''error''"
| "notice_level No_Agent_Stopping = ''info''"
| "notice_level _ = ''success''"

record action_response =
  an_notice :: notice
  an_clear_join_token :: bool
  an_snapshot :: desktop_snapshot

definition response :: "snapshot_env \<Rightarrow> string \<Rightarrow> notice \<Rightarrow> bool \<Rightarrow> desktop_state \<Rightarrow> action_response desktop_result" where
  "response env path notice clear st =
     map_sum id (\<lambda>s. \<lparr>an_notice = notice, an_clear_join_token = clear, an_snapshot = s\<rparr>) (build_snapshot env path st)"

definition resolve_config_path :: "string \<Rightarrow> string option \<Rightarrow> desktop_state \<Rightarrow> string \<times> desktop_state" where
  "resolve_config_path def_path requested st =
     (let path = (case requested of Some v \<Rightarrow> if blank v then def_path else trim v | None \<Rightarrow> def_path)
      in (path, st\<lparr>dk_path := path\<rparr>))"

text \<open>What every command is called with.\<close>

record command_env =
  ce_default_path :: string
  ce_joined :: joined
  ce_snapshot :: snapshot_env

definition command_begin :: "command_env \<Rightarrow> string option \<Rightarrow> desktop_state \<Rightarrow> string \<times> desktop_state" where
  "command_begin ce requested st =
     resolve_config_path (ce_default_path ce) requested (reconcile_managed_agent (ce_joined ce) st)"

text \<open>The command ends with an answer, or with the error it met.\<close>

definition answered where
  "answered ce path notice clear st = (response (ce_snapshot ce) path notice clear st, st)"

definition desktop_snapshot_command where
  "desktop_snapshot_command ce requested st =
     (case command_begin ce requested st of (path, st1) \<Rightarrow> (build_snapshot (ce_snapshot ce) path st1, st1))"

definition load_config_command where
  "load_config_command ce config_path loaded st =
     (case command_begin ce (Some config_path) st of
        (path, st1) \<Rightarrow>
          (case (loaded :: agent_config result) of
             Inl e \<Rightarrow> (Inl (Agent_Error e), st1)
           | Inr _ \<Rightarrow> answered ce path No_Config_Loaded False
               (st1\<lparr>dk_network := None, dk_error := None, dk_network_note := Tx_Network_Unread, dk_output := Tx_Config_Loaded path\<rparr>)))"

definition save_config_command where
  "save_config_command ce hostname loaded io rq st =
     (case command_begin ce (Some (sq_config_path rq)) st of
        (path, st1) \<Rightarrow>
          (case save_config_from_drafts hostname loaded io rq of
             Inl e \<Rightarrow> (Inl e, st1)
           | Inr c \<Rightarrow> answered ce path No_Config_Saved False
               (st1\<lparr>dk_output := Tx_Config_Saved path (length (cf_published_services c)) (length (cf_forward_rules c))\<rparr>)))"

definition join_network_command where
  "join_network_command ce config_path (joined :: agent_runtime result) st =
     (case command_begin ce (Some config_path) st of
        (path, st1) \<Rightarrow>
          (case joined of
             Inl e \<Rightarrow> (Inl (Agent_Error e), st1)
           | Inr _ \<Rightarrow> answered ce path No_Joined True
               (st1\<lparr>dk_network := None, dk_error := None, dk_network_note := Tx_Joined_Refresh, dk_output := Tx_Joined path\<rparr>)))"

text \<open>Loading the agent from the file, then its operation.\<close>

definition heartbeat_command where
  "heartbeat_command ce config_path (loaded :: agent_runtime result) (beat :: agent_runtime \<Rightarrow> unit result) st =
     (case command_begin ce (Some config_path) st of
        (path, st1) \<Rightarrow>
          (case result_bind loaded beat of
             Inl e \<Rightarrow> (Inl (Agent_Error e), st1)
           | Inr _ \<Rightarrow> answered ce path No_Heartbeat False (st1\<lparr>dk_output := Tx_Heartbeat_Ok\<rparr>)))"

definition network_shown :: "network_snapshot \<Rightarrow> desktop_state \<Rightarrow> desktop_state" where
  "network_shown snap st =
     st\<lparr>dk_network_note := Tx_Network_Updated (length (ns_devices snap)) (length (ns_services snap)), dk_error := None,
        dk_network := Some snap\<rparr>"

definition refresh_network_command where
  "refresh_network_command ce config_path (loaded :: agent_runtime result) snapshot st =
     (case command_begin ce (Some config_path) st of
        (path, st1) \<Rightarrow>
          (case result_bind loaded snapshot of
             Inl e \<Rightarrow> (Inl (Agent_Error e), st1)
           | Inr snap \<Rightarrow> answered ce path No_Network_Refreshed False ((network_shown snap st1)\<lparr>dk_output := Tx_Snapshot_Json snap\<rparr>)))"

definition refresh_status_command where
  "refresh_status_command ce config_path (loaded :: agent_runtime result) snapshot st =
     (case command_begin ce (Some config_path) st of
        (path, st1) \<Rightarrow>
          (case result_bind loaded snapshot of
             Inl err \<Rightarrow> answered ce path (No_Status_Failed err) False
               (st1\<lparr>dk_error := Some err, dk_network_note := Tx_Network_Failed err, dk_output := Tx_Status_Failed err\<rparr>)
           | Inr snap \<Rightarrow> answered ce path No_Status_Refreshed False ((network_shown snap st1)\<lparr>dk_output := Tx_Status_Ok\<rparr>)))"

text \<open>Every service in turn; the first failure ends it.\<close>

fun publish_all ::
  "(published_service_config \<Rightarrow> agent_runtime \<Rightarrow> service_definition result \<times> agent_runtime) \<Rightarrow> published_service_config list
     \<Rightarrow> agent_runtime \<Rightarrow> service_definition list result \<times> agent_runtime" where
  "publish_all publish [] r = (Inr [], r)"
| "publish_all publish (s # ss) r =
     (case publish s r of
        (Inl e, r1) \<Rightarrow> (Inl e, r1)
      | (Inr sd, r1) \<Rightarrow> (case publish_all publish ss r1 of (res, r2) \<Rightarrow> (map_sum id (\<lambda>sds. sd # sds) res, r2)))"

definition publish_services_command where
  "publish_services_command ce hostname loaded io rq (runtime :: agent_runtime result) publish
       (snapshot :: agent_runtime \<Rightarrow> network_snapshot result) st =
     (case command_begin ce (Some (sq_config_path rq)) st of
        (path, st1) \<Rightarrow>
          (case save_config_from_drafts hostname loaded io rq of
             Inl e \<Rightarrow> (Inl e, st1)
           | Inr c \<Rightarrow>
               (case runtime of
                  Inl e \<Rightarrow> (Inl (Agent_Error e), st1)
                | Inr r \<Rightarrow>
                    (case publish_all publish (cf_published_services c) r of
                       (Inl e, _) \<Rightarrow> (Inl (Agent_Error e), st1)
                     | (Inr published, r1) \<Rightarrow>
                         let st2 = (case snapshot r1 of Inr snap \<Rightarrow> network_shown snap st1 | Inl _ \<Rightarrow> st1\<lparr>dk_network := None\<rparr>)
                         in answered ce path (No_Services_Published (length published)) False
                              (st2\<lparr>dk_error := None, dk_output := Tx_Published_Json published\<rparr>)))))"

text \<open>Starting saves first and looks after the agent then; stopping takes the path first.\<close>

definition start_managed_agent_command where
  "start_managed_agent_command ce hostname loaded io rq joined' later joined'' config runtime t st =
     (case resolve_config_path (ce_default_path ce) (Some (sq_config_path rq)) st of
        (path, st1) \<Rightarrow>
          (case save_config_from_drafts hostname loaded io rq of
             Inl e \<Rightarrow> (Inl e, st1)
           | Inr _ \<Rightarrow>
               (case restart_managed_agent (ce_joined ce) joined' later joined''
                       (preflight_managed_agent_start path Interactive config runtime) t st1 of
                  (Inl e, st2) \<Rightarrow> (Inl e, st2)
                | (Inr was_running, st2) \<Rightarrow> answered ce path (No_Agent_Started was_running) False st2)))"

definition stop_managed_agent_command where
  "stop_managed_agent_command ce config_path st =
     (case resolve_config_path (ce_default_path ce) (Some config_path) st of
        (path, st1) \<Rightarrow>
          (case stop_managed_agent_for_current_path (ce_joined ce) st1 of
             (Inl e, st2) \<Rightarrow> (Inl e, st2)
           | (Inr _, st2) \<Rightarrow> answered ce path No_Agent_Stopping False st2))"

definition autostart_toggled :: "autostart_status \<Rightarrow> desktop_state \<Rightarrow> desktop_state" where
  "autostart_toggled next st = st\<lparr>dk_output := Tx_Autostart next\<rparr>"

definition toggle_autostart_command where
  "toggle_autostart_command ce config_path (toggled :: string + autostart_status) st =
     (case command_begin ce (Some config_path) st of
        (path, st1) \<Rightarrow>
          (case toggled of
             Inl e \<Rightarrow> (Inl (Agent_Error e), st1)
           | Inr status \<Rightarrow> answered ce path (No_Autostart (as_enabled status) (as_detail status)) False (autostart_toggled status st1)))"

text \<open>The tray's menu entry does the same for the path of the moment, without an answer.\<close>

definition toggle_autostart_for_current_path where
  "toggle_autostart_for_current_path (toggled :: string + autostart_status) st =
     (case toggled of Inl e \<Rightarrow> (Inl (Agent_Error e), st) | Inr status \<Rightarrow> (Inr (), autostart_toggled status st))"

text \<open>The tray's menu: by the id of the entry; failures are dropped.\<close>

datatype window_effect = Show_Window | Hide_Window | Close_Window

definition tray_menu ::
  "string \<Rightarrow> (desktop_state \<Rightarrow> unit desktop_result \<times> desktop_state) \<Rightarrow> string + autostart_status \<Rightarrow> desktop_state
     \<Rightarrow> window_effect list \<times> desktop_state" where
  "tray_menu entry agent_toggle toggled st =
     (if entry = ''show_window'' then ([Show_Window], st)
      else if entry = ''hide_window'' then ([Hide_Window], st)
      else if entry = ''toggle_agent'' then ([], snd (agent_toggle st))
      else if entry = ''toggle_autostart'' then ([], snd (toggle_autostart_for_current_path toggled st))
      else if entry = ''quit_app'' then ([Close_Window], request_quit st)
      else ([], st))"

text \<open>A click on its icon.\<close>

definition toggle_main_window :: "bool \<Rightarrow> window_effect list" where
  "toggle_main_window visible = (if visible then [Hide_Window] else [Show_Window])"

end
