(* ===== verification/DesktopDraftsProps.thy ===== *)
theory DesktopDraftsProps
  imports DesktopDrafts ConfigProps
begin

text \<open>
  The desktop's forms are faithful to the configuration: what is read from a form is valid and in normal
  form, and a form filled from an entry in normal form gives that entry again.
\<close>

section \<open>Normal forms\<close>

definition word_ok :: "string \<Rightarrow> bool" where
  "word_ok s \<longleftrightarrow> trim s = s \<and> s \<noteq> []"

definition service_normal :: "published_service_config \<Rightarrow> bool" where
  "service_normal s \<longleftrightarrow>
     word_ok (ps_name s) \<and> word_ok (ps_target_host s) \<and> 0 < ps_target_port s \<and> ps_target_port s \<le> u16_max
     \<and> (\<forall>i\<in>set (ps_allowed_device_ids s). word_ok i \<and> CHR '','' \<notin> set i)
     \<and> trim (ps_direct_udp_bind_addr s) = ps_direct_udp_bind_addr s
     \<and> (ps_direct_enabled s \<longrightarrow> ps_direct_udp_bind_addr s \<noteq> [])
     \<and> word_ok (ps_direct_candidate_type s) \<and> 0 < ps_direct_wait_seconds s \<and> ps_direct_wait_seconds s \<le> u64_max"

definition rule_normal :: "local_forward_config \<Rightarrow> bool" where
  "rule_normal r \<longleftrightarrow>
     word_ok (fr_name r) \<and> word_ok (fr_target_device_id r) \<and> word_ok (fr_service_name r) \<and> word_ok (fr_local_bind_addr r)
     \<and> fr_transport_mode r \<in> {''relay'', ''auto''}
     \<and> trim (fr_direct_udp_bind_addr r) = fr_direct_udp_bind_addr r
     \<and> (fr_transport_mode r = ''auto'' \<longrightarrow> fr_direct_udp_bind_addr r \<noteq> [])
     \<and> word_ok (fr_direct_candidate_type r) \<and> 0 < fr_direct_wait_seconds r \<and> fr_direct_wait_seconds r \<le> u64_max"

lemma word_ok_not_blank [simp]: "word_ok s \<Longrightarrow> \<not> blank s"
  by (simp add: word_ok_def blank_def)

lemma word_ok_trim: "word_ok (trim s) \<longleftrightarrow> \<not> blank s"
  by (simp add: word_ok_def blank_def)

section \<open>Fields\<close>

lemma wait_seconds_Inr: "wait_seconds_of f z t = Inr n \<Longrightarrow> 0 < n \<and> n \<le> u64_max"
  by (auto simp: wait_seconds_of_def default_direct_wait_seconds_def u64_max_def dest: parse_uint_bound split: if_splits sum.splits)

lemma wait_seconds_show: "0 < n \<Longrightarrow> n \<le> u64_max \<Longrightarrow> wait_seconds_of f z (show_nat n) = Inr n"
  by (simp add: wait_seconds_of_def blank_def parse_show)

lemma candidate_type_ok: "word_ok (candidate_type_of t)"
proof -
  have "word_ok default_direct_candidate_type" unfolding word_ok_def by code_simp
  then show ?thesis by (simp add: candidate_type_of_def word_ok_trim)
qed

lemma candidate_type_normal: "word_ok t \<Longrightarrow> candidate_type_of t = t"
  by (simp add: candidate_type_of_def) (simp add: word_ok_def)

lemma split_on_no_sep: "x \<in> set (split_on c s) \<Longrightarrow> c \<notin> set x"
  by (induction s arbitrary: x) (auto split: list.splits if_splits)

lemma set_trim: "set (trim s) \<subseteq> set s"
proof -
  have "set (dropWhile is_whitespace xs) \<subseteq> set xs" for xs by (auto dest: set_dropWhileD)
  from this [of "rev (dropWhile is_whitespace s)"] this [of s] show ?thesis by (auto simp: trim_def)
qed

lemma split_csv_ok: "i \<in> set (split_csv raw) \<Longrightarrow> word_ok i \<and> CHR '','' \<notin> set i"
  using set_trim split_on_no_sep by (fastforce simp: split_csv_def word_ok_def)

lemma split_csv_join:
  assumes "\<And>x. x \<in> set xs \<Longrightarrow> word_ok x \<and> CHR '','' \<notin> set x"
  shows "split_csv (join_with '','' xs) = xs"
proof (cases "xs = []")
  case True
  then show ?thesis by (simp add: split_csv_def trim_def)
next
  case False
  with assms have "split_on (CHR '','') (join_with '','' xs) = xs" by (intro split_join) auto
  moreover have "map trim xs = xs" using assms by (simp add: map_idI word_ok_def)
  ultimately show ?thesis using assms by (simp add: split_csv_def word_ok_def)
qed

section \<open>Entries\<close>

lemma service_draft_normal: "service_draft_to_config i d = Inr s \<Longrightarrow> service_normal s"
  using parse_uint_bound wait_seconds_Inr
  by (auto simp: service_draft_to_config_def Let_def service_normal_def result_bind_Inr_iff candidate_type_ok split_csv_ok word_ok_trim
      blank_def split: if_splits sum.splits)

lemma service_draft_back: "service_normal s \<Longrightarrow> service_draft_to_config i (service_draft_from_config s) = Inr s"
  by (simp add: service_normal_def service_draft_to_config_def service_draft_from_config_def Let_def word_ok_def
      parse_show wait_seconds_show split_csv_join candidate_type_normal)

lemma rule_draft_normal: "rule_draft_to_config i d = Inr r \<Longrightarrow> rule_normal r"
  using wait_seconds_Inr
  by (auto simp: rule_draft_to_config_def Let_def rule_normal_def result_bind_Inr_iff candidate_type_ok word_ok_trim blank_def
      split: if_splits)

lemma mode_normal:
  "m \<in> {''relay'', ''auto''} \<Longrightarrow> (if blank m then default_forward_transport else to_ascii_lowercase (trim m)) = m"
  by (elim insertE emptyE; simp only:; code_simp)

lemma rule_draft_back: "rule_normal r \<Longrightarrow> rule_draft_to_config i (rule_draft_from_config r) = Inr r"
  using mode_normal [of "fr_transport_mode r"]
  by (auto simp: rule_normal_def rule_draft_to_config_def rule_draft_from_config_def Let_def word_ok_def blank_def
      wait_seconds_show candidate_type_normal)

lemma collect_back:
  "(\<And>i c. c \<in> set cs \<Longrightarrow> f i (g c) = Inr c) \<Longrightarrow> collect_drafts f i (map g cs) = Inr cs"
  by (induction cs arbitrary: i) simp_all

lemma map_sum_Inr_iff: "map_sum g f x = Inr y \<longleftrightarrow> (\<exists>a. x = Inr a \<and> y = f a)"
  by (cases x) auto

lemma collect_all: "collect_drafts f i ds = Inr cs \<Longrightarrow> c \<in> set cs \<Longrightarrow> \<exists>i d. f i d = Inr c"
  by (induction f i ds arbitrary: cs rule: collect_drafts.induct) (auto simp: result_bind_Inr_iff map_sum_Inr_iff, blast)

lemma service_normal_wf: "service_normal s \<Longrightarrow> service_wf s"
  by (auto simp: service_normal_def service_wf_def validate_published_service_config_def) (simp_all add: word_ok_def blank_def)

lemma rule_normal_wf: "rule_normal r \<Longrightarrow> rule_wf r"
proof -
  assume r: "rule_normal r"
  have "normalize_forward_transport_mode ''relay'' = Inr ''relay''" "normalize_forward_transport_mode ''auto'' = Inr ''auto''"
    "\<not> forward_transport_is_auto ''relay''"
    by code_simp+
  with r show ?thesis
    by (auto simp: rule_normal_def rule_wf_def validate_forward_rule_def) (simp_all add: blank_def word_ok_def)
qed

text \<open>
  A form filled from an entry of the configuration is read back as that very entry if and only if the
  entry is in normal form: texts without surrounding blanks, device ids without commas, a port and a
  number of seconds that are in range and not zero, an address where one is needed. Everything a form is
  read as is in normal form.
\<close>

theorem forms_are_faithful:
  "(service_draft_to_config i (service_draft_from_config s) = Inr s \<longleftrightarrow> service_normal s)
   \<and> (rule_draft_to_config i (rule_draft_from_config r) = Inr r \<longleftrightarrow> rule_normal r)
   \<and> (case service_draft_to_config i d of Inl _ \<Rightarrow> True | Inr s' \<Rightarrow> service_normal s')
   \<and> (case rule_draft_to_config i e of Inl _ \<Rightarrow> True | Inr r' \<Rightarrow> rule_normal r')"
  using service_draft_normal service_draft_back rule_draft_normal rule_draft_back by (auto split: sum.split)

section \<open>Saving\<close>

text \<open>The form of a configuration, and the request that saves it.\<close>

definition form_of :: "string \<Rightarrow> agent_config \<Rightarrow> save_config_request" where
  "form_of path c = \<lparr>sq_config_path = path, sq_server_url = cf_server_url c, sq_device_name = cf_device_name c,
     sq_service_drafts = map service_draft_from_config (cf_published_services c),
     sq_forward_drafts = map rule_draft_from_config (cf_forward_rules c)\<rparr>"

lemma saved_entries:
  assumes "save_config_from_drafts h loaded io rq = Inr c"
  shows "\<forall>s\<in>set (cf_published_services c). service_normal s" "\<forall>r\<in>set (cf_forward_rules c). rule_normal r"
    "trim (cf_server_url c) = cf_server_url c"
    "cf_device_name c = (if blank (sq_device_name rq) then default_device_name h else trim (sq_device_name rq))"
    "\<exists>c0. loaded = Inr c0 \<and> cf_session_token c = cf_session_token c0 \<and> cf_session_expires_at c = cf_session_expires_at c0
       \<and> cf_device_id c = cf_device_id c0 \<and> cf_private_key_base64 c = cf_private_key_base64 c0
       \<and> cf_relay_private_key_base64 c = cf_relay_private_key_base64 c0"
  using assms
  by (auto simp: save_config_from_drafts_def result_bind_Inr_iff Let_def map_sum_Inr_iff collect_published_services_from_drafts_def
      collect_forward_rules_from_drafts_def dest: collect_all service_draft_normal rule_draft_normal)

lemma save_form:
  assumes "\<forall>s\<in>set (cf_published_services c). service_normal s" "\<forall>r\<in>set (cf_forward_rules c). rule_normal r"
    "trim (cf_server_url c) = cf_server_url c" "word_ok (cf_device_name c)"
  shows "save_config_from_drafts h (Inr c) (Inr ()) (form_of path c) = Inr c"
proof -
  have "collect_published_services_from_drafts (map service_draft_from_config (cf_published_services c)) = Inr (cf_published_services c)"
    unfolding collect_published_services_from_drafts_def using assms(1) by (intro collect_back service_draft_back) blast
  moreover have "collect_forward_rules_from_drafts (map rule_draft_from_config (cf_forward_rules c)) = Inr (cf_forward_rules c)"
    unfolding collect_forward_rules_from_drafts_def using assms(2) by (intro collect_back rule_draft_back) blast
  ultimately show ?thesis
    using assms(3,4) word_ok_not_blank [OF assms(4)] by (simp add: save_config_from_drafts_def form_of_def word_ok_def)
qed

text \<open>
  C34. Saving the forms is stable: the configuration that is saved keeps the session and the keys of the file,
  passes the agent's validation, and showing it again and saving the unchanged forms saves the same
  configuration. (The host name is one word, or there is none.)
\<close>

theorem saved_forms_are_stable:
  assumes "save_config_from_drafts h loaded io rq = Inr c" "\<And>n. h = Some n \<Longrightarrow> trim n = n"
  shows "save_config_from_drafts h (Inr c) (Inr ()) (form_of path c) = Inr c
    \<and> validate_runtime_config c = Inr ()
    \<and> (\<forall>c0. loaded = Inr c0 \<longrightarrow> cf_session_token c = cf_session_token c0 \<and> cf_device_id c = cf_device_id c0
        \<and> cf_private_key_base64 c = cf_private_key_base64 c0)"
proof -
  note entries = saved_entries [OF assms(1)]
  have "word_ok ''minipunch-device''" unfolding word_ok_def by code_simp
  then have "word_ok (default_device_name h)"
    using assms(2) by (auto simp: default_device_name_def word_ok_def blank_def split: option.split)
  then have "word_ok (cf_device_name c)" using entries(4) by (simp add: word_ok_trim)
  with save_form [of c h path] entries(1-3) have "save_config_from_drafts h (Inr c) (Inr ()) (form_of path c) = Inr c" by blast
  moreover have "validate_runtime_config c = Inr ()"
    using entries(1,2) service_normal_wf rule_normal_wf
    by (auto simp: validate_runtime_config_def result_bind_Inr_iff first_error_all list_all_iff service_wf_def rule_wf_def)
  ultimately show ?thesis using entries(5) by auto
qed

text \<open>What the forms do not check: that the names are different.\<close>

lemma same_name_twice:
  assumes "service_normal s"
  shows "collect_published_services_from_drafts [service_draft_from_config s, service_draft_from_config s] = Inr [s, s]
    \<and> \<not> distinct (map ps_name [s, s])"
  using service_draft_back [OF assms] by (simp add: collect_published_services_from_drafts_def)

section \<open>Starting at boot\<close>

text \<open>
  The launch arguments of an installed autostart entry start the agent in the background, in the mode
  for booting, with the configuration the entry was made for; and a configuration passes the check for
  booting exactly if an earlier join has left it with a server, a name, a device and both keys.
\<close>

theorem boot_arguments:
  "parse_launch_args [''--autostart'', ''--config'', path] no_launch_args
     = \<lparr>la_config_path = Some path, la_background = True, la_start_agent = True, la_autostart = True\<rparr>
   \<and> uses_boot_managed_agent_mode (parse_launch_args [''--autostart'', ''--config'', path] no_launch_args)
   \<and> (validate_boot_ready_config c = Inr () \<longleftrightarrow>
       \<not> blank (cf_server_url c) \<and> \<not> blank (cf_device_name c) \<and> present (cf_device_id c)
       \<and> present (cf_private_key_base64 c) \<and> present (cf_relay_private_key_base64 c))"
  by (simp add: no_launch_args_def uses_boot_managed_agent_mode_def validate_boot_ready_config_def)

section \<open>Witnesses\<close>

theorem forms_are_faithful_witness:
  "service_draft_to_config 0 (service_draft_from_config
      \<lparr>ps_name = ''web'', ps_target_host = ''localhost'', ps_target_port = 80, ps_allowed_device_ids = [''a'', ''b''],
       ps_direct_enabled = False, ps_direct_udp_bind_addr = [], ps_direct_candidate_type = ''local'', ps_direct_wait_seconds = 5\<rparr>)
     = Inr \<lparr>ps_name = ''web'', ps_target_host = ''localhost'', ps_target_port = 80, ps_allowed_device_ids = [''a'', ''b''],
       ps_direct_enabled = False, ps_direct_udp_bind_addr = [], ps_direct_candidate_type = ''local'', ps_direct_wait_seconds = 5\<rparr>"
  using forms_are_faithful
  by (rule conjunct1 [THEN iffD2]) (simp add: service_normal_def word_ok_def trim_def is_whitespace_def u16_max_def u64_max_def)

definition demo_form :: save_config_request where
  "demo_form = \<lparr>sq_config_path = ''agent.toml'', sq_server_url = ''http://m '', sq_device_name = '' '', sq_service_drafts = [],
     sq_forward_drafts = []\<rparr>"

theorem saved_forms_are_stable_witness:
  "\<exists>c. save_config_from_drafts (Some ''box'') (Inr agent_config_default) (Inr ()) demo_form = Inr c \<and> cf_device_name c = ''box''
     \<and> save_config_from_drafts (Some ''box'') (Inr c) (Inr ()) (form_of ''agent.toml'' c) = Inr c"
proof -
  obtain c where c: "save_config_from_drafts (Some ''box'') (Inr agent_config_default) (Inr ()) demo_form = Inr c"
    by (simp add: save_config_from_drafts_def demo_form_def collect_published_services_from_drafts_def
        collect_forward_rules_from_drafts_def)
  have "blank (sq_device_name demo_form)" "default_device_name (Some ''box'') = ''box''" by code_simp+
  then have "cf_device_name c = ''box''" using saved_entries(4) [OF c] by simp
  moreover have "trim ''box'' = ''box''" by code_simp
  ultimately show ?thesis using saved_forms_are_stable [OF c, of "''agent.toml''"] c by auto
qed

end
