(* ===== verification/DesktopProps.thy ===== *)
theory DesktopProps
  imports DesktopCommands DesktopDraftsProps SupervisorProps
begin

text \<open>
  What the desktop application promises of the agent it manages: no runtime escapes its control, however
  its commands are interleaved; one after the other they never run two agents at once; and where the
  application and its running agent disagree about the configuration.
\<close>

section \<open>Commands as sections\<close>

text \<open>What happens under the lock at once, in whatever order the commands get it.\<close>

datatype agent_section =
    As_Take joined
  | As_Note joined_task bool
  | As_Start_Failed desktop_error
  | As_Install nat
  | As_Stop
  | As_Path string
  | As_Output desktop_text

fun section_exec :: "agent_section \<Rightarrow> desktop_state \<Rightarrow> desktop_state" where
  "section_exec (As_Take joined) st = snd (reconcile_take joined st)"
| "section_exec (As_Note result was_stopping) st = reconcile_note result was_stopping st"
| "section_exec (As_Start_Failed e) st = note_managed_agent_start_failure e st"
| "section_exec (As_Install t) st = start_install t st"
| "section_exec As_Stop st = snd (stop_request st)"
| "section_exec (As_Path p) st = st\<lparr>dk_path := p\<rparr>"
| "section_exec (As_Output x) st = st\<lparr>dk_output := x\<rparr>"

text \<open>Every runtime is the one the stop button reaches, or has been asked to stop.\<close>

definition controlled :: "desktop_state \<Rightarrow> bool" where
  "controlled st \<longleftrightarrow> (\<forall>t\<in>set (dk_spawned st). mg_shutdown (dk_agent st) = Some t \<or> t \<in> dk_asked st)"

lemmas agent_setters = set_shutdown_def set_agent_def set_task_def

lemma reconcile_take_frame:
  "mg_shutdown (dk_agent (snd (reconcile_take joined st))) = mg_shutdown (dk_agent st)"
  "dk_spawned (snd (reconcile_take joined st)) = dk_spawned st" "dk_asked (snd (reconcile_take joined st)) = dk_asked st"
  by (simp_all add: reconcile_take_def agent_setters split: option.split)

lemma reconcile_note_frame:
  "dk_spawned (reconcile_note result w st) = dk_spawned st" "mg_shutdown (dk_agent (reconcile_note result w st)) = None"
  "mg_task (dk_agent (reconcile_note result w st)) = mg_task (dk_agent st)"
  "dk_asked (reconcile_note result w st) = dk_asked st \<union> set_option (mg_shutdown (dk_agent st))"
  "mg_state (dk_agent (reconcile_note result w st)) \<in> {Ma_Stopped, Ma_Failed}"
  by (cases result; simp add: reconcile_note_def agent_setters)+

lemma section_controlled: "controlled st \<Longrightarrow> controlled (section_exec op st)"
proof (cases op)
  case (As_Take joined)
  assume "controlled st"
  then show ?thesis by (simp add: As_Take controlled_def reconcile_take_frame)
next
  case (As_Note result w)
  assume "controlled st"
  then show ?thesis by (auto simp: As_Note controlled_def reconcile_note_frame)
next
  case As_Stop
  assume "controlled st"
  then show ?thesis by (auto simp: As_Stop controlled_def stop_request_def agent_setters split: option.split)
qed (auto simp: controlled_def note_managed_agent_start_failure_def start_install_def agent_setters)

definition section_run :: "agent_section list \<Rightarrow> desktop_state \<Rightarrow> desktop_state" where
  "section_run ops st = fold section_exec ops st"

interpretation desk: invariant_system controlled section_exec
  rewrites "invariant_system.run section_exec = section_run"
proof -
  show inv: "invariant_system controlled section_exec"
    by unfold_locales (rule section_controlled)
  show "invariant_system.run section_exec = section_run"
    by (intro ext) (simp add: invariant_system.run_def [OF inv] section_run_def)
qed

text \<open>
  C18. However the commands of the application are interleaved, no runtime it has started escapes: each is
  the one that the stop button reaches, or it has been asked to stop, because it was told to or because
  its sender was dropped.
\<close>

theorem no_runtime_escapes:
  "\<forall>t\<in>set (dk_spawned (section_run ops (desktop_state_new path))).
     mg_shutdown (dk_agent (section_run ops (desktop_state_new path))) = Some t
     \<or> t \<in> dk_asked (section_run ops (desktop_state_new path))"
proof -
  have "controlled (desktop_state_new path)" by (simp add: controlled_def desktop_state_new_def)
  from desk.run_inv [OF this] show ?thesis by (simp add: controlled_def)
qed

section \<open>One command after the other\<close>

datatype desktop_op =
    Dk_Reconcile joined
  | Dk_Start joined "agent_runtime desktop_result" nat
  | Dk_Stop joined
  | Dk_Toggle joined joined "agent_runtime desktop_result" nat
  | Dk_Restart joined joined "nat \<Rightarrow> joined" joined "agent_runtime desktop_result" nat
  | Dk_Launch launch_args joined "agent_config result" "agent_runtime result" nat

fun desktop_exec :: "desktop_op \<Rightarrow> desktop_state \<Rightarrow> desktop_state" where
  "desktop_exec (Dk_Reconcile j) st = reconcile_managed_agent j st"
| "desktop_exec (Dk_Start j preflight t) st = snd (start_managed_agent_for_path j preflight t st)"
| "desktop_exec (Dk_Stop j) st = snd (stop_managed_agent_for_current_path j st)"
| "desktop_exec (Dk_Toggle j j' preflight t) st = snd (toggle_managed_agent j j' preflight t st)"
| "desktop_exec (Dk_Restart j j' later j'' preflight t) st = snd (restart_managed_agent j j' later j'' preflight t st)"
| "desktop_exec (Dk_Launch l j config runtime t) st = launch_agent l j config runtime t st"

text \<open>A task is said to have ended only if it has.\<close>

definition tells_truth :: "(nat \<Rightarrow> bool) \<Rightarrow> joined \<Rightarrow> bool" where
  "tells_truth ended j \<longleftrightarrow> (\<forall>t. j t \<noteq> None \<longrightarrow> ended t)"

fun op_truthful :: "(nat \<Rightarrow> bool) \<Rightarrow> desktop_op \<Rightarrow> bool" where
  "op_truthful ended (Dk_Reconcile j) \<longleftrightarrow> tells_truth ended j"
| "op_truthful ended (Dk_Start j _ _) \<longleftrightarrow> tells_truth ended j"
| "op_truthful ended (Dk_Stop j) \<longleftrightarrow> tells_truth ended j"
| "op_truthful ended (Dk_Toggle j j' _ _) \<longleftrightarrow> tells_truth ended j \<and> tells_truth ended j'"
| "op_truthful ended (Dk_Restart j j' later j'' _ _) \<longleftrightarrow>
     tells_truth ended j \<and> tells_truth ended j' \<and> (\<forall>k. tells_truth ended (later k)) \<and> tells_truth ended j''"
| "op_truthful ended (Dk_Launch _ j _ _ _) \<longleftrightarrow> tells_truth ended j"

definition agent_ok :: "(nat \<Rightarrow> bool) \<Rightarrow> desktop_state \<Rightarrow> bool" where
  "agent_ok ended st \<longleftrightarrow>
     mg_task (dk_agent st) = mg_shutdown (dk_agent st)
     \<and> (agent_busy st \<longrightarrow> mg_task (dk_agent st) \<noteq> None)
     \<and> (\<forall>t\<in>set (dk_spawned st). mg_task (dk_agent st) = Some t \<or> ended t)"

lemma agent_ok_new: "agent_ok ended (desktop_state_new path)"
  by (simp add: agent_ok_def desktop_state_new_def managed_agent_new_def agent_busy_def)

lemma reconcile_cases:
  obtains (same) "reconcile_managed_agent j st = st"
  | (noted) t result w where "mg_task (dk_agent st) = Some t" "j t = Some result"
      "reconcile_managed_agent j st = reconcile_note result w (set_task None st)"
proof (cases "mg_task (dk_agent st)")
  case None
  then show ?thesis by (intro same) (simp add: reconcile_managed_agent_def reconcile_take_def)
next
  case (Some t)
  show ?thesis
  proof (cases "j t")
    case None
    then show ?thesis by (intro same) (simp add: reconcile_managed_agent_def reconcile_take_def Some)
  next
    case (Some result)
    show ?thesis
      by (rule noted [OF \<open>mg_task (dk_agent st) = Some t\<close> Some])
        (simp add: reconcile_managed_agent_def reconcile_take_def Some \<open>mg_task (dk_agent st) = Some t\<close>)
  qed
qed

lemma set_task_frame:
  "mg_task (dk_agent (set_task t st)) = t" "dk_spawned (set_task t st) = dk_spawned st"
  "mg_shutdown (dk_agent (set_task t st)) = mg_shutdown (dk_agent st)"
  by (simp_all add: set_task_def)

lemma reconcile_ok: "agent_ok ended st \<Longrightarrow> tells_truth ended j \<Longrightarrow> agent_ok ended (reconcile_managed_agent j st)"
proof (rule reconcile_cases [of j st])
  fix t result w
  assume ok: "agent_ok ended st" "tells_truth ended j" and task: "mg_task (dk_agent st) = Some t" "j t = Some result"
    and noted: "reconcile_managed_agent j st = reconcile_note result w (set_task None st)"
  note frame = reconcile_note_frame [of result w "set_task None st"]
  have "\<not> agent_busy (reconcile_managed_agent j st)" using frame(5) by (auto simp: agent_busy_def noted)
  moreover have "ended t" using ok(2) task(2) by (simp add: tells_truth_def)
  ultimately show ?thesis using ok(1) task(1) by (auto simp: agent_ok_def noted frame(1-3) set_task_frame)
qed simp

lemma stop_request_ok: "agent_ok ended st \<Longrightarrow> agent_ok ended (snd (stop_request st))"
  by (cases "mg_shutdown (dk_agent st)") (auto simp: stop_request_def agent_ok_def agent_busy_def set_agent_def)

lemma stop_ok:
  "agent_ok ended st \<Longrightarrow> tells_truth ended j \<Longrightarrow> agent_ok ended (snd (stop_managed_agent_for_current_path j st))"
  by (simp add: stop_managed_agent_for_current_path_def stop_request_ok reconcile_ok)

lemma install_ok: "agent_ok ended st \<Longrightarrow> start_check st = Inr () \<Longrightarrow> agent_ok ended (start_install t st)"
  by (auto simp: start_check_def start_install_def agent_ok_def agent_setters split: if_splits)

lemma start_ok:
  "agent_ok ended st \<Longrightarrow> tells_truth ended j \<Longrightarrow> agent_ok ended (snd (start_managed_agent_for_path j preflight t st))"
  using reconcile_ok [of ended st j] install_ok [of ended "reconcile_managed_agent j st" t]
  by (simp add: start_managed_agent_for_path_def Let_def split: sum.split)

lemma wait_ok:
  "agent_ok ended st \<Longrightarrow> (\<And>k. tells_truth ended (later k))
    \<Longrightarrow> agent_ok ended (snd (wait_for_managed_agent_shutdown n later k st))"
  by (induction n later k st rule: wait_for_managed_agent_shutdown.induct) (simp_all add: Let_def reconcile_ok)

lemma toggle_ok:
  "agent_ok ended st \<Longrightarrow> tells_truth ended j \<Longrightarrow> tells_truth ended j'
    \<Longrightarrow> agent_ok ended (snd (toggle_managed_agent j j' preflight t st))"
  by (simp add: toggle_managed_agent_def Let_def reconcile_ok stop_ok start_ok)

lemma restart_ok:
  assumes "agent_ok ended st" "tells_truth ended j" "tells_truth ended j'" "\<And>k. tells_truth ended (later k)" "tells_truth ended j''"
  shows "agent_ok ended (snd (restart_managed_agent j j' later j'' preflight t st))"
proof -
  let ?st1 = "reconcile_managed_agent j st"
  obtain res2 st2 where stop: "stop_managed_agent_for_current_path j' ?st1 = (res2, st2)" by fastforce
  obtain res3 st3 where wait: "wait_for_managed_agent_shutdown shutdown_max_attempts later 0 st2 = (res3, st3)" by fastforce
  have ok1: "agent_ok ended ?st1" using assms(1,2) by (rule reconcile_ok)
  have ok2: "agent_ok ended st2" using stop_ok [OF ok1 assms(3)] by (simp add: stop)
  have ok3: "agent_ok ended st3" using wait_ok [where n = shutdown_max_attempts and k = 0 and later = later, OF ok2 assms(4)] by (simp add: wait)
  show ?thesis
    using start_ok [OF ok1 assms(5)] start_ok [OF ok3 assms(5)] ok2 ok3
    by (simp add: restart_managed_agent_def Let_def stop wait split_beta split: sum.split)
qed

lemma note_failure_ok: "agent_ok ended st \<Longrightarrow> agent_ok ended (note_managed_agent_start_failure e st)"
  by (auto simp: note_managed_agent_start_failure_def set_agent_def agent_ok_def agent_busy_def)

lemma request_quit_ok [simp]: "agent_ok ended (request_quit st) = agent_ok ended st"
  by (simp add: request_quit_def agent_ok_def agent_busy_def)

lemma launch_ok: "agent_ok ended st \<Longrightarrow> tells_truth ended j \<Longrightarrow> agent_ok ended (launch_agent l j config runtime t st)"
proof -
  let ?p = "preflight_managed_agent_start (dk_path st) (launch_trigger l) config runtime"
  assume ok: "agent_ok ended st" "tells_truth ended j"
  obtain res st1 where started: "start_managed_agent_for_path j ?p t st = (res, st1)" by fastforce
  have "agent_ok ended st1" using start_ok [OF ok, of ?p t] by (simp add: started)
  with ok(1) note_failure_ok show ?thesis by (cases res) (simp_all add: launch_agent_def started Let_def)
qed

lemma desktop_exec_ok: "agent_ok ended st \<Longrightarrow> op_truthful ended op \<Longrightarrow> agent_ok ended (desktop_exec op st)"
  by (cases op) (simp_all add: reconcile_ok start_ok stop_ok toggle_ok restart_ok launch_ok)


section \<open>Where commands overlap\<close>

text \<open>
  Commands do overlap: they wait between their sections. When a command looks after a task that has
  ended and, before it writes that down, another one starts the agent again, then the first one drops the
  sender of the new runtime. Nobody has asked the new agent to stop, and yet it is stopped; until it has
  ended, stopping says that no agent is running and starting says that one is.
\<close>

theorem late_note_stops_new_agent:
  assumes "j old = Some result" "mg_task (dk_agent st) = Some old" "st1 = section_run [As_Take j, As_Install new, As_Note result w] st"
  shows "start_check (section_run [As_Take j] st) = Inr ()
    \<and> new \<in> dk_asked st1 \<and> mg_state (dk_agent st1) \<in> {Ma_Stopped, Ma_Failed}
    \<and> fst (stop_request st1) = Inl Agent_Not_Running \<and> start_check st1 = Inl Agent_Already_Running"
proof -
  let ?st0 = "start_install new (set_task None st)"
  have st1: "st1 = reconcile_note result w ?st0"
    using assms(1,2) by (simp add: assms(3) section_run_def reconcile_take_def)
  have "mg_shutdown (dk_agent ?st0) = Some new" "mg_task (dk_agent ?st0) = Some new"
    by (simp_all add: start_install_def agent_setters)
  with reconcile_note_frame [of result w ?st0] st1 show ?thesis
    using assms(1,2) by (simp add: section_run_def reconcile_take_def start_check_def stop_request_def agent_setters)
qed

lemma ensure_session_keeps:
  assumes "ensure_session P now answer io r = (res, r')"
  shows "cf_published_services (rt_config r') = cf_published_services (rt_config r)
    \<and> cf_forward_rules (rt_config r') = cf_forward_rules (rt_config r)"
proof (cases "has_valid_session now (rt_config r)")
  case True
  with assms show ?thesis by (simp add: ensure_session_def)
next
  case False
  obtain res1 r1 where g: "agent_register P answer r = (res1, r1)" by fastforce
  have "cf_published_services (rt_config r1) = cf_published_services (rt_config r)
      \<and> cf_forward_rules (rt_config r1) = cf_forward_rules (rt_config r)"
    using g by (cases answer) (auto simp: agent_register_def)
  with False assms g show ?thesis
    by (cases res1) (auto simp: ensure_session_def dest!: saved_config)
qed

text \<open>
  What is saved while an agent runs is lost at the agent's next preparation: it writes the services and
  rules it was started with over whatever the file holds by then, whether it succeeds because the
  session is still valid or because it has been renewed.
\<close>

theorem stale_agent_overwrites:
  assumes "prepare_runtime_iteration P now io0 answer io1 upsert io2 force (r\<lparr>rt_file := saved\<rparr>) = (Inr (), r')"
  shows "cf_published_services (rt_file r') = cf_published_services (rt_config r)
    \<and> cf_forward_rules (rt_file r') = cf_forward_rules (rt_config r)"
proof -
  obtain ra rb where e: "ensure_session P now answer io1 ra = (Inr (), rb)" and s: "runtime_save io2 rb = (Inr (), r')"
    and ra: "cf_published_services (rt_config ra) = cf_published_services (rt_config r)"
      "cf_forward_rules (rt_config ra) = cf_forward_rules (rt_config r)"
    using prepare_saves [OF assms] by auto
  have "cf_published_services (rt_config rb) = cf_published_services (rt_config ra)
      \<and> cf_forward_rules (rt_config rb) = cf_forward_rules (rt_config ra)"
    using ensure_session_keeps [OF e] .
  moreover have "rt_file r' = rt_config rb" using s by (cases io2) (auto simp: runtime_save_def)
  ultimately show ?thesis using ra by simp
qed

section \<open>Witnesses\<close>

theorem no_runtime_escapes_witness:
  "0 \<in> dk_asked (section_run [As_Install 0, As_Install 1] (desktop_state_new ''p''))"
proof -
  let ?st = "section_run [As_Install 0, As_Install 1] (desktop_state_new ''p'')"
  have "0 \<in> set (dk_spawned ?st)" "mg_shutdown (dk_agent ?st) \<noteq> Some 0"
    by (simp_all add: section_run_def start_install_def agent_setters)
  with no_runtime_escapes [of "[As_Install 0, As_Install 1]" "''p''"] show ?thesis by blast
qed

definition demo_commands :: "desktop_op list" where
  "demo_commands = [Dk_Start (\<lambda>_. None) (Inr demo_runtime) 0,
     Dk_Restart (\<lambda>_. None) (\<lambda>_. None) (\<lambda>k t. if t = 0 \<and> 2 \<le> k then Some Task_Ok else None) (\<lambda>_. None) (Inr demo_runtime) 1]"

lemma demo_commands_run:
  "mg_task (dk_agent (fold desktop_exec demo_commands (desktop_state_new ''p''))) = Some 1"
  "dk_spawned (fold desktop_exec demo_commands (desktop_state_new ''p'')) = [0, 1]"
  by code_simp+


theorem late_note_stops_new_agent_witness:
  "1 \<in> dk_asked (section_run [As_Take (\<lambda>_. Some Task_Ok), As_Install 1, As_Note Task_Ok False]
     (start_install 0 (desktop_state_new ''p'')))"
proof -
  have "mg_task (dk_agent (start_install 0 (desktop_state_new ''p''))) = Some 0"
    by (simp add: start_install_def agent_setters)
  with late_note_stops_new_agent [OF _ this refl, of "\<lambda>_. Some Task_Ok" Task_Ok 1 False] show ?thesis by blast
qed

theorem stale_agent_overwrites_witness:
  "\<exists>r'. prepare_runtime_iteration toy_prims 0 (Inr ()) (Inl []) (Inr ()) (\<lambda>_ _. Inl []) (Inr ()) False
        ((demo_runtime\<lparr>rt_config := (rt_config demo_runtime)\<lparr>cf_session_token := Some ''t'', cf_session_expires_at := Some 600\<rparr>\<rparr>)
           \<lparr>rt_file := agent_config_default\<lparr>cf_forward_rules := [demo_rule]\<rparr>\<rparr>) = (Inr (), r')
     \<and> cf_forward_rules (rt_file r') = []"
proof -
  let ?r = "demo_runtime\<lparr>rt_config := (rt_config demo_runtime)\<lparr>cf_session_token := Some ''t'', cf_session_expires_at := Some 600\<rparr>\<rparr>"
  let ?saved = "agent_config_default\<lparr>cf_forward_rules := [demo_rule]\<rparr>"
  have c: "cf_published_services (rt_config ?r) = []" "cf_forward_rules (rt_config ?r) = []" "cf_session_token (rt_config ?r) = Some ''t''"
    by (simp_all add: demo_runtime_def agent_config_default_def)
  have v: "validate_runtime_config (rt_config ?r) = Inr ()" unfolding validate_runtime_config_def c by simp
  have e: "ensure_session toy_prims 0 (Inl []) (Inr ()) (?r\<lparr>rt_file := ?saved\<rparr>) = (Inr (), ?r\<lparr>rt_file := ?saved\<rparr>)"
    by (simp add: ensure_session_def has_valid_session_def i64_add_def i64_wrap_def)
  obtain r' where "prepare_runtime_iteration toy_prims 0 (Inr ()) (Inl []) (Inr ()) (\<lambda>_ _. Inl []) (Inr ()) False
      (?r\<lparr>rt_file := ?saved\<rparr>) = (Inr (), r')"
    using v c by (simp add: prepare_runtime_iteration_def e current_session_token_def runtime_save_unit)
  from stale_agent_overwrites [OF this] this c show ?thesis by simp
qed

end
