(* ===== verification/AutostartProps.thy ===== *)
theory AutostartProps
  imports Autostart
begin

text \<open>
  The entry that starts the desktop application with the system: the escaped paths can be told apart,
  so the entry is recognised exactly for the program and configuration it was written for.
\<close>

section \<open>Escaping keeps strings apart\<close>

text \<open>
  An escape maps every character to a code; no code begins another, nor the text that ends the
  escaped string. What was escaped is then determined by the whole, up to its end.
\<close>

locale escape_code =
  fixes code :: "char \<Rightarrow> string" and terminator :: string
  assumes code_apart: "c \<noteq> d \<Longrightarrow> code c @ x \<noteq> code d @ y"
    and terminator_apart: "code c @ x \<noteq> terminator @ y"
begin

lemma cancel:
  "concat (map code s) @ terminator @ u = concat (map code s') @ terminator @ u' \<longleftrightarrow> s = s' \<and> u = u'"
proof
  show "concat (map code s) @ terminator @ u = concat (map code s') @ terminator @ u' \<Longrightarrow> s = s' \<and> u = u'"
  proof (induction s arbitrary: s')
    case Nil
    show ?case
    proof (cases s')
      case Nil
      then show ?thesis using \<open>concat (map code []) @ terminator @ u = concat (map code s') @ terminator @ u'\<close> by simp
    next
      fix d s''
      assume "s' = d # s''"
      then have "code d @ (concat (map code s'') @ terminator @ u') = terminator @ u" using Nil.prems by simp
      then show ?thesis using terminator_apart by blast
    qed
  next
    case (Cons c s)
    show ?case
    proof (cases s')
      case Nil
      then show ?thesis using Cons.prems terminator_apart by simp
    next
      fix d s''
      assume s': "s' = d # s''"
      have "c = d" using Cons.prems code_apart[of c d] by (auto simp: s')
      then show ?thesis using Cons.prems Cons.IH[of s''] by (simp add: s')
    qed
  qed
qed simp

end

lemma replace_char_append: "replace_char c by (a @ b) = replace_char c by a @ replace_char c by b"
  by (simp add: replace_char_def)

definition xml_code :: "char \<Rightarrow> string" where
  "xml_code c = (if c = CHR ''&'' then ''&amp;'' else if c = CHR ''<'' then ''&lt;'' else if c = CHR ''>'' then ''&gt;''
     else if c = CHR 0x22 then ''&quot;'' else if c = CHR 0x27 then ''&apos;'' else [c])"

lemma xml_escape_codes: "xml_escape s = concat (map xml_code s)"
proof (induction s)
  case Nil
  show ?case by (simp add: xml_escape_def)
next
  case (Cons c s)
  have "xml_escape (c # s) = xml_escape [c] @ xml_escape s"
    by (simp add: xml_escape_def replace_char_append)
  moreover have "xml_escape [c] = xml_code c"
    by (simp add: xml_escape_def xml_code_def)
  ultimately show ?case using Cons.IH by simp
qed

definition desktop_code :: "char \<Rightarrow> string" where
  "desktop_code c = (if c \<in> {CHR 0x5C, CHR 0x22, CHR 0x60, CHR ''$''} then [CHR 0x5C, c] else [c])"

lemma desktop_quote_codes: "desktop_quote_arg s = quote @ concat (map desktop_code s) @ quote"
proof -
  have "replace_char (CHR ''$'') [CHR 0x5C, CHR ''$''] (replace_char (CHR 0x60) [CHR 0x5C, CHR 0x60]
       (replace_char (CHR 0x22) [CHR 0x5C, CHR 0x22] (replace_char (CHR 0x5C) [CHR 0x5C, CHR 0x5C] s)))
     = concat (map desktop_code s)"
    by (induction s) (simp_all add: desktop_code_def)
  then show ?thesis by (simp add: desktop_quote_arg_def)
qed

definition vbs_code :: "char \<Rightarrow> string" where
  "vbs_code c = (if c = CHR 0x22 then [CHR 0x22, CHR 0x22] else [c])"

lemma vbs_escape_codes: "windows_vbs_escape s = concat (map vbs_code s)"
  by (induction s) (simp_all add: windows_vbs_escape_def vbs_code_def)

interpretation xml_text: escape_code xml_code "''<''"
  by unfold_locales (auto simp: xml_code_def)

interpretation exec_arg: escape_code desktop_code quote
  by unfold_locales (auto simp: desktop_code_def)

interpretation vbs_text: escape_code vbs_code "[CHR 0x22, CHR '' '']"
  by unfold_locales (auto simp: vbs_code_def)

lemma xml_cancel: "xml_escape s @ ''<'' @ u = xml_escape s' @ ''<'' @ u' \<longleftrightarrow> s = s' \<and> u = u'"
  unfolding xml_escape_codes by (rule xml_text.cancel)

lemma desktop_cancel: "desktop_quote_arg s @ u = desktop_quote_arg s' @ u' \<longleftrightarrow> s = s' \<and> u = u'"
  using exec_arg.cancel by (simp add: desktop_quote_codes)

lemma vbs_cancel:
  "windows_vbs_escape s @ [CHR 0x22, CHR '' ''] @ u = windows_vbs_escape s' @ [CHR 0x22, CHR '' ''] @ u'
     \<longleftrightarrow> s = s' \<and> u = u'"
  unfolding vbs_escape_codes by (rule vbs_text.cancel)

section \<open>Line ends and surrounding space\<close>

lemma lf_step: "c \<noteq> CHR 0x0D \<Longrightarrow> crlf_to_lf (c # s) = c # crlf_to_lf s"
  by (cases s) simp_all

lemma lf_append: "CHR 0x0D \<notin> set a \<Longrightarrow> crlf_to_lf (a @ b) = a @ crlf_to_lf b"
  by (induction a) (auto simp: lf_step simp del: crlf_to_lf.simps(2,3))

lemma lf_line: "CHR 0x0D \<notin> set a \<Longrightarrow> crlf_to_lf (a @ crlf @ b) = a @ newline @ crlf_to_lf b"
  by (simp add: lf_append)

lemma lf_plain: "CHR 0x0D \<notin> set a \<Longrightarrow> crlf_to_lf a = a"
  using lf_append[of a "[]"] by simp

lemma trim_line:
  assumes "s \<noteq> []" "\<not> is_whitespace (hd s)" "\<not> is_whitespace (last s)"
  shows "trim (s @ newline) = s"
proof -
  have front: "dropWhile is_whitespace (s @ newline) = s @ newline"
    using assms(1,2) by (cases s) simp_all
  have "is_whitespace (CHR 0x0A)" by (simp add: is_whitespace_def)
  then have "dropWhile is_whitespace (rev (s @ newline)) = dropWhile is_whitespace (rev s)" by simp
  also have "\<dots> = rev s" using assms(1,3) by (simp add: dropWhile_fix hd_rev)
  finally show ?thesis unfolding trim_def front by simp
qed

lemma escapes_keep_cr:
  "CHR 0x0D \<notin> set s \<Longrightarrow> CHR 0x0D \<notin> set (xml_escape s)"
  "CHR 0x0D \<notin> set s \<Longrightarrow> CHR 0x0D \<notin> set (desktop_quote_arg s)"
  "CHR 0x0D \<notin> set s \<Longrightarrow> CHR 0x0D \<notin> set (windows_vbs_escape s)"
  by (auto simp: xml_escape_codes desktop_quote_codes vbs_escape_codes xml_code_def desktop_code_def vbs_code_def split: if_splits)

section \<open>The entry of each platform\<close>

text \<open>What surrounds the two paths, when the line ends have been made alike.\<close>

definition entry_begin :: "platform \<Rightarrow> string" where
  "entry_begin p = (case p of
     Macos \<Rightarrow>
       xml_line 0 (''<?xml version='' @ quote @ ''1.0'' @ quote @ '' encoding='' @ quote @ ''UTF-8'' @ quote @ ''?>'')
       @ xml_line 0 (''<!DOCTYPE plist PUBLIC '' @ quote @ ''-//Apple//DTD PLIST 1.0//EN'' @ quote @ '' ''
           @ quote @ ''http://www.apple.com/DTDs/PropertyList-1.0.dtd'' @ quote @ ''>'')
       @ xml_line 0 (''<plist version='' @ quote @ ''1.0'' @ quote @ ''>'')
       @ xml_line 0 ''<dict>''
       @ xml_line 4 ''<key>Label</key>'' @ xml_line 4 (xml_string autostart_entry_basename)
       @ xml_line 4 ''<key>ProgramArguments</key>'' @ xml_line 4 ''<array>''
       @ replicate 8 (CHR '' '') @ ''<string>''
   | Linux \<Rightarrow>
       ''[Desktop Entry]'' @ newline @ ''Type=Application'' @ newline @ ''Version=1.0'' @ newline
       @ ''Name='' @ linux_name @ newline @ ''Comment='' @ linux_comment @ newline @ ''Exec=''
   | Windows \<Rightarrow>
       ''Set shell = CreateObject('' @ quote @ ''WScript.Shell'' @ quote @ '')'' @ newline
       @ ''shell.Run '' @ quote @ quote @ quote @ quote @ '' & '' @ quote)"

definition entry_middle :: "platform \<Rightarrow> string" where
  "entry_middle p = (case p of
     Macos \<Rightarrow> ''/string>'' @ newline @ xml_line 8 (xml_string ''--autostart'') @ xml_line 8 (xml_string ''--config'')
       @ replicate 8 (CHR '' '') @ ''<string>''
   | Linux \<Rightarrow> '' --autostart --config ''
   | Windows \<Rightarrow> ''& '' @ quote @ quote @ quote @ quote @ '' & '' @ quote @ '' --autostart --config '' @ quote @ '' & ''
       @ quote @ quote @ quote @ quote @ '' & '' @ quote)"

definition entry_end :: "platform \<Rightarrow> string" where
  "entry_end p = (case p of
     Macos \<Rightarrow> ''/string>'' @ newline @ xml_line 4 ''</array>''
       @ xml_line 4 ''<key>RunAtLoad</key>'' @ xml_line 4 ''<true/>''
       @ xml_line 4 ''<key>KeepAlive</key>'' @ xml_line 4 ''<false/>'' @ xml_line 0 ''</dict>'' @ ''</plist>''
   | Linux \<Rightarrow> newline @ ''Terminal=false'' @ newline @ ''Hidden=false'' @ newline @ ''X-GNOME-Autostart-enabled=true''
   | Windows \<Rightarrow> ''& '' @ quote @ quote @ quote @ quote @ '', 0, False'' @ newline @ ''Set shell = Nothing'')"

definition escaped :: "platform \<Rightarrow> string \<Rightarrow> string" where
  "escaped p s = (case p of Macos \<Rightarrow> xml_escape s @ ''<'' | Linux \<Rightarrow> desktop_quote_arg s
     | Windows \<Rightarrow> windows_vbs_escape s @ [CHR 0x22, CHR '' ''])"

lemma escaped_cancel: "escaped p s @ u = escaped p s' @ u' \<longleftrightarrow> s = s' \<and> u = u'"
  using xml_cancel[of s u s' u'] desktop_cancel[of s u s' u'] vbs_cancel[of s u s' u']
  by (cases p) (simp_all add: escaped_def)

lemma entry_edges:
  "entry_begin p \<noteq> []" "\<not> is_whitespace (hd (entry_begin p))"
  "entry_end p \<noteq> []" "\<not> is_whitespace (last (entry_end p))"
  by (cases p; simp add: entry_begin_def entry_end_def xml_line_def is_whitespace_def)+

lemma entry_without_cr: "CHR 0x0D \<notin> set (entry_begin p)" "CHR 0x0D \<notin> set (entry_middle p)" "CHR 0x0D \<notin> set (entry_end p)"
  by (cases p; simp add: entry_begin_def entry_middle_def entry_end_def xml_line_def xml_string_def
      autostart_entry_basename_def linux_name_def linux_comment_def)+

definition entry_text :: "platform \<Rightarrow> string \<Rightarrow> string \<Rightarrow> string" where
  "entry_text p exe config = entry_begin p @ escaped p exe @ entry_middle p @ escaped p config @ entry_end p"

lemma entry_text_cancel: "entry_text p exe config = entry_text p exe' config' \<longleftrightarrow> exe = exe' \<and> config = config'"
  using escaped_cancel[of p config "[]" config' "[]"] by (simp add: entry_text_def escaped_cancel)

lemma entry_text_without_cr:
  "CHR 0x0D \<notin> set exe \<Longrightarrow> CHR 0x0D \<notin> set config \<Longrightarrow> CHR 0x0D \<notin> set (entry_text p exe config)"
  by (cases p) (simp_all add: entry_text_def entry_without_cr escaped_def escapes_keep_cr)

lemma macos_entry: "render_autostart_entry Macos exe config = entry_text Macos exe config @ newline"
  by (simp add: entry_text_def entry_begin_def entry_middle_def entry_end_def escaped_def xml_line_def xml_string_def)

lemma linux_entry: "render_autostart_entry Linux exe config = entry_text Linux exe config @ newline"
  by (simp add: entry_text_def entry_begin_def entry_middle_def entry_end_def escaped_def)

lemma windows_entry:
  assumes "CHR 0x0D \<notin> set exe" "CHR 0x0D \<notin> set config"
  shows "crlf_to_lf (render_autostart_entry Windows exe config) = entry_text Windows exe config @ newline"
proof -
  have cr: "CHR 0x0D \<notin> set (windows_vbs_escape exe)" "CHR 0x0D \<notin> set (windows_vbs_escape config)"
    using assms by (simp_all add: escapes_keep_cr)
  show ?thesis
    by (simp add: render_windows_autostart_entry_def entry_text_def entry_begin_def entry_middle_def entry_end_def
        escaped_def lf_step lf_append cr del: crlf_to_lf.simps(2))
qed

lemma normal_entry:
  assumes "CHR 0x0D \<notin> set exe" "CHR 0x0D \<notin> set config"
  shows "normalize_contents (render_autostart_entry p exe config) = entry_text p exe config"
proof -
  have "crlf_to_lf (render_autostart_entry p exe config) = entry_text p exe config @ newline"
  proof (cases p)
    case Macos
    then show ?thesis using entry_text_without_cr[OF assms, of Macos]
      unfolding Macos macos_entry by (simp add: lf_append)
  next
    case Linux
    then show ?thesis using entry_text_without_cr[OF assms, of Linux]
      unfolding Linux linux_entry by (simp add: lf_append)
  next
    case Windows
    then show ?thesis by (simp only: windows_entry[OF assms])
  qed
  moreover have "trim (entry_text p exe config @ newline) = entry_text p exe config"
    by (rule trim_line) (simp_all add: entry_text_def entry_edges)
  ultimately show ?thesis by (simp only: normalize_contents_def)
qed

section \<open>Installing, removing, recognising\<close>

lemma recognised:
  assumes "CHR 0x0D \<notin> set exe" "CHR 0x0D \<notin> set config" "CHR 0x0D \<notin> set exe'" "CHR 0x0D \<notin> set config'"
  shows "\<exists>detail. detect_autostart p dir exe config (Inr (Some (render_autostart_entry p exe' config')))
    = Inr \<lparr>as_enabled = (exe = exe' \<and> config = config'), as_entry_path = autostart_entry_path p dir,
        as_label = autostart_platform_label p, as_detail = detail\<rparr>"
  using normal_entry[OF assms(1,2), of p] normal_entry[OF assms(3,4), of p] entry_text_cancel[of p exe config exe' config']
  by (simp add: detect_autostart_def eq_commute)

text \<open>
  C35. The autostart entry on every platform: switching it on writes an entry that is recognised as
  enabled, and the same entry is recognised by no other program path or configuration path, whatever
  characters the paths hold (carriage returns apart); switching it off leaves no file and is recognised as
  disabled, whatever was there; the toggle installs exactly when there is no entry of its own, so two
  toggles from an installed entry install it again.
\<close>
theorem autostart_is_recognised:
  assumes "CHR 0x0D \<notin> set exe" "CHR 0x0D \<notin> set config" "CHR 0x0D \<notin> set exe'" "CHR 0x0D \<notin> set config'"
  shows "(\<exists>status. enable_autostart p dir exe config (Inr ()) found
        = (Inr status, Some (render_autostart_entry p exe config)) \<and> as_enabled status)
    \<and> (\<exists>status. detect_autostart p dir exe' config' (Inr (Some (render_autostart_entry p exe config))) = Inr status
        \<and> (as_enabled status \<longleftrightarrow> exe' = exe \<and> config' = config))
    \<and> (\<exists>status. disable_autostart p dir exe config (Inr ()) found = (Inr status, None) \<and> \<not> as_enabled status)
    \<and> snd (toggle_autostart p dir exe config (Inr ()) None) = Some (render_autostart_entry p exe config)
    \<and> snd (toggle_autostart p dir exe config (Inr ()) (Some (render_autostart_entry p exe config))) = None"
proof (intro conjI)
  note own = recognised[OF assms(1,2) assms(1,2), of p dir]
  show enabled: "\<exists>status. enable_autostart p dir exe config (Inr ()) found
           = (Inr status, Some (render_autostart_entry p exe config)) \<and> as_enabled status" for found
    using own by (auto simp: enable_autostart_def)
  show removed: "\<exists>status. disable_autostart p dir exe config (Inr ()) found = (Inr status, None) \<and> \<not> as_enabled status" for found
    by (cases found) (simp_all add: disable_autostart_def detect_autostart_def)
  show "snd (toggle_autostart p dir exe config (Inr ()) None) = Some (render_autostart_entry p exe config)"
    using enabled[of None] by (auto simp: toggle_autostart_def detect_autostart_def)
  show "snd (toggle_autostart p dir exe config (Inr ()) (Some (render_autostart_entry p exe config))) = None"
    using own removed[of "Some (render_autostart_entry p exe config)"] by (auto simp: toggle_autostart_def)
  show "\<exists>status. detect_autostart p dir exe' config' (Inr (Some (render_autostart_entry p exe config))) = Inr status
      \<and> (as_enabled status \<longleftrightarrow> exe' = exe \<and> config' = config)"
    using recognised[OF assms(3,4) assms(1,2), of p dir] by auto
qed

theorem autostart_is_recognised_witness:
  "(\<exists>status. enable_autostart Linux ''/c'' ''/opt/a b$'' ''/x'' (Inr ()) None
       = (Inr status, Some (render_autostart_entry Linux ''/opt/a b$'' ''/x'')) \<and> as_enabled status)
   \<and> (\<exists>status. detect_autostart Linux ''/c'' ''/opt/a b$'' ''/y'' (Inr (Some (render_autostart_entry Linux ''/opt/a b$'' ''/x''))) = Inr status
       \<and> \<not> as_enabled status)"
proof -
  have "''/y'' \<noteq> ''/x''" "CHR 0x0D \<notin> set ''/opt/a b$''" "CHR 0x0D \<notin> set ''/x''" "CHR 0x0D \<notin> set ''/y''" by simp_all
  with autostart_is_recognised [of "''/opt/a b$''" "''/x''" "''/opt/a b$''" "''/y''" Linux "''/c''" None] show ?thesis by blast
qed

end
