(* ===== verification/SingleInstance.thy ===== *)
theory SingleInstance
  imports Prelude
begin

text \<open>
  One instance of the desktop application (\<open>minipunch-desktop/src-tauri/src/single_instance.rs\<close> and
  \<open>main.rs\<close>): the port that the first instance holds, the greeting by which a later one wakes it, and what
  the start does with the outcome. What the operating system says of binding, connecting, writing and
  reading are arguments; a read gives a prefix of what has been sent so far.
\<close>

definition single_instance_port :: nat where "single_instance_port = 47631"

definition single_instance_hello :: string where
  "single_instance_hello = ''minipunch-desktop-single-instance-v1'' @ [CHR 0x0A]"

definition single_instance_ack :: string where "single_instance_ack = ''ok'' @ [CHR 0x0A]"

datatype bind_result = Bound | Addr_In_Use | Bind_Failed string

datatype instance_error =
    Port_Occupied
  | Port_Unbindable string
  | Instance_Unreachable string

text \<open>The other side: connecting, the time-outs and writing the greeting, then one read of at most 16 bytes.\<close>

definition notify_existing_instance :: "string + unit \<Rightarrow> string + string \<Rightarrow> instance_error + bool" where
  "notify_existing_instance greeted answer =
     (case greeted of
        Inl err \<Rightarrow> Inl (Instance_Unreachable err)
      | Inr _ \<Rightarrow>
          (case answer of
             Inl err \<Rightarrow> Inl (Instance_Unreachable err)
           | Inr received \<Rightarrow> Inr (take 16 received = single_instance_ack)))"

text \<open>\<open>Some\<close> guard: this is the first instance. \<open>None\<close>: another one has been woken.\<close>

definition acquire_or_activate_existing ::
  "bind_result \<Rightarrow> string + unit \<Rightarrow> string + unit \<Rightarrow> string + string \<Rightarrow> instance_error + unit option" where
  "acquire_or_activate_existing bind nonblocking greeted answer =
     (case bind of
        Bound \<Rightarrow> (case nonblocking of Inl err \<Rightarrow> Inl (Port_Unbindable err) | Inr _ \<Rightarrow> Inr (Some ()))
      | Addr_In_Use \<Rightarrow>
          (case notify_existing_instance greeted answer of
             Inl e \<Rightarrow> Inl e
           | Inr woken \<Rightarrow> if woken then Inr None else Inl Port_Occupied)
      | Bind_Failed err \<Rightarrow> Inl (Port_Unbindable err))"

text \<open>One read of at most 64 bytes; what is written back, and whether the window is shown.\<close>

definition handle_incoming_activation :: "string + string \<Rightarrow> string \<times> bool" where
  "handle_incoming_activation request =
     (case request of
        Inl _ \<Rightarrow> ([], False)
      | Inr received \<Rightarrow> if take 64 received = single_instance_hello then (single_instance_ack, True) else ([], False))"

text \<open>The listening thread: a connection, nothing yet, or an error that ends it.\<close>

datatype accepted = Connection "string + string" | Would_Block | Accept_Failed

datatype listener_step = Reveal_Window string | Goes_On string | Sleeps | Ends

definition listener_round :: "accepted \<Rightarrow> listener_step" where
  "listener_round a =
     (case a of
        Connection request \<Rightarrow>
          (case handle_incoming_activation request of (answer, shown) \<Rightarrow> if shown then Reveal_Window answer else Goes_On answer)
      | Would_Block \<Rightarrow> Sleeps
      | Accept_Failed \<Rightarrow> Ends)"

text \<open>The start of the program.\<close>

datatype start_outcome = Start_Fails instance_error | Start_Leaves | Start_Runs

definition desktop_run :: "instance_error + unit option \<Rightarrow> start_outcome" where
  "desktop_run acquired =
     (case acquired of Inl e \<Rightarrow> Start_Fails e | Inr None \<Rightarrow> Start_Leaves | Inr (Some _) \<Rightarrow> Start_Runs)"

text \<open>
  A second instance is started while the first is listening: it greets, the first reads the greeting and
  answers, and the second reads the answer. It leaves, and the first shows its window. If the
  first read does not find the whole greeting (or, the accepted socket being non-blocking where it
  inherits that from the listener, finds nothing yet), the second instance fails instead.
\<close>
definition second_start :: "string + string \<Rightarrow> start_outcome \<times> bool" where
  "second_start request =
     (case handle_incoming_activation request of
        (answer, shown) \<Rightarrow> (desktop_run (acquire_or_activate_existing Addr_In_Use (Inr ()) (Inr ()) (Inr answer)), shown))"

lemma second_start_iff:
  assumes "request = Inr r" "\<exists>rest. r @ rest = single_instance_hello"
  shows "second_start request = (if r = single_instance_hello then (Start_Leaves, True) else (Start_Fails Port_Occupied, False))"
proof -
  have "length r \<le> length single_instance_hello" using assms(2) by (metis append_eq_conv_conj nle_le take_all_iff length_append le_add1)
  then have "take 64 r = r" by (simp add: single_instance_hello_def)
  then show ?thesis
    by (simp add: assms(1) second_start_def handle_incoming_activation_def desktop_run_def acquire_or_activate_existing_def
        notify_existing_instance_def single_instance_ack_def)
qed

lemma second_start_unread: "second_start (Inl err) = (Start_Fails Port_Occupied, False)"
  by (simp add: second_start_def handle_incoming_activation_def desktop_run_def acquire_or_activate_existing_def
      notify_existing_instance_def single_instance_ack_def)

end
