(* ===== verification/AgentCommands.thy ===== *)
theory AgentCommands
  imports ControlClient
begin

text \<open>
  The agent's commands as the command line runs them (\<open>AgentRuntime\<close> in \<open>minipunch-agent/src/lib.rs\<close>),
  from the session they make sure of to what they start. A command runs in a world: the server behind the
  client, the clocks, the random numbers, the file and the transports. It gives a result, or none yet
  when the polls it may make are used up.
\<close>

section \<open>The world\<close>

text \<open>What \<open>run_direct_probe\<close> and \<open>run_direct_tcp_forward\<close> are called with.\<close>

record probe_call =
  pc_local_device :: string
  pc_peer_key :: string
  pc_session :: direct_rendezvous_session
  pc_bind :: string
  pc_timeout :: nat

record 's agent_world =
  aw_client :: "'s control_plane_client"
  aw_crypto :: crypto_prims
  aw_os :: string
  aw_version :: string
  aw_time :: "'s \<Rightarrow> int"
  aw_clock :: "'s \<Rightarrow> nat"
  aw_sleep :: "nat \<Rightarrow> 's \<Rightarrow> 's"
  aw_random :: "'s \<Rightarrow> byte list \<times> 's"
  aw_save :: "agent_config \<Rightarrow> 's \<Rightarrow> unit result \<times> 's"
  aw_probe :: "device_identity \<Rightarrow> probe_call \<Rightarrow> 's \<Rightarrow> direct_probe_result result \<times> 's"

type_synonym ('s, 'a) command = "agent_runtime \<Rightarrow> 's \<Rightarrow> ('a result \<times> agent_runtime \<times> 's) option"

definition give :: "'a result \<Rightarrow> ('s, 'a) command" where
  "give a r s = Some (a, r, s)"

definition and_then :: "('s, 'a) command \<Rightarrow> ('a \<Rightarrow> ('s, 'b) command) \<Rightarrow> ('s, 'b) command" where
  "and_then m f r s =
     (case m r s of
        None \<Rightarrow> None
      | Some (Inl e, r1, s1) \<Rightarrow> Some (Inl e, r1, s1)
      | Some (Inr a, r1, s1) \<Rightarrow> f a r1 s1)"

text \<open>What only looks at the agent, and what only acts on the world.\<close>

definition asks :: "(agent_runtime \<Rightarrow> 'a result) \<Rightarrow> ('s, 'a) command" where
  "asks f r s = Some (f r, r, s)"

definition acts :: "('s \<Rightarrow> 'a result \<times> 's) \<Rightarrow> ('s, 'a) command" where
  "acts f r s = (case f s of (a, s1) \<Rightarrow> Some (a, r, s1))"

definition save_command :: "'s agent_world \<Rightarrow> ('s, unit) command" where
  "save_command w r s =
     (case aw_save w (rt_config r) s of (io, s1) \<Rightarrow> (case runtime_save io r of (res, r1) \<Rightarrow> Some (res, r1, s1)))"

section \<open>A session\<close>

text \<open>Registering without a join token, then writing down what the server answered.\<close>

definition register_command :: "'s agent_world \<Rightarrow> string option \<Rightarrow> ('s, unit) command" where
  "register_command w join_token r s =
     (case aw_random w s of
        (rnd, s1) \<Rightarrow>
          (case client_register_device (aw_client w)
                  (register_request (aw_crypto w) (aw_os w) (aw_version w) rnd join_token r) s1 of
             (answer, s2) \<Rightarrow> (case agent_register (aw_crypto w) answer r of (res, r1) \<Rightarrow> Some (res, r1, s2))))"

definition session_command :: "'s agent_world \<Rightarrow> ('s, unit) command" where
  "session_command w r s =
     (if has_valid_session (aw_time w s) (rt_config r) then Some (Inr (), r, s)
      else and_then (register_command w None) (\<lambda>_. save_command w) r s)"

text \<open>The token is there after \<open>ensure_session\<close>; two wordings for when it is not.\<close>

definition session_token_after :: "agent_runtime \<Rightarrow> string result" where
  "session_token_after r =
     (case cf_session_token (rt_config r) of None \<Rightarrow> Inl ''missing session token after ensure_session'' | Some t \<Rightarrow> Inr t)"

definition call_with :: "(agent_runtime \<Rightarrow> string result) \<Rightarrow> 's agent_world \<Rightarrow> (string \<Rightarrow> 's \<Rightarrow> 'a result \<times> 's) \<Rightarrow> ('s, 'a) command" where
  "call_with token_from w f =
     and_then (session_command w) (\<lambda>_. and_then (asks token_from) (\<lambda>token. acts (f token)))"

definition call_command :: "'s agent_world \<Rightarrow> (string \<Rightarrow> 's \<Rightarrow> 'a result \<times> 's) \<Rightarrow> ('s, 'a) command" where
  "call_command = call_with current_session_token"

text \<open>\<open>device is not joined yet\<close>: the id that registering leaves in the configuration.\<close>

definition local_device :: "agent_runtime \<Rightarrow> string result" where
  "local_device r = (case cf_device_id (rt_config r) of None \<Rightarrow> Inl ''device is not joined yet'' | Some d \<Rightarrow> Inr d)"

section \<open>Commands of one call\<close>

definition network_command where
  "network_command w = call_with session_token_after w (client_network_snapshot (aw_client w))"

definition beat_command :: "'s agent_world \<Rightarrow> ('s, unit) command" where
  "beat_command w =
     and_then (call_with session_token_after w (client_heartbeat (aw_client w))) (\<lambda>_. give (Inr ()))"

text \<open>The status report never fails; a failed snapshot is part of it.\<close>

definition status_command :: "'s agent_world \<Rightarrow> ('s, agent_status_report) command" where
  "status_command w r s =
     (case network_command w r s of
        None \<Rightarrow> None
      | Some (Inr snapshot, r1, s1) \<Rightarrow> Some (Inr (build_status_report (aw_time w s1) (rt_config r1) (Some snapshot) None), r1, s1)
      | Some (Inl err, r1, s1) \<Rightarrow> Some (Inr (build_status_report (aw_time w s1) (rt_config r1) None (Some err)), r1, s1))"

definition pending_command where
  "pending_command w = call_command w (client_pending_direct_rendezvous (aw_client w))"

definition rendezvous_command where
  "rendezvous_command w rendezvous = call_command w (\<lambda>token. client_direct_rendezvous (aw_client w) token rendezvous)"

definition announce_command where
  "announce_command w rendezvous candidates =
     call_command w (\<lambda>token. client_update_candidates (aw_client w) token rendezvous \<lparr>uc_candidates = candidates\<rparr>)"

definition start_rendezvous_command where
  "start_rendezvous_command w target service candidates =
     call_command w (\<lambda>token. client_start_direct_rendezvous (aw_client w) token
       \<lparr>sr_target_device_id = target, sr_service_name = service, sr_source_candidates = candidates\<rparr>)"

definition resolve_command where
  "resolve_command w target service =
     call_command w (\<lambda>token s. case client_network_snapshot (aw_client w) token s of
       (answer, s1) \<Rightarrow> (resolve_service_with_session (aw_crypto w) answer target service, s1))"

definition lookup_key_command where
  "lookup_key_command w device =
     and_then (network_command w) (\<lambda>snapshot. give (lookup_device_public_key_with_session (aw_crypto w) (Inr snapshot) device))"

section \<open>Publishing\<close>

definition publish_command :: "'s agent_world \<Rightarrow> published_service_config \<Rightarrow> ('s, service_definition) command" where
  "publish_command w s =
     and_then (give (validate_published_service_config s)) (\<lambda>_.
       let s' = s\<lparr>ps_direct_candidate_type := normalize_direct_candidate_type (ps_direct_candidate_type s)\<rparr> in
       and_then (call_with session_token_after w (\<lambda>token. client_upsert_service (aw_client w) token
           \<lparr>us_name = ps_name s', us_allowed_device_ids = ps_allowed_device_ids s'\<rparr>)) (\<lambda>service r.
         and_then (save_command w) (\<lambda>_. give (Inr service))
           (r\<lparr>rt_config := (rt_config r)\<lparr>cf_published_services := upsert_by ps_name s' (cf_published_services (rt_config r))\<rparr>\<rparr>)))"

definition unpublish_command :: "'s agent_world \<Rightarrow> string \<Rightarrow> ('s, service_definition) command" where
  "unpublish_command w name =
     (if blank name then give (Inl ''service name cannot be empty'')
      else and_then (call_command w (\<lambda>token. client_delete_service (aw_client w) token \<lparr>ds_name = name\<rparr>)) (\<lambda>deleted r.
        and_then (save_command w) (\<lambda>_. give (Inr deleted))
          (r\<lparr>rt_config := (rt_config r)\<lparr>cf_published_services :=
               filter (\<lambda>s. ps_name s \<noteq> name) (cf_published_services (rt_config r))\<rparr>\<rparr>)))"

section \<open>Direct paths\<close>

text \<open>
  Polling the rendezvous every 250 milliseconds until it is ready, has expired, or the deadline has
  passed; at most so many polls here.
\<close>

definition poll_outcome :: "string \<Rightarrow> nat \<Rightarrow> nat \<Rightarrow> direct_rendezvous_session \<Rightarrow> direct_rendezvous_session result option" where
  "poll_outcome rendezvous deadline now session =
     (if rs_status session = ''ready'' then Some (Inr session)
      else if rs_status session = ''expired''
      then Some (Inl (''direct rendezvous '' @ rendezvous @ '' has already expired''))
      else if deadline \<le> now
      then Some (Inl (''timed out waiting for direct rendezvous '' @ rendezvous @ '' to become ready''))
      else None)"

fun wait_ready_polls :: "nat \<Rightarrow> 's agent_world \<Rightarrow> string \<Rightarrow> nat \<Rightarrow> ('s, direct_rendezvous_session) command" where
  "wait_ready_polls 0 w rendezvous deadline r s = None"
| "wait_ready_polls (Suc n) w rendezvous deadline r s =
     and_then (rendezvous_command w rendezvous) (\<lambda>session r1 s1.
       case poll_outcome rendezvous deadline (aw_clock w s1) session of
         Some res \<Rightarrow> Some (res, r1, s1)
       | None \<Rightarrow> wait_ready_polls n w rendezvous deadline r1 (aw_sleep w (250 * 10 ^ 6) s1)) r s"

definition wait_ready_command where
  "wait_ready_command polls w rendezvous timeout r s =
     wait_ready_polls polls w rendezvous (aw_clock w s + timeout) r s"

definition direct_probe_command ::
  "nat \<Rightarrow> 's agent_world \<Rightarrow> string \<Rightarrow> string \<Rightarrow> nat \<Rightarrow> ('s, direct_probe_result) command" where
  "direct_probe_command polls w rendezvous bind timeout =
     and_then (session_command w) (\<lambda>_.
     and_then (wait_ready_command polls w rendezvous timeout) (\<lambda>session.
     and_then (asks (\<lambda>r. direct_probe_peer (rt_config r) rendezvous session)) (\<lambda>peer.
     and_then (lookup_key_command w peer) (\<lambda>key.
     and_then (asks local_device) (\<lambda>local r.
       acts (aw_probe w (rt_identity r) \<lparr>pc_local_device = local, pc_peer_key = key, pc_session = session,
         pc_bind = bind, pc_timeout = timeout\<rparr>) r)))))"

definition direct_connect_command where
  "direct_connect_command polls w target service bind candidate_type timeout =
     and_then (start_rendezvous_command w target service [bind_candidate bind candidate_type]) (\<lambda>session.
       direct_probe_command polls w (rs_rendezvous_id session) bind timeout)"

text \<open>What a command that goes on starts; the loops themselves are modelled with their components.\<close>

datatype started =
    St_Direct_Forward probe_call resolved_service string
  | St_Relay_Service string string string "published_service_config list"
  | St_Forwarder string string resolved_service string
  | St_Auto_Forward string auto_rule string nat
  | St_Auto_Service string string published_service_config string string nat
  | St_Direct_Serve string string string string nat
  | St_Direct_Tcp_Serve string published_service_config string string nat
  | St_Run

definition direct_tcp_forward_command ::
  "nat \<Rightarrow> 's agent_world \<Rightarrow> string \<Rightarrow> string \<Rightarrow> string \<Rightarrow> string \<Rightarrow> string \<Rightarrow> nat \<Rightarrow> ('s, started) command" where
  "direct_tcp_forward_command polls w target service tcp_bind udp_bind candidate_type timeout =
     and_then (resolve_command w target service) (\<lambda>resolved.
     and_then (start_rendezvous_command w target service [bind_candidate udp_bind candidate_type]) (\<lambda>started.
     and_then (wait_ready_command polls w (rs_rendezvous_id started) timeout) (\<lambda>session.
     and_then (lookup_key_command w target) (\<lambda>key.
     and_then (asks local_device) (\<lambda>local.
       give (Inr (St_Direct_Forward \<lparr>pc_local_device = local, pc_peer_key = key, pc_session = session,
         pc_bind = udp_bind, pc_timeout = timeout\<rparr> resolved tcp_bind)))))))"

section \<open>Relays\<close>

definition relay_serve_command :: "'s agent_world \<Rightarrow> ('s, started) command" where
  "relay_serve_command w =
     and_then (session_command w) (\<lambda>_.
     and_then (asks session_token_after) (\<lambda>token.
     and_then (asks local_device) (\<lambda>local r.
       give (Inr (St_Relay_Service (cf_server_url (rt_config r)) token local (cf_published_services (rt_config r)))) r)))"

definition forward_command :: "'s agent_world \<Rightarrow> string \<Rightarrow> string \<Rightarrow> string \<Rightarrow> ('s, started) command" where
  "forward_command w target service bind =
     and_then (session_command w) (\<lambda>_.
     and_then (asks session_token_after) (\<lambda>token.
     and_then (resolve_command w target service) (\<lambda>resolved r.
       give (Inr (St_Forwarder (cf_server_url (rt_config r)) token resolved bind)) r)))"

section \<open>Automatic transports\<close>

definition auto_forward_command ::
  "'s agent_world \<Rightarrow> string \<Rightarrow> string \<Rightarrow> string \<Rightarrow> string \<Rightarrow> string \<Rightarrow> nat \<Rightarrow> ('s, started) command" where
  "auto_forward_command w target service bind udp candidate_type timeout =
     and_then (session_command w) (\<lambda>_.
     and_then (asks current_session_token) (\<lambda>token.
       give (Inr (St_Auto_Forward token
         \<lparr>ar_rule = ''manual:'' @ target @ '':'' @ service, ar_target = target, ar_service = service, ar_bind = bind, ar_udp = udp\<rparr>
         candidate_type timeout))))"

definition auto_serve_command :: "'s agent_world \<Rightarrow> string \<Rightarrow> string \<Rightarrow> string \<Rightarrow> nat \<Rightarrow> ('s, started) command" where
  "auto_serve_command w service udp candidate_type timeout =
     and_then (session_command w) (\<lambda>_.
     and_then (asks current_session_token) (\<lambda>token.
     and_then (asks local_device) (\<lambda>local.
     and_then (asks (\<lambda>r. agent_published_service_config service (rt_config r))) (\<lambda>published.
       give (Inr (St_Auto_Service token local published udp candidate_type timeout))))))"

text \<open>Both serve in the background; however one of them ends is a failure of the command.\<close>

definition run_auto_service_loop :: "joined_task option \<Rightarrow> unit result" where
  "run_auto_service_loop ended =
     (case ended of
        Some Task_Ok \<Rightarrow> Inl ''auto-serve background task exited unexpectedly''
      | Some (Task_Failed err) \<Rightarrow> Inl (''auto-serve background task failed: '' @ err)
      | Some (Task_Crashed err) \<Rightarrow> Inl (''auto-serve background task crashed: '' @ err)
      | None \<Rightarrow> Inl ''all auto-serve background tasks exited unexpectedly'')"

text \<open>How an automatic command ends: its loop, or the interrupt; the heartbeats end with it.\<close>

definition until_interrupt :: "unit result option \<Rightarrow> unit result" where
  "until_interrupt loop = (case loop of Some res \<Rightarrow> res | None \<Rightarrow> Inr ())"

definition direct_serve_command :: "'s agent_world \<Rightarrow> string \<Rightarrow> string \<Rightarrow> string \<Rightarrow> nat \<Rightarrow> ('s, started) command" where
  "direct_serve_command w service bind candidate_type timeout =
     and_then (session_command w) (\<lambda>_.
     and_then (asks local_device) (\<lambda>local.
       give (Inr (St_Direct_Serve local service bind candidate_type timeout))))"

definition direct_tcp_serve_command :: "'s agent_world \<Rightarrow> string \<Rightarrow> string \<Rightarrow> string \<Rightarrow> nat \<Rightarrow> ('s, started) command" where
  "direct_tcp_serve_command w service udp candidate_type timeout =
     and_then (session_command w) (\<lambda>_.
     and_then (asks local_device) (\<lambda>local.
     and_then (asks (\<lambda>r. agent_published_service_config service (rt_config r))) (\<lambda>published.
       give (Inr (St_Direct_Tcp_Serve local published udp candidate_type timeout)))))"

end
