(* ===== verification/AgentCli.thy ===== *)
theory AgentCli
  imports AgentCommands Text
begin

text \<open>
  The command line of the agent (\<open>minipunch-agent/src/main.rs\<close>): the commands with their options as the
  argument parser delivers them, the options left out, the reading of candidates, and what each command
  does with the agent that is loaded from the file.
\<close>

section \<open>Commands\<close>

record publish_options =
  po_name :: string
  po_target_host :: string
  po_target_port :: nat
  po_allow :: "string list"
  po_enable_direct :: bool
  po_udp_bind :: string
  po_candidate_type :: string
  po_direct_wait_seconds :: nat

record forward_options =
  fo_name :: string
  fo_target_device :: string
  fo_service :: string
  fo_local_bind :: string
  fo_enabled :: bool
  fo_transport :: string
  fo_udp_bind :: string
  fo_candidate_type :: string
  fo_direct_wait_seconds :: nat

datatype cli_command =
    Cmd_Init string string "string option"
  | Cmd_Heartbeat
  | Cmd_Publish publish_options
  | Cmd_Delete_Publish string
  | Cmd_Add_Forward forward_options
  | Cmd_Delete_Forward string
  | Cmd_Run
  | Cmd_Relay_Serve
  | Cmd_Forward string string string
  | Cmd_Rendezvous_Start string string "string list"
  | Cmd_Rendezvous_Pending
  | Cmd_Rendezvous_Get string
  | Cmd_Rendezvous_Announce string "string list"
  | Cmd_Direct_Probe string string nat
  | Cmd_Direct_Connect string string string string nat
  | Cmd_Direct_Serve string string string nat
  | Cmd_Direct_Tcp_Forward string string string string string nat
  | Cmd_Direct_Tcp_Serve string string string nat
  | Cmd_Auto_Forward string string string string string nat
  | Cmd_Auto_Serve string string string nat
  | Cmd_Network
  | Cmd_Status

text \<open>
  The options that may be left out (None) and what they are then. A flag is given or not; one that is
  true unless given is true in either case.
\<close>

definition cli_publish ::
  "string \<Rightarrow> string option \<Rightarrow> nat \<Rightarrow> string list \<Rightarrow> bool \<Rightarrow> string option \<Rightarrow> string option \<Rightarrow> nat option \<Rightarrow> publish_options" where
  "cli_publish name host port allow enable_direct udp candidate_type wait =
     \<lparr>po_name = name, po_target_host = case_option ''127.0.0.1'' id host, po_target_port = port, po_allow = allow,
      po_enable_direct = enable_direct, po_udp_bind = case_option [] id udp,
      po_candidate_type = case_option default_direct_candidate_type id candidate_type,
      po_direct_wait_seconds = case_option default_direct_wait_seconds id wait\<rparr>"

definition cli_flag :: "bool \<Rightarrow> bool \<Rightarrow> bool" where
  "cli_flag default_value given \<longleftrightarrow> given \<or> default_value"

definition cli_add_forward ::
  "string \<Rightarrow> string \<Rightarrow> string \<Rightarrow> string \<Rightarrow> bool \<Rightarrow> string option \<Rightarrow> string option \<Rightarrow> string option \<Rightarrow> nat option \<Rightarrow> forward_options" where
  "cli_add_forward name target service bind enabled transport udp candidate_type wait =
     \<lparr>fo_name = name, fo_target_device = target, fo_service = service, fo_local_bind = bind,
      fo_enabled = cli_flag True enabled, fo_transport = case_option default_forward_transport id transport,
      fo_udp_bind = case_option [] id udp,
      fo_candidate_type = case_option default_direct_candidate_type id candidate_type,
      fo_direct_wait_seconds = case_option default_direct_wait_seconds id wait\<rparr>"

section \<open>Candidates\<close>

definition parse_direct_candidate :: "string \<Rightarrow> direct_connection_candidate option" where
  "parse_direct_candidate raw =
     (let t = trim raw in
      if t = [] then None
      else let (kind, addr) = (case split_once (CHR ''='') t of Some (k, a) \<Rightarrow> (trim k, trim a) | None \<Rightarrow> (''manual'', t))
           in Some \<lparr>dc_protocol = ''udp'', dc_addr = addr, dc_candidate_type = kind\<rparr>)"

definition parse_direct_candidates :: "string list \<Rightarrow> direct_connection_candidate list" where
  "parse_direct_candidates values = List.map_filter parse_direct_candidate values"

section \<open>Running a command\<close>

text \<open>What is printed, or what goes on running.\<close>

datatype cli_output =
    Out_Config agent_config
  | Out_Heartbeat_Ok
  | Out_Service service_definition
  | Out_Network network_snapshot
  | Out_Session direct_rendezvous_session
  | Out_Pending pending_direct_rendezvous_response
  | Out_Probe direct_probe_result
  | Out_Status agent_status_report
  | Out_Started started

definition cli_device_name :: "string option \<Rightarrow> string option \<Rightarrow> string" where
  "cli_device_name hostname given =
     (case given of
        Some name \<Rightarrow> name
      | None \<Rightarrow> (case hostname of None \<Rightarrow> ''minipunch-device'' | Some h \<Rightarrow> if blank h then ''minipunch-device'' else h))"

definition prints :: "('a \<Rightarrow> cli_output) \<Rightarrow> ('s, 'a) command \<Rightarrow> ('s, cli_output) command" where
  "prints out m = and_then m (\<lambda>a. give (Inr (out a)))"

definition prints_config :: "('s, unit) command \<Rightarrow> ('s, cli_output) command" where
  "prints_config m = and_then m (\<lambda>_. asks (\<lambda>r. Inr (Out_Config (rt_config r))))"

definition in_context :: "string \<Rightarrow> ('s, 'a) command \<Rightarrow> ('s, 'a) command" where
  "in_context what m r s = map_option (\<lambda>(res, rest). (map_sum (\<lambda>_. what) id res, rest)) (m r s)"

definition publish_config_of :: "publish_options \<Rightarrow> published_service_config" where
  "publish_config_of o' = \<lparr>ps_name = po_name o', ps_target_host = po_target_host o', ps_target_port = po_target_port o',
     ps_allowed_device_ids = po_allow o', ps_direct_enabled = po_enable_direct o', ps_direct_udp_bind_addr = po_udp_bind o',
     ps_direct_candidate_type = po_candidate_type o', ps_direct_wait_seconds = po_direct_wait_seconds o'\<rparr>"

definition forward_rule_of :: "forward_options \<Rightarrow> local_forward_config" where
  "forward_rule_of o' = \<lparr>fr_name = fo_name o', fr_target_device_id = fo_target_device o', fr_service_name = fo_service o',
     fr_local_bind_addr = fo_local_bind o', fr_enabled = fo_enabled o', fr_transport_mode = fo_transport o',
     fr_direct_udp_bind_addr = fo_udp_bind o', fr_direct_candidate_type = fo_candidate_type o',
     fr_direct_wait_seconds = fo_direct_wait_seconds o'\<rparr>"

text \<open>An operation on the rules saves the configuration if it succeeds; writing is asked for only then.\<close>

definition rule_command :: "'s agent_world \<Rightarrow> (unit result \<Rightarrow> agent_runtime \<Rightarrow> unit result \<times> agent_runtime) \<Rightarrow> ('s, unit) command" where
  "rule_command w f r s =
     (case f (Inr ()) r of
        (Inl e, r1) \<Rightarrow> Some (Inl e, r1, s)
      | (Inr _, r1) \<Rightarrow>
          (case aw_save w (rt_config r1) s of (io, s1) \<Rightarrow> (case f io r of (res, r2) \<Rightarrow> Some (res, r2, s1))))"

fun cli_run :: "nat \<Rightarrow> 's agent_world \<Rightarrow> cli_command \<Rightarrow> ('s, cli_output) command" where
  "cli_run polls w (Cmd_Init server_url join_token device_name) =
     prints_config (and_then (in_context ''failed to join minipunch network'' (register_command w (Some join_token)))
       (\<lambda>_. save_command w))"
| "cli_run polls w Cmd_Heartbeat = prints (\<lambda>_. Out_Heartbeat_Ok) (beat_command w)"
| "cli_run polls w (Cmd_Publish o') = prints Out_Service (publish_command w (publish_config_of o'))"
| "cli_run polls w (Cmd_Delete_Publish name) = prints Out_Service (unpublish_command w name)"
| "cli_run polls w (Cmd_Add_Forward o') = prints_config (rule_command w (\<lambda>io. upsert_forward_rule io (forward_rule_of o')))"
| "cli_run polls w (Cmd_Delete_Forward name) = prints_config (rule_command w (\<lambda>io. delete_forward_rule io name))"
| "cli_run polls w Cmd_Run = prints Out_Started (give (Inr St_Run))"
| "cli_run polls w Cmd_Relay_Serve = prints Out_Started (relay_serve_command w)"
| "cli_run polls w (Cmd_Forward target service bind) = prints Out_Started (forward_command w target service bind)"
| "cli_run polls w (Cmd_Rendezvous_Start target service candidates) =
     prints Out_Session (start_rendezvous_command w target service (parse_direct_candidates candidates))"
| "cli_run polls w Cmd_Rendezvous_Pending = prints Out_Pending (pending_command w)"
| "cli_run polls w (Cmd_Rendezvous_Get rendezvous) = prints Out_Session (rendezvous_command w rendezvous)"
| "cli_run polls w (Cmd_Rendezvous_Announce rendezvous candidates) =
     prints Out_Session (announce_command w rendezvous (parse_direct_candidates candidates))"
| "cli_run polls w (Cmd_Direct_Probe rendezvous bind wait) =
     prints Out_Probe (direct_probe_command polls w rendezvous bind (seconds wait))"
| "cli_run polls w (Cmd_Direct_Connect target service bind kind wait) =
     prints Out_Probe (direct_connect_command polls w target service bind kind (seconds wait))"
| "cli_run polls w (Cmd_Direct_Serve service bind kind wait) =
     prints Out_Started (direct_serve_command w service bind kind (seconds wait))"
| "cli_run polls w (Cmd_Direct_Tcp_Forward target service tcp udp kind wait) =
     prints Out_Started (direct_tcp_forward_command polls w target service tcp udp kind (seconds wait))"
| "cli_run polls w (Cmd_Direct_Tcp_Serve service udp kind wait) =
     prints Out_Started (direct_tcp_serve_command w service udp kind (seconds wait))"
| "cli_run polls w (Cmd_Auto_Forward target service bind udp kind wait) =
     prints Out_Started (auto_forward_command w target service bind udp kind (seconds wait))"
| "cli_run polls w (Cmd_Auto_Serve service udp kind wait) =
     prints Out_Started (auto_serve_command w service udp kind (seconds wait))"
| "cli_run polls w Cmd_Network = prints Out_Network (network_command w)"
| "cli_run polls w Cmd_Status = prints Out_Status (status_command w)"

text \<open>
  The program: joining starts from the file or an empty configuration, every other command from what is
  loaded. Key pairs that the file does not hold are made from the random numbers.
\<close>

definition cli_join ::
  "crypto_prims \<Rightarrow> agent_config result \<Rightarrow> string \<Rightarrow> string \<Rightarrow> byte list \<Rightarrow> byte list \<Rightarrow> agent_runtime result" where
  "cli_join P loaded server_url device_name rnd1 rnd2 =
     result_bind loaded (\<lambda>c0.
     result_bind (load_or_create_identity P rnd1 (c0\<lparr>cf_server_url := server_url, cf_device_name := device_name\<rparr>)) (\<lambda>(identity, c1).
     result_bind (load_or_create_relay_identity P rnd2 c1) (\<lambda>(relay_identity, c2).
       Inr \<lparr>rt_config = c2, rt_file = c0, rt_identity = identity, rt_relay_identity = relay_identity\<rparr>)))"

definition cli_main ::
  "nat \<Rightarrow> 's agent_world \<Rightarrow> string option \<Rightarrow> agent_config result \<Rightarrow> agent_config result \<Rightarrow> byte list \<Rightarrow> byte list \<Rightarrow> cli_command \<Rightarrow> 's
     \<Rightarrow> (cli_output result \<times> agent_runtime option \<times> 's) option" where
  "cli_main polls w hostname loaded loaded_or_default rnd1 rnd2 cmd s =
     (case (case cmd of
              Cmd_Init server_url _ device_name \<Rightarrow>
                cli_join (aw_crypto w) loaded_or_default server_url (cli_device_name hostname device_name) rnd1 rnd2
            | _ \<Rightarrow> agent_load (aw_crypto w) loaded rnd1 rnd2) of
        Inl e \<Rightarrow> Some (Inl e, None, s)
      | Inr r \<Rightarrow> map_option (\<lambda>(out, r1, s1). (out, Some r1, s1)) (cli_run polls w cmd r s))"

end
