(* ===== verification/AgentCliProps.thy ===== *)
theory AgentCliProps
  imports AgentCli ConfigProps RelayClientProps
begin

text \<open>
  What the commands of the agent promise: they come to an end as long as time passes, they change the
  agent only by the operations of its configuration, and joining from the command line is joining.
\<close>

section \<open>Commands\<close>

fun joins :: "cli_command \<Rightarrow> bool" where
  "joins (Cmd_Init _ _ _) = True"
| "joins _ = False"

text \<open>How long a command waits for a rendezvous, in seconds.\<close>

fun cli_wait :: "cli_command \<Rightarrow> nat" where
  "cli_wait (Cmd_Direct_Probe _ _ wait) = wait"
| "cli_wait (Cmd_Direct_Connect _ _ _ _ wait) = wait"
| "cli_wait (Cmd_Direct_Tcp_Forward _ _ _ _ _ wait) = wait"
| "cli_wait _ = 0"

section \<open>The operations of the configuration\<close>

definition by_operations :: "crypto_prims \<Rightarrow> ('s, 'a) command \<Rightarrow> bool" where
  "by_operations P m \<longleftrightarrow> (\<forall>r s res r' s'. m r s = Some (res, r', s') \<longrightarrow> (\<exists>ops. r' = fold (config_apply P) ops r))"

lemma by_operationsD: "by_operations P m \<Longrightarrow> m r s = Some (res, r', s') \<Longrightarrow> \<exists>ops. r' = fold (config_apply P) ops r"
  unfolding by_operations_def by blast

lemma by_operations_still [simp]:
  "by_operations P (give a)" "by_operations P (asks f)" "by_operations P (acts g)"
  by (auto simp: by_operations_def give_def asks_def acts_def intro: exI[of _ "[]"] split: prod.splits)

lemma by_operations_then:
  assumes "by_operations P m" "\<And>a. by_operations P (f a)"
  shows "by_operations P (and_then m f)"
  unfolding by_operations_def
proof (intro allI impI)
  fix r s res r' s'
  assume run: "and_then m f r s = Some (res, r', s')"
  then obtain x r1 s1 where m: "m r s = Some (x, r1, s1)" by (auto simp: and_then_def split: option.splits)
  obtain ops where ops: "r1 = fold (config_apply P) ops r" using by_operationsD [OF assms(1) m] by blast
  show "\<exists>ops. r' = fold (config_apply P) ops r"
  proof (cases x)
    case (Inl e)
    then show ?thesis using run m ops by (auto simp: and_then_def)
  next
    case (Inr a)
    then have "f a r1 s1 = Some (res, r', s')" using run m by (simp add: and_then_def)
    then obtain ops' where "r' = fold (config_apply P) ops' r1" using by_operationsD [OF assms(2)] by blast
    then show ?thesis using ops by (intro exI[of _ "ops @ ops'"]) simp
  qed
qed

lemma session_is_ensure:
  assumes "session_command w r s = Some (res, r', s')"
  shows "\<exists>answer io. ensure_session (aw_crypto w) (aw_time w s) answer io r = (res, r')"
proof (cases "has_valid_session (aw_time w s) (rt_config r)")
  case True
  then show ?thesis using assms by (simp add: session_command_def ensure_session_def)
next
  case False
  obtain rnd s1 where rnd: "aw_random w s = (rnd, s1)" by fastforce
  obtain answer s2 where answer: "client_register_device (aw_client w)
      (register_request (aw_crypto w) (aw_os w) (aw_version w) rnd None r) s1 = (answer, s2)" by fastforce
  obtain x r1 where reg: "agent_register (aw_crypto w) answer r = (x, r1)" by fastforce
  obtain io s3 where io: "aw_save w (rt_config r1) s2 = (io, s3)" by fastforce
  have run: "and_then (register_command w None) (\<lambda>_. save_command w) r s = Some (res, r', s')"
    using assms False by (simp add: session_command_def)
  have reg_run: "register_command w None r s = Some (x, r1, s2)" by (simp add: register_command_def rnd answer reg)
  have "ensure_session (aw_crypto w) (aw_time w s) answer io r = (res, r')"
  proof (cases x)
    case (Inl e)
    then have "res = Inl e \<and> r1 = r'" using run by (simp add: and_then_def reg_run)
    then show ?thesis using False Inl by (auto simp: ensure_session_def reg)
  next
    case (Inr u)
    then have "save_command w r1 s2 = Some (res, r', s')" using run by (simp add: and_then_def reg_run)
    then show ?thesis using Inr False
      by (cases u) (auto simp: save_command_def io ensure_session_def reg split: prod.splits)
  qed
  then show ?thesis by blast
qed

lemma by_operations_session [simp]: "by_operations (aw_crypto w) (session_command w)"
proof -
  have "\<exists>ops. r' = fold (config_apply (aw_crypto w)) ops r" if run: "session_command w r s = Some (res, r', s')" for r s res r' s'
  proof -
    from session_is_ensure [OF run] obtain answer io where "ensure_session (aw_crypto w) (aw_time w s) answer io r = (res, r')" by blast
    then show ?thesis by (intro exI[of _ "[Co_Ensure (aw_time w s) answer io]"]) simp
  qed
  then show ?thesis by (auto simp: by_operations_def)
qed

lemma by_operations_calls [simp]:
  "by_operations (aw_crypto w) (call_with token_from w f)"
  "by_operations (aw_crypto w) (call_command w f)"
  unfolding call_with_def call_command_def by (intro by_operations_then; simp)+


lemmas command_defs = network_command_def pending_command_def rendezvous_command_def announce_command_def
  start_rendezvous_command_def resolve_command_def

lemma by_operations_one_call [simp]:
  "by_operations (aw_crypto w) (network_command w)"
  "by_operations (aw_crypto w) (pending_command w)"
  "by_operations (aw_crypto w) (rendezvous_command w rendezvous)"
  "by_operations (aw_crypto w) (announce_command w rendezvous candidates)"
  "by_operations (aw_crypto w) (start_rendezvous_command w target service candidates)"
  "by_operations (aw_crypto w) (resolve_command w target service)"
  by (simp_all add: command_defs)

lemma by_operations_lookup [simp]: "by_operations (aw_crypto w) (lookup_key_command w device)"
  unfolding lookup_key_command_def by (intro by_operations_then; simp)

lemma by_operations_beat [simp]: "by_operations (aw_crypto w) (beat_command w)"
  unfolding beat_command_def by (intro by_operations_then; simp)

lemma by_operations_status [simp]: "by_operations (aw_crypto w) (status_command w)"
  unfolding by_operations_def
  by (auto simp: status_command_def split: option.splits sum.splits intro: by_operationsD [OF by_operations_one_call(1)])

text \<open>A call with a session: the session was made sure of, and a failure before the call is its result.\<close>

lemma call_ensured:
  assumes "call_with token_from w f r s = Some (x, r1, s1)"
  obtains answer io y where "ensure_session (aw_crypto w) (aw_time w s) answer io r = (y, r1)"
    "case y of Inl e \<Rightarrow> x = Inl e | Inr _ \<Rightarrow> (case token_from r1 of Inl e \<Rightarrow> x = Inl e | Inr _ \<Rightarrow> True)"
proof -
  from assms obtain y s2 where y: "session_command w r s = Some (y, r1, s2)"
    "case y of Inl e \<Rightarrow> x = Inl e | Inr _ \<Rightarrow> (case token_from r1 of Inl e \<Rightarrow> x = Inl e | Inr _ \<Rightarrow> True)"
    by (auto simp: call_with_def and_then_def asks_def acts_def split: option.splits sum.splits prod.splits)
  from session_is_ensure [OF y(1)] obtain answer io
    where "ensure_session (aw_crypto w) (aw_time w s) answer io r = (y, r1)" by blast
  from this y(2) show ?thesis by (rule that)
qed

lemma save_then_give:
  assumes "and_then (save_command w) (\<lambda>_. give (Inr a)) r s = Some (res, r', s')"
  shows "\<exists>io. (case runtime_save io r of (Inl e, r3) \<Rightarrow> (Inl e, r3) | (Inr (), r3) \<Rightarrow> (Inr a, r3)) = (res, r')"
proof -
  obtain io s2 where "aw_save w (rt_config r) s = (io, s2)" by fastforce
  with assms show ?thesis
    by (intro exI[of _ io]) (auto simp: and_then_def save_command_def give_def runtime_save_def split: sum.splits)
qed

lemma saved_or_failed:
  assumes "case x of Inl e \<Rightarrow> (res, r') = (Inl e, r1)
    | Inr a \<Rightarrow> and_then (save_command w) (\<lambda>_. give (Inr a)) r2 s1 = Some (res, r', s')"
  shows "\<exists>io. (case x of Inl e \<Rightarrow> (Inl e, r1)
    | Inr a \<Rightarrow> (case runtime_save io r2 of (Inl e, r3) \<Rightarrow> (Inl e, r3) | (Inr (), r3) \<Rightarrow> (Inr a, r3))) = (res, r')"
proof (cases x)
  case (Inl e)
  then show ?thesis using assms by simp
next
  case (Inr a)
  then have "and_then (save_command w) (\<lambda>_. give (Inr a)) r2 s1 = Some (res, r', s')" using assms by simp
  from save_then_give [OF this] show ?thesis by (simp only: Inr sum.case)
qed

lemma publish_is_operation:
  assumes "publish_command w sv r s = Some (res, r', s')"
  shows "\<exists>now answer io1 upsert io2. publish_service (aw_crypto w) now answer io1 upsert io2 sv r = (res, r')"
proof (cases "validate_published_service_config sv")
  case (Inl e)
  then show ?thesis using assms by (simp add: publish_command_def publish_service_def and_then_def give_def)
next
  case valid: (Inr u)
  let ?sv = "sv\<lparr>ps_direct_candidate_type := normalize_direct_candidate_type (ps_direct_candidate_type sv)\<rparr>"
  let ?put = "\<lambda>r. r\<lparr>rt_config := (rt_config r)\<lparr>cf_published_services := upsert_by ps_name ?sv (cf_published_services (rt_config r))\<rparr>\<rparr>"
  from assms valid obtain x r1 s1 where call: "call_with session_token_after w (\<lambda>token. client_upsert_service (aw_client w) token
      \<lparr>us_name = ps_name ?sv, us_allowed_device_ids = ps_allowed_device_ids ?sv\<rparr>) r s = Some (x, r1, s1)"
    and rest: "case x of Inl e \<Rightarrow> (res, r') = (Inl e, r1)
      | Inr service \<Rightarrow> and_then (save_command w) (\<lambda>_. give (Inr service)) (?put r1) s1 = Some (res, r', s')"
    by (auto simp: publish_command_def and_then_def give_def Let_def split: option.splits sum.splits)
  from call obtain answer io y where ens: "ensure_session (aw_crypto w) (aw_time w s) answer io r = (y, r1)"
    "case y of Inl e \<Rightarrow> x = Inl e | Inr _ \<Rightarrow> (case session_token_after r1 of Inl e \<Rightarrow> x = Inl e | Inr _ \<Rightarrow> True)"
    by (rule call_ensured)
  have runs: "publish_service (aw_crypto w) (aw_time w s) answer io (\<lambda>_ _. x) io2 sv r = (case x of Inl e \<Rightarrow> (Inl e, r1)
      | Inr a \<Rightarrow> (case runtime_save io2 (?put r1) of (Inl e, r3) \<Rightarrow> (Inl e, r3) | (Inr (), r3) \<Rightarrow> (Inr a, r3)))" for io2
    using ens valid by (cases y; cases x) (auto simp: publish_service_def session_token_after_def Let_def split: option.splits)
  from saved_or_failed [OF rest] obtain io2 where saved: "(case x of Inl e \<Rightarrow> (Inl e, r1)
      | Inr a \<Rightarrow> (case runtime_save io2 (?put r1) of (Inl e, r3) \<Rightarrow> (Inl e, r3) | (Inr (), r3) \<Rightarrow> (Inr a, r3))) = (res, r')" by blast
  have "publish_service (aw_crypto w) (aw_time w s) answer io (\<lambda>_ _. x) io2 sv r = (res, r')" unfolding runs by (rule saved)
  then show ?thesis by blast
qed

lemma unpublish_is_operation:
  assumes "unpublish_command w name r s = Some (res, r', s')"
  shows "\<exists>now answer io1 delete io2. delete_published_service (aw_crypto w) now answer io1 delete io2 name r = (res, r')"
proof (cases "blank name")
  case True
  then show ?thesis using assms by (simp add: unpublish_command_def delete_published_service_def give_def)
next
  case False
  let ?drop = "\<lambda>r. r\<lparr>rt_config := (rt_config r)\<lparr>cf_published_services := filter (\<lambda>s. ps_name s \<noteq> name) (cf_published_services (rt_config r))\<rparr>\<rparr>"
  from assms False obtain x r1 s1 where call: "call_with current_session_token w
      (\<lambda>token. client_delete_service (aw_client w) token \<lparr>ds_name = name\<rparr>) r s = Some (x, r1, s1)"
    and rest: "case x of Inl e \<Rightarrow> (res, r') = (Inl e, r1)
      | Inr deleted \<Rightarrow> and_then (save_command w) (\<lambda>_. give (Inr deleted)) (?drop r1) s1 = Some (res, r', s')"
    by (auto simp: unpublish_command_def call_command_def and_then_def split: option.splits sum.splits)
  from call obtain answer io y where ens: "ensure_session (aw_crypto w) (aw_time w s) answer io r = (y, r1)"
    "case y of Inl e \<Rightarrow> x = Inl e | Inr _ \<Rightarrow> (case current_session_token r1 of Inl e \<Rightarrow> x = Inl e | Inr _ \<Rightarrow> True)"
    by (rule call_ensured)
  have runs: "delete_published_service (aw_crypto w) (aw_time w s) answer io (\<lambda>_ _. x) io2 name r = (case x of Inl e \<Rightarrow> (Inl e, r1)
      | Inr a \<Rightarrow> (case runtime_save io2 (?drop r1) of (Inl e, r3) \<Rightarrow> (Inl e, r3) | (Inr (), r3) \<Rightarrow> (Inr a, r3)))" for io2
    using ens False by (cases y; cases "current_session_token r1"; cases x) (auto simp: delete_published_service_def Let_def)
  from saved_or_failed [OF rest] obtain io2 where saved: "(case x of Inl e \<Rightarrow> (Inl e, r1)
      | Inr a \<Rightarrow> (case runtime_save io2 (?drop r1) of (Inl e, r3) \<Rightarrow> (Inl e, r3) | (Inr (), r3) \<Rightarrow> (Inr a, r3))) = (res, r')" by blast
  have "delete_published_service (aw_crypto w) (aw_time w s) answer io (\<lambda>_ _. x) io2 name r = (res, r')" unfolding runs by (rule saved)
  then show ?thesis by blast
qed

section \<open>Every command\<close>

lemma by_operations_publish [simp]: "by_operations (aw_crypto w) (publish_command w sv)"
  unfolding by_operations_def
proof (intro allI impI)
  fix r s res r' s'
  assume "publish_command w sv r s = Some (res, r', s')"
  from publish_is_operation [OF this] obtain now answer io1 upsert io2
    where "publish_service (aw_crypto w) now answer io1 upsert io2 sv r = (res, r')" by blast
  then have "r' = fold (config_apply (aw_crypto w)) [Co_Publish now answer io1 upsert io2 sv] r" by simp
  then show "\<exists>ops. r' = fold (config_apply (aw_crypto w)) ops r" by blast
qed

lemma by_operations_unpublish [simp]: "by_operations (aw_crypto w) (unpublish_command w name)"
  unfolding by_operations_def
proof (intro allI impI)
  fix r s res r' s'
  assume "unpublish_command w name r s = Some (res, r', s')"
  from unpublish_is_operation [OF this] obtain now answer io1 delete io2
    where "delete_published_service (aw_crypto w) now answer io1 delete io2 name r = (res, r')" by blast
  then have "r' = fold (config_apply (aw_crypto w)) [Co_Unpublish now answer io1 delete io2 name] r" by simp
  then show "\<exists>ops. r' = fold (config_apply (aw_crypto w)) ops r" by blast
qed

lemma by_operations_rule:
  assumes "\<And>io r. \<exists>ops. snd (f io r) = fold (config_apply P) ops r"
  shows "by_operations P (rule_command w f)"
  unfolding by_operations_def
proof (intro allI impI)
  fix r s res r' s'
  assume "rule_command w f r s = Some (res, r', s')"
  then obtain io where "f io r = (res, r')" by (auto simp: rule_command_def split: prod.splits sum.splits)
  with assms [of io r] show "\<exists>ops. r' = fold (config_apply P) ops r" by simp
qed

lemma by_operations_rules [simp]:
  "by_operations (aw_crypto w) (rule_command w (\<lambda>io. upsert_forward_rule io rule))"
  "by_operations (aw_crypto w) (rule_command w (\<lambda>io. delete_forward_rule io name))"
proof -
  have "snd (upsert_forward_rule io rule r) = fold (config_apply (aw_crypto w)) [Co_Upsert io rule] r"
    "snd (delete_forward_rule io name r) = fold (config_apply (aw_crypto w)) [Co_Delete io name] r" for io r by simp_all
  then show "by_operations (aw_crypto w) (rule_command w (\<lambda>io. upsert_forward_rule io rule))"
    "by_operations (aw_crypto w) (rule_command w (\<lambda>io. delete_forward_rule io name))"
    by (blast intro: by_operations_rule)+
qed

lemma by_operations_reading [simp]:
  "by_operations P (\<lambda>r. give (f r) r)" "by_operations P (\<lambda>r. acts (g r) r)"
  by (auto simp: by_operations_def give_def acts_def intro: exI[of _ "[]"] split: prod.splits)

lemma polls_step:
  assumes "wait_ready_polls (Suc n) w rendezvous deadline r s = Some (res, r', s')"
  obtains x r1 s1 where "rendezvous_command w rendezvous r s = Some (x, r1, s1)"
    "case x of Inl e \<Rightarrow> res = Inl e \<and> r' = r1
     | Inr session \<Rightarrow>
         (case poll_outcome rendezvous deadline (aw_clock w s1) session of
            Some res' \<Rightarrow> res = res' \<and> r' = r1
          | None \<Rightarrow> wait_ready_polls n w rendezvous deadline r1 (aw_sleep w (250 * 10 ^ 6) s1) = Some (res, r', s'))"
  using assms by (auto simp: and_then_def split: option.splits sum.splits)

lemma by_operations_polls [simp]: "by_operations (aw_crypto w) (wait_ready_polls n w rendezvous deadline)"
proof -
  have "\<exists>ops. r' = fold (config_apply (aw_crypto w)) ops r"
    if "wait_ready_polls n w rendezvous deadline r s = Some (res, r', s')" for r s res r' s'
    using that
  proof (induction n arbitrary: r s)
    case (Suc n)
    from Suc.prems obtain x r1 s1 where poll: "rendezvous_command w rendezvous r s = Some (x, r1, s1)"
      "r' = r1 \<or> wait_ready_polls n w rendezvous deadline r1 (aw_sleep w (250 * 10 ^ 6) s1) = Some (res, r', s')"
      by (rule polls_step) (auto split: sum.splits option.splits)
    from by_operationsD [OF by_operations_one_call(3) poll(1)] obtain ops where r1: "r1 = fold (config_apply (aw_crypto w)) ops r" by blast
    from poll(2) show ?case
    proof
      assume "wait_ready_polls n w rendezvous deadline r1 (aw_sleep w (250 * 10 ^ 6) s1) = Some (res, r', s')"
      from Suc.IH [OF this] obtain ops' where "r' = fold (config_apply (aw_crypto w)) ops' r1" by blast
      then show ?thesis by (intro exI[of _ "ops @ ops'"]) (simp add: r1)
    qed (use r1 in blast)
  qed simp
  then show ?thesis unfolding by_operations_def by blast
qed

lemma by_operations_wait [simp]: "by_operations (aw_crypto w) (wait_ready_command polls w rendezvous timeout)"
  by (auto simp: by_operations_def wait_ready_command_def intro: by_operationsD [OF by_operations_polls])

lemmas starting_defs = direct_probe_command_def direct_connect_command_def direct_tcp_forward_command_def relay_serve_command_def
  forward_command_def auto_forward_command_def auto_serve_command_def direct_serve_command_def direct_tcp_serve_command_def

lemma by_operations_probe [simp]: "by_operations (aw_crypto w) (direct_probe_command polls w rendezvous bind timeout)"
  unfolding direct_probe_command_def by (intro by_operations_then; simp)

lemma by_operations_starting [simp]:
  "by_operations (aw_crypto w) (direct_connect_command polls w target service bind kind timeout)"
  "by_operations (aw_crypto w) (direct_tcp_forward_command polls w target service tcp udp kind timeout)"
  "by_operations (aw_crypto w) (relay_serve_command w)"
  "by_operations (aw_crypto w) (forward_command w target service bind)"
  "by_operations (aw_crypto w) (auto_forward_command w target service bind udp kind timeout)"
  "by_operations (aw_crypto w) (auto_serve_command w service udp kind timeout)"
  "by_operations (aw_crypto w) (direct_serve_command w service bind kind timeout)"
  "by_operations (aw_crypto w) (direct_tcp_serve_command w service udp kind timeout)"
  unfolding starting_defs by (intro by_operations_then; simp add: by_operations_probe [unfolded direct_probe_command_def])+

lemma by_operations_prints:
  "by_operations P m \<Longrightarrow> by_operations P (prints out m)"
  "by_operations P m' \<Longrightarrow> by_operations P (prints_config m')"
  by (auto simp: prints_def prints_config_def intro: by_operations_then)

lemma by_operations_cli: "\<not> joins cmd \<Longrightarrow> by_operations (aw_crypto w) (cli_run polls w cmd)"
  by (cases cmd) (simp_all add: by_operations_prints)


text \<open>Joining from the command line is joining.\<close>

lemma cli_joins:
  assumes "cli_main polls w h loaded c0 rnd1 rnd2 (Cmd_Init url token name) s = Some (res, agent, s')"
  shows "\<exists>answer io. case agent_init (aw_crypto w) c0 url (cli_device_name h name) rnd1 rnd2 answer io of
      Inl e \<Rightarrow> res = Inl e
    | Inr r' \<Rightarrow> res = Inr (Out_Config (rt_config r')) \<and> agent = Some r'"
proof (cases "cli_join (aw_crypto w) c0 url (cli_device_name h name) rnd1 rnd2")
  case (Inl e)
  then have "agent_init (aw_crypto w) c0 url (cli_device_name h name) rnd1 rnd2 answer io = Inl e" for answer io
    by (auto simp: cli_join_def agent_init_def result_bind_def split: sum.splits)
  then show ?thesis using assms Inl by (simp add: cli_main_def)
next
  case (Inr r)
  obtain rnd s1 where rnd: "aw_random w s = (rnd, s1)" by fastforce
  obtain answer s2 where answer: "client_register_device (aw_client w)
      (register_request (aw_crypto w) (aw_os w) (aw_version w) rnd (Some token) r) s1 = (answer, s2)" by fastforce
  obtain x r1 where reg: "agent_register (aw_crypto w) answer r = (x, r1)" by fastforce
  obtain io s3 where io: "aw_save w (rt_config r1) s2 = (io, s3)" by fastforce
  have init: "agent_init (aw_crypto w) c0 url (cli_device_name h name) rnd1 rnd2 answer io
    = (case x of Inl _ \<Rightarrow> Inl ''failed to join minipunch network''
       | Inr _ \<Rightarrow> (case runtime_save io r1 of (Inl e, _) \<Rightarrow> Inl e | (Inr _, r2) \<Rightarrow> Inr r2))"
    using Inr reg by (auto simp: cli_join_def agent_init_def result_bind_def split: sum.splits)
  have reg_run: "register_command w (Some token) r s = Some (x, r1, s2)" by (simp add: register_command_def rnd answer reg)
  show ?thesis
    using assms Inr
    by (intro exI[of _ answer] exI[of _ io])
      (cases x, auto simp: init cli_main_def prints_config_def and_then_def in_context_def reg_run save_command_def io
        asks_def runtime_save_def split: sum.splits)
qed

section \<open>Coming to an end\<close>

text \<open>Time passes while the agent sleeps, and nothing turns the clock back.\<close>

definition clocked :: "'s agent_world \<Rightarrow> bool" where
  "clocked w \<longleftrightarrow>
     (\<forall>d s. aw_clock w s + d \<le> aw_clock w (aw_sleep w d s))
     \<and> (\<forall>rq s. aw_clock w s \<le> aw_clock w (snd (cc_send (aw_client w) rq s)))
     \<and> (\<forall>s. aw_clock w s \<le> aw_clock w (snd (aw_random w s)))
     \<and> (\<forall>c s. aw_clock w s \<le> aw_clock w (snd (aw_save w c s)))
     \<and> (\<forall>i call s. aw_clock w s \<le> aw_clock w (snd (aw_probe w i call s)))"

text \<open>A command that ends, with the clock not turned back.\<close>

definition ends :: "'s agent_world \<Rightarrow> ('s, 'a) command \<Rightarrow> bool" where
  "ends w m \<longleftrightarrow> (\<forall>r s. \<exists>res r' s'. m r s = Some (res, r', s') \<and> aw_clock w s \<le> aw_clock w s')"

lemma ends_still [simp]:
  "ends w (give a)" "ends w (asks f)" "ends w (\<lambda>r. give (g r) r)"
  by (auto simp: ends_def give_def asks_def)

lemma ends_acts: "(\<And>s. aw_clock w s \<le> aw_clock w (snd (f s))) \<Longrightarrow> ends w (acts f)"
  unfolding ends_def acts_def by (metis (mono_tags, lifting) case_prod_unfold prod.collapse)

lemma ends_then:
  assumes "ends w m" "\<And>a. ends w (f a)"
  shows "ends w (and_then m f)"
  unfolding ends_def
proof (intro allI)
  fix r s
  obtain x r1 s1 where m: "m r s = Some (x, r1, s1)" "aw_clock w s \<le> aw_clock w s1"
    using assms(1) unfolding ends_def by blast
  show "\<exists>res r' s'. and_then m f r s = Some (res, r', s') \<and> aw_clock w s \<le> aw_clock w s'"
  proof (cases x)
    case (Inl e)
    then show ?thesis using m by (simp add: and_then_def)
  next
    case (Inr a)
    obtain res r' s' where "f a r1 s1 = Some (res, r', s')" "aw_clock w s1 \<le> aw_clock w s'"
      using assms(2) unfolding ends_def by blast
    then show ?thesis using m Inr by (simp add: and_then_def)
  qed
qed

lemma clocked_call: "clocked w \<Longrightarrow> aw_clock w s \<le> aw_clock w (snd (control_call (aw_client w) what decode rq s))"
  unfolding clocked_def control_call_def by (cases "cc_send (aw_client w) rq s") (metis (no_types, lifting) case_prod_conv snd_conv sum.case_eq_if)

lemma ends_save: "clocked w \<Longrightarrow> ends w (save_command w)"
  unfolding ends_def save_command_def clocked_def by (metis (no_types, lifting) case_prod_unfold prod.collapse)

lemma clocked_client:
  assumes "clocked w"
  shows "aw_clock w s \<le> aw_clock w (snd (client_register_device (aw_client w) rq1 s))"
    "aw_clock w s \<le> aw_clock w (snd (client_heartbeat (aw_client w) token s))"
    "aw_clock w s \<le> aw_clock w (snd (client_upsert_service (aw_client w) token rq2 s))"
    "aw_clock w s \<le> aw_clock w (snd (client_delete_service (aw_client w) token rq3 s))"
    "aw_clock w s \<le> aw_clock w (snd (client_network_snapshot (aw_client w) token s))"
    "aw_clock w s \<le> aw_clock w (snd (client_start_direct_rendezvous (aw_client w) token rq4 s))"
    "aw_clock w s \<le> aw_clock w (snd (client_pending_direct_rendezvous (aw_client w) token s))"
    "aw_clock w s \<le> aw_clock w (snd (client_direct_rendezvous (aw_client w) token rendezvous s))"
    "aw_clock w s \<le> aw_clock w (snd (client_update_candidates (aw_client w) token rendezvous rq5 s))"
  unfolding client_register_device_def client_heartbeat_def client_upsert_service_def client_delete_service_def
    client_network_snapshot_def client_start_direct_rendezvous_def client_pending_direct_rendezvous_def
    client_direct_rendezvous_def client_update_candidates_def
  using assms by (rule clocked_call)+

lemma ends_register: "clocked w \<Longrightarrow> ends w (register_command w token)"
  unfolding ends_def
proof (intro allI)
  fix r s
  assume w: "clocked w"
  obtain rnd s1 where rnd: "aw_random w s = (rnd, s1)" by fastforce
  obtain answer s2 where answer: "client_register_device (aw_client w)
      (register_request (aw_crypto w) (aw_os w) (aw_version w) rnd token r) s1 = (answer, s2)" by fastforce
  have "aw_clock w s \<le> aw_clock w s1" using w rnd unfolding clocked_def by (metis snd_conv)
  moreover have "aw_clock w s1 \<le> aw_clock w s2" using clocked_client(1) [OF w] answer by (metis snd_conv)
  ultimately show "\<exists>res r' s'. register_command w token r s = Some (res, r', s') \<and> aw_clock w s \<le> aw_clock w s'"
    by (cases "agent_register (aw_crypto w) answer r") (simp add: register_command_def rnd answer)
qed

lemma ends_session: "clocked w \<Longrightarrow> ends w (session_command w)"
proof -
  assume "clocked w"
  then have "ends w (and_then (register_command w None) (\<lambda>_. save_command w))"
    by (intro ends_then ends_register ends_save)
  then show ?thesis unfolding ends_def session_command_def by auto
qed

lemma ends_call: "clocked w \<Longrightarrow> (\<And>token s. aw_clock w s \<le> aw_clock w (snd (f token s))) \<Longrightarrow> ends w (call_with token_from w f)"
  unfolding call_with_def by (intro ends_then ends_session ends_acts ends_still)

lemma ends_one_call:
  assumes "clocked w"
  shows "ends w (network_command w)" "ends w (pending_command w)" "ends w (rendezvous_command w rendezvous)"
    "ends w (announce_command w rendezvous candidates)" "ends w (start_rendezvous_command w target service candidates)"
    "ends w (resolve_command w target service)"
  unfolding command_defs call_command_def
  by (intro ends_call assms; simp add: clocked_client assms split: prod.split; metis clocked_client(5) assms snd_conv)+

lemma ends_lookup: "clocked w \<Longrightarrow> ends w (lookup_key_command w device)"
  unfolding lookup_key_command_def by (intro ends_then ends_one_call ends_still)

lemma ends_beat: "clocked w \<Longrightarrow> ends w (beat_command w)"
  unfolding beat_command_def by (intro ends_then ends_call ends_still clocked_client)

lemma ends_status: "clocked w \<Longrightarrow> ends w (status_command w)"
  unfolding ends_def
proof (intro allI)
  fix r s
  assume "clocked w"
  from ends_one_call(1) [OF this] obtain x r1 s1 where "network_command w r s = Some (x, r1, s1)" "aw_clock w s \<le> aw_clock w s1"
    unfolding ends_def by blast
  then show "\<exists>res r' s'. status_command w r s = Some (res, r', s') \<and> aw_clock w s \<le> aw_clock w s'"
    by (cases x) (simp_all add: status_command_def)
qed

lemma ends_acting: "(\<And>r s. aw_clock w s \<le> aw_clock w (snd (f r s))) \<Longrightarrow> ends w (\<lambda>r. acts (f r) r)"
  unfolding ends_def
proof (intro allI)
  fix r s
  assume step: "\<And>r s. aw_clock w s \<le> aw_clock w (snd (f r s))"
  have "ends w (acts (f r))" by (rule ends_acts) (rule step)
  then show "\<exists>res r' s'. acts (f r) r s = Some (res, r', s') \<and> aw_clock w s \<le> aw_clock w s'"
    unfolding ends_def by blast
qed

text \<open>Each poll but the last is a quarter of a second later than the one before it.\<close>

lemma polls_end:
  assumes "clocked w"
  shows "deadline \<le> aw_clock w s + n * (250 * 10 ^ 6) \<Longrightarrow>
    \<exists>res r' s'. wait_ready_polls (Suc n) w rendezvous deadline r s = Some (res, r', s') \<and> aw_clock w s \<le> aw_clock w s'"
proof (induction n arbitrary: r s)
  case 0
  obtain x r1 s1 where poll: "rendezvous_command w rendezvous r s = Some (x, r1, s1)" "aw_clock w s \<le> aw_clock w s1"
    using ends_one_call(3) [OF assms] unfolding ends_def by blast
  then have "poll_outcome rendezvous deadline (aw_clock w s1) session \<noteq> None" for session
    using 0 by (simp add: poll_outcome_def)
  then show ?case using poll by (cases x) (auto simp: and_then_def split: option.split)
next
  case (Suc n)
  obtain x r1 s1 where poll: "rendezvous_command w rendezvous r s = Some (x, r1, s1)" "aw_clock w s \<le> aw_clock w s1"
    using ends_one_call(3) [OF assms] unfolding ends_def by blast
  let ?s2 = "aw_sleep w (250 * 10 ^ 6) s1"
  have slept: "aw_clock w s1 + 250 * 10 ^ 6 \<le> aw_clock w ?s2" using assms unfolding clocked_def by blast
  then have "deadline \<le> aw_clock w ?s2 + n * (250 * 10 ^ 6)" using Suc.prems poll(2) by simp
  from Suc.IH [OF this, of r1] obtain res r' s'
    where rest: "wait_ready_polls (Suc n) w rendezvous deadline r1 ?s2 = Some (res, r', s')" "aw_clock w ?s2 \<le> aw_clock w s'" by blast
  show ?case
  proof (cases x)
    case (Inl e)
    then show ?thesis using poll by (simp add: and_then_def)
  next
    case (Inr session)
    have run: "wait_ready_polls (Suc (Suc n)) w rendezvous deadline r s
      = (case poll_outcome rendezvous deadline (aw_clock w s1) session of
           Some res \<Rightarrow> Some (res, r1, s1) | None \<Rightarrow> wait_ready_polls (Suc n) w rendezvous deadline r1 ?s2)"
      by (subst wait_ready_polls.simps) (simp only: and_then_def poll Inr option.case sum.case prod.case)
    show ?thesis
      unfolding run using rest slept poll(2) by (cases "poll_outcome rendezvous deadline (aw_clock w s1) session") auto
  qed
qed

lemma ends_wait:
  assumes "clocked w" "4 * timeout < polls"
  shows "ends w (wait_ready_command polls w rendezvous (seconds timeout))"
  unfolding ends_def wait_ready_command_def
proof (intro allI)
  fix r s
  obtain n where n: "polls = Suc n" using assms(2) by (cases polls) simp_all
  have "aw_clock w s + seconds timeout \<le> aw_clock w s + n * (250 * 10 ^ 6)"
    using assms(2) by (simp add: n seconds_def)
  from polls_end [OF assms(1) this] show "\<exists>res r' s'. wait_ready_polls polls w rendezvous (aw_clock w s + seconds timeout) r s
      = Some (res, r', s') \<and> aw_clock w s \<le> aw_clock w s'"
    by (simp only: n)
qed

text \<open>Continuing with the agent as it is then, or changed.\<close>

lemma ends_with: "ends w m \<Longrightarrow> ends w (\<lambda>r. m (g r))"
  unfolding ends_def by blast

lemma ends_publish:
  assumes "clocked w"
  shows "ends w (publish_command w sv)" "ends w (unpublish_command w name)"
proof -
  have saved: "ends w (\<lambda>r. and_then (save_command w) (\<lambda>_. give (Inr a)) (g r))" for a :: service_definition and g
  proof -
    have "ends w (and_then (save_command w) (\<lambda>_. give (Inr a)))" by (intro ends_then ends_save ends_still assms)
    then show ?thesis by (rule ends_with)
  qed
  have calls: "ends w (call_with token_from w (\<lambda>token. client_upsert_service (aw_client w) token rq))"
    "ends w (call_with token_from w (\<lambda>token. client_delete_service (aw_client w) token rq'))" for token_from rq rq'
    by (intro ends_call assms clocked_client)+
  show "ends w (publish_command w sv)"
    unfolding publish_command_def Let_def by (intro ends_then ends_still calls saved)
  show "ends w (unpublish_command w name)"
    unfolding unpublish_command_def call_command_def
    by (cases "blank name"; simp only: if_True if_False; intro ends_then ends_still calls saved)
qed

lemma ends_rule: "clocked w \<Longrightarrow> ends w (rule_command w f)"
  unfolding ends_def
proof (intro allI)
  fix r s
  assume w: "clocked w"
  obtain x r1 where x: "f (Inr ()) r = (x, r1)" by fastforce
  obtain io s1 where io: "aw_save w (rt_config r1) s = (io, s1)" by fastforce
  have "aw_clock w s \<le> aw_clock w s1" using w io unfolding clocked_def by (metis snd_conv)
  then show "\<exists>res r' s'. rule_command w f r s = Some (res, r', s') \<and> aw_clock w s \<le> aw_clock w s'"
    by (cases x; cases "f io r") (simp_all add: rule_command_def x io)
qed

lemma ends_probe:
  assumes "clocked w" "4 * wait < polls"
  shows "ends w (direct_probe_command polls w rendezvous bind (seconds wait))"
proof -
  have "aw_clock w s \<le> aw_clock w (snd (aw_probe w i call s))" for i call s
    using assms(1) unfolding clocked_def by blast
  then show ?thesis
    unfolding direct_probe_command_def
    by (intro ends_then ends_session ends_wait ends_lookup ends_still ends_acting assms)
qed

lemma ends_starting:
  assumes "clocked w" "4 * wait < polls"
  shows "ends w (direct_connect_command polls w target service bind kind (seconds wait))"
    "ends w (direct_tcp_forward_command polls w target service tcp udp kind (seconds wait))"
  unfolding direct_connect_command_def direct_tcp_forward_command_def
  by (intro ends_then ends_one_call ends_probe ends_wait ends_lookup ends_still assms)+

lemma ends_serving:
  assumes "clocked w"
  shows "ends w (relay_serve_command w)" "ends w (forward_command w target service bind)"
    "ends w (auto_forward_command w target service bind udp kind timeout)" "ends w (auto_serve_command w service udp kind timeout)"
    "ends w (direct_serve_command w service bind kind timeout)" "ends w (direct_tcp_serve_command w service udp kind timeout)"
  unfolding starting_defs by (intro ends_then ends_session ends_one_call ends_still assms)+

lemma ends_prints:
  "ends w m \<Longrightarrow> ends w (prints out m)" "ends w m' \<Longrightarrow> ends w (prints_config m')" "ends w m \<Longrightarrow> ends w (in_context what m)"
proof -
  show "ends w m \<Longrightarrow> ends w (prints out m)" unfolding prints_def by (intro ends_then ends_still)
  show "ends w m' \<Longrightarrow> ends w (prints_config m')" unfolding prints_config_def by (intro ends_then ends_still)
  show "ends w m \<Longrightarrow> ends w (in_context what m)" unfolding ends_def in_context_def by fastforce
qed

lemma ends_cli:
  assumes "clocked w" "4 * cli_wait cmd < polls"
  shows "ends w (cli_run polls w cmd)"
  using assms
  by (cases cmd) (simp_all add: ends_prints ends_then ends_register ends_save ends_beat ends_publish ends_rule
      ends_one_call ends_status ends_probe ends_starting ends_serving)


section \<open>Witnesses\<close>

text \<open>A world that is its clock; the server answers every call with a rendezvous that is not ready.\<close>

definition idle_participant :: direct_rendezvous_participant where
  "idle_participant = \<lparr>rp_device_id = ''d'', rp_announced_at = None, rp_candidates = []\<rparr>"

definition idle_session :: direct_rendezvous_session where
  "idle_session = \<lparr>rs_rendezvous_id = ''r'', rs_service_id = ''s'', rs_service_name = ''web'', rs_source_device_id = ''d'',
     rs_target_device_id = ''e'', rs_status = ''pending'', rs_created_at = 0, rs_updated_at = 0, rs_expires_at = 60, rs_source = idle_participant,
     rs_target = idle_participant\<rparr>"

definition idle_world :: "nat agent_world" where
  "idle_world = \<lparr>aw_client = \<lparr>cc_base_url = [], cc_status_text = show_nat,
       cc_send = (\<lambda>_ s. (Inr \<lparr>ht_status = 200, ht_body = Json_Of (Res_Rendezvous idle_session)\<rparr>, s))\<rparr>,
     aw_crypto = toy_prims, aw_os = [], aw_version = [], aw_time = (\<lambda>_. 0), aw_clock = (\<lambda>s. s), aw_sleep = (\<lambda>d s. s + d),
     aw_random = (\<lambda>s. ([], s)), aw_save = (\<lambda>_ s. (Inr (), s)), aw_probe = (\<lambda>_ _ s. (Inl [], s))\<rparr>"

lemma idle_clocked: "clocked idle_world" by (simp add: clocked_def idle_world_def)


definition demo_forward :: forward_options where
  "demo_forward = \<lparr>fo_name = fr_name demo_rule, fo_target_device = fr_target_device_id demo_rule, fo_service = fr_service_name demo_rule,
     fo_local_bind = fr_local_bind_addr demo_rule, fo_enabled = fr_enabled demo_rule, fo_transport = fr_transport_mode demo_rule,
     fo_udp_bind = fr_direct_udp_bind_addr demo_rule, fo_candidate_type = fr_direct_candidate_type demo_rule,
     fo_direct_wait_seconds = fr_direct_wait_seconds demo_rule\<rparr>"


end
