(* ===== verification/Startup.thy ===== *)
theory Startup
  imports AgentCommands RelayTasks Routes
begin

text \<open>
  Where the programs start: the configuration file of the agent (\<open>minipunch-agent/src/config.rs\<close>), the
  outer loops of the relay commands (\<open>minipunch-agent/src/relay.rs\<close>), and the server's program
  (\<open>minipunch-server\<close>). Reading and writing files, binding and serving give results; TOML is a pair of
  functions.
\<close>

section \<open>The configuration file\<close>

definition published_service_default :: published_service_config where
  "published_service_default = \<lparr>ps_name = [], ps_target_host = [], ps_target_port = 0, ps_allowed_device_ids = [],
     ps_direct_enabled = False, ps_direct_udp_bind_addr = [], ps_direct_candidate_type = default_direct_candidate_type,
     ps_direct_wait_seconds = default_direct_wait_seconds\<rparr>"

definition local_forward_default :: local_forward_config where
  "local_forward_default = \<lparr>fr_name = [], fr_target_device_id = [], fr_service_name = [], fr_local_bind_addr = ''127.0.0.1:10022'',
     fr_enabled = True, fr_transport_mode = default_forward_transport, fr_direct_udp_bind_addr = [],
     fr_direct_candidate_type = default_direct_candidate_type, fr_direct_wait_seconds = default_direct_wait_seconds\<rparr>"

text \<open>What is at the path: nothing, something that cannot be read, or a text.\<close>

datatype file_state = No_File | Unreadable | Contents string

definition config_load :: "(string \<Rightarrow> agent_config option) \<Rightarrow> string \<Rightarrow> file_state \<Rightarrow> agent_config result" where
  "config_load parse path found =
     (case found of
        Contents raw \<Rightarrow> (case parse raw of None \<Rightarrow> Inl (''failed to parse config '' @ path) | Some c \<Rightarrow> Inr c)
      | _ \<Rightarrow> Inl (''failed to read config '' @ path))"

definition config_load_or_default :: "(string \<Rightarrow> agent_config option) \<Rightarrow> string \<Rightarrow> file_state \<Rightarrow> agent_config result" where
  "config_load_or_default parse path found = (if found = No_File then Inr agent_config_default else config_load parse path found)"

text \<open>The directory, the text and the file; the text is made before anything is written.\<close>

definition config_save ::
  "(agent_config \<Rightarrow> string option) \<Rightarrow> string \<Rightarrow> string \<Rightarrow> unit result \<Rightarrow> unit result \<Rightarrow> agent_config \<Rightarrow> file_state \<Rightarrow> unit result \<times> file_state" where
  "config_save encode parent path made written c found =
     (case made of
        Inl _ \<Rightarrow> (Inl (''failed to create config directory '' @ parent), found)
      | Inr _ \<Rightarrow>
          (case encode c of
             None \<Rightarrow> (Inl ''failed to encode config'', found)
           | Some raw \<Rightarrow>
               (case written of
                  Inl _ \<Rightarrow> (Inl (''failed to write config '' @ path), found)
                | Inr _ \<Rightarrow> (Inr (), Contents raw))))"

definition config_default_path :: "string option \<Rightarrow> string list result" where
  "config_default_path config_dir =
     (case config_dir of None \<Rightarrow> Inl ''unable to determine config directory'' | Some d \<Rightarrow> Inr [d, ''minipunch'', ''agent.toml''])"

text \<open>TOML prints every configuration, and parses what it has printed.\<close>

definition toml_law :: "(string \<Rightarrow> agent_config option) \<Rightarrow> (agent_config \<Rightarrow> string option) \<Rightarrow> bool" where
  "toml_law parse encode \<longleftrightarrow> (\<forall>c. \<exists>raw. encode c = Some raw \<and> parse raw = Some c)"

lemma saved_config_loads:
  assumes "toml_law parse encode" "config_save encode parent path made written c found = (Inr (), found')"
  shows "config_load parse path found' = Inr c" "config_load_or_default parse path found' = Inr c"
proof -
  obtain raw where "encode c = Some raw" "parse raw = Some c" using assms(1) unfolding toml_law_def by blast
  with assms(2) show "config_load parse path found' = Inr c" "config_load_or_default parse path found' = Inr c"
    by (auto simp: config_save_def config_load_def config_load_or_default_def split: sum.splits)
qed

text \<open>A text that does not parse is never taken for an empty configuration.\<close>

lemma unparsed_config_kept: "parse raw = None \<Longrightarrow> config_load_or_default parse path (Contents raw) = Inl (''failed to parse config '' @ path)"
  by (simp add: config_load_or_default_def config_load_def)

section \<open>The relay commands\<close>

text \<open>
  Once connected, every channel that comes in is handled by a task of its own; the loop ends well when no
  more can come in, that is when the connection is lost.
\<close>

definition run_relay_service_loop ::
  "relay_conn result \<Rightarrow> relay_incoming_channel list \<Rightarrow> relay_incoming_channel list \<times> unit result" where
  "run_relay_service_loop conn channels =
     (case conn of Inl e \<Rightarrow> ([], Inl e) | Inr _ \<Rightarrow> (channels, Inr ()))"

text \<open>The commands end with their loop or with the interrupt (None); the heartbeats end with them.\<close>

definition run_relay_service ::
  "relay_conn result \<Rightarrow> relay_incoming_channel list option \<Rightarrow> unit result" where
  "run_relay_service conn channels =
     until_interrupt (map_option (\<lambda>cs. snd (run_relay_service_loop conn cs)) channels)"

definition run_local_forwarder ::
  "string \<Rightarrow> relay_conn result \<Rightarrow> unit result \<Rightarrow> forwarder_event list \<Rightarrow> nat \<Rightarrow> unit result" where
  "run_local_forwarder bind conn listener evs live =
     until_interrupt (snd (fst (run_local_forwarder_loop_with_control bind conn listener evs live)))"

section \<open>The server\<close>

record server_config =
  sg_listen_addr :: string
  sg_database_path :: string

definition server_config_default :: server_config where
  "server_config_default = \<lparr>sg_listen_addr = ''127.0.0.1:9443'', sg_database_path = ''minipunch.db''\<rparr>"

definition server_cli :: "string option \<Rightarrow> string option \<Rightarrow> server_config" where
  "server_cli listen_addr database =
     \<lparr>sg_listen_addr = case_option ''127.0.0.1:9443'' id listen_addr, sg_database_path = case_option ''minipunch.db'' id database\<rparr>"

text \<open>The database is opened first; then the address is read and bound, and the server runs until it fails.\<close>

definition server_run ::
  "server_config \<Rightarrow> 'db result \<Rightarrow> (string \<Rightarrow> 'addr option) \<Rightarrow> ('addr \<Rightarrow> unit result) \<Rightarrow> ('db \<Rightarrow> unit result) \<Rightarrow> unit result" where
  "server_run c opened parse bind served =
     (case opened of
        Inl _ \<Rightarrow> Inl (''failed to open '' @ sg_database_path c)
      | Inr db \<Rightarrow>
          (case parse (sg_listen_addr c) of
             None \<Rightarrow> Inl (''invalid listen address '' @ sg_listen_addr c)
           | Some addr \<Rightarrow>
               (case bind addr of
                  Inl _ \<Rightarrow> Inl (''failed to bind '' @ sg_listen_addr c)
                | Inr _ \<Rightarrow> (case served db of Inl _ \<Rightarrow> Inl ''server exited unexpectedly'' | Inr _ \<Rightarrow> Inr ()))))"

end
